(* ===== verification/Amp_Prelude.thy ===== *)
theory Amp_Prelude
  imports Main "HOL-Library.Word"
begin

text \<open>
  Shared vocabulary of the development: machine integers and byte strings, the outcome of a
  C program run (a value, a fault where C has undefined behaviour, or a wait that is still
  going on), programs as state transformers over (globals, outside world), loops with fuel,
  and byte buffers with checked accesses.
\<close>

named_theorems prog_defs "the definitions of the program combinators"
named_theorems fuel_mono "more fuel only defines a run further"
named_theorems codec "lengths and round trips of the byte encodings"

section \<open>Machine integers and byte strings\<close>

type_synonym byte = "8 word"
type_synonym u32 = "32 word"
type_synonym u64 = "64 word"
type_synonym bytes = "byte list"

text \<open>Little-endian encodings, as the targets (AArch64, Cortex-R5, x86-64) lay integers out.\<close>

fun le_bytes :: "nat \<Rightarrow> nat \<Rightarrow> bytes" where
  "le_bytes 0 v = []"
| "le_bytes (Suc n) v = word_of_nat (v mod 256) # le_bytes n (v div 256)"

fun le_nat :: "bytes \<Rightarrow> nat" where
  "le_nat [] = 0"
| "le_nat (b # bs) = unat b + 256 * le_nat bs"

lemma length_le_bytes [simp, codec]: "length (le_bytes n v) = n"
  by (induction n arbitrary: v) auto

lemma unat_byte_less: "unat (b :: byte) < 256"
  using unsigned_less [of b, where ?'a = nat] by simp

lemma unat_byte_of_nat [simp]: "unat (word_of_nat (v mod 256) :: byte) = v mod 256"
  by (simp add: unat_of_nat)

lemma le_nat_le_bytes [codec]: "le_nat (le_bytes n v) = v mod 256 ^ n"
proof (induction n arbitrary: v)
  case 0
  then show ?case by simp
next
  case (Suc n)
  have "le_nat (le_bytes (Suc n) v) = v mod 256 + 256 * ((v div 256) mod 256 ^ n)"
    by (simp add: Suc.IH)
  also have "\<dots> = v mod 256 ^ Suc n"
    by (simp add: mod_mult2_eq)
  finally show ?case .
qed

lemma le_nat_bound: "le_nat bs < 256 ^ length bs"
proof (induction bs)
  case Nil
  then show ?case by simp
next
  case (Cons b bs)
  have "unat b < 256" by (rule unat_byte_less)
  with Cons show ?case by simp
qed

lemma le_bytes_le_nat [codec]: "le_bytes (length bs) (le_nat bs) = bs"
proof (induction bs)
  case Nil
  then show ?case by simp
next
  case (Cons b bs)
  have b: "unat b < 256" by (rule unat_byte_less)
  then have "word_of_nat ((unat b + 256 * le_nat bs) mod 256) = b" by simp
  moreover have "(unat b + 256 * le_nat bs) div 256 = le_nat bs" using b by simp
  ultimately show ?case by (simp add: Cons.IH)
qed

definition le32 :: "u32 \<Rightarrow> bytes" where
  "le32 v = le_bytes 4 (unat v)"

definition le64 :: "u64 \<Rightarrow> bytes" where
  "le64 v = le_bytes 8 (unat v)"

definition get32 :: "nat \<Rightarrow> bytes \<Rightarrow> u32" where
  "get32 off bs = word_of_nat (le_nat (take 4 (drop off bs)))"

definition get64 :: "nat \<Rightarrow> bytes \<Rightarrow> u64" where
  "get64 off bs = word_of_nat (le_nat (take 8 (drop off bs)))"

lemma length_le32 [simp, codec]: "length (le32 v) = 4"
  by (simp add: le32_def)

lemma length_le64 [simp, codec]: "length (le64 v) = 8"
  by (simp add: le64_def)

lemma le_nat_le32 [simp]: "le_nat (le32 v) = unat v"
  using unsigned_less [of v, where ?'a = nat] by (simp add: le32_def le_nat_le_bytes)

lemma le_nat_le64 [simp]: "le_nat (le64 v) = unat v"
  using unsigned_less [of v, where ?'a = nat] by (simp add: le64_def le_nat_le_bytes)

lemma get32_append [codec]: "length p = off \<Longrightarrow> get32 off (p @ le32 v @ q) = v"
  by (simp add: get32_def)

lemma get32_hd [codec]: "get32 0 (le32 v @ q) = v"
  by (simp add: get32_def)

lemma get64_append [codec]: "length p = off \<Longrightarrow> get64 off (p @ le64 v @ q) = v"
  by (simp add: get64_def)

lemma get64_hd [codec]: "get64 0 (le64 v @ q) = v"
  by (simp add: get64_def)

lemma get32_prefix: "off + 4 \<le> length p \<Longrightarrow> get32 off (p @ q) = get32 off p"
  by (simp add: get32_def)

lemma le_nat_zeros: "le_nat (replicate n 0) = 0"
  by (induction n) auto

lemma get32_zeros [simp]: "get32 off (replicate n 0) = 0"
  by (simp add: get32_def le_nat_zeros)

text \<open>An array of 32-bit words.\<close>

lemma length_le32s [simp, codec]: "length (concat (map le32 xs)) = 4 * length xs"
  by (induction xs) auto

lemma get32_array [codec]:
  "length p = off \<Longrightarrow> k < length xs \<Longrightarrow> get32 (off + 4 * k) (p @ concat (map le32 xs) @ q) = xs ! k"
proof (induction xs arbitrary: p k off)
  case Nil
  then show ?case by simp
next
  case (Cons x xs)
  show ?case
  proof (cases k)
    case 0
    with Cons.prems show ?thesis by (simp add: get32_append)
  next
    case (Suc l)
    with Cons.prems Cons.IH [of "p @ le32 x" "off + 4" l] show ?thesis by (simp add: add.assoc)
  qed
qed

lemma le_nat_take: "le_nat (take n bs) = le_nat bs mod 256 ^ n"
proof (induction n arbitrary: bs)
  case 0
  then show ?case by simp
next
  case (Suc n)
  show ?case
  proof (cases bs)
    case Nil
    then show ?thesis by simp
  next
    case (Cons b bs')
    have b: "unat b < 256" by (rule unat_byte_less)
    have "(unat b + 256 * le_nat bs') mod (256 * 256 ^ n)
        = unat b + 256 * (le_nat bs' mod 256 ^ n)"
      using b by (simp add: mod_mult2_eq)
    then show ?thesis by (simp add: Cons Suc.IH)
  qed
qed

text \<open>The first 32 bits of a 64-bit little-endian field are its low half.\<close>

lemma get32_le64 [codec]: "get32 0 (le64 v @ q) = ucast v"
proof -
  have "take 4 (le64 v @ q) = take 4 (le64 v)" by simp
  then have "le_nat (take 4 (le64 v @ q)) = unat v mod 256 ^ 4"
    by (simp only: le_nat_take le_nat_le64)
  then have "get32 0 (le64 v @ q) = word_of_nat (unat v mod 2 ^ 32)"
    by (simp add: get32_def)
  also have "\<dots> = ucast v"
    by (rule unsigned_word_eqI [where ?'a = nat]) (simp add: unat_of_nat unsigned_ucast_eq take_bit_eq_mod)
  finally show ?thesis .
qed

section \<open>Outcomes of a run\<close>

text \<open>
  \<open>Done\<close> carries the result of a run that returned.  \<open>Fault\<close> stands where the C code has
  undefined behaviour (an access outside an object, a null or dangling pointer, an
  indeterminate value, a signed overflow).  \<open>Blocked\<close> is a loop whose fuel is used up: the run has not returned yet.
\<close>

datatype fault = Out_of_bounds | Null_deref | Uninit_read | Use_after_free | Assert_failed | Signed_overflow

datatype 'a outcome = Done 'a | Fault fault | Blocked

text \<open>The definedness order: a blocked run may still become anything, other runs are final.\<close>

instantiation outcome :: (type) order_bot
begin

definition bot_outcome :: "'a outcome" where
  "bot_outcome = Blocked"

definition less_eq_outcome :: "'a outcome \<Rightarrow> 'a outcome \<Rightarrow> bool" where
  "less_eq_outcome x y \<longleftrightarrow> x = Blocked \<or> x = y"

definition less_outcome :: "'a outcome \<Rightarrow> 'a outcome \<Rightarrow> bool" where
  "less_outcome x y \<longleftrightarrow> x = Blocked \<and> y \<noteq> Blocked"

instance
  by standard (auto simp: bot_outcome_def less_eq_outcome_def less_outcome_def)

end

lemma Blocked_le [simp]: "Blocked \<le> x"
  by (simp add: less_eq_outcome_def)

lemma Done_le_iff [simp]: "Done a \<le> x \<longleftrightarrow> x = Done a"
  by (auto simp: less_eq_outcome_def)

lemma Fault_le_iff [simp]: "Fault f \<le> x \<longleftrightarrow> x = Fault f"
  by (auto simp: less_eq_outcome_def)

fun obind :: "('a \<Rightarrow> 'b outcome) \<Rightarrow> 'a outcome \<Rightarrow> 'b outcome" where
  "obind f (Done a) = f a"
| "obind f (Fault x) = Fault x"
| "obind f Blocked = Blocked"

section \<open>Programs\<close>

text \<open>
  A program runs on a pair of its own globals and the outside world.  The world is a type
  parameter: what the OpenAMP and libmetal libraries, the operating system and the peer do is
  given by functions on it that the definitions take as an argument.
\<close>

type_synonym ('s, 'a) prog = "'s \<Rightarrow> ('a \<times> 's) outcome"

definition ret :: "'a \<Rightarrow> ('s, 'a) prog" where
  [prog_defs]: "ret a = (\<lambda>s. Done (a, s))"

definition bnd :: "('s, 'a) prog \<Rightarrow> ('a \<Rightarrow> ('s, 'b) prog) \<Rightarrow> ('s, 'b) prog" where
  [prog_defs]: "bnd m f = (\<lambda>s. obind (\<lambda>(a, t). f a t) (m s))"

definition seq :: "('s, 'a) prog \<Rightarrow> ('s, 'b) prog \<Rightarrow> ('s, 'b) prog" where
  [prog_defs]: "seq m k = bnd m (\<lambda>_. k)"

definition fail :: "fault \<Rightarrow> ('s, 'a) prog" where
  [prog_defs]: "fail f = (\<lambda>s. Fault f)"

text \<open>Reading and writing the globals, and calling out to the world.\<close>

definition getg :: "('g \<Rightarrow> 'a) \<Rightarrow> ('g \<times> 'w, 'a) prog" where
  [prog_defs]: "getg f = (\<lambda>(g, w). Done (f g, (g, w)))"

definition updg :: "('g \<Rightarrow> 'g) \<Rightarrow> ('g \<times> 'w, unit) prog" where
  [prog_defs]: "updg f = (\<lambda>(g, w). Done ((), (f g, w)))"

definition ext :: "('w \<Rightarrow> 'a \<times> 'w) \<Rightarrow> ('g \<times> 'w, 'a) prog" where
  [prog_defs]: "ext f = (\<lambda>(g, w). case f w of (a, w') \<Rightarrow> Done (a, (g, w')))"

definition extU :: "('w \<Rightarrow> 'w) \<Rightarrow> ('g \<times> 'w, unit) prog" where
  [prog_defs]: "extU f = (\<lambda>(g, w). Done ((), (g, f w)))"

definition asks :: "('w \<Rightarrow> 'a) \<Rightarrow> ('g \<times> 'w, 'a) prog" where
  [prog_defs]: "asks f = (\<lambda>(g, w). Done (f w, (g, w)))"

text \<open>A program over the world alone, called from one that has globals of its own.\<close>

definition callw :: "('w, 'a) prog \<Rightarrow> ('g \<times> 'w, 'a) prog" where
  [prog_defs]: "callw m = (\<lambda>(g, w). obind (\<lambda>(a, w'). Done (a, (g, w'))) (m w))"

definition lift :: "'a outcome \<Rightarrow> ('s, 'a) prog" where
  [prog_defs]: "lift x = (\<lambda>s. obind (\<lambda>a. Done (a, s)) x)"

lemma ret_app [simp]: "ret a s = Done (a, s)"
  by (simp add: ret_def)

lemma fail_app [simp]: "fail f s = Fault f"
  by (simp add: fail_def)

lemma getg_app [simp]: "getg f (g, w) = Done (f g, (g, w))"
  by (simp add: getg_def)

lemma updg_app [simp]: "updg f (g, w) = Done ((), (f g, w))"
  by (simp add: updg_def)

lemma ext_app [simp]: "ext f (g, w) = Done (fst (f w), (g, snd (f w)))"
  by (simp add: ext_def split: prod.split)

lemma extU_app [simp]: "extU f (g, w) = Done ((), (g, f w))"
  by (simp add: extU_def)

lemma asks_app [simp]: "asks f (g, w) = Done (f w, (g, w))"
  by (simp add: asks_def)

lemma callw_app [simp]: "callw m (g, w) = obind (\<lambda>(a, w'). Done (a, (g, w'))) (m w)"
  by (simp add: callw_def)

lemma lift_simps [simp]:
  "lift (Done a) s = Done (a, s)" "lift (Fault f) s = Fault f" "lift Blocked s = Blocked"
  by (simp_all add: lift_def)

lemma bnd_app [simp]: "bnd m f s = obind (\<lambda>(a, t). f a t) (m s)"
  by (simp add: bnd_def)

lemma seq_app [simp]: "seq m k s = obind (\<lambda>(a, t). k t) (m s)"
  by (simp add: seq_def)

lemma obind_eq_Done_iff: "obind f x = Done r \<longleftrightarrow> (\<exists>a. x = Done a \<and> f a = Done r)"
  by (cases x) auto

lemma obind_mono [fuel_mono]:
  assumes "x \<le> y" and "\<And>a. f a \<le> g a"
  shows "obind f x \<le> obind g y"
  using assms by (cases x) auto

lemma obind_assoc:
  "obind g (obind f x) = obind (\<lambda>a. obind g (f a)) x"
  by (cases x) auto

lemma bnd_eq_Done_iff:
  "bnd m f s = Done r \<longleftrightarrow> (\<exists>a t. m s = Done (a, t) \<and> f a t = Done r)"
  by (cases "m s") (auto simp: bnd_def)

lemma seq_eq_Done_iff:
  "seq m k s = Done r \<longleftrightarrow> (\<exists>a t. m s = Done (a, t) \<and> k t = Done r)"
  unfolding seq_def bnd_eq_Done_iff by simp

lemma if_prog_app [simp]: "(if b then m else k) s = (if b then m s else k s)"
  by simp

lemma bnd_mono [fuel_mono]:
  assumes "m s \<le> m' s" and "\<And>a t. f a t \<le> f' a t"
  shows "bnd m f s \<le> bnd m' f' s"
  using assms by (cases "m s") (auto simp: bnd_def)

lemma seq_mono [fuel_mono]:
  assumes "m s \<le> m' s" and "\<And>t. k t \<le> k' t"
  shows "seq m k s \<le> seq m' k' s"
  unfolding seq_def by (rule bnd_mono [where m = m and m' = m']) (use assms in auto)

subsection \<open>Loops\<close>

text \<open>
  A loop over its local variables \<open>'l\<close>: the body either goes on with new locals (\<open>Inl\<close>) or
  leaves the loop with a result (\<open>Inr\<close>).  Every pass spends one unit of fuel.
\<close>

fun iter :: "nat \<Rightarrow> ('l \<Rightarrow> ('s, 'l + 'r) prog) \<Rightarrow> 'l \<Rightarrow> ('s, 'r) prog" where
  "iter 0 body l = (\<lambda>s. Blocked)"
| "iter (Suc n) body l =
     bnd (body l) (\<lambda>x. case x of Inl l' \<Rightarrow> iter n body l' | Inr r \<Rightarrow> ret r)"

text \<open>\<open>while (b) c;\<close> over the state alone.\<close>

definition while_loop :: "nat \<Rightarrow> ('s, bool) prog \<Rightarrow> ('s, unit) prog \<Rightarrow> ('s, unit) prog" where
  "while_loop n b c =
     iter n (\<lambda>_. bnd b (\<lambda>t. if t then seq c (ret (Inl ())) else ret (Inr ()))) ()"

text \<open>\<open>do c; while (b);\<close>\<close>

definition do_while :: "nat \<Rightarrow> ('s, unit) prog \<Rightarrow> ('s, bool) prog \<Rightarrow> ('s, unit) prog" where
  "do_while n c b =
     iter n (\<lambda>_. seq c (bnd b (\<lambda>t. ret (if t then Inl () else Inr ())))) ()"

lemma iter_step_Inl: "body l s = Done (Inl l', s') \<Longrightarrow> iter (Suc n) body l s = iter n body l' s'"
  by simp

lemma iter_step_Inr: "body l s = Done (Inr r, s') \<Longrightarrow> iter (Suc n) body l s = Done (r, s')"
  by simp

text \<open>A run of a loop along an explicit sequence of locals and states.\<close>

lemma iter_run:
  assumes "\<And>k. k < m \<Longrightarrow> body (L k) (S k) = Done (Inl (L (Suc k)), S (Suc k))"
    and "body (L m) (S m) = Done (Inr r, t)" and "m < n"
  shows "iter n body (L 0) (S 0) = Done (r, t)"
proof -
  have "iter (Suc m + d) body (L 0) (S 0) = Done (r, t)" for d
    using assms(1,2)
  proof (induction m arbitrary: L S)
    case 0
    then show ?case by simp
  next
    case (Suc m)
    have "iter (Suc m + d) body ((L \<circ> Suc) 0) ((S \<circ> Suc) 0) = Done (r, t)"
      by (rule Suc.IH) (use Suc.prems in auto)
    moreover have "body (L 0) (S 0) = Done (Inl (L 1), S 1)" using Suc.prems(1) [of 0] by simp
    ultimately show ?case by simp
  qed
  from this [of "n - Suc m"] assms(3) show ?thesis by simp
qed

text \<open>Partial correctness of a loop, from an invariant on locals and state.\<close>

lemma iter_inv:
  assumes "iter n body l s = Done (r, t)" and "I l s"
    and step: "\<And>l s l' s'. I l s \<Longrightarrow> body l s = Done (Inl l', s') \<Longrightarrow> I l' s'"
    and exit: "\<And>l s r s'. I l s \<Longrightarrow> body l s = Done (Inr r, s') \<Longrightarrow> Q r s'"
  shows "Q r t"
  using assms(1,2)
proof (induction n arbitrary: l s)
  case 0
  then show ?case by simp
next
  case (Suc n)
  from Suc.prems(1) obtain x s' where b: "body l s = Done (x, s')"
    and k: "(case x of Inl l' \<Rightarrow> iter n body l' | Inr r \<Rightarrow> ret r) s' = Done (r, t)"
    unfolding iter.simps bnd_eq_Done_iff by auto
  show ?case
  proof (cases x)
    case (Inl l')
    with b k Suc.prems(2) show ?thesis by (auto intro: Suc.IH step)
  next
    case (Inr r')
    with b k Suc.prems(2) show ?thesis by (auto intro: exit)
  qed
qed

text \<open>Total correctness of a loop, from an invariant and a measure that every pass lowers.\<close>

lemma iter_total:
  assumes "I l s" and "mu l s < n"
    and step: "\<And>l s. I l s \<Longrightarrow> (\<exists>l' s'. body l s = Done (Inl l', s') \<and> I l' s' \<and> mu l' s' < mu l s) \<or>
      (\<exists>r t. body l s = Done (Inr r, t) \<and> Q r t)"
  shows "\<exists>r t. iter n body l s = Done (r, t) \<and> Q r t"
  using assms(1,2)
proof (induction n arbitrary: l s)
  case 0
  then show ?case by simp
next
  case (Suc n)
  from step [OF Suc.prems(1)] show ?case
  proof (elim disjE exE conjE)
    fix l' s' assume b: "body l s = Done (Inl l', s')" "I l' s'" "mu l' s' < mu l s"
    then have "mu l' s' < n" using Suc.prems(2) by linarith
    with Suc.IH [OF b(2)] b(1) show ?thesis by simp
  qed auto
qed

lemma iter_mono_body:
  assumes "\<And>l s. body l s \<le> body' l s"
  shows "iter n body l s \<le> iter n body' l s"
proof (induction n arbitrary: l s)
  case 0
  then show ?case by simp
next
  case (Suc n)
  show ?case
    unfolding iter.simps
    by (rule bnd_mono) (auto intro: assms Suc.IH split: sum.split)
qed

lemma iter_mono_Suc: "iter n body l s \<le> iter (Suc n) body l s"
proof (induction n arbitrary: l s)
  case 0
  then show ?case by simp
next
  case (Suc n)
  have "bnd (body l) (\<lambda>x. case x of Inl l' \<Rightarrow> iter n body l' | Inr r \<Rightarrow> ret r) s
      \<le> bnd (body l) (\<lambda>x. case x of Inl l' \<Rightarrow> iter (Suc n) body l' | Inr r \<Rightarrow> ret r) s"
    by (rule bnd_mono) (auto intro: Suc.IH split: sum.split simp del: iter.simps)
  then show ?case by (subst (1 2) iter.simps(2)) simp
qed

lemma iter_mono [fuel_mono]:
  assumes "n \<le> n'" and "\<And>l s. body l s \<le> body' l s"
  shows "iter n body l s \<le> iter n' body' l s"
proof -
  have "iter n body' l s \<le> iter n' body' l s" for l s
    using assms(1)
  proof (induction rule: dec_induct)
    case base
    show ?case by simp
  next
    case (step k)
    from step.IH iter_mono_Suc show ?case by (rule order_trans)
  qed
  from iter_mono_body [OF assms(2)] this show ?thesis by (rule order_trans)
qed

lemma while_loop_mono [fuel_mono]:
  assumes "n \<le> n'" and "\<And>s. c s \<le> c' s"
  shows "while_loop n b c s \<le> while_loop n' b c' s"
  unfolding while_loop_def
proof (rule iter_mono [OF assms(1)])
  fix l :: unit and s
  show "bnd b (\<lambda>t. if t then seq c (ret (Inl ())) else ret (Inr ())) s
      \<le> bnd b (\<lambda>t. if t then seq c' (ret (Inl ())) else ret (Inr ())) s"
    by (rule bnd_mono) (auto intro: obind_mono assms(2))
qed

lemma do_while_mono [fuel_mono]:
  assumes "n \<le> n'" and "\<And>s. c s \<le> c' s"
  shows "do_while n c b s \<le> do_while n' c' b s"
  unfolding do_while_def
proof (rule iter_mono [OF assms(1)])
  fix l :: unit and s
  show "seq c (bnd b (\<lambda>t. ret (if t then Inl () else Inr ()))) s
      \<le> seq c' (bnd b (\<lambda>t. ret (if t then Inl () else Inr ()))) s"
    by (rule seq_mono) (auto intro: assms(2))
qed

subsection \<open>Counted loops\<close>

text \<open>\<open>for (i = lo; i < lo + n; i++) a = f i a;\<close>, left early by a fault.\<close>

fun for_range :: "nat \<Rightarrow> nat \<Rightarrow> (nat \<Rightarrow> 'a \<Rightarrow> 'a outcome) \<Rightarrow> 'a \<Rightarrow> 'a outcome" where
  "for_range lo 0 f a = Done a"
| "for_range lo (Suc n) f a = obind (for_range (Suc lo) n f) (f lo a)"

text \<open>The run of a counted loop along an explicit sequence of states.\<close>

lemma for_range_run:
  assumes "\<And>k. k < n \<Longrightarrow> f (lo + k) (S k) = Done (S (Suc k))"
  shows "for_range lo n f (S 0) = Done (S n)"
  using assms
proof (induction n arbitrary: lo S)
  case 0
  then show ?case by simp
next
  case (Suc n)
  have "for_range (Suc lo) n f ((S \<circ> Suc) 0) = Done ((S \<circ> Suc) n)"
    by (rule Suc.IH) (use Suc.prems [of "Suc k" for k] in simp)
  moreover have "f lo (S 0) = Done (S 1)" using Suc.prems [of 0] by simp
  ultimately show ?case by simp
qed

text \<open>Total correctness of a counted loop, from an invariant.\<close>

lemma for_range_inv:
  assumes "I 0 a" and "\<And>k a. k < n \<Longrightarrow> I k a \<Longrightarrow> \<exists>a'. f (lo + k) a = Done a' \<and> I (Suc k) a'"
  shows "\<exists>a'. for_range lo n f a = Done a' \<and> I n a'"
  using assms
proof (induction n arbitrary: lo a I)
  case 0
  then show ?case by simp
next
  case (Suc n)
  from Suc.prems(2) [of 0 a] Suc.prems(1) obtain b where b: "f lo a = Done b" "I 1 b" by auto
  have "\<exists>a'. for_range (Suc lo) n f b = Done a' \<and> (I \<circ> Suc) n a'"
    by (rule Suc.IH) (use b Suc.prems(2) [of "Suc k" for k] in auto)
  with b show ?case by simp
qed

text \<open>A counted loop stops with the fault of the first pass that has one.\<close>

lemma for_range_fault:
  assumes "\<And>k. k < m \<Longrightarrow> f (lo + k) (S k) = Done (S (Suc k))"
    and "f (lo + m) (S m) = Fault x" and "m < n"
  shows "for_range lo n f (S 0) = Fault x"
  using assms
proof (induction m arbitrary: lo S n)
  case 0
  then show ?case by (cases n) auto
next
  case (Suc m)
  then obtain n' where n': "n = Suc n'" "m < n'" by (cases n) auto
  have "for_range (Suc lo) n' f ((S \<circ> Suc) 0) = Fault x"
    by (rule Suc.IH [of "Suc lo" "S \<circ> Suc" n'])
      (use Suc.prems(1) [of "Suc k" for k] Suc.prems(2) n'(2) in auto)
  moreover have "f lo (S 0) = Done (S 1)" using Suc.prems(1) [of 0] by simp
  ultimately show ?case by (simp add: n')
qed

section \<open>Byte buffers\<close>

text \<open>
  An object in memory is the list of its bytes.  A write or a read outside it is a fault.
\<close>

definition put_bytes :: "nat \<Rightarrow> bytes \<Rightarrow> bytes \<Rightarrow> bytes outcome" where
  "put_bytes off bs m =
     (if off + length bs \<le> length m
      then Done (take off m @ bs @ drop (off + length bs) m) else Fault Out_of_bounds)"

definition sub_bytes :: "nat \<Rightarrow> nat \<Rightarrow> bytes \<Rightarrow> bytes outcome" where
  "sub_bytes off n m =
     (if off + n \<le> length m then Done (take n (drop off m)) else Fault Out_of_bounds)"

lemma put_bytes_Done_iff:
  "put_bytes off bs m = Done m' \<longleftrightarrow>
     off + length bs \<le> length m \<and> m' = take off m @ bs @ drop (off + length bs) m"
  by (auto simp: put_bytes_def)

lemma length_put_bytes: "put_bytes off bs m = Done m' \<Longrightarrow> length m' = length m"
  by (auto simp: put_bytes_Done_iff)

lemma sub_put_bytes:
  "put_bytes off bs m = Done m' \<Longrightarrow> sub_bytes off (length bs) m' = Done bs"
  by (auto simp: put_bytes_Done_iff sub_bytes_def)

section \<open>C library facts the sources use\<close>

abbreviation (input) EINVAL :: int where "EINVAL \<equiv> 22"
abbreviation (input) ENOMEM :: int where "ENOMEM \<equiv> 12"
abbreviation (input) ENODEV :: int where "ENODEV \<equiv> 19"
abbreviation (input) EBUSY :: int where "EBUSY \<equiv> 16"
abbreviation (input) EAGAIN :: int where "EAGAIN \<equiv> 11"

text \<open>Conversion to the 32-bit \<open>int\<close> of the targets (the wrap-around of gcc and clang).\<close>

definition to_int32 :: "int \<Rightarrow> int" where
  "to_int32 v = sint (word_of_int v :: u32)"

lemma to_int32_id: "- (2 ^ 31) \<le> v \<Longrightarrow> v < 2 ^ 31 \<Longrightarrow> to_int32 v = v"
  by (simp add: to_int32_def signed_of_int signed_take_bit_int_eq_self)

section \<open>Programs that leave a part of the state alone\<close>

text \<open>\<open>leaves v p\<close>: whenever \<open>p\<close> returns, \<open>v\<close> of the state is what it was.  One rule per construct.\<close>

definition leaves :: "('s \<Rightarrow> 'v) \<Rightarrow> ('s, 'a) prog \<Rightarrow> bool" where
  "leaves v p \<longleftrightarrow> (\<forall>s a s'. p s = Done (a, s') \<longrightarrow> v s' = v s)"

named_theorems leaves_intros

lemma leavesD: "leaves v p \<Longrightarrow> p s = Done (a, s') \<Longrightarrow> v s' = v s"
  by (simp add: leaves_def)

lemma leaves_ret [leaves_intros]: "leaves v (ret a)"
  and leaves_fail [leaves_intros]: "leaves v (fail e)"
  and leaves_lift [leaves_intros]: "leaves v (lift x)"
  by (auto simp: leaves_def prog_defs obind_eq_Done_iff)

lemma leaves_getg [leaves_intros]: "leaves v (getg h)"
  and leaves_asks [leaves_intros]: "leaves v (asks h)"
  by (auto simp: leaves_def prog_defs obind_eq_Done_iff)

lemma leaves_bnd [leaves_intros]: "leaves v p \<Longrightarrow> (\<And>a. leaves v (f a)) \<Longrightarrow> leaves v (bnd p f)"
  unfolding leaves_def by (auto simp: bnd_def obind_eq_Done_iff)

lemma leaves_seq [leaves_intros]: "leaves v p \<Longrightarrow> leaves v q \<Longrightarrow> leaves v (seq p q)"
  by (simp add: seq_def leaves_bnd)

lemma leaves_ext [leaves_intros]: "(\<And>g w. v (g, snd (f w)) = v (g, w)) \<Longrightarrow> leaves v (ext f)"
  and leaves_extU [leaves_intros]: "(\<And>g w. v (g, h w) = v (g, w)) \<Longrightarrow> leaves v (extU h)"
  by (auto simp: leaves_def prog_defs split: prod.splits) (metis prod.sel(2))

lemma leaves_if [leaves_intros]: "(b \<Longrightarrow> leaves v p) \<Longrightarrow> (\<not> b \<Longrightarrow> leaves v q) \<Longrightarrow> leaves v (if b then p else q)"
  and leaves_prod [leaves_intros]: "(\<And>a b. leaves v (f a b)) \<Longrightarrow> leaves v (case x of (a, b) \<Rightarrow> f a b)"
  and leaves_option [leaves_intros]: "leaves v p \<Longrightarrow> (\<And>a. leaves v (h a)) \<Longrightarrow> leaves v (case y of None \<Rightarrow> p | Some a \<Rightarrow> h a)"
  by (simp_all split: prod.splits option.splits)

lemma leaves_iter [leaves_intros]: "(\<And>l. leaves v (body l)) \<Longrightarrow> leaves v (iter n body l)"
proof (induction n arbitrary: l)
  case 0
  then show ?case by (simp add: leaves_def)
next
  case (Suc n)
  have "leaves v (case x of Inl l' \<Rightarrow> iter n body l' | Inr r \<Rightarrow> ret r)" for x
    using Suc by (cases x) (simp_all add: leaves_ret)
  then show ?case unfolding iter.simps by (intro leaves_bnd Suc.prems)
qed

text \<open>\<open>printf ("%d")\<close> of a number that is not negative.\<close>

fun dec :: "nat \<Rightarrow> string" where
  "dec n = (if n < 10 then [char_of (48 + n)] else dec (n div 10) @ [char_of (48 + n mod 10)])"

declare dec.simps [simp del]

end
