(* ===== verification/Matrix_Core.thy ===== *)
theory Matrix_Core
  imports Amp_Prelude
begin

text \<open>
  The matrices of the matrix-multiply demo: \<open>struct _matrix\<close> and its byte layout, the
  generation of the inputs, the two copies of the multiplication (host and remote), and the
  printing loop.  The lemmas show that both copies compute the matrix product modulo \<open>2 ^ 32\<close>
  for sizes up to \<open>MAX_SIZE\<close>, that they run out of the array for larger sizes, that generated
  entries stay below 10, and that the layout round-trips.
\<close>

section \<open>The struct\<close>

definition MAX_SIZE :: nat where
  "MAX_SIZE = 6"

text \<open>\<open>elements[MAX_SIZE][MAX_SIZE]\<close> is kept row by row in one list.\<close>

record matrix =
  msize :: u32
  elements :: "u32 list"

definition wf_matrix :: "matrix \<Rightarrow> bool" where
  "wf_matrix m \<longleftrightarrow> length (elements m) = MAX_SIZE * MAX_SIZE"

text \<open>\<open>m->elements[i][j]\<close>, read and written.\<close>

definition elem :: "matrix \<Rightarrow> nat \<Rightarrow> nat \<Rightarrow> u32 outcome" where
  "elem m i j =
     (if i < MAX_SIZE \<and> j < MAX_SIZE then Done (elements m ! (MAX_SIZE * i + j))
      else Fault Out_of_bounds)"

definition set_elem :: "matrix \<Rightarrow> nat \<Rightarrow> nat \<Rightarrow> u32 \<Rightarrow> matrix outcome" where
  "set_elem m i j v =
     (if i < MAX_SIZE \<and> j < MAX_SIZE
      then Done (m\<lparr>elements := (elements m)[MAX_SIZE * i + j := v]\<rparr>)
      else Fault Out_of_bounds)"

section \<open>Operations\<close>

text \<open>Host side: the result is cleared, takes the size of the first factor, and is summed up.\<close>

definition matrix_multiply :: "matrix \<Rightarrow> matrix \<Rightarrow> matrix outcome" where
  "matrix_multiply m n =
     (let r0 = \<lparr>msize = 0, elements = replicate (MAX_SIZE * MAX_SIZE) 0\<rparr>;
          r1 = r0\<lparr>msize := msize m\<rparr>
      in for_range 0 (unat (msize m)) (\<lambda>i r.
           for_range 0 (unat (msize n)) (\<lambda>j r.
             for_range 0 (unat (msize r)) (\<lambda>k r.
               obind (\<lambda>x. obind (\<lambda>a. obind (\<lambda>b. set_elem r i j (x + a * b)) (elem n k j))
                                 (elem m i k)) (elem r i j)) r) r) r1)"

text \<open>Remote side: a second copy of the same routine.\<close>

definition Matrix_Multiply :: "matrix \<Rightarrow> matrix \<Rightarrow> matrix outcome" where
  "Matrix_Multiply m n =
     (let r0 = \<lparr>msize = 0, elements = replicate (MAX_SIZE * MAX_SIZE) 0\<rparr>;
          r1 = r0\<lparr>msize := msize m\<rparr>
      in for_range 0 (unat (msize m)) (\<lambda>i r.
           for_range 0 (unat (msize n)) (\<lambda>j r.
             for_range 0 (unat (msize r)) (\<lambda>k r.
               obind (\<lambda>x. obind (\<lambda>a. obind (\<lambda>b. set_elem r i j (x + a * b)) (elem n k j))
                                 (elem m i k)) (elem r i j)) r) r) r1)"

text \<open>The numbers \<open>matrix_print\<close> prints, row by row.\<close>

definition matrix_print :: "matrix \<Rightarrow> u32 list outcome" where
  "matrix_print m =
     for_range 0 (unat (msize m)) (\<lambda>i out.
       for_range 0 (unat (msize m)) (\<lambda>j out.
         obind (\<lambda>v. Done (out @ [v])) (elem m i j)) out) []"

text \<open>
  \<open>rnd k\<close> is the \<open>k\<close>-th value \<open>rand()\<close> returns; the counter of calls is part of the state.  The
  entries outside \<open>matrix_size\<close> keep what the array held before.
\<close>

definition gen_value :: "int \<Rightarrow> u32" where
  "gen_value r = word_of_int (and r 127 mod 10)"

definition generate_matrix :: "(nat \<Rightarrow> int) \<Rightarrow> u32 \<Rightarrow> matrix \<times> nat \<Rightarrow> (matrix \<times> nat) outcome" where
  "generate_matrix rnd matrix_size =
     (\<lambda>(m, c). for_range 0 (unat matrix_size) (\<lambda>j st.
        for_range 0 (unat matrix_size) (\<lambda>k (m, c).
          obind (\<lambda>m'. Done (m', Suc c)) (set_elem m j k (gen_value (rnd c)))) st)
        (m\<lparr>msize := matrix_size\<rparr>, c))"

fun generate_matrices :: "(nat \<Rightarrow> int) \<Rightarrow> u32 \<Rightarrow> matrix list \<Rightarrow> nat \<Rightarrow> (matrix list \<times> nat) outcome" where
  "generate_matrices rnd sz [] c = Done ([], c)"
| "generate_matrices rnd sz (m # ms) c =
     obind (\<lambda>(m', c'). obind (\<lambda>(ms', c''). Done (m' # ms', c'')) (generate_matrices rnd sz ms c'))
           (generate_matrix rnd sz (m, c))"

section \<open>Matrices as functions of two indices\<close>

definition mat_of :: "(nat \<Rightarrow> nat \<Rightarrow> u32) \<Rightarrow> u32 list" where
  "mat_of F = map (\<lambda>p. F (p div MAX_SIZE) (p mod MAX_SIZE)) [0..<MAX_SIZE * MAX_SIZE]"

definition fun_of :: "matrix \<Rightarrow> nat \<Rightarrow> nat \<Rightarrow> u32" where
  "fun_of m i j = elements m ! (MAX_SIZE * i + j)"

lemma length_mat_of [simp]: "length (mat_of F) = MAX_SIZE * MAX_SIZE"
  by (simp add: mat_of_def)

lemma nth_mat_of [simp]: "p < MAX_SIZE * MAX_SIZE \<Longrightarrow> mat_of F ! p = F (p div MAX_SIZE) (p mod MAX_SIZE)"
  by (simp add: mat_of_def)

lemma index_less: "i < MAX_SIZE \<Longrightarrow> j < MAX_SIZE \<Longrightarrow> MAX_SIZE * i + j < MAX_SIZE * MAX_SIZE"
  by (simp add: MAX_SIZE_def)

lemma index_div_mod [simp]:
  "j < MAX_SIZE \<Longrightarrow> (MAX_SIZE * i + j) div MAX_SIZE = i"
  "j < MAX_SIZE \<Longrightarrow> (MAX_SIZE * i + j) mod MAX_SIZE = j"
  by (simp_all add: MAX_SIZE_def)

lemma mat_of_cong: "(\<And>i j. i < MAX_SIZE \<Longrightarrow> j < MAX_SIZE \<Longrightarrow> F i j = G i j) \<Longrightarrow> mat_of F = mat_of G"
  by (auto simp: mat_of_def MAX_SIZE_def)

lemma mat_of_fun_of: "wf_matrix m \<Longrightarrow> mat_of (fun_of m) = elements m"
  by (rule nth_equalityI) (auto simp: wf_matrix_def fun_of_def)

lemma mat_of_update:
  assumes "i < MAX_SIZE" and "j < MAX_SIZE"
  shows "(mat_of F)[MAX_SIZE * i + j := v] = mat_of (F(i := (F i)(j := v)))"
proof (rule nth_equalityI)
  fix p assume "p < length ((mat_of F)[MAX_SIZE * i + j := v])"
  then have p: "p < MAX_SIZE * MAX_SIZE" by simp
  moreover have "p = MAX_SIZE * i + j \<longleftrightarrow> p div MAX_SIZE = i \<and> p mod MAX_SIZE = j"
    using assms(2) by auto
  ultimately show "(mat_of F)[MAX_SIZE * i + j := v] ! p = mat_of (F(i := (F i)(j := v))) ! p"
    using assms by (auto simp: nth_list_update)
qed simp

lemma elem_mat_of [simp]:
  "i < MAX_SIZE \<Longrightarrow> j < MAX_SIZE \<Longrightarrow> elem \<lparr>msize = s, elements = mat_of F\<rparr> i j = Done (F i j)"
  by (simp add: elem_def index_less)

lemma fun_of_mat_of [simp]:
  "i < MAX_SIZE \<Longrightarrow> j < MAX_SIZE \<Longrightarrow> fun_of \<lparr>msize = s, elements = mat_of F\<rparr> i j = F i j"
  by (simp add: fun_of_def index_less)

lemma set_elem_mat_of [simp]:
  "i < MAX_SIZE \<Longrightarrow> j < MAX_SIZE \<Longrightarrow> set_elem \<lparr>msize = s, elements = mat_of F\<rparr> i j v
     = Done \<lparr>msize = s, elements = mat_of (F(i := (F i)(j := v)))\<rparr>"
  by (simp add: set_elem_def mat_of_update)

lemma elem_fun_of: "i < MAX_SIZE \<Longrightarrow> j < MAX_SIZE \<Longrightarrow> elem m i j = Done (fun_of m i j)"
  by (simp add: elem_def fun_of_def)

section \<open>The product\<close>

definition dot :: "matrix \<Rightarrow> matrix \<Rightarrow> nat \<Rightarrow> nat \<Rightarrow> nat \<Rightarrow> u32" where
  "dot m n i j c = (\<Sum>k < c. fun_of m i k * fun_of n k j)"

definition mat_prod :: "matrix \<Rightarrow> matrix \<Rightarrow> matrix" where
  "mat_prod m n =
     \<lparr>msize = msize m,
      elements = mat_of (\<lambda>i j. if i < unat (msize m) \<and> j < unat (msize n)
                               then dot m n i j (unat (msize m)) else 0)\<rparr>"

text \<open>The passes of the three loops.\<close>

abbreviation mm_k :: "matrix \<Rightarrow> matrix \<Rightarrow> nat \<Rightarrow> nat \<Rightarrow> nat \<Rightarrow> matrix \<Rightarrow> matrix outcome" where
  "mm_k m n i j \<equiv> (\<lambda>k r.
     obind (\<lambda>x. obind (\<lambda>a. obind (\<lambda>b. set_elem r i j (x + a * b)) (elem n k j)) (elem m i k))
       (elem r i j))"

abbreviation mm_j :: "matrix \<Rightarrow> matrix \<Rightarrow> nat \<Rightarrow> nat \<Rightarrow> matrix \<Rightarrow> matrix outcome" where
  "mm_j m n i \<equiv> (\<lambda>j r. for_range 0 (unat (msize r)) (mm_k m n i j) r)"

lemma mm_j_run:
  assumes "unat s \<le> MAX_SIZE" and "i < MAX_SIZE" and "j < MAX_SIZE" and "F i j = 0"
  shows "mm_j m n i j \<lparr>msize = s, elements = mat_of F\<rparr>
    = Done \<lparr>msize = s, elements = mat_of (F(i := (F i)(j := dot m n i j (unat s))))\<rparr>"
proof -
  define S where "S k = \<lparr>msize = s, elements = mat_of (F(i := (F i)(j := dot m n i j k)))\<rparr>" for k
  have "F(i := (F i)(j := 0)) = F" using assms(4) by (metis fun_upd_triv)
  then have "S 0 = \<lparr>msize = s, elements = mat_of F\<rparr>"
    by (simp add: S_def dot_def)
  moreover have "for_range 0 (unat s) (mm_k m n i j) (S 0) = Done (S (unat s))"
    by (rule for_range_run) (use assms in \<open>simp add: S_def elem_fun_of dot_def\<close>)
  ultimately show ?thesis by (simp add: S_def)
qed

text \<open>Row \<open>i\<close> after \<open>d\<close> columns.\<close>

definition row_upto :: "matrix \<Rightarrow> matrix \<Rightarrow> nat \<Rightarrow> nat \<Rightarrow> nat \<Rightarrow> (nat \<Rightarrow> nat \<Rightarrow> u32) \<Rightarrow> nat \<Rightarrow> nat \<Rightarrow> u32" where
  "row_upto m n c i d F = F(i := \<lambda>j. if j < d then dot m n i j c else 0)"

lemma row_upto_0: "F i = (\<lambda>_. 0) \<Longrightarrow> row_upto m n c i 0 F = F"
  by (auto simp: row_upto_def fun_eq_iff)

lemma mm_j_step:
  assumes "unat s \<le> MAX_SIZE" and "i < MAX_SIZE" and "d < MAX_SIZE"
  shows "mm_j m n i d \<lparr>msize = s, elements = mat_of (row_upto m n (unat s) i d F)\<rparr>
    = Done \<lparr>msize = s, elements = mat_of (row_upto m n (unat s) i (Suc d) F)\<rparr>"
proof -
  let ?G = "row_upto m n (unat s) i d F"
  have "?G(i := (?G i)(d := dot m n i d (unat s))) = row_upto m n (unat s) i (Suc d) F"
    by (auto simp: row_upto_def fun_eq_iff less_Suc_eq)
  with mm_j_run [OF assms, of ?G, where m = m and n = n] show ?thesis by (simp add: row_upto_def)
qed

lemma mm_i_run:
  assumes "unat s \<le> MAX_SIZE" and "c \<le> MAX_SIZE" and "i < MAX_SIZE" and "F i = (\<lambda>_. 0)"
  shows "for_range 0 c (mm_j m n i) \<lparr>msize = s, elements = mat_of F\<rparr>
    = Done \<lparr>msize = s, elements = mat_of (row_upto m n (unat s) i c F)\<rparr>"
proof -
  define S where "S d = \<lparr>msize = s, elements = mat_of (row_upto m n (unat s) i d F)\<rparr>" for d
  have "for_range 0 c (mm_j m n i) (S 0) = Done (S c)"
    by (rule for_range_run) (use assms mm_j_step [of s i, where m = m and n = n and F = F] in \<open>simp add: S_def\<close>)
  then show ?thesis using row_upto_0 [of F i] assms(4) by (simp add: S_def)
qed

lemma zero_elements: "replicate (MAX_SIZE * MAX_SIZE) 0 = mat_of (\<lambda>_ _. 0)"
  by (simp add: mat_of_def map_replicate_const)

lemma matrix_multiply_small:
  assumes "unat (msize m) \<le> MAX_SIZE" and "unat (msize n) \<le> MAX_SIZE"
  shows "matrix_multiply m n = Done (mat_prod m n)"
proof -
  let ?s = "msize m" and ?c = "unat (msize n)"
  define G where "G d = (\<lambda>i j. if i < d \<and> j < ?c then dot m n i j (unat ?s) else 0)" for d
  define S where "S d = \<lparr>msize = ?s, elements = mat_of (G d)\<rparr>" for d
  have "for_range 0 (unat ?s) (\<lambda>i. for_range 0 ?c (mm_j m n i)) (S 0) = Done (S (unat ?s))"
  proof (rule for_range_run)
    fix d assume d: "d < unat ?s"
    have "row_upto m n (unat ?s) d ?c (G d) = G (Suc d)"
      by (auto simp: G_def row_upto_def fun_eq_iff less_Suc_eq)
    with mm_i_run [of ?s ?c d "G d", where m = m and n = n] assms d
    show "for_range 0 ?c (mm_j m n (0 + d)) (S d) = Done (S (Suc d))"
      by (simp add: S_def) (simp add: G_def)
  qed
  moreover have "S 0 = \<lparr>msize = ?s, elements = replicate (MAX_SIZE * MAX_SIZE) 0\<rparr>"
    by (simp add: S_def G_def zero_elements)
  ultimately show ?thesis
    by (simp add: matrix_multiply_def mat_prod_def S_def G_def Let_def)
qed

text \<open>An oversized factor runs past the end of a row as soon as there is work to do.\<close>

lemma matrix_multiply_large:
  assumes "0 < unat (msize m)" and "0 < unat (msize n)"
    and "MAX_SIZE < unat (msize m) \<or> MAX_SIZE < unat (msize n)"
  shows "matrix_multiply m n = Fault Out_of_bounds"
proof -
  let ?s = "msize m" and ?c = "unat (msize n)"
  let ?r = "\<lparr>msize = ?s, elements = mat_of (\<lambda>_ _. 0)\<rparr>"
  have "for_range 0 ?c (mm_j m n 0) ?r = Fault Out_of_bounds"
  proof (cases "MAX_SIZE < unat ?s")
    case True
    define S where "S k = \<lparr>msize = ?s, elements = mat_of ((\<lambda>_ _. 0)(0 := (\<lambda>_. 0)(0 := dot m n 0 0 k)))\<rparr>" for k
    have "for_range 0 (unat ?s) (mm_k m n 0 0) (S 0) = Fault Out_of_bounds"
    proof (rule for_range_fault [OF _ _ True])
      show "mm_k m n 0 0 (0 + k) (S k) = Done (S (Suc k))" if "k < MAX_SIZE" for k
        using that by (simp add: S_def elem_fun_of dot_def MAX_SIZE_def [symmetric])
      show "mm_k m n 0 0 (0 + MAX_SIZE) (S MAX_SIZE) = Fault Out_of_bounds"
        by (simp add: S_def) (simp add: MAX_SIZE_def elem_def)
    qed
    moreover have "S 0 = ?r" by (simp add: S_def dot_def fun_upd_idem)
    ultimately have "mm_j m n 0 0 ?r = Fault Out_of_bounds" by simp
    with assms(2) show ?thesis
      using for_range_fault [of 0 "mm_j m n 0" 0 "\<lambda>_. ?r" Out_of_bounds ?c] by simp
  next
    case False
    with assms(3) have c: "MAX_SIZE < ?c" by simp
    define S where "S d = \<lparr>msize = ?s, elements = mat_of (row_upto m n (unat ?s) 0 d (\<lambda>_ _. 0))\<rparr>" for d
    have "for_range 0 ?c (mm_j m n 0) (S 0) = Fault Out_of_bounds"
    proof (rule for_range_fault [OF _ _ c])
      show "mm_j m n 0 (0 + k) (S k) = Done (S (Suc k))" if "k < MAX_SIZE" for k
        using mm_j_step [of ?s 0 k, where m = m and n = n and F = "\<lambda>_ _. 0"] that False by (simp add: S_def MAX_SIZE_def)
      have "mm_k m n 0 MAX_SIZE 0 (S MAX_SIZE) = Fault Out_of_bounds" by (simp add: elem_def)
      then show "mm_j m n 0 (0 + MAX_SIZE) (S MAX_SIZE) = Fault Out_of_bounds"
        using assms(1) for_range_fault [of 0 "mm_k m n 0 MAX_SIZE" 0 "\<lambda>_. S MAX_SIZE" Out_of_bounds "unat ?s"]
        by (simp add: S_def)
    qed
    then show ?thesis by (simp add: S_def row_upto_0)
  qed
  then show ?thesis
    using for_range_fault [of 0 "\<lambda>i. for_range 0 ?c (mm_j m n i)" 0 "\<lambda>_. ?r" Out_of_bounds "unat ?s"] assms(1)
    by (simp add: matrix_multiply_def Let_def zero_elements)
qed

lemma matrix_multiply_empty:
  assumes "unat (msize m) = 0 \<or> unat (msize n) = 0"
  shows "matrix_multiply m n = Done (mat_prod m n)"
proof -
  have "for_range 0 c (\<lambda>i. for_range 0 0 (mm_j m n i)) r = Done r" for c r
    using for_range_run [of c "\<lambda>i. for_range 0 0 (mm_j m n i)" 0 "\<lambda>_. r"] by simp
  with assms show ?thesis
    by (auto simp: matrix_multiply_def Let_def zero_elements mat_prod_def)
qed

lemma Matrix_Multiply_eq: "Matrix_Multiply = matrix_multiply"
  by (simp add: fun_eq_iff Matrix_Multiply_def matrix_multiply_def)

lemma wf_mat_prod [simp]: "wf_matrix (mat_prod m n)"
  by (simp add: wf_matrix_def mat_prod_def)

text \<open>Printing reads inside the array exactly when the size field is within bounds.\<close>

lemma matrix_print_ok:
  assumes "unat (msize m) \<le> MAX_SIZE"
  shows "\<exists>out. matrix_print m = Done out \<and> length out = unat (msize m) * unat (msize m)"
proof -
  let ?s = "unat (msize m)"
  have row: "\<exists>out'. for_range 0 ?s (\<lambda>j out. obind (\<lambda>v. Done (out @ [v])) (elem m i j)) out = Done out' \<and>
      length out' = ?s + length out" if "i < MAX_SIZE" for i out
    by (rule for_range_inv [where I = "\<lambda>k out'. length out' = k + length out"])
      (use that assms in \<open>auto simp: elem_fun_of\<close>)
  show ?thesis
    unfolding matrix_print_def
  proof (rule for_range_inv [where I = "\<lambda>k out'. length out' = k * ?s"])
    fix k and a :: "u32 list" assume "k < ?s" and "length a = k * ?s"
    with row [of k a] assms
    show "\<exists>a'. for_range 0 ?s (\<lambda>j out. obind (\<lambda>v. Done (out @ [v])) (elem m (0 + k) j)) a = Done a' \<and>
        length a' = Suc k * ?s" by auto
  qed simp
qed

section \<open>The generated inputs\<close>

lemma gen_value_less: "unat (gen_value r) < 10"
proof -
  have "0 \<le> and r 127 mod 10" "and r 127 mod 10 < 10" by auto
  then obtain k where "and r 127 mod 10 = int k" "k < 10"
    by (metis nonneg_int_cases of_nat_less_iff of_nat_numeral)
  then show ?thesis by (simp add: gen_value_def unat_of_nat)
qed

text \<open>The entry of row \<open>i\<close> and column \<open>j\<close> comes from call \<open>n i + j\<close> of \<open>rand\<close>.\<close>

definition gen_upto :: "(nat \<Rightarrow> int) \<Rightarrow> nat \<Rightarrow> nat \<Rightarrow> (nat \<Rightarrow> nat \<Rightarrow> u32) \<Rightarrow> nat \<Rightarrow> nat \<Rightarrow> nat \<Rightarrow> nat \<Rightarrow> u32" where
  "gen_upto rnd c n F a b = (\<lambda>i j. if (i < a \<and> j < n) \<or> (i = a \<and> j < b)
     then gen_value (rnd (c + n * i + j)) else F i j)"

lemma gen_upto_row: "gen_upto rnd c n F a n = gen_upto rnd c n F (Suc a) 0"
  by (auto simp: gen_upto_def fun_eq_iff less_Suc_eq)

lemma gen_upto_start: "gen_upto rnd c n F 0 0 = F"
  by (simp add: gen_upto_def)

lemma gen_upto_step:
  "(gen_upto rnd c n F a b)(a := (gen_upto rnd c n F a b a)(b := gen_value (rnd (c + n * a + b))))
     = gen_upto rnd c n F a (Suc b)"
  by (auto simp: gen_upto_def fun_eq_iff less_Suc_eq)

lemma generate_matrix_run:
  assumes "wf_matrix m" and "unat sz \<le> MAX_SIZE"
  shows "generate_matrix rnd sz (m, c)
    = Done (\<lparr>msize = sz, elements = mat_of (gen_upto rnd c (unat sz) (fun_of m) (unat sz) 0)\<rparr>,
            c + unat sz * unat sz)"
proof -
  let ?n = "unat sz" and ?F = "fun_of m"
  define S where "S a b = (\<lparr>msize = sz, elements = mat_of (gen_upto rnd c ?n ?F a b)\<rparr>, c + ?n * a + b)" for a b
  let ?body = "\<lambda>j k (m, c). obind (\<lambda>m'. Done (m', Suc c)) (set_elem m j k (gen_value (rnd c)))"
  have row: "for_range 0 ?n (?body j) (S j 0) = Done (S j ?n)" if "j < ?n" for j
    by (rule for_range_run) (use that assms(2) in \<open>simp add: S_def gen_upto_step\<close>)
  have "S j ?n = S (Suc j) 0" for j by (simp add: S_def gen_upto_row)
  with row have "for_range 0 ?n (\<lambda>j. for_range 0 ?n (?body j)) (S 0 0) = Done (S ?n 0)"
    using for_range_run [of ?n "\<lambda>j. for_range 0 ?n (?body j)" 0 "\<lambda>j. S j 0"] by simp
  moreover have "S 0 0 = (m\<lparr>msize := sz\<rparr>, c)"
    using mat_of_fun_of [OF assms(1)] by (cases m) (simp add: S_def gen_upto_start)
  ultimately show ?thesis by (simp add: generate_matrix_def S_def)
qed

text \<open>A matrix with small entries all over, as \<open>generate_matrices (2, MAX_SIZE, ...)\<close> leaves it.\<close>

definition generated :: "matrix \<Rightarrow> bool" where
  "generated m \<longleftrightarrow> wf_matrix m \<and> unat (msize m) = MAX_SIZE \<and> (\<forall>x \<in> set (elements m). unat x < 10)"

lemma generate_matrix_full:
  assumes "wf_matrix m"
  shows "\<exists>m'. generate_matrix rnd 6 (m, c) = Done (m', c + 36) \<and> generated m'"
proof -
  have sz: "unat (6 :: u32) = MAX_SIZE" by (simp add: MAX_SIZE_def)
  have "\<forall>x \<in> set (mat_of (gen_upto rnd c MAX_SIZE (fun_of m) MAX_SIZE 0)). unat x < 10"
    by (auto simp: mat_of_def gen_upto_def gen_value_less MAX_SIZE_def)
  then have "generated \<lparr>msize = 6, elements = mat_of (gen_upto rnd c MAX_SIZE (fun_of m) MAX_SIZE 0)\<rparr>"
    unfolding generated_def wf_matrix_def matrix.simps sz length_mat_of by blast
  moreover have "c + MAX_SIZE * MAX_SIZE = c + 36" by (simp add: MAX_SIZE_def)
  moreover have "MAX_SIZE \<le> MAX_SIZE" by simp
  ultimately show ?thesis
    using generate_matrix_run [OF assms, of 6 rnd c, unfolded sz] by metis
qed

lemma generate_matrices_full:
  assumes "\<forall>m \<in> set ms. wf_matrix m"
  shows "\<exists>ms'. generate_matrices rnd 6 ms c = Done (ms', c + 36 * length ms) \<and>
     length ms' = length ms \<and> (\<forall>m \<in> set ms'. generated m)"
  using assms
proof (induction ms arbitrary: c)
  case Nil
  then show ?case by simp
next
  case (Cons m ms)
  from generate_matrix_full [of m rnd c] Cons.prems obtain m' where
    m': "generate_matrix rnd 6 (m, c) = Done (m', c + 36)" "generated m'" by auto
  from Cons.IH [of "c + 36"] Cons.prems obtain ms' where
    "generate_matrices rnd 6 ms (c + 36) = Done (ms', c + 36 + 36 * length ms)"
    "length ms' = length ms" "\<forall>m \<in> set ms'. generated m" by auto
  with m' show ?case by auto
qed

text \<open>No sum of a product of generated matrices leaves 32 bits.\<close>

lemma unat_sum_bound:
  assumes "\<And>k. k < c \<Longrightarrow> unat (f k :: u32) \<le> B" and "c * B < 2 ^ 32"
  shows "unat (\<Sum>k < c. f k) = (\<Sum>k < c. unat (f k)) \<and> (\<Sum>k < c. unat (f k)) \<le> c * B"
  using assms
proof (induction c)
  case 0
  then show ?case by simp
next
  case (Suc c)
  then have IH: "unat (\<Sum>k < c. f k) = (\<Sum>k < c. unat (f k))" "(\<Sum>k < c. unat (f k)) \<le> c * B"
    by auto
  moreover have "unat (f c) \<le> B" using Suc.prems(1) by simp
  ultimately have "unat (\<Sum>k < c. f k) + unat (f c) \<le> Suc c * B" by simp
  with Suc.prems(2) IH show ?case by (simp add: unat_word_ariths)
qed

lemma generated_entry:
  assumes "generated m" and "i < MAX_SIZE" and "j < MAX_SIZE"
  shows "unat (fun_of m i j) < 10"
proof -
  have "fun_of m i j \<in> set (elements m)"
    using assms index_less [of i j] by (auto simp: generated_def wf_matrix_def fun_of_def)
  with assms(1) show ?thesis by (auto simp: generated_def)
qed

lemma dot_exact:
  assumes "generated m" and "generated n" and "i < MAX_SIZE" and "j < MAX_SIZE"
  shows "unat (dot m n i j MAX_SIZE) = (\<Sum>k < MAX_SIZE. unat (fun_of m i k) * unat (fun_of n k j))"
    and "unat (dot m n i j MAX_SIZE) \<le> 486"
proof -
  have entry: "unat (fun_of m i k * fun_of n k j) = unat (fun_of m i k) * unat (fun_of n k j)"
    "unat (fun_of m i k) * unat (fun_of n k j) \<le> 81" if "k < MAX_SIZE" for k
  proof -
    have *: "unat (fun_of m i k) \<le> 9" "unat (fun_of n k j) \<le> 9"
      using generated_entry [OF assms(1,3) that] generated_entry [OF assms(2) that assms(4)] by auto
    then show le: "unat (fun_of m i k) * unat (fun_of n k j) \<le> 81"
      using mult_le_mono [OF *] by simp
    then show "unat (fun_of m i k * fun_of n k j) = unat (fun_of m i k) * unat (fun_of n k j)"
      by (simp add: unat_word_ariths)
  qed
  have "unat (dot m n i j MAX_SIZE) = (\<Sum>k < MAX_SIZE. unat (fun_of m i k * fun_of n k j)) \<and>
      (\<Sum>k < MAX_SIZE. unat (fun_of m i k * fun_of n k j)) \<le> MAX_SIZE * 81"
    unfolding dot_def by (rule unat_sum_bound) (use entry in \<open>auto simp: MAX_SIZE_def\<close>)
  then show "unat (dot m n i j MAX_SIZE) = (\<Sum>k < MAX_SIZE. unat (fun_of m i k) * unat (fun_of n k j))"
    and "unat (dot m n i j MAX_SIZE) \<le> 486"
    using entry by (auto simp: MAX_SIZE_def)
qed

section \<open>Byte layout\<close>

text \<open>\<open>struct _matrix\<close> in memory: the size, then the 36 entries; \<open>sizeof (struct _matrix)\<close> is 148.\<close>

definition matrix_sz :: nat where
  "matrix_sz = 148"

definition mat_enc :: "matrix \<Rightarrow> bytes" where
  "mat_enc m = le32 (msize m) @ concat (map le32 (elements m))"

definition mat_dec :: "bytes \<Rightarrow> matrix" where
  "mat_dec bs = \<lparr>msize = get32 0 bs,
     elements = map (\<lambda>p. get32 (4 + 4 * p) bs) [0..<MAX_SIZE * MAX_SIZE]\<rparr>"

lemma length_mat_enc [simp, codec]: "wf_matrix m \<Longrightarrow> length (mat_enc m) = matrix_sz"
  by (simp add: mat_enc_def wf_matrix_def matrix_sz_def MAX_SIZE_def)

lemma wf_mat_dec [simp]: "wf_matrix (mat_dec bs)"
  by (simp add: mat_dec_def wf_matrix_def)

lemma mat_dec_enc [codec]:
  assumes "wf_matrix m"
  shows "mat_dec (mat_enc m @ q) = m"
proof -
  have "map (\<lambda>p. get32 (4 + 4 * p) (mat_enc m @ q)) [0..<MAX_SIZE * MAX_SIZE] = elements m"
  proof (rule nth_equalityI)
    fix p assume "p < length (map (\<lambda>p. get32 (4 + 4 * p) (mat_enc m @ q)) [0..<MAX_SIZE * MAX_SIZE])"
    then have "p < length (elements m)" using assms by (simp add: wf_matrix_def)
    with assms show "map (\<lambda>p. get32 (4 + 4 * p) (mat_enc m @ q)) [0..<MAX_SIZE * MAX_SIZE] ! p = elements m ! p"
      using get32_array [of "le32 (msize m)" 4 p "elements m" q] by (simp add: mat_enc_def wf_matrix_def)
  qed (use assms in \<open>simp add: wf_matrix_def\<close>)
  moreover have "get32 0 (mat_enc m @ q) = msize m" by (simp add: mat_enc_def get32_hd)
  ultimately show ?thesis by (simp add: mat_dec_def)
qed

lemma mat_dec_enc_exact [simp]: "wf_matrix m \<Longrightarrow> mat_dec (mat_enc m) = m"
  using mat_dec_enc [of m "[]"] by simp

end
