(* ===== verification/Rpmsg_Api.thy ===== *)
theory Rpmsg_Api
  imports Amp_Prelude
begin

text \<open>
  The interface of the applications to the OpenAMP RPMsg library, which is not part of the
  repository: a record of functions on the outside world, one field per library call that the
  applications make (an application has one endpoint, so the endpoint is left implicit).  A
  call of \<open>platform_poll\<close> yields the callbacks the library runs before it returns; \<open>poll\<close>
  runs the application's own callbacks for them, in order.

  The second half states what the applications rely on: a link to a peer that answers
  (\<open>peer_link\<close>, with the concrete \<open>loop_ops\<close> that satisfies it), and a peer that talks by a script (\<open>scripted\<close>), with the two lemmas every
  application proof uses: a wait loop is left with the answer, and a server loop works a whole
  script off.
\<close>

section \<open>Library calls\<close>

datatype event =
    is_Rx: Rx (rx_buf: nat) (rx_data: bytes) (rx_src: u32)
  | Ns_bind string u32
  | Ns_unbind

text \<open>
  \<open>rpmsg_get_tx_payload_buffer\<close> returns the handle and the contents of a free buffer, or nothing;
  \<open>metal_allocate_memory\<close> the contents of the new object, or nothing.
\<close>

record 'w rpmsg =
  RPMSG_SUCCESS :: int
  RPMSG_ERR_PARAM :: int
  RPMSG_ERR_NO_BUFF :: int
  RPMSG_ADDR_ANY :: u32
  RPMSG_BUFFER_SIZE :: nat
  rpmsg_create_ept :: "string \<Rightarrow> u32 \<Rightarrow> u32 \<Rightarrow> 'w \<Rightarrow> int \<times> 'w"
  rpmsg_destroy_ept :: "'w \<Rightarrow> 'w"
  is_rpmsg_ept_ready :: "'w \<Rightarrow> bool"
  rpmsg_get_tx_buffer_size :: "'w \<Rightarrow> int"
  rpmsg_send :: "bytes \<Rightarrow> 'w \<Rightarrow> int \<times> 'w"
  rpmsg_trysend :: "bytes \<Rightarrow> 'w \<Rightarrow> int \<times> 'w"
  rpmsg_hold_rx_buffer :: "nat \<Rightarrow> 'w \<Rightarrow> 'w"
  rpmsg_release_rx_buffer :: "nat \<Rightarrow> 'w \<Rightarrow> 'w"
  rpmsg_get_tx_payload_buffer :: "'w \<Rightarrow> (nat \<times> bytes) option \<times> 'w"
  rpmsg_send_nocopy :: "nat \<Rightarrow> bytes \<Rightarrow> 'w \<Rightarrow> int \<times> 'w"
  rpmsg_release_tx_buffer :: "nat option \<Rightarrow> 'w \<Rightarrow> int \<times> 'w"
  metal_allocate_memory :: "nat \<Rightarrow> 'w \<Rightarrow> bytes option \<times> 'w"
  metal_free_memory :: "'w \<Rightarrow> 'w"
  platform_poll :: "'w \<Rightarrow> event list \<times> 'w"

fun run_events :: "(event \<Rightarrow> ('s, 'a) prog) \<Rightarrow> event list \<Rightarrow> ('s, unit) prog" where
  "run_events cb [] = ret ()"
| "run_events cb (e # es) = seq (cb e) (run_events cb es)"

definition poll :: "'w rpmsg \<Rightarrow> (event \<Rightarrow> ('g \<times> 'w, 'a) prog) \<Rightarrow> ('g \<times> 'w, unit) prog" where
  "poll ops cb = bnd (ext (platform_poll ops)) (run_events cb)"

text \<open>\<open>while (!is_rpmsg_ept_ready(&lept)) platform_poll(priv);\<close>\<close>

definition wait_ready ::
    "nat \<Rightarrow> 'w rpmsg \<Rightarrow> (event \<Rightarrow> ('g \<times> 'w, 'a) prog) \<Rightarrow> ('g \<times> 'w, unit) prog" where
  "wait_ready n ops cb =
     while_loop n (asks (\<lambda>w. \<not> is_rpmsg_ept_ready ops w)) (poll ops cb)"

text \<open>\<open>while (1) { platform_poll(priv); if (down) break; }\<close>\<close>

definition serve ::
    "nat \<Rightarrow> 'w rpmsg \<Rightarrow> (event \<Rightarrow> ('g \<times> 'w, 'a) prog) \<Rightarrow> ('g \<Rightarrow> bool) \<Rightarrow> ('g \<times> 'w, unit) prog" where
  "serve n ops cb down =
     iter n (\<lambda>_. seq (poll ops cb) (bnd (getg down) (\<lambda>d. ret (if d then Inr () else Inl ())))) ()"

lemma poll_app:
  "poll ops cb (g, w) =
     run_events cb (fst (platform_poll ops w)) (g, snd (platform_poll ops w))"
  by (simp add: poll_def)

lemma poll_eq: "platform_poll ops w = (es, w') \<Longrightarrow> poll ops cb (g, w) = run_events cb es (g, w')"
  by (simp add: poll_app)

lemma run_events_append:
  "run_events cb (es @ fs) s = seq (run_events cb es) (run_events cb fs) s"
  by (induction es arbitrary: s) (auto simp: obind_assoc case_prod_unfold)

section \<open>What the applications rely on\<close>

text \<open>
  A link to a peer that answers every message \<open>m\<close> with the messages \<open>reply m\<close>.  \<open>pend\<close> are the
  answers not delivered yet, \<open>lag\<close> bounds the number of notifications that bring nothing while an
  answer is under way, and \<open>T\<close> is the payload size of a buffer.  This is the documented service
  of an RPMsg channel over virtio: messages arrive once, unchanged and in order.
\<close>

definition peer_link ::
    "'w rpmsg \<Rightarrow> (bytes \<Rightarrow> bytes list) \<Rightarrow> nat \<Rightarrow> nat \<Rightarrow>
     ('w \<Rightarrow> bool) \<Rightarrow> ('w \<Rightarrow> bytes list) \<Rightarrow> ('w \<Rightarrow> nat) \<Rightarrow> bool" where
  "peer_link ops reply T D conn pend lag \<longleftrightarrow>
     (\<forall>w. conn w \<longrightarrow> is_rpmsg_ept_ready ops w \<and> rpmsg_get_tx_buffer_size ops w = int T \<and> lag w \<le> D) \<and>
     (\<forall>w m r w'. conn w \<longrightarrow> length m \<le> T \<longrightarrow> rpmsg_send ops m w = (r, w') \<longrightarrow>
        0 \<le> r \<and> conn w' \<and> pend w' = pend w @ reply m) \<and>
     (\<forall>w es w'. conn w \<longrightarrow> platform_poll ops w = (es, w') \<longrightarrow>
        conn w' \<and> list_all is_Rx es \<and> pend w = map rx_data es @ pend w' \<and>
        (pend w \<noteq> [] \<and> es = [] \<longrightarrow> lag w' < lag w))"

lemma peer_link_ready: "peer_link ops reply T D conn pend lag \<Longrightarrow> conn w \<Longrightarrow> is_rpmsg_ept_ready ops w"
  and peer_link_size: "peer_link ops reply T D conn pend lag \<Longrightarrow> conn w \<Longrightarrow>
        rpmsg_get_tx_buffer_size ops w = int T"
  and peer_link_lag: "peer_link ops reply T D conn pend lag \<Longrightarrow> conn w \<Longrightarrow> lag w \<le> D"
  and peer_link_send: "peer_link ops reply T D conn pend lag \<Longrightarrow> conn w \<Longrightarrow> length m \<le> T \<Longrightarrow>
        rpmsg_send ops m w = (r, w') \<Longrightarrow> 0 \<le> r \<and> conn w' \<and> pend w' = pend w @ reply m"
  and peer_link_poll: "peer_link ops reply T D conn pend lag \<Longrightarrow> conn w \<Longrightarrow>
        platform_poll ops w = (es, w') \<Longrightarrow>
        conn w' \<and> list_all is_Rx es \<and> pend w = map rx_data es @ pend w' \<and>
        (pend w \<noteq> [] \<and> es = [] \<longrightarrow> lag w' < lag w)"
  unfolding peer_link_def by blast+

text \<open>A ready endpoint is not waited for.\<close>

lemma wait_ready_conn:
  assumes "peer_link ops reply T D conn pend lag" and "conn w" and "0 < n"
  shows "wait_ready n ops cb (g, w) = Done ((), (g, w))"
  using assms peer_link_ready [OF assms(1,2)]
  by (cases n) (auto simp: wait_ready_def while_loop_def)

text \<open>
  The wait for one answer: with the answer \<open>m\<close> pending, \<open>do platform_poll(); while (waiting);\<close> is
  left after at most \<open>lag w + 1\<close> polls, with the callback run on \<open>m\<close> exactly once.
\<close>

lemma await_answer:
  assumes link: "peer_link ops reply T D conn pend lag"
    and "conn w" and "pend w = [m]" and "waiting g" and "lag w < n"
    and cb: "\<And>h src w'. conn w' \<Longrightarrow> pend w' = [] \<Longrightarrow>
       \<exists>a g' w''. cb (Rx h m src) (g, w') = Done (a, (g', w'')) \<and>
         conn w'' \<and> pend w'' = [] \<and> P g' w'' \<and> \<not> waiting g'"
  shows "\<exists>g' w'. do_while n (poll ops cb) (getg waiting) (g, w) = Done ((), (g', w')) \<and>
           conn w' \<and> pend w' = [] \<and> P g' w'"
  using assms(2-5)
proof (induction n arbitrary: w)
  case 0
  then show ?case by simp
next
  case (Suc n)
  obtain es w' where p: "platform_poll ops w = (es, w')" by fastforce
  note q = peer_link_poll [OF link Suc.prems(1) p]
  show ?case
  proof (cases es)
    case Nil
    with q Suc.prems have w': "conn w'" "pend w' = [m]" "lag w' < n" by auto
    have "do_while (Suc n) (poll ops cb) (getg waiting) (g, w)
        = do_while n (poll ops cb) (getg waiting) (g, w')"
      using Nil p Suc.prems(3) by (simp add: do_while_def poll_eq)
    with Suc.IH [OF w'(1,2) Suc.prems(3) w'(3)] show ?thesis by simp
  next
    case (Cons e fs)
    with q Suc.prems(2) obtain h src where e: "e = Rx h m src" "fs = []" "pend w' = []" "conn w'"
      by (cases e) auto
    from cb [OF e(4,3), of h src] obtain a g' w'' where
      c: "cb (Rx h m src) (g, w') = Done (a, (g', w''))" "conn w''" "pend w'' = []" "P g' w''"
        "\<not> waiting g'" by blast
    then have "do_while (Suc n) (poll ops cb) (getg waiting) (g, w) = Done ((), (g', w''))"
      using p e Cons by (simp add: do_while_def poll_eq)
    with c show ?thesis by blast
  qed
qed

text \<open>
  A concrete link: the world is the list of the messages under way, sending appends the answers
  of the peer to it, and every poll delivers the oldest one.
\<close>

definition loop_ops :: "(bytes \<Rightarrow> bytes list) \<Rightarrow> nat \<Rightarrow> bytes list rpmsg" where
  "loop_ops reply T =
     \<lparr>RPMSG_SUCCESS = 0, RPMSG_ERR_PARAM = - 2004, RPMSG_ERR_NO_BUFF = - 2006,
      RPMSG_ADDR_ANY = - 1, RPMSG_BUFFER_SIZE = T + 16,
      rpmsg_create_ept = (\<lambda>name src dst w. (0, w)), rpmsg_destroy_ept = (\<lambda>w. w),
      is_rpmsg_ept_ready = (\<lambda>w. True), rpmsg_get_tx_buffer_size = (\<lambda>w. int T),
      rpmsg_send = (\<lambda>m w. (int (length m), w @ reply m)),
      rpmsg_trysend = (\<lambda>m w. (int (length m), w @ reply m)),
      rpmsg_hold_rx_buffer = (\<lambda>h w. w), rpmsg_release_rx_buffer = (\<lambda>h w. w),
      rpmsg_get_tx_payload_buffer = (\<lambda>w. (Some (0, replicate T 0), w)),
      rpmsg_send_nocopy = (\<lambda>h m w. (int (length m), w @ reply m)),
      rpmsg_release_tx_buffer = (\<lambda>h w. (0, w)),
      metal_allocate_memory = (\<lambda>n w. (Some (replicate n 0), w)), metal_free_memory = (\<lambda>w. w),
      platform_poll = (\<lambda>w. case w of [] \<Rightarrow> ([], []) | m # ms \<Rightarrow> ([Rx 0 m 0], ms))\<rparr>"

lemma loop_ops_simps [simp]:
  "rpmsg_send (loop_ops reply T) m w = (int (length m), w @ reply m)"
  "rpmsg_trysend (loop_ops reply T) m w = (int (length m), w @ reply m)"
  "rpmsg_create_ept (loop_ops reply T) name src dst w = (0, w)"
  "rpmsg_destroy_ept (loop_ops reply T) w = w"
  "rpmsg_hold_rx_buffer (loop_ops reply T) h w = w"
  "rpmsg_release_rx_buffer (loop_ops reply T) h w = w"
  "rpmsg_send_nocopy (loop_ops reply T) h m w = (int (length m), w @ reply m)"
  "metal_allocate_memory (loop_ops reply T) n w = (Some (replicate n 0), w)"
  "metal_free_memory (loop_ops reply T) w = w"
  "RPMSG_SUCCESS (loop_ops reply T) = 0"
  by (simp_all add: loop_ops_def)

lemma loop_link: "peer_link (loop_ops reply T) reply T 0 (\<lambda>w. True) (\<lambda>w. w) (\<lambda>w. 0)"
  by (auto simp: peer_link_def loop_ops_def split: list.splits)

text \<open>What a callback sends, as a function of the message: its run on an empty link.\<close>

definition replies ::
    "(bytes list rpmsg \<Rightarrow> event \<Rightarrow> ('g \<times> bytes list, 'a) prog) \<Rightarrow> 'g \<Rightarrow> bytes \<Rightarrow> bytes list" where
  "replies cb g m = (case cb (loop_ops (\<lambda>m. [m]) 0) (Rx 0 m 0) (g, []) of
     Done (_, (_, ms)) \<Rightarrow> ms | _ \<Rightarrow> [])"

text \<open>
  A peer whose messages are fixed in advance: the callbacks of the successive polls are the
  batches of \<open>script\<close>, and \<open>sent\<close> is what the application has sent so far.
\<close>

definition scripted :: "'w rpmsg \<Rightarrow> ('w \<Rightarrow> event list list) \<Rightarrow> ('w \<Rightarrow> bytes list) \<Rightarrow> bool" where
  "scripted ops script sent \<longleftrightarrow>
     (\<forall>w e es. script w = e # es \<longrightarrow>
        (\<exists>w'. platform_poll ops w = (e, w') \<and> script w' = es \<and> sent w' = sent w)) \<and>
     (\<forall>m w r w'. rpmsg_send ops m w = (r, w') \<longrightarrow>
        0 \<le> r \<and> script w' = script w \<and> sent w' = sent w @ [m])"

text \<open>A concrete scripted peer: the world is the rest of the script and what has been sent.\<close>

definition script_ops :: "(event list list \<times> bytes list) rpmsg" where
  "script_ops =
     \<lparr>RPMSG_SUCCESS = 0, RPMSG_ERR_PARAM = - 2004, RPMSG_ERR_NO_BUFF = - 2006,
      RPMSG_ADDR_ANY = - 1, RPMSG_BUFFER_SIZE = 512,
      rpmsg_create_ept = (\<lambda>name src dst w. (0, w)), rpmsg_destroy_ept = (\<lambda>w. w),
      is_rpmsg_ept_ready = (\<lambda>w. True), rpmsg_get_tx_buffer_size = (\<lambda>w. 496),
      rpmsg_send = (\<lambda>m (sc, out). (int (length m), (sc, out @ [m]))),
      rpmsg_trysend = (\<lambda>m (sc, out). (int (length m), (sc, out @ [m]))),
      rpmsg_hold_rx_buffer = (\<lambda>h w. w), rpmsg_release_rx_buffer = (\<lambda>h w. w),
      rpmsg_get_tx_payload_buffer = (\<lambda>w. (Some (0, replicate 496 0), w)),
      rpmsg_send_nocopy = (\<lambda>h m (sc, out). (int (length m), (sc, out @ [m]))),
      rpmsg_release_tx_buffer = (\<lambda>h w. (0, w)),
      metal_allocate_memory = (\<lambda>n w. (Some (replicate n 0), w)), metal_free_memory = (\<lambda>w. w),
      platform_poll = (\<lambda>(sc, out). case sc of [] \<Rightarrow> ([], ([], out)) | b # bs \<Rightarrow> (b, (bs, out)))\<rparr>"

lemma script_ops_scripted: "scripted script_ops fst snd"
  by (auto simp: scripted_def script_ops_def split: list.splits)

lemma script_ops_simps [simp]:
  "rpmsg_create_ept script_ops name src dst w = (0, w)" "rpmsg_destroy_ept script_ops w = w"
  "RPMSG_SUCCESS script_ops = 0" "RPMSG_BUFFER_SIZE script_ops = 512"
  "RPMSG_ERR_NO_BUFF script_ops = - 2006"
  by (simp_all add: script_ops_def)

lemma scripted_poll: "scripted ops script sent \<Longrightarrow> script w = e # es \<Longrightarrow>
    \<exists>w'. platform_poll ops w = (e, w') \<and> script w' = es \<and> sent w' = sent w"
  and scripted_send: "scripted ops script sent \<Longrightarrow> rpmsg_send ops m w = (r, w') \<Longrightarrow>
    0 \<le> r \<and> script w' = script w \<and> sent w' = sent w @ [m]"
  unfolding scripted_def by blast+

lemma scripted_sent: "scripted ops script sent \<Longrightarrow>
    0 \<le> fst (rpmsg_send ops m w) \<and> script (snd (rpmsg_send ops m w)) = script w \<and>
    sent (snd (rpmsg_send ops m w)) = sent w @ [m]"
  by (rule scripted_send) simp_all

text \<open>
  One callback after the other: if a callback turns (globals, sent) into \<open>f g e\<close> and sends \<open>out g e\<close>,
  a batch of callbacks does so event by event.
\<close>

fun run_all :: "('g \<Rightarrow> event \<Rightarrow> 'g) \<Rightarrow> 'g \<Rightarrow> event list \<Rightarrow> 'g" where
  "run_all f g [] = g"
| "run_all f g (e # es) = run_all f (f g e) es"

fun out_all :: "('g \<Rightarrow> event \<Rightarrow> 'g) \<Rightarrow> ('g \<Rightarrow> event \<Rightarrow> bytes list) \<Rightarrow> 'g \<Rightarrow> event list \<Rightarrow> bytes list" where
  "out_all f out g [] = []"
| "out_all f out g (e # es) = out g e @ out_all f out (f g e) es"

lemma run_all_append: "run_all f g (es @ fs) = run_all f (run_all f g es) fs"
  by (induction es arbitrary: g) auto

lemma out_all_append:
  "out_all f out g (es @ fs) = out_all f out g es @ out_all f out (run_all f g es) fs"
  by (induction es arbitrary: g) auto

lemma run_events_scripted:
  assumes cb: "\<And>e g w. e \<in> set es \<Longrightarrow> ok g e \<Longrightarrow> \<exists>a w'. cb e (g, w) = Done (a, (f g e, w')) \<and>
       script w' = script w \<and> sent w' = sent w @ out g e"
    and "\<And>fs e gs. es = fs @ e # gs \<Longrightarrow> ok (run_all f g fs) e"
  shows "\<exists>w'. run_events cb es (g, w) = Done ((), (run_all f g es, w')) \<and>
           script w' = script w \<and> sent w' = sent w @ out_all f out g es"
  using assms
proof (induction es arbitrary: g w)
  case Nil
  then show ?case by simp
next
  case (Cons e es)
  have "ok g e" using Cons.prems(2) [of "[]" e es] by simp
  then obtain a w1 where w1: "cb e (g, w) = Done (a, (f g e, w1))"
    "script w1 = script w" "sent w1 = sent w @ out g e"
    using Cons.prems(1) [of e g w] by auto
  have "\<exists>w'. run_events cb es (f g e, w1) = Done ((), (run_all f (f g e) es, w')) \<and>
     script w' = script w1 \<and> sent w' = sent w1 @ out_all f out (f g e) es"
    by (rule Cons.IH) (use Cons.prems in \<open>auto\<close>, metis append_Cons run_all.simps(2))
  with w1 show ?case by auto
qed

text \<open>
  The server loop on a script \<open>bs @ [b] @ rest\<close>: when no batch before \<open>b\<close> takes the service down
  and \<open>b\<close> does, the loop is left after \<open>length bs + 1\<close> polls, every event of \<open>bs\<close> and \<open>b\<close>
  has been handled once and in order, and nothing of \<open>rest\<close> has been touched.
\<close>

lemma serve_scripted:
  assumes sc: "scripted ops script sent"
    and "script w = bs @ b # rest" and "length bs < n"
    and cb: "\<And>e g w. ok e \<Longrightarrow> \<exists>a w'. cb e (g, w) = Done (a, (f g e, w')) \<and>
       script w' = script w \<and> sent w' = sent w @ out g e"
    and ok: "\<And>e. e \<in> set (concat bs) \<union> set b \<Longrightarrow> ok e"
    and up: "\<And>k. 0 < k \<Longrightarrow> k \<le> length bs \<Longrightarrow> \<not> down (run_all f g (concat (take k bs)))"
    and dn: "down (run_all f g (concat bs @ b))"
  shows "\<exists>w'. serve n ops cb down (g, w) = Done ((), (run_all f g (concat bs @ b), w')) \<and>
           script w' = rest \<and> sent w' = sent w @ out_all f out g (concat bs @ b)"
  using assms(2,3) ok up dn
proof (induction bs arbitrary: n g w)
  case Nil
  then obtain m where n: "n = Suc m" by (cases n) auto
  from scripted_poll [OF sc] Nil.prems(1) obtain w1 where
    w1: "platform_poll ops w = (b, w1)" "script w1 = rest" "sent w1 = sent w" by fastforce
  from run_events_scripted [where es = b and ok = "\<lambda>_. ok" and cb = cb and f = f and out = out
      and script = script and sent = sent and g = g and w = w1] cb Nil.prems(3)
  obtain w2 where w2: "run_events cb b (g, w1) = Done ((), (run_all f g b, w2))"
    "script w2 = script w1" "sent w2 = sent w1 @ out_all f out g b" by auto
  with w1 Nil.prems(5) show ?case by (simp add: serve_def n poll_eq)
next
  case (Cons a bs)
  then obtain m where n: "n = Suc m" "length bs < m" by (cases n) auto
  from scripted_poll [OF sc] Cons.prems(1) obtain w1 where
    w1: "platform_poll ops w = (a, w1)" "script w1 = bs @ b # rest" "sent w1 = sent w" by fastforce
  from run_events_scripted [where es = a and ok = "\<lambda>_. ok" and cb = cb and f = f and out = out
      and script = script and sent = sent and g = g and w = w1] cb Cons.prems(3)
  obtain w2 where w2: "run_events cb a (g, w1) = Done ((), (run_all f g a, w2))"
    "script w2 = script w1" "sent w2 = sent w1 @ out_all f out g a" by auto
  have "\<not> down (run_all f g a)" using Cons.prems(4) [of 1] by simp
  then have step: "serve n ops cb down (g, w) = serve m ops cb down (run_all f g a, w2)"
    using w1 w2 by (simp add: serve_def n poll_eq)
  have "\<exists>w'. serve m ops cb down (run_all f g a, w2)
      = Done ((), (run_all f (run_all f g a) (concat bs @ b), w')) \<and> script w' = rest \<and>
        sent w' = sent w2 @ out_all f out (run_all f g a) (concat bs @ b)"
  proof (rule Cons.IH)
    show "script w2 = bs @ b # rest" using w1 w2 by simp
    show "length bs < m" by (rule n)
    show "\<And>e. e \<in> set (concat bs) \<union> set b \<Longrightarrow> ok e" using Cons.prems(3) by auto
    show "\<And>k. 0 < k \<Longrightarrow> k \<le> length bs \<Longrightarrow>
        \<not> down (run_all f (run_all f g a) (concat (take k bs)))"
      using Cons.prems(4) [of "Suc k" for k] by (auto simp: run_all_append)
    show "down (run_all f (run_all f g a) (concat bs @ b))"
      using Cons.prems(5) by (simp add: run_all_append)
  qed
  with step w1 w2 show ?case by (simp add: run_all_append out_all_append)
qed

end
