(* ===== verification/App_Main.thy ===== *)
theory App_Main
  imports Rpmsg_Api
begin

text \<open>
  The entry points of the applications.  Every \<open>main\<close> of the legacy applications has one of three
  shapes: the stand-alone main (initialise, run the application, clean up), the main of the
  generic system layer (as before, but it returns at once when the platform cannot be
  initialised), and the FreeRTOS task that runs the application again and again.  A platform is
  a record of the five functions of \<open>include/platform_info_common.h\<close>; the applications are
  linked against one of several implementations of it.
\<close>

section \<open>Services\<close>

definition RPMSG_SERVICE_NAME :: string where
  "RPMSG_SERVICE_NAME = ''rpmsg-openamp-demo-channel''"

definition SHUTDOWN_MSG :: u32 where
  "SHUTDOWN_MSG = 0xEF56A55A"

text \<open>The globals every service and every client of the demos has.\<close>

record server =
  shutdown_req :: int

record client =
  err_cnt :: int
  ept_deleted :: int

text \<open>
  The application of a remote service: an endpoint is created, callbacks are served until the
  service is asked down, and the endpoint is destroyed.
\<close>

definition service_app ::
    "nat \<Rightarrow> 'w rpmsg \<Rightarrow> string \<Rightarrow> ('w rpmsg \<Rightarrow> event \<Rightarrow> ('g \<times> 'w, unit) prog) \<Rightarrow> ('g \<Rightarrow> bool) \<Rightarrow>
     ('g \<times> 'w, int) prog" where
  "service_app n ops name cb down =
     bnd (ext (rpmsg_create_ept ops name (RPMSG_ADDR_ANY ops) (RPMSG_ADDR_ANY ops))) (\<lambda>r.
     if r \<noteq> 0 then ret (- 1)
     else seq (serve n ops (cb ops) down) (seq (extU (rpmsg_destroy_ept ops)) (ret 0)))"

text \<open>
  The contract of a service callback: on an event it accepts, it turns the globals \<open>g\<close> into
  \<open>f g e\<close> and sends \<open>out g e\<close>, whatever the world.  A service that keeps it works a whole
  script off in order, up to and including the poll that takes it down.
\<close>

locale service =
  fixes cb :: "'w rpmsg \<Rightarrow> event \<Rightarrow> ('g \<times> 'w, unit) prog"
    and f :: "'g \<Rightarrow> event \<Rightarrow> 'g" and out :: "'g \<Rightarrow> event \<Rightarrow> bytes list"
    and ok :: "'w rpmsg \<Rightarrow> event \<Rightarrow> bool" and down :: "'g \<Rightarrow> bool"
  assumes cb_law: "scripted ops script sent \<Longrightarrow> ok ops e \<Longrightarrow>
      \<exists>w'. cb ops e (g, w) = Done ((), (f g e, w')) \<and> script w' = script w \<and> sent w' = sent w @ out g e"
    and down_law: "down g \<Longrightarrow> down (f g e)"
begin

lemma app_run:
  assumes sc: "scripted ops script sent"
    and create: "rpmsg_create_ept ops name (RPMSG_ADDR_ANY ops) (RPMSG_ADDR_ANY ops) w = (0, w0)"
    and script: "script w0 = bs @ b # rest" and n: "length bs < n"
    and ok: "\<And>e. e \<in> set (concat bs) \<union> set b \<Longrightarrow> ok ops e"
    and up: "bs \<noteq> [] \<Longrightarrow> \<not> down (run_all f g (concat bs))" and dn: "down (run_all f g (concat bs @ b))"
  shows "\<exists>w'. service_app n ops name cb down (g, w)
      = Done (0, (run_all f g (concat bs @ b), rpmsg_destroy_ept ops w')) \<and>
    script w' = rest \<and> sent w' = sent w0 @ out_all f out g (concat bs @ b)"
proof -
  have mono: "down (run_all f h es)" if "down h" for h es
    using that by (induction es arbitrary: h) (auto intro: down_law)
  have "\<exists>w'. serve n ops (cb ops) down (g, w0) = Done ((), (run_all f g (concat bs @ b), w')) \<and>
      script w' = rest \<and> sent w' = sent w0 @ out_all f out g (concat bs @ b)"
  proof (rule serve_scripted [where ok = "ok ops" and script = script and sent = sent and down = down
        and f = f and out = out and g = g, OF sc script n _ ok _ dn])
    fix e g w assume "ok ops e"
    from cb_law [OF sc this] show "\<exists>a w'. cb ops e (g, w) = Done (a, (f g e, w')) \<and>
        script w' = script w \<and> sent w' = sent w @ out g e" by blast
  next
    fix k :: nat assume "0 < k" "k \<le> length bs"
    then have "bs \<noteq> []" by auto
    moreover have "run_all f g (concat bs)
        = run_all f (run_all f g (concat (take k bs))) (concat (drop k bs))"
      by (metis append_take_drop_id concat_append run_all_append)
    ultimately show "\<not> down (run_all f g (concat (take k bs)))" using up mono by metis
  qed auto
  with create show ?thesis by (auto simp: service_app_def)
qed

lemma app_no_endpoint:
  "rpmsg_create_ept ops name (RPMSG_ADDR_ANY ops) (RPMSG_ADDR_ANY ops) w = (r, w') \<Longrightarrow> r \<noteq> 0 \<Longrightarrow>
     service_app n ops name cb down (g, w) = Done (- 1, (g, w'))"
  by (simp add: service_app_def)

text \<open>
  A service that is down already leaves after one poll: that is how every later run of the
  application in the FreeRTOS task goes, because nothing clears the request.
\<close>

lemma app_stale:
  assumes "scripted ops script sent" and "down g"
    and "rpmsg_create_ept ops name (RPMSG_ADDR_ANY ops) (RPMSG_ADDR_ANY ops) w = (0, w0)"
    and "script w0 = b # rest" and "0 < n" and "\<And>e. e \<in> set b \<Longrightarrow> ok ops e"
  shows "\<exists>w'. service_app n ops name cb down (g, w) = Done (0, (run_all f g b, rpmsg_destroy_ept ops w')) \<and>
    script w' = rest \<and> sent w' = sent w0 @ out_all f out g b"
proof -
  have "down (run_all f g b)" using assms(2) by (induction b arbitrary: g) (auto intro: down_law)
  with app_run [OF assms(1,3), of "[]" b rest n g] assms(4-6) show ?thesis by simp
qed

end

section \<open>Entry points\<close>

datatype vdev_role = VIRTIO_DEV_DRIVER | VIRTIO_DEV_DEVICE

text \<open>
  \<open>platform_init\<close> returns its status and what it stored in \<open>*platform\<close> (nothing when it leaves
  the variable alone); \<open>platform_create_rpmsg_vdev\<close> returns the device or NULL.
\<close>

record ('p, 'r, 'w) plat =
  platform_init :: "('w, int \<times> 'p option) prog"
  platform_create_rpmsg_vdev :: "'p \<Rightarrow> nat \<Rightarrow> vdev_role \<Rightarrow> bool \<Rightarrow> ('w, 'r option) prog"
  platform_release_rpmsg_vdev :: "'r \<Rightarrow> 'p \<Rightarrow> 'w \<Rightarrow> 'w"
  platform_cleanup :: "'p \<Rightarrow> ('w, unit) prog"

text \<open>A local pointer variable: declared without a value, or holding one.\<close>

datatype 'p cvar = Uninit | Val 'p

fun stored :: "'p option \<Rightarrow> 'p cvar" where
  "stored None = Uninit"
| "stored (Some p) = Val p"

fun with_var :: "'p cvar \<Rightarrow> ('p \<Rightarrow> ('s, 'a) prog) \<Rightarrow> ('s, 'a) prog" where
  "with_var Uninit f = fail Uninit_read"
| "with_var (Val p) f = f p"

text \<open>Creation of the device, the application, and the release of the device.\<close>

definition run_on_vdev ::
    "('p, 'r, 'w) plat \<Rightarrow> vdev_role \<Rightarrow> bool \<Rightarrow> ('g \<times> 'w, int) prog \<Rightarrow> 'p \<Rightarrow> ('g \<times> 'w, int) prog" where
  "run_on_vdev pl role ns app p =
     bnd (callw (platform_create_rpmsg_vdev pl p 0 role ns)) (\<lambda>rpdev. case rpdev of
       None \<Rightarrow> ret (- 1)
     | Some r \<Rightarrow> seq app (seq (extU (platform_release_rpmsg_vdev pl r p)) (ret 0)))"

text \<open>The stand-alone main: \<open>platform_cleanup\<close> is reached on every path.\<close>

definition app_main ::
    "('p, 'r, 'w) plat \<Rightarrow> vdev_role \<Rightarrow> bool \<Rightarrow> ('g \<times> 'w, int) prog \<Rightarrow> ('g \<times> 'w, int) prog" where
  "app_main pl role ns app =
     bnd (callw (platform_init pl)) (\<lambda>(st, x).
       bnd (if st \<noteq> 0 then ret (- 1) else with_var (stored x) (run_on_vdev pl role ns app))
         (\<lambda>r. seq (with_var (stored x) (\<lambda>p. callw (platform_cleanup pl p))) (ret r)))"

text \<open>The main of the generic system layer: an early return when the initialisation fails.\<close>

definition generic_main ::
    "('p, 'r, 'w) plat \<Rightarrow> ('g \<times> 'w, int) prog \<Rightarrow> ('g \<times> 'w, int) prog" where
  "generic_main pl app =
     bnd (callw (platform_init pl)) (\<lambda>(st, x).
       if st \<noteq> 0 then ret st
       else bnd (with_var (stored x) (run_on_vdev pl VIRTIO_DEV_DEVICE False app))
         (\<lambda>r. seq (with_var (stored x) (\<lambda>p. callw (platform_cleanup pl p))) (ret r)))"

text \<open>The FreeRTOS task: the application runs until no device can be created any more.\<close>

definition listen_pass ::
    "('p, 'r, 'w) plat \<Rightarrow> ('g \<times> 'w, int) prog \<Rightarrow> 'p \<Rightarrow> ('g \<times> 'w, unit + unit) prog" where
  "listen_pass pl app p =
     bnd (callw (platform_create_rpmsg_vdev pl p 0 VIRTIO_DEV_DEVICE False)) (\<lambda>rpdev.
       case rpdev of None \<Rightarrow> ret (Inr ())
       | Some r \<Rightarrow> seq app (seq (extU (platform_release_rpmsg_vdev pl r p)) (ret (Inl ()))))"

definition listen_task ::
    "nat \<Rightarrow> ('p, 'r, 'w) plat \<Rightarrow> ('g \<times> 'w, int) prog \<Rightarrow> ('g \<times> 'w, unit) prog" where
  "listen_task n pl app =
     bnd (callw (platform_init pl)) (\<lambda>(st, x).
       if st \<noteq> 0 then ret ()
       else seq (iter n (\<lambda>_. with_var (stored x) (listen_pass pl app)) ())
              (with_var (stored x) (\<lambda>p. callw (platform_cleanup pl p))))"

text \<open>
  The FreeRTOS main: it creates the task, starts the scheduler, which runs the task, and never
  returns (\<open>while (1);\<close>).
\<close>

definition freertos_main ::
    "('w \<Rightarrow> bool \<times> 'w) \<Rightarrow> ('g \<times> 'w, unit) prog \<Rightarrow> ('g \<times> 'w, int) prog" where
  "freertos_main xTaskCreate task =
     bnd (ext xTaskCreate) (\<lambda>ok. if \<not> ok then (\<lambda>s. Blocked) else seq task (\<lambda>s. Blocked))"

section \<open>What a main relies on, and what it gives\<close>

text \<open>
  The contract of a platform that the mains need: started \<open>fresh\<close>, a successful initialisation stores a platform,
  and leaves it \<open>live\<close>; device creation and release keep it live; a clean-up ends it.
\<close>

locale platform_contract =
  fixes pl :: "('p, 'r, 'w) plat" and fresh :: "'w \<Rightarrow> bool" and live :: "'p \<Rightarrow> 'w \<Rightarrow> bool"
  assumes init_stores: "fresh w \<Longrightarrow> platform_init pl w = Done ((0, x), w') \<Longrightarrow> \<exists>p. x = Some p \<and> live p w'"
    and create_live: "live p w \<Longrightarrow> \<exists>d w'. platform_create_rpmsg_vdev pl p i role ns w = Done (d, w') \<and> live p w'"
    and release_live: "live p w \<Longrightarrow> live p (platform_release_rpmsg_vdev pl r p w)"
    and cleanup_ends: "live p w \<Longrightarrow> \<exists>w'. platform_cleanup pl p w = Done ((), w') \<and> \<not> live p w'"
begin

text \<open>
  After a successful initialisation a main never faults by itself: it runs the application at
  most once, on a live platform, cleans up exactly once, and returns 0 or -1.
\<close>

lemma run_on_vdev_cases:
  assumes "live p w"
    and app: "\<And>w. live p w \<Longrightarrow> \<exists>r g' w'. app (g, w) = Done (r, (g', w')) \<and> live p w' \<and> Q g'"
  shows "\<exists>r g' w'. run_on_vdev pl role ns app p (g, w) = Done (r, (g', w')) \<and> live p w' \<and>
     (r = - 1 \<and> g' = g \<or> r = 0 \<and> Q g')"
proof -
  from create_live [OF assms(1)] obtain d w1 where
    c: "platform_create_rpmsg_vdev pl p 0 role ns w = Done (d, w1)" and l: "live p w1" by blast
  show ?thesis
  proof (cases d)
    case None
    with c l show ?thesis by (simp add: run_on_vdev_def)
  next
    case (Some r)
    from app [OF l] obtain a g' w2 where "app (g, w1) = Done (a, (g', w2))" "live p w2" "Q g'"
      by blast
    with c Some show ?thesis by (auto simp: run_on_vdev_def intro: release_live)
  qed
qed

lemma app_main_ok:
  assumes f: "fresh w" and i: "platform_init pl w = Done ((0, x), w0)"
    and app: "\<And>p w. live p w \<Longrightarrow> \<exists>r g' w'. app (g, w) = Done (r, (g', w')) \<and> live p w' \<and> Q g'"
  shows "\<exists>r g' w'. app_main pl role ns app (g, w) = Done (r, (g', w')) \<and>
     (\<exists>p. x = Some p \<and> \<not> live p w') \<and> (r = - 1 \<and> g' = g \<or> r = 0 \<and> Q g')"
proof -
  from init_stores [OF f i] obtain p where p: "x = Some p" "live p w0" by blast
  from run_on_vdev_cases [where app = app and g = g and Q = Q, OF p(2) app, of role ns] obtain r g' w' where
    "run_on_vdev pl role ns app p (g, w0) = Done (r, (g', w'))" "live p w'"
    "r = - 1 \<and> g' = g \<or> r = 0 \<and> Q g'" by blast
  with i p show ?thesis by (auto simp: app_main_def dest: cleanup_ends)
qed

text \<open>
  With an application of which nothing is known but that it leaves the platform live when it returns: the generic main returns, or does
  what the application does when that does not return.
\<close>

lemma generic_main_cases:
  assumes f: "fresh w" and i: "platform_init pl w = Done ((st, x), w0)"
    and app: "\<And>p w r g' w'. live p w \<Longrightarrow> app (g, w) = Done (r, (g', w')) \<Longrightarrow> live p w' \<and> Q g'"
  shows "(\<exists>r g' w'. generic_main pl app (g, w) = Done (r, (g', w')) \<and> (r \<noteq> 0 \<and> g' = g \<or> r = 0 \<and> Q g')) \<or>
    (\<exists>p v. live p v \<and> (\<forall>y. app (g, v) \<noteq> Done y) \<and> generic_main pl app (g, w) = app (g, v))"
proof (cases "st = 0")
  case False
  with i show ?thesis by (simp add: generic_main_def)
next
  case True
  with init_stores [OF f] i obtain p where p: "x = Some p" "live p w0" by blast
  from create_live [OF p(2)] obtain d w1 where
    c: "platform_create_rpmsg_vdev pl p 0 VIRTIO_DEV_DEVICE False w0 = Done (d, w1)" and l: "live p w1" by blast
  show ?thesis
  proof (cases d)
    case None
    with i c p True cleanup_ends [OF l] show ?thesis by (auto simp: generic_main_def run_on_vdev_def)
  next
    case (Some r)
    show ?thesis
    proof (cases "app (g, w1)")
      case (Done y)
      then obtain a g' w2 where y: "app (g, w1) = Done (a, (g', w2))" by (cases y) auto
      with app [OF l y] cleanup_ends [OF release_live, of p w2 r] i c p True Some
      show ?thesis by (auto simp: generic_main_def run_on_vdev_def)
    qed (use i c p True Some l in \<open>auto simp: generic_main_def run_on_vdev_def intro!: exI [of _ p] exI [of _ w1]\<close>)
  qed
qed

lemma generic_main_ok:
  assumes f: "fresh w" and i: "platform_init pl w = Done ((st, x), w0)"
    and app: "\<And>p w. live p w \<Longrightarrow> \<exists>r g' w'. app (g, w) = Done (r, (g', w')) \<and> live p w' \<and> Q g'"
  shows "\<exists>r g' w'. generic_main pl app (g, w) = Done (r, (g', w')) \<and>
     (r \<noteq> 0 \<and> g' = g \<or> r = 0 \<and> Q g')"
proof -
  have keep: "live p v' \<and> Q g'" if "live p v" "app (g, v) = Done (r, (g', v'))" for p v r g' v' using app [OF that(1)] that(2) by auto
  have "(\<exists>r g' w'. generic_main pl app (g, w) = Done (r, (g', w')) \<and> (r \<noteq> 0 \<and> g' = g \<or> r = 0 \<and> Q g')) \<or>
    (\<exists>p v. live p v \<and> (\<forall>y. app (g, v) \<noteq> Done y) \<and> generic_main pl app (g, w) = app (g, v))"
    by (rule generic_main_cases [OF f i]) (rule keep)
  then show ?thesis using app by metis
qed

text \<open>One run of a main from the start to the end, on every step of which the calls are known to succeed.\<close>

lemma run_on_vdev_run:
  assumes "platform_create_rpmsg_vdev pl p 0 role ns w0 = Done (Some d, w1)" and "app (g, w1) = Done (a, (g', w2))" and "live p w2"
  shows "\<exists>w3. run_on_vdev pl role ns app p (g, w0) = Done (0, (g', platform_release_rpmsg_vdev pl d p w2)) \<and>
    platform_cleanup pl p (platform_release_rpmsg_vdev pl d p w2) = Done ((), w3) \<and> \<not> live p w3"
  using assms cleanup_ends [OF release_live [OF assms(3)]] by (simp add: run_on_vdev_def)

lemma app_main_run:
  assumes "platform_init pl w = Done ((0, Some p), w0)"
    and "platform_create_rpmsg_vdev pl p 0 role ns w0 = Done (Some d, w1)" and "app (g, w1) = Done (a, (g', w2))" and "live p w2"
  shows "\<exists>w3. app_main pl role ns app (g, w) = Done (0, (g', w3)) \<and> \<not> live p w3 \<and>
    platform_cleanup pl p (platform_release_rpmsg_vdev pl d p w2) = Done ((), w3)"
  using run_on_vdev_run [where app = app and g = g, OF assms(2-4)] assms(1) by (auto simp: app_main_def)

lemma generic_main_run:
  assumes "platform_init pl w = Done ((0, Some p), w0)"
    and "platform_create_rpmsg_vdev pl p 0 VIRTIO_DEV_DEVICE False w0 = Done (Some d, w1)"
    and "app (g, w1) = Done (a, (g', w2))" and "live p w2"
  shows "\<exists>w3. generic_main pl app (g, w) = Done (0, (g', w3)) \<and> \<not> live p w3 \<and>
    platform_cleanup pl p (platform_release_rpmsg_vdev pl d p w2) = Done ((), w3)"
  using run_on_vdev_run [where app = app and g = g, OF assms(2-4)] assms(1) by (auto simp: generic_main_def)

text \<open>The FreeRTOS task leaves its loop only by the clean-up, which ends the platform.\<close>

lemma listen_pass_live:
  assumes "listen_pass pl app p (h, v) = Done (x, (h', v'))" and "live p v"
    and app: "\<And>g w. live p w \<Longrightarrow> \<exists>r g' w'. app (g, w) = Done (r, (g', w')) \<and> live p w'"
  shows "live p v'"
proof -
  from create_live [OF assms(2)] obtain d v1 where
    d: "platform_create_rpmsg_vdev pl p 0 VIRTIO_DEV_DEVICE False v = Done (d, v1)" "live p v1" by blast
  from app [OF d(2), of h] obtain r g w where "app (h, v1) = Done (r, (g, w))" "live p w" by blast
  with assms(1) d show ?thesis by (cases d) (auto simp: listen_pass_def intro: release_live)
qed

lemma listen_task_cleans:
  assumes "listen_task n pl app (g, w) = Done (u, (g', w'))"
    and i: "platform_init pl w = Done ((0, Some p), w0)" and "live p w0"
    and app: "\<And>g w. live p w \<Longrightarrow> \<exists>r g' w'. app (g, w) = Done (r, (g', w')) \<and> live p w'"
  shows "\<not> live p w'"
proof -
  from assms(1) i obtain h v where l: "iter n (\<lambda>_. listen_pass pl app p) () (g, w0) = Done ((), (h, v))"
    and c: "platform_cleanup pl p v = Done ((), w')"
    by (auto simp: listen_task_def obind_eq_Done_iff)
  have pass: "live p v'" if "listen_pass pl app p (h, v) = Done (x, (h', v'))" "live p v" for h v x h' v'
    using that app by (rule listen_pass_live)
  have "(\<lambda>r (h, v). live p v) () (h, v)"
    by (rule iter_inv [OF l, where I = "\<lambda>_ (h, v). live p v"]) (use assms(3) in \<open>auto dest: pass\<close>)
  with cleanup_ends [of p v] c show ?thesis by auto
qed

end

text \<open>The FreeRTOS task over the connections \<open>cs\<close> that will come up: one pass of its loop for each, and a last one without.\<close>

lemma listen_task_run:
  assumes "platform_init pl w = Done ((0, Some p), w0)" and "R cs (g, w0)" and "length cs < n"
    and pass: "\<And>c cs s. R (c # cs) s \<Longrightarrow> \<exists>t. listen_pass pl app p s = Done (Inl (), t) \<and> R cs t"
    and stop: "\<And>s. R [] s \<Longrightarrow> \<exists>t. listen_pass pl app p s = Done (Inr (), t) \<and> E t"
  shows "\<exists>t. E t \<and> listen_task n pl app (g, w) = callw (platform_cleanup pl p) t"
proof -
  have "\<exists>t. E t \<and> iter n (\<lambda>_. listen_pass pl app p) () s = Done ((), t)" if "R cs s" "length cs < n" for s
    using that
  proof (induction cs arbitrary: s n)
    case Nil
    then show ?case using stop [of s] by (cases n) auto
  next
    case (Cons c cs)
    obtain t where "listen_pass pl app p s = Done (Inl (), t)" "R cs t" using pass [OF Cons.prems(1)] by blast
    with Cons show ?case by (cases n) auto
  qed
  with assms(1-3) show ?thesis by (force simp: listen_task_def)
qed

text \<open>
  The stand-alone mains hand the uninitialised variable to \<open>platform_cleanup\<close> when
  \<open>platform_init\<close> fails without storing anything.
\<close>

lemma app_main_init_failed:
  "platform_init pl w = Done ((st, None), w') \<Longrightarrow> st \<noteq> 0 \<Longrightarrow>
     app_main pl role ns app (g, w) = Fault Uninit_read"
  by (simp add: app_main_def)

lemma generic_main_init_failed:
  "platform_init pl w = Done ((st, x), w') \<Longrightarrow> st \<noteq> 0 \<Longrightarrow> generic_main pl app (g, w) = Done (st, (g, w'))"
  by (simp add: generic_main_def)

lemma freertos_main_never_returns: "freertos_main xTaskCreate task s \<noteq> Done r"
  by (cases s) (auto simp: freertos_main_def obind_eq_Done_iff)

end
