(* ===== verification/Echo_Service.thy ===== *)
theory Echo_Service
  imports App_Main
begin

text \<open>
  The remote sides of the echo demos: \<open>examples/echo/rpmsg-echo.c\<close>, \<open>tests/msg/rpmsg-update.c\<close>
  (which retries while no buffer is free), and \<open>rpmsg_sample_echo/rpmsg-sample-echo.c\<close> (which
  stops after 100 messages).  Each interprets the \<open>service\<close> contract, and the lemmas say which
  messages are sent back, in which order, and when the service goes down.
\<close>

section \<open>The echo service\<close>

definition echo_endpoint_cb :: "'w rpmsg \<Rightarrow> bytes \<Rightarrow> (server \<times> 'w, int) prog" where
  "echo_endpoint_cb ops data =
     (if length data < 4 then fail Out_of_bounds
      else if get32 0 data = SHUTDOWN_MSG
      then seq (updg (\<lambda>g. g\<lparr>shutdown_req := 1\<rparr>)) (ret (RPMSG_SUCCESS ops))
      else seq (ext (rpmsg_send ops data)) (ret (RPMSG_SUCCESS ops)))"

definition echo_service_unbind :: "(server \<times> 'w, unit) prog" where
  "echo_service_unbind = updg (\<lambda>g. g\<lparr>shutdown_req := 1\<rparr>)"

fun echo_cb :: "'w rpmsg \<Rightarrow> event \<Rightarrow> (server \<times> 'w, unit) prog" where
  "echo_cb ops (Rx h data src) = seq (echo_endpoint_cb ops data) (ret ())"
| "echo_cb ops (Ns_bind name dest) = ret ()"
| "echo_cb ops Ns_unbind = echo_service_unbind"

definition rpmsg_echo_app :: "nat \<Rightarrow> 'w rpmsg \<Rightarrow> (server \<times> 'w, int) prog" where
  "rpmsg_echo_app n ops = service_app n ops RPMSG_SERVICE_NAME echo_cb (\<lambda>g. shutdown_req g \<noteq> 0)"

text \<open>The three mains of the echo service.\<close>

definition echo_main :: "nat \<Rightarrow> ('p, 'r, 'w) plat \<Rightarrow> 'w rpmsg \<Rightarrow> (server \<times> 'w, int) prog" where
  "echo_main n pl ops = generic_main pl (rpmsg_echo_app n ops)"

definition echo_generic_main :: "nat \<Rightarrow> ('p, 'r, 'w) plat \<Rightarrow> 'w rpmsg \<Rightarrow> (server \<times> 'w, int) prog" where
  "echo_generic_main n pl ops = generic_main pl (rpmsg_echo_app n ops)"

definition echo_listen_task :: "nat \<Rightarrow> ('p, 'r, 'w) plat \<Rightarrow> 'w rpmsg \<Rightarrow> (server \<times> 'w, unit) prog" where
  "echo_listen_task n pl ops = listen_task n pl (rpmsg_echo_app n ops)"

definition echo_freertos_main ::
    "nat \<Rightarrow> ('w \<Rightarrow> bool \<times> 'w) \<Rightarrow> ('p, 'r, 'w) plat \<Rightarrow> 'w rpmsg \<Rightarrow> (server \<times> 'w, int) prog" where
  "echo_freertos_main n xTaskCreate pl ops = freertos_main xTaskCreate (echo_listen_task n pl ops)"

section \<open>The update test service\<close>

text \<open>The send is repeated while the library reports that no buffer is free.\<close>

definition send_retry :: "nat \<Rightarrow> 'w rpmsg \<Rightarrow> bytes \<Rightarrow> ('g \<times> 'w, int) prog" where
  "send_retry n ops data =
     iter n (\<lambda>_. bnd (ext (rpmsg_send ops data)) (\<lambda>r.
       if r = RPMSG_ERR_NO_BUFF ops then ret (Inl ()) else ret (Inr r))) ()"

definition update_endpoint_cb :: "nat \<Rightarrow> 'w rpmsg \<Rightarrow> bytes \<Rightarrow> (server \<times> 'w, int) prog" where
  "update_endpoint_cb n ops data =
     (if length data < 4 then fail Out_of_bounds
      else if get32 0 data = SHUTDOWN_MSG
      then seq (updg (\<lambda>g. g\<lparr>shutdown_req := 1\<rparr>)) (ret (RPMSG_SUCCESS ops))
      else seq (send_retry n ops data) (ret (RPMSG_SUCCESS ops)))"

definition update_service_unbind :: "(server \<times> 'w, unit) prog" where
  "update_service_unbind = updg (\<lambda>g. g\<lparr>shutdown_req := 1\<rparr>)"

fun update_cb :: "nat \<Rightarrow> 'w rpmsg \<Rightarrow> event \<Rightarrow> (server \<times> 'w, unit) prog" where
  "update_cb n ops (Rx h data src) = seq (update_endpoint_cb n ops data) (ret ())"
| "update_cb n ops (Ns_bind name dest) = ret ()"
| "update_cb n ops Ns_unbind = update_service_unbind"

definition update_app :: "nat \<Rightarrow> 'w rpmsg \<Rightarrow> (server \<times> 'w, int) prog" where
  "update_app n ops = service_app n ops RPMSG_SERVICE_NAME (update_cb n) (\<lambda>g. shutdown_req g \<noteq> 0)"

definition update_main :: "nat \<Rightarrow> ('p, 'r, 'w) plat \<Rightarrow> 'w rpmsg \<Rightarrow> (server \<times> 'w, int) prog" where
  "update_main n pl ops = app_main pl VIRTIO_DEV_DEVICE False (update_app n ops)"

section \<open>The sample echo service\<close>

definition SAMPLE_SERV_NAME :: string where
  "SAMPLE_SERV_NAME = ''rpmsg-client-sample''"

definition MSG_LIMIT :: u32 where
  "MSG_LIMIT = 100"

text \<open>\<open>count\<close> is the static counter of the callback.\<close>

record sample_server = server +
  count :: u32

text \<open>
  The message is copied into a zeroed buffer of \<open>RPMSG_BUFFER_SIZE\<close> bytes and printed from there
  as a string, which needs a terminating zero inside the buffer.
\<close>

definition sample_echo_endpoint_cb :: "'w rpmsg \<Rightarrow> bytes \<Rightarrow> (sample_server \<times> 'w, int) prog" where
  "sample_echo_endpoint_cb ops data =
     bnd (lift (put_bytes 0 data (replicate (RPMSG_BUFFER_SIZE ops) 0))) (\<lambda>payload.
     seq (updg (\<lambda>g. g\<lparr>count := count g + 1\<rparr>))
    (bnd (getg count) (\<lambda>c.
       if c \<le> MSG_LIMIT
       then if \<not> list_ex (\<lambda>b. b = 0) payload then fail Out_of_bounds
            else bnd (ext (rpmsg_send ops data)) (\<lambda>r.
              if r < 0 \<or> c = MSG_LIMIT
              then seq (updg (\<lambda>g. g\<lparr>shutdown_req := 1\<rparr>)) (ret (RPMSG_SUCCESS ops))
              else ret (RPMSG_SUCCESS ops))
       else ret (RPMSG_SUCCESS ops))))"

definition sample_echo_unbind :: "(sample_server \<times> 'w, unit) prog" where
  "sample_echo_unbind = updg (\<lambda>g. g\<lparr>shutdown_req := 1\<rparr>)"

fun sample_echo_cb :: "'w rpmsg \<Rightarrow> event \<Rightarrow> (sample_server \<times> 'w, unit) prog" where
  "sample_echo_cb ops (Rx h data src) = seq (sample_echo_endpoint_cb ops data) (ret ())"
| "sample_echo_cb ops (Ns_bind name dest) = ret ()"
| "sample_echo_cb ops Ns_unbind = sample_echo_unbind"

definition sample_echo_app :: "nat \<Rightarrow> 'w rpmsg \<Rightarrow> (sample_server \<times> 'w, int) prog" where
  "sample_echo_app n ops = service_app n ops SAMPLE_SERV_NAME sample_echo_cb (\<lambda>g. shutdown_req g \<noteq> 0)"

definition sample_echo_main :: "nat \<Rightarrow> ('p, 'r, 'w) plat \<Rightarrow> 'w rpmsg \<Rightarrow> (sample_server \<times> 'w, int) prog" where
  "sample_echo_main n pl ops = app_main pl VIRTIO_DEV_DEVICE False (sample_echo_app n ops)"

section \<open>What the services do\<close>

text \<open>An event that takes an echo service down, and one that is sent back.\<close>

fun stops :: "event \<Rightarrow> bool" where
  "stops (Rx h data src) \<longleftrightarrow> get32 0 data = SHUTDOWN_MSG"
| "stops (Ns_bind name dest) \<longleftrightarrow> False"
| "stops Ns_unbind \<longleftrightarrow> True"

fun echoed :: "event \<Rightarrow> bool" where
  "echoed (Rx h data src) \<longleftrightarrow> get32 0 data \<noteq> SHUTDOWN_MSG"
| "echoed e \<longleftrightarrow> False"

fun readable :: "event \<Rightarrow> bool" where
  "readable (Rx h data src) \<longleftrightarrow> 4 \<le> length data"
| "readable e \<longleftrightarrow> True"

definition echo_step :: "server \<Rightarrow> event \<Rightarrow> server" where
  "echo_step g e = (if stops e then g\<lparr>shutdown_req := 1\<rparr> else g)"

definition echo_out :: "server \<Rightarrow> event \<Rightarrow> bytes list" where
  "echo_out g e = (if echoed e then [rx_data e] else [])"

interpretation echo: service echo_cb echo_step echo_out "\<lambda>ops. readable" "\<lambda>g. shutdown_req g \<noteq> 0"
proof
  fix ops :: "'w rpmsg" and script sent and e :: event and g :: server and w
  assume sc: "scripted ops script sent" and "readable e"
  then show "\<exists>w'. echo_cb ops e (g, w) = Done ((), (echo_step g e, w')) \<and> script w' = script w \<and>
      sent w' = sent w @ echo_out g e"
    using scripted_sent [OF sc, of "rx_data e" w]
    by (cases e) (auto simp: echo_endpoint_cb_def echo_service_unbind_def echo_step_def echo_out_def)
qed (simp add: echo_step_def)

interpretation update: service "update_cb (Suc k)" echo_step echo_out
  "\<lambda>ops e. readable e \<and> RPMSG_ERR_NO_BUFF ops < 0" "\<lambda>g. shutdown_req g \<noteq> 0" for k
proof
  fix ops :: "'w rpmsg" and script sent and e :: event and g :: server and w
  assume sc: "scripted ops script sent" and "readable e \<and> RPMSG_ERR_NO_BUFF ops < 0"
  then show "\<exists>w'. update_cb (Suc k) ops e (g, w) = Done ((), (echo_step g e, w')) \<and>
      script w' = script w \<and> sent w' = sent w @ echo_out g e"
    using scripted_sent [OF sc, of "rx_data e" w]
    by (cases e) (auto simp: update_endpoint_cb_def send_retry_def update_service_unbind_def
        echo_step_def echo_out_def)
qed (simp add: echo_step_def)

lemma shutdown_run_all: "shutdown_req (run_all echo_step g es) = (if list_ex stops es then 1 else shutdown_req g)"
  by (induction es arbitrary: g) (auto simp: echo_step_def)

lemma run_all_echo: "run_all echo_step g es = (if list_ex stops es then g\<lparr>shutdown_req := 1\<rparr> else g)"
  by (induction es arbitrary: g) (auto simp: echo_step_def)

lemma out_all_echo: "out_all echo_step echo_out g es = map rx_data (filter echoed es)"
  by (induction es arbitrary: g) (auto simp: echo_out_def)

text \<open>
  With a library that reports no free buffer \<open>k\<close> times, the update service sends its answer
  at the \<open>k + 1\<close>-st attempt.
\<close>

lemma send_retry_run:
  assumes "\<And>j. j < k \<Longrightarrow> rpmsg_send ops data (W j) = (RPMSG_ERR_NO_BUFF ops, W (Suc j))"
    and "rpmsg_send ops data (W k) = (r, w')" and "r \<noteq> RPMSG_ERR_NO_BUFF ops" and "k < n"
  shows "send_retry n ops data (g, W 0) = Done (r, (g, w'))"
  unfolding send_retry_def
  by (rule iter_run [where L = "\<lambda>_. ()" and S = "\<lambda>j. (g, W j)" and m = k]) (use assms in auto)

section \<open>The sample service stops after its limit\<close>

definition sample_step :: "sample_server \<Rightarrow> event \<Rightarrow> sample_server" where
  "sample_step g e =
     (if is_Rx e then if count g + 1 = MSG_LIMIT then g\<lparr>count := count g + 1, shutdown_req := 1\<rparr>
                      else g\<lparr>count := count g + 1\<rparr>
      else if stops e then g\<lparr>shutdown_req := 1\<rparr> else g)"

definition sample_out :: "sample_server \<Rightarrow> event \<Rightarrow> bytes list" where
  "sample_out g e = (if is_Rx e \<and> count g + 1 \<le> MSG_LIMIT then [rx_data e] else [])"

fun sample_ok :: "'w rpmsg \<Rightarrow> event \<Rightarrow> bool" where
  "sample_ok ops (Rx h data src) \<longleftrightarrow> length data < RPMSG_BUFFER_SIZE ops"
| "sample_ok ops e \<longleftrightarrow> True"

interpretation sample: service sample_echo_cb sample_step sample_out sample_ok "\<lambda>g. shutdown_req g \<noteq> 0"
proof
  fix ops :: "'w rpmsg" and script sent and e :: event and g :: sample_server and w
  assume sc: "scripted ops script sent" and "sample_ok ops e"
  then show "\<exists>w'. sample_echo_cb ops e (g, w) = Done ((), (sample_step g e, w')) \<and>
      script w' = script w \<and> sent w' = sent w @ sample_out g e"
    using scripted_sent [OF sc, of "rx_data e" w]
    by (cases e) (auto simp: sample_echo_endpoint_cb_def sample_echo_unbind_def sample_step_def
        sample_out_def put_bytes_def list_ex_iff)
qed (simp add: sample_step_def)

lemma sample_count:
  assumes "unat (count g) + length (filter is_Rx es) < 2 ^ 32"
  shows "unat (count (run_all sample_step g es)) = unat (count g) + length (filter is_Rx es)"
  using assms
proof (induction es arbitrary: g)
  case Nil
  then show ?case by simp
next
  case (Cons e es)
  show ?case
  proof (cases "is_Rx e")
    case True
    with Cons.prems have "unat (count g + 1) = Suc (unat (count g))" by (auto simp: unat_word_ariths)
    moreover have "count (sample_step g e) = count g + 1" using True by (simp add: sample_step_def)
    ultimately have "unat (count (sample_step g e)) = Suc (unat (count g))" by simp
    with Cons.IH [of "sample_step g e"] Cons.prems True show ?thesis by simp
  next
    case False
    then have "count (sample_step g e) = count g" by (simp add: sample_step_def)
    with Cons.IH [of "sample_step g e"] Cons.prems False show ?thesis by simp
  qed
qed

lemma sample_out_all:
  assumes "unat (count g) + length (filter is_Rx es) < 2 ^ 32"
  shows "out_all sample_step sample_out g es
    = take (100 - unat (count g)) (map rx_data (filter is_Rx es))"
  using assms
proof (induction es arbitrary: g)
  case Nil
  then show ?case by simp
next
  case (Cons e es)
  show ?case
  proof (cases "is_Rx e")
    case True
    with Cons.prems have c: "unat (count g + 1) = Suc (unat (count g))" by (auto simp: unat_word_ariths)
    then have "count g + 1 \<le> MSG_LIMIT \<longleftrightarrow> unat (count g) < 100"
      by (simp add: word_le_nat_alt MSG_LIMIT_def Suc_le_eq)
    moreover have "count (sample_step g e) = count g + 1" using True by (simp add: sample_step_def)
    moreover have "100 - unat (count g) = Suc (99 - unat (count g))" if "unat (count g) < 100"
      using that by simp
    ultimately show ?thesis
      using Cons.IH [of "sample_step g e"] Cons.prems True c
      by (cases "unat (count g) < 100") (auto simp: sample_out_def)
  next
    case False
    then have "count (sample_step g e) = count g" by (simp add: sample_step_def)
    with Cons.IH [of "sample_step g e"] Cons.prems False show ?thesis by (simp add: sample_out_def)
  qed
qed

lemma sample_down:
  assumes "unat (count g) + length (filter is_Rx es) < 2 ^ 32" and "unat (count g) < 100"
    and "list_all is_Rx es"
  shows "shutdown_req (run_all sample_step g es)
    = (if 100 \<le> unat (count g) + length es then 1 else shutdown_req g)"
  using assms
proof (induction es rule: rev_induct)
  case Nil
  then show ?case by simp
next
  case (snoc e es)
  let ?g = "run_all sample_step g es"
  have rx: "filter is_Rx es = es" using snoc.prems(3) by (simp add: list_all_iff filter_id_conv)
  have c: "unat (count ?g) = unat (count g) + length es"
    using sample_count [of g es] snoc.prems rx by simp
  then have "unat (count ?g + 1) = Suc (unat (count g) + length es)"
    using snoc.prems rx by (auto simp: unat_word_ariths)
  then have "count ?g + 1 = MSG_LIMIT \<longleftrightarrow> Suc (unat (count g) + length es) = 100"
    by (simp add: word_unat_eq_iff MSG_LIMIT_def)
  with snoc rx show ?case by (auto simp: run_all_append sample_step_def [of ?g e])
qed

section \<open>Properties\<close>

text \<open>
  C14. The echo service over a peer that talks by a script: it returns 0 after the first poll
  with a shutdown message or an unbind, it has sent back every other message of the polls up to
  that one, unchanged and in order, and it has touched nothing of the rest of the script.
\<close>

theorem echo_app_serves:
  assumes "scripted ops script sent"
    and "rpmsg_create_ept ops RPMSG_SERVICE_NAME (RPMSG_ADDR_ANY ops) (RPMSG_ADDR_ANY ops) w = (0, w0)"
    and "script w0 = bs @ b # rest" and "length bs < n" and "shutdown_req g = 0"
    and "list_all readable (concat bs @ b)" and "\<not> list_ex stops (concat bs)" and "list_ex stops b"
  shows "\<exists>w'. rpmsg_echo_app n ops (g, w) = Done (0, (g\<lparr>shutdown_req := 1\<rparr>, rpmsg_destroy_ept ops w')) \<and>
    script w' = rest \<and> sent w' = sent w0 @ map rx_data (filter echoed (concat bs @ b))"
proof -
  have "readable e" if "e \<in> set (concat bs) \<union> set b" for e
    using assms(6) that by (auto simp: list_all_iff)
  from echo.app_run [OF assms(1-4) this, of g] show ?thesis
    using assms(5,7,8) by (simp add: rpmsg_echo_app_def shutdown_run_all run_all_echo out_all_echo)
qed

theorem echo_app_serves_witness:
  "\<exists>w'. rpmsg_echo_app 5 script_ops (\<lparr>shutdown_req = 0\<rparr>,
      ([[Rx 0 (le32 7) 3, Rx 1 (le32 8) 3], [Rx 2 (le32 SHUTDOWN_MSG) 3, Rx 3 (le32 9) 3], [Ns_unbind]], []))
    = Done (0, (\<lparr>shutdown_req = 1\<rparr>, rpmsg_destroy_ept script_ops w')) \<and> fst w' = [[Ns_unbind]] \<and>
      snd w' = [le32 7, le32 8, le32 9]"
  using echo_app_serves [OF script_ops_scripted, of
      "([[Rx 0 (le32 7) 3, Rx 1 (le32 8) 3], [Rx 2 (le32 SHUTDOWN_MSG) 3, Rx 3 (le32 9) 3], [Ns_unbind]], [])"
      "([[Rx 0 (le32 7) 3, Rx 1 (le32 8) 3], [Rx 2 (le32 SHUTDOWN_MSG) 3, Rx 3 (le32 9) 3], [Ns_unbind]], [])"
      "[[Rx 0 (le32 7) 3, Rx 1 (le32 8) 3]]" "[Rx 2 (le32 SHUTDOWN_MSG) 3, Rx 3 (le32 9) 3]" "[[Ns_unbind]]" 5
      "\<lparr>shutdown_req = 0\<rparr>"]
  by (simp add: get32_hd [of _ "[]", simplified] SHUTDOWN_MSG_def)

text \<open>
  The update service on a library that never lacks buffers does exactly what the echo
  service does, with any number of retries allowed.
\<close>

theorem update_app_serves:
  assumes "scripted ops script sent" and "RPMSG_ERR_NO_BUFF ops < 0"
    and "rpmsg_create_ept ops RPMSG_SERVICE_NAME (RPMSG_ADDR_ANY ops) (RPMSG_ADDR_ANY ops) w = (0, w0)"
    and "script w0 = bs @ b # rest" and "length bs < n" and "shutdown_req g = 0"
    and "list_all readable (concat bs @ b)" and "\<not> list_ex stops (concat bs)" and "list_ex stops b"
  shows "\<exists>w'. update_app n ops (g, w) = Done (0, (g\<lparr>shutdown_req := 1\<rparr>, rpmsg_destroy_ept ops w')) \<and>
    script w' = rest \<and> sent w' = sent w0 @ map rx_data (filter echoed (concat bs @ b))"
proof -
  obtain k where n: "n = Suc k" using assms(5) by (cases n) auto
  have "readable e \<and> RPMSG_ERR_NO_BUFF ops < 0" if "e \<in> set (concat bs) \<union> set b" for e
    using assms(2,7) that by (auto simp: list_all_iff)
  from update.app_run [OF assms(1,3,4,5) this, where k = k and g = g] show ?thesis
    using assms(6,8,9) by (simp add: update_app_def n shutdown_run_all run_all_echo out_all_echo)
qed

theorem update_app_serves_witness:
  "\<exists>w'. update_app 2 script_ops (\<lparr>shutdown_req = 0\<rparr>, ([[Rx 0 (le32 7) 3], [Ns_unbind]], []))
    = Done (0, (\<lparr>shutdown_req = 1\<rparr>, rpmsg_destroy_ept script_ops w')) \<and> fst w' = [] \<and> snd w' = [le32 7]"
  using update_app_serves [OF script_ops_scripted, of
      "([[Rx 0 (le32 7) 3], [Ns_unbind]], [])" "([[Rx 0 (le32 7) 3], [Ns_unbind]], [])"
      "[[Rx 0 (le32 7) 3]]" "[Ns_unbind]" "[]" 2 "\<lparr>shutdown_req = 0\<rparr>"]
  by (simp add: get32_hd [of _ "[]", simplified] SHUTDOWN_MSG_def)

text \<open>
  C36. The sample service answers exactly the first 100 messages: when the poll \<open>b\<close> brings the
  total to 100 or more, the service returns, and it has sent the first 100 messages back.
\<close>

theorem sample_echo_app_serves:
  assumes "scripted ops script sent"
    and "rpmsg_create_ept ops SAMPLE_SERV_NAME (RPMSG_ADDR_ANY ops) (RPMSG_ADDR_ANY ops) w = (0, w0)"
    and "script w0 = bs @ b # rest" and "length bs < n" and "shutdown_req g = 0" and "count g = 0"
    and "list_all (sample_ok ops) (concat bs @ b)" and "list_all is_Rx (concat bs @ b)"
    and "length (concat bs) < 100" and "100 \<le> length (concat bs @ b)" and "length (concat bs @ b) < 2 ^ 32"
  shows "\<exists>g' w'. sample_echo_app n ops (g, w) = Done (0, (g', rpmsg_destroy_ept ops w')) \<and>
    script w' = rest \<and> sent w' = sent w0 @ take 100 (map rx_data (concat bs @ b))"
proof -
  let ?es = "concat bs @ b"
  have rx: "filter is_Rx ?es = ?es" "list_all is_Rx (concat bs)"
    using assms(8) by (auto simp: list_all_iff filter_id_conv)
  have c0: "unat (count g) = 0" using assms(6) by simp
  have len: "unat (count g) + length (filter is_Rx ?es) < 2 ^ 32"
    unfolding rx(1) c0 using assms(11) by simp
  have "sample_ok ops e" if "e \<in> set (concat bs) \<union> set b" for e
    using assms(7) that by (auto simp: list_all_iff)
  moreover have "\<not> shutdown_req (run_all sample_step g (concat bs)) \<noteq> 0"
    using sample_down [of g "concat bs"] rx(2) assms(5,9) c0
    by (simp add: le_less_trans [OF length_filter_le])
  moreover have "shutdown_req (run_all sample_step g ?es) \<noteq> 0"
    using sample_down [OF len _ assms(8)] assms(10) c0 by simp
  ultimately have "\<exists>w'. service_app n ops SAMPLE_SERV_NAME sample_echo_cb (\<lambda>g. shutdown_req g \<noteq> 0) (g, w)
      = Done (0, (run_all sample_step g ?es, rpmsg_destroy_ept ops w')) \<and> script w' = rest \<and>
        sent w' = sent w0 @ out_all sample_step sample_out g ?es"
    by (rule sample.app_run [OF assms(1-4)])
  then show ?thesis
    using sample_out_all [OF len, unfolded rx(1) c0] by (auto simp: sample_echo_app_def)
qed

theorem sample_echo_app_serves_witness:
  "\<exists>g' w'. sample_echo_app 1 script_ops (\<lparr>shutdown_req = 0, count = 0\<rparr>, ([replicate 102 (Rx 0 [72, 105] 3)], []))
    = Done (0, (g', rpmsg_destroy_ept script_ops w')) \<and> fst w' = [] \<and> snd w' = replicate 100 [72, 105]"
  using sample_echo_app_serves [OF script_ops_scripted, of
      "([replicate 102 (Rx 0 [72, 105] 3)], [])" "([replicate 102 (Rx 0 [72, 105] 3)], [])" "[]"
      "replicate 102 (Rx 0 [72, 105] 3)" "[]" 1 "\<lparr>shutdown_req = 0, count = 0\<rparr>"]
  by (simp add: list_all_iff)

text \<open>
  Nothing clears the shutdown request: an echo service that is started again after a
  shutdown (as the FreeRTOS task does) returns 0 after a single poll, whatever the peer sends.
\<close>

theorem echo_app_restart_stale:
  assumes "scripted ops script sent" and "shutdown_req g \<noteq> 0"
    and "rpmsg_create_ept ops RPMSG_SERVICE_NAME (RPMSG_ADDR_ANY ops) (RPMSG_ADDR_ANY ops) w = (0, w0)"
    and "script w0 = b # rest" and "0 < n" and "list_all readable b"
  shows "\<exists>g' w'. rpmsg_echo_app n ops (g, w) = Done (0, (g', rpmsg_destroy_ept ops w')) \<and> script w' = rest"
  using echo.app_stale [OF assms(1-5)] assms(6) by (auto simp: rpmsg_echo_app_def list_all_iff)

theorem echo_app_restart_stale_witness:
  "\<exists>g' w'. rpmsg_echo_app 1 script_ops (\<lparr>shutdown_req = 1\<rparr>, ([[], [Rx 0 (le32 7) 3]], []))
    = Done (0, (g', rpmsg_destroy_ept script_ops w')) \<and> fst w' = [[Rx 0 (le32 7) 3]]"
  using echo_app_restart_stale [OF script_ops_scripted, of "\<lparr>shutdown_req = 1\<rparr>"
      "([[], [Rx 0 (le32 7) 3]], [])" "([[], [Rx 0 (le32 7) 3]], [])" "[]" "[[Rx 0 (le32 7) 3]]" 1]
  by simp

end
