(* ===== verification/Matrix_Demo.thy ===== *)
theory Matrix_Demo
  imports Matrix_Core Echo_Service
begin

text \<open>
  The matrix-multiply demo: the host application (\<open>matrix_multiply.c\<close>), which sends two random
  matrices 200 times and checks every product it gets back, and the remote service
  (\<open>matrix_multiplyd.c\<close>).  The lemmas show what each callback does on every message, that the
  service answers a pair of matrices with their product, and that the two programs put
  together finish 200 rounds without an error.
\<close>

section \<open>The host\<close>

record host = client +
  i_matrix :: "matrix list"
  e_matrix :: matrix
  result_returned :: u32
  rand_calls :: nat

text \<open>The number of rows in which a result differs from the expected matrix (\<open>break\<close> on the first).\<close>

definition bad_rows :: "matrix \<Rightarrow> matrix \<Rightarrow> nat" where
  "bad_rows r e = length (filter (\<lambda>i.
     list_ex (\<lambda>j. fun_of r i j \<noteq> fun_of e i j) [0..<MAX_SIZE]) [0..<MAX_SIZE])"

definition matrix_endpoint_cb :: "'w rpmsg \<Rightarrow> bytes \<Rightarrow> (host \<times> 'w, int) prog" where
  "matrix_endpoint_cb ops data =
     (if length data \<noteq> matrix_sz
      then seq (updg (\<lambda>g. g\<lparr>err_cnt := err_cnt g + 1\<rparr>)) (ret (RPMSG_SUCCESS ops))
      else let r_matrix = mat_dec data in
        seq (updg (\<lambda>g. g\<lparr>err_cnt := err_cnt g + int (bad_rows r_matrix (e_matrix g))\<rparr>))
       (seq (bnd (getg err_cnt) (\<lambda>e. if e \<noteq> 0
               then bnd (getg e_matrix) (\<lambda>em. seq (lift (matrix_print em))
                      (seq (lift (matrix_print r_matrix)) (ret ())))
               else updg (\<lambda>g. g\<lparr>result_returned := 1\<rparr>)))
            (ret (RPMSG_SUCCESS ops))))"

definition matrix_service_unbind :: "'w rpmsg \<Rightarrow> (host \<times> 'w, unit) prog" where
  "matrix_service_unbind ops =
     seq (extU (rpmsg_destroy_ept ops)) (updg (\<lambda>g. g\<lparr>ept_deleted := 1\<rparr>))"

definition matrix_ns_bind_cb :: "'w rpmsg \<Rightarrow> string \<Rightarrow> u32 \<Rightarrow> (host \<times> 'w, unit) prog" where
  "matrix_ns_bind_cb ops name dest =
     (if name \<noteq> RPMSG_SERVICE_NAME then ret ()
      else seq (ext (rpmsg_create_ept ops RPMSG_SERVICE_NAME (RPMSG_ADDR_ANY ops) dest)) (ret ()))"

fun matrix_cb :: "'w rpmsg \<Rightarrow> event \<Rightarrow> (host \<times> 'w, unit) prog" where
  "matrix_cb ops (Rx h data src) = seq (matrix_endpoint_cb ops data) (ret ())"
| "matrix_cb ops (Ns_bind name dest) = matrix_ns_bind_cb ops name dest"
| "matrix_cb ops Ns_unbind = matrix_service_unbind ops"

text \<open>One round; \<open>Inl\<close> goes on with the next, \<open>Inr\<close> leaves the loop.\<close>

definition matrix_waiting :: "host \<Rightarrow> bool" where
  "matrix_waiting g \<longleftrightarrow> result_returned g = 0 \<and> err_cnt g = 0 \<and> ept_deleted g = 0"

definition matrix_round :: "nat \<Rightarrow> 'w rpmsg \<Rightarrow> (nat \<Rightarrow> int) \<Rightarrow> nat \<Rightarrow> (host \<times> 'w, nat + unit) prog" where
  "matrix_round n ops rnd c =
     (if \<not> c < 200 then ret (Inr ())
      else bnd (getg (\<lambda>g. generate_matrices rnd 6 (i_matrix g) (rand_calls g))) (\<lambda>gm.
           bnd (lift gm) (\<lambda>(ms, k).
           seq (updg (\<lambda>g. g\<lparr>i_matrix := ms, rand_calls := k\<rparr>))
          (bnd (lift (matrix_multiply (ms ! 0) (ms ! 1))) (\<lambda>e.
           seq (updg (\<lambda>g. g\<lparr>e_matrix := e, result_returned := 0\<rparr>))
          (bnd (ext (rpmsg_send ops (concat (map mat_enc ms)))) (\<lambda>r.
             if r < 0 then ret (Inr ())
             else seq (do_while n (poll ops (matrix_cb ops)) (getg matrix_waiting))
                 (bnd (getg err_cnt) (\<lambda>e. if e \<noteq> 0 then ret (Inr ()) else ret (Inl (Suc c)))))))))))"

text \<open>\<open>srand\<close> starts the random sequence, so \<open>rnd\<close> is counted from there.\<close>

definition matrix_app :: "nat \<Rightarrow> 'w rpmsg \<Rightarrow> (nat \<Rightarrow> int) \<Rightarrow> (host \<times> 'w, int) prog" where
  "matrix_app n ops rnd =
     bnd (ext (rpmsg_create_ept ops RPMSG_SERVICE_NAME (RPMSG_ADDR_ANY ops) (RPMSG_ADDR_ANY ops))) (\<lambda>r.
     if r \<noteq> 0 then ret r
     else seq (wait_ready n ops (matrix_cb ops))
         (seq (updg (\<lambda>g. g\<lparr>err_cnt := 0, rand_calls := 0\<rparr>))
         (seq (iter 201 (matrix_round n ops rnd) 0)
         (seq (extU (rpmsg_destroy_ept ops)) (ret 0)))))"

definition matrix_main :: "nat \<Rightarrow> ('p, 'r, 'w) plat \<Rightarrow> 'w rpmsg \<Rightarrow> (nat \<Rightarrow> int) \<Rightarrow> (host \<times> 'w, int) prog" where
  "matrix_main n pl ops rnd = app_main pl VIRTIO_DEV_DRIVER True (matrix_app n ops rnd)"

section \<open>The remote service\<close>

text \<open>
  \<open>stk\<close> is what the stack array \<open>matrix_array\<close> of 296 bytes holds before the copy.  The copy of
  \<open>len\<close> bytes overruns it when the message is longer.
\<close>

definition matrixd_endpoint_cb :: "'w rpmsg \<Rightarrow> bytes \<Rightarrow> bytes \<Rightarrow> (server \<times> 'w, int) prog" where
  "matrixd_endpoint_cb ops stk data =
     (if length data < 4 then fail Out_of_bounds
      else if get32 0 data = SHUTDOWN_MSG
      then seq (updg (\<lambda>g. g\<lparr>shutdown_req := 1\<rparr>)) (ret (RPMSG_SUCCESS ops))
      else bnd (lift (put_bytes 0 data stk)) (\<lambda>arr.
           bnd (lift (Matrix_Multiply (mat_dec arr) (mat_dec (drop matrix_sz arr)))) (\<lambda>res.
           seq (ext (rpmsg_send ops (mat_enc res))) (ret (RPMSG_SUCCESS ops)))))"

definition matrixd_service_unbind :: "'w rpmsg \<Rightarrow> (server \<times> 'w, unit) prog" where
  "matrixd_service_unbind ops = updg (\<lambda>g. g\<lparr>shutdown_req := 1\<rparr>)"

fun matrixd_cb :: "bytes \<Rightarrow> 'w rpmsg \<Rightarrow> event \<Rightarrow> (server \<times> 'w, unit) prog" where
  "matrixd_cb stk ops (Rx h data src) = seq (matrixd_endpoint_cb ops stk data) (ret ())"
| "matrixd_cb stk ops (Ns_bind name dest) = ret ()"
| "matrixd_cb stk ops Ns_unbind = matrixd_service_unbind ops"

definition rpmsg_matrix_app :: "nat \<Rightarrow> 'w rpmsg \<Rightarrow> bytes \<Rightarrow> (server \<times> 'w, int) prog" where
  "rpmsg_matrix_app n ops stk =
     service_app n ops RPMSG_SERVICE_NAME (matrixd_cb stk) (\<lambda>g. shutdown_req g \<noteq> 0)"

definition matrixd_main :: "nat \<Rightarrow> ('p, 'r, 'w) plat \<Rightarrow> 'w rpmsg \<Rightarrow> bytes \<Rightarrow> (server \<times> 'w, int) prog" where
  "matrixd_main n pl ops stk = app_main pl VIRTIO_DEV_DEVICE False (rpmsg_matrix_app n ops stk)"

definition matrixd_generic_main :: "nat \<Rightarrow> ('p, 'r, 'w) plat \<Rightarrow> 'w rpmsg \<Rightarrow> bytes \<Rightarrow> (server \<times> 'w, int) prog" where
  "matrixd_generic_main n pl ops stk = generic_main pl (rpmsg_matrix_app n ops stk)"

definition matrixd_listen_task :: "nat \<Rightarrow> ('p, 'r, 'w) plat \<Rightarrow> 'w rpmsg \<Rightarrow> bytes \<Rightarrow> (server \<times> 'w, unit) prog" where
  "matrixd_listen_task n pl ops stk = listen_task n pl (rpmsg_matrix_app n ops stk)"

definition matrixd_freertos_main ::
    "nat \<Rightarrow> ('w \<Rightarrow> bool \<times> 'w) \<Rightarrow> ('p, 'r, 'w) plat \<Rightarrow> 'w rpmsg \<Rightarrow> bytes \<Rightarrow> (server \<times> 'w, int) prog" where
  "matrixd_freertos_main n xTaskCreate pl ops stk =
     freertos_main xTaskCreate (matrixd_listen_task n pl ops stk)"

section \<open>The callbacks\<close>

lemma bad_rows_0_iff:
  assumes "wf_matrix r" and "wf_matrix e"
  shows "bad_rows r e = 0 \<longleftrightarrow> elements r = elements e"
proof -
  have "bad_rows r e = 0 \<longleftrightarrow> (\<forall>i < MAX_SIZE. \<forall>j < MAX_SIZE. fun_of r i j = fun_of e i j)"
    by (auto simp: bad_rows_def filter_empty_conv list_ex_iff)
  also have "\<dots> \<longleftrightarrow> mat_of (fun_of r) = mat_of (fun_of e)"
  proof
    assume "mat_of (fun_of r) = mat_of (fun_of e)"
    then show "\<forall>i < MAX_SIZE. \<forall>j < MAX_SIZE. fun_of r i j = fun_of e i j"
      by (simp add: mat_of_fun_of assms) (simp add: fun_of_def)
  qed (auto intro: mat_of_cong)
  finally show ?thesis by (simp add: mat_of_fun_of assms)
qed

lemma matrix_endpoint_cb_match:
  assumes "length data = matrix_sz" and "wf_matrix (e_matrix g)" and "err_cnt g = 0"
    and "elements (mat_dec data) = elements (e_matrix g)"
  shows "matrix_endpoint_cb ops data (g, w) = Done (RPMSG_SUCCESS ops, (g\<lparr>result_returned := 1\<rparr>, w))"
  using assms bad_rows_0_iff [of "mat_dec data" "e_matrix g"]
  by (cases g) (simp add: matrix_endpoint_cb_def Let_def)

lemma matrix_endpoint_cb_mismatch:
  assumes "length data = matrix_sz" and "wf_matrix (e_matrix g)" and "0 \<le> err_cnt g"
    and "elements (mat_dec data) \<noteq> elements (e_matrix g)"
    and "unat (msize (mat_dec data)) \<le> MAX_SIZE" and "unat (msize (e_matrix g)) \<le> MAX_SIZE"
  shows "\<exists>e. matrix_endpoint_cb ops data (g, w) = Done (RPMSG_SUCCESS ops, (g\<lparr>err_cnt := e\<rparr>, w)) \<and>
     err_cnt g < e \<and> e \<le> err_cnt g + int MAX_SIZE"
proof -
  let ?k = "bad_rows (mat_dec data) (e_matrix g)"
  have "?k \<noteq> 0" using bad_rows_0_iff [of "mat_dec data" "e_matrix g"] assms by simp
  moreover have "?k \<le> MAX_SIZE"
    unfolding bad_rows_def by (rule order_trans [OF length_filter_le]) simp
  moreover obtain x y where "matrix_print (e_matrix g) = Done x" "matrix_print (mat_dec data) = Done y"
    using matrix_print_ok assms(5,6) by blast
  ultimately show ?thesis using assms(1,3)
    by (intro exI [where x = "err_cnt g + int ?k"]) (simp add: matrix_endpoint_cb_def Let_def)
qed

lemma matrix_endpoint_cb_badlen:
  "length data \<noteq> matrix_sz \<Longrightarrow>
     matrix_endpoint_cb ops data (g, w) = Done (RPMSG_SUCCESS ops, (g\<lparr>err_cnt := err_cnt g + 1\<rparr>, w))"
  by (simp add: matrix_endpoint_cb_def)

text \<open>The service on a pair of matrices: it sends their product.\<close>

lemma length_pair: "wf_matrix a \<Longrightarrow> wf_matrix b \<Longrightarrow> length (mat_enc a @ mat_enc b) = 296"
  by (simp add: matrix_sz_def)

lemma small_not_shutdown: "unat (x :: u32) \<le> MAX_SIZE \<Longrightarrow> x \<noteq> SHUTDOWN_MSG"
  by (auto simp: SHUTDOWN_MSG_def MAX_SIZE_def)

lemma matrixd_decode:
  assumes "wf_matrix a" and "wf_matrix b" and "length stk = 296"
  shows "put_bytes 0 (mat_enc a @ mat_enc b) stk = Done (mat_enc a @ mat_enc b)"
    and "mat_dec (mat_enc a @ mat_enc b) = a"
    and "mat_dec (drop matrix_sz (mat_enc a @ mat_enc b)) = b"
    and "get32 0 (mat_enc a @ mat_enc b) = msize a"
  using assms by (simp_all add: put_bytes_def mat_dec_enc length_pair del: length_append)
    (simp add: mat_enc_def get32_hd)

lemma matrixd_endpoint_cb_product:
  assumes "length data = 296" and "length stk = 296" and "get32 0 data \<noteq> SHUTDOWN_MSG"
    and "unat (msize (mat_dec data)) \<le> MAX_SIZE" and "unat (msize (mat_dec (drop matrix_sz data))) \<le> MAX_SIZE"
  shows "matrixd_endpoint_cb ops stk data (g, w)
    = Done (RPMSG_SUCCESS ops, (g, snd (rpmsg_send ops
        (mat_enc (mat_prod (mat_dec data) (mat_dec (drop matrix_sz data)))) w)))"
  using assms matrix_multiply_small [OF assms(4,5)]
  by (simp add: matrixd_endpoint_cb_def put_bytes_def Matrix_Multiply_eq)

lemma matrixd_endpoint_cb_pair:
  assumes "wf_matrix a" and "wf_matrix b" and "length stk = 296"
    and "unat (msize a) \<le> MAX_SIZE" and "unat (msize b) \<le> MAX_SIZE"
  shows "matrixd_endpoint_cb ops stk (mat_enc a @ mat_enc b) (g, w)
    = Done (RPMSG_SUCCESS ops, (g, snd (rpmsg_send ops (mat_enc (mat_prod a b)) w)))"
  using matrixd_endpoint_cb_product [of "mat_enc a @ mat_enc b" stk ops g w]
    matrixd_decode [OF assms(1-3)] small_not_shutdown [OF assms(4)] assms
  by (simp add: length_pair del: length_append)

text \<open>The messages the service can work on, and its contract.\<close>

fun matrixd_ok :: "bytes \<Rightarrow> event \<Rightarrow> bool" where
  "matrixd_ok stk (Rx h data src) \<longleftrightarrow> length stk = 296 \<and>
     (if get32 0 data = SHUTDOWN_MSG then 4 \<le> length data
      else length data = 296 \<and> unat (msize (mat_dec data)) \<le> MAX_SIZE \<and>
           unat (msize (mat_dec (drop matrix_sz data))) \<le> MAX_SIZE)"
| "matrixd_ok stk e \<longleftrightarrow> True"

definition matrixd_answer :: "bytes \<Rightarrow> bytes" where
  "matrixd_answer data = mat_enc (mat_prod (mat_dec data) (mat_dec (drop matrix_sz data)))"

definition matrixd_out :: "server \<Rightarrow> event \<Rightarrow> bytes list" where
  "matrixd_out g e = (if echoed e then [matrixd_answer (rx_data e)] else [])"

interpretation matrixd: service "matrixd_cb stk" echo_step matrixd_out "\<lambda>ops. matrixd_ok stk"
  "\<lambda>g. shutdown_req g \<noteq> 0" for stk
proof
  fix ops :: "'w rpmsg" and script sent and e :: event and g :: server and w
  assume sc: "scripted ops script sent" and ok: "matrixd_ok stk e"
  show "\<exists>w'. matrixd_cb stk ops e (g, w) = Done ((), (echo_step g e, w')) \<and>
      script w' = script w \<and> sent w' = sent w @ matrixd_out g e"
  proof (cases e)
    case (Rx h data src)
    then show ?thesis
      using ok scripted_sent [OF sc] matrixd_endpoint_cb_product [of data stk ops g w]
      by (cases "get32 0 data = SHUTDOWN_MSG")
        (auto simp: matrixd_endpoint_cb_def echo_step_def matrixd_out_def matrixd_answer_def)
  qed (auto simp: matrixd_service_unbind_def echo_step_def matrixd_out_def)
qed (simp add: echo_step_def)

lemma out_all_matrixd: "out_all echo_step matrixd_out g es = map (matrixd_answer \<circ> rx_data) (filter echoed es)"
  by (induction es arbitrary: g) (simp_all add: matrixd_out_def)

text \<open>A message longer than the two matrices overruns the stack array.\<close>

lemma matrixd_endpoint_cb_overrun:
  assumes "length stk = 296" and "296 < length data" and "get32 0 data \<noteq> SHUTDOWN_MSG"
  shows "matrixd_endpoint_cb ops stk data (g, w) = Fault Out_of_bounds"
  using assms by (simp add: matrixd_endpoint_cb_def put_bytes_def)

text \<open>A matrix that claims more than \<open>MAX_SIZE\<close> rows makes the multiplication run out of it.\<close>

lemma matrixd_endpoint_cb_oversize:
  assumes "wf_matrix a" and "wf_matrix b" and "length stk = 296"
    and "MAX_SIZE < unat (msize a)" and "msize a \<noteq> SHUTDOWN_MSG" and "msize b \<noteq> 0"
  shows "matrixd_endpoint_cb ops stk (mat_enc a @ mat_enc b) (g, w) = Fault Out_of_bounds"
proof -
  have "0 < unat (msize b)" using assms(6) by (metis gr0I unsigned_0 unsigned_word_eqI)
  with assms(4) have "matrix_multiply a b = Fault Out_of_bounds"
    by (intro matrix_multiply_large) auto
  moreover have "\<not> length (mat_enc a @ mat_enc b) < 4" using length_pair [OF assms(1,2)] by simp
  ultimately show ?thesis
    unfolding matrixd_endpoint_cb_def using matrixd_decode [OF assms(1-3)] assms(5)
    by (simp add: Matrix_Multiply_eq)
qed

section \<open>The two programs together\<close>

text \<open>The answer of the service to a pair of matrices.\<close>

lemma matrixd_replies:
  assumes "wf_matrix a" and "wf_matrix b" and "length stk = 296"
    and "unat (msize a) \<le> MAX_SIZE" and "unat (msize b) \<le> MAX_SIZE"
  shows "replies (matrixd_cb stk) g (mat_enc a @ mat_enc b) = [mat_enc (mat_prod a b)]"
  using matrixd_endpoint_cb_pair [OF assms, where ops = "loop_ops (\<lambda>m. [m]) 0"]
  by (simp add: replies_def)

definition matrix_host_inv :: "host \<Rightarrow> nat \<Rightarrow> bool" where
  "matrix_host_inv g c \<longleftrightarrow> length (i_matrix g) = 2 \<and> (\<forall>m \<in> set (i_matrix g). wf_matrix m) \<and>
     err_cnt g = 0 \<and> ept_deleted g = 0 \<and> rand_calls g = 72 * c"

lemma matrix_round_ok:
  assumes link: "peer_link ops (replies (matrixd_cb stk) sg) T D conn pend lag"
    and T: "296 \<le> T" and stk: "length stk = 296" and n: "D < n"
    and g: "matrix_host_inv g c" and c: "c < 200" and w: "conn w" "pend w = []"
  shows "\<exists>g' w'. matrix_round n ops rnd c (g, w) = Done (Inl (Suc c), (g', w')) \<and>
    matrix_host_inv g' (Suc c) \<and> conn w' \<and> pend w' = [] \<and> result_returned g' = 1"
proof -
  from g have ms: "length (i_matrix g) = 2" "\<forall>m \<in> set (i_matrix g). wf_matrix m"
    "rand_calls g = 72 * c" "err_cnt g = 0" "ept_deleted g = 0"
    by (auto simp: matrix_host_inv_def)
  from generate_matrices_full [OF ms(2), of rnd "72 * c"] ms(1) obtain ms' where
    gen: "generate_matrices rnd 6 (i_matrix g) (72 * c) = Done (ms', 72 * c + 72)"
    "length ms' = 2" "\<forall>m \<in> set ms'. generated m" by auto
  then obtain a b where ab: "ms' = [a, b]" "generated a" "generated b"
    by (auto simp: length_Suc_conv numeral_2_eq_2)
  then have wf: "wf_matrix a" "wf_matrix b" and
    sz: "unat (msize a) \<le> MAX_SIZE" "unat (msize b) \<le> MAX_SIZE" by (auto simp: generated_def)
  let ?g = "g\<lparr>i_matrix := [a, b], rand_calls := 72 * c + 72, e_matrix := mat_prod a b, result_returned := 0\<rparr>"
  let ?m = "mat_enc (mat_prod a b)"
  obtain r w1 where s: "rpmsg_send ops (mat_enc a @ mat_enc b) w = (r, w1)" by fastforce
  from peer_link_send [OF link w(1) _ s] T wf w(2) matrixd_replies [OF wf stk sz]
  have w1: "0 \<le> r" "conn w1" "pend w1 = [?m]" by (auto simp: matrix_sz_def)
  have "\<exists>g' w'. do_while n (poll ops (matrix_cb ops)) (getg matrix_waiting) (?g, w1)
      = Done ((), (g', w')) \<and> conn w' \<and> pend w' = [] \<and> g' = ?g\<lparr>result_returned := 1\<rparr>"
  proof (rule await_answer [OF link w1(2,3)])
    show "matrix_waiting ?g" using ms by (simp add: matrix_waiting_def)
    show "lag w1 < n" using peer_link_lag [OF link w1(2)] n by simp
    fix h src w' assume "conn w'" "pend w' = []"
    then show "\<exists>x g' w''. matrix_cb ops (Rx h ?m src) (?g, w') = Done (x, (g', w'')) \<and>
        conn w'' \<and> pend w'' = [] \<and> g' = ?g\<lparr>result_returned := 1\<rparr> \<and> \<not> matrix_waiting g'"
      using matrix_endpoint_cb_match [of ?m ?g ops w'] ms by (simp add: matrix_waiting_def)
  qed
  then obtain w' where "do_while n (poll ops (matrix_cb ops)) (getg matrix_waiting) (?g, w1)
      = Done ((), (?g\<lparr>result_returned := 1\<rparr>, w'))" "conn w'" "pend w' = []" by blast
  then show ?thesis
    using c s w1 gen ms ab wf matrix_multiply_small [OF sz]
    by (simp add: matrix_round_def matrix_host_inv_def)
qed

text \<open>The whole application, with the world it leaves.\<close>

lemma matrix_app_run:
  fixes ops :: "'w rpmsg"
  assumes link: "peer_link ops (replies (matrixd_cb stk) sg) T D conn pend lag"
    and T: "296 \<le> T" and stk: "length stk = 296" and n: "D < n"
    and g: "length (i_matrix g) = 2" "\<forall>m \<in> set (i_matrix g). wf_matrix m" "ept_deleted g = 0"
    and create: "rpmsg_create_ept ops RPMSG_SERVICE_NAME (RPMSG_ADDR_ANY ops) (RPMSG_ADDR_ANY ops) w = (0, w0)"
    and w0: "conn w0" "pend w0 = []"
  shows "\<exists>g' w'. matrix_app n ops rnd (g, w) = Done (0, (g', rpmsg_destroy_ept ops w')) \<and>
    err_cnt g' = 0 \<and> result_returned g' = 1 \<and> rand_calls g' = 14400 \<and> conn w'"
proof -
  let ?I = "\<lambda>c (g, w). c \<le> 200 \<and> matrix_host_inv g c \<and> conn w \<and> pend w = [] \<and> (0 < c \<longrightarrow> result_returned g = 1)"
  have "\<exists>r t. iter 201 (matrix_round n ops rnd) 0 (g\<lparr>err_cnt := 0, rand_calls := 0\<rparr>, w0) = Done (r, t) \<and> ?I 200 t"
  proof (rule iter_total [where I = ?I and mu = "\<lambda>c _. 200 - c"])
    fix c and s :: "host \<times> 'w" assume I: "?I c s"
    then obtain g w where s: "s = (g, w)" "c \<le> 200" "matrix_host_inv g c" "conn w" "pend w = []" by (cases s) auto
    show "(\<exists>l' t. matrix_round n ops rnd c s = Done (Inl l', t) \<and> ?I l' t \<and> 200 - l' < 200 - c) \<or>
        (\<exists>r t. matrix_round n ops rnd c s = Done (Inr r, t) \<and> ?I 200 t)"
    proof (cases "c < 200")
      case True
      with matrix_round_ok [OF link T stk n s(3) True s(4,5), of rnd] s(1) show ?thesis by fastforce
    next
      case False
      with s(2) have "c = 200" "matrix_round n ops rnd c s = Done (Inr (), s)" by (simp_all add: matrix_round_def)
      with I s(1) show ?thesis by simp
    qed
  qed (use g w0 in \<open>auto simp: matrix_host_inv_def\<close>)
  then obtain r g' w' where "iter 201 (matrix_round n ops rnd) 0 (g\<lparr>err_cnt := 0, rand_calls := 0\<rparr>, w0) = Done (r, (g', w'))"
    "?I 200 (g', w')" by auto
  moreover have "wait_ready n ops (matrix_cb ops) (g, w0) = Done ((), (g, w0))"
    by (rule wait_ready_conn [OF link w0(1)]) (use n in simp)
  ultimately show ?thesis using create by (auto simp: matrix_app_def matrix_host_inv_def simp del: iter.simps intro!: exI [of _ w'])
qed

section \<open>Properties\<close>

text \<open>
  C4. The host over a link to the service, with buffers large enough for two matrices: it returns
  0 after all 200 rounds (14400 calls of \<open>rand\<close>), and no round has an error.
\<close>

theorem matrix_app_ok:
  assumes link: "peer_link ops (replies (matrixd_cb stk) sg) T D conn pend lag"
    and T: "296 \<le> T" and stk: "length stk = 296" and n: "D < n"
    and g: "length (i_matrix g) = 2" "\<forall>m \<in> set (i_matrix g). wf_matrix m" "ept_deleted g = 0"
    and create: "rpmsg_create_ept ops RPMSG_SERVICE_NAME (RPMSG_ADDR_ANY ops) (RPMSG_ADDR_ANY ops) w = (0, w0)"
    and w0: "conn w0" "pend w0 = []"
  shows "\<exists>g' w'. matrix_app n ops rnd (g, w) = Done (0, (g', w')) \<and>
    err_cnt g' = 0 \<and> result_returned g' = 1 \<and> rand_calls g' = 14400"
  using matrix_app_run [OF assms] by blast

definition zero_host :: host where
  "zero_host = \<lparr>err_cnt = 0, ept_deleted = 0,
     i_matrix = replicate 2 \<lparr>msize = 0, elements = replicate 36 0\<rparr>,
     e_matrix = \<lparr>msize = 0, elements = replicate 36 0\<rparr>, result_returned = 0, rand_calls = 0\<rparr>"

theorem matrix_app_ok_witness:
  "\<exists>g' w'. matrix_app 1 (loop_ops (replies (matrixd_cb (replicate 296 0)) \<lparr>shutdown_req = 0\<rparr>) 496)
      (\<lambda>k. 7 * int k) (zero_host, []) = Done (0, (g', w')) \<and>
    err_cnt g' = 0 \<and> result_returned g' = 1 \<and> rand_calls g' = 14400"
  using matrix_app_ok [OF loop_link, where T = 496 and n = 1 and g = zero_host and stk = "replicate 296 0"
      and sg = "\<lparr>shutdown_req = 0\<rparr>" and w = "[]" and ?w0.0 = "[]" and rnd = "\<lambda>k. 7 * int k"]
  by (simp add: zero_host_def wf_matrix_def MAX_SIZE_def)

text \<open>
  C15. The service over a scripted peer: up to and including the poll that takes it down, it
  answers every pair of matrices with the bytes of their product, in order.
\<close>

theorem matrixd_app_serves:
  assumes "scripted ops script sent"
    and "rpmsg_create_ept ops RPMSG_SERVICE_NAME (RPMSG_ADDR_ANY ops) (RPMSG_ADDR_ANY ops) w = (0, w0)"
    and "script w0 = bs @ b # rest" and "length bs < n" and "shutdown_req g = 0"
    and "list_all (matrixd_ok stk) (concat bs @ b)" and "\<not> list_ex stops (concat bs)" and "list_ex stops b"
  shows "\<exists>w'. rpmsg_matrix_app n ops stk (g, w) = Done (0, (g\<lparr>shutdown_req := 1\<rparr>, rpmsg_destroy_ept ops w')) \<and>
    script w' = rest \<and> sent w' = sent w0 @ map (matrixd_answer \<circ> rx_data) (filter echoed (concat bs @ b))"
proof -
  have "matrixd_ok stk e" if "e \<in> set (concat bs) \<union> set b" for e
    using assms(6) that by (auto simp: list_all_iff)
  from matrixd.app_run [OF assms(1-4) this, of g] show ?thesis
    using assms(5,7,8)
    by (simp add: rpmsg_matrix_app_def shutdown_run_all run_all_echo out_all_matrixd del: filter_append)
qed

theorem matrixd_app_serves_witness:
  "\<exists>w'. rpmsg_matrix_app 2 script_ops (replicate 296 0) (\<lparr>shutdown_req = 0\<rparr>,
      ([[Rx 0 (replicate 296 0) 3], [Rx 1 (le32 SHUTDOWN_MSG) 3]], []))
    = Done (0, (\<lparr>shutdown_req = 1\<rparr>, rpmsg_destroy_ept script_ops w')) \<and> fst w' = [] \<and>
      snd w' = [matrixd_answer (replicate 296 0)]"
proof -
  show ?thesis
    using matrixd_app_serves [OF script_ops_scripted, of
        "([[Rx 0 (replicate 296 0) 3], [Rx 1 (le32 SHUTDOWN_MSG) 3]], [])"
        "([[Rx 0 (replicate 296 0) 3], [Rx 1 (le32 SHUTDOWN_MSG) 3]], [])"
        "[[Rx 0 (replicate 296 0) 3]]" "[Rx 1 (le32 SHUTDOWN_MSG) 3]" "[]" 2 "\<lparr>shutdown_req = 0\<rparr>" "replicate 296 0"]
    by (simp add: get32_hd [of _ "[]", simplified] mat_dec_def matrix_sz_def)
      (simp add: SHUTDOWN_MSG_def)
qed

text \<open>
  C10. The multiplication (of the host and of the service) returns the matrix product modulo
  \<open>2 ^ 32\<close> exactly when both sizes fit the arrays or there is nothing to do; every other pair of
  size fields makes it run outside the arrays.
\<close>

theorem matrix_multiply_spec:
  "matrix_multiply m n =
     (if unat (msize m) \<le> MAX_SIZE \<and> unat (msize n) \<le> MAX_SIZE \<or> msize m = 0 \<or> msize n = 0
      then Done (mat_prod m n) else Fault Out_of_bounds) \<and>
   Matrix_Multiply m n = matrix_multiply m n"
proof -
  have "unat x = 0 \<longleftrightarrow> x = 0" for x :: u32 by (simp add: unat_eq_zero)
  then show ?thesis
    using matrix_multiply_small [of m n] matrix_multiply_large [of m n] matrix_multiply_empty [of m n]
    by (auto simp: Matrix_Multiply_eq not_le)
qed

text \<open>
  C40. The products the host expects are exact: the two matrices it generates have entries below 10 whatever the random numbers are,
  and multiplying them stays inside the arrays and gives, in each of the 36 places, the sum of the products as natural numbers, at
  most 486: no word wraps around.
\<close>

theorem generated_product_exact:
  assumes "wf_matrix x" and "wf_matrix y"
  shows "\<exists>a b p. generate_matrices rnd 6 [x, y] c = Done ([a, b], c + 72) \<and> matrix_multiply a b = Done p \<and>
    (\<forall>i < MAX_SIZE. \<forall>j < MAX_SIZE. unat (fun_of a i j) < 10 \<and> unat (fun_of b i j) < 10 \<and>
      unat (fun_of p i j) = (\<Sum>k < MAX_SIZE. unat (fun_of a i k) * unat (fun_of b k j)) \<and> unat (fun_of p i j) \<le> 486)"
proof -
  obtain a b where g: "generate_matrices rnd 6 [x, y] c = Done ([a, b], c + 72)" and ab: "generated a" "generated b"
    using generate_matrices_full [of "[x, y]" rnd c] assms by (auto simp: length_Suc_conv numeral_2_eq_2)
  have "matrix_multiply a b = Done (mat_prod a b)"
    using ab by (intro matrix_multiply_small) (simp_all add: generated_def)
  moreover have "fun_of (mat_prod a b) i j = dot a b i j MAX_SIZE" if "i < MAX_SIZE" "j < MAX_SIZE" for i j
    using ab that by (simp add: mat_prod_def generated_def)
  ultimately show ?thesis
    using g dot_exact [OF ab] generated_entry [OF ab(1)] generated_entry [OF ab(2)] by auto
qed

definition zero_matrix :: matrix where
  "zero_matrix = \<lparr>msize = 0, elements = replicate 36 0\<rparr>"

theorem generated_product_exact_witness:
  "\<exists>a b p. generate_matrices (\<lambda>_. 9) 6 [zero_matrix, zero_matrix] 0 = Done ([a, b], 72) \<and> matrix_multiply a b = Done p \<and>
     unat (fun_of p 5 5) \<le> 486"
proof -
  have wf: "wf_matrix zero_matrix" by (simp add: zero_matrix_def wf_matrix_def MAX_SIZE_def)
  have "5 < MAX_SIZE" by (simp add: MAX_SIZE_def)
  then show ?thesis using generated_product_exact [OF wf wf, of "\<lambda>_. 9" 0] by fastforce
qed

text \<open>
  What the host makes of an answer of the right length, when both size fields fit: it is
  accepted exactly when all 36 entries are the expected ones (the size field is not compared),
  and otherwise the error count rises by the number of wrong rows.
\<close>

theorem matrix_endpoint_cb_checks:
  assumes "length data = matrix_sz" and "wf_matrix (e_matrix g)" and "err_cnt g = 0"
    and "unat (msize (mat_dec data)) \<le> MAX_SIZE" and "unat (msize (e_matrix g)) \<le> MAX_SIZE"
  shows "\<exists>g'. matrix_endpoint_cb ops data (g, w) = Done (RPMSG_SUCCESS ops, (g', w)) \<and>
    (if elements (mat_dec data) = elements (e_matrix g) then g' = g\<lparr>result_returned := 1\<rparr>
     else 0 < err_cnt g' \<and> err_cnt g' \<le> 6 \<and> result_returned g' = result_returned g)"
  using matrix_endpoint_cb_match [OF assms(1-3), of ops w]
    matrix_endpoint_cb_mismatch [OF assms(1,2) _ _ assms(4,5), of ops w] assms(3)
  by (cases "elements (mat_dec data) = elements (e_matrix g)") (auto simp: MAX_SIZE_def)

theorem matrix_endpoint_cb_checks_witness:
  "\<exists>g'. matrix_endpoint_cb script_ops (mat_enc zero_matrix) (zero_host, ([], [])) = Done (0, (g', ([], []))) \<and>
     g' = zero_host\<lparr>result_returned := 1\<rparr>"
proof -
  have wf: "wf_matrix zero_matrix" by (simp add: zero_matrix_def wf_matrix_def MAX_SIZE_def)
  then have "length (mat_enc zero_matrix) = matrix_sz" by simp
  with matrix_endpoint_cb_checks [of "mat_enc zero_matrix" zero_host script_ops "([], [])"] wf
  show ?thesis by (simp add: zero_host_def zero_matrix_def)
qed

text \<open>
  The service copies the message onto its stack without looking at the length: a message of
  more than two matrices that is not a shutdown message overruns the array.
\<close>

theorem matrixd_overrun:
  assumes "length stk = 296" and "296 < length data" and "get32 0 data \<noteq> SHUTDOWN_MSG"
  shows "matrixd_endpoint_cb ops stk data (g, w) = Fault Out_of_bounds"
  by (rule matrixd_endpoint_cb_overrun [OF assms])

theorem matrixd_overrun_witness:
  "matrixd_endpoint_cb script_ops (replicate 296 0) (le32 1 @ replicate 300 0) (\<lparr>shutdown_req = 0\<rparr>, ([], []))
     = Fault Out_of_bounds"
  by (rule matrixd_overrun) (simp_all add: get32_hd SHUTDOWN_MSG_def)

end
