(* ===== verification/Echo_Client.thy ===== *)
theory Echo_Client
  imports Echo_Service
begin

text \<open>
  The host sides of the echo demos: \<open>examples/echo/rpmsg-ping.c\<close> and its copy under
  \<open>tests/msg\<close>, which send payloads of every size and check the echo, \<open>tests/msg/rpmsg-flood-ping.c\<close>,
  which keeps the link full, and \<open>rpmsg_sample_echo/rpmsg-sample-ping.c\<close>.  The lemmas describe the
  checks of the callbacks on every message and the runs against the echo services.
\<close>

section \<open>The payload\<close>

text \<open>
  \<open>struct _payload\<close>: the number and the size, 8 bytes each (\<open>unsigned long\<close> of the 64-bit hosts),
  then the data.
\<close>

definition payload :: "nat \<Rightarrow> nat \<Rightarrow> bytes" where
  "payload num sz = le64 (word_of_nat num) @ le64 (word_of_nat sz) @ replicate sz 0xA5"

definition fill_payload :: "nat \<Rightarrow> nat \<Rightarrow> bytes \<Rightarrow> bytes outcome" where
  "fill_payload num sz obj =
     obind (put_bytes 16 (replicate sz 0xA5))
       (obind (put_bytes 8 (le64 (word_of_nat sz))) (put_bytes 0 (le64 (word_of_nat num)) obj))"

text \<open>The integrity loop: false at the first byte that is not \<open>0xA5\<close>, a fault past the message.\<close>

fun scan_a5 :: "nat \<Rightarrow> bytes \<Rightarrow> bool outcome" where
  "scan_a5 0 bs = Done True"
| "scan_a5 (Suc k) [] = Fault Out_of_bounds"
| "scan_a5 (Suc k) (b # bs) = (if b \<noteq> 0xA5 then Done False else scan_a5 k bs)"

section \<open>Callbacks shared by the clients\<close>

definition client_unbind :: "'w rpmsg \<Rightarrow> ('g client_scheme \<times> 'w, unit) prog" where
  "client_unbind ops = seq (extU (rpmsg_destroy_ept ops)) (updg (\<lambda>g. g\<lparr>ept_deleted := 1\<rparr>))"

definition client_ns_bind :: "'w rpmsg \<Rightarrow> string \<Rightarrow> u32 \<Rightarrow> string \<Rightarrow> u32 \<Rightarrow> ('g \<times> 'w, unit) prog" where
  "client_ns_bind ops serv src name dest =
     (if name \<noteq> serv then ret () else seq (ext (rpmsg_create_ept ops serv src dest)) (ret ()))"

section \<open>Ping\<close>

record pinger = client +
  i_payload :: "bytes option"
  rnum :: int

definition ping_endpoint_cb :: "'w rpmsg \<Rightarrow> bytes \<Rightarrow> (pinger \<times> 'w, int) prog" where
  "ping_endpoint_cb ops data =
     (if length data < 16 then fail Out_of_bounds
      else let num = get64 0 data; sz = get64 8 data in
        if sz = 0
        then seq (updg (\<lambda>g. g\<lparr>err_cnt := err_cnt g + 1\<rparr>)) (ret (RPMSG_SUCCESS ops))
        else bnd (lift (scan_a5 (nat (to_int32 (uint sz))) (drop 16 data))) (\<lambda>ok.
          seq (if ok then ret () else updg (\<lambda>g. g\<lparr>err_cnt := err_cnt g + 1\<rparr>))
         (seq (updg (\<lambda>g. g\<lparr>rnum := to_int32 (uint (num + 1))\<rparr>)) (ret (RPMSG_SUCCESS ops)))))"

definition ping_service_unbind :: "'w rpmsg \<Rightarrow> (pinger \<times> 'w, unit) prog" where
  "ping_service_unbind ops = client_unbind ops"

definition ping_ns_bind_cb :: "'w rpmsg \<Rightarrow> string \<Rightarrow> u32 \<Rightarrow> (pinger \<times> 'w, unit) prog" where
  "ping_ns_bind_cb ops = client_ns_bind ops RPMSG_SERVICE_NAME (RPMSG_ADDR_ANY ops)"

fun ping_cb :: "'w rpmsg \<Rightarrow> event \<Rightarrow> (pinger \<times> 'w, unit) prog" where
  "ping_cb ops (Rx h data src) = seq (ping_endpoint_cb ops data) (ret ())"
| "ping_cb ops (Ns_bind name dest) = ping_ns_bind_cb ops name dest"
| "ping_cb ops Ns_unbind = ping_service_unbind ops"

text \<open>
  One pass of the loop, for message number \<open>i\<close> of size \<open>i + 1\<close>; \<open>expect_rnum\<close> is \<open>i + 1\<close> after
  the increment.
\<close>

definition ping_waiting :: "nat \<Rightarrow> pinger \<Rightarrow> bool" where
  "ping_waiting expect g \<longleftrightarrow> rnum g < int expect \<and> err_cnt g = 0 \<and> ept_deleted g = 0"

definition ping_round :: "nat \<Rightarrow> 'w rpmsg \<Rightarrow> int \<Rightarrow> nat \<Rightarrow> (pinger \<times> 'w, nat + unit) prog" where
  "ping_round n ops num_payloads i =
     (if \<not> int i < num_payloads then ret (Inr ())
      else bnd (getg i_payload) (\<lambda>p. case p of
        None \<Rightarrow> fail Null_deref
      | Some obj \<Rightarrow>
          bnd (lift (fill_payload i (i + 1) obj)) (\<lambda>obj'.
          seq (updg (\<lambda>g. g\<lparr>i_payload := Some obj'\<rparr>))
         (bnd (ext (rpmsg_send ops (take (16 + (i + 1)) obj'))) (\<lambda>r.
            if r < 0 then ret (Inr ())
            else seq (do_while n (poll ops (ping_cb ops)) (getg (ping_waiting (i + 1))))
                     (ret (Inl (Suc i))))))))"

definition ping_app :: "nat \<Rightarrow> 'w rpmsg \<Rightarrow> (pinger \<times> 'w, int) prog" where
  "ping_app n ops =
     bnd (ext (rpmsg_create_ept ops RPMSG_SERVICE_NAME (RPMSG_ADDR_ANY ops) (RPMSG_ADDR_ANY ops))) (\<lambda>r.
     if r \<noteq> 0 then ret r
     else bnd (asks (rpmsg_get_tx_buffer_size ops)) (\<lambda>tx.
     if tx \<le> 0 then seq (extU (rpmsg_destroy_ept ops)) (ret (- 1))
     else let max_size = tx - 16; num_payloads = max_size - 1 + 1 in
          bnd (ext (metal_allocate_memory ops (nat (2 * 8 + max_size)))) (\<lambda>p. case p of
            None \<Rightarrow> seq (extU (rpmsg_destroy_ept ops)) (ret (- 1))
          | Some obj \<Rightarrow>
              seq (updg (\<lambda>g. g\<lparr>i_payload := Some obj\<rparr>))
             (seq (wait_ready n ops (ping_cb ops))
             (seq (iter (Suc (nat num_payloads)) (ping_round n ops num_payloads) 0)
             (seq (extU (rpmsg_destroy_ept ops))
             (seq (extU (metal_free_memory ops)) (ret 0))))))))"

definition ping_main :: "nat \<Rightarrow> ('p, 'r, 'w) plat \<Rightarrow> 'w rpmsg \<Rightarrow> (pinger \<times> 'w, int) prog" where
  "ping_main n pl ops = app_main pl VIRTIO_DEV_DRIVER True (ping_app n ops)"

text \<open>
  \<open>tests/msg/rpmsg-ping.c\<close> is a copy of \<open>echo/rpmsg-ping.c\<close> that differs in comments and
  declarations only.
\<close>

definition test_ping_endpoint_cb :: "'w rpmsg \<Rightarrow> bytes \<Rightarrow> (pinger \<times> 'w, int) prog" where
  "test_ping_endpoint_cb = ping_endpoint_cb"

definition test_ping_service_unbind :: "'w rpmsg \<Rightarrow> (pinger \<times> 'w, unit) prog" where
  "test_ping_service_unbind = client_unbind"

definition test_ping_ns_bind_cb :: "'w rpmsg \<Rightarrow> string \<Rightarrow> u32 \<Rightarrow> (pinger \<times> 'w, unit) prog" where
  "test_ping_ns_bind_cb ops = client_ns_bind ops RPMSG_SERVICE_NAME (RPMSG_ADDR_ANY ops)"

definition test_ping_app :: "nat \<Rightarrow> 'w rpmsg \<Rightarrow> (pinger \<times> 'w, int) prog" where
  "test_ping_app = ping_app"

definition test_ping_main :: "nat \<Rightarrow> ('p, 'r, 'w) plat \<Rightarrow> 'w rpmsg \<Rightarrow> (pinger \<times> 'w, int) prog" where
  "test_ping_main n pl ops = app_main pl VIRTIO_DEV_DRIVER True (test_ping_app n ops)"

section \<open>What ping does\<close>

lemma length_payload [simp, codec]: "length (payload num sz) = 16 + sz"
  by (simp add: payload_def)

lemma get64_payload [codec]:
  "get64 0 (payload num sz) = word_of_nat num" "get64 8 (payload num sz) = word_of_nat sz"
  by (simp_all add: payload_def get64_hd get64_append)

lemma drop_payload [codec]: "drop 16 (payload num sz) = replicate sz 0xA5"
  by (simp add: payload_def)

lemma fill_payload_ok:
  assumes "16 + sz \<le> length obj"
  shows "fill_payload num sz obj = Done (payload num sz @ drop (16 + sz) obj)"
proof -
  have "fill_payload num sz obj
      = put_bytes 16 (replicate sz 0xA5) (le64 (word_of_nat num) @ le64 (word_of_nat sz) @ drop 16 obj)"
    using assms by (simp add: fill_payload_def put_bytes_def)
  with assms show ?thesis by (simp add: put_bytes_def payload_def add.commute)
qed

lemma scan_a5_True_iff:
  "scan_a5 k bs = Done True \<longleftrightarrow> k \<le> length bs \<and> take k bs = replicate k 0xA5"
  by (induction k bs rule: scan_a5.induct) auto

lemma scan_a5_cases:
  "scan_a5 k bs =
     (if k \<le> length bs \<and> take k bs = replicate k 0xA5 then Done True
      else if list_ex (\<lambda>b. b \<noteq> 0xA5) (take k bs) then Done False else Fault Out_of_bounds)"
  by (induction k bs rule: scan_a5.induct) auto

lemma int32_of_u64: "k < 2 ^ 31 \<Longrightarrow> to_int32 (uint (word_of_nat k :: u64)) = int k"
  using take_bit_nat_eq_self [of k 64] by (simp add: unsigned_of_nat to_int32_id)

lemma ping_endpoint_cb_payload:
  assumes "0 < sz" and "sz < 2 ^ 31" and "num + 1 < 2 ^ 31"
  shows "ping_endpoint_cb ops (payload num sz) (g, w)
    = Done (RPMSG_SUCCESS ops, (g\<lparr>rnum := int num + 1\<rparr>, w))"
proof -
  have "(word_of_nat sz :: u64) \<noteq> 0"
    using int32_of_u64 [of sz] assms by (auto simp: to_int32_def)
  moreover have "to_int32 (uint (word_of_nat num + 1 :: u64)) = int num + 1"
    using int32_of_u64 [of "num + 1"] assms(3) by (simp add: add.commute)
  moreover have "scan_a5 sz (replicate sz 0xA5) = Done True" by (simp add: scan_a5_True_iff)
  ultimately show ?thesis
    using int32_of_u64 [of sz] assms(2)
    by (simp add: ping_endpoint_cb_def Let_def get64_payload drop_payload)
qed

text \<open>The echo service sends a payload back: its first word is never the shutdown message.\<close>

lemma payload_not_shutdown:
  assumes "num < 2 ^ 31"
  shows "get32 0 (payload num sz) \<noteq> SHUTDOWN_MSG"
proof -
  have "get32 0 (payload num sz) = word_of_nat num"
    unfolding payload_def get32_le64
    by (rule unsigned_word_eqI [where ?'a = nat]) (simp add: unsigned_ucast_eq unsigned_of_nat)
  moreover have "unat (word_of_nat num :: u32) < 2 ^ 31"
    using assms by (simp add: unat_of_nat)
  ultimately show ?thesis by (auto simp: SHUTDOWN_MSG_def)
qed

lemma echo_replies:
  "4 \<le> length m \<Longrightarrow> get32 0 m \<noteq> SHUTDOWN_MSG \<Longrightarrow> replies echo_cb g m = [m]"
  by (simp add: replies_def echo_endpoint_cb_def)

lemma ping_round_ok:
  assumes link: "peer_link ops (replies echo_cb sg) T D conn pend lag"
    and T: "16 + (i + 1) \<le> T" "T < 2 ^ 31" and n: "D < n"
    and g: "i_payload g = Some obj" "length obj = T" "err_cnt g = 0" "ept_deleted g = 0" "rnum g = int i"
    and w: "conn w" "pend w = []" and num: "int i < num"
  shows "\<exists>obj' w'. ping_round n ops num i (g, w)
      = Done (Inl (Suc i), (g\<lparr>i_payload := Some obj', rnum := int (Suc i)\<rparr>, w')) \<and>
    length obj' = T \<and> conn w' \<and> pend w' = []"
proof -
  let ?m = "payload i (Suc i)" and ?obj = "payload i (Suc i) @ drop (17 + i) obj"
  let ?g = "g\<lparr>i_payload := Some ?obj\<rparr>"
  have f: "fill_payload i (Suc i) obj = Done ?obj" using fill_payload_ok [of "Suc i" obj i] g(2) T by simp
  have t: "take (17 + i) ?obj = ?m" by simp
  obtain r w1 where s: "rpmsg_send ops ?m w = (r, w1)" by fastforce
  from T have "replies echo_cb sg ?m = [?m]" by (intro echo_replies payload_not_shutdown) auto
  with peer_link_send [OF link w(1) _ s] T(1) w(2)
  have w1: "0 \<le> r" "conn w1" "pend w1 = [?m]" by auto
  have "\<exists>g' w'. do_while n (poll ops (ping_cb ops)) (getg (ping_waiting (Suc i))) (?g, w1)
      = Done ((), (g', w')) \<and> conn w' \<and> pend w' = [] \<and> g' = ?g\<lparr>rnum := int (Suc i)\<rparr>"
  proof (rule await_answer [OF link w1(2,3)])
    show "ping_waiting (Suc i) ?g" using g by (simp add: ping_waiting_def)
    show "lag w1 < n" using peer_link_lag [OF link w1(2)] n by simp
    fix h src w' assume "conn w'" "pend w' = []"
    then show "\<exists>x g' w''. ping_cb ops (Rx h ?m src) (?g, w') = Done (x, (g', w'')) \<and>
        conn w'' \<and> pend w'' = [] \<and> g' = ?g\<lparr>rnum := int (Suc i)\<rparr> \<and> \<not> ping_waiting (Suc i) g'"
      using ping_endpoint_cb_payload [of "Suc i" i ops ?g w'] T
      by (simp add: ping_waiting_def add.commute)
  qed
  then obtain w' where "do_while n (poll ops (ping_cb ops)) (getg (ping_waiting (Suc i))) (?g, w1)
      = Done ((), (?g\<lparr>rnum := int (Suc i)\<rparr>, w'))" "conn w'" "pend w' = []" by blast
  moreover have "length ?obj = T" using g(2) T(1) by simp
  ultimately show ?thesis
    using s w1 f num g(1) by (auto simp: ping_round_def t intro!: exI [of _ ?obj])
qed

text \<open>The whole application, with the world it leaves.\<close>

lemma ping_app_run:
  fixes ops :: "'w rpmsg"
  assumes link: "peer_link ops (replies echo_cb sg) T D conn pend lag"
    and T: "16 \<le> T" "T < 2 ^ 31" and n: "D < n"
    and g: "err_cnt g = 0" "ept_deleted g = 0" "rnum g = 0"
    and create: "rpmsg_create_ept ops RPMSG_SERVICE_NAME (RPMSG_ADDR_ANY ops) (RPMSG_ADDR_ANY ops) w = (0, w0)"
    and alloc: "conn w0" "metal_allocate_memory ops T w0 = (Some obj, w1)" "length obj = T"
    and w1: "conn w1" "pend w1 = []"
  shows "\<exists>g' w'. ping_app n ops (g, w) = Done (0, (g', metal_free_memory ops (rpmsg_destroy_ept ops w'))) \<and>
    err_cnt g' = 0 \<and> rnum g' = int (T - 16) \<and> conn w'"
proof -
  let ?num = "int T - 16"
  let ?I = "\<lambda>i (g, w). i \<le> T - 16 \<and> (\<exists>obj. i_payload g = Some obj \<and> length obj = T) \<and> err_cnt g = 0 \<and> ept_deleted g = 0 \<and>
      rnum g = int i \<and> conn w \<and> pend w = []"
  have "\<exists>r t. iter (Suc (T - 16)) (ping_round n ops ?num) 0 (g\<lparr>i_payload := Some obj\<rparr>, w1) = Done (r, t) \<and> ?I (T - 16) t"
  proof (rule iter_total [where I = ?I and mu = "\<lambda>i _. T - 16 - i"])
    fix i and s :: "pinger \<times> 'w" assume I: "?I i s"
    then obtain g w o' where s: "s = (g, w)" "i \<le> T - 16" "i_payload g = Some o'" "length o' = T" "err_cnt g = 0" "ept_deleted g = 0"
      "rnum g = int i" "conn w" "pend w = []" by (cases s) auto
    show "(\<exists>l' t. ping_round n ops ?num i s = Done (Inl l', t) \<and> ?I l' t \<and> T - 16 - l' < T - 16 - i) \<or>
        (\<exists>r t. ping_round n ops ?num i s = Done (Inr r, t) \<and> ?I (T - 16) t)"
    proof (cases "i < T - 16")
      case True
      then have "16 + (i + 1) \<le> T" "int i < ?num" by linarith+
      from ping_round_ok [OF link this(1) T(2) n s(3-9) this(2)] obtain obj' w' where
        "ping_round n ops ?num i s = Done (Inl (Suc i), (g\<lparr>i_payload := Some obj', rnum := int (Suc i)\<rparr>, w'))"
        "length obj' = T" "conn w'" "pend w' = []" using s(1) by auto
      then show ?thesis using True s by auto
    next
      case False
      with s T(1) have "i = T - 16" "ping_round n ops ?num i s = Done (Inr (), s)" by (auto simp: ping_round_def)
      with I show ?thesis by blast
    qed
  qed (use g alloc w1 in auto)
  then obtain r g' w' where "iter (Suc (T - 16)) (ping_round n ops ?num) 0 (g\<lparr>i_payload := Some obj\<rparr>, w1) = Done (r, (g', w'))"
    "?I (T - 16) (g', w')" by auto
  moreover have "wait_ready n ops (ping_cb ops) (g\<lparr>i_payload := Some obj\<rparr>, w1) = Done ((), (g\<lparr>i_payload := Some obj\<rparr>, w1))"
    by (rule wait_ready_conn [OF link w1(1)]) (use n in simp)
  moreover have "nat ?num = T - 16" "rpmsg_get_tx_buffer_size ops w0 = int T"
    using T peer_link_size [OF link alloc(1)] by auto
  ultimately show ?thesis using create alloc(2) T(1) by (auto simp: ping_app_def Let_def simp del: iter.simps intro!: exI [of _ w'])
qed

section \<open>Properties\<close>

text \<open>
  C5. Ping against the echo service over a link with buffers of \<open>T\<close> bytes: it returns 0 after the
  last of its \<open>T - 16\<close> payloads, of the sizes from 1 to \<open>T - 16\<close>, has come back (\<open>rnum\<close> is one more than its number), and its
  checks of the payloads have counted no error.
\<close>

theorem ping_app_ok:
  assumes link: "peer_link ops (replies echo_cb sg) T D conn pend lag"
    and T: "16 \<le> T" "T < 2 ^ 31" and n: "D < n"
    and g: "err_cnt g = 0" "ept_deleted g = 0" "rnum g = 0"
    and create: "rpmsg_create_ept ops RPMSG_SERVICE_NAME (RPMSG_ADDR_ANY ops) (RPMSG_ADDR_ANY ops) w = (0, w0)"
    and alloc: "conn w0" "metal_allocate_memory ops T w0 = (Some obj, w1)" "length obj = T"
    and w1: "conn w1" "pend w1 = []"
  shows "\<exists>g' w'. ping_app n ops (g, w) = Done (0, (g', w')) \<and> err_cnt g' = 0 \<and> rnum g' = int (T - 16)"
  using ping_app_run [OF assms] by blast

theorem ping_app_ok_witness:
  "\<exists>g' w'. ping_app 1 (loop_ops (replies echo_cb \<lparr>shutdown_req = 0\<rparr>) 496)
      (\<lparr>err_cnt = 0, ept_deleted = 0, i_payload = None, rnum = 0\<rparr>, []) = Done (0, (g', w')) \<and>
    err_cnt g' = 0 \<and> rnum g' = 480"
  using ping_app_ok [OF loop_link, where T = 496 and n = 1 and w = "[]" and ?w0.0 = "[]" and ?w1.0 = "[]"
      and g = "\<lparr>err_cnt = 0, ept_deleted = 0, i_payload = None, rnum = 0\<rparr>" and obj = "replicate 496 0"
      and sg = "\<lparr>shutdown_req = 0\<rparr>"]
  by simp

text \<open>
  The checks of the ping callback, for every message: too short for the header, or intact up to
  its end but shorter than its size field claims, is a read outside the message; a zero size
  counts an error and nothing else; otherwise the message number is taken over, and an error is
  counted exactly when one of the bytes claimed is wrong.
\<close>

theorem ping_endpoint_cb_spec:
  "ping_endpoint_cb ops data (g, w) =
     (let k = nat (to_int32 (uint (get64 8 data))); body = take k (drop 16 data);
          g' = g\<lparr>rnum := to_int32 (uint (get64 0 data + 1))\<rparr> in
      if length data < 16 then Fault Out_of_bounds
      else if get64 8 data = 0 then Done (RPMSG_SUCCESS ops, (g\<lparr>err_cnt := err_cnt g + 1\<rparr>, w))
      else if list_ex (\<lambda>b. b \<noteq> 0xA5) body
        then Done (RPMSG_SUCCESS ops, (g'\<lparr>err_cnt := err_cnt g + 1\<rparr>, w))
      else if length body < k then Fault Out_of_bounds
      else Done (RPMSG_SUCCESS ops, (g', w)))"
proof -
  have "take k bs = replicate k 0xA5 \<longleftrightarrow> \<not> list_ex (\<lambda>b. b \<noteq> (0xA5 :: byte)) (take k bs)"
    if "k \<le> length bs" for k bs
    using that by (auto simp: list_ex_iff intro!: replicate_eqI)
  then show ?thesis
    by (cases g) (auto simp: ping_endpoint_cb_def Let_def scan_a5_cases)
qed

end
