(* ===== verification/Echo_Sample.thy ===== *)
theory Echo_Sample
  imports Echo_Client
begin

text \<open>
  Two more hosts: \<open>rpmsg_sample_echo/rpmsg-sample-ping.c\<close>, which exchanges 99 greetings and a
  goodbye, and \<open>tests/msg/rpmsg-flood-ping.c\<close>, which sends as long as a buffer is free and polls
  otherwise.
\<close>

section \<open>Sample ping\<close>

definition HELLO_MSG :: bytes where
  "HELLO_MSG = map of_char ''hello world!''"

definition BYE_MSG :: bytes where
  "BYE_MSG = map of_char ''goodbye!''"

text \<open>\<open>strncmp (a, b, n) == 0\<close>, a fault when it reads past one of the arrays.\<close>

fun strncmp_eq :: "nat \<Rightarrow> bytes \<Rightarrow> bytes \<Rightarrow> bool outcome" where
  "strncmp_eq 0 a b = Done True"
| "strncmp_eq (Suc n) (x # a) (y # b) =
     (if x \<noteq> y then Done False else if x = 0 then Done True else strncmp_eq n a b)"
| "strncmp_eq (Suc n) a b = Fault Out_of_bounds"

record sample_pinger = client +
  s_rnum :: int

definition sample_ping_endpoint_cb :: "'w rpmsg \<Rightarrow> bytes \<Rightarrow> (sample_pinger \<times> 'w, int) prog" where
  "sample_ping_endpoint_cb ops data =
     bnd (lift (put_bytes 0 data (replicate (RPMSG_BUFFER_SIZE ops) 0))) (\<lambda>payload.
     if \<not> list_ex (\<lambda>b. b = 0) payload then fail Out_of_bounds
     else bnd (getg s_rnum) (\<lambda>rn.
       let seed = (if rn = 100 - 1 then BYE_MSG else HELLO_MSG) @ [0] in
       bnd (lift (strncmp_eq (length data) payload seed)) (\<lambda>same.
         if \<not> same
         then seq (updg (\<lambda>g. g\<lparr>err_cnt := err_cnt g + 1\<rparr>)) (ret (RPMSG_SUCCESS ops))
         else seq (updg (\<lambda>g. g\<lparr>s_rnum := s_rnum g + 1\<rparr>)) (ret (RPMSG_SUCCESS ops)))))"

definition sample_ping_unbind :: "'w rpmsg \<Rightarrow> (sample_pinger \<times> 'w, unit) prog" where
  "sample_ping_unbind = client_unbind"

definition sample_ping_ns_bind_cb :: "'w rpmsg \<Rightarrow> string \<Rightarrow> u32 \<Rightarrow> (sample_pinger \<times> 'w, unit) prog" where
  "sample_ping_ns_bind_cb ops = client_ns_bind ops SAMPLE_SERV_NAME (RPMSG_ADDR_ANY ops)"

fun sample_ping_cb :: "'w rpmsg \<Rightarrow> event \<Rightarrow> (sample_pinger \<times> 'w, unit) prog" where
  "sample_ping_cb ops (Rx h data src) = seq (sample_ping_endpoint_cb ops data) (ret ())"
| "sample_ping_cb ops (Ns_bind name dest) = sample_ping_ns_bind_cb ops name dest"
| "sample_ping_cb ops Ns_unbind = sample_ping_unbind ops"

definition sample_ping_round :: "nat \<Rightarrow> 'w rpmsg \<Rightarrow> nat \<Rightarrow> (sample_pinger \<times> 'w, nat + unit) prog" where
  "sample_ping_round n ops i =
     (if \<not> i \<le> 100 then ret (Inr ())
      else bnd (ext (rpmsg_send ops (if i < 100 then HELLO_MSG else BYE_MSG))) (\<lambda>r.
        if r < 0 then ret (Inr ())
        else seq (do_while n (poll ops (sample_ping_cb ops)) (getg (\<lambda>g. s_rnum g < int i \<and> err_cnt g = 0)))
                 (ret (Inl (Suc i)))))"

text \<open>After the exchange the application waits until the service goes away.\<close>

definition sample_ping_app :: "nat \<Rightarrow> 'w rpmsg \<Rightarrow> (sample_pinger \<times> 'w, int) prog" where
  "sample_ping_app n ops =
     bnd (ext (rpmsg_create_ept ops SAMPLE_SERV_NAME (RPMSG_ADDR_ANY ops) (RPMSG_ADDR_ANY ops))) (\<lambda>r.
     if r \<noteq> 0 then ret r
     else seq (wait_ready n ops (sample_ping_cb ops))
         (seq (iter 101 (sample_ping_round n ops) 1)
         (seq (while_loop n (getg (\<lambda>g. ept_deleted g = 0)) (poll ops (sample_ping_cb ops)))
              (ret 0))))"

definition sample_ping_main :: "nat \<Rightarrow> ('p, 'r, 'w) plat \<Rightarrow> 'w rpmsg \<Rightarrow> (sample_pinger \<times> 'w, int) prog" where
  "sample_ping_main n pl ops = app_main pl VIRTIO_DEV_DRIVER True (sample_ping_app n ops)"

section \<open>Flood ping\<close>

definition APP_EPT_ADDR :: u32 where
  "APP_EPT_ADDR = 1024"

definition NUMS_PACKAGES :: nat where
  "NUMS_PACKAGES = 0x100000"

text \<open>The received and the own data byte by byte; false at the first difference.\<close>

fun scan_same :: "nat \<Rightarrow> bytes \<Rightarrow> bytes \<Rightarrow> bool outcome" where
  "scan_same 0 rs is = Done True"
| "scan_same (Suc k) (r # rs) (i # is) = (if r \<noteq> i then Done False else scan_same k rs is)"
| "scan_same (Suc k) rs is = Fault Out_of_bounds"

definition flood_endpoint_cb :: "'w rpmsg \<Rightarrow> bytes \<Rightarrow> (pinger \<times> 'w, int) prog" where
  "flood_endpoint_cb ops data =
     (if length data < 16 then fail Out_of_bounds
      else let num = get64 0 data; sz = get64 8 data in
        if sz = 0 \<or> 496 < sz
        then seq (updg (\<lambda>g. g\<lparr>err_cnt := err_cnt g + 1\<rparr>)) (ret (RPMSG_SUCCESS ops))
        else bnd (getg i_payload) (\<lambda>p. case p of
          None \<Rightarrow> fail Null_deref
        | Some obj \<Rightarrow>
            bnd (lift (scan_same (unat sz) (drop 16 data) (drop 16 obj))) (\<lambda>ok.
            seq (if ok then ret () else updg (\<lambda>g. g\<lparr>err_cnt := err_cnt g + 1\<rparr>))
           (seq (updg (\<lambda>g. g\<lparr>rnum := to_int32 (uint (num + 1))\<rparr>)) (ret (RPMSG_SUCCESS ops))))))"

definition flood_service_unbind :: "'w rpmsg \<Rightarrow> (pinger \<times> 'w, unit) prog" where
  "flood_service_unbind = client_unbind"

definition flood_ns_bind_cb :: "'w rpmsg \<Rightarrow> string \<Rightarrow> u32 \<Rightarrow> (pinger \<times> 'w, unit) prog" where
  "flood_ns_bind_cb ops = client_ns_bind ops RPMSG_SERVICE_NAME APP_EPT_ADDR"

fun flood_cb :: "'w rpmsg \<Rightarrow> event \<Rightarrow> (pinger \<times> 'w, unit) prog" where
  "flood_cb ops (Rx h data src) = seq (flood_endpoint_cb ops data) (ret ())"
| "flood_cb ops (Ns_bind name dest) = flood_ns_bind_cb ops name dest"
| "flood_cb ops Ns_unbind = flood_service_unbind ops"

definition flood_alive :: "pinger \<Rightarrow> bool" where
  "flood_alive g \<longleftrightarrow> err_cnt g = 0 \<and> ept_deleted g = 0"

text \<open>
  \<open>while (!err_cnt && !ept_deleted) { ret = rpmsg_trysend(...); ... }\<close>: the loop carries the
  last value of \<open>ret\<close>, which stays as it was when the loop is not entered.
\<close>

definition flood_send :: "nat \<Rightarrow> 'w rpmsg \<Rightarrow> bytes \<Rightarrow> int \<Rightarrow> (pinger \<times> 'w, int) prog" where
  "flood_send n ops m r0 =
     iter n (\<lambda>r. bnd (getg flood_alive) (\<lambda>b.
       if \<not> b then ret (Inr r)
       else bnd (ext (rpmsg_trysend ops m)) (\<lambda>r'.
         if r' = RPMSG_ERR_NO_BUFF ops then seq (poll ops (flood_cb ops)) (ret (Inl r'))
         else ret (Inr r')))) r0"

text \<open>The packages of one size; the result is the last \<open>ret\<close>.\<close>

definition flood_packages :: "nat \<Rightarrow> 'w rpmsg \<Rightarrow> nat \<Rightarrow> nat \<Rightarrow> int \<Rightarrow> (pinger \<times> 'w, int) prog" where
  "flood_packages n ops num_pkgs sz r0 =
     iter (Suc num_pkgs) (\<lambda>(i, r).
       if \<not> i < num_pkgs then ret (Inr r)
       else bnd (getg i_payload) (\<lambda>p. case p of
         None \<Rightarrow> fail Null_deref
       | Some obj \<Rightarrow>
           bnd (lift (put_bytes 0 (le64 (word_of_nat i)) obj)) (\<lambda>obj'.
           seq (updg (\<lambda>g. g\<lparr>i_payload := Some obj'\<rparr>))
          (bnd (flood_send n ops (take sz obj') r) (\<lambda>r'.
           bnd (getg flood_alive) (\<lambda>b.
             if r' < 0 \<or> \<not> b then ret (Inr r') else ret (Inl (Suc i, r'))))))) ) (0, r0)"

text \<open>One pass of the loop over the sizes, on the size and the last \<open>ret\<close>.\<close>

definition flood_size :: "nat \<Rightarrow> 'w rpmsg \<Rightarrow> nat \<Rightarrow> int \<Rightarrow> nat \<times> int \<Rightarrow> (pinger \<times> 'w, (nat \<times> int) + unit) prog" where
  "flood_size n ops num_pkgs max_size = (\<lambda>(s, r).
     if \<not> int s \<le> max_size then ret (Inr ())
     else bnd (getg i_payload) (\<lambda>p. case p of
       None \<Rightarrow> fail Null_deref
     | Some obj \<Rightarrow>
         bnd (lift (put_bytes 8 (le64 (word_of_nat s)) obj)) (\<lambda>obj'.
         seq (updg (\<lambda>g. g\<lparr>i_payload := Some obj', rnum := 0\<rparr>))
        (bnd (flood_packages n ops num_pkgs (16 + s) r) (\<lambda>r'.
           if r' < 0 then ret (Inr ())
           else seq (while_loop n (getg (\<lambda>g. rnum g < int num_pkgs \<and> flood_alive g)) (poll ops (flood_cb ops)))
               (bnd (getg flood_alive) (\<lambda>b. if \<not> b then ret (Inr ()) else ret (Inl (Suc s, r')))))))))"

definition flood_sizes :: "nat \<Rightarrow> 'w rpmsg \<Rightarrow> nat \<Rightarrow> int \<Rightarrow> int \<Rightarrow> (pinger \<times> 'w, unit) prog" where
  "flood_sizes n ops num_pkgs max_size r0 = iter (Suc (nat max_size)) (flood_size n ops num_pkgs max_size) (1, r0)"

definition flood_app :: "nat \<Rightarrow> 'w rpmsg \<Rightarrow> (pinger \<times> 'w, int) prog" where
  "flood_app n ops =
     bnd (ext (rpmsg_create_ept ops RPMSG_SERVICE_NAME APP_EPT_ADDR (RPMSG_ADDR_ANY ops))) (\<lambda>r.
     if r \<noteq> 0 then ret r
     else seq (wait_ready n ops (flood_cb ops))
         (bnd (asks (rpmsg_get_tx_buffer_size ops)) (\<lambda>tx.
          if tx \<le> 0 then seq (extU (rpmsg_destroy_ept ops)) (ret (- 1))
          else bnd (ext (metal_allocate_memory ops (nat tx))) (\<lambda>p. case p of
            None \<Rightarrow> seq (extU (rpmsg_destroy_ept ops)) (ret (- 1))
          | Some obj \<Rightarrow> let max_size = tx - 16 in
              bnd (lift (if max_size < 0 then Fault Out_of_bounds
                         else put_bytes 16 (replicate (nat max_size) 0xA5) obj)) (\<lambda>obj'.
              seq (updg (\<lambda>g. g\<lparr>i_payload := Some obj'\<rparr>))
             (seq (flood_sizes n ops NUMS_PACKAGES max_size 0)
             (seq (extU (rpmsg_destroy_ept ops))
             (seq (extU (metal_free_memory ops)) (ret 0)))))))))"

definition flood_main :: "nat \<Rightarrow> ('p, 'r, 'w) plat \<Rightarrow> 'w rpmsg \<Rightarrow> (pinger \<times> 'w, int) prog" where
  "flood_main n pl ops = app_main pl VIRTIO_DEV_DRIVER True (flood_app n ops)"


section \<open>The exchange of the sample\<close>

lemma strncmp_eq_same: "strncmp_eq (length d) (d @ x) (d @ y) = Done True"
  by (induction d) auto

text \<open>The greeting of round \<open>i\<close>, and the callback on its echo.\<close>

abbreviation greeting :: "nat \<Rightarrow> bytes" where
  "greeting i \<equiv> if i < 100 then HELLO_MSG else BYE_MSG"

lemma length_greeting: "length (greeting i) \<le> 12"
  by (simp add: HELLO_MSG_def BYE_MSG_def)

lemma sample_ping_cb_greeting:
  assumes "0 < i" and "i \<le> 100" and "s_rnum g = int i - 1" and "16 \<le> RPMSG_BUFFER_SIZE ops"
  shows "sample_ping_endpoint_cb ops (greeting i) (g, w) = Done (RPMSG_SUCCESS ops, (g\<lparr>s_rnum := int i\<rparr>, w))"
proof -
  let ?d = "greeting i"
  let ?p = "?d @ replicate (RPMSG_BUFFER_SIZE ops - length ?d) 0"
  have l: "length ?d < RPMSG_BUFFER_SIZE ops" using length_greeting [of i] assms(4) by linarith
  then have "put_bytes 0 ?d (replicate (RPMSG_BUFFER_SIZE ops) 0) = Done ?p" by (simp add: put_bytes_def)
  moreover have "list_ex (\<lambda>b. b = 0) ?p" using l by (auto simp: list_ex_iff)
  moreover have "(if s_rnum g = 100 - 1 then BYE_MSG else HELLO_MSG) = ?d" using assms(2,3) by auto
  then have "strncmp_eq (length ?d) ?p ((if s_rnum g = 100 - 1 then BYE_MSG else HELLO_MSG) @ [0]) = Done True"
    by (simp only: strncmp_eq_same)
  ultimately show ?thesis using assms(3) by (simp add: sample_ping_endpoint_cb_def Let_def)
qed

lemma sample_ping_round_ok:
  assumes link: "peer_link ops (\<lambda>m. [m]) T D conn pend lag" and T: "12 \<le> T" "16 \<le> RPMSG_BUFFER_SIZE ops" and n: "D < n"
    and g: "err_cnt g = 0" "s_rnum g = int i - 1" and i: "0 < i" "i \<le> 100" and w: "conn w" "pend w = []"
  shows "\<exists>w'. sample_ping_round n ops i (g, w) = Done (Inl (Suc i), (g\<lparr>s_rnum := int i\<rparr>, w')) \<and> conn w' \<and> pend w' = []"
proof -
  let ?m = "greeting i" and ?wait = "\<lambda>g. s_rnum g < int i \<and> err_cnt g = 0"
  obtain r w1 where s: "rpmsg_send ops ?m w = (r, w1)" by fastforce
  have "length ?m \<le> T" using length_greeting [of i] T(1) by linarith
  from peer_link_send [OF link w(1) this s] w(2) have w1: "0 \<le> r" "conn w1" "pend w1 = [?m]" by auto
  have "\<exists>g' w'. do_while n (poll ops (sample_ping_cb ops)) (getg ?wait) (g, w1) = Done ((), (g', w')) \<and>
      conn w' \<and> pend w' = [] \<and> g' = g\<lparr>s_rnum := int i\<rparr>"
  proof (rule await_answer [OF link w1(2,3)])
    show "s_rnum g < int i \<and> err_cnt g = 0" using g by simp
    show "lag w1 < n" using peer_link_lag [OF link w1(2)] n by simp
    fix h src w' assume "conn w'" "pend w' = []"
    then show "\<exists>x g' w''. sample_ping_cb ops (Rx h ?m src) (g, w') = Done (x, (g', w'')) \<and>
        conn w'' \<and> pend w'' = [] \<and> g' = g\<lparr>s_rnum := int i\<rparr> \<and> \<not> (s_rnum g' < int i \<and> err_cnt g' = 0)"
      using sample_ping_cb_greeting [OF i g(2) T(2), of w'] by (simp del: if_distrib)
  qed
  then obtain w' where "do_while n (poll ops (sample_ping_cb ops)) (getg ?wait) (g, w1)
      = Done ((), (g\<lparr>s_rnum := int i\<rparr>, w'))" "conn w'" "pend w' = []" by blast
  with s w1(1) i show ?thesis by (simp add: sample_ping_round_def)
qed

text \<open>
  The sample host against a peer that echoes: all 100 rounds, 99 greetings and the goodbye, come
  back and are recognised, without an error.
\<close>

theorem sample_ping_exchange:
  assumes link: "peer_link ops (\<lambda>m. [m]) T D conn pend lag" and "12 \<le> T" and "16 \<le> RPMSG_BUFFER_SIZE ops" and "D < n"
    and "err_cnt g = 0" and "s_rnum g = 0" and "conn w" and "pend w = []"
  shows "\<exists>w'. iter 101 (sample_ping_round n ops) 1 (g, w) = Done ((), (g\<lparr>s_rnum := 100\<rparr>, w')) \<and> pend w' = []"
proof -
  have loop: "\<exists>w'. iter (Suc k) (sample_ping_round n ops) i (g, w) = Done ((), (g\<lparr>s_rnum := 100\<rparr>, w')) \<and> pend w' = []"
    if "k + i = 101" "0 < i" "err_cnt g = 0" "s_rnum g = int i - 1" "conn w" "pend w = []" for k i g w
    using that
  proof (induction k arbitrary: i g w)
    case 0
    then have "g\<lparr>s_rnum := 100\<rparr> = g" by (cases g) simp
    with 0 show ?case by (simp add: sample_ping_round_def)
  next
    case (Suc k)
    then have i: "0 < i" "i \<le> 100" by linarith+
    from sample_ping_round_ok [OF assms(1-4) Suc.prems(3,4) i Suc.prems(5,6)] obtain w' where
      1: "sample_ping_round n ops i (g, w) = Done (Inl (Suc i), (g\<lparr>s_rnum := int i\<rparr>, w'))" "conn w'" "pend w' = []" by blast
    with Suc.IH [of "Suc i" "g\<lparr>s_rnum := int i\<rparr>" w'] Suc.prems show ?case by simp
  qed
  show ?thesis using loop [of 100 1 g w] assms(5-8) by (simp del: iter.simps)
qed

theorem sample_ping_exchange_witness:
  "\<exists>w'. iter 101 (sample_ping_round 1 (loop_ops (\<lambda>m. [m]) 496)) 1 (\<lparr>err_cnt = 0, ept_deleted = 0, s_rnum = 0\<rparr>, [])
    = Done ((), (\<lparr>err_cnt = 0, ept_deleted = 0, s_rnum = 100\<rparr>, w')) \<and> w' = []"
  using sample_ping_exchange [OF loop_link, of 496 1 "\<lparr>err_cnt = 0, ept_deleted = 0, s_rnum = 0\<rparr>" "[]"]
  by (simp add: loop_ops_def del: iter.simps)

end
