(* ===== verification/Echo_Nocopy.thy ===== *)
theory Echo_Nocopy
  imports Echo_Client "HOL-Library.Multiset"
begin

text \<open>
  The zero-copy echo: \<open>examples/nocopy_echo\<close> and \<open>tests/msg/rpmsg-nocopy-*.c\<close>.  The services keep
  received buffers on a linked list (here a list of handles and contents, oldest first), send
  them back from the application loop and release them; the hosts fill the transmit buffers of
  the library in place.
\<close>

section \<open>The zero-copy echo service\<close>

record nocopy_server = server +
  rpmsg_list :: "(nat \<times> bytes) list"

text \<open>\<open>sizeof (struct rpmsg_rcv_msg)\<close>: two pointers, a size and a pointer.\<close>

definition nocopy_endpoint_cb :: "'w rpmsg \<Rightarrow> nat \<Rightarrow> bytes \<Rightarrow> ('g nocopy_server_scheme \<times> 'w, int) prog" where
  "nocopy_endpoint_cb ops h data =
     (if length data < 4 then fail Out_of_bounds
      else if get32 0 data = SHUTDOWN_MSG
      then seq (updg (\<lambda>g. g\<lparr>shutdown_req := 1\<rparr>)) (ret (RPMSG_SUCCESS ops))
      else bnd (ext (metal_allocate_memory ops 32)) (\<lambda>node. case node of
        None \<Rightarrow> ret (- 1)
      | Some _ \<Rightarrow> seq (extU (rpmsg_hold_rx_buffer ops h))
                 (seq (updg (\<lambda>g. g\<lparr>rpmsg_list := rpmsg_list g @ [(h, data)]\<rparr>))
                      (ret (RPMSG_SUCCESS ops)))))"

definition nocopy_service_unbind :: "('g nocopy_server_scheme \<times> 'w, unit) prog" where
  "nocopy_service_unbind = updg (\<lambda>g. g\<lparr>shutdown_req := 1\<rparr>)"

fun nocopy_cb :: "'w rpmsg \<Rightarrow> event \<Rightarrow> ('g nocopy_server_scheme \<times> 'w, unit) prog" where
  "nocopy_cb ops (Rx h data src) = seq (nocopy_endpoint_cb ops h data) (ret ())"
| "nocopy_cb ops (Ns_bind name dest) = ret ()"
| "nocopy_cb ops Ns_unbind = nocopy_service_unbind"

text \<open>
  \<open>while (rpmsg_list) \<dots>\<close>: the oldest message is sent, its buffer released and its node freed; a
  failed send makes the application return.
\<close>

definition nocopy_drain :: "nat \<Rightarrow> 'w rpmsg \<Rightarrow> (nocopy_server \<times> 'w, int option) prog" where
  "nocopy_drain n ops =
     iter n (\<lambda>_. bnd (getg rpmsg_list) (\<lambda>l. case l of
       [] \<Rightarrow> ret (Inr None)
     | (h, data) # rest \<Rightarrow>
         bnd (ext (rpmsg_send ops data)) (\<lambda>r.
           if r < 0 then ret (Inr (Some r))
           else seq (extU (rpmsg_release_rx_buffer ops h))
               (seq (updg (\<lambda>g. g\<lparr>rpmsg_list := rest\<rparr>))
               (seq (extU (metal_free_memory ops)) (ret (Inl ()))))))) ()"

text \<open>One pass of the application loop; the result \<open>Some e\<close> is a return with \<open>e\<close>.\<close>

definition nocopy_pass :: "nat \<Rightarrow> 'w rpmsg \<Rightarrow> (nocopy_server \<times> 'w, unit + int option) prog" where
  "nocopy_pass n ops =
     seq (poll ops (nocopy_cb ops))
    (bnd (getg shutdown_req) (\<lambda>d.
       if d \<noteq> 0 then ret (Inr None)
       else bnd (nocopy_drain n ops) (\<lambda>x. case x of
         None \<Rightarrow> ret (Inl ()) | Some e \<Rightarrow> ret (Inr (Some e)))))"

definition nocopy_app :: "nat \<Rightarrow> 'w rpmsg \<Rightarrow> (nocopy_server \<times> 'w, int) prog" where
  "nocopy_app n ops =
     seq (updg (\<lambda>g. g\<lparr>rpmsg_list := []\<rparr>))
    (bnd (ext (rpmsg_create_ept ops RPMSG_SERVICE_NAME (RPMSG_ADDR_ANY ops) (RPMSG_ADDR_ANY ops))) (\<lambda>r.
     if r \<noteq> 0 then ret (- 1)
     else bnd (iter n (\<lambda>_. nocopy_pass n ops) ())
          (\<lambda>x. case x of
             None \<Rightarrow> seq (extU (rpmsg_destroy_ept ops)) (ret 0)
           | Some e \<Rightarrow> ret e)))"

definition nocopy_echo_main :: "nat \<Rightarrow> ('p, 'r, 'w) plat \<Rightarrow> 'w rpmsg \<Rightarrow> (nocopy_server \<times> 'w, int) prog" where
  "nocopy_echo_main n pl ops = app_main pl VIRTIO_DEV_DEVICE False (nocopy_app n ops)"

section \<open>The zero-copy test service\<close>

text \<open>
  \<open>dangling\<close> records that the buffer of the first list node has been released while the node is
  still on the list: sending from it again is a use after release.
\<close>

record nocopy_test = nocopy_server +
  dangling :: bool

definition test_nocopy_endpoint_cb :: "'w rpmsg \<Rightarrow> nat \<Rightarrow> bytes \<Rightarrow> (nocopy_test \<times> 'w, int) prog" where
  "test_nocopy_endpoint_cb = nocopy_endpoint_cb"

definition test_nocopy_unbind :: "(nocopy_test \<times> 'w, unit) prog" where
  "test_nocopy_unbind = nocopy_service_unbind"

definition MAX_NB_TX_BUFF :: nat where
  "MAX_NB_TX_BUFF = 10"

text \<open>\<open>k\<close> transmit buffers in a row; a buffer that is not to be had is NULL.\<close>

fun get_tx_buffers :: "'w rpmsg \<Rightarrow> nat \<Rightarrow> ('g \<times> 'w, nat option list) prog" where
  "get_tx_buffers ops 0 = ret []"
| "get_tx_buffers ops (Suc k) =
     bnd (ext (rpmsg_get_tx_payload_buffer ops)) (\<lambda>b.
     bnd (get_tx_buffers ops k) (\<lambda>bs. ret (map_option fst b # bs)))"

text \<open>Release in the given order; false at the first failure.\<close>

fun release_tx_buffers :: "'w rpmsg \<Rightarrow> nat option list \<Rightarrow> ('g \<times> 'w, bool) prog" where
  "release_tx_buffers ops [] = ret True"
| "release_tx_buffers ops (b # bs) =
     bnd (ext (rpmsg_release_tx_buffer ops b)) (\<lambda>r.
     if r \<noteq> RPMSG_SUCCESS ops \<and> r \<noteq> 0 then ret False else release_tx_buffers ops bs)"

text \<open>
  The inner loop, with the counter \<open>i\<close>.  The three early exits of the discard step leave the
  node on the list although its buffer has been released.
\<close>

definition test_nocopy_drain ::
    "nat \<Rightarrow> 'w rpmsg \<Rightarrow> nat option \<Rightarrow> nat \<Rightarrow> (nocopy_test \<times> 'w, nat + int) prog" where
  "test_nocopy_drain n ops lost i0 =
     iter n (\<lambda>i. bnd (getg (\<lambda>g. (rpmsg_list g, dangling g))) (\<lambda>(l, dang). case l of
       [] \<Rightarrow> ret (Inr (Inl i))
     | (h, data) # rest \<Rightarrow>
         if dang then fail Use_after_free
         else bnd (ext (rpmsg_send ops data)) (\<lambda>r.
           if r < 0 then ret (Inr (Inr r))
           else let pop = seq (updg (\<lambda>g. g\<lparr>rpmsg_list := rest\<rparr>))
                         (seq (extU (metal_free_memory ops)) (ret (Inl (Suc i))));
                    leave = seq (updg (\<lambda>g. g\<lparr>dangling := True\<rparr>)) (ret (Inr (Inl (Suc i)))) in
             seq (extU (rpmsg_release_rx_buffer ops h))
             (if i mod 13 = 0
              then bnd (ext (rpmsg_get_tx_payload_buffer ops)) (\<lambda>b. case b of
                     None \<Rightarrow> leave
                   | Some (t, _) \<Rightarrow>
                       if Some t = lost then leave
                       else bnd (ext (rpmsg_release_tx_buffer ops (Some t))) (\<lambda>r.
                              if r < 0 then leave else pop))
              else pop)))) i0"

definition test_nocopy_app :: "nat \<Rightarrow> 'w rpmsg \<Rightarrow> (nocopy_test \<times> 'w, int) prog" where
  "test_nocopy_app n ops =
     seq (updg (\<lambda>g. g\<lparr>rpmsg_list := [], dangling := False\<rparr>))
    (bnd (ext (rpmsg_create_ept ops RPMSG_SERVICE_NAME (RPMSG_ADDR_ANY ops) (RPMSG_ADDR_ANY ops))) (\<lambda>r.
     if r \<noteq> 0 then ret (- 1)
     else bnd (get_tx_buffers ops MAX_NB_TX_BUFF) (\<lambda>buff_list.
          bnd (release_tx_buffers ops (take (MAX_NB_TX_BUFF - 1) buff_list)) (\<lambda>ok.
          if \<not> ok then ret (- 1)
          else bnd (iter n (\<lambda>i. seq (poll ops (nocopy_cb ops))
                     (bnd (getg shutdown_req) (\<lambda>d.
                       if d \<noteq> 0 then ret (Inr None)
                       else bnd (test_nocopy_drain n ops (buff_list ! (MAX_NB_TX_BUFF - 1)) i) (\<lambda>x. case x of
                         Inl i' \<Rightarrow> ret (Inl i') | Inr e \<Rightarrow> ret (Inr (Some e)))))) (MAX_NB_TX_BUFF - 1))
              (\<lambda>x. case x of
                 None \<Rightarrow> seq (extU (rpmsg_destroy_ept ops)) (ret 0)
               | Some e \<Rightarrow> ret e)))))"

definition test_nocopy_echo_main :: "nat \<Rightarrow> ('p, 'r, 'w) plat \<Rightarrow> 'w rpmsg \<Rightarrow> (nocopy_test \<times> 'w, int) prog" where
  "test_nocopy_echo_main n pl ops = app_main pl VIRTIO_DEV_DEVICE False (test_nocopy_app n ops)"

section \<open>The zero-copy hosts\<close>

text \<open>\<open>rcv_msg\<close> is the last message received: its buffer and its contents.\<close>

record nocopy_pinger = client +
  n_rnum :: int
  rcv_msg :: "(nat \<times> bytes) option"

definition rpmsg_check_rcv_msg :: "'w rpmsg \<Rightarrow> (nat \<times> bytes) option \<Rightarrow> u32 \<Rightarrow> (nocopy_pinger \<times> 'w, int) prog" where
  "rpmsg_check_rcv_msg ops msg exp_num = (case msg of
     None \<Rightarrow> fail Null_deref
   | Some (h, data) \<Rightarrow>
       bnd (if length data < 16 then fail Out_of_bounds
            else if get64 0 data \<noteq> ucast exp_num then ret (RPMSG_ERR_PARAM ops)
            else if get64 8 data = 0 then ret (RPMSG_ERR_PARAM ops)
            else bnd (lift (scan_a5 (nat (to_int32 (uint (get64 8 data)))) (drop 16 data))) (\<lambda>ok.
                 ret (if ok then RPMSG_SUCCESS ops else RPMSG_ERR_PARAM ops)))
           (\<lambda>r. seq (extU (rpmsg_release_rx_buffer ops h)) (ret r)))"

definition nocopy_ping_endpoint_cb :: "'w rpmsg \<Rightarrow> nat \<Rightarrow> bytes \<Rightarrow> (nocopy_pinger \<times> 'w, int) prog" where
  "nocopy_ping_endpoint_cb ops h data =
     seq (extU (rpmsg_hold_rx_buffer ops h))
    (seq (updg (\<lambda>g. g\<lparr>rcv_msg := Some (h, data)\<rparr>))
    (if length data < 16 then fail Out_of_bounds
     else seq (updg (\<lambda>g. g\<lparr>n_rnum := to_int32 (uint (get64 0 data + 1))\<rparr>)) (ret (RPMSG_SUCCESS ops))))"

definition nocopy_ping_unbind :: "'w rpmsg \<Rightarrow> (nocopy_pinger \<times> 'w, unit) prog" where
  "nocopy_ping_unbind = client_unbind"

definition nocopy_ping_ns_bind_cb :: "'w rpmsg \<Rightarrow> string \<Rightarrow> u32 \<Rightarrow> (nocopy_pinger \<times> 'w, unit) prog" where
  "nocopy_ping_ns_bind_cb ops = client_ns_bind ops RPMSG_SERVICE_NAME (RPMSG_ADDR_ANY ops)"

fun nocopy_ping_cb :: "'w rpmsg \<Rightarrow> event \<Rightarrow> (nocopy_pinger \<times> 'w, unit) prog" where
  "nocopy_ping_cb ops (Rx h data src) = seq (nocopy_ping_endpoint_cb ops h data) (ret ())"
| "nocopy_ping_cb ops (Ns_bind name dest) = nocopy_ping_ns_bind_cb ops name dest"
| "nocopy_ping_cb ops Ns_unbind = nocopy_ping_unbind ops"

text \<open>The buffer sizes are 32-bit unsigned here; \<open>num_payloads\<close> is converted to \<open>int\<close>.\<close>

definition nocopy_ping_round :: "nat \<Rightarrow> 'w rpmsg \<Rightarrow> int \<Rightarrow> nat \<Rightarrow> (nocopy_pinger \<times> 'w, nat + unit) prog" where
  "nocopy_ping_round n ops num_payloads i =
     (if \<not> int i < num_payloads then ret (Inr ())
      else bnd (ext (rpmsg_get_tx_payload_buffer ops)) (\<lambda>b. case b of
        None \<Rightarrow> ret (Inr ())
      | Some (h, obj) \<Rightarrow>
          bnd (lift (fill_payload i (i + 1) obj)) (\<lambda>obj'.
          bnd (ext (rpmsg_send_nocopy ops h (take (16 + (i + 1)) obj'))) (\<lambda>r.
            if r < 0 then ret (Inr ())
            else seq (do_while n (poll ops (nocopy_ping_cb ops))
                        (getg (\<lambda>g. n_rnum g < int (i + 1) \<and> ept_deleted g = 0)))
                (bnd (getg ept_deleted) (\<lambda>d.
                  if d \<noteq> 0 then ret (Inr ())
                  else bnd (getg rcv_msg) (\<lambda>m.
                       bnd (rpmsg_check_rcv_msg ops m (word_of_nat i)) (\<lambda>c.
                         seq (if c \<noteq> 0 then updg (\<lambda>g. g\<lparr>err_cnt := err_cnt g + 1\<rparr>) else ret ())
                             (ret (Inl (Suc i)))))))))))"

definition nocopy_ping_app :: "nat \<Rightarrow> 'w rpmsg \<Rightarrow> (nocopy_pinger \<times> 'w, int) prog" where
  "nocopy_ping_app n ops =
     bnd (ext (rpmsg_create_ept ops RPMSG_SERVICE_NAME (RPMSG_ADDR_ANY ops) (RPMSG_ADDR_ANY ops))) (\<lambda>r.
     if r \<noteq> 0 then ret r
     else seq (wait_ready n ops (nocopy_ping_cb ops))
         (bnd (asks (rpmsg_get_tx_buffer_size ops)) (\<lambda>tx.
          if to_int32 tx \<le> 0 then seq (extU (rpmsg_destroy_ept ops)) (ret (- 1))
          else let num_payloads = to_int32 (to_int32 tx - 16 - 1 + 1) in
               seq (iter (Suc (nat num_payloads)) (nocopy_ping_round n ops num_payloads) 0)
              (seq (extU (rpmsg_destroy_ept ops)) (ret 0)))))"

definition nocopy_ping_main :: "nat \<Rightarrow> ('p, 'r, 'w) plat \<Rightarrow> 'w rpmsg \<Rightarrow> (nocopy_pinger \<times> 'w, int) prog" where
  "nocopy_ping_main n pl ops = app_main pl VIRTIO_DEV_DRIVER True (nocopy_ping_app n ops)"

section \<open>The zero-copy test host\<close>

definition test_check_rcv_msg :: "'w rpmsg \<Rightarrow> (nat \<times> bytes) option \<Rightarrow> u32 \<Rightarrow> (nocopy_pinger \<times> 'w, int) prog" where
  "test_check_rcv_msg = rpmsg_check_rcv_msg"

definition test_nocopy_ping_endpoint_cb :: "'w rpmsg \<Rightarrow> nat \<Rightarrow> bytes \<Rightarrow> (nocopy_pinger \<times> 'w, int) prog" where
  "test_nocopy_ping_endpoint_cb = nocopy_ping_endpoint_cb"

definition test_nocopy_ping_unbind :: "'w rpmsg \<Rightarrow> (nocopy_pinger \<times> 'w, unit) prog" where
  "test_nocopy_ping_unbind = client_unbind"

definition test_nocopy_ping_ns_bind_cb :: "'w rpmsg \<Rightarrow> string \<Rightarrow> u32 \<Rightarrow> (nocopy_pinger \<times> 'w, unit) prog" where
  "test_nocopy_ping_ns_bind_cb ops = client_ns_bind ops RPMSG_SERVICE_NAME (RPMSG_ADDR_ANY ops)"

text \<open>A buffer that must be there and must not be the lost one; every other case counts an error.\<close>

definition test_get_buffer :: "'w rpmsg \<Rightarrow> nat option \<Rightarrow> (nocopy_pinger \<times> 'w, (nat \<times> bytes) option) prog" where
  "test_get_buffer ops lost =
     bnd (ext (rpmsg_get_tx_payload_buffer ops)) (\<lambda>b.
       if b = None \<or> map_option fst b = lost
       then seq (updg (\<lambda>g. g\<lparr>err_cnt := err_cnt g + 1\<rparr>)) (ret None) else ret b)"

definition test_nocopy_ping_round ::
    "nat \<Rightarrow> 'w rpmsg \<Rightarrow> nat option \<Rightarrow> int \<Rightarrow> nat \<Rightarrow> (nocopy_pinger \<times> 'w, nat + unit) prog" where
  "test_nocopy_ping_round n ops lost num_payloads i =
     (let err = seq (updg (\<lambda>g. g\<lparr>err_cnt := err_cnt g + 1\<rparr>)) (ret (Inr ()));
          tail = seq (do_while n (poll ops (nocopy_ping_cb ops))
                       (getg (\<lambda>g. n_rnum g < int (i + 1) \<and> err_cnt g = 0 \<and> ept_deleted g = 0)))
                (bnd (getg ept_deleted) (\<lambda>d.
                  if d \<noteq> 0 then ret (Inr ())
                  else bnd (getg rcv_msg) (\<lambda>m.
                       bnd (rpmsg_check_rcv_msg ops m (word_of_nat i)) (\<lambda>c.
                         seq (if c \<noteq> 0 then updg (\<lambda>g. g\<lparr>err_cnt := err_cnt g + 1\<rparr>) else ret ())
                             (ret (Inl (Suc i)))))))
      in if \<not> int i < num_payloads then ret (Inr ())
         else bnd (test_get_buffer ops lost) (\<lambda>b. case b of
           None \<Rightarrow> ret (Inr ())
         | Some (h, obj) \<Rightarrow>
             bnd (lift (fill_payload i (i + 1) obj)) (\<lambda>obj'.
             bnd (ext (rpmsg_send_nocopy ops h (take (16 + (i + 1)) obj'))) (\<lambda>r.
               if r < 0 then err
               else if i mod 13 = 0
               then bnd (test_get_buffer ops lost) (\<lambda>b. case b of
                      None \<Rightarrow> ret (Inr ())
                    | Some (t, _) \<Rightarrow> bnd (ext (rpmsg_release_tx_buffer ops (Some t))) (\<lambda>r.
                        if r < 0 then err else tail))
               else tail))))"

definition test_nocopy_ping_app :: "nat \<Rightarrow> 'w rpmsg \<Rightarrow> (nocopy_pinger \<times> 'w, int) prog" where
  "test_nocopy_ping_app n ops =
     bnd (ext (rpmsg_create_ept ops RPMSG_SERVICE_NAME (RPMSG_ADDR_ANY ops) (RPMSG_ADDR_ANY ops))) (\<lambda>r.
     if r \<noteq> 0 then ret r
     else seq (wait_ready n ops (nocopy_ping_cb ops))
         (bnd (asks (rpmsg_get_tx_buffer_size ops)) (\<lambda>tx.
          if to_int32 tx \<le> 0 then seq (extU (rpmsg_destroy_ept ops)) (ret (- 1))
          else let num_payloads = to_int32 (to_int32 tx - 16 - 1 + 1) in
               bnd (get_tx_buffers ops MAX_NB_TX_BUFF) (\<lambda>buff_list.
               bnd (release_tx_buffers ops (rev (drop 1 buff_list))) (\<lambda>ok.
               if \<not> ok then ret (- 1)
               else seq (iter (Suc (nat num_payloads)) (test_nocopy_ping_round n ops (buff_list ! 0) num_payloads) 0)
                   (seq (extU (rpmsg_destroy_ept ops))
                   (bnd (getg err_cnt) (\<lambda>e. ret (if e \<noteq> 0 then - 1 else 0))))))))) "

definition test_nocopy_ping_main :: "nat \<Rightarrow> ('p, 'r, 'w) plat \<Rightarrow> 'w rpmsg \<Rightarrow> (nocopy_pinger \<times> 'w, int) prog" where
  "test_nocopy_ping_main n pl ops = app_main pl VIRTIO_DEV_DRIVER True (test_nocopy_ping_app n ops)"

section \<open>Buffer ownership\<close>

text \<open>
  What the zero-copy service relies on besides a scripted peer: \<open>held\<close> are the receive buffers
  the application holds, holding adds one, releasing gives it back, and nothing else changes it;
  allocation succeeds.
\<close>

definition ownership ::
    "'w rpmsg \<Rightarrow> ('w \<Rightarrow> event list list) \<Rightarrow> ('w \<Rightarrow> bytes list) \<Rightarrow> ('w \<Rightarrow> nat multiset) \<Rightarrow> bool" where
  "ownership ops script sent held \<longleftrightarrow>
     scripted ops script sent \<and>
     (\<forall>m w. held (snd (rpmsg_send ops m w)) = held w) \<and>
     (\<forall>w. held (snd (platform_poll ops w)) = held w) \<and>
     (\<forall>h w. script (rpmsg_hold_rx_buffer ops h w) = script w \<and> sent (rpmsg_hold_rx_buffer ops h w) = sent w \<and>
        held (rpmsg_hold_rx_buffer ops h w) = add_mset h (held w)) \<and>
     (\<forall>h w. script (rpmsg_release_rx_buffer ops h w) = script w \<and> sent (rpmsg_release_rx_buffer ops h w) = sent w \<and>
        held (rpmsg_release_rx_buffer ops h w) = held w - {#h#}) \<and>
     (\<forall>k w. fst (metal_allocate_memory ops k w) \<noteq> None \<and>
        script (snd (metal_allocate_memory ops k w)) = script w \<and>
        sent (snd (metal_allocate_memory ops k w)) = sent w \<and> held (snd (metal_allocate_memory ops k w)) = held w) \<and>
     (\<forall>w. script (metal_free_memory ops w) = script w \<and> sent (metal_free_memory ops w) = sent w \<and>
        held (metal_free_memory ops w) = held w)"

lemma ownership_scripted: "ownership ops script sent held \<Longrightarrow> scripted ops script sent"
  and ownership_send: "ownership ops script sent held \<Longrightarrow> held (snd (rpmsg_send ops m w)) = held w"
  and ownership_poll: "ownership ops script sent held \<Longrightarrow> held (snd (platform_poll ops w)) = held w"
  and ownership_hold: "ownership ops script sent held \<Longrightarrow>
    script (rpmsg_hold_rx_buffer ops h w) = script w \<and> sent (rpmsg_hold_rx_buffer ops h w) = sent w \<and>
    held (rpmsg_hold_rx_buffer ops h w) = add_mset h (held w)"
  and ownership_release: "ownership ops script sent held \<Longrightarrow>
    script (rpmsg_release_rx_buffer ops h w) = script w \<and> sent (rpmsg_release_rx_buffer ops h w) = sent w \<and>
    held (rpmsg_release_rx_buffer ops h w) = held w - {#h#}"
  and ownership_alloc: "ownership ops script sent held \<Longrightarrow>
    fst (metal_allocate_memory ops k w) \<noteq> None \<and> script (snd (metal_allocate_memory ops k w)) = script w \<and>
    sent (snd (metal_allocate_memory ops k w)) = sent w \<and> held (snd (metal_allocate_memory ops k w)) = held w"
  and ownership_free: "ownership ops script sent held \<Longrightarrow>
    script (metal_free_memory ops w) = script w \<and> sent (metal_free_memory ops w) = sent w \<and>
    held (metal_free_memory ops w) = held w"
  unfolding ownership_def by blast+

lemmas ownership_facts =
  ownership_scripted ownership_send ownership_poll ownership_hold ownership_release
  ownership_alloc ownership_free

text \<open>The messages of a batch that are queued.\<close>

abbreviation queued :: "event list \<Rightarrow> (nat \<times> bytes) list" where
  "queued es \<equiv> map (\<lambda>e. (rx_buf e, rx_data e)) (filter echoed es)"

definition nocopy_step :: "nocopy_server \<Rightarrow> event \<Rightarrow> nocopy_server" where
  "nocopy_step g e = (if echoed e then g\<lparr>rpmsg_list := rpmsg_list g @ [(rx_buf e, rx_data e)]\<rparr>
     else if stops e then g\<lparr>shutdown_req := 1\<rparr> else g)"

lemma nocopy_cb_step:
  assumes own: "ownership ops script sent held" and "readable e"
  shows "\<exists>w'. nocopy_cb ops e (g, w) = Done ((), (nocopy_step g e, w')) \<and> script w' = script w \<and>
    sent w' = sent w \<and> held w' = mset (map fst (queued [e])) + held w"
proof (cases e)
  case (Rx h data src)
  obtain o' w1 where a: "metal_allocate_memory ops 32 w = (Some o', w1)"
    using ownership_alloc [OF own, of 32 w] by (metis not_None_eq prod.collapse)
  with ownership_alloc [OF own, of 32 w] ownership_hold [OF own, of h w1]
  show ?thesis using Rx assms(2) by (auto simp: nocopy_endpoint_cb_def nocopy_step_def)
qed (auto simp: nocopy_step_def nocopy_service_unbind_def)

lemma nocopy_batch:
  fixes g :: nocopy_server
  assumes own: "ownership ops script sent held" and "list_all readable es"
  shows "\<exists>w'. run_events (nocopy_cb ops) es (g, w)
      = Done ((), (g\<lparr>rpmsg_list := rpmsg_list g @ queued es,
                     shutdown_req := if list_ex stops es then 1 else shutdown_req g\<rparr>, w')) \<and>
    script w' = script w \<and> sent w' = sent w \<and> held w' = mset (map fst (queued es)) + held w"
  using assms(2)
proof (induction es arbitrary: g w)
  case Nil
  then show ?case by simp
next
  case (Cons e es)
  from nocopy_cb_step [OF own, of e g w] Cons.prems obtain w1 where
    1: "nocopy_cb ops e (g, w) = Done ((), (nocopy_step g e, w1))" "script w1 = script w" "sent w1 = sent w"
      "held w1 = mset (map fst (queued [e])) + held w" by auto
  from Cons.IH [of "nocopy_step g e" w1] Cons.prems 1 show ?case
    by (auto simp: nocopy_step_def) (cases e; auto)+
qed

lemma nocopy_drain_run:
  assumes own: "ownership ops script sent held" and "length (rpmsg_list g) < n"
    and "held w = mset (map fst (rpmsg_list g)) + H"
  shows "\<exists>w'. nocopy_drain n ops (g, w) = Done (None, (g\<lparr>rpmsg_list := []\<rparr>, w')) \<and> script w' = script w \<and>
    sent w' = sent w @ map snd (rpmsg_list g) \<and> held w' = H"
  using assms(2,3)
proof (induction "rpmsg_list g" arbitrary: g w n)
  case Nil
  then show ?case by (cases n; cases g) (auto simp: nocopy_drain_def)
next
  case (Cons x l)
  obtain h data where "x = (h, data)" by fastforce
  with Cons.hyps(2) have l: "rpmsg_list g = (h, data) # l" by simp
  with Cons.prems(1) obtain m where n: "n = Suc m" "length l < m" by (cases n) auto
  let ?w = "metal_free_memory ops (rpmsg_release_rx_buffer ops h (snd (rpmsg_send ops data w)))"
  note sent = scripted_sent [OF ownership_scripted [OF own], of data w]
  have w: "script ?w = script w" "sent ?w = sent w @ [data]" "held ?w = mset (map fst l) + H"
    using ownership_free [OF own] ownership_release [OF own] ownership_send [OF own] sent Cons.prems(2)
    by (simp_all add: l)
  have "nocopy_drain n ops (g, w) = nocopy_drain m ops (g\<lparr>rpmsg_list := l\<rparr>, ?w)"
    using sent by (simp add: nocopy_drain_def n l)
  with Cons.hyps(1) [of "g\<lparr>rpmsg_list := l\<rparr>" m ?w] n(2) w show ?case by (simp add: l)
qed

lemma nocopy_poll_run:
  fixes g :: nocopy_server
  assumes own: "ownership ops script sent held" and "script w = es # later" and "list_all readable es"
  shows "\<exists>w'. poll ops (nocopy_cb ops) (g, w) = Done ((), (g\<lparr>rpmsg_list := rpmsg_list g @ queued es,
      shutdown_req := if list_ex stops es then 1 else shutdown_req g\<rparr>, w')) \<and>
    script w' = later \<and> sent w' = sent w \<and> held w' = mset (map fst (queued es)) + held w"
proof -
  from scripted_poll [OF ownership_scripted [OF own] assms(2)] obtain w1 where
    w1: "platform_poll ops w = (es, w1)" "script w1 = later" "sent w1 = sent w" by blast
  with ownership_poll [OF own, of w] have "held w1 = held w" by simp
  with nocopy_batch [OF own assms(3), of g w1] w1 show ?thesis by (simp add: poll_eq)
qed

text \<open>A pass with no stop answers its whole batch and holds nothing back.\<close>

lemma nocopy_pass_serves:
  assumes own: "ownership ops script sent held" and "script w = es # later" and "list_all readable es"
    and "\<not> list_ex stops es" and "shutdown_req g = 0" and "rpmsg_list g = []" and "length es < n"
  shows "\<exists>w'. nocopy_pass n ops (g, w) = Done (Inl (), (g, w')) \<and> script w' = later \<and>
    sent w' = sent w @ map rx_data (filter echoed es) \<and> held w' = held w"
proof -
  let ?g = "g\<lparr>rpmsg_list := queued es\<rparr>"
  from nocopy_poll_run [OF assms(1-3), of g] assms(4-6) obtain w1 where
    w1: "poll ops (nocopy_cb ops) (g, w) = Done ((), (?g, w1))" "script w1 = later" "sent w1 = sent w"
      "held w1 = mset (map fst (queued es)) + held w" by (cases g) auto
  have "length (queued es) < n" using assms(7) by (auto intro: le_less_trans [OF length_filter_le])
  with nocopy_drain_run [OF own, of ?g n w1 "held w"] w1 obtain w2 where
    "nocopy_drain n ops (?g, w1) = Done (None, (g\<lparr>rpmsg_list := []\<rparr>, w2))" "script w2 = later"
    "sent w2 = sent w @ map rx_data (filter echoed es)" "held w2 = held w" by (auto simp: comp_def)
  moreover have "g\<lparr>rpmsg_list := []\<rparr> = g" using assms(6) by (cases g) simp
  ultimately show ?thesis using w1(1) assms(5) by (simp add: nocopy_pass_def)
qed

lemma nocopy_pass_stops:
  assumes own: "ownership ops script sent held" and "script w = es # later" and "list_all readable es"
    and "list_ex stops es"
  shows "\<exists>g' w'. nocopy_pass n ops (g, w) = Done (Inr None, (g', w')) \<and> script w' = later \<and>
    sent w' = sent w \<and> held w' = mset (map rx_buf (filter echoed es)) + held w"
  using nocopy_poll_run [OF assms(1-3), of g] assms(4) by (auto simp: nocopy_pass_def comp_def)

lemma nocopy_loop:
  assumes own: "ownership ops script sent held" and b: "list_ex stops b" "list_all readable b"
    and "script w = bs @ b # rest" and "length bs < m" and "\<forall>es \<in> set bs. length es < n"
    and "shutdown_req g = 0" and "rpmsg_list g = []" and "list_all readable (concat bs)"
    and "\<not> list_ex stops (concat bs)"
  shows "\<exists>g' w'. iter m (\<lambda>_. nocopy_pass n ops) () (g, w) = Done (None, (g', w')) \<and> script w' = rest \<and>
    sent w' = sent w @ map rx_data (filter echoed (concat bs)) \<and>
    held w' = mset (map rx_buf (filter echoed b)) + held w"
  using assms(4-)
proof (induction bs arbitrary: m w)
  case Nil
  then obtain m' where m: "m = Suc m'" by (cases m) auto
  from nocopy_pass_stops [OF own _ b(2,1), of w rest n g] Nil.prems show ?case by (auto simp: m)
next
  case (Cons es bs)
  then obtain m' where m: "m = Suc m'" "length bs < m'" by (cases m) auto
  from Cons.prems have es: "script w = es # (bs @ b # rest)" "list_all readable es" "\<not> list_ex stops es"
    "length es < n" "list_all readable (concat bs)" "\<not> list_ex stops (concat bs)"
    by (simp_all add: list_ex_append)
  from nocopy_pass_serves [OF own es(1-3) Cons.prems(4,5) es(4)] obtain w' where
    1: "nocopy_pass n ops (g, w) = Done (Inl (), (g, w'))" "script w' = bs @ b # rest"
    "sent w' = sent w @ map rx_data (filter echoed es)" "held w' = held w" by blast
  from Cons.IH [OF 1(2) m(2) _ Cons.prems(4,5) es(5,6)] Cons.prems(3) 1 show ?case by (simp add: m)
qed

section \<open>Properties\<close>

text \<open>
  C13. The zero-copy service over a scripted peer: every message of the polls before the one that
  takes it down is sent back in order and its buffer is released; the messages of that last
  poll are not answered any later, and exactly their buffers stay held.
\<close>

theorem nocopy_app_serves:
  assumes own: "ownership ops script sent held"
    and create: "rpmsg_create_ept ops RPMSG_SERVICE_NAME (RPMSG_ADDR_ANY ops) (RPMSG_ADDR_ANY ops) w = (0, w0)"
    and "script w0 = bs @ b # rest" and "length bs < n" and "\<forall>es \<in> set bs. length es < n"
    and "shutdown_req g = 0" and "list_all readable (concat bs @ b)"
    and "\<not> list_ex stops (concat bs)" and "list_ex stops b"
  shows "\<exists>g' w'. nocopy_app n ops (g, w) = Done (0, (g', rpmsg_destroy_ept ops w')) \<and> script w' = rest \<and>
    sent w' = sent w0 @ map rx_data (filter echoed (concat bs)) \<and>
    held w' = mset (map rx_buf (filter echoed b)) + held w0"
  using nocopy_loop [OF own assms(9) _ assms(3-5), of "g\<lparr>rpmsg_list := []\<rparr>"] assms(6-8) create
  by (auto simp: nocopy_app_def)

definition own_ops :: "((event list list \<times> bytes list) \<times> nat multiset) rpmsg" where
  "own_ops =
     \<lparr>RPMSG_SUCCESS = 0, RPMSG_ERR_PARAM = - 2004, RPMSG_ERR_NO_BUFF = - 2006,
      RPMSG_ADDR_ANY = - 1, RPMSG_BUFFER_SIZE = 512,
      rpmsg_create_ept = (\<lambda>name src dst w. (0, w)), rpmsg_destroy_ept = (\<lambda>w. w),
      is_rpmsg_ept_ready = (\<lambda>w. True), rpmsg_get_tx_buffer_size = (\<lambda>w. 496),
      rpmsg_send = (\<lambda>m ((sc, out), hs). (int (length m), ((sc, out @ [m]), hs))),
      rpmsg_trysend = (\<lambda>m ((sc, out), hs). (int (length m), ((sc, out @ [m]), hs))),
      rpmsg_hold_rx_buffer = (\<lambda>h (w, hs). (w, add_mset h hs)),
      rpmsg_release_rx_buffer = (\<lambda>h (w, hs). (w, hs - {#h#})),
      rpmsg_get_tx_payload_buffer = (\<lambda>w. (None, w)),
      rpmsg_send_nocopy = (\<lambda>h m ((sc, out), hs). (int (length m), ((sc, out @ [m]), hs))),
      rpmsg_release_tx_buffer = (\<lambda>h w. (0, w)),
      metal_allocate_memory = (\<lambda>n w. (Some (replicate n 0), w)), metal_free_memory = (\<lambda>w. w),
      platform_poll = (\<lambda>((sc, out), hs). case sc of [] \<Rightarrow> ([], (([], out), hs)) | b # bs \<Rightarrow> (b, ((bs, out), hs)))\<rparr>"

lemma own_ops_ownership: "ownership own_ops (fst \<circ> fst) (snd \<circ> fst) snd"
  by (auto simp: ownership_def scripted_def own_ops_def split: list.splits)

theorem nocopy_app_serves_witness:
  "\<exists>g' w'. nocopy_app 3 own_ops (\<lparr>shutdown_req = 0, rpmsg_list = []\<rparr>,
      (([[Rx 4 (le32 7) 3, Rx 5 (le32 8) 3], [Rx 6 (le32 9) 3, Ns_unbind]], []), {#}))
    = Done (0, (g', rpmsg_destroy_ept own_ops w')) \<and>
      fst (fst w') = [] \<and> snd (fst w') = [le32 7, le32 8] \<and> snd w' = {#6#}"
proof -
  let ?w = "(([[Rx 4 (le32 7) 3, Rx 5 (le32 8) 3], [Rx 6 (le32 9) 3, Ns_unbind]], []), {#})"
  have "rpmsg_create_ept own_ops RPMSG_SERVICE_NAME (RPMSG_ADDR_ANY own_ops) (RPMSG_ADDR_ANY own_ops) ?w = (0, ?w)"
    by (simp add: own_ops_def)
  from nocopy_app_serves [OF own_ops_ownership this, of "[[Rx 4 (le32 7) 3, Rx 5 (le32 8) 3]]"
      "[Rx 6 (le32 9) 3, Ns_unbind]" "[]" 3 "\<lparr>shutdown_req = 0, rpmsg_list = []\<rparr>"]
  show ?thesis by (simp add: get32_hd [of _ "[]", simplified] SHUTDOWN_MSG_def)
qed

text \<open>
  The test service: when the transmit buffer that every thirteenth message discards cannot be
  had, the message just answered stays on the list although its buffer has been released, and
  the next pass over the list uses the released buffer.
\<close>

theorem test_nocopy_reuses_released:
  assumes "rpmsg_list g = (h, data) # rest" and "\<not> dangling g" and "i mod 13 = 0"
    and "rpmsg_send ops data w = (r, w1)" and "0 \<le> r"
    and "rpmsg_get_tx_payload_buffer ops (rpmsg_release_rx_buffer ops h w1) = (None, w2)"
  shows "test_nocopy_drain (Suc n) ops lost i (g, w) = Done (Inl (Suc i), (g\<lparr>dangling := True\<rparr>, w2)) \<and>
    test_nocopy_drain (Suc m) ops lost (Suc i) (g\<lparr>dangling := True\<rparr>, w3) = Fault Use_after_free"
  using assms by (simp add: test_nocopy_drain_def Let_def)

theorem test_nocopy_reuses_released_witness:
  "test_nocopy_drain 1 own_ops None 13
      (\<lparr>shutdown_req = 0, rpmsg_list = [(4, le32 7)], dangling = False\<rparr>, (([], []), {#4#}))
    = Done (Inl 14, (\<lparr>shutdown_req = 0, rpmsg_list = [(4, le32 7)], dangling = True\<rparr>, (([], [le32 7]), {#}))) \<and>
   test_nocopy_drain 1 own_ops None 14
      (\<lparr>shutdown_req = 0, rpmsg_list = [(4, le32 7)], dangling = True\<rparr>, (([], [le32 7]), {#})) = Fault Use_after_free"
  using test_nocopy_reuses_released [of "\<lparr>shutdown_req = 0, rpmsg_list = [(4, le32 7)], dangling = False\<rparr>"
      4 "le32 7" "[]" 13 own_ops "(([], []), {#4#})" 4 "(([], [le32 7]), {#4#})" "(([], [le32 7]), {#})"
      0 None 0 "(([], [le32 7]), {#})"]
  by (simp add: own_ops_def)

end
