(* ===== verification/Rpc_Service.thy ===== *)
theory Rpc_Service
  imports Echo_Service
begin

text \<open>
  The system-call proxies: \<open>examples/rpc_demo/rpc_demod.c\<close>, which serves file requests of the
  remote core over an RPMsg endpoint, and \<open>linux/rpmsg-proxy-app/proxy_app.c\<close>, which does the same
  over a character device.  A request is a 16-byte header (\<open>id\<close>, \<open>int_field1\<close>, \<open>int_field2\<close>,
  \<open>data_len\<close>) and data; every handler performs one POSIX call and sends one response with the
  same header.
\<close>

section \<open>POSIX calls\<close>

text \<open>
  The calls of the C library the services make, as functions on the outside world.  \<open>sys_read\<close>
  is given the size it may read and returns the result with the bytes it stored.
\<close>

record 'w posix =
  sys_open :: "bytes \<Rightarrow> int \<Rightarrow> int \<Rightarrow> 'w \<Rightarrow> int \<times> 'w"
  sys_close :: "int \<Rightarrow> 'w \<Rightarrow> int \<times> 'w"
  sys_read :: "int \<Rightarrow> nat \<Rightarrow> 'w \<Rightarrow> (int \<times> bytes) \<times> 'w"
  sys_write :: "int \<Rightarrow> bytes \<Rightarrow> 'w \<Rightarrow> int \<times> 'w"

text \<open>
  What POSIX promises of \<open>read\<close>: it stores at most the size asked for, and returns the number of
  bytes stored, or -1 with nothing stored.
\<close>

definition posix_read :: "'w posix \<Rightarrow> bool" where
  "posix_read px \<longleftrightarrow> (\<forall>fd n w r bs w'. sys_read px fd n w = ((r, bs), w') \<longrightarrow>
     length bs \<le> n \<and> (r = int (length bs) \<or> r = - 1 \<and> bs = []))"

lemma posix_readD: "posix_read px \<Longrightarrow> sys_read px fd n w = ((r, bs), w') \<Longrightarrow>
    length bs \<le> n \<and> (r = int (length bs) \<or> r = - 1 \<and> bs = [])"
  unfolding posix_read_def by blast

text \<open>A C string in an array: the bytes before the first zero, a fault when there is none.\<close>

fun c_string :: "bytes \<Rightarrow> bytes outcome" where
  "c_string [] = Fault Out_of_bounds"
| "c_string (b # bs) = (if b = 0 then Done [] else obind (\<lambda>s. Done (b # s)) (c_string bs))"

lemma c_string_append: "0 \<notin> set s \<Longrightarrow> c_string (s @ 0 # q) = Done s"
  by (induction s) auto

text \<open>An \<open>int\<close> passed as \<open>size_t\<close>: a negative value becomes a huge size.\<close>

definition size_of_int :: "int \<Rightarrow> nat" where
  "size_of_int v = unat (word_of_int v :: u64)"

lemma size_of_int_nonneg: "0 \<le> v \<Longrightarrow> v < 2 ^ 63 \<Longrightarrow> size_of_int v = nat v"
  by (simp add: size_of_int_def unsigned_of_int take_bit_int_eq_self)

lemma size_of_int_neg:
  assumes "- (2 ^ 63) \<le> v" and "v < 0"
  shows "size_of_int v = nat (v + 2 ^ 64)"
proof -
  have "v mod 2 ^ 64 = v + 2 ^ 64"
    using assms by (subst mod_add_self2 [symmetric], subst mod_pos_pos_trivial) auto
  then show ?thesis by (simp add: size_of_int_def unsigned_of_int take_bit_eq_mod)
qed

section \<open>The message header\<close>

definition OPEN_SYSCALL_ID :: u32 where "OPEN_SYSCALL_ID = 1"
definition CLOSE_SYSCALL_ID :: u32 where "CLOSE_SYSCALL_ID = 2"
definition WRITE_SYSCALL_ID :: u32 where "WRITE_SYSCALL_ID = 3"
definition READ_SYSCALL_ID :: u32 where "READ_SYSCALL_ID = 4"
definition TERM_SYSCALL_ID :: u32 where "TERM_SYSCALL_ID = 6"

lemmas syscall_ids = OPEN_SYSCALL_ID_def CLOSE_SYSCALL_ID_def WRITE_SYSCALL_ID_def
  READ_SYSCALL_ID_def TERM_SYSCALL_ID_def

text \<open>\<open>struct _sys_rpc\<close>: the header of requests and responses.\<close>

definition sys_rpc :: "u32 \<Rightarrow> int \<Rightarrow> int \<Rightarrow> u32 \<Rightarrow> bytes" where
  "sys_rpc i f1 f2 n = le32 i @ le32 (word_of_int f1) @ le32 (word_of_int f2) @ le32 n"

abbreviation rpc_id :: "bytes \<Rightarrow> u32" where "rpc_id b \<equiv> get32 0 b"
abbreviation rpc_field1 :: "bytes \<Rightarrow> int" where "rpc_field1 b \<equiv> sint (get32 4 b)"
abbreviation rpc_field2 :: "bytes \<Rightarrow> int" where "rpc_field2 b \<equiv> sint (get32 8 b)"

lemma length_sys_rpc [simp, codec]: "length (sys_rpc i f1 f2 n) = 16"
  by (simp add: sys_rpc_def)

lemma sint_word_of_int: "- (2 ^ 31) \<le> v \<Longrightarrow> v < 2 ^ 31 \<Longrightarrow> sint (word_of_int v :: u32) = v"
  using to_int32_id [of v] by (simp add: to_int32_def)

lemma sys_rpc_decode [codec]:
  "rpc_id (sys_rpc i f1 f2 n @ q) = i"
  "- (2 ^ 31) \<le> f1 \<Longrightarrow> f1 < 2 ^ 31 \<Longrightarrow> rpc_field1 (sys_rpc i f1 f2 n @ q) = f1"
  "- (2 ^ 31) \<le> f2 \<Longrightarrow> f2 < 2 ^ 31 \<Longrightarrow> rpc_field2 (sys_rpc i f1 f2 n @ q) = f2"
  using get32_append [of "le32 i" 4 "word_of_int f1"]
    get32_append [of "le32 i @ le32 (word_of_int f1)" 8 "word_of_int f2"]
  by (simp_all add: sys_rpc_def get32_hd sint_word_of_int)

section \<open>Handlers\<close>

text \<open>
  Both services handle the calls alike and differ in how a response is sent (\<open>emit\<close>) and in the
  size of the buffer a read fills after the header (\<open>cap\<close>).
\<close>

definition rpc_open :: "'w posix \<Rightarrow> (bytes \<Rightarrow> ('g \<times> 'w, int) prog) \<Rightarrow> bytes \<Rightarrow> ('g \<times> 'w, int) prog" where
  "rpc_open px emit call =
     bnd (lift (c_string (drop 16 call))) (\<lambda>name.
     bnd (ext (sys_open px name (rpc_field1 call) (rpc_field2 call))) (\<lambda>fd.
     emit (sys_rpc OPEN_SYSCALL_ID fd 0 0)))"

definition rpc_close :: "'w posix \<Rightarrow> (bytes \<Rightarrow> ('g \<times> 'w, int) prog) \<Rightarrow> bytes \<Rightarrow> ('g \<times> 'w, int) prog" where
  "rpc_close px emit call =
     bnd (ext (sys_close px (rpc_field1 call))) (\<lambda>r. emit (sys_rpc CLOSE_SYSCALL_ID r 0 0))"

definition rpc_read ::
    "'w posix \<Rightarrow> (bytes \<Rightarrow> ('g \<times> 'w, int) prog) \<Rightarrow> nat \<Rightarrow> (bytes \<Rightarrow> nat) \<Rightarrow> bytes \<Rightarrow> ('g \<times> 'w, int) prog" where
  "rpc_read px emit cap sz call =
     bnd (ext (sys_read px (rpc_field1 call) (sz call))) (\<lambda>(r, bs).
     if cap < 16 + length bs then fail Out_of_bounds
     else emit (sys_rpc READ_SYSCALL_ID r 0 (word_of_int r) @ take (nat r) bs))"

definition rpc_write :: "'w posix \<Rightarrow> (bytes \<Rightarrow> ('g \<times> 'w, int) prog) \<Rightarrow> bytes \<Rightarrow> ('g \<times> 'w, int) prog" where
  "rpc_write px emit call =
     bnd (lift (sub_bytes 16 (size_of_int (rpc_field2 call)) call)) (\<lambda>bs.
     bnd (ext (sys_write px (rpc_field1 call) bs)) (\<lambda>r.
     emit (sys_rpc WRITE_SYSCALL_ID r 0 0)))"

section \<open>The RPMsg proxy\<close>

definition RPC_BUFF_SIZE :: nat where
  "RPC_BUFF_SIZE = 1024"

record rpcd = client +
  request_termination :: int

text \<open>
  The receive buffer of the library: \<open>shbuf_offset\<close> is where a buffer lies in the IO region of the
  device, if anywhere, and \<open>shbuf_read\<close> copies bytes out of the region.
\<close>

record 'w shbuf =
  shbuf_offset :: "nat \<Rightarrow> 'w \<Rightarrow> nat option"
  shbuf_read :: "nat \<Rightarrow> nat \<Rightarrow> 'w \<Rightarrow> int \<times> bytes"

definition copy_from_shbuf :: "'w shbuf \<Rightarrow> nat \<Rightarrow> nat \<Rightarrow> (rpcd \<times> 'w, int \<times> bytes) prog" where
  "copy_from_shbuf sh h len =
     bnd (asks (shbuf_offset sh h)) (\<lambda>off. case off of
       None \<Rightarrow> ret (- EINVAL, [])
     | Some off \<Rightarrow> asks (shbuf_read sh off len))"

text \<open>\<open>return ret > 0 ? 0 : ret;\<close> after a send.\<close>

definition send_resp :: "'w rpmsg \<Rightarrow> bytes \<Rightarrow> ('g \<times> 'w, int) prog" where
  "send_resp ops m = bnd (ext (rpmsg_send ops m)) (\<lambda>r. ret (if 0 < r then 0 else r))"

definition handle_open :: "'w posix \<Rightarrow> 'w rpmsg \<Rightarrow> bytes \<Rightarrow> (rpcd \<times> 'w, int) prog" where
  "handle_open px ops call = rpc_open px (send_resp ops) call"

definition handle_close :: "'w posix \<Rightarrow> 'w rpmsg \<Rightarrow> bytes \<Rightarrow> (rpcd \<times> 'w, int) prog" where
  "handle_close px ops call = rpc_close px (send_resp ops) call"

text \<open>
  The size asked for: the whole buffer, or the size of the request when the request is for
  standard input and smaller.  The bytes are stored after the header in a buffer of
  \<open>RPC_BUFF_SIZE\<close> bytes.
\<close>

definition read_size :: "bytes \<Rightarrow> int" where
  "read_size call =
     (let cap = int RPC_BUFF_SIZE - 16 in
      if rpc_field1 call = 0 \<and> rpc_field2 call < cap then rpc_field2 call else cap)"

definition handle_read :: "'w posix \<Rightarrow> 'w rpmsg \<Rightarrow> bytes \<Rightarrow> (rpcd \<times> 'w, int) prog" where
  "handle_read px ops call =
     rpc_read px (send_resp ops) RPC_BUFF_SIZE (\<lambda>call. size_of_int (read_size call)) call"

definition handle_write :: "'w posix \<Rightarrow> 'w rpmsg \<Rightarrow> bytes \<Rightarrow> (rpcd \<times> 'w, int) prog" where
  "handle_write px ops call = rpc_write px (send_resp ops) call"

definition handle_rpc :: "'w posix \<Rightarrow> 'w rpmsg \<Rightarrow> bytes \<Rightarrow> (rpcd \<times> 'w, int) prog" where
  "handle_rpc px ops call =
     (if rpc_id call = OPEN_SYSCALL_ID then handle_open px ops call
      else if rpc_id call = CLOSE_SYSCALL_ID then handle_close px ops call
      else if rpc_id call = READ_SYSCALL_ID then handle_read px ops call
      else if rpc_id call = WRITE_SYSCALL_ID then handle_write px ops call
      else if rpc_id call = TERM_SYSCALL_ID
      then seq (updg (\<lambda>g. g\<lparr>request_termination := 1\<rparr>)) (ret 0)
      else ret (- 1))"

definition rpcd_service_unbind :: "'w rpmsg \<Rightarrow> (rpcd \<times> 'w, unit) prog" where
  "rpcd_service_unbind ops = seq (extU (rpmsg_destroy_ept ops)) (updg (\<lambda>g. g\<lparr>ept_deleted := 1\<rparr>))"

text \<open>\<open>stk\<close> is what the stack buffer of \<open>RPC_BUFF_SIZE\<close> bytes holds before the copy.\<close>

definition rpcd_endpoint_cb ::
    "'w posix \<Rightarrow> 'w shbuf \<Rightarrow> bytes \<Rightarrow> 'w rpmsg \<Rightarrow> nat \<Rightarrow> bytes \<Rightarrow> (rpcd \<times> 'w, int) prog" where
  "rpcd_endpoint_cb px sh stk ops h data =
     (if length data < 16
      then seq (updg (\<lambda>g. g\<lparr>err_cnt := err_cnt g + 1\<rparr>)) (ret (RPMSG_SUCCESS ops))
      else let len = (if RPC_BUFF_SIZE < length data then RPC_BUFF_SIZE else length data) in
        bnd (copy_from_shbuf sh h len) (\<lambda>(r, bs).
        if r < 0 then ret r
        else bnd (lift (put_bytes 0 bs stk)) (\<lambda>call.
             bnd (handle_rpc px ops call) (\<lambda>x.
             seq (if x \<noteq> 0 then updg (\<lambda>g. g\<lparr>err_cnt := err_cnt g + 1\<rparr>) else ret ())
                 (ret (RPMSG_SUCCESS ops))))))"

fun rpcd_cb :: "'w posix \<Rightarrow> 'w shbuf \<Rightarrow> bytes \<Rightarrow> 'w rpmsg \<Rightarrow> event \<Rightarrow> (rpcd \<times> 'w, unit) prog" where
  "rpcd_cb px sh stk ops (Rx h data src) = seq (rpcd_endpoint_cb px sh stk ops h data) (ret ())"
| "rpcd_cb px sh stk ops (Ns_bind name dest) = ret ()"
| "rpcd_cb px sh stk ops Ns_unbind = rpcd_service_unbind ops"

definition terminate_rpc_app :: "'w rpmsg \<Rightarrow> (rpcd \<times> 'w, unit) prog" where
  "terminate_rpc_app ops =
     bnd (getg ept_deleted) (\<lambda>d. if d = 0 then extU (rpmsg_destroy_ept ops) else ret ())"

definition exit_action_handler :: "'w rpmsg \<Rightarrow> (rpcd \<times> 'w, unit) prog" where
  "exit_action_handler ops = terminate_rpc_app ops"

text \<open>The kill handler; \<open>rpdev\<close> and \<open>platform\<close> are NULL until they are set.\<close>

definition kill_action_handler ::
    "('p, 'r, 'w) plat \<Rightarrow> 'w rpmsg \<Rightarrow> 'r option \<Rightarrow> 'p option \<Rightarrow> (rpcd \<times> 'w, unit) prog" where
  "kill_action_handler pl ops rpdev platform =
     seq (terminate_rpc_app ops)
    (seq (case rpdev of None \<Rightarrow> ret ()
          | Some r \<Rightarrow> (case platform of None \<Rightarrow> fail Null_deref
                       | Some p \<Rightarrow> extU (platform_release_rpmsg_vdev pl r p)))
         (case platform of None \<Rightarrow> ret () | Some p \<Rightarrow> callw (platform_cleanup pl p)))"

text \<open>One pass of the loop, which is left with the value that the application returns.\<close>

definition rpcd_pass :: "'w posix \<Rightarrow> 'w shbuf \<Rightarrow> bytes \<Rightarrow> 'w rpmsg \<Rightarrow> (rpcd \<times> 'w, unit + int) prog" where
  "rpcd_pass px sh stk ops =
     seq (poll ops (rpcd_cb px sh stk ops))
    (bnd (getg (\<lambda>g. g)) (\<lambda>g.
       if err_cnt g \<noteq> 0 then ret (Inr (- EINVAL))
       else if ept_deleted g \<noteq> 0 \<or> request_termination g \<noteq> 0 then ret (Inr 0)
       else ret (Inl ())))"

text \<open>\<open>has_io\<close> says whether the device has an IO region for its buffers.\<close>

definition rpcd_app ::
    "nat \<Rightarrow> 'w posix \<Rightarrow> 'w shbuf \<Rightarrow> bytes \<Rightarrow> bool \<Rightarrow> 'w rpmsg \<Rightarrow> (rpcd \<times> 'w, int) prog" where
  "rpcd_app n px sh stk has_io ops =
     bnd (ext (rpmsg_create_ept ops RPMSG_SERVICE_NAME (RPMSG_ADDR_ANY ops) (RPMSG_ADDR_ANY ops))) (\<lambda>r.
     if r \<noteq> 0 then ret (- EINVAL)
     else if \<not> has_io then ret (- ENOMEM)
     else bnd (iter n (\<lambda>_. rpcd_pass px sh stk ops) ())
          (\<lambda>x. seq (terminate_rpc_app ops) (ret x)))"

text \<open>Here \<open>platform\<close> is a static variable: a failed initialisation hands NULL to the clean-up.\<close>

definition rpcd_main ::
    "nat \<Rightarrow> ('p, 'r, 'w) plat \<Rightarrow> ('w \<Rightarrow> 'w) \<Rightarrow> 'w posix \<Rightarrow> 'w shbuf \<Rightarrow> bytes \<Rightarrow> bool \<Rightarrow> 'w rpmsg \<Rightarrow>
     (rpcd \<times> 'w, int) prog" where
  "rpcd_main n pl cleanup_null px sh stk has_io ops =
     bnd (callw (platform_init pl)) (\<lambda>(st, x).
     bnd (if st \<noteq> 0 then ret (- 1)
          else with_var (stored x) (run_on_vdev pl VIRTIO_DEV_DRIVER False (rpcd_app n px sh stk has_io ops)))
       (\<lambda>r. seq (case x of None \<Rightarrow> extU cleanup_null | Some p \<Rightarrow> callw (platform_cleanup pl p)) (ret r)))"

section \<open>The character-device proxy\<close>

text \<open>
  The responses go to the file descriptor \<open>rpmsg_proxy_fd\<close>; requests and responses live in heap
  buffers of 512 bytes.  A reader of a response relies on the buffer alone, so the buffer's
  contents before a request are not modelled.
\<close>

definition PROXY_BUFF_SIZE :: nat where
  "PROXY_BUFF_SIZE = 512"

record proxy_data =
  active :: int
  rpmsg_proxy_fd :: int

definition proxy_resp :: "'w posix \<Rightarrow> bytes \<Rightarrow> (proxy_data \<times> 'w, int) prog" where
  "proxy_resp px m =
     bnd (getg rpmsg_proxy_fd) (\<lambda>fd.
     bnd (ext (sys_write px fd m)) (\<lambda>r. ret (if r \<noteq> int (length m) then - 1 else 0)))"

definition proxy_handle_open :: "'w posix \<Rightarrow> bytes \<Rightarrow> (proxy_data \<times> 'w, int) prog" where
  "proxy_handle_open px rpc = rpc_open px (proxy_resp px) rpc"

definition proxy_handle_close :: "'w posix \<Rightarrow> bytes \<Rightarrow> (proxy_data \<times> 'w, int) prog" where
  "proxy_handle_close px rpc = rpc_close px (proxy_resp px) rpc"

definition proxy_handle_read :: "'w posix \<Rightarrow> bytes \<Rightarrow> (proxy_data \<times> 'w, int) prog" where
  "proxy_handle_read px rpc =
     rpc_read px (proxy_resp px) PROXY_BUFF_SIZE
       (\<lambda>rpc. if rpc_field1 rpc = 0 then 512 else size_of_int (rpc_field2 rpc)) rpc"

definition proxy_handle_write :: "'w posix \<Rightarrow> bytes \<Rightarrow> (proxy_data \<times> 'w, int) prog" where
  "proxy_handle_write px rpc = rpc_write px (proxy_resp px) rpc"

definition proxy_handle_rpc :: "'w posix \<Rightarrow> bytes \<Rightarrow> (proxy_data \<times> 'w, int) prog" where
  "proxy_handle_rpc px rpc =
     (if rpc_id rpc = OPEN_SYSCALL_ID then proxy_handle_open px rpc
      else if rpc_id rpc = CLOSE_SYSCALL_ID then proxy_handle_close px rpc
      else if rpc_id rpc = READ_SYSCALL_ID then proxy_handle_read px rpc
      else if rpc_id rpc = WRITE_SYSCALL_ID then proxy_handle_write px rpc
      else if rpc_id rpc = TERM_SYSCALL_ID then seq (updg (\<lambda>g. g\<lparr>active := 0\<rparr>)) (ret 0)
      else ret (- 1))"

definition proxy_file_write :: "'w posix \<Rightarrow> bytes \<Rightarrow> bytes \<Rightarrow> (proxy_data \<times> 'w, int) prog" where
  "proxy_file_write px path str =
     bnd (ext (sys_open px path 1 0)) (\<lambda>fd.
     if fd = - 1 then ret (- 1)
     else bnd (ext (sys_write px fd str)) (\<lambda>r.
          if r \<noteq> int (length str) then seq (ext (sys_close px fd)) (ret (- 1))
          else bnd (ext (sys_close px fd)) (\<lambda>c. if c = - 1 then ret (- 1) else ret 0)))"

definition proxy_exit_action :: "(proxy_data \<times> 'w, unit) prog" where
  "proxy_exit_action = updg (\<lambda>g. g\<lparr>active := 0\<rparr>)"

text \<open>
  The service loop of \<open>main\<close>: the request buffer \<open>rpc\<close> keeps its old bytes behind a short read.
  \<open>again\<close> is the test \<open>errno == EAGAIN\<close> after a failed read.
\<close>

definition proxy_loop :: "nat \<Rightarrow> 'w posix \<Rightarrow> ('w \<Rightarrow> bool) \<Rightarrow> bytes \<Rightarrow> (proxy_data \<times> 'w, unit) prog" where
  "proxy_loop n px again rpc0 =
     iter n (\<lambda>rpc.
       bnd (getg rpmsg_proxy_fd) (\<lambda>fd.
       bnd (ext (sys_read px fd PROXY_BUFF_SIZE)) (\<lambda>(r, bs).
       bnd (asks again) (\<lambda>ag.
       if r < 0 \<and> \<not> ag then ret (Inr ())
       else bnd (lift (put_bytes 0 bs rpc)) (\<lambda>rpc'.
            bnd (if 0 < r then proxy_handle_rpc px rpc' else ret 0) (\<lambda>x.
            if 0 < r \<and> x \<noteq> 0 then ret (Inr ())
            else bnd (getg active) (\<lambda>a. ret (if a \<noteq> 0 then Inl rpc' else Inr ())))))))) rpc0"

section \<open>What a request stands for\<close>

text \<open>
  The reference: a request is one call on the files, and its answer is a header with the id of the request, the result, and
  for a read the bytes.  \<open>sz\<close> is the size that a read asks for.
\<close>

definition open_effect :: "'f posix \<Rightarrow> bytes \<Rightarrow> 'f \<Rightarrow> bytes \<times> 'f" where
  "open_effect px call f = (case sys_open px (takeWhile (\<lambda>b. b \<noteq> 0) (drop 16 call)) (rpc_field1 call) (rpc_field2 call) f of
     (fd, f') \<Rightarrow> (sys_rpc OPEN_SYSCALL_ID fd 0 0, f'))"

definition close_effect :: "'f posix \<Rightarrow> bytes \<Rightarrow> 'f \<Rightarrow> bytes \<times> 'f" where
  "close_effect px call f = (case sys_close px (rpc_field1 call) f of (r, f') \<Rightarrow> (sys_rpc CLOSE_SYSCALL_ID r 0 0, f'))"

definition read_effect :: "(bytes \<Rightarrow> nat) \<Rightarrow> 'f posix \<Rightarrow> bytes \<Rightarrow> 'f \<Rightarrow> bytes \<times> 'f" where
  "read_effect sz px call f = (case sys_read px (rpc_field1 call) (sz call) f of
     ((r, bs), f') \<Rightarrow> (sys_rpc READ_SYSCALL_ID r 0 (word_of_int r) @ bs, f'))"

definition write_effect :: "'f posix \<Rightarrow> bytes \<Rightarrow> 'f \<Rightarrow> bytes \<times> 'f" where
  "write_effect px call f = (case sys_write px (rpc_field1 call) (take (nat (rpc_field2 call)) (drop 16 call)) f of
     (r, f') \<Rightarrow> (sys_rpc WRITE_SYSCALL_ID r 0 0, f'))"

lemmas effect_defs = open_effect_def close_effect_def read_effect_def write_effect_def

definition rpc_effect :: "(bytes \<Rightarrow> nat) \<Rightarrow> 'f posix \<Rightarrow> bytes \<Rightarrow> 'f \<Rightarrow> bytes \<times> 'f" where
  "rpc_effect sz px call =
     (if rpc_id call = OPEN_SYSCALL_ID then open_effect px call
      else if rpc_id call = CLOSE_SYSCALL_ID then close_effect px call
      else if rpc_id call = READ_SYSCALL_ID then read_effect sz px call
      else write_effect px call)"

section \<open>The contract of a handler\<close>

text \<open>
  A handler makes the call of a request it accepts, and no other, and answers with exactly one message, which carries the
  handler's id and fits the buffers.
\<close>

locale rpc_handler =
  fixes h :: "'w posix \<Rightarrow> bytes \<Rightarrow> ('g \<times> 'w, int) prog"
    and emit :: "'w posix \<Rightarrow> bytes \<Rightarrow> ('g \<times> 'w, int) prog"
    and eff :: "'w posix \<Rightarrow> bytes \<Rightarrow> 'w \<Rightarrow> bytes \<times> 'w"
    and i :: u32 and ok :: "bytes \<Rightarrow> bool" and cap :: nat
  assumes responds: "posix_read px \<Longrightarrow> ok call \<Longrightarrow> h px call (g, w) = emit px (fst (eff px call w)) (g, snd (eff px call w))"
    and reply: "posix_read px \<Longrightarrow> ok call \<Longrightarrow> rpc_id (fst (eff px call w)) = i \<and> length (fst (eff px call w)) \<le> cap"
begin

lemma answered:
  assumes "posix_read px" and "ok call" and "eff px call w = (m, w1)"
  shows "h px call (g, w) = emit px m (g, w1)" and "rpc_id m = i" and "length m \<le> cap"
  using responds [OF assms(1,2), of g w] reply [OF assms(1,2), of w] assms(3) by simp_all

end

lemma rpc_id_sys_rpc [simp]: "rpc_id (sys_rpc i f1 f2 n) = i"
  using sys_rpc_decode(1) [of i f1 f2 n "[]"] by simp

lemma rpc_id_append [simp]: "rpc_id (sys_rpc i f1 f2 n @ q) = i"
  by (rule sys_rpc_decode)

text \<open>The requests the handlers accept, in a buffer \<open>call\<close>.\<close>

definition open_ok :: "bytes \<Rightarrow> bool" where
  "open_ok call \<longleftrightarrow> 0 \<in> set (drop 16 call)"

definition write_ok :: "bytes \<Rightarrow> bool" where
  "write_ok call \<longleftrightarrow> 0 \<le> rpc_field2 call \<and> 16 + nat (rpc_field2 call) \<le> length call"

definition read_ok :: "bytes \<Rightarrow> bool" where
  "read_ok call \<longleftrightarrow> rpc_field1 call \<noteq> 0 \<or> 0 \<le> rpc_field2 call"

lemma c_string_takeWhile: "0 \<in> set bs \<Longrightarrow> c_string bs = Done (takeWhile (\<lambda>b. b \<noteq> 0) bs)"
  by (induction bs) auto

lemma sint_u32_less: "sint (x :: u32) < 2 ^ 63"
  using sint_lt [of x] by simp

lemma write_ok_sub_bytes:
  "write_ok call \<Longrightarrow> sub_bytes 16 (size_of_int (rpc_field2 call)) call = Done (take (nat (rpc_field2 call)) (drop 16 call))"
  using size_of_int_nonneg [of "rpc_field2 call"] sint_u32_less [of "get32 8 call"]
  by (simp add: write_ok_def sub_bytes_def)

text \<open>
  The most that an answer to a read may hold: of standard input as much as the request asks for, and at most the 1008 bytes behind
  the header; of any other file these 1008 bytes, whatever the request asks for.
\<close>

definition rpcd_size :: "bytes \<Rightarrow> nat" where
  "rpcd_size call = (if rpc_field1 call = 0 then min (nat (rpc_field2 call)) 1008 else 1008)"

lemma read_size_rpcd: "read_ok call \<Longrightarrow> size_of_int (read_size call) = rpcd_size call"
  using size_of_int_nonneg [of "read_size call"]
  by (auto simp: read_ok_def read_size_def rpcd_size_def RPC_BUFF_SIZE_def Let_def)

lemma rpc_open_handler:
  assumes "16 \<le> cap"
  shows "rpc_handler (\<lambda>px :: 'w posix. rpc_open px (emit px)) emit open_effect OPEN_SYSCALL_ID open_ok cap"
  by unfold_locales (auto simp: rpc_open_def open_effect_def open_ok_def c_string_takeWhile assms split: prod.splits)

lemma rpc_close_handler:
  assumes "16 \<le> cap"
  shows "rpc_handler (\<lambda>px :: 'w posix. rpc_close px (emit px)) emit close_effect CLOSE_SYSCALL_ID (\<lambda>_. True) cap"
  by unfold_locales (auto simp: rpc_close_def close_effect_def assms split: prod.splits)

lemma rpc_write_handler:
  assumes "16 \<le> cap"
  shows "rpc_handler (\<lambda>px :: 'w posix. rpc_write px (emit px)) emit write_effect WRITE_SYSCALL_ID write_ok cap"
  by unfold_locales (auto simp: rpc_write_def write_effect_def write_ok_sub_bytes assms split: prod.splits)

lemma rpc_read_handler:
  assumes "\<And>call. ok call \<Longrightarrow> 16 + asked call \<le> cap \<and> sz call = asked call"
  shows "rpc_handler (\<lambda>px :: 'w posix. rpc_read px (emit px) cap sz) emit (read_effect asked) READ_SYSCALL_ID ok cap"
proof
  fix px :: "'w posix" and call g w
  assume p: "posix_read px" and ok: "ok call"
  obtain r bs w' where s: "sys_read px (rpc_field1 call) (asked call) w = ((r, bs), w')" by (metis surj_pair)
  have len: "16 + length bs \<le> cap" "take (nat r) bs = bs" using posix_readD [OF p s] assms [OF ok] by auto
  then show "rpc_read px (emit px) cap sz call (g, w) = emit px (fst (read_effect asked px call w)) (g, snd (read_effect asked px call w))"
    using assms [OF ok] by (simp add: rpc_read_def read_effect_def s)
  show "rpc_id (fst (read_effect asked px call w)) = READ_SYSCALL_ID \<and> length (fst (read_effect asked px call w)) \<le> cap"
    using len(1) by (simp add: read_effect_def s)
qed

text \<open>The handlers of the two services.\<close>

interpretation rpcd_open: rpc_handler "\<lambda>px. handle_open px ops" "\<lambda>px. send_resp ops"
  open_effect OPEN_SYSCALL_ID open_ok RPC_BUFF_SIZE for ops
  unfolding handle_open_def by (rule rpc_open_handler) (simp add: RPC_BUFF_SIZE_def)

interpretation rpcd_close: rpc_handler "\<lambda>px. handle_close px ops" "\<lambda>px. send_resp ops"
  close_effect CLOSE_SYSCALL_ID "\<lambda>_. True" RPC_BUFF_SIZE for ops
  unfolding handle_close_def by (rule rpc_close_handler) (simp add: RPC_BUFF_SIZE_def)

interpretation rpcd_write: rpc_handler "\<lambda>px. handle_write px ops" "\<lambda>px. send_resp ops"
  write_effect WRITE_SYSCALL_ID write_ok RPC_BUFF_SIZE for ops
  unfolding handle_write_def by (rule rpc_write_handler) (simp add: RPC_BUFF_SIZE_def)

interpretation rpcd_read: rpc_handler "\<lambda>px. handle_read px ops" "\<lambda>px. send_resp ops"
  "read_effect rpcd_size" READ_SYSCALL_ID read_ok RPC_BUFF_SIZE for ops
  unfolding handle_read_def
  by (rule rpc_read_handler) (auto simp: read_size_rpcd RPC_BUFF_SIZE_def rpcd_size_def)

interpretation proxy_open: rpc_handler proxy_handle_open proxy_resp
  open_effect OPEN_SYSCALL_ID open_ok PROXY_BUFF_SIZE
  unfolding proxy_handle_open_def by (rule rpc_open_handler) (simp add: PROXY_BUFF_SIZE_def)

interpretation proxy_close: rpc_handler proxy_handle_close proxy_resp
  close_effect CLOSE_SYSCALL_ID "\<lambda>_. True" PROXY_BUFF_SIZE
  unfolding proxy_handle_close_def by (rule rpc_close_handler) (simp add: PROXY_BUFF_SIZE_def)

interpretation proxy_write: rpc_handler proxy_handle_write proxy_resp
  write_effect WRITE_SYSCALL_ID write_ok PROXY_BUFF_SIZE
  unfolding proxy_handle_write_def by (rule rpc_write_handler) (simp add: PROXY_BUFF_SIZE_def)

text \<open>The proxy reads safely only from files other than standard input, and only small sizes.\<close>

definition proxy_read_ok :: "bytes \<Rightarrow> bool" where
  "proxy_read_ok rpc \<longleftrightarrow> rpc_field1 rpc \<noteq> 0 \<and> 0 \<le> rpc_field2 rpc \<and> rpc_field2 rpc \<le> 496"

definition proxy_size :: "bytes \<Rightarrow> nat" where
  "proxy_size rpc = (if rpc_field1 rpc = 0 then 512 else size_of_int (rpc_field2 rpc))"

interpretation proxy_read: rpc_handler proxy_handle_read proxy_resp
  "read_effect proxy_size" READ_SYSCALL_ID proxy_read_ok PROXY_BUFF_SIZE
  unfolding proxy_handle_read_def
  by (rule rpc_read_handler) (auto simp: proxy_read_ok_def PROXY_BUFF_SIZE_def proxy_size_def size_of_int_nonneg)

section \<open>Dispatch\<close>

text \<open>A request some handler accepts.\<close>

definition serviceable :: "bytes \<Rightarrow> bool" where
  "serviceable call \<longleftrightarrow>
     rpc_id call = OPEN_SYSCALL_ID \<and> open_ok call \<or> rpc_id call = CLOSE_SYSCALL_ID \<or>
     rpc_id call = READ_SYSCALL_ID \<and> read_ok call \<or> rpc_id call = WRITE_SYSCALL_ID \<and> write_ok call"

lemma handle_rpc_effect:
  assumes "posix_read px" and "serviceable call" and "rpc_effect rpcd_size px call w = (m, w1)"
  shows "handle_rpc px ops call (g, w) = send_resp ops m (g, w1)" and "rpc_id m = rpc_id call" and "length m \<le> RPC_BUFF_SIZE"
  using assms(2,3) rpcd_open.answered [OF assms(1), of call w m w1] rpcd_close.answered [OF assms(1), of call w m w1]
    rpcd_read.answered [OF assms(1), of call w m w1] rpcd_write.answered [OF assms(1), of call w m w1]
  by (auto simp: serviceable_def handle_rpc_def rpc_effect_def syscall_ids)

lemma send_resp_scripted:
  assumes "scripted ops script sent"
  shows "send_resp ops m (g, u) = Done (0, (g, snd (rpmsg_send ops m u)))"
  using scripted_sent [OF assms, of m u] by (simp add: send_resp_def)

text \<open>The same for the character-device proxy, whose responses are writes to its descriptor.\<close>

definition proxy_serviceable :: "bytes \<Rightarrow> bool" where
  "proxy_serviceable rpc \<longleftrightarrow>
     rpc_id rpc = OPEN_SYSCALL_ID \<and> open_ok rpc \<or> rpc_id rpc = CLOSE_SYSCALL_ID \<or>
     rpc_id rpc = READ_SYSCALL_ID \<and> proxy_read_ok rpc \<or> rpc_id rpc = WRITE_SYSCALL_ID \<and> write_ok rpc"

lemma proxy_handle_rpc_effect:
  assumes "posix_read px" and "proxy_serviceable rpc" and "rpc_effect proxy_size px rpc w = (m, w1)"
  shows "proxy_handle_rpc px rpc (g, w) = proxy_resp px m (g, w1)" and "rpc_id m = rpc_id rpc" and "length m \<le> PROXY_BUFF_SIZE"
  using assms(2,3) proxy_open.answered [OF assms(1), of rpc w m w1] proxy_close.answered [OF assms(1), of rpc w m w1]
    proxy_read.answered [OF assms(1), of rpc w m w1] proxy_write.answered [OF assms(1), of rpc w m w1]
  by (auto simp: proxy_serviceable_def proxy_handle_rpc_def rpc_effect_def syscall_ids)

section \<open>Properties\<close>

text \<open>
  A serviceable request is served by its call and answered with its result: exactly one message, which carries the id of the
  request and fits the 1024-byte buffer; the callback reports success, and no error is counted.
\<close>

lemma rpcd_answers_request:
  assumes "scripted ops script sent" and "posix_read px" and "length stk = 1024"
    and "16 \<le> length data" and "length data \<le> 1024" and "shbuf_offset sh h w = Some off"
    and "shbuf_read sh off (length data) w = (r, data)" and "0 \<le> r"
    and "serviceable (data @ drop (length data) stk)" and "rpc_effect rpcd_size px (data @ drop (length data) stk) w = (m, w1)"
  shows "rpcd_endpoint_cb px sh stk ops h data (g, w) = Done (RPMSG_SUCCESS ops, (g, snd (rpmsg_send ops m w1)))"
    and "rpc_id m = rpc_id data" and "length m \<le> 1024"
proof -
  let ?call = "data @ drop (length data) stk"
  note e = handle_rpc_effect [OF assms(2,9,10)]
  have "put_bytes 0 data stk = Done ?call" using assms(3,5) by (simp add: put_bytes_def)
  moreover have "rpc_id ?call = rpc_id data" using assms(4) by (simp add: get32_prefix)
  ultimately show "rpcd_endpoint_cb px sh stk ops h data (g, w) = Done (RPMSG_SUCCESS ops, (g, snd (rpmsg_send ops m w1)))"
    and "rpc_id m = rpc_id data" and "length m \<le> 1024"
    using assms(3-8) e send_resp_scripted [OF assms(1), of m g w1]
    by (simp_all add: rpcd_endpoint_cb_def copy_from_shbuf_def RPC_BUFF_SIZE_def)
qed

definition null_posix :: "(event list list \<times> bytes list) posix" where
  "null_posix = \<lparr>sys_open = (\<lambda>name a b w. (3, w)), sys_close = (\<lambda>fd w. (0, w)),
     sys_read = (\<lambda>fd n w. ((int n, replicate n 65), w)), sys_write = (\<lambda>fd bs w. (int (length bs), w))\<rparr>"

lemma null_posix_ok: "posix_read null_posix"
  by (auto simp: posix_read_def null_posix_def)

text \<open>Requests that are malformed in their arguments make the handlers leave the buffer.\<close>

lemma c_string_endless: "0 \<notin> set bs \<Longrightarrow> c_string bs = Fault Out_of_bounds"
  by (induction bs) auto

lemma handle_open_endless: "\<not> open_ok call \<Longrightarrow> handle_open px ops call (g, w) = Fault Out_of_bounds"
  by (simp add: handle_open_def rpc_open_def open_ok_def c_string_endless)

lemma handle_write_too_long:
  assumes "\<not> write_ok call" and "length call \<le> 1024"
  shows "handle_write px ops call (g, w) = Fault Out_of_bounds"
proof -
  have "length call < 16 + size_of_int (rpc_field2 call)"
  proof (cases "0 \<le> rpc_field2 call")
    case True
    then show ?thesis
      using assms(1) size_of_int_nonneg [of "rpc_field2 call"] sint_u32_less [of "get32 8 call"] by (simp add: write_ok_def)
  next
    case False
    moreover have "- (2 ^ 31) \<le> rpc_field2 call" using sint_ge [of "get32 8 call"] by simp
    ultimately show ?thesis using size_of_int_neg [of "rpc_field2 call"] assms(2) by simp
  qed
  then show ?thesis by (simp add: handle_write_def rpc_write_def sub_bytes_def)
qed

text \<open>
  C38. What is no request, and requests that are malformed.  A message too short for the header, or with an unknown id, counts
  one error, sends nothing and changes nothing else; a termination request only sets the flag.  An open without an
  end of the name in the buffer, and a write of a negative size or of more bytes than the buffer has, are not counted: they run out of the buffer.
\<close>

theorem rpcd_rejects:
  assumes "length stk = 1024" and "length data \<le> 1024" and "shbuf_offset sh h w = Some off"
    and "shbuf_read sh off (length data) w = (r, data)" and "0 \<le> r"
  defines "call \<equiv> data @ drop (length data) stk"
  shows "(length data < 16 \<or> rpc_id data \<notin> {OPEN_SYSCALL_ID, CLOSE_SYSCALL_ID, READ_SYSCALL_ID, WRITE_SYSCALL_ID, TERM_SYSCALL_ID}
      \<longrightarrow> rpcd_endpoint_cb px sh stk ops h data (g, w) = Done (RPMSG_SUCCESS ops, (g\<lparr>err_cnt := err_cnt g + 1\<rparr>, w))) \<and>
    (16 \<le> length data \<and> rpc_id data = TERM_SYSCALL_ID
      \<longrightarrow> rpcd_endpoint_cb px sh stk ops h data (g, w) = Done (RPMSG_SUCCESS ops, (g\<lparr>request_termination := 1\<rparr>, w))) \<and>
    (16 \<le> length data \<and> rpc_id data = OPEN_SYSCALL_ID \<and> 0 \<notin> set (drop 16 call)
      \<longrightarrow> rpcd_endpoint_cb px sh stk ops h data (g, w) = Fault Out_of_bounds) \<and>
    (16 \<le> length data \<and> rpc_id data = WRITE_SYSCALL_ID \<and> (rpc_field2 call < 0 \<or> 1008 < rpc_field2 call)
      \<longrightarrow> rpcd_endpoint_cb px sh stk ops h data (g, w) = Fault Out_of_bounds)"
proof (cases "length data < 16")
  case True
  then show ?thesis by (simp add: rpcd_endpoint_cb_def)
next
  case False
  have "put_bytes 0 data stk = Done call" using assms(1,2) by (simp add: put_bytes_def call_def)
  then have cb: "rpcd_endpoint_cb px sh stk ops h data (g, w) = bnd (handle_rpc px ops call) (\<lambda>x.
      seq (if x \<noteq> 0 then updg (\<lambda>g. g\<lparr>err_cnt := err_cnt g + 1\<rparr>) else ret ()) (ret (RPMSG_SUCCESS ops))) (g, w)"
    using assms(1-5) False by (simp add: rpcd_endpoint_cb_def copy_from_shbuf_def RPC_BUFF_SIZE_def)
  have id: "rpc_id call = rpc_id data" using False by (simp add: call_def get32_prefix)
  have len: "length call = 1024" using assms(1,2) by (simp add: call_def)
  have "open_ok call \<longleftrightarrow> 0 \<in> set (drop 16 call)" by (simp add: open_ok_def)
  moreover have "write_ok call \<longleftrightarrow> \<not> (rpc_field2 call < 0 \<or> 1008 < rpc_field2 call)" using len by (auto simp: write_ok_def)
  ultimately show ?thesis
    using False id len handle_open_endless [of call px ops g w] handle_write_too_long [of call px ops g w]
    by (auto simp: cb handle_rpc_def syscall_ids)
qed

theorem rpcd_rejects_witness:
  "rpcd_endpoint_cb null_posix \<lparr>shbuf_offset = \<lambda>h w. Some 0, shbuf_read = \<lambda>off n w. (16, sys_rpc 9 3 0 0)\<rparr>
      (replicate 1024 0) script_ops 0 (sys_rpc 9 3 0 0)
      (\<lparr>err_cnt = 0, ept_deleted = 0, request_termination = 0\<rparr>, ([], []))
    = Done (0, (\<lparr>err_cnt = 1, ept_deleted = 0, request_termination = 0\<rparr>, ([], [])))"
  using rpcd_rejects [where stk = "replicate 1024 0"
      and data = "sys_rpc 9 3 0 0" and h = 0 and w = "([], [])" and off = 0 and r = 16 and px = null_posix
      and sh = "\<lparr>shbuf_offset = \<lambda>h w. Some 0, shbuf_read = \<lambda>off n w. (16, sys_rpc 9 3 0 0)\<rparr>"
      and g = "\<lparr>err_cnt = 0, ept_deleted = 0, request_termination = 0\<rparr>" and ops = script_ops]
  by (simp add: syscall_ids)

text \<open>
  The size of a read from standard input is compared as a signed number: a negative size in
  the request reaches \<open>read\<close> as a huge one, and an input of more than 1008 bytes then overruns
  the response buffer.
\<close>

theorem rpcd_read_negative_size:
  assumes "rpc_field1 call = 0" and "rpc_field2 call < 0"
    and "sys_read px 0 (size_of_int (rpc_field2 call)) w = ((r, bs), w')" and "1008 < length bs"
  shows "2 ^ 63 \<le> size_of_int (rpc_field2 call) \<and> handle_read px ops call (g, w) = Fault Out_of_bounds"
proof -
  have "- (2 ^ 31) \<le> rpc_field2 call" using sint_ge [of "get32 8 call"] by simp
  with assms(2) have "2 ^ 63 \<le> size_of_int (rpc_field2 call)"
    using size_of_int_neg [of "rpc_field2 call"] by (simp add: le_nat_iff)
  moreover have "read_size call = rpc_field2 call"
    using assms(1,2) by (simp add: read_size_def RPC_BUFF_SIZE_def)
  ultimately show ?thesis
    using assms by (simp add: handle_read_def rpc_read_def RPC_BUFF_SIZE_def)
qed

theorem rpcd_read_negative_size_witness:
  "2 ^ 63 \<le> size_of_int (- 1) \<and>
   handle_read (null_posix\<lparr>sys_read := \<lambda>fd n w. ((2000, replicate 2000 65), w)\<rparr>) script_ops
     (sys_rpc READ_SYSCALL_ID 0 (- 1) 0) (\<lparr>err_cnt = 0, ept_deleted = 0, request_termination = 0\<rparr>, ([], []))
     = Fault Out_of_bounds"
proof -
  have "rpc_field1 (sys_rpc READ_SYSCALL_ID 0 (- 1) 0) = 0" "rpc_field2 (sys_rpc READ_SYSCALL_ID 0 (- 1) 0) = - 1"
    using sys_rpc_decode(2,3) [of _ READ_SYSCALL_ID _ 0 "[]"] by auto
  with rpcd_read_negative_size [of "sys_rpc READ_SYSCALL_ID 0 (- 1) 0"
      "null_posix\<lparr>sys_read := \<lambda>fd n w. ((2000, replicate 2000 65), w)\<rparr>" "([], [])" 2000 "replicate 2000 65"]
  show ?thesis by simp
qed

text \<open>
  The character-device proxy reads up to 512 bytes from standard input into a 512-byte buffer
  that already holds the 16-byte header: more than 496 bytes of input overrun it, and exactly
  then.
\<close>

theorem proxy_read_overrun:
  assumes "rpc_field1 rpc = 0" and "sys_read px 0 512 w = ((r, bs), w')"
  shows "proxy_handle_read px rpc (g, w) = Fault Out_of_bounds \<longleftrightarrow> 496 < length bs"
proof -
  have "proxy_resp px m (g, u) \<noteq> Fault x" for m u x by (simp add: proxy_resp_def)
  with assms show ?thesis by (simp add: proxy_handle_read_def rpc_read_def PROXY_BUFF_SIZE_def)
qed

theorem proxy_read_overrun_witness:
  "proxy_handle_read null_posix (sys_rpc READ_SYSCALL_ID 0 40 0) (\<lparr>active = 1, rpmsg_proxy_fd = 5\<rparr>, ([], []))
     = Fault Out_of_bounds"
proof -
  have "rpc_field1 (sys_rpc READ_SYSCALL_ID 0 40 0) = 0"
    using sys_rpc_decode(2) [of 0 READ_SYSCALL_ID 40 0 "[]"] by simp
  moreover have "sys_read null_posix 0 512 ([], []) = ((512, replicate 512 65), ([], []))"
    by (simp add: null_posix_def)
  ultimately show ?thesis using proxy_read_overrun [of "sys_rpc READ_SYSCALL_ID 0 40 0" null_posix "([], [])" 512
      "replicate 512 65" "([], [])" "\<lparr>active = 1, rpmsg_proxy_fd = 5\<rparr>"] by simp
qed

end
