(* ===== verification/Rpc_Linux.thy ===== *)
theory Rpc_Linux
  imports Rpc_Service
begin

text \<open>
  The Linux-to-Linux RPC demo (\<open>examples/linux_rpc_demo\<close>): the client, whose calls send a request
  and wait until a callback has stored the answer, and the server with its table of handlers;
  and the bare-metal RPC demo (\<open>examples/rpc_demo/rpc_demo.c\<close>).  The request and response structures
  are byte strings laid out as the compiler does (\<open>int\<close> fields aligned to 4).
\<close>

section \<open>The RPC library\<close>

text \<open>
  The client and server halves of OpenAMP's RPC library: sending a request or a response, and the
  callbacks a poll makes (a request for the server; an answer with its status for the client).
\<close>

datatype rpc_event = Call u32 bytes | Answer u32 int bytes | Peer_gone

record 'w rpc_lib =
  MAX_FUNC_ID_LEN :: nat
  MAX_BUF_LEN :: nat
  RPMSG_RPC_OK :: u32
  rpc_client_init :: "'w \<Rightarrow> int \<times> 'w"
  rpc_server_init :: "'w \<Rightarrow> int \<times> 'w"
  rpc_client_send :: "u32 \<Rightarrow> bytes \<Rightarrow> 'w \<Rightarrow> int \<times> 'w"
  rpc_server_send :: "u32 \<Rightarrow> u32 \<Rightarrow> bytes \<Rightarrow> 'w \<Rightarrow> int \<times> 'w"
  rpc_client_release :: "'w \<Rightarrow> 'w"
  rpc_destroy_ept :: "'w \<Rightarrow> 'w"
  rpc_poll :: "'w \<Rightarrow> rpc_event list \<times> 'w"
  scan_word :: "'w \<Rightarrow> bytes \<times> 'w"

fun run_rpc :: "(rpc_event \<Rightarrow> ('s, unit) prog) \<Rightarrow> rpc_event list \<Rightarrow> ('s, unit) prog" where
  "run_rpc cb [] = ret ()"
| "run_rpc cb (e # es) = seq (cb e) (run_rpc cb es)"

definition OPEN_ID :: u32 where "OPEN_ID = 1"
definition CLOSE_ID :: u32 where "CLOSE_ID = 2"
definition WRITE_ID :: u32 where "WRITE_ID = 3"
definition READ_ID :: u32 where "READ_ID = 4"
definition TERM_ID :: u32 where "TERM_ID = 6"
definition INPUT_ID :: u32 where "INPUT_ID = 7"

definition MAX_STRING_LEN :: nat where
  "MAX_STRING_LEN = 300"

lemmas rpc_ids = OPEN_ID_def CLOSE_ID_def WRITE_ID_def READ_ID_def TERM_ID_def INPUT_ID_def

section \<open>Request structures\<close>

text \<open>
  \<open>struct rpmsg_rpc_req_open\<close>: the name in bytes 0 to 9, two bytes of padding, the flags at 12 and
  the mode at 16.  \<open>stk\<close> is what the structure holds before it is filled.  The flags and the mode
  are stored first, then the name with its terminating zero is copied over the start.
\<close>

definition req_open :: "bytes \<Rightarrow> bytes \<Rightarrow> int \<Rightarrow> int \<Rightarrow> bytes outcome" where
  "req_open stk name flags mode =
     obind (put_bytes 0 (name @ [0]))
       (obind (put_bytes 16 (le32 (word_of_int mode)))
          (put_bytes 12 (le32 (word_of_int flags)) (take 20 stk)))"

text \<open>\<open>struct rpmsg_rpc_req_write\<close>: descriptor, length, and 300 bytes.\<close>

definition req_write :: "bytes \<Rightarrow> int \<Rightarrow> bytes \<Rightarrow> int \<Rightarrow> bytes outcome" where
  "req_write stk fd ptr len =
     obind (\<lambda>src. obind (put_bytes 4 (le32 (word_of_int len)))
       (obind (put_bytes 8 src) (put_bytes 0 (le32 (word_of_int fd)) (take 308 stk))))
       (sub_bytes 0 (size_of_int (len + 1)) ptr)"

definition req_read :: "int \<Rightarrow> int \<Rightarrow> bytes" where
  "req_read fd buflen = le32 (word_of_int fd) @ le32 (word_of_int buflen)"

section \<open>The client\<close>

record lrpc_client =
  rpc_set :: bool
  poll_set :: bool
  file_d :: int
  bytes_written :: int
  bytes_read :: int
  wait_resp :: bool
  read_req_buffer :: "bytes option"
  input_req_buffer :: "bytes option"

definition linux_rpmsg_set_default_rpc :: "bool \<Rightarrow> (lrpc_client \<times> 'w, unit) prog" where
  "linux_rpmsg_set_default_rpc rpc = (if \<not> rpc then ret () else updg (\<lambda>g. g\<lparr>rpc_set := True\<rparr>))"

definition clear_wait :: "(lrpc_client \<times> 'w, unit) prog" where
  "clear_wait = updg (\<lambda>g. g\<lparr>wait_resp := False\<rparr>)"

definition rpmsg_open_cb :: "int \<Rightarrow> bytes \<Rightarrow> (lrpc_client \<times> 'w, unit) prog" where
  "rpmsg_open_cb status data =
     seq (if status \<noteq> 0 then updg (\<lambda>g. g\<lparr>file_d := 0\<rparr>)
          else if length data < 4 then fail Out_of_bounds
          else updg (\<lambda>g. g\<lparr>file_d := sint (get32 0 data)\<rparr>)) clear_wait"

text \<open>
  The answers to reads and inputs: 4 bytes of count, then 300 bytes, all of which are copied to
  the buffer of the caller.
\<close>

definition store_answer ::
    "(lrpc_client \<Rightarrow> bytes option) \<Rightarrow> (bytes \<Rightarrow> lrpc_client \<Rightarrow> lrpc_client) \<Rightarrow> int \<Rightarrow> bytes \<Rightarrow>
     (lrpc_client \<times> 'w, unit) prog" where
  "store_answer rd wr status data =
     seq (if status \<noteq> 0 then updg (\<lambda>g. g\<lparr>bytes_read := 0\<rparr>)
          else if length data < 4 then fail Out_of_bounds
          else seq (if 0 < sint (get32 0 data)
                    then bnd (getg rd) (\<lambda>b. case b of
                           None \<Rightarrow> fail Null_deref
                         | Some buf \<Rightarrow> bnd (lift (sub_bytes 4 MAX_STRING_LEN data)) (\<lambda>bs.
                             bnd (lift (put_bytes 0 bs buf)) (\<lambda>buf'. updg (wr buf'))))
                    else ret ())
                   (updg (\<lambda>g. g\<lparr>bytes_read := sint (get32 0 data)\<rparr>))) clear_wait"

definition rpmsg_read_cb :: "int \<Rightarrow> bytes \<Rightarrow> (lrpc_client \<times> 'w, unit) prog" where
  "rpmsg_read_cb = store_answer read_req_buffer (\<lambda>b g. g\<lparr>read_req_buffer := Some b\<rparr>)"

definition rpmsg_write_cb :: "int \<Rightarrow> bytes \<Rightarrow> (lrpc_client \<times> 'w, unit) prog" where
  "rpmsg_write_cb status data =
     seq (if status \<noteq> 0 then updg (\<lambda>g. g\<lparr>bytes_written := 0\<rparr>)
          else if length data < 4 then fail Out_of_bounds
          else updg (\<lambda>g. g\<lparr>bytes_written := sint (get32 0 data)\<rparr>)) clear_wait"

definition rpmsg_close_cb :: "int \<Rightarrow> bytes \<Rightarrow> (lrpc_client \<times> 'w, unit) prog" where
  "rpmsg_close_cb status data = clear_wait"

definition rpmsg_input_cb :: "int \<Rightarrow> bytes \<Rightarrow> (lrpc_client \<times> 'w, unit) prog" where
  "rpmsg_input_cb = store_answer input_req_buffer (\<lambda>b g. g\<lparr>input_req_buffer := Some b\<rparr>)"

definition client_table :: "(u32 \<times> (int \<Rightarrow> bytes \<Rightarrow> (lrpc_client \<times> 'w, unit) prog)) list" where
  "client_table = [(OPEN_ID, rpmsg_open_cb), (READ_ID, rpmsg_read_cb), (WRITE_ID, rpmsg_write_cb),
     (CLOSE_ID, rpmsg_close_cb), (INPUT_ID, rpmsg_input_cb)]"

fun client_event :: "rpc_event \<Rightarrow> (lrpc_client \<times> 'w, unit) prog" where
  "client_event (Answer i status data) =
     (case map_of client_table i of None \<Rightarrow> ret () | Some cb \<Rightarrow> cb status data)"
| "client_event e = ret ()"

text \<open>\<open>if (poll.poll) poll.poll(poll.poll_arg);\<close>\<close>

definition client_poll :: "'w rpc_lib \<Rightarrow> (lrpc_client \<times> 'w, unit) prog" where
  "client_poll lib =
     bnd (getg poll_set) (\<lambda>b. if b then bnd (ext (rpc_poll lib)) (run_rpc client_event) else ret ())"

text \<open>\<open>while (atomic_flag_test_and_set(&wait_resp)) \<dots>\<close>\<close>

definition await_resp :: "nat \<Rightarrow> 'w rpc_lib \<Rightarrow> (lrpc_client \<times> 'w, unit) prog" where
  "await_resp n lib =
     iter n (\<lambda>_. bnd (getg wait_resp) (\<lambda>b. seq (updg (\<lambda>g. g\<lparr>wait_resp := True\<rparr>))
       (if b then seq (client_poll lib) (ret (Inl ())) else ret (Inr ())))) ()"

definition rpmsg_open ::
    "nat \<Rightarrow> 'w rpc_lib \<Rightarrow> bytes \<Rightarrow> bytes option \<Rightarrow> int \<Rightarrow> int \<Rightarrow> (lrpc_client \<times> 'w, int) prog" where
  "rpmsg_open n lib stk filename flags mode = (case filename of
     None \<Rightarrow> fail Null_deref
   | Some name \<Rightarrow> bnd (getg rpc_set) (\<lambda>rpc.
       if MAX_BUF_LEN lib < 20 \<or> \<not> rpc then ret (- EINVAL)
       else bnd (lift (req_open stk name flags mode)) (\<lambda>req.
            seq (updg (\<lambda>g. g\<lparr>wait_resp := True\<rparr>))
           (seq (iter n (\<lambda>_. bnd (ext (rpc_client_send lib OPEN_ID req)) (\<lambda>r.
                   if r < 0 then seq (client_poll lib) (ret (Inl ())) else ret (Inr ()))) ())
           (seq (await_resp n lib) (ret 0))))))"

definition rpmsg_read ::
    "nat \<Rightarrow> 'w rpc_lib \<Rightarrow> int \<Rightarrow> bytes option \<Rightarrow> int \<Rightarrow> (lrpc_client \<times> 'w, int) prog" where
  "rpmsg_read n lib fd buffer buflen =
     bnd (getg rpc_set) (\<lambda>rpc.
       if \<not> rpc \<or> buffer = None \<or> buflen = 0 then ret (- EINVAL)
       else seq (updg (\<lambda>g. g\<lparr>read_req_buffer := buffer, bytes_read := 0, wait_resp := True\<rparr>))
           (bnd (ext (rpc_client_send lib READ_ID (req_read fd buflen))) (\<lambda>r.
              if r < 0 then ret 0
              else seq (await_resp n lib) (getg bytes_read))))"

definition rpmsg_write ::
    "nat \<Rightarrow> 'w rpc_lib \<Rightarrow> bytes \<Rightarrow> int \<Rightarrow> bytes \<Rightarrow> int \<Rightarrow> (lrpc_client \<times> 'w, int) prog" where
  "rpmsg_write n lib stk fd ptr len =
     bnd (getg rpc_set) (\<lambda>rpc.
       if \<not> rpc then ret (- EINVAL)
       else seq (updg (\<lambda>g. g\<lparr>bytes_written := 0\<rparr>))
           (bnd (lift (req_write stk fd ptr len)) (\<lambda>req.
            seq (updg (\<lambda>g. g\<lparr>wait_resp := True\<rparr>))
           (bnd (ext (rpc_client_send lib WRITE_ID req)) (\<lambda>r.
              if r < 0 then ret 0
              else seq (await_resp n lib) (getg bytes_written))))))"

text \<open>A close waits for its answer even when the request could not be sent.\<close>

definition rpmsg_close :: "nat \<Rightarrow> 'w rpc_lib \<Rightarrow> int \<Rightarrow> (lrpc_client \<times> 'w, int) prog" where
  "rpmsg_close n lib fd =
     bnd (getg rpc_set) (\<lambda>rpc.
       if \<not> rpc then ret (- EINVAL)
       else seq (updg (\<lambda>g. g\<lparr>wait_resp := True\<rparr>))
           (bnd (ext (rpc_client_send lib CLOSE_ID (le32 (word_of_int fd)))) (\<lambda>r.
            seq (await_resp n lib) (ret r))))"

definition rpmsg_input :: "nat \<Rightarrow> 'w rpc_lib \<Rightarrow> bytes option \<Rightarrow> int \<Rightarrow> (lrpc_client \<times> 'w, int) prog" where
  "rpmsg_input n lib buffer buflen =
     bnd (getg rpc_set) (\<lambda>rpc.
       if \<not> rpc \<or> buffer = None \<or> buflen = 0 then ret (- EINVAL)
       else seq (updg (\<lambda>g. g\<lparr>input_req_buffer := buffer, bytes_read := 0, wait_resp := True\<rparr>))
           (bnd (ext (rpc_client_send lib INPUT_ID (le32 (word_of_int buflen)))) (\<lambda>r.
              if r < 0 then ret 0
              else seq (await_resp n lib) (getg bytes_read))))"

definition demo_text :: bytes where
  "demo_text = map of_char ''This is a test string being written to file..''"

definition demo_file :: bytes where
  "demo_file = map of_char ''remote.file''"

text \<open>One input into a local buffer of 50 bytes (\<open>junk\<close> before the call); the result is \<open>bytes_read\<close>.\<close>

definition ask :: "nat \<Rightarrow> 'w rpc_lib \<Rightarrow> bytes \<Rightarrow> (lrpc_client \<times> 'w, int) prog" where
  "ask n lib junk = seq (rpmsg_input n lib (Some (take 50 junk)) 50) (getg bytes_read)"

definition input_loop :: "nat \<Rightarrow> 'w rpc_lib \<Rightarrow> bytes \<Rightarrow> (lrpc_client \<times> 'w, unit) prog" where
  "input_loop n lib junk =
     iter n (\<lambda>_.
       bnd (ask n lib junk) (\<lambda>r1.
       bnd (if r1 \<noteq> 0
            then bnd (ask n lib junk) (\<lambda>r2. if r2 \<noteq> 0 then ask n lib junk else ret r2)
            else ret r1) (\<lambda>r.
       if r = 0 then seq (ask n lib junk) (ret (Inl ()))
       else bnd (ext (scan_word lib)) (\<lambda>word.
            if 50 \<le> length word then fail Out_of_bounds
            else if word = map of_char ''no'' then ret (Inr ()) else ret (Inl ()))))) ()"

definition lrpc_client_app :: "nat \<Rightarrow> 'w rpc_lib \<Rightarrow> bytes \<Rightarrow> (lrpc_client \<times> 'w, int) prog" where
  "lrpc_client_app n lib junk =
     seq (updg (\<lambda>g. g\<lparr>poll_set := True, wait_resp := True\<rparr>))
    (bnd (ext (rpc_client_init lib)) (\<lambda>r.
     seq (linux_rpmsg_set_default_rpc True)
    (if r \<noteq> 0 then ret (- 1)
     else seq (rpmsg_open n lib junk (Some demo_file) 1089 384)
         (bnd (getg file_d) (\<lambda>fd.
          seq (rpmsg_write n lib junk fd (demo_text @ [0] @ take 4 junk) 45)
         (seq (rpmsg_close n lib fd)
         (seq (rpmsg_open n lib junk (Some demo_file) 0 384)
         (bnd (getg file_d) (\<lambda>fd.
          seq (rpmsg_read n lib fd (Some (take 300 junk)) 300)
         (bnd (getg bytes_read) (\<lambda>k.
          if k < 0 \<or> 300 \<le> k then fail Out_of_bounds
          else seq (rpmsg_close n lib fd)
              (seq (input_loop n lib junk)
              (seq (ext (rpc_client_send lib TERM_ID (le32 6)))
              (seq (extU (rpc_client_release lib)) (ret 0))))))))))))))) "

definition lrpc_client_main ::
    "nat \<Rightarrow> ('p, 'r, 'w) plat \<Rightarrow> 'w rpc_lib \<Rightarrow> bytes \<Rightarrow> (lrpc_client \<times> 'w, int) prog" where
  "lrpc_client_main n pl lib junk = app_main pl VIRTIO_DEV_DEVICE False (lrpc_client_app n lib junk)"

section \<open>The server\<close>

record lrpc_server =
  l_request_termination :: int
  l_ept_deleted :: int

definition server_unbind :: "'w rpc_lib \<Rightarrow> (lrpc_server \<times> 'w, unit) prog" where
  "server_unbind lib = seq (extU (rpc_destroy_ept lib)) (updg (\<lambda>g. g\<lparr>l_ept_deleted := 1\<rparr>))"

definition server_terminate :: "'w rpc_lib \<Rightarrow> (lrpc_server \<times> 'w, unit) prog" where
  "server_terminate lib =
     bnd (getg l_ept_deleted) (\<lambda>d. if d = 0 then extU (rpc_destroy_ept lib) else ret ())"

definition server_exit_action :: "'w rpc_lib \<Rightarrow> (lrpc_server \<times> 'w, unit) prog" where
  "server_exit_action = server_terminate"

definition server_kill_action ::
    "('p, 'r, 'w) plat \<Rightarrow> 'w rpc_lib \<Rightarrow> 'r option \<Rightarrow> 'p option \<Rightarrow> (lrpc_server \<times> 'w, unit) prog" where
  "server_kill_action pl lib rpdev platform =
     seq (server_terminate lib)
    (seq (case rpdev of None \<Rightarrow> ret ()
          | Some r \<Rightarrow> (case platform of None \<Rightarrow> fail Null_deref
                       | Some p \<Rightarrow> extU (platform_release_rpmsg_vdev pl r p)))
         (case platform of None \<Rightarrow> ret () | Some p \<Rightarrow> callw (platform_cleanup pl p)))"

text \<open>A response, and \<open>return ret > 0 ? 0 : ret;\<close>\<close>

definition server_resp :: "'w rpc_lib \<Rightarrow> u32 \<Rightarrow> bytes \<Rightarrow> (lrpc_server \<times> 'w, int) prog" where
  "server_resp lib i m =
     bnd (ext (rpc_server_send lib i (RPMSG_RPC_OK lib) m)) (\<lambda>r. ret (if 0 < r then 0 else r))"

definition rpmsg_handle_open :: "'w posix \<Rightarrow> 'w rpc_lib \<Rightarrow> bytes \<Rightarrow> (lrpc_server \<times> 'w, int) prog" where
  "rpmsg_handle_open px lib data =
     (let req = drop (MAX_FUNC_ID_LEN lib) data in
      if length req < 20 then fail Out_of_bounds
      else bnd (lift (c_string req)) (\<lambda>name.
           bnd (ext (sys_open px name (sint (get32 12 req)) (sint (get32 16 req)))) (\<lambda>fd.
           server_resp lib OPEN_ID (le32 (word_of_int fd)))))"

definition rpmsg_handle_close :: "'w posix \<Rightarrow> 'w rpc_lib \<Rightarrow> bytes \<Rightarrow> (lrpc_server \<times> 'w, int) prog" where
  "rpmsg_handle_close px lib data =
     (let req = drop (MAX_FUNC_ID_LEN lib) data in
      if length req < 4 then fail Out_of_bounds
      else bnd (ext (sys_close px (sint (get32 0 req)))) (\<lambda>r.
           server_resp lib CLOSE_ID (le32 (word_of_int r))))"

text \<open>\<open>stk\<close>: the 304 bytes of the response structure before it is filled.\<close>

definition rpmsg_handle_read ::
    "'w posix \<Rightarrow> 'w rpc_lib \<Rightarrow> bytes \<Rightarrow> bytes \<Rightarrow> (lrpc_server \<times> 'w, int) prog" where
  "rpmsg_handle_read px lib stk data =
     (let req = drop (MAX_FUNC_ID_LEN lib) data in
      if length req < 8 then fail Out_of_bounds
      else let fd = sint (get32 0 req) in
        bnd (ext (sys_read px fd (if fd = 0 then MAX_STRING_LEN else unat (get32 4 req)))) (\<lambda>(r, bs).
        bnd (lift (put_bytes 4 bs stk)) (\<lambda>resp.
        bnd (lift (put_bytes 0 (le32 (word_of_int r)) resp)) (\<lambda>resp'.
        server_resp lib READ_ID resp'))))"

definition rpmsg_handle_write :: "'w posix \<Rightarrow> 'w rpc_lib \<Rightarrow> bytes \<Rightarrow> (lrpc_server \<times> 'w, int) prog" where
  "rpmsg_handle_write px lib data =
     (let req = drop (MAX_FUNC_ID_LEN lib) data in
      if length req < 8 then fail Out_of_bounds
      else bnd (lift (sub_bytes 8 (unat (get32 4 req)) req)) (\<lambda>bs.
           bnd (ext (sys_write px (sint (get32 0 req)) bs)) (\<lambda>r.
           server_resp lib WRITE_ID (le32 (word_of_int r)))))"

text \<open>The count in the response is always the size of the buffer.\<close>

definition rpmsg_handle_input :: "'w rpc_lib \<Rightarrow> bytes \<Rightarrow> bytes \<Rightarrow> (lrpc_server \<times> 'w, int) prog" where
  "rpmsg_handle_input lib stk data =
     bnd (ext (scan_word lib)) (\<lambda>word.
     if MAX_STRING_LEN \<le> length word then fail Out_of_bounds
     else bnd (lift (put_bytes 4 (word @ [0]) stk)) (\<lambda>resp.
          bnd (lift (put_bytes 0 (le32 (word_of_nat MAX_STRING_LEN)) resp)) (\<lambda>resp'.
          server_resp lib INPUT_ID resp')))"

definition rpmsg_handle_term :: "'w rpc_lib \<Rightarrow> bytes \<Rightarrow> (lrpc_server \<times> 'w, int) prog" where
  "rpmsg_handle_term lib data =
     (if length (drop (MAX_FUNC_ID_LEN lib) data) < 4 then fail Out_of_bounds
      else seq (updg (\<lambda>g. g\<lparr>l_request_termination := 1\<rparr>)) (ret 0))"

definition server_table ::
    "'w posix \<Rightarrow> 'w rpc_lib \<Rightarrow> bytes \<Rightarrow> (u32 \<times> (bytes \<Rightarrow> (lrpc_server \<times> 'w, int) prog)) list" where
  "server_table px lib stk =
     [(OPEN_ID, rpmsg_handle_open px lib), (READ_ID, rpmsg_handle_read px lib stk),
      (WRITE_ID, rpmsg_handle_write px lib), (CLOSE_ID, rpmsg_handle_close px lib),
      (INPUT_ID, rpmsg_handle_input lib stk), (TERM_ID, rpmsg_handle_term lib)]"

fun server_event :: "'w posix \<Rightarrow> 'w rpc_lib \<Rightarrow> bytes \<Rightarrow> rpc_event \<Rightarrow> (lrpc_server \<times> 'w, unit) prog" where
  "server_event px lib stk (Call i data) =
     (case map_of (server_table px lib stk) i of None \<Rightarrow> ret () | Some h \<Rightarrow> seq (h data) (ret ()))"
| "server_event px lib stk Peer_gone = server_unbind lib"
| "server_event px lib stk e = ret ()"

definition lrpc_server_app :: "nat \<Rightarrow> 'w posix \<Rightarrow> 'w rpc_lib \<Rightarrow> bytes \<Rightarrow> (lrpc_server \<times> 'w, int) prog" where
  "lrpc_server_app n px lib stk =
     bnd (ext (rpc_server_init lib)) (\<lambda>r.
     if r \<noteq> 0 then ret (- EINVAL)
     else seq (iter n (\<lambda>_. seq (bnd (ext (rpc_poll lib)) (run_rpc (server_event px lib stk)))
                 (bnd (getg (\<lambda>g. l_ept_deleted g \<noteq> 0 \<or> l_request_termination g \<noteq> 0)) (\<lambda>d.
                    ret (if d then Inr () else Inl ())))) ())
         (seq (server_terminate lib) (ret r)))"

text \<open>As in the other proxy, \<open>platform\<close> is static here.\<close>

definition lrpc_server_main ::
    "nat \<Rightarrow> ('p, 'r, 'w) plat \<Rightarrow> ('w \<Rightarrow> 'w) \<Rightarrow> 'w posix \<Rightarrow> 'w rpc_lib \<Rightarrow> bytes \<Rightarrow> (lrpc_server \<times> 'w, int) prog" where
  "lrpc_server_main n pl cleanup_null px lib stk =
     bnd (callw (platform_init pl)) (\<lambda>(st, x).
     bnd (if st \<noteq> 0 then ret (- 1)
          else with_var (stored x) (run_on_vdev pl VIRTIO_DEV_DRIVER False (lrpc_server_app n px lib stk)))
       (\<lambda>r. seq (case x of None \<Rightarrow> extU cleanup_null | Some p \<Rightarrow> callw (platform_cleanup pl p)) (ret r)))"

section \<open>The bare-metal demo\<close>

text \<open>
  The C library of the firmware is redirected to the host, so the calls are POSIX calls; the
  three forms of \<open>scanf\<close> return the number of items read and, for words, the word.
\<close>

record 'w console =
  scan_str :: "'w \<Rightarrow> (int \<times> bytes) \<times> 'w"
  scan_int :: "'w \<Rightarrow> int \<times> 'w"
  scan_float :: "'w \<Rightarrow> int \<times> 'w"
  rpc_init :: "'w \<Rightarrow> int \<times> 'w"
  rpc_term :: "'w \<Rightarrow> 'w"
  rpc_release :: "'w \<Rightarrow> 'w"

text \<open>A word read into a buffer of 50 bytes.\<close>

definition scan50 :: "'w console \<Rightarrow> (unit \<times> 'w, int \<times> bytes) prog" where
  "scan50 con = bnd (ext (scan_str con)) (\<lambda>(r, word).
     if 50 \<le> length word then fail Out_of_bounds else ret (r, word))"

definition demo_loop :: "nat \<Rightarrow> 'w console \<Rightarrow> (unit \<times> 'w, unit) prog" where
  "demo_loop n con =
     iter n (\<lambda>_.
       bnd (scan50 con) (\<lambda>(r1, _).
       bnd (if r1 \<noteq> 0
            then bnd (ext (scan_int con)) (\<lambda>r2. if r2 \<noteq> 0 then ext (scan_float con) else ret r2)
            else ret r1) (\<lambda>r.
       bnd (scan50 con) (\<lambda>(_, word).
       if r = 0 then ret (Inl ())
       else if word = map of_char ''no'' then ret (Inr ()) else ret (Inl ()))))) ()"

text \<open>The byte after next to the last one read is cleared (\<open>rbuff[bytes_read + 1] = 0\<close>).\<close>

definition rpc_demo_app :: "nat \<Rightarrow> 'w posix \<Rightarrow> 'w console \<Rightarrow> (unit \<times> 'w, int) prog" where
  "rpc_demo_app n px con =
     bnd (ext (rpc_init con)) (\<lambda>r.
     if r \<noteq> 0 then ret (- 1)
     else bnd (ext (sys_open px demo_file 1089 384)) (\<lambda>fd.
          seq (ext (sys_write px fd demo_text))
         (seq (ext (sys_close px fd))
         (bnd (ext (sys_open px demo_file 0 384)) (\<lambda>fd.
          bnd (ext (sys_read px fd 1024)) (\<lambda>(k, bs).
          if k + 1 < 0 \<or> 1024 \<le> k + 1 then fail Out_of_bounds
          else seq (ext (sys_close px fd))
              (seq (demo_loop n con)
              (seq (extU (rpc_term con))
              (seq (extU (rpc_release con)) (ret 0))))))))))"

definition rpc_demo_main :: "nat \<Rightarrow> ('p, 'r, 'w) plat \<Rightarrow> 'w posix \<Rightarrow> 'w console \<Rightarrow> (unit \<times> 'w, int) prog" where
  "rpc_demo_main n pl px con =
     bnd (callw (platform_init pl)) (\<lambda>(st, x).
       if st \<noteq> 0 then ret (- 1)
       else bnd (with_var (stored x) (run_on_vdev pl VIRTIO_DEV_DEVICE False (rpc_demo_app n px con)))
         (\<lambda>r. seq (with_var (stored x) (\<lambda>p. callw (platform_cleanup pl p))) (ret r)))"

definition rpc_generic_main :: "nat \<Rightarrow> ('p, 'r, 'w) plat \<Rightarrow> 'w posix \<Rightarrow> 'w console \<Rightarrow> (unit \<times> 'w, int) prog" where
  "rpc_generic_main n pl px con = generic_main pl (rpc_demo_app n px con)"

definition rpc_listen_task :: "nat \<Rightarrow> ('p, 'r, 'w) plat \<Rightarrow> 'w posix \<Rightarrow> 'w console \<Rightarrow> (unit \<times> 'w, unit) prog" where
  "rpc_listen_task n pl px con = listen_task n pl (rpc_demo_app n px con)"

definition rpc_freertos_main ::
    "nat \<Rightarrow> ('w \<Rightarrow> bool \<times> 'w) \<Rightarrow> ('p, 'r, 'w) plat \<Rightarrow> 'w posix \<Rightarrow> 'w console \<Rightarrow> (unit \<times> 'w, int) prog" where
  "rpc_freertos_main n xTaskCreate pl px con = freertos_main xTaskCreate (rpc_listen_task n pl px con)"

section \<open>Requests as the server sees them\<close>

lemma req_open_layout:
  assumes "length name \<le> 11" and "20 \<le> length stk"
  shows "req_open stk name flags mode = Done (name @ [0] @ drop (length name + 1) (take 12 stk) @
     le32 (word_of_int flags) @ le32 (word_of_int mode))"
proof -
  have "obind (put_bytes 16 (le32 (word_of_int mode))) (put_bytes 12 (le32 (word_of_int flags)) (take 20 stk))
      = Done (take 12 stk @ le32 (word_of_int flags) @ le32 (word_of_int mode))"
    using assms(2) by (simp add: put_bytes_def)
  then show ?thesis using assms by (simp add: req_open_def put_bytes_def)
qed

lemma req_write_layout:
  assumes "0 \<le> len" and "len < 300" and "nat len + 1 \<le> length ptr" and "308 \<le> length stk"
  shows "req_write stk fd ptr len = Done (le32 (word_of_int fd) @ le32 (word_of_int len) @
     take (nat len + 1) ptr @ drop (9 + nat len) (take 308 stk))"
proof -
  have "size_of_int (len + 1) = nat len + 1" using assms(1,2) size_of_int_nonneg [of "len + 1"] by simp
  then have src: "sub_bytes 0 (size_of_int (len + 1)) ptr = Done (take (nat len + 1) ptr)"
    using assms(3) by (simp add: sub_bytes_def)
  have l: "length (take (nat len + 1) ptr) = nat len + 1" using assms(3) by simp
  have "put_bytes 0 (le32 (word_of_int fd)) (take 308 stk) = Done (le32 (word_of_int fd) @ drop 4 (take 308 stk))"
    using assms(4) by (simp add: put_bytes_def)
  moreover have "put_bytes 8 (take (nat len + 1) ptr) (le32 (word_of_int fd) @ drop 4 (take 308 stk))
      = Done (le32 (word_of_int fd) @ take 4 (drop 4 (take 308 stk)) @ take (nat len + 1) ptr @ drop (9 + nat len) (take 308 stk))"
    using assms l by (simp add: put_bytes_def add.commute)
  ultimately show ?thesis
    unfolding req_write_def src using assms(4) by (simp add: put_bytes_def)
qed

section \<open>Properties\<close>

text \<open>
  An open request survives the trip: for names of up to 11 characters the server opens
  exactly the file, flags and mode the client asked for (the last two characters travel in
  the padding of the structure, behind its 10-byte name field).
\<close>

theorem open_request_roundtrip:
  assumes "length name \<le> 11" and "0 \<notin> set name" and "20 \<le> length stk"
    and "- (2 ^ 31) \<le> flags" "flags < 2 ^ 31" and "- (2 ^ 31) \<le> mode" "mode < 2 ^ 31"
    and "length pre = MAX_FUNC_ID_LEN lib" and "sys_open px name flags mode w = (fd, w')"
  shows "\<exists>req. req_open stk name flags mode = Done req \<and> length req = 20 \<and>
    rpmsg_handle_open px lib (pre @ req) (g, w) = server_resp lib OPEN_ID (le32 (word_of_int fd)) (g, w')"
proof -
  let ?q = "drop (length name + 1) (take 12 stk)"
  let ?req = "name @ [0] @ ?q @ le32 (word_of_int flags) @ le32 (word_of_int mode)"
  have len: "length (name @ [0] @ ?q) = 12" "length ?req = 20" using assms(1,3) by simp_all
  have "get32 12 ?req = word_of_int flags"
    using get32_append [OF len(1), of "word_of_int flags" "le32 (word_of_int mode)"] by simp
  moreover have "get32 16 ?req = word_of_int mode"
    using get32_append [of "name @ [0] @ ?q @ le32 (word_of_int flags)" 16 "word_of_int mode" "[]"] len(1) by simp
  moreover have "c_string ?req = Done name" using c_string_append [OF assms(2)] by simp
  ultimately have "rpmsg_handle_open px lib (pre @ ?req) (g, w) = server_resp lib OPEN_ID (le32 (word_of_int fd)) (g, w')"
    using assms(4-9) len(2) by (simp add: rpmsg_handle_open_def Let_def sint_word_of_int)
  with req_open_layout [OF assms(1,3), of flags mode] len(2) show ?thesis by blast
qed

definition null_lib :: "(event list list \<times> bytes list) rpc_lib" where
  "null_lib = \<lparr>MAX_FUNC_ID_LEN = 4, MAX_BUF_LEN = 496, RPMSG_RPC_OK = 0, rpc_client_init = (\<lambda>w. (0, w)),
     rpc_server_init = (\<lambda>w. (0, w)), rpc_client_send = (\<lambda>i m w. (- 1, w)), rpc_server_send = (\<lambda>i st m w. (1, w)),
     rpc_client_release = (\<lambda>w. w), rpc_destroy_ept = (\<lambda>w. w), rpc_poll = (\<lambda>w. ([], w)),
     scan_word = (\<lambda>w. ([110, 111], w))\<rparr>"

theorem open_request_roundtrip_witness:
  "\<exists>req. req_open (replicate 20 7) demo_file 1089 384 = Done req \<and> length req = 20 \<and>
    rpmsg_handle_open null_posix null_lib ([1, 0, 0, 0] @ req) (\<lparr>l_request_termination = 0, l_ept_deleted = 0\<rparr>, ([], []))
      = server_resp null_lib OPEN_ID (le32 (word_of_int 3)) (\<lparr>l_request_termination = 0, l_ept_deleted = 0\<rparr>, ([], []))"
  by (rule open_request_roundtrip) (simp_all add: demo_file_def null_lib_def null_posix_def of_char_of)

text \<open>
  A write request survives the trip: the server writes exactly the bytes the client gave, for
  every length up to 299 (the client copies one byte more than it asks to be written).
\<close>

theorem write_request_roundtrip:
  assumes "0 \<le> len" and "len < 300" and "nat len + 1 \<le> length ptr" and "308 \<le> length stk"
    and "- (2 ^ 31) \<le> fd" "fd < 2 ^ 31"
    and "length pre = MAX_FUNC_ID_LEN lib" and "sys_write px fd (take (nat len) ptr) w = (r, w')"
  shows "\<exists>req. req_write stk fd ptr len = Done req \<and> length req = 308 \<and>
    rpmsg_handle_write px lib (pre @ req) (g, w) = server_resp lib WRITE_ID (le32 (word_of_int r)) (g, w')"
proof -
  let ?body = "take (nat len + 1) ptr @ drop (9 + nat len) (take 308 stk)"
  let ?req = "le32 (word_of_int fd) @ le32 (word_of_int len) @ ?body"
  have len: "length ?req = 308" using assms(1-4) by simp
  have "get32 0 ?req = word_of_int fd" by (simp add: get32_hd)
  moreover have "get32 4 ?req = word_of_int len"
    using get32_append [of "le32 (word_of_int fd)" 4 "word_of_int len" ?body] by simp
  moreover have "unat (word_of_int len :: u32) = nat len"
    using assms(1,2) by (simp add: unsigned_of_int take_bit_int_eq_self)
  moreover have "sub_bytes 8 (nat len) ?req = Done (take (nat len) ptr)"
    using assms(1-4) by (simp add: sub_bytes_def)
  ultimately have "rpmsg_handle_write px lib (pre @ ?req) (g, w) = server_resp lib WRITE_ID (le32 (word_of_int r)) (g, w')"
    using assms(5-8) len by (simp add: rpmsg_handle_write_def Let_def sint_word_of_int)
  with req_write_layout [OF assms(1-4), of fd] len show ?thesis by blast
qed

theorem write_request_roundtrip_witness:
  "\<exists>req. req_write (replicate 308 7) 3 [72, 105, 0] 2 = Done req \<and> length req = 308 \<and>
    rpmsg_handle_write null_posix null_lib ([3, 0, 0, 0] @ req) (\<lparr>l_request_termination = 0, l_ept_deleted = 0\<rparr>, ([], []))
      = server_resp null_lib WRITE_ID (le32 (word_of_int 2)) (\<lparr>l_request_termination = 0, l_ept_deleted = 0\<rparr>, ([], []))"
  by (rule write_request_roundtrip) (simp_all add: null_lib_def null_posix_def)

text \<open>
  Every answer of the server to an input request overruns the client: it always announces 300
  bytes, and the client copies 300 bytes into the 50-byte buffers the demo reads its input to.
\<close>

theorem input_answer_overruns:
  assumes "scan_word lib w = (word, w1)" and "length word < 300" and "length stk = 304"
    and "input_req_buffer c = Some buf" and "length buf = 50"
  shows "\<exists>m. rpmsg_handle_input lib stk data (g, w) = server_resp lib INPUT_ID m (g, w1) \<and>
     rpmsg_input_cb 0 m (c, v) = Fault Out_of_bounds"
proof -
  let ?m = "le32 (word_of_nat 300) @ word @ [0] @ drop (5 + length word) stk"
  have "put_bytes 4 (word @ [0]) stk = Done (take 4 stk @ word @ [0] @ drop (5 + length word) stk)"
    using assms(2,3) by (simp add: put_bytes_def)
  moreover have "put_bytes 0 (le32 (word_of_nat 300)) (take 4 stk @ word @ [0] @ drop (5 + length word) stk) = Done ?m"
    using assms(2,3) by (simp add: put_bytes_def)
  ultimately have h: "rpmsg_handle_input lib stk data (g, w) = server_resp lib INPUT_ID ?m (g, w1)"
    using assms(1,2) by (simp add: rpmsg_handle_input_def MAX_STRING_LEN_def del: of_nat_numeral)
  have "get32 0 ?m = 300" using get32_hd [of "word_of_nat 300"] by simp
  moreover have "sub_bytes 4 300 ?m = Done (word @ [0] @ drop (5 + length word) stk)" 
    "length (word @ [0] @ drop (5 + length word) stk) = 300"
    using assms(2,3) by (simp_all add: sub_bytes_def)
  ultimately have "rpmsg_input_cb 0 ?m (c, v) = Fault Out_of_bounds"
    using assms(3-5) by (simp add: rpmsg_input_cb_def store_answer_def MAX_STRING_LEN_def put_bytes_def)
  with h show ?thesis by blast
qed

definition idle_client :: lrpc_client where
  "idle_client = \<lparr>rpc_set = True, poll_set = True, file_d = 0, bytes_written = 0, bytes_read = 0,
     wait_resp = True, read_req_buffer = None, input_req_buffer = Some (replicate 50 0)\<rparr>"

theorem input_answer_overruns_witness:
  "\<exists>m. rpmsg_handle_input null_lib (replicate 304 0) [] (\<lparr>l_request_termination = 0, l_ept_deleted = 0\<rparr>, ([], []))
      = server_resp null_lib INPUT_ID m (\<lparr>l_request_termination = 0, l_ept_deleted = 0\<rparr>, ([], [])) \<and>
     rpmsg_input_cb 0 m (idle_client, ()) = Fault Out_of_bounds"
  by (rule input_answer_overruns [where word = "[110, 111]" and buf = "replicate 50 0"])
    (simp_all add: null_lib_def idle_client_def)

text \<open>
  A close whose request could not be sent never returns when the peer stays silent: it waits
  for an answer that nobody owes it, however many polls it makes.
\<close>

theorem close_waits_forever:
  assumes "rpc_set g" and "poll_set g" and "rpc_client_send lib CLOSE_ID (le32 (word_of_int fd)) w = (r, w0)"
    and "r < 0" and "\<And>w. rpc_poll lib w = ([], w)"
  shows "rpmsg_close n lib fd (g, w) = Blocked"
proof -
  have "await_resp n lib (h, u) = Blocked" if "wait_resp h" "poll_set h" for h u
  proof -
    have same: "h\<lparr>wait_resp := True\<rparr> = h" using that(1) by (cases h) simp
    show ?thesis
      unfolding await_resp_def by (induction n) (simp_all add: that client_poll_def assms(5) same)
  qed
  then show ?thesis using assms(1-3) by (simp add: rpmsg_close_def)
qed

theorem close_waits_forever_witness:
  "rpmsg_close 1000 null_lib 3 (idle_client, ([], [])) = Blocked"
  by (rule close_waits_forever [where r = "- 1" and ?w0.0 = "([], [])"]) (simp_all add: idle_client_def null_lib_def)

text \<open>
  A read returns with its answer: when the answer arrives after \<open>k\<close> polls without one, the call
  returns the count of the answer, and the caller's 300-byte buffer holds the 300 bytes of it.
\<close>

lemma rpmsg_read_returns:
  assumes "rpc_set g" and "poll_set g" and "length buf = 300" and "length bs = 300"
    and "rpc_client_send lib READ_ID (req_read fd 300) w = (r, W 0)" and "0 \<le> r"
    and "\<And>j. j < k \<Longrightarrow> rpc_poll lib (W j) = ([], W (Suc j))"
    and "rpc_poll lib (W k) = ([Answer READ_ID 0 (le32 (word_of_int cnt) @ bs)], w')"
    and "0 < cnt" and "cnt < 2 ^ 31" and "k + 1 < n"
  shows "\<exists>g'. rpmsg_read n lib fd (Some buf) 300 (g, w) = Done (cnt, (g', w')) \<and> read_req_buffer g' = Some bs"
proof -
  let ?g = "g\<lparr>read_req_buffer := Some buf, bytes_read := 0, wait_resp := True\<rparr>"
  let ?h = "?g\<lparr>read_req_buffer := Some bs, bytes_read := cnt, wait_resp := False\<rparr>"
  let ?m = "le32 (word_of_int cnt) @ bs"
  have "rpmsg_read_cb 0 ?m (?g, w') = Done ((), (?h, w'))"
    using assms(3,4,9,10)
    by (simp add: rpmsg_read_cb_def store_answer_def clear_wait_def MAX_STRING_LEN_def sub_bytes_def
        put_bytes_def get32_hd sint_word_of_int)
  then have ev: "run_rpc client_event [Answer READ_ID 0 ?m] (?g, w') = Done ((), (?h, w'))"
    by (simp add: client_table_def rpc_ids)
  let ?S = "\<lambda>j. if j \<le> k then (?g, W j) else (?h, w')"
  have "await_resp n lib (?S 0) = Done ((), (?h\<lparr>wait_resp := True\<rparr>, w'))"
    unfolding await_resp_def
  proof (rule iter_run [where L = "\<lambda>_. ()" and m = "Suc k" and S = ?S])
    fix j assume "j < Suc k"
    then show "bnd (getg wait_resp) (\<lambda>b. seq (updg (\<lambda>g. g\<lparr>wait_resp := True\<rparr>))
        (if b then seq (client_poll lib) (ret (Inl ())) else ret (Inr ()))) (?S j) = Done (Inl (), ?S (Suc j))"
      using assms(2,7,8) ev by (cases "j = k") (simp_all add: client_poll_def)
  qed (use assms(11) in simp_all)
  then show ?thesis using assms(1,5,6) by (auto simp: rpmsg_read_def)
qed

definition answering_lib :: "bytes rpc_lib" where
  "answering_lib = \<lparr>MAX_FUNC_ID_LEN = 4, MAX_BUF_LEN = 496, RPMSG_RPC_OK = 0, rpc_client_init = (\<lambda>w. (0, w)),
     rpc_server_init = (\<lambda>w. (0, w)), rpc_client_send = (\<lambda>i m w. (1, w)), rpc_server_send = (\<lambda>i st m w. (1, w)),
     rpc_client_release = (\<lambda>w. w), rpc_destroy_ept = (\<lambda>w. w),
     rpc_poll = (\<lambda>w. ([Answer READ_ID 0 (le32 (word_of_int 45) @ w)], w)), scan_word = (\<lambda>w. ([], w))\<rparr>"

lemma rpmsg_read_returns_witness:
  "\<exists>g'. rpmsg_read 3 answering_lib 5 (Some (replicate 300 0)) 300 (idle_client, replicate 300 65)
      = Done (45, (g', replicate 300 65)) \<and> read_req_buffer g' = Some (replicate 300 65)"
  by (rule rpmsg_read_returns [where k = 0 and W = "\<lambda>_. replicate 300 65" and r = 1])
    (simp_all add: idle_client_def answering_lib_def)

end
