(* ===== verification/Kick_Poll.thy ===== *)
theory Kick_Poll
  imports App_Main
begin

text \<open>
  The waiting protocol that the interrupt-driven platforms share: a flag that \<open>platform_poll\<close>
  tests and sets with interrupts disabled, that the interrupt handler clears, and a
  suspension in between.  The locale states what one pass of the loop does; the platforms interpret it on
  their own passes.
\<close>

text \<open>\<open>wait w\<close> is one suspension: whether the kick has come in, and the world afterwards.\<close>

fun kick_after :: "('w \<Rightarrow> bool \<times> 'w) \<Rightarrow> nat \<Rightarrow> 'w \<Rightarrow> bool" where
  "kick_after wait 0 w \<longleftrightarrow> fst (wait w)"
| "kick_after wait (Suc k) w \<longleftrightarrow> \<not> fst (wait w) \<and> kick_after wait k (snd (wait w))"

locale kick_wait =
  fixes pass :: "('g \<times> 'w, unit + 'r) prog" and ok :: "'g \<Rightarrow> bool"
    and flag :: "'g \<Rightarrow> bool" and set_flag :: "bool \<Rightarrow> 'g \<Rightarrow> 'g" and wait :: "'w \<Rightarrow> bool \<times> 'w"
  assumes ok_set: "ok g \<Longrightarrow> ok (set_flag b g)"
    and flag_set: "ok g \<Longrightarrow> flag (set_flag b g) = b"
    and set_same: "ok g \<Longrightarrow> flag g \<Longrightarrow> set_flag True g = g"
    and set_set: "ok g \<Longrightarrow> set_flag a (set_flag b g) = set_flag a g"
    and pass_kicked: "ok g \<Longrightarrow> \<not> flag g \<Longrightarrow> \<exists>r w'. pass (g, w) = Done (Inr r, (set_flag True g, w'))"
    and pass_waits: "ok g \<Longrightarrow> flag g \<Longrightarrow> \<exists>w'. pass (g, w) = Done (Inl (),
        if fst (wait w) then (set_flag False g, w') else (g, snd (wait w)))"
begin

text \<open>A kick that has come in before the poll is taken at once; no wait is needed.\<close>

lemma poll_pending:
  assumes "ok g" and "\<not> flag g" and "0 < n"
  shows "\<exists>r w'. iter n (\<lambda>_. pass) () (g, w) = Done (r, (set_flag True g, w'))"
  using pass_kicked [OF assms(1,2), of w] assms(3) by (cases n) auto

text \<open>No kick is lost: the poll returns after the suspension in which the kick comes in.\<close>

lemma poll_returns:
  assumes ok: "ok g" and set: "flag g"
  shows "kick_after wait k w \<Longrightarrow> k + 2 \<le> n \<Longrightarrow> \<exists>r w'. iter n (\<lambda>_. pass) () (g, w) = Done (r, (g, w'))"
proof (induction k arbitrary: n w)
  case 0
  then obtain m where n: "n = Suc m" "0 < m" by (cases n) auto
  from pass_waits [OF ok set, of w] 0 obtain w1 where 1: "pass (g, w) = Done (Inl (), (set_flag False g, w1))" by auto
  have "ok (set_flag False g)" "\<not> flag (set_flag False g)" using ok by (simp_all add: ok_set flag_set)
  from poll_pending [OF this n(2), of w1] ok set obtain r w2 where
    "iter m (\<lambda>_. pass) () (set_flag False g, w1) = Done (r, (g, w2))" by (auto simp: set_set set_same)
  with 1 n show ?case by simp
next
  case (Suc k)
  then obtain m where n: "n = Suc m" "k + 2 \<le> m" by (cases n) auto
  from pass_waits [OF ok set, of w] Suc.prems have "pass (g, w) = Done (Inl (), (g, snd (wait w)))" by auto
  with Suc.IH [of "snd (wait w)" m] Suc.prems n show ?case by simp
qed

text \<open>As long as nothing comes in, the poll does not return.\<close>

lemma poll_blocks:
  assumes ok: "ok g" and set: "flag g" and "\<And>w. \<not> fst (wait w)"
  shows "iter n (\<lambda>_. pass) () (g, w) = Blocked"
proof (induction n arbitrary: w)
  case (Suc n)
  from pass_waits [OF ok set, of w] assms(3) have "pass (g, w) = Done (Inl (), (g, snd (wait w)))" by auto
  with Suc show ?case by simp
qed simp

end

end
