(* ===== verification/Platform_Linux.thy ===== *)
theory Platform_Linux
  imports Kick_Poll
begin

text \<open>
  The platform layer for two Linux processes,
  \<open>system/linux/machine/generic/{platform_info,rsc_table,helper}.c\<close>: shared memory through
  libmetal, notifications through a UNIX socket whose server side is processor 0, and a
  remoteproc instance.  The model has the static data of the file (\<open>linux_state\<close>); libmetal, OpenAMP
  and the socket calls are functions on the outside world.  The two remoteproc calls that call
  back into the file (\<open>remoteproc_init\<close>, \<open>remoteproc_remove\<close>) are modelled as the library's own
  part, a parameter, around the operation of the file; \<open>remoteproc_init\<close> stores the private
  data in the instance, which the operations of the file rely on.
\<close>

section \<open>Data\<close>

definition UNIX_PREFIX :: string where "UNIX_PREFIX = ''unix:''"
definition UNIXS_PREFIX :: string where "UNIXS_PREFIX = ''unixs:''"
definition RSC_MEM_PA :: u64 where "RSC_MEM_PA = 0"
definition SHARED_BUF_PA :: u64 where "SHARED_BUF_PA = 0x10000"
definition SHARED_BUF_SIZE :: nat where "SHARED_BUF_SIZE = 0x40000"

text \<open>\<open>METAL_BAD_OFFSET\<close> and \<open>METAL_BAD_PHYS\<close> of libmetal are both \<open>-1\<close>.\<close>

definition METAL_BAD :: u64 where "METAL_BAD = - 1"

record io_region =
  io_virt :: nat
  io_size :: nat

record vring_ipi_info =
  path :: "string option"
  fd :: int
  sync :: bool

record remoteproc_priv =
  shm_file :: string
  shm_size :: nat
  shm_old_io :: "io_region option"
  shm_new_io :: io_region
  ipi :: vring_ipi_info

definition priv_init :: "string \<Rightarrow> remoteproc_priv" where
  "priv_init p = \<lparr>shm_file = ''openamp.shm'', shm_size = 0x80000, shm_old_io = None,
     shm_new_io = \<lparr>io_virt = 0, io_size = 0\<rparr>, ipi = \<lparr>path = Some p, fd = 0, sync = False\<rparr>\<rparr>"

definition rproc_priv_table :: "remoteproc_priv list" where
  "rproc_priv_table = [priv_init ''unixs:/tmp/openamp.event.0'', priv_init ''unix:/tmp/openamp.event.0'']"

text \<open>The statics: the table, and the private data of \<open>rproc_inst\<close> as an index into the table.\<close>

record linux_state =
  priv_table :: "remoteproc_priv list"
  rproc_priv :: "nat option"

definition linux_boot :: linux_state where
  "linux_boot = \<lparr>priv_table = rproc_priv_table, rproc_priv = None\<rparr>"

text \<open>The calls that leave the file.\<close>

record 'w linux_lib =
  metal_init :: "'w \<Rightarrow> 'w"
  metal_finish :: "'w \<Rightarrow> 'w"
  metal_shmem_open :: "string \<Rightarrow> nat \<Rightarrow> 'w \<Rightarrow> (int \<times> io_region) \<times> 'w"
  metal_io_finish :: "io_region \<Rightarrow> 'w \<Rightarrow> 'w"
  metal_io_virt :: "io_region \<Rightarrow> u64 \<Rightarrow> nat option"
  metal_io_phys_to_virt :: "io_region \<Rightarrow> u64 \<Rightarrow> nat option"
  mem_store :: "nat \<Rightarrow> bytes \<Rightarrow> 'w \<Rightarrow> 'w"
  metal_irq_register :: "int \<Rightarrow> 'w \<Rightarrow> 'w"
  metal_irq_enable :: "int \<Rightarrow> 'w \<Rightarrow> 'w"
  metal_irq_disable :: "int \<Rightarrow> 'w \<Rightarrow> 'w"
  metal_irq_unregister :: "int \<Rightarrow> 'w \<Rightarrow> 'w"
  metal_irq_save_disable :: "'w \<Rightarrow> nat \<times> 'w"
  metal_irq_restore_enable :: "nat \<Rightarrow> 'w \<Rightarrow> 'w"
  metal_cpu_yield :: "'w \<Rightarrow> 'w"
  metal_allocate_memory :: "'w \<Rightarrow> nat option \<times> 'w"
  metal_free_memory :: "nat \<Rightarrow> 'w \<Rightarrow> 'w"
  sk_socket :: "'w \<Rightarrow> int \<times> 'w"
  sk_connect :: "int \<Rightarrow> string \<Rightarrow> 'w \<Rightarrow> int \<times> 'w"
  sk_unlink :: "string \<Rightarrow> 'w \<Rightarrow> 'w"
  sk_bind :: "int \<Rightarrow> string \<Rightarrow> 'w \<Rightarrow> int \<times> 'w"
  sk_listen :: "int \<Rightarrow> 'w \<Rightarrow> 'w"
  sk_accept :: "int \<Rightarrow> 'w \<Rightarrow> int \<times> 'w"
  sk_close :: "int \<Rightarrow> 'w \<Rightarrow> 'w"
  sk_read :: "int \<Rightarrow> 'w \<Rightarrow> 'w"
  sk_send :: "int \<Rightarrow> 'w \<Rightarrow> 'w"
  sk_usleep :: "nat \<Rightarrow> 'w \<Rightarrow> 'w"
  rp_init_check :: "'w \<Rightarrow> bool \<times> 'w"
  rp_remove_end :: "'w \<Rightarrow> 'w"
  rp_mmap_asks :: "'w \<Rightarrow> bool"
  rp_mmap_known :: "u64 \<Rightarrow> 'w \<Rightarrow> nat option"
  remoteproc_add_mem :: "'w \<Rightarrow> 'w"
  remoteproc_set_rsc_table :: "nat option \<Rightarrow> nat \<Rightarrow> 'w \<Rightarrow> int \<times> 'w"
  remoteproc_get_io_with_pa :: "u64 \<Rightarrow> 'w \<Rightarrow> io_region option"
  remoteproc_create_virtio :: "nat \<Rightarrow> vdev_role \<Rightarrow> 'w \<Rightarrow> nat option \<times> 'w"
  remoteproc_remove_virtio :: "nat \<Rightarrow> 'w \<Rightarrow> 'w"
  remoteproc_get_notification :: "'w \<Rightarrow> 'w"
  rpmsg_virtio_init_shm_pool :: "nat option \<Rightarrow> nat \<Rightarrow> 'w \<Rightarrow> 'w"
  rpmsg_init_vdev :: "nat \<Rightarrow> nat \<Rightarrow> bool \<Rightarrow> 'w \<Rightarrow> int \<times> 'w"
  rpmsg_deinit_vdev :: "nat \<Rightarrow> 'w \<Rightarrow> 'w"
  irq_arrives :: "int \<Rightarrow> 'w \<Rightarrow> bool \<times> 'w"

type_synonym ('w, 'a) lprog = "(linux_state \<times> 'w, 'a) prog"

section \<open>Access to the shared memory\<close>

text \<open>
  The operations of the shared region: \<open>virt\<close> is \<open>metal_io_virt\<close> of the region, giving a place in
  the memory \<open>mem\<close> or NULL.
\<close>

definition linux_proc_block_read :: "(u64 \<Rightarrow> nat option) \<Rightarrow> bytes \<Rightarrow> u64 \<Rightarrow> nat \<Rightarrow> (int \<times> bytes) outcome" where
  "linux_proc_block_read virt mem offset len = (case virt offset of
       None \<Rightarrow> Fault Null_deref
     | Some src \<Rightarrow> obind (\<lambda>bs. Done (int len, bs)) (sub_bytes src len mem))"

definition linux_proc_block_write :: "(u64 \<Rightarrow> nat option) \<Rightarrow> bytes \<Rightarrow> u64 \<Rightarrow> bytes \<Rightarrow> (int \<times> bytes) outcome" where
  "linux_proc_block_write virt mem offset src = (case virt offset of
       None \<Rightarrow> Fault Null_deref
     | Some dst \<Rightarrow> obind (\<lambda>mem'. Done (int (length src), mem')) (put_bytes dst src mem))"

definition linux_proc_block_set :: "(u64 \<Rightarrow> nat option) \<Rightarrow> bytes \<Rightarrow> u64 \<Rightarrow> byte \<Rightarrow> nat \<Rightarrow> bytes outcome" where
  "linux_proc_block_set virt mem offset value len = (case virt offset of
       None \<Rightarrow> Fault Null_deref
     | Some dst \<Rightarrow> put_bytes dst (replicate len value) mem)"

definition linux_proc_offset_to_phys :: "io_region \<Rightarrow> u64 \<Rightarrow> u64" where
  "linux_proc_offset_to_phys io offset = (if unat offset < io_size io then offset else METAL_BAD)"

definition linux_proc_phys_to_offset :: "io_region \<Rightarrow> u64 \<Rightarrow> u64" where
  "linux_proc_phys_to_offset io phys = (if unat phys < io_size io then phys else METAL_BAD)"

section \<open>The notification channel\<close>

text \<open>
  \<open>strncpy\<close> into \<open>sun_path\<close>, an array of 108 bytes.  A failed \<open>socket\<close> call is not noticed: its
  result goes to \<open>connect\<close> and \<open>close\<close>.
\<close>

definition sun_path :: "string \<Rightarrow> string" where
  "sun_path s = take 108 s"

definition sk_unix_client :: "'w linux_lib \<Rightarrow> string \<Rightarrow> ('w, int) lprog" where
  "sk_unix_client lib descr =
     bnd (ext (sk_socket lib)) (\<lambda>s.
     bnd (ext (sk_connect lib s (sun_path (drop (length UNIX_PREFIX) descr)))) (\<lambda>r.
     if 0 \<le> r then ret s else seq (extU (sk_close lib s)) (ret (- 1))))"

definition sk_unix_server :: "'w linux_lib \<Rightarrow> string \<Rightarrow> ('w, int) lprog" where
  "sk_unix_server lib descr =
     (let p = sun_path (drop (length UNIXS_PREFIX) descr) in
      bnd (ext (sk_socket lib)) (\<lambda>s.
      seq (extU (sk_unlink lib p))
     (bnd (ext (sk_bind lib s p)) (\<lambda>r.
      if r < 0 then seq (extU (sk_close lib s)) (ret (- 1))
      else seq (extU (sk_listen lib s))
          (bnd (ext (sk_accept lib s)) (\<lambda>nfd. seq (extU (sk_close lib s)) (ret nfd)))))))"

definition is_sk_unix_server :: "string \<Rightarrow> bool" where
  "is_sk_unix_server descr \<longleftrightarrow> take (length UNIXS_PREFIX) descr = UNIXS_PREFIX"

text \<open>
  The connection attempts of a client: attempt \<open>i\<close> of 100, with a growing pause after a failure.
  \<open>left\<close> is what is left of the 100.
\<close>

fun connect_tries :: "nat \<Rightarrow> 'w linux_lib \<Rightarrow> string \<Rightarrow> nat \<Rightarrow> ('w, int) lprog" where
  "connect_tries 0 lib descr i = ret (- 1)"
| "connect_tries (Suc left) lib descr i =
     bnd (sk_unix_client lib descr) (\<lambda>s.
     if s = - 1 then seq (extU (sk_usleep lib (i * 10 * 1000))) (connect_tries left lib descr (i + 1))
     else ret s)"

definition event_open :: "'w linux_lib \<Rightarrow> string option \<Rightarrow> ('w, int) lprog" where
  "event_open lib descr = (case descr of
       None \<Rightarrow> ret (- 1)
     | Some d \<Rightarrow> if \<not> is_sk_unix_server d then connect_tries 100 lib d 0 else sk_unix_server lib d)"

section \<open>The remoteproc operations\<close>

abbreviation upd_priv :: "nat \<Rightarrow> (remoteproc_priv \<Rightarrow> remoteproc_priv) \<Rightarrow> ('w, unit) lprog" where
  "upd_priv i f \<equiv> updg (\<lambda>g. g\<lparr>priv_table := (priv_table g)[i := f (priv_table g ! i)]\<rparr>)"

abbreviation get_priv :: "nat \<Rightarrow> (remoteproc_priv \<Rightarrow> 'a) \<Rightarrow> ('w, 'a) lprog" where
  "get_priv i f \<equiv> getg (\<lambda>g. f (priv_table g ! i))"

abbreviation set_sync :: "bool \<Rightarrow> remoteproc_priv \<Rightarrow> remoteproc_priv" where
  "set_sync b p \<equiv> p\<lparr>ipi := (ipi p)\<lparr>sync := b\<rparr>\<rparr>"

abbreviation set_fd :: "int \<Rightarrow> remoteproc_priv \<Rightarrow> remoteproc_priv" where
  "set_fd s p \<equiv> p\<lparr>ipi := (ipi p)\<lparr>fd := s\<rparr>\<rparr>"

definition linux_proc_irq_handler :: "'w linux_lib \<Rightarrow> nat \<Rightarrow> int \<Rightarrow> ('w, int) lprog" where
  "linux_proc_irq_handler lib i vect_id =
     seq (extU (sk_read lib vect_id)) (seq (upd_priv i (set_sync False)) (ret 0))"

text \<open>The result says whether the instance or NULL is returned.\<close>

definition linux_proc_init :: "'w linux_lib \<Rightarrow> nat \<Rightarrow> ('w, bool) lprog" where
  "linux_proc_init lib i =
     bnd (get_priv i (\<lambda>p. p)) (\<lambda>pr.
     bnd (ext (metal_shmem_open lib (shm_file pr) (shm_size pr))) (\<lambda>(r, io).
     if r \<noteq> 0 then ret False
     else seq (upd_priv i (\<lambda>p. p\<lparr>shm_old_io := Some io,
                 shm_new_io := \<lparr>io_virt = io_virt io, io_size = shm_size p\<rparr>\<rparr>))
         (case path (ipi pr) of
            None \<Rightarrow> ret False
          | Some d \<Rightarrow> bnd (event_open lib (Some d)) (\<lambda>s.
              seq (upd_priv i (set_fd s))
             (if s < 0 then ret False
              else seq (extU (metal_irq_register lib s)) (seq (extU (metal_irq_enable lib s)) (ret True)))))))"

definition linux_proc_remove :: "'w linux_lib \<Rightarrow> nat option \<Rightarrow> ('w, unit) lprog" where
  "linux_proc_remove lib rp = (case rp of None \<Rightarrow> fail Null_deref | Some i \<Rightarrow>
     bnd (get_priv i (\<lambda>p. fd (ipi p))) (\<lambda>s.
     seq (if 0 \<le> s
          then seq (extU (metal_irq_disable lib s))
              (seq (extU (metal_irq_unregister lib s)) (extU (sk_close lib s)))
          else ret ())
    (bnd (get_priv i shm_old_io) (\<lambda>io. case io of
        None \<Rightarrow> ret ()
      | Some r \<Rightarrow> seq (extU (metal_io_finish lib r)) (upd_priv i (\<lambda>p. p\<lparr>shm_old_io := None\<rparr>))))))"

definition linux_proc_mmap ::
    "'w linux_lib \<Rightarrow> nat \<Rightarrow> u64 \<Rightarrow> u64 \<Rightarrow> ('w, nat option) lprog" where
  "linux_proc_mmap lib i pa da =
     (if pa = METAL_BAD \<and> da = METAL_BAD then ret None
      else let lpa = (if pa = METAL_BAD then da else pa) in
        bnd (get_priv i shm_new_io) (\<lambda>io.
        case metal_io_phys_to_virt lib io lpa of
          None \<Rightarrow> ret None
        | Some va \<Rightarrow> seq (extU (remoteproc_add_mem lib)) (ret (Some va))))"

definition linux_proc_notify :: "'w linux_lib \<Rightarrow> nat option \<Rightarrow> ('w, int) lprog" where
  "linux_proc_notify lib rp = (case rp of None \<Rightarrow> fail Null_deref | Some i \<Rightarrow>
     bnd (get_priv i (\<lambda>p. fd (ipi p))) (\<lambda>s. seq (extU (sk_send lib s)) (ret 0)))"

text \<open>The library calls that call back into the file.\<close>

definition remoteproc_init :: "'w linux_lib \<Rightarrow> nat \<Rightarrow> ('w, bool) lprog" where
  "remoteproc_init lib i =
     bnd (ext (rp_init_check lib)) (\<lambda>ok.
     if \<not> ok then ret False
     else seq (updg (\<lambda>g. g\<lparr>rproc_priv := Some i\<rparr>)) (linux_proc_init lib i))"

definition remoteproc_remove :: "'w linux_lib \<Rightarrow> ('w, unit) lprog" where
  "remoteproc_remove lib =
     bnd (getg rproc_priv) (\<lambda>rp. seq (linux_proc_remove lib rp) (extU (rp_remove_end lib)))"

definition remoteproc_mmap :: "'w linux_lib \<Rightarrow> u64 \<Rightarrow> ('w, nat option) lprog" where
  "remoteproc_mmap lib pa =
     bnd (asks (rp_mmap_asks lib)) (\<lambda>up.
     if up then bnd (getg rproc_priv) (\<lambda>rp. case rp of None \<Rightarrow> fail Null_deref
                  | Some i \<Rightarrow> linux_proc_mmap lib i pa METAL_BAD)
     else asks (rp_mmap_known lib pa))"

section \<open>The platform interface\<close>

text \<open>The resource table of the remote, \<open>rsc_table.c\<close>: one RPMsg device with two rings.\<close>

definition RSC_VDEV :: u32 where "RSC_VDEV = 3"

definition resources :: bytes where
  "resources = concat (map le32 [1, 1, 0, 0, 20]) @
     concat (map le32 [RSC_VDEV, 7, 0, 1, 0, 0]) @ [0, 2, 0, 0] @
     concat (map le32 [0x4000, 0x1000, 256, 1, 0]) @ concat (map le32 [0x8000, 0x1000, 256, 2, 0])"

definition get_resource_table :: "int \<Rightarrow> bytes \<times> nat" where
  "get_resource_table rsc_id = (resources, length resources)"

definition init_system :: "'w linux_lib \<Rightarrow> ('w, int) lprog" where
  "init_system lib = seq (extU (metal_init lib)) (ret 0)"

definition cleanup_system :: "'w linux_lib \<Rightarrow> ('w, unit) lprog" where
  "cleanup_system lib = extU (metal_finish lib)"

definition platform_device_setup_resource_table ::
    "'w linux_lib \<Rightarrow> string \<Rightarrow> nat \<Rightarrow> bytes \<Rightarrow> nat \<Rightarrow> u64 \<Rightarrow> ('w, int) lprog" where
  "platform_device_setup_resource_table lib file sz table rsc_size pa =
     bnd (ext (metal_shmem_open lib file sz)) (\<lambda>(r, io).
     if r \<noteq> 0 then ret (- 1)
     else case metal_io_virt lib io pa of
            None \<Rightarrow> fail Null_deref
          | Some va \<Rightarrow> seq (extU (mem_store lib va (take rsc_size table)))
                        (seq (extU (metal_io_finish lib io)) (ret 0)))"

text \<open>The instance: initialised, the resource table mapped and parsed.\<close>

definition start_rproc :: "'w linux_lib \<Rightarrow> nat \<Rightarrow> nat \<Rightarrow> ('w, bool) lprog" where
  "start_rproc lib i rsc_size =
     bnd (remoteproc_init lib i) (\<lambda>ok.
        if \<not> ok then ret False
        else bnd (remoteproc_mmap lib RSC_MEM_PA) (\<lambda>va.
             bnd (ext (remoteproc_set_rsc_table lib va rsc_size)) (\<lambda>r.
             if r \<noteq> 0 then seq (remoteproc_remove lib) (ret False) else ret True)))"

definition platform_create_proc :: "'w linux_lib \<Rightarrow> int \<Rightarrow> int \<Rightarrow> ('w, bool) lprog" where
  "platform_create_proc lib proc_index rsc_index =
     (case get_resource_table rsc_index of (table, rsc_size) \<Rightarrow>
      bnd (getg (\<lambda>g. proc_index < 0 \<or> int (length (priv_table g)) \<le> proc_index)) (\<lambda>out.
      if out then fail Out_of_bounds
      else let i = nat proc_index in
      bnd (get_priv i (\<lambda>p. p)) (\<lambda>pr.
      bnd (case path (ipi pr) of None \<Rightarrow> fail Null_deref
           | Some d \<Rightarrow> if is_sk_unix_server d
               then platform_device_setup_resource_table lib (shm_file pr) (shm_size pr) table rsc_size RSC_MEM_PA
               else ret 0) (\<lambda>r.
      if r \<noteq> 0 then ret False
      else start_rproc lib i rsc_size))))"

text \<open>
  \<open>argv\<close> holds the values \<open>strtoul\<close> gives for the arguments after the program's name; they are
  passed on as \<open>int\<close>.  The platform is \<open>&rproc_inst\<close>, the only one.
\<close>

definition linux_platform_init :: "'w linux_lib \<Rightarrow> u64 list \<Rightarrow> ('w, int \<times> unit option) lprog" where
  "linux_platform_init lib argv =
     seq (init_system lib)
    (bnd (platform_create_proc lib (to_int32 (case argv of [] \<Rightarrow> 0 | a # _ \<Rightarrow> uint a))
            (to_int32 (case argv of _ # b # _ \<Rightarrow> uint b | _ \<Rightarrow> 0))) (\<lambda>ok.
     if \<not> ok then ret (- EINVAL, None) else ret (0, Some ())))"

text \<open>An RPMsg device: the allocated memory and the virtio device in it.\<close>

record rpmsg_dev =
  rpvdev :: nat
  vdev :: nat

definition linux_create_rpmsg_vdev ::
    "'w linux_lib \<Rightarrow> nat \<Rightarrow> vdev_role \<Rightarrow> bool \<Rightarrow> 'w \<Rightarrow> rpmsg_dev option \<times> 'w" where
  "linux_create_rpmsg_vdev lib vdev_index role ns w0 =
     (case metal_allocate_memory lib w0 of
        (None, w) \<Rightarrow> (None, w)
      | (Some m, w) \<Rightarrow>
         (case remoteproc_get_io_with_pa lib SHARED_BUF_PA w of
            None \<Rightarrow> (None, metal_free_memory lib m w)
          | Some io \<Rightarrow>
             (case remoteproc_create_virtio lib vdev_index role w of
                (None, w) \<Rightarrow> (None, metal_free_memory lib m w)
              | (Some v, w) \<Rightarrow>
                 (case rpmsg_init_vdev lib m v ns (rpmsg_virtio_init_shm_pool lib
                         (metal_io_phys_to_virt lib io SHARED_BUF_PA) SHARED_BUF_SIZE w) of
                    (r, w) \<Rightarrow>
                      if r \<noteq> 0 then (None, metal_free_memory lib m (remoteproc_remove_virtio lib v w))
                      else (Some \<lparr>rpvdev = m, vdev = v\<rparr>, w)))))"

text \<open>
  One pass of the loop of \<open>platform_poll\<close>.  An interrupt that arrives during the suspension is
  handled when interrupts are enabled again.
\<close>

definition poll_pass :: "'w linux_lib \<Rightarrow> nat \<Rightarrow> ('w, unit + unit) lprog" where
  "poll_pass lib i =
     bnd (ext (metal_irq_save_disable lib)) (\<lambda>flags.
     bnd (get_priv i (\<lambda>p. sync (ipi p))) (\<lambda>was.
     seq (upd_priv i (set_sync True))
    (if \<not> was
     then seq (extU (metal_irq_restore_enable lib flags))
         (seq (extU (remoteproc_get_notification lib)) (ret (Inr ())))
     else seq (extU (metal_cpu_yield lib))
         (seq (extU (metal_irq_restore_enable lib flags))
         (bnd (get_priv i (\<lambda>p. fd (ipi p))) (\<lambda>s.
          bnd (ext (irq_arrives lib s)) (\<lambda>a.
          seq (if a then seq (linux_proc_irq_handler lib i s) (ret ()) else ret ()) (ret (Inl ())))))))))"

definition linux_platform_poll :: "nat \<Rightarrow> 'w linux_lib \<Rightarrow> ('w, int) lprog" where
  "linux_platform_poll n lib =
     bnd (getg rproc_priv) (\<lambda>rp. case rp of None \<Rightarrow> fail Null_deref
       | Some i \<Rightarrow> seq (iter n (\<lambda>_. poll_pass lib i) ()) (ret 0))"

definition linux_release_rpmsg_vdev :: "'w linux_lib \<Rightarrow> rpmsg_dev \<Rightarrow> 'w \<Rightarrow> 'w" where
  "linux_release_rpmsg_vdev lib d w =
     metal_free_memory lib (rpvdev d) (remoteproc_remove_virtio lib (vdev d) (rpmsg_deinit_vdev lib (rpvdev d) w))"

definition linux_platform_cleanup :: "'w linux_lib \<Rightarrow> ('w, unit) lprog" where
  "linux_platform_cleanup lib = seq (remoteproc_remove lib) (cleanup_system lib)"


text \<open>The functions of the file as a platform.\<close>

definition linux_plat :: "'w linux_lib \<Rightarrow> u64 list \<Rightarrow> (unit, rpmsg_dev, linux_state \<times> 'w) plat" where
  "linux_plat lib argv = \<lparr>
     platform_init = linux_platform_init lib argv,
     platform_create_rpmsg_vdev = (\<lambda>_ i role ns. ext (linux_create_rpmsg_vdev lib i role ns)),
     platform_release_rpmsg_vdev = (\<lambda>d _ (g, w). (g, linux_release_rpmsg_vdev lib d w)),
     platform_cleanup = (\<lambda>_. linux_platform_cleanup lib)\<rparr>"

section \<open>The static data over the calls\<close>

text \<open>A live platform: the instance has its private data, with the region mapped and the socket open.\<close>

definition linux_live :: "linux_state \<Rightarrow> bool" where
  "linux_live g \<longleftrightarrow> (\<exists>i < length (priv_table g). rproc_priv g = Some i \<and>
     shm_old_io (priv_table g ! i) \<noteq> None \<and> 0 \<le> fd (ipi (priv_table g ! i)))"

text \<open>The channel functions leave the static data alone and do return.\<close>

lemma sk_unix_client_run: "\<exists>s w'. sk_unix_client lib d (g, w) = Done (s, (g, w'))"
  by (simp add: sk_unix_client_def)

lemma sk_unix_server_run: "\<exists>s w'. sk_unix_server lib d (g, w) = Done (s, (g, w'))"
  by (simp add: sk_unix_server_def Let_def)

lemma connect_tries_run: "\<exists>s w'. connect_tries k lib d i (g, w) = Done (s, (g, w'))"
proof (induction k arbitrary: i w)
  case 0
  show ?case by simp
next
  case (Suc k)
  from sk_unix_client_run [of lib d g w] obtain s w' where "sk_unix_client lib d (g, w) = Done (s, (g, w'))" by blast
  with Suc.IH show ?case by simp
qed

lemma event_open_run: "\<exists>s w'. event_open lib d (g, w) = Done (s, (g, w'))"
  using connect_tries_run sk_unix_server_run by (auto simp: event_open_def split: option.split)

lemma linux_proc_init_run:
  assumes i: "i < length (priv_table g)" and d: "path (ipi (priv_table g ! i)) = Some d"
  shows "\<exists>ok p w'. linux_proc_init lib i (g, w) = Done (ok, (g\<lparr>priv_table := (priv_table g)[i := p]\<rparr>, w')) \<and>
    path (ipi p) = Some d \<and> (ok \<longrightarrow> shm_old_io p \<noteq> None \<and> 0 \<le> fd (ipi p))"
proof -
  obtain r io w1 where o: "metal_shmem_open lib (shm_file (priv_table g ! i)) (shm_size (priv_table g ! i)) w
      = ((r, io), w1)" by (metis surj_pair)
  show ?thesis
  proof (cases "r = 0")
    case False
    with o have "linux_proc_init lib i (g, w) = Done (False, (g\<lparr>priv_table := (priv_table g)[i := priv_table g ! i]\<rparr>, w1))"
      by (simp add: linux_proc_init_def)
    with d show ?thesis by blast
  next
    case True
    define p1 where "p1 = (priv_table g ! i)\<lparr>shm_old_io := Some io,
        shm_new_io := \<lparr>io_virt = io_virt io, io_size = shm_size (priv_table g ! i)\<rparr>\<rparr>"
    define g1 where "g1 = g\<lparr>priv_table := (priv_table g)[i := p1]\<rparr>"
    from event_open_run [of lib "Some d" g1 w1] obtain s w2
      where e: "event_open lib (Some d) (g1, w1) = Done (s, (g1, w2))" by blast
    define w3 where "w3 = (if s < 0 then w2 else metal_irq_enable lib s (metal_irq_register lib s w2))"
    from o True d e i have "linux_proc_init lib i (g, w)
        = Done (0 \<le> s, (g\<lparr>priv_table := (priv_table g)[i := p1\<lparr>ipi := (ipi p1)\<lparr>fd := s\<rparr>\<rparr>]\<rparr>, w3))"
      by (simp add: linux_proc_init_def p1_def [symmetric] g1_def [symmetric] w3_def)
        (simp add: g1_def)
    then show ?thesis using d by (auto simp: p1_def)
  qed
qed

lemma remoteproc_init_run:
  assumes i: "i < length (priv_table g)" and d: "path (ipi (priv_table g ! i)) = Some d"
  shows "\<exists>ok g' w'. remoteproc_init lib i (g, w) = Done (ok, (g', w')) \<and> (ok \<longrightarrow> linux_live g')"
proof -
  obtain ok w1 where c: "rp_init_check lib w = (ok, w1)" by fastforce
  define g1 where "g1 = g\<lparr>rproc_priv := Some i\<rparr>"
  have i1: "i < length (priv_table g1)" and d1: "path (ipi (priv_table g1 ! i)) = Some d"
    using i d by (simp_all add: g1_def)
  from linux_proc_init_run [OF i1 d1, of lib w1] obtain ok2 p w' where
    l: "linux_proc_init lib i (g1, w1) = Done (ok2, (g1\<lparr>priv_table := (priv_table g1)[i := p]\<rparr>, w'))"
    and p: "ok2 \<longrightarrow> shm_old_io p \<noteq> None \<and> 0 \<le> fd (ipi p)" by blast
  define g2 where "g2 = g1\<lparr>priv_table := (priv_table g1)[i := p]\<rparr>"
  from p i have "ok2 \<longrightarrow> linux_live g2" by (simp add: linux_live_def g2_def g1_def)
  moreover have "remoteproc_init lib i (g, w) = Done (if ok then (ok2, (g2, w')) else (False, (g, w1)))"
    using c l by (simp add: remoteproc_init_def g1_def [symmetric] g2_def [symmetric])
  ultimately show ?thesis by (cases ok) auto
qed

lemma remoteproc_remove_run:
  assumes "linux_live g"
  shows "\<exists>g' w'. remoteproc_remove lib (g, w) = Done ((), (g', w')) \<and> \<not> linux_live g'"
  using assms by (auto simp: linux_live_def remoteproc_remove_def linux_proc_remove_def)

lemma remoteproc_mmap_run:
  assumes "linux_live g"
  shows "\<exists>va w'. remoteproc_mmap lib pa (g, w) = Done (va, (g, w'))"
  using assms by (auto simp: linux_live_def remoteproc_mmap_def linux_proc_mmap_def Let_def split: option.split)

lemma setup_resource_table_run:
  "platform_device_setup_resource_table lib f n t k pa (g, w) = Done (r, (g', w')) \<Longrightarrow> g' = g"
  "\<forall>io. metal_io_virt lib io pa \<noteq> None \<Longrightarrow>
     \<exists>r w'. platform_device_setup_resource_table lib f n t k pa (g, w) = Done (r, (g, w'))"
  by (auto simp: platform_device_setup_resource_table_def split: prod.splits if_splits option.splits)
    (metis option.distinct(1))

lemma start_rproc_run:
  assumes "i < length (priv_table g)" and "path (ipi (priv_table g ! i)) = Some d"
  shows "\<exists>ok g' w'. start_rproc lib i n (g, w) = Done (ok, (g', w')) \<and> (ok \<longrightarrow> linux_live g')"
proof -
  from remoteproc_init_run [OF assms, of lib w] obtain ok g1 w1
    where 1: "remoteproc_init lib i (g, w) = Done (ok, (g1, w1))" "ok \<longrightarrow> linux_live g1" by blast
  show ?thesis
  proof (cases ok)
    case False
    with 1 show ?thesis by (auto simp: start_rproc_def)
  next
    case True
    with 1 have live: "linux_live g1" by simp
    from remoteproc_mmap_run [OF live, of lib RSC_MEM_PA w1] obtain va w2
      where 2: "remoteproc_mmap lib RSC_MEM_PA (g1, w1) = Done (va, (g1, w2))" by blast
    from remoteproc_remove_run [OF live, of lib "snd (remoteproc_set_rsc_table lib va n w2)"] obtain g3 w3
      where "remoteproc_remove lib (g1, snd (remoteproc_set_rsc_table lib va n w2)) = Done ((), (g3, w3))" by blast
    with 1 2 True live show ?thesis by (auto simp: start_rproc_def)
  qed
qed

text \<open>\<open>platform_create_proc\<close> faults on an index outside the table and on a region without its start.\<close>

lemma platform_create_proc_out:
  "i < 0 \<or> int (length (priv_table g)) \<le> i \<Longrightarrow> platform_create_proc lib i r (g, w) = Fault Out_of_bounds"
  by (simp add: platform_create_proc_def get_resource_table_def)

lemma platform_create_proc_live:
  assumes "platform_create_proc lib i r (g, w) = Done (True, (g', w'))"
  shows "linux_live g'"
proof -
  from assms have i: "\<not> (i < 0 \<or> int (length (priv_table g)) \<le> i)"
    using platform_create_proc_out [of i g lib r w] by auto
  with assms obtain d where d: "path (ipi (priv_table g ! nat i)) = Some d"
    by (auto simp: platform_create_proc_def get_resource_table_def Let_def split: option.splits)
  from assms i d obtain w1 where
    "start_rproc lib (nat i) (length resources) (g, w1) = Done (True, (g', w'))"
    by (auto simp: platform_create_proc_def get_resource_table_def Let_def obind_eq_Done_iff
        dest!: setup_resource_table_run(1) split: if_splits)
  moreover from i have "nat i < length (priv_table g)" by linarith
  ultimately show ?thesis using start_rproc_run [OF _ d, of lib "length resources" w1] by auto
qed

lemma platform_create_proc_run:
  assumes i: "0 \<le> i" "i < int (length (priv_table g))" and d: "path (ipi (priv_table g ! nat i)) = Some d"
    and v: "\<forall>io. metal_io_virt lib io RSC_MEM_PA \<noteq> None"
  shows "\<exists>ok g' w'. platform_create_proc lib i r (g, w) = Done (ok, (g', w')) \<and> (ok \<longrightarrow> linux_live g')"
proof -
  from setup_resource_table_run(2) [OF v, of "shm_file (priv_table g ! nat i)" "shm_size (priv_table g ! nat i)"
      resources "length resources" g w] obtain x w1 where
    1: "platform_device_setup_resource_table lib (shm_file (priv_table g ! nat i)) (shm_size (priv_table g ! nat i))
      resources (length resources) RSC_MEM_PA (g, w) = Done (x, (g, w1))" by blast
  from i have "nat i < length (priv_table g)" by linarith
  from start_rproc_run [OF this d, of lib "length resources"]
  have "\<exists>ok g' w'. start_rproc lib (nat i) (length resources) (g, v) = Done (ok, (g', w')) \<and> (ok \<longrightarrow> linux_live g')" for v
    by blast
  from this [of w] this [of w1] i d 1 show ?thesis
    by (cases "x = 0") (auto simp: platform_create_proc_def get_resource_table_def Let_def)
qed

interpretation lp: platform_contract "linux_plat lib argv" "\<lambda>_. True" "\<lambda>_ (g, w). linux_live g"
proof
  fix w :: "linux_state \<times> 'a" and x w'
  assume "platform_init (linux_plat lib argv) w = Done ((0, x), w')"
  then show "\<exists>p. x = Some p \<and> (case w' of (g, w) \<Rightarrow> linux_live g)"
    by (cases w, cases w')
      (auto simp: linux_plat_def linux_platform_init_def init_system_def obind_eq_Done_iff
        dest: platform_create_proc_live split: if_splits)
next
  fix p i role ns and w :: "linux_state \<times> 'a"
  assume "case w of (g, w) \<Rightarrow> linux_live g"
  then show "\<exists>d w'. platform_create_rpmsg_vdev (linux_plat lib argv) p i role ns w = Done (d, w') \<and>
      (case w' of (g, w) \<Rightarrow> linux_live g)"
    by (cases w) (simp add: linux_plat_def)
next
  fix p r and w :: "linux_state \<times> 'a"
  assume "case w of (g, w) \<Rightarrow> linux_live g"
  then show "case platform_release_rpmsg_vdev (linux_plat lib argv) r p w of (g, w) \<Rightarrow> linux_live g"
    by (auto simp: linux_plat_def)
next
  fix p and w :: "linux_state \<times> 'a"
  assume "case w of (g, w) \<Rightarrow> linux_live g"
  then show "\<exists>w'. platform_cleanup (linux_plat lib argv) p w = Done ((), w') \<and> \<not> (case w' of (g, w) \<Rightarrow> linux_live g)"
    using remoteproc_remove_run [of "fst w" lib "snd w"]
    by (cases w) (auto simp: linux_plat_def linux_platform_cleanup_def cleanup_system_def)
qed


section \<open>Initialisation\<close>

text \<open>The processor index that \<open>platform_init\<close> passes on.\<close>

abbreviation proc_arg :: "u64 list \<Rightarrow> int" where
  "proc_arg argv \<equiv> to_int32 (case argv of [] \<Rightarrow> 0 | a # _ \<Rightarrow> uint a)"

lemma linux_boot_path: "i < 2 \<Longrightarrow> \<exists>d. path (ipi (priv_table linux_boot ! i)) = Some d"
  by (auto simp: linux_boot_def rproc_priv_table_def priv_init_def less_2_cases_iff)

lemma length_linux_boot [simp]: "length (priv_table linux_boot) = 2"
  by (simp add: linux_boot_def rproc_priv_table_def)

text \<open>
  \<open>platform_init\<close> of the Linux platform at program start: with the processor index 0 or 1 it
  either returns 0 and stores the instance, with the shared memory mapped and the socket open, or
  it returns \<open>-EINVAL\<close> and stores nothing; any other index is used to index the table of private
  data all the same, outside its bounds.  (libmetal gives an address for the start of an open
  region.)
\<close>

theorem linux_platform_init_cases:
  assumes "\<forall>io. metal_io_virt lib io RSC_MEM_PA \<noteq> None"
  shows "if 0 \<le> proc_arg argv \<and> proc_arg argv < 2
    then \<exists>g w'. linux_platform_init lib argv (linux_boot, w) = Done ((0, Some ()), (g, w')) \<and> linux_live g \<or>
           linux_platform_init lib argv (linux_boot, w) = Done ((- EINVAL, None), (g, w'))
    else linux_platform_init lib argv (linux_boot, w) = Fault Out_of_bounds"
proof (cases "0 \<le> proc_arg argv \<and> proc_arg argv < 2")
  case True
  then have "nat (proc_arg argv) < 2" by linarith
  then obtain d where d: "path (ipi (priv_table linux_boot ! nat (proc_arg argv))) = Some d"
    using linux_boot_path by blast
  define r where "r = to_int32 (case argv of _ # b # _ \<Rightarrow> uint b | _ \<Rightarrow> 0)"
  from platform_create_proc_run [OF _ _ d assms, of r "metal_init lib w"] True obtain ok g w' where
    "platform_create_proc lib (proc_arg argv) r (linux_boot, metal_init lib w) = Done (ok, (g, w'))"
    "ok \<longrightarrow> linux_live g" by auto
  with True show ?thesis
    by (cases ok) (auto simp: linux_platform_init_def init_system_def r_def)
next
  case False
  then have "platform_create_proc lib (proc_arg argv) r (linux_boot, v) = Fault Out_of_bounds" for r v
    by (intro platform_create_proc_out) auto
  with False show ?thesis by (simp add: linux_platform_init_def init_system_def del: not_le not_less)
qed

text \<open>A library for examples: everything succeeds, except the calls named by the two arguments.\<close>

definition demo_lib :: "int \<Rightarrow> int \<Rightarrow> 'w linux_lib" where
  "demo_lib shmem conn = \<lparr>
     metal_init = (\<lambda>w. w), metal_finish = (\<lambda>w. w),
     metal_shmem_open = (\<lambda>f n w. ((shmem, \<lparr>io_virt = 0, io_size = n\<rparr>), w)),
     metal_io_finish = (\<lambda>io w. w),
     metal_io_virt = (\<lambda>io off. Some (io_virt io + unat off)),
     metal_io_phys_to_virt = (\<lambda>io pa. Some (io_virt io + unat pa)),
     mem_store = (\<lambda>a bs w. w),
     metal_irq_register = (\<lambda>s w. w), metal_irq_enable = (\<lambda>s w. w),
     metal_irq_disable = (\<lambda>s w. w), metal_irq_unregister = (\<lambda>s w. w),
     metal_irq_save_disable = (\<lambda>w. (0, w)), metal_irq_restore_enable = (\<lambda>f w. w),
     metal_cpu_yield = (\<lambda>w. w),
     metal_allocate_memory = (\<lambda>w. (Some 0, w)), metal_free_memory = (\<lambda>m w. w),
     sk_socket = (\<lambda>w. (3, w)), sk_connect = (\<lambda>s p w. (conn, w)), sk_unlink = (\<lambda>p w. w),
     sk_bind = (\<lambda>s p w. (conn, w)), sk_listen = (\<lambda>s w. w), sk_accept = (\<lambda>s w. (4, w)),
     sk_close = (\<lambda>s w. w), sk_read = (\<lambda>s w. w), sk_send = (\<lambda>s w. w), sk_usleep = (\<lambda>t w. w),
     rp_init_check = (\<lambda>w. (True, w)), rp_remove_end = (\<lambda>w. w),
     rp_mmap_asks = (\<lambda>w. True), rp_mmap_known = (\<lambda>pa w. None),
     remoteproc_add_mem = (\<lambda>w. w),
     remoteproc_set_rsc_table = (\<lambda>va n w. (0, w)),
     remoteproc_get_io_with_pa = (\<lambda>pa w. Some \<lparr>io_virt = 0, io_size = 0x80000\<rparr>),
     remoteproc_create_virtio = (\<lambda>i role w. (Some 7, w)), remoteproc_remove_virtio = (\<lambda>d w. w),
     remoteproc_get_notification = (\<lambda>w. w),
     rpmsg_virtio_init_shm_pool = (\<lambda>va n w. w),
     rpmsg_init_vdev = (\<lambda>m v ns w. (0, w)),
     rpmsg_deinit_vdev = (\<lambda>m w. w),
     irq_arrives = (\<lambda>s w. (True, w))\<rparr>"

theorem linux_platform_init_cases_witness:
  "(\<forall>io. metal_io_virt (demo_lib 0 0) io RSC_MEM_PA \<noteq> None) \<and>
   (\<exists>g w'. linux_platform_init (demo_lib 0 0) [1] (linux_boot, ()) = Done ((0, Some ()), (g, w')) \<and> linux_live g \<or>
      linux_platform_init (demo_lib 0 0) [1] (linux_boot, ()) = Done ((- EINVAL, None), (g, w'))) \<and>
   linux_platform_init (demo_lib 0 0) [2] (linux_boot, ()) = Fault Out_of_bounds"
proof -
  have v: "\<forall>io. metal_io_virt (demo_lib 0 0) io RSC_MEM_PA \<noteq> None" by (simp add: demo_lib_def)
  show ?thesis
    using v linux_platform_init_cases [OF v, of "[1]" "()"] linux_platform_init_cases [OF v, of "[2]" "()"]
    by (simp add: to_int32_id)
qed

text \<open>
  A stand-alone main on the Linux platform, once \<open>platform_init\<close> has succeeded and for an
  application that leaves a live platform live: it returns 0 after the application has run, or -1
  when no device could be created and the application has not run, and in both cases the
  platform has been taken down.
\<close>

theorem linux_main_ok:
  assumes "platform_init (linux_plat lib argv) s = Done ((0, x), s0)"
    and "\<And>s. linux_live (fst s) \<Longrightarrow> \<exists>r g' s'. app (g, s) = Done (r, (g', s')) \<and> linux_live (fst s') \<and> Q g'"
  shows "\<exists>r g' s'. app_main (linux_plat lib argv) role ns app (g, s) = Done (r, (g', s')) \<and>
    \<not> linux_live (fst s') \<and> (r = - 1 \<and> g' = g \<or> r = 0 \<and> Q g')"
proof -
  have "\<exists>r g' s'. app (g, s) = Done (r, (g', s')) \<and> (case s' of (g, w) \<Rightarrow> linux_live g) \<and> Q g'"
    if "case s of (g, w) \<Rightarrow> linux_live g" for s
    using assms(2) [of s] that by (auto split: prod.splits)
  from lp.app_main_ok [OF TrueI assms(1), of app g Q role ns, OF this] show ?thesis
    by (auto simp: split_beta)
qed


definition count_app :: "(nat \<times> 's, int) prog" where
  "count_app = (\<lambda>(g, s). Done (0, (g + 1, s)))"

lemma connect_at_once:
  "sk_unix_client lib d s = Done (c, s') \<Longrightarrow> c \<noteq> - 1 \<Longrightarrow> 0 < k \<Longrightarrow> connect_tries k lib d i s = Done (c, s')"
  by (cases k) auto

lemma demo_lib_sel:
  "metal_init (demo_lib a b) = (\<lambda>w. w)"
  "metal_shmem_open (demo_lib a b) = (\<lambda>f n w. ((a, \<lparr>io_virt = 0, io_size = n\<rparr>), w))"
  "metal_irq_register (demo_lib a b) = (\<lambda>s w. w)" "metal_irq_enable (demo_lib a b) = (\<lambda>s w. w)"
  "metal_io_phys_to_virt (demo_lib a b) = (\<lambda>io pa. Some (io_virt io + unat pa))"
  "rp_init_check (demo_lib a b) = (\<lambda>w. (True, w))" "rp_mmap_asks (demo_lib a b) = (\<lambda>w. True)"
  "remoteproc_add_mem (demo_lib a b) = (\<lambda>w. w)"
  "remoteproc_set_rsc_table (demo_lib a b) = (\<lambda>va n w. (0, w))"
  by (simp_all add: demo_lib_def)

lemma demo_client: "sk_unix_client (demo_lib 0 0) d s = Done (3, s)"
  by (cases s) (simp add: sk_unix_client_def demo_lib_def)

lemma demo_init:
  "\<exists>g. linux_platform_init (demo_lib 0 0) [1] (linux_boot, w) = Done ((0, Some ()), (g, w))"
  by (simp add: linux_platform_init_def init_system_def platform_create_proc_def get_resource_table_def to_int32_id
      linux_boot_def rproc_priv_table_def priv_init_def is_sk_unix_server_def UNIXS_PREFIX_def start_rproc_def
      remoteproc_init_def linux_proc_init_def event_open_def connect_at_once [OF demo_client]
      remoteproc_mmap_def linux_proc_mmap_def METAL_BAD_def RSC_MEM_PA_def demo_lib_sel)

theorem linux_main_ok_witness:
  "\<exists>s0 r g' s'. platform_init (linux_plat (demo_lib 0 0) [1]) (linux_boot, ()) = Done ((0, Some ()), s0) \<and>
     app_main (linux_plat (demo_lib 0 0) [1]) VIRTIO_DEV_DRIVER True count_app (0, (linux_boot, ())) = Done (r, (g', s')) \<and>
     \<not> linux_live (fst s') \<and> (r = - 1 \<and> g' = 0 \<or> r = 0 \<and> g' = 1)"
proof -
  from demo_init [of "()"] obtain g0 where i: "platform_init (linux_plat (demo_lib 0 0) [1]) (linux_boot, ())
      = Done ((0, Some ()), (g0, ()))" by (auto simp: linux_plat_def)
  from linux_main_ok [OF i, of count_app 0 "\<lambda>g. g = 1" VIRTIO_DEV_DRIVER True] i show ?thesis
    by (auto simp: count_app_def)
qed

lemma linux_init_no_shmem:
  assumes "0 \<le> proc_arg argv" and "proc_arg argv < 2"
    and "\<forall>f n w. fst (fst (metal_shmem_open lib f n w)) \<noteq> 0"
  shows "\<exists>s'. platform_init (linux_plat lib argv) (linux_boot, w) = Done ((- EINVAL, None), s')"
proof -
  have i: "nat (proc_arg argv) < 2" using assms by linarith
  then obtain d where d: "path (ipi (priv_table linux_boot ! nat (proc_arg argv))) = Some d"
    using linux_boot_path by blast
  have open_fails: "\<exists>r io w'. metal_shmem_open lib f n v = ((r, io), w') \<and> r \<noteq> 0" for f n v
    using assms(3) [rule_format, of f n v] by (metis fst_conv surj_pair)
  have su: "\<exists>w'. platform_device_setup_resource_table lib f n t k pa (linux_boot, v) = Done (- 1, (linux_boot, w'))"
    for f n t k pa v
    using open_fails [of f n v] by (auto simp: platform_device_setup_resource_table_def)
  have "\<exists>g' w'. linux_proc_init lib j (h, v) = Done (False, (g', w'))" for j h v
    using open_fails [of "shm_file (priv_table h ! j)" "shm_size (priv_table h ! j)" v]
    by (auto simp: linux_proc_init_def)
  then have start: "\<exists>g' w'. start_rproc lib j k (h, v) = Done (False, (g', w'))" for j k h v
  proof -
    obtain ok v1 where "rp_init_check lib v = (ok, v1)" by fastforce
    moreover obtain g' w' where "linux_proc_init lib j (h\<lparr>rproc_priv := Some j\<rparr>, v1) = Done (False, (g', w'))"
      using \<open>\<And>v j h. \<exists>g' w'. linux_proc_init lib j (h, v) = Done (False, (g', w'))\<close> by blast
    ultimately show ?thesis by (cases ok) (simp_all add: start_rproc_def remoteproc_init_def)
  qed
  have "\<exists>s'. platform_create_proc lib (proc_arg argv) r (linux_boot, v) = Done (False, s')" for r v
    using assms(1,2) d su [of "shm_file (priv_table linux_boot ! nat (proc_arg argv))"
        "shm_size (priv_table linux_boot ! nat (proc_arg argv))" resources "length resources" RSC_MEM_PA v]
      start [of "nat (proc_arg argv)" "length resources" linux_boot v]
    by (cases "is_sk_unix_server d") (auto simp: platform_create_proc_def get_resource_table_def Let_def)
  from this [of "to_int32 (case argv of _ # b # _ \<Rightarrow> uint b | _ \<Rightarrow> 0)" "metal_init lib w"] obtain s' where
    "platform_create_proc lib (proc_arg argv) (to_int32 (case argv of _ # b # _ \<Rightarrow> uint b | _ \<Rightarrow> 0))
       (linux_boot, metal_init lib w) = Done (False, s')" by blast
  then show ?thesis by (simp add: linux_plat_def linux_platform_init_def init_system_def)
qed

text \<open>
  The mains differ when the Linux platform cannot map its shared memory: the stand-alone main
  passes the uninitialised pointer to \<open>platform_cleanup\<close>, while the main of the generic layer
  returns \<open>-EINVAL\<close>.
\<close>

theorem linux_main_no_shmem:
  assumes "0 \<le> proc_arg argv" and "proc_arg argv < 2"
    and "\<forall>f n w. fst (fst (metal_shmem_open lib f n w)) \<noteq> 0"
  shows "app_main (linux_plat lib argv) role ns app (g, (linux_boot, w)) = Fault Uninit_read \<and>
    (\<exists>s'. generic_main (linux_plat lib argv) app (g, (linux_boot, w)) = Done (- EINVAL, (g, s')))"
  using linux_init_no_shmem [OF assms, of w] by (auto simp: app_main_init_failed generic_main_init_failed)

theorem linux_main_no_shmem_witness:
  "app_main (linux_plat (demo_lib (- 1) 0) [1]) VIRTIO_DEV_DRIVER True count_app (0, (linux_boot, ())) = Fault Uninit_read \<and>
   (\<exists>s'. generic_main (linux_plat (demo_lib (- 1) 0) [1]) count_app (0, (linux_boot, ())) = Done (- EINVAL, (0, s')))"
  by (rule linux_main_no_shmem) (simp_all add: demo_lib_sel to_int32_id)


section \<open>Polling\<close>

text \<open>A wait of \<open>platform_poll\<close> seen from outside, with the interrupt that may arrive in it.\<close>

definition wait_step :: "'w linux_lib \<Rightarrow> int \<Rightarrow> 'w \<Rightarrow> bool \<times> 'w" where
  "wait_step lib s w = (case metal_irq_save_disable lib w of (flags, w1) \<Rightarrow>
     irq_arrives lib s (metal_irq_restore_enable lib flags (metal_cpu_yield lib w1)))"

lemma set_sync_again:
  assumes "sync (ipi (priv_table g ! i))"
  shows "g\<lparr>priv_table := (priv_table g)[i := set_sync True (priv_table g ! i)]\<rparr> = g"
proof -
  have "set_sync True p = p" if "sync (ipi p)" for p :: remoteproc_priv
    using that by (cases p; cases "ipi p") auto
  from this [OF assms] have "(priv_table g)[i := set_sync True (priv_table g ! i)] = priv_table g"
    by (simp only: list_update_id)
  then show ?thesis by (simp only:) simp
qed

lemma poll_pass_clear:
  assumes "i < length (priv_table g)" and "\<not> sync (ipi (priv_table g ! i))"
  shows "\<exists>w'. poll_pass lib i (g, w)
    = Done (Inr (), (g\<lparr>priv_table := (priv_table g)[i := set_sync True (priv_table g ! i)]\<rparr>, w'))"
  using assms by (simp add: poll_pass_def)

lemma poll_pass_set:
  assumes i: "i < length (priv_table g)" and s: "sync (ipi (priv_table g ! i))"
    and fd: "fd (ipi (priv_table g ! i)) = s"
  shows "\<exists>w'. poll_pass lib i (g, w) = Done (Inl (),
     if fst (wait_step lib s w) then (g\<lparr>priv_table := (priv_table g)[i := set_sync False (priv_table g ! i)]\<rparr>, w')
     else (g, snd (wait_step lib s w)))"
proof -
  note g = set_sync_again [OF s]
  show ?thesis using i s fd
    by (simp add: poll_pass_def wait_step_def linux_proc_irq_handler_def g split_beta)
qed

text \<open>The passes of the Linux platform follow the waiting protocol.\<close>

abbreviation set_nokick :: "nat \<Rightarrow> bool \<Rightarrow> linux_state \<Rightarrow> linux_state" where
  "set_nokick i b g \<equiv> g\<lparr>priv_table := (priv_table g)[i := set_sync b (priv_table g ! i)]\<rparr>"

interpretation lk: kick_wait "poll_pass lib i"
    "\<lambda>g. i < length (priv_table g) \<and> fd (ipi (priv_table g ! i)) = s"
    "\<lambda>g. sync (ipi (priv_table g ! i))" "set_nokick i" "wait_step lib s"
  for lib i s
proof
  fix g :: linux_state and w assume "i < length (priv_table g) \<and> fd (ipi (priv_table g ! i)) = s" and "\<not> sync (ipi (priv_table g ! i))"
  then show "\<exists>r w'. poll_pass lib i (g, w) = Done (Inr r, (set_nokick i True g, w'))"
    using poll_pass_clear [of i g lib w] by blast
next
  fix g :: linux_state and w assume "i < length (priv_table g) \<and> fd (ipi (priv_table g ! i)) = s" and "sync (ipi (priv_table g ! i))"
  then show "\<exists>w'. poll_pass lib i (g, w) = Done (Inl (),
      if fst (wait_step lib s w) then (set_nokick i False g, w') else (g, snd (wait_step lib s w)))"
    using poll_pass_set [of i g s lib w] by blast
qed (simp_all add: set_sync_again)

text \<open>
  C18. \<open>platform_poll\<close> waits for the peer and consumes one notification: with the flag still set
  from the last poll, it returns 0 once the interrupt of the socket has arrived, after any
  number of waits, and leaves the flag set again, so that the next poll waits for a new
  notification.
\<close>

theorem linux_poll_returns:
  assumes "rproc_priv g = Some i" and "i < length (priv_table g)" and "sync (ipi (priv_table g ! i))"
    and "kick_after (wait_step lib (fd (ipi (priv_table g ! i)))) k w" and "k + 2 \<le> n"
  shows "\<exists>w'. linux_platform_poll n lib (g, w) = Done (0, (g, w'))"
  using lk.poll_returns [of i g "fd (ipi (priv_table g ! i))" lib k w n] assms by (auto simp: linux_platform_poll_def)

theorem linux_poll_returns_witness:
  "\<exists>w'. linux_platform_poll 2 (demo_lib 0 0)
      (\<lparr>priv_table = [set_sync True (priv_init ''unixs:x'')], rproc_priv = Some 0\<rparr>, ())
    = Done (0, (\<lparr>priv_table = [set_sync True (priv_init ''unixs:x'')], rproc_priv = Some 0\<rparr>, w'))"
  by (rule linux_poll_returns [where i = 0 and k = 0]) (simp_all add: demo_lib_def wait_step_def)


section \<open>Resources\<close>

text \<open>
  What libmetal and OpenAMP promise of allocation: \<open>heap\<close> is the memory handed out, \<open>devs\<close> the
  virtio devices in use; an allocation adds a new element, a release takes it away, and the other
  calls that creating and releasing an RPMsg device makes leave both alone.
\<close>

definition resource_lib :: "'w linux_lib \<Rightarrow> ('w \<Rightarrow> nat set) \<Rightarrow> ('w \<Rightarrow> nat set) \<Rightarrow> bool" where
  "resource_lib lib heap devs \<longleftrightarrow>
     (\<forall>w m w'. metal_allocate_memory lib w = (m, w') \<longrightarrow> devs w' = devs w \<and>
        (case m of None \<Rightarrow> heap w' = heap w | Some a \<Rightarrow> a \<notin> heap w \<and> heap w' = insert a (heap w))) \<and>
     (\<forall>m w. heap (metal_free_memory lib m w) = heap w - {m} \<and> devs (metal_free_memory lib m w) = devs w) \<and>
     (\<forall>i role w v w'. remoteproc_create_virtio lib i role w = (v, w') \<longrightarrow> heap w' = heap w \<and>
        (case v of None \<Rightarrow> devs w' = devs w | Some d \<Rightarrow> d \<notin> devs w \<and> devs w' = insert d (devs w))) \<and>
     (\<forall>d w. devs (remoteproc_remove_virtio lib d w) = devs w - {d} \<and> heap (remoteproc_remove_virtio lib d w) = heap w) \<and>
     (\<forall>va n w. heap (rpmsg_virtio_init_shm_pool lib va n w) = heap w \<and> devs (rpmsg_virtio_init_shm_pool lib va n w) = devs w) \<and>
     (\<forall>m v ns w r w'. rpmsg_init_vdev lib m v ns w = (r, w') \<longrightarrow> heap w' = heap w \<and> devs w' = devs w) \<and>
     (\<forall>m w. heap (rpmsg_deinit_vdev lib m w) = heap w \<and> devs (rpmsg_deinit_vdev lib m w) = devs w)"

text \<open>
  C37. The devices of the Linux platform are balanced: a failed creation gives everything back that
  it has taken, on every error path, and a release gives back exactly what a successful creation
  has taken.
\<close>

theorem linux_vdev_balanced:
  assumes "resource_lib lib heap devs" and "linux_create_rpmsg_vdev lib i role ns w = (d, w1)"
  shows "case d of
      None \<Rightarrow> heap w1 = heap w \<and> devs w1 = devs w
    | Some r \<Rightarrow> heap w1 = insert (rpvdev r) (heap w) \<and> devs w1 = insert (vdev r) (devs w) \<and>
        (\<forall>w2. heap w2 = heap w1 \<and> devs w2 = devs w1 \<longrightarrow>
           heap (linux_release_rpmsg_vdev lib r w2) = heap w \<and> devs (linux_release_rpmsg_vdev lib r w2) = devs w)"
  using assms unfolding resource_lib_def linux_create_rpmsg_vdev_def linux_release_rpmsg_vdev_def
  by (fastforce split: prod.splits option.splits if_splits)

text \<open>A library that refuses to give out what is in use.\<close>

definition balanced_lib :: "(nat set \<times> nat set) linux_lib" where
  "balanced_lib = (demo_lib 0 0)\<lparr>
     metal_allocate_memory := (\<lambda>(h, v). if 0 \<in> h then (None, (h, v)) else (Some 0, (insert 0 h, v))),
     metal_free_memory := (\<lambda>m (h, v). (h - {m}, v)), remoteproc_remove_virtio := (\<lambda>d (h, v). (h, v - {d})),
     remoteproc_create_virtio := (\<lambda>i role (h, v). if 7 \<in> v then (None, (h, v)) else (Some 7, (h, insert 7 v)))\<rparr>"

theorem linux_vdev_balanced_witness:
  "case fst (linux_create_rpmsg_vdev balanced_lib 0 VIRTIO_DEV_DRIVER True ({1}, {7})) of
      None \<Rightarrow> fst (snd (linux_create_rpmsg_vdev balanced_lib 0 VIRTIO_DEV_DRIVER True ({1}, {7}))) = {1}
    | Some r \<Rightarrow> False"
proof -
  have "resource_lib balanced_lib fst snd"
    by (auto simp: resource_lib_def balanced_lib_def demo_lib_def split: option.splits if_splits prod.splits)
  from linux_vdev_balanced [OF this, of 0 VIRTIO_DEV_DRIVER True "({1}, {7})" None "({1}, {7})"] show ?thesis
    by (simp add: linux_create_rpmsg_vdev_def balanced_lib_def demo_lib_def)
qed

text \<open>A peer that refuses every connection.\<close>

lemma connect_refused:
  assumes "\<forall>s p w. fst (sk_connect lib s p w) < 0"
  shows "\<exists>w'. connect_tries k lib d i (g, w) = Done (- 1, (g, w'))"
proof (induction k arbitrary: i w)
  case (Suc k)
  have "\<exists>w1. sk_unix_client lib d (g, w) = Done (- 1, (g, w1))"
    using assms [rule_format, of "fst (sk_socket lib w)" "sun_path (drop (length UNIX_PREFIX) d)" "snd (sk_socket lib w)"]
    by (simp add: sk_unix_client_def)
  with Suc.IH show ?case by auto
qed simp

text \<open>
  A client process whose server is not there gives up after its 100 attempts, and \<open>platform_init\<close>
  returns \<open>-EINVAL\<close> with nothing stored; but the shared memory it had mapped stays mapped:
  \<open>linux_proc_init\<close> leaves the region in its private data, and a caller that is told of the failure
  has no instance it could take down.
\<close>

theorem linux_init_keeps_region:
  assumes "proc_arg argv = 1" and "\<forall>s p w. fst (sk_connect lib s p w) < 0"
    and "rp_init_check lib (metal_init lib w) = (True, w1)"
    and "metal_shmem_open lib ''openamp.shm'' 0x80000 w1 = ((0, io), w2)"
  shows "\<exists>g w'. linux_platform_init lib argv (linux_boot, w) = Done ((- EINVAL, None), (g, w')) \<and>
    shm_old_io (priv_table g ! 1) = Some io"
proof -
  define p where "p = (priv_init ''unix:/tmp/openamp.event.0'')\<lparr>shm_old_io := Some io,
      shm_new_io := \<lparr>io_virt = io_virt io, io_size = 0x80000\<rparr>\<rparr>"
  define g where "g = linux_boot\<lparr>rproc_priv := Some 1, priv_table := [priv_init ''unixs:/tmp/openamp.event.0'', p]\<rparr>"
  from connect_refused [OF assms(2), of 100 "''unix:/tmp/openamp.event.0''" 0 g w2] obtain w3
    where "connect_tries 100 lib ''unix:/tmp/openamp.event.0'' 0 (g, w2) = Done (- 1, (g, w3))" by blast
  then have e: "event_open lib (Some ''unix:/tmp/openamp.event.0'') (g, w2) = Done (- 1, (g, w3))"
    by (simp add: event_open_def is_sk_unix_server_def UNIXS_PREFIX_def)
  have "linux_proc_init lib 1 (linux_boot\<lparr>rproc_priv := Some 1\<rparr>, w1)
      = Done (False, (g\<lparr>priv_table := [priv_init ''unixs:/tmp/openamp.event.0'', set_fd (- 1) p]\<rparr>, w3))"
    using assms(4) e
    by (simp add: linux_proc_init_def linux_boot_def rproc_priv_table_def g_def p_def priv_init_def)
  with assms(3) have "start_rproc lib 1 (length resources) (linux_boot, metal_init lib w)
      = Done (False, (g\<lparr>priv_table := [priv_init ''unixs:/tmp/openamp.event.0'', set_fd (- 1) p]\<rparr>, w3))"
    by (simp add: start_rproc_def remoteproc_init_def)
  moreover have "path (ipi (priv_table linux_boot ! 1)) = Some ''unix:/tmp/openamp.event.0''"
    by (simp add: linux_boot_def rproc_priv_table_def priv_init_def)
  ultimately show ?thesis using assms(1)
    by (simp add: linux_platform_init_def init_system_def platform_create_proc_def get_resource_table_def
        is_sk_unix_server_def UNIXS_PREFIX_def p_def)
qed

theorem linux_init_keeps_region_witness:
  "\<exists>g w'. linux_platform_init (demo_lib 0 (- 1)) [1] (linux_boot, ()) = Done ((- EINVAL, None), (g, w')) \<and>
    shm_old_io (priv_table g ! 1) = Some \<lparr>io_virt = 0, io_size = 0x80000\<rparr>"
  by (rule linux_init_keeps_region) (simp_all add: demo_lib_def to_int32_id)

section \<open>The shared region\<close>

text \<open>
  The accessors of the shared region: what is written at an offset is read back from it, a
  write leaves every byte outside its range alone, and offsets and physical addresses of the region
  are the same, with \<open>-1\<close> for everything outside.
\<close>

theorem linux_shm_access:
  assumes "virt off = Some a" and "a + length src \<le> length mem"
  shows "\<exists>mem'. linux_proc_block_write virt mem off src = Done (int (length src), mem') \<and>
    linux_proc_block_read virt mem' off (length src) = Done (int (length src), src) \<and>
    length mem' = length mem \<and> (\<forall>j < length mem. j < a \<or> a + length src \<le> j \<longrightarrow> mem' ! j = mem ! j) \<and>
    (\<forall>io x. linux_proc_phys_to_offset io (linux_proc_offset_to_phys io x)
        = (if unat x < io_size io then x else METAL_BAD))"
  using assms
  by (auto simp: linux_proc_block_write_def linux_proc_block_read_def linux_proc_phys_to_offset_def
      linux_proc_offset_to_phys_def put_bytes_def sub_bytes_def nth_append)


theorem linux_shm_access_witness:
  "\<exists>mem'. linux_proc_block_write (\<lambda>off. Some (unat off)) [1, 2, 3, 4] 1 [8, 9] = Done (2, mem') \<and>
     linux_proc_block_read (\<lambda>off. Some (unat off)) mem' 1 2 = Done (2, [8, 9])"
  using linux_shm_access [of "\<lambda>off. Some (unat off)" 1 1 "[8, 9]" "[1, 2, 3, 4]"] by (auto simp: numeral_2_eq_2)

end
