(* ===== verification/Shmem_Demo.thy ===== *)
theory Shmem_Demo
  imports Amp_Prelude
begin

text \<open>
  The shared-memory demo of libmetal, \<open>examples/libmetal/demos/irq_shmem_demo\<close>: the host writes
  1024 numbered messages into shared memory, publishes their addresses in a descriptor and kicks
  the remote core; the remote copies every message into its own half of the shared memory,
  publishes it in the other descriptor and kicks back; the host verifies the copies and sends a
  shutdown message.  This theory has the two programs with their platform code and the
  interrupt handlers; \<open>Shmem_Protocol\<close> runs them against each other.

  Offsets are of type \<open>nat\<close>: they start at the constants of the configuration and grow by at most
  16 for each of the 1024 messages, far from the width of \<open>unsigned long\<close>.  An offset that libmetal
  reports as \<open>METAL_BAD_OFFSET\<close> is \<open>None\<close>.
\<close>

section \<open>libmetal and the configuration\<close>

text \<open>The I/O regions are handles; the world holds what the regions contain.\<close>

record 'w metal =
  io_read32 :: "nat \<Rightarrow> nat \<Rightarrow> 'w \<Rightarrow> u32"
  io_write32 :: "nat \<Rightarrow> nat \<Rightarrow> u32 \<Rightarrow> 'w \<Rightarrow> 'w"
  io_block_read :: "nat \<Rightarrow> nat \<Rightarrow> nat \<Rightarrow> 'w \<Rightarrow> int \<times> bytes"
  io_block_write :: "nat \<Rightarrow> nat \<Rightarrow> bytes \<Rightarrow> 'w \<Rightarrow> int \<times> 'w"
  io_block_set :: "nat \<Rightarrow> nat \<Rightarrow> byte \<Rightarrow> nat \<Rightarrow> 'w \<Rightarrow> int \<times> 'w"
  io_phys :: "nat \<Rightarrow> nat \<Rightarrow> u64"
  io_phys_to_offset :: "nat \<Rightarrow> u64 \<Rightarrow> nat option"
  timestamp :: "'w \<Rightarrow> u64 \<times> 'w"
  alloc_memory :: "'w \<Rightarrow> bool \<times> 'w"
  free_memory :: "'w \<Rightarrow> 'w"
  irq_save_disable :: "'w \<Rightarrow> nat \<times> 'w"
  irq_restore_enable :: "nat \<Rightarrow> 'w \<Rightarrow> 'w"
  cpu_yield :: "'w \<Rightarrow> 'w"
  irq_pends :: "'w \<Rightarrow> bool \<times> 'w"

text \<open>The values of the generated \<open>config.h\<close>; each side is built with its own.\<close>

record config =
  SHM0_DESC_SIZE :: nat
  SHM1_DESC_SIZE :: nat
  SHM_PAYLOAD_SIZE :: nat
  SHM_PAYLOAD_RX_OFFSET :: nat
  SHM_PAYLOAD_TX_OFFSET :: nat
  IPI_MASK :: u32

definition SHM_DESC_AVAIL_OFFSET :: nat where "SHM_DESC_AVAIL_OFFSET = 0"
definition SHM_DESC_USED_OFFSET :: nat where "SHM_DESC_USED_OFFSET = 4"
definition SHM_DESC_ADDR_ARRAY_OFFSET :: nat where "SHM_DESC_ADDR_ARRAY_OFFSET = 8"
definition PKGS_TOTAL :: u32 where "PKGS_TOTAL = 1024"
definition BUF_SIZE_MAX :: nat where "BUF_SIZE_MAX = 512"

text \<open>The text \<open>shutdown\<close>.\<close>

definition SHUTDOWN :: bytes where
  "SHUTDOWN = [0x73, 0x68, 0x75, 0x74, 0x64, 0x6f, 0x77, 0x6e]"

lemmas shm_consts = SHM_DESC_AVAIL_OFFSET_def SHM_DESC_USED_OFFSET_def SHM_DESC_ADDR_ARRAY_OFFSET_def

text \<open>\<open>struct msg_hdr_s\<close> followed by the message.\<close>

definition shm_msg :: "u32 \<Rightarrow> bytes \<Rightarrow> bytes" where
  "shm_msg i body = le32 i @ le32 (of_nat (length body)) @ body"

section \<open>The host\<close>

text \<open>
  The channel of the host: the regions of the two descriptors, of the payload and of the interrupt
  device (NULL until they are known), and \<open>remote_nkicked\<close>, clear when the remote has kicked.
\<close>

record host_channel =
  host_to_remote_desc_io :: "nat option"
  remote_to_host_desc_io :: "nat option"
  h_shm_io :: "nat option"
  h_ipi_io :: "nat option"
  h_ttc_io :: "nat option"
  remote_nkicked :: bool
  h_ipi_mask :: u32
  h_irq_vector_id :: int

text \<open>The variables of \<open>irq_shmem_echo\<close>.\<close>

record host_vars =
  ch :: host_channel
  i_pkg :: u32
  tx_addr_offset :: nat
  rx_addr_offset :: nat
  tx_data_offset :: nat
  txbuf :: bytes
  rxbuf :: bytes

type_synonym ('w, 'a) hprog = "(host_vars \<times> 'w, 'a) prog"

text \<open>A region pointer that is used.\<close>

abbreviation with_io :: "('g \<Rightarrow> nat option) \<Rightarrow> (nat \<Rightarrow> ('g \<times> 'w, 'a) prog) \<Rightarrow> ('g \<times> 'w, 'a) prog" where
  "with_io f k \<equiv> bnd (getg f) (\<lambda>p. case p of None \<Rightarrow> fail Null_deref | Some r \<Rightarrow> k r)"

definition IPI_TRIG_OFFSET :: nat where "IPI_TRIG_OFFSET = 0"

definition irq_kick :: "'w metal \<Rightarrow> ('w, unit) hprog" where
  "irq_kick io = with_io (\<lambda>g. h_ipi_io (ch g)) (\<lambda>r.
     bnd (getg (\<lambda>g. h_ipi_mask (ch g))) (\<lambda>m. extU (io_write32 io r IPI_TRIG_OFFSET m)))"

text \<open>
  The body of the loop that sends message \<open>i\<close>; \<open>Inr\<close> leaves the function with an error.
\<close>

definition host_send :: "'w metal \<Rightarrow> config \<Rightarrow> ('w, unit + int) hprog" where
  "host_send io cfg =
     bnd (getg (\<lambda>g. g)) (\<lambda>g.
     bnd (ext (timestamp io)) (\<lambda>tstart.
     let m = shm_msg (i_pkg g) (le64 tstart) in
     bnd (lift (put_bytes 0 m (txbuf g))) (\<lambda>tb.
     seq (updg (\<lambda>g. g\<lparr>txbuf := tb\<rparr>))
    (with_io (\<lambda>g. h_shm_io (ch g)) (\<lambda>payload_io.
     bnd (ext (io_block_write io payload_io (tx_data_offset g) m)) (\<lambda>r.
     if r < 0 then ret (Inr r)
     else let addr = ucast (io_phys io payload_io (tx_data_offset g)) :: u32 in
     if addr = - 1 then ret (Inr (- EINVAL))
     else with_io (\<lambda>g. host_to_remote_desc_io (ch g)) (\<lambda>desc.
       seq (extU (io_write32 io desc (tx_addr_offset g) addr))
      (seq (updg (\<lambda>g. g\<lparr>tx_data_offset := tx_data_offset g + length m,
             tx_addr_offset := (if SHM0_DESC_SIZE cfg \<le> tx_addr_offset g + 4
                then SHM_DESC_ADDR_ARRAY_OFFSET else tx_addr_offset g + 4)\<rparr>))
      (seq (extU (io_write32 io desc SHM_DESC_AVAIL_OFFSET (i_pkg g + 1)))
      (seq (irq_kick io)
      (seq (updg (\<lambda>g. g\<lparr>i_pkg := i_pkg g + 1\<rparr>)) (ret (Inl ())))))))))))))"

text \<open>
  The body of the loop that verifies message \<open>i\<close>: the header of the copy, its body, and the
  comparison with what was sent.
\<close>

definition host_verify :: "'w metal \<Rightarrow> ('w, unit + int) hprog" where
  "host_verify io =
     bnd (getg (\<lambda>g. g)) (\<lambda>g.
     with_io (\<lambda>g. remote_to_host_desc_io (ch g)) (\<lambda>desc.
     with_io (\<lambda>g. h_shm_io (ch g)) (\<lambda>payload_io.
     bnd (asks (io_read32 io desc (rx_addr_offset g))) (\<lambda>addr.
     case io_phys_to_offset io payload_io (ucast addr) of
       None \<Rightarrow> ret (Inr (- EINVAL))
     | Some rx \<Rightarrow>
         seq (updg (\<lambda>g. g\<lparr>rx_addr_offset := rx_addr_offset g + 4\<rparr>))
        (bnd (asks (io_block_read io payload_io rx 8)) (\<lambda>(r, hdr).
         if r < 0 then ret (Inr r)
         else bnd (lift (put_bytes 0 hdr (rxbuf g))) (\<lambda>rb.
              if get32 0 rb \<noteq> i_pkg g then ret (Inr (- EINVAL))
              else if get32 4 rb \<noteq> 8 then ret (Inr (- EINVAL))
              else bnd (asks (io_block_read io payload_io (rx + 8) 8)) (\<lambda>(r, body).
                   if r < 0 then ret (Inr r)
                   else bnd (lift (put_bytes 8 body rb)) (\<lambda>rb.
                        seq (updg (\<lambda>g. g\<lparr>rxbuf := rb\<rparr>))
                       (seq (extU (io_write32 io desc SHM_DESC_USED_OFFSET (i_pkg g + 1)))
                       (bnd (asks (io_block_read io payload_io (tx_data_offset g) 16)) (\<lambda>(r, sent).
                        if r < 0 then ret (Inr r)
                        else bnd (lift (put_bytes 0 sent (txbuf g))) (\<lambda>tb.
                             seq (updg (\<lambda>g. g\<lparr>txbuf := tb, tx_data_offset := tx_data_offset g + 16\<rparr>))
                            (if take 16 rb \<noteq> take 16 tb then ret (Inr (- EINVAL))
                             else seq (updg (\<lambda>g. g\<lparr>i_pkg := i_pkg g + 1\<rparr>)) (ret (Inl ()))))))))))))))))"

text \<open>The shutdown message at the end, and the result of the function.\<close>

definition host_shutdown :: "'w metal \<Rightarrow> ('w, int) hprog" where
  "host_shutdown io =
     bnd (getg (\<lambda>g. g)) (\<lambda>g.
     let m = shm_msg (i_pkg g) SHUTDOWN in
     bnd (lift (put_bytes 0 (m @ [0]) (txbuf g))) (\<lambda>tb.
     seq (updg (\<lambda>g. g\<lparr>txbuf := tb\<rparr>))
    (with_io (\<lambda>g. h_shm_io (ch g)) (\<lambda>payload_io.
     bnd (ext (io_block_write io payload_io (tx_data_offset g) m)) (\<lambda>r.
     if r < 0 then ret r
     else let addr = ucast (io_phys io payload_io (tx_data_offset g)) :: u32 in
     if addr = - 1 then ret (- EINVAL)
     else with_io (\<lambda>g. host_to_remote_desc_io (ch g)) (\<lambda>desc.
       seq (extU (io_write32 io desc (tx_addr_offset g) addr))
      (seq (extU (io_write32 io desc SHM_DESC_AVAIL_OFFSET (PKGS_TOTAL + 1)))
      (seq (irq_kick io) (ret 0)))))))))"

text \<open>The interrupt handler of the host.\<close>

definition IPI_ISR_OFFSET :: nat where "IPI_ISR_OFFSET = 0x10"
definition IPI_IER_OFFSET :: nat where "IPI_IER_OFFSET = 0x18"
definition IPI_IDR_OFFSET :: nat where "IPI_IDR_OFFSET = 0x1C"

unbundle bit_operations_syntax

definition irq_isr :: "'w metal \<Rightarrow> config \<Rightarrow> ('w, bool) hprog" where
  "irq_isr io cfg = bnd (getg (\<lambda>g. h_ipi_io (ch g))) (\<lambda>p. case p of
       None \<Rightarrow> ret False
     | Some r \<Rightarrow> bnd (asks (io_read32 io r IPI_ISR_OFFSET)) (\<lambda>val.
         if val AND IPI_MASK cfg \<noteq> 0
         then seq (extU (io_write32 io r IPI_ISR_OFFSET (IPI_MASK cfg)))
             (seq (updg (\<lambda>g. g\<lparr>ch := (ch g)\<lparr>remote_nkicked := False\<rparr>\<rparr>)) (ret True))
         else ret False))"

text \<open>An interrupt that has become pending is handled when interrupts are enabled again.\<close>

definition wait_pass :: "'w metal \<Rightarrow> config \<Rightarrow> ('w, unit + unit) hprog" where
  "wait_pass io cfg =
     bnd (ext (irq_save_disable io)) (\<lambda>flags.
     bnd (getg (\<lambda>g. remote_nkicked (ch g))) (\<lambda>was.
     seq (updg (\<lambda>g. g\<lparr>ch := (ch g)\<lparr>remote_nkicked := True\<rparr>\<rparr>))
    (if \<not> was then seq (extU (irq_restore_enable io flags)) (ret (Inr ()))
     else seq (extU (cpu_yield io))
         (seq (extU (irq_restore_enable io flags))
         (bnd (ext (irq_pends io)) (\<lambda>p.
          seq (if p then seq (irq_isr io cfg) (ret ()) else ret ()) (ret (Inl ()))))))))"

definition wait_for_notified :: "nat \<Rightarrow> 'w metal \<Rightarrow> config \<Rightarrow> ('w, unit) hprog" where
  "wait_for_notified n io cfg = iter n (\<lambda>_. wait_pass io cfg) ()"

text \<open>
  \<open>irq_shmem_echo\<close>.  The channel is checked after the buffers have been allocated; that return does
  not free them.
\<close>

definition clear_area :: "'w metal \<Rightarrow> (host_channel \<Rightarrow> nat option) \<Rightarrow> nat \<Rightarrow> ('w, int) hprog" where
  "clear_area io f n = with_io (\<lambda>g. f (ch g)) (\<lambda>r. ext (io_block_set io r 0 0 n))"

definition send_all :: "nat \<Rightarrow> 'w metal \<Rightarrow> config \<Rightarrow> ('w, int option) hprog" where
  "send_all n io cfg = iter n (\<lambda>_. bnd (getg i_pkg) (\<lambda>i.
     if \<not> i < PKGS_TOTAL then ret (Inr None)
     else bnd (host_send io cfg) (\<lambda>x. case x of Inl _ \<Rightarrow> ret (Inl ()) | Inr e \<Rightarrow> ret (Inr (Some e))))) ()"

definition drain :: "nat \<Rightarrow> 'w metal \<Rightarrow> u32 \<Rightarrow> ('w, int option) hprog" where
  "drain n io avail = iter n (\<lambda>_. bnd (getg i_pkg) (\<lambda>i.
     if i = avail then ret (Inr None)
     else bnd (host_verify io) (\<lambda>x. case x of Inl _ \<Rightarrow> ret (Inl ()) | Inr e \<Rightarrow> ret (Inr (Some e))))) ()"

definition verify_all :: "nat \<Rightarrow> 'w metal \<Rightarrow> config \<Rightarrow> ('w, int option) hprog" where
  "verify_all n io cfg = iter n (\<lambda>_. bnd (getg i_pkg) (\<lambda>i.
     if i = PKGS_TOTAL then ret (Inr None)
     else seq (wait_for_notified n io cfg)
         (with_io (\<lambda>g. remote_to_host_desc_io (ch g)) (\<lambda>desc.
          bnd (asks (io_read32 io desc SHM_DESC_AVAIL_OFFSET)) (\<lambda>avail.
          bnd (drain n io avail) (\<lambda>x. case x of None \<Rightarrow> ret (Inl ()) | Some e \<Rightarrow> ret (Inr (Some e)))))))) ()"

definition echo_body :: "nat \<Rightarrow> 'w metal \<Rightarrow> config \<Rightarrow> ('w, int) hprog" where
  "echo_body n io cfg =
     bnd (clear_area io h_shm_io (SHM_PAYLOAD_SIZE cfg)) (\<lambda>r. if r < 0 then ret r else
     bnd (clear_area io host_to_remote_desc_io (SHM0_DESC_SIZE cfg)) (\<lambda>r. if r < 0 then ret r else
     bnd (clear_area io remote_to_host_desc_io (SHM1_DESC_SIZE cfg)) (\<lambda>r. if r < 0 then ret r else
     seq (updg (\<lambda>g. g\<lparr>i_pkg := 0, tx_addr_offset := SHM_DESC_ADDR_ARRAY_OFFSET,
            rx_addr_offset := SHM_DESC_ADDR_ARRAY_OFFSET, tx_data_offset := SHM_PAYLOAD_RX_OFFSET cfg\<rparr>))
    (bnd (send_all n io cfg) (\<lambda>x. case x of Some e \<Rightarrow> ret e | None \<Rightarrow>
     seq (updg (\<lambda>g. g\<lparr>i_pkg := 0, tx_data_offset := SHM_PAYLOAD_RX_OFFSET cfg\<rparr>))
    (bnd (verify_all n io cfg) (\<lambda>x. case x of Some e \<Rightarrow> ret e | None \<Rightarrow>
     seq (ext (timestamp io)) (host_shutdown io))))))))"

definition irq_shmem_echo :: "nat \<Rightarrow> 'w metal \<Rightarrow> config \<Rightarrow> ('w, int) hprog" where
  "irq_shmem_echo n io cfg =
     bnd (ext (alloc_memory io)) (\<lambda>t.
     if \<not> t then ret (- ENOMEM)
     else bnd (ext (alloc_memory io)) (\<lambda>r.
     if \<not> r then seq (extU (free_memory io)) (ret (- ENOMEM))
     else bnd (getg (\<lambda>g. h_shm_io (ch g) = None \<or> host_to_remote_desc_io (ch g) = None \<or>
            remote_to_host_desc_io (ch g) = None \<or> h_ipi_io (ch g) = None)) (\<lambda>bad.
     if bad then ret (- EINVAL)
     else bnd (echo_body n io cfg) (\<lambda>x.
          seq (extU (free_memory io)) (seq (extU (free_memory io)) (ret x))))))"


section \<open>The remote\<close>

text \<open>
  The remote has one region for the whole shared memory: the two descriptors and then the
  payload.  \<open>irq_pending\<close> is the flag of the bare-metal port, clear when the host has kicked.
\<close>

record remote_channel =
  r_ipi_io :: "nat option"
  r_shm_io :: "nat option"
  r_ttc_io :: "nat option"
  r_ipi_mask :: u32
  r_irq_vector_id :: int
  irq_pending :: bool

record remote_vars =
  rch :: remote_channel
  rx_count :: u32
  r_tx_addr_offset :: nat
  r_rx_addr_offset :: nat
  r_tx_data_offset :: nat
  lbuf :: bytes

type_synonym ('w, 'a) rprog = "(remote_vars \<times> 'w, 'a) prog"

definition remote_irq_kick :: "'w metal \<Rightarrow> ('w, unit) rprog" where
  "remote_irq_kick io = with_io (\<lambda>g. r_ipi_io (rch g)) (\<lambda>r.
     bnd (getg (\<lambda>g. r_ipi_mask (rch g))) (\<lambda>m. extU (io_write32 io r IPI_TRIG_OFFSET m)))"

text \<open>
  The register offsets are those that \<open>common.h\<close> of the host defines for the same devices.  The
  timer registers that \<open>reset_timer\<close> and \<open>stop_timer\<close> write:
\<close>

definition XTTCPS_CNT_OFFSET :: "nat \<Rightarrow> nat" where
  "XTTCPS_CNT_OFFSET i = (if i = 1 then 0 else 2 ^ i)"

definition XTTCPS_CNT_CNTRL_OFFSET :: nat where "XTTCPS_CNT_CNTRL_OFFSET = 0xC"
definition TTC_CNT_APU_TO_RPU :: nat where "TTC_CNT_APU_TO_RPU = 2"

definition reset_timer :: "'w metal \<Rightarrow> nat \<Rightarrow> nat \<Rightarrow> ('w, unit) rprog" where
  "reset_timer io r i = extU (io_write32 io r (XTTCPS_CNT_CNTRL_OFFSET + XTTCPS_CNT_OFFSET i) 0x10)"

definition stop_timer :: "'w metal \<Rightarrow> nat \<Rightarrow> nat \<Rightarrow> ('w, unit) rprog" where
  "stop_timer io r i = extU (io_write32 io r (XTTCPS_CNT_CNTRL_OFFSET + XTTCPS_CNT_OFFSET i) 0x01)"

text \<open>The bare-metal port: the flag starts set (waiting), an interrupt clears it.\<close>

definition amp_os_init :: "('w, int) rprog" where
  "amp_os_init = seq (updg (\<lambda>g. g\<lparr>rch := (rch g)\<lparr>irq_pending := True\<rparr>\<rparr>)) (ret 0)"

definition system_resume :: "('w, unit) rprog" where
  "system_resume = updg (\<lambda>g. g\<lparr>rch := (rch g)\<lparr>irq_pending := False\<rparr>\<rparr>)"

definition ipi_irq_handler :: "'w metal \<Rightarrow> ('w, bool) rprog" where
  "ipi_irq_handler io = with_io (\<lambda>g. r_ipi_io (rch g)) (\<lambda>r.
     bnd (asks (io_read32 io r IPI_ISR_OFFSET)) (\<lambda>val.
     bnd (getg rch) (\<lambda>c.
     if val AND r_ipi_mask c \<noteq> 0
     then (case r_ttc_io c of None \<Rightarrow> ret False
           | Some t \<Rightarrow> seq (stop_timer io t TTC_CNT_APU_TO_RPU)
                       (seq (extU (io_write32 io r IPI_ISR_OFFSET (r_ipi_mask c)))
                       (seq system_resume (ret True))))
     else ret False)))"

text \<open>
  \<open>while (atomic_flag_test_and_set(&ch->irq_pending)) wfi;\<close> where the interrupt that wakes the core
  runs the handler.
\<close>

definition system_suspend :: "nat \<Rightarrow> 'w metal \<Rightarrow> ('w, unit) rprog" where
  "system_suspend n io = iter n (\<lambda>_.
     bnd (getg (\<lambda>g. irq_pending (rch g))) (\<lambda>was.
     seq (updg (\<lambda>g. g\<lparr>rch := (rch g)\<lparr>irq_pending := True\<rparr>\<rparr>))
    (if \<not> was then ret (Inr ())
     else bnd (ext (irq_pends io)) (\<lambda>p.
          seq (if p then seq (ipi_irq_handler io) (ret ()) else ret ()) (ret (Inl ())))))) ()"

text \<open>
  The body of the loop for one message: read it, echo it or stop at the shutdown message;
  \<open>Inr\<close> leaves the demo with its result.  On the 32-bit core \<open>METAL_BAD_PHYS\<close> is the 32-bit \<open>-1\<close>.
\<close>

definition remote_echo :: "'w metal \<Rightarrow> config \<Rightarrow> ('w, unit + int) rprog" where
  "remote_echo io cfg =
     with_io (\<lambda>g. r_shm_io (rch g)) (\<lambda>shm.
     bnd (getg (\<lambda>g. g)) (\<lambda>g.
     bnd (asks (io_read32 io shm (r_rx_addr_offset g))) (\<lambda>addr.
     case io_phys_to_offset io shm (ucast addr) of
       None \<Rightarrow> ret (Inr (- EINVAL))
     | Some rx \<Rightarrow>
         seq (updg (\<lambda>g. g\<lparr>r_rx_addr_offset := r_rx_addr_offset g + 4\<rparr>))
        (bnd (asks (io_block_read io shm rx 8)) (\<lambda>(r, hdr).
         if r < 0 then ret (Inr (- EINVAL))
         else bnd (lift (put_bytes 0 hdr (lbuf g))) (\<lambda>lb.
         let len = unat (get32 4 lb) in
         if BUF_SIZE_MAX - 8 < len then ret (Inr (- EINVAL))
         else bnd (asks (io_block_read io shm (rx + 8) len)) (\<lambda>(r, body).
         if r < 0 then ret (Inr (- EINVAL))
         else bnd (lift (put_bytes 8 body lb)) (\<lambda>lb.
         seq (updg (\<lambda>g. g\<lparr>lbuf := lb, rx_count := rx_count g + 1\<rparr>))
        (seq (extU (io_write32 io shm SHM_DESC_USED_OFFSET (rx_count g + 1)))
        (if len = length SHUTDOWN \<and> take (length SHUTDOWN) (drop 8 lb) = SHUTDOWN then ret (Inr 0)
         else bnd (ext (io_block_write io shm (r_tx_data_offset g) (take (8 + len) lb))) (\<lambda>r.
         if r < 0 then ret (Inr (- EINVAL))
         else let addr = ucast (io_phys io shm (r_tx_data_offset g)) :: u32 in
         if addr = - 1 then ret (Inr (- EINVAL))
         else seq (extU (io_write32 io shm (r_tx_addr_offset g) addr))
          (seq (updg (\<lambda>g. g\<lparr>r_tx_data_offset := r_tx_data_offset g + (8 + len),
                 r_tx_addr_offset := r_tx_addr_offset g + 4\<rparr>))
          (seq (extU (io_write32 io shm (SHM0_DESC_SIZE cfg + SHM_DESC_AVAIL_OFFSET) (rx_count g + 1)))
          (seq (remote_irq_kick io) (ret (Inl ()))))))))))))))))"

definition remote_serve :: "nat \<Rightarrow> 'w metal \<Rightarrow> config \<Rightarrow> ('w, int) rprog" where
  "remote_serve n io cfg = iter n (\<lambda>_.
     seq (system_suspend n io)
    (with_io (\<lambda>g. r_shm_io (rch g)) (\<lambda>shm.
     bnd (asks (io_read32 io shm SHM_DESC_AVAIL_OFFSET)) (\<lambda>avail.
     iter n (\<lambda>_. bnd (getg rx_count) (\<lambda>c.
       if c = avail then ret (Inr (Inl ()))
       else bnd (remote_echo io cfg) (\<lambda>x. case x of Inl _ \<Rightarrow> ret (Inl ()) | Inr e \<Rightarrow> ret (Inr (Inr e))))) ())))) ()"

end
