(* ===== verification/Shmem_Protocol.thy ===== *)
theory Shmem_Protocol
  imports Shmem_Demo
begin

text \<open>
  The two programs of the shared-memory demo against each other.  The system is a step relation:
  in every step one side handles one message, or waits for its interrupt, or leaves a loop; a
  kick runs the interrupt handler of the other side.  Whatever the interleaving, the host
  verifies all 1024 echoes, no wake-up is lost, and both sides finish with 0.
\<close>

section \<open>Byte memory\<close>

definition bytes_at :: "nat \<Rightarrow> nat \<Rightarrow> bytes \<Rightarrow> bytes" where
  "bytes_at off n m = take n (drop off m)"

definition patch :: "nat \<Rightarrow> bytes \<Rightarrow> bytes \<Rightarrow> bytes" where
  "patch off bs m = take off m @ bs @ drop (off + length bs) m"

lemma length_bytes_at: "off + n \<le> length m \<Longrightarrow> length (bytes_at off n m) = n"
  by (simp add: bytes_at_def)

lemma length_patch [simp]: "off + length bs \<le> length m \<Longrightarrow> length (patch off bs m) = length m"
  by (simp add: patch_def)

lemma bytes_at_patch_same: "off + length bs \<le> length m \<Longrightarrow> n = length bs \<Longrightarrow> bytes_at off n (patch off bs m) = bs"
  by (simp add: bytes_at_def patch_def)

lemma bytes_at_patch_other:
  assumes "off' + length bs \<le> length m" and "off + n \<le> off' \<or> off' + length bs \<le> off"
  shows "bytes_at off n (patch off' bs m) = bytes_at off n m"
  using assms(2)
proof
  assume "off + n \<le> off'"
  with assms(1) show ?thesis by (simp add: bytes_at_def patch_def drop_take)
next
  assume o: "off' + length bs \<le> off"
  then have "drop off (patch off' bs m) = drop (off - (off' + length bs)) (drop (off' + length bs) m)"
    using assms(1) by (simp add: patch_def drop_append)
  with o show ?thesis by (simp add: bytes_at_def)
qed

lemma get32_bytes_at: "get32 off m = get32 0 (bytes_at off 4 m)"
  by (simp add: get32_def bytes_at_def)

lemma get32_patch_same: "off + 4 \<le> length m \<Longrightarrow> get32 off (patch off (le32 v) m) = v"
  by (simp add: get32_def patch_def)

lemma get32_patch_other:
  "off' + length bs \<le> length m \<Longrightarrow> off + 4 \<le> off' \<or> off' + length bs \<le> off \<Longrightarrow>
     get32 off (patch off' bs m) = get32 off m"
  using bytes_at_patch_other [of off' bs m off 4] by (simp add: get32_def bytes_at_def)

lemma bytes_at_split: "bytes_at off (a + b) m = bytes_at off a m @ bytes_at (off + a) b m"
  by (simp add: bytes_at_def take_add add.commute)

section \<open>What the hardware and libmetal promise\<close>

text \<open>
  The layout of the shared memory as both configurations have it: the positions of the two
  descriptors and of the two halves of the payload, enough room for 1024 messages of 16 bytes and
  the shutdown message, and no overlap.  \<open>pb\<close> is the physical address of the memory.
\<close>

record layout =
  l_size :: nat
  l_base :: nat
  l_pay :: nat

definition layout_ok :: "config \<Rightarrow> config \<Rightarrow> layout \<Rightarrow> bool" where
  "layout_ok hc rc ly \<longleftrightarrow>
     SHM0_DESC_SIZE hc = SHM0_DESC_SIZE rc \<and> 8 + 4 * 1025 \<le> SHM0_DESC_SIZE rc \<and>
     l_pay ly = SHM0_DESC_SIZE rc + SHM1_DESC_SIZE rc \<and> 8 + 4 * 1024 \<le> SHM1_DESC_SIZE rc \<and>
     l_size ly = l_pay ly + SHM_PAYLOAD_SIZE rc \<and> SHM_PAYLOAD_SIZE hc = SHM_PAYLOAD_SIZE rc \<and>
     SHM1_DESC_SIZE hc = SHM1_DESC_SIZE rc \<and>
     l_pay ly + SHM_PAYLOAD_RX_OFFSET hc + 16 * 1025 \<le> SHM_PAYLOAD_TX_OFFSET rc \<and>
     SHM_PAYLOAD_TX_OFFSET rc + 16 * 1024 \<le> l_size ly \<and>
     l_base ly + l_size ly < 2 ^ 32"


text \<open>
  Memory-mapped regions: \<open>mem\<close> is the shared memory; the payload region of the host, its two
  descriptor regions and the region of the remote are windows of it, given by their start and
  size; accesses inside a window act on the memory and succeed; physical addresses are offsets
  from the base.  The other calls leave the shared memory alone.
\<close>

definition window :: "'w metal \<Rightarrow> ('w \<Rightarrow> bytes) \<Rightarrow> layout \<Rightarrow> nat \<Rightarrow> nat \<Rightarrow> nat \<Rightarrow> bool" where
  "window io mem ly r st sz \<longleftrightarrow> st + sz \<le> l_size ly \<and>
     (\<forall>off w. off + 4 \<le> sz \<longrightarrow> io_read32 io r off w = get32 (st + off) (mem w)) \<and>
     (\<forall>off v w. off + 4 \<le> sz \<longrightarrow> mem (io_write32 io r off v w) = patch (st + off) (le32 v) (mem w)) \<and>
     (\<forall>off n w. off + n \<le> sz \<longrightarrow> io_block_read io r off n w = (int n, bytes_at (st + off) n (mem w))) \<and>
     (\<forall>off bs w. off + length bs \<le> sz \<longrightarrow> (\<exists>w'. io_block_write io r off bs w = (int (length bs), w') \<and>
        mem w' = patch (st + off) bs (mem w))) \<and>
     (\<forall>off < sz. io_phys io r off = of_nat (l_base ly + st + off)) \<and>
     (\<forall>off < sz. io_phys_to_offset io r (of_nat (l_base ly + st + off)) = Some off)"

definition quiet :: "'w metal \<Rightarrow> ('w \<Rightarrow> bytes) \<Rightarrow> nat \<Rightarrow> bool" where
  "quiet io mem ipi \<longleftrightarrow> (\<forall>off v w. mem (io_write32 io ipi off v w) = mem w) \<and>
     (\<forall>w. mem (snd (timestamp io w)) = mem w)"

text \<open>The handles of the regions on both sides, and everything the two programs rely on.\<close>

definition shm_system ::
    "'w metal \<Rightarrow> config \<Rightarrow> config \<Rightarrow> layout \<Rightarrow> ('w \<Rightarrow> bytes) \<Rightarrow> host_channel \<Rightarrow> remote_channel \<Rightarrow> bool" where
  "shm_system io hc rc ly mem hch rcc \<longleftrightarrow> layout_ok hc rc ly \<and> (\<forall>w. length (mem w) = l_size ly) \<and>
     (\<exists>ds. host_to_remote_desc_io hch = Some ds \<and> window io mem ly ds 0 (SHM0_DESC_SIZE rc)) \<and>
     (\<exists>d1. remote_to_host_desc_io hch = Some d1 \<and> window io mem ly d1 (SHM0_DESC_SIZE rc) (SHM1_DESC_SIZE rc)) \<and>
     (\<exists>p. h_shm_io hch = Some p \<and> window io mem ly p (l_pay ly) (SHM_PAYLOAD_SIZE rc)) \<and>
     (\<exists>s. r_shm_io rcc = Some s \<and> window io mem ly s 0 (l_size ly)) \<and>
     (\<exists>i. h_ipi_io hch = Some i \<and> quiet io mem i) \<and> (\<exists>i. r_ipi_io rcc = Some i \<and> quiet io mem i) \<and>
     (\<forall>w. le64 (fst (timestamp io w)) \<noteq> SHUTDOWN)"

section \<open>The system\<close>

datatype hpc = H_Sending | H_Waiting | H_Draining u32 | H_Done int
datatype rpc = R_Waiting | R_Draining u32 | R_Done int

record 'w sys =
  hv :: host_vars
  hpc :: hpc
  rv :: remote_vars
  rpc :: rpc
  world :: 'w

text \<open>The effect of a kick on the flag of the other side, as its interrupt handler leaves it.\<close>

abbreviation kick_remote :: "remote_vars \<Rightarrow> remote_vars" where
  "kick_remote r \<equiv> r\<lparr>rch := (rch r)\<lparr>irq_pending := False\<rparr>\<rparr>"

abbreviation kick_host :: "host_vars \<Rightarrow> host_vars" where
  "kick_host h \<equiv> h\<lparr>ch := (ch h)\<lparr>remote_nkicked := False\<rparr>\<rparr>"

abbreviation host_takes :: "host_vars \<Rightarrow> host_vars" where
  "host_takes h \<equiv> h\<lparr>ch := (ch h)\<lparr>remote_nkicked := True\<rparr>\<rparr>"

abbreviation remote_takes :: "remote_vars \<Rightarrow> remote_vars" where
  "remote_takes r \<equiv> r\<lparr>rch := (rch r)\<lparr>irq_pending := True\<rparr>\<rparr>"

text \<open>
  The steps follow the loops of \<open>irq_shmem_echo\<close> and \<open>demo\<close>: a wait ends when the flag is clear,
  takes the notification by setting the flag, and reads how many messages there are.
\<close>

inductive sys_step :: "'w metal \<Rightarrow> config \<Rightarrow> config \<Rightarrow> 'w sys \<Rightarrow> 'w sys \<Rightarrow> bool"
  for io hc rc where
  send: "hpc s = H_Sending \<Longrightarrow> i_pkg (hv s) < PKGS_TOTAL \<Longrightarrow>
      host_send io hc (hv s, world s) = Done (Inl (), (h', w')) \<Longrightarrow>
      sys_step io hc rc s (s\<lparr>hv := h', world := w', rv := kick_remote (rv s)\<rparr>)"
| send_error: "hpc s = H_Sending \<Longrightarrow> i_pkg (hv s) < PKGS_TOTAL \<Longrightarrow>
      host_send io hc (hv s, world s) = Done (Inr e, (h', w')) \<Longrightarrow>
      sys_step io hc rc s (s\<lparr>hv := h', world := w', hpc := H_Done e\<rparr>)"
| all_sent: "hpc s = H_Sending \<Longrightarrow> \<not> i_pkg (hv s) < PKGS_TOTAL \<Longrightarrow>
      sys_step io hc rc s (s\<lparr>hv := (hv s)\<lparr>i_pkg := 0, tx_data_offset := SHM_PAYLOAD_RX_OFFSET hc\<rparr>, hpc := H_Waiting\<rparr>)"
| host_wakes: "hpc s = H_Waiting \<Longrightarrow> i_pkg (hv s) \<noteq> PKGS_TOTAL \<Longrightarrow> \<not> remote_nkicked (ch (hv s)) \<Longrightarrow>
      remote_to_host_desc_io (ch (hv s)) = Some d \<Longrightarrow>
      sys_step io hc rc s (s\<lparr>hv := host_takes (hv s), hpc := H_Draining (io_read32 io d SHM_DESC_AVAIL_OFFSET (world s))\<rparr>)"
| verify: "hpc s = H_Draining a \<Longrightarrow> i_pkg (hv s) \<noteq> a \<Longrightarrow>
      host_verify io (hv s, world s) = Done (Inl (), (h', w')) \<Longrightarrow>
      sys_step io hc rc s (s\<lparr>hv := h', world := w'\<rparr>)"
| verify_error: "hpc s = H_Draining a \<Longrightarrow> i_pkg (hv s) \<noteq> a \<Longrightarrow>
      host_verify io (hv s, world s) = Done (Inr e, (h', w')) \<Longrightarrow>
      sys_step io hc rc s (s\<lparr>hv := h', world := w', hpc := H_Done e\<rparr>)"
| host_drained: "hpc s = H_Draining a \<Longrightarrow> i_pkg (hv s) = a \<Longrightarrow> sys_step io hc rc s (s\<lparr>hpc := H_Waiting\<rparr>)"
| shutdown: "hpc s = H_Waiting \<Longrightarrow> i_pkg (hv s) = PKGS_TOTAL \<Longrightarrow>
      host_shutdown io (hv s, world s) = Done (r, (h', w')) \<Longrightarrow>
      sys_step io hc rc s (s\<lparr>hv := h', world := w', hpc := H_Done r, rv := kick_remote (rv s)\<rparr>)"
| remote_wakes: "rpc s = R_Waiting \<Longrightarrow> \<not> irq_pending (rch (rv s)) \<Longrightarrow> r_shm_io (rch (rv s)) = Some d \<Longrightarrow>
      sys_step io hc rc s (s\<lparr>rv := remote_takes (rv s), rpc := R_Draining (io_read32 io d SHM_DESC_AVAIL_OFFSET (world s))\<rparr>)"
| echo: "rpc s = R_Draining a \<Longrightarrow> rx_count (rv s) \<noteq> a \<Longrightarrow>
      remote_echo io rc (rv s, world s) = Done (Inl (), (r', w')) \<Longrightarrow>
      sys_step io hc rc s (s\<lparr>rv := r', world := w', hv := kick_host (hv s)\<rparr>)"
| remote_stops: "rpc s = R_Draining a \<Longrightarrow> rx_count (rv s) \<noteq> a \<Longrightarrow>
      remote_echo io rc (rv s, world s) = Done (Inr e, (r', w')) \<Longrightarrow>
      sys_step io hc rc s (s\<lparr>rv := r', world := w', rpc := R_Done e\<rparr>)"
| remote_drained: "rpc s = R_Draining a \<Longrightarrow> rx_count (rv s) = a \<Longrightarrow> sys_step io hc rc s (s\<lparr>rpc := R_Waiting\<rparr>)"

text \<open>The start: both sides initialised, the descriptors cleared, nothing sent.\<close>

definition sys_init :: "'w metal \<Rightarrow> config \<Rightarrow> config \<Rightarrow> layout \<Rightarrow> ('w \<Rightarrow> bytes) \<Rightarrow> 'w sys \<Rightarrow> bool" where
  "sys_init io hc rc ly mem s \<longleftrightarrow>
     shm_system io hc rc ly mem (ch (hv s)) (rch (rv s)) \<and>
     hpc s = H_Sending \<and> rpc s = R_Waiting \<and>
     get32 0 (mem (world s)) = 0 \<and> get32 (SHM0_DESC_SIZE rc) (mem (world s)) = 0 \<and>
     i_pkg (hv s) = 0 \<and> tx_addr_offset (hv s) = 8 \<and> rx_addr_offset (hv s) = 8 \<and>
     tx_data_offset (hv s) = SHM_PAYLOAD_RX_OFFSET hc \<and> length (txbuf (hv s)) = 512 \<and> length (rxbuf (hv s)) = 512 \<and>
     rx_count (rv s) = 0 \<and> r_rx_addr_offset (rv s) = 8 \<and> r_tx_addr_offset (rv s) = SHM0_DESC_SIZE rc + 8 \<and>
     r_tx_data_offset (rv s) = SHM_PAYLOAD_TX_OFFSET rc \<and> length (lbuf (rv s)) = 512"


section \<open>The contents of the shared memory\<close>

text \<open>
  Where things lie: the first descriptor at 0, the second at \<open>ds\<close>, the messages of the host at
  \<open>hp\<close>, the echoes at \<open>rp\<close>.
\<close>

definition fits :: "nat \<Rightarrow> nat \<Rightarrow> nat \<Rightarrow> nat \<Rightarrow> bool" where
  "fits ds hp rp n \<longleftrightarrow> 8 + 4 * 1025 \<le> ds \<and> ds + 8 + 4 * 1024 \<le> hp \<and> hp + 16 * 1025 \<le> rp \<and> rp + 16 * 1024 \<le> n"

text \<open>Message \<open>k\<close> of the host: only the last one is the shutdown message.\<close>

definition sent_ok :: "nat \<Rightarrow> bytes \<Rightarrow> nat \<Rightarrow> bool" where
  "sent_ok hp m k \<longleftrightarrow> (\<exists>body. length body = 8 \<and> (body = SHUTDOWN \<longleftrightarrow> k = 1024) \<and>
     bytes_at (hp + 16 * k) 16 m = shm_msg (of_nat k) body)"

text \<open>\<open>a\<close> messages are sent and \<open>c\<close> of them are echoed; \<open>pb\<close> is the base address.\<close>

definition h2r_ok :: "nat \<Rightarrow> nat \<Rightarrow> nat \<Rightarrow> bytes \<Rightarrow> bool" where
  "h2r_ok pb hp a m \<longleftrightarrow> get32 0 m = of_nat a \<and>
     (\<forall>k < a. get32 (8 + 4 * k) m = of_nat (pb + hp + 16 * k) \<and> sent_ok hp m k)"

definition r2h_ok :: "nat \<Rightarrow> nat \<Rightarrow> nat \<Rightarrow> nat \<Rightarrow> nat \<Rightarrow> bytes \<Rightarrow> bool" where
  "r2h_ok pb ds hp rp c m \<longleftrightarrow> get32 ds m = of_nat c \<and>
     (\<forall>k < c. get32 (ds + 8 + 4 * k) m = of_nat (pb + rp + 16 * k) \<and>
        bytes_at (rp + 16 * k) 16 m = bytes_at (hp + 16 * k) 16 m)"

text \<open>A write elsewhere changes neither.\<close>

lemma h2r_ok_patch:
  assumes "fits ds hp rp (length m)" and "a \<le> 1025" and "off + length bs \<le> length m"
    and "4 \<le> off" and "8 + 4 * a \<le> off \<or> off + length bs \<le> 8"
    and "off + length bs \<le> hp \<or> hp + 16 * a \<le> off"
  shows "h2r_ok pb hp a (patch off bs m) \<longleftrightarrow> h2r_ok pb hp a m"
proof -
  have "get32 0 (patch off bs m) = get32 0 m" using assms by (intro get32_patch_other) auto
  moreover have "get32 (8 + 4 * k) (patch off bs m) = get32 (8 + 4 * k) m" if "k < a" for k
    using assms that by (intro get32_patch_other) (auto simp: fits_def)
  moreover have "bytes_at (hp + 16 * k) 16 (patch off bs m) = bytes_at (hp + 16 * k) 16 m" if "k < a" for k
    using assms that by (intro bytes_at_patch_other) auto
  ultimately show ?thesis by (simp add: h2r_ok_def sent_ok_def)
qed

lemma r2h_ok_patch:
  assumes "fits ds hp rp (length m)" and "c \<le> 1024" and "off + length bs \<le> length m"
    and "off + length bs \<le> ds \<or> ds + 4 \<le> off" and "off + length bs \<le> ds + 8 \<or> ds + 8 + 4 * c \<le> off"
    and "off + length bs \<le> hp \<or> hp + 16 * c \<le> off" and "off + length bs \<le> rp \<or> rp + 16 * c \<le> off"
  shows "r2h_ok pb ds hp rp c (patch off bs m) \<longleftrightarrow> r2h_ok pb ds hp rp c m"
proof -
  have "get32 ds (patch off bs m) = get32 ds m" using assms by (intro get32_patch_other) auto
  moreover have "get32 (ds + 8 + 4 * k) (patch off bs m) = get32 (ds + 8 + 4 * k) m" if "k < c" for k
    using assms that by (intro get32_patch_other) auto
  moreover have "bytes_at (hp + 16 * k) 16 (patch off bs m) = bytes_at (hp + 16 * k) 16 m"
    "bytes_at (rp + 16 * k) 16 (patch off bs m) = bytes_at (rp + 16 * k) 16 m" if "k < c" for k
    using assms that by (auto intro!: bytes_at_patch_other)
  ultimately show ?thesis by (simp add: r2h_ok_def)
qed

text \<open>
  Publishing a message in the first descriptor: with message \<open>a\<close> in place, its address and the new
  count are written.
\<close>

lemma h2r_publish:
  assumes f: "fits ds hp rp (length m)" and a: "a \<le> 1024"
    and h: "h2r_ok pb hp a m" and s: "sent_ok hp m a"
  shows "h2r_ok pb hp (a + 1) (patch 0 (le32 (of_nat (a + 1))) (patch (8 + 4 * a) (le32 (of_nat (pb + hp + 16 * a))) m))"
proof -
  define m2 where "m2 = patch (8 + 4 * a) (le32 (of_nat (pb + hp + 16 * a))) m"
  define m3 where "m3 = patch 0 (le32 (of_nat (a + 1))) m2"
  have l2: "length m2 = length m" using f a by (simp add: m2_def fits_def)
  have sl: "bytes_at (hp + 16 * k) 16 m3 = bytes_at (hp + 16 * k) 16 m" for k
  proof -
    have "bytes_at (hp + 16 * k) 16 m3 = bytes_at (hp + 16 * k) 16 m2"
      using f l2 unfolding m3_def by (intro bytes_at_patch_other) (auto simp: fits_def)
    also have "\<dots> = bytes_at (hp + 16 * k) 16 m"
      using f a unfolding m2_def by (intro bytes_at_patch_other) (auto simp: fits_def)
    finally show ?thesis .
  qed
  have g: "get32 (8 + 4 * k) m3 = get32 (8 + 4 * k) m2" for k
    using f l2 unfolding m3_def by (intro get32_patch_other) (auto simp: fits_def)
  have "get32 (8 + 4 * k) m2 = get32 (8 + 4 * k) m" if "k < a" for k
    using f a that unfolding m2_def by (intro get32_patch_other) (auto simp: fits_def)
  moreover have "get32 (8 + 4 * a) m2 = of_nat (pb + hp + 16 * a)"
    using f a unfolding m2_def by (intro get32_patch_same) (auto simp: fits_def)
  moreover have "get32 0 m3 = of_nat (a + 1)" using f l2 unfolding m3_def by (intro get32_patch_same) (auto simp: fits_def)
  ultimately have "h2r_ok pb hp (a + 1) m3" using h s g sl by (auto simp: h2r_ok_def sent_ok_def less_Suc_eq)
  then show ?thesis by (simp add: m3_def m2_def)
qed

text \<open>The same for the second descriptor.\<close>

lemma r2h_publish:
  assumes f: "fits ds hp rp (length m)" and c: "c < 1024"
    and r: "r2h_ok pb ds hp rp c m" and s: "bytes_at (rp + 16 * c) 16 m = bytes_at (hp + 16 * c) 16 m"
  shows "r2h_ok pb ds hp rp (c + 1)
    (patch ds (le32 (of_nat (c + 1))) (patch (ds + 8 + 4 * c) (le32 (of_nat (pb + rp + 16 * c))) m))"
proof -
  define m2 where "m2 = patch (ds + 8 + 4 * c) (le32 (of_nat (pb + rp + 16 * c))) m"
  define m3 where "m3 = patch ds (le32 (of_nat (c + 1))) m2"
  have l2: "length m2 = length m" using f c by (simp add: m2_def fits_def)
  have sl: "bytes_at (x + 16 * k) 16 m3 = bytes_at (x + 16 * k) 16 m" if "hp \<le> x" for k x
  proof -
    have "bytes_at (x + 16 * k) 16 m3 = bytes_at (x + 16 * k) 16 m2"
      using f l2 that unfolding m3_def by (intro bytes_at_patch_other) (auto simp: fits_def)
    also have "\<dots> = bytes_at (x + 16 * k) 16 m"
      using f c that unfolding m2_def by (intro bytes_at_patch_other) (auto simp: fits_def)
    finally show ?thesis .
  qed
  have sr: "bytes_at (rp + 16 * k) 16 m3 = bytes_at (rp + 16 * k) 16 m" for k using sl [of rp] f by (simp add: fits_def)
  have g: "get32 (ds + 8 + 4 * k) m3 = get32 (ds + 8 + 4 * k) m2" for k
    using f l2 unfolding m3_def by (intro get32_patch_other) (auto simp: fits_def)
  have "get32 (ds + 8 + 4 * k) m2 = get32 (ds + 8 + 4 * k) m" if "k < c" for k
    using f c that unfolding m2_def by (intro get32_patch_other) (auto simp: fits_def)
  moreover have "get32 (ds + 8 + 4 * c) m2 = of_nat (pb + rp + 16 * c)"
    using f c unfolding m2_def by (intro get32_patch_same) (auto simp: fits_def)
  moreover have "get32 ds m3 = of_nat (c + 1)" using f l2 unfolding m3_def by (intro get32_patch_same) (auto simp: fits_def)
  ultimately have "r2h_ok pb ds hp rp (c + 1) m3" using r s g sl [of hp] sr by (auto simp: r2h_ok_def less_Suc_eq)
  then show ?thesis by (simp add: m3_def m2_def)
qed

text \<open>What sending message \<open>a\<close> does to the memory, and what echoing message \<open>c\<close> does.\<close>

lemma memory_send:
  assumes f: "fits ds hp rp (length m)" and a: "a \<le> 1024" and c: "c \<le> a" "c \<le> 1024"
    and h: "h2r_ok pb hp a m" and r: "r2h_ok pb ds hp rp c m"
    and body: "length body = 8" "body = SHUTDOWN \<longleftrightarrow> a = 1024"
  defines "m' \<equiv> patch 0 (le32 (of_nat (a + 1))) (patch (8 + 4 * a) (le32 (of_nat (pb + hp + 16 * a)))
      (patch (hp + 16 * a) (shm_msg (of_nat a) body) m))"
  shows "h2r_ok pb hp (a + 1) m' \<and> r2h_ok pb ds hp rp c m'"
proof -
  let ?m = "shm_msg (of_nat a) body"
  have l: "length ?m = 16" using body by (simp add: shm_msg_def)
  define m1 where "m1 = patch (hp + 16 * a) ?m m"
  define m2 where "m2 = patch (8 + 4 * a) (le32 (of_nat (pb + hp + 16 * a))) m1"
  have m': "m' = patch 0 (le32 (of_nat (a + 1))) m2" by (simp add: m'_def m1_def m2_def)
  have l1: "length m1 = length m" using f a l by (simp add: m1_def fits_def)
  have l2: "length m2 = length m" using f a l1 by (simp add: m2_def fits_def)
  have f1: "fits ds hp rp (length m1)" "fits ds hp rp (length m2)" using f l1 l2 by simp_all
  have h1: "h2r_ok pb hp a m1"
    using h f a l unfolding m1_def by (subst h2r_ok_patch [where ds = ds and rp = rp]) (auto simp: fits_def)
  have "bytes_at (hp + 16 * a) 16 m1 = ?m" using f a l unfolding m1_def by (intro bytes_at_patch_same) (auto simp: fits_def)
  with body have "sent_ok hp m1 a" by (auto simp: sent_ok_def)
  from h2r_publish [OF f1(1) a h1 this] have "h2r_ok pb hp (a + 1) m'" by (simp add: m' m2_def)
  moreover have "r2h_ok pb ds hp rp c m1" using r f a c l unfolding m1_def by (subst r2h_ok_patch) (auto simp: fits_def)
  then have "r2h_ok pb ds hp rp c m2" using f f1 a c l1 unfolding m2_def by (subst r2h_ok_patch) (auto simp: fits_def)
  then have "r2h_ok pb ds hp rp c m'" using f f1 a c l2 unfolding m' by (subst r2h_ok_patch) (auto simp: fits_def)
  ultimately show ?thesis by simp
qed

lemma memory_echo:
  assumes f: "fits ds hp rp (length m)" and a: "a \<le> 1025" and c: "c < a" "c < 1024"
    and h: "h2r_ok pb hp a m" and r: "r2h_ok pb ds hp rp c m"
  defines "m' \<equiv> patch ds (le32 (of_nat (c + 1))) (patch (ds + 8 + 4 * c) (le32 (of_nat (pb + rp + 16 * c)))
      (patch (rp + 16 * c) (bytes_at (hp + 16 * c) 16 m) (patch 4 (le32 (of_nat (c + 1))) m)))"
  shows "h2r_ok pb hp a m' \<and> r2h_ok pb ds hp rp (c + 1) m'"
proof -
  let ?m = "bytes_at (hp + 16 * c) 16 m"
  define m0 where "m0 = patch 4 (le32 (of_nat (c + 1))) m"
  define m1 where "m1 = patch (rp + 16 * c) ?m m0"
  define m2 where "m2 = patch (ds + 8 + 4 * c) (le32 (of_nat (pb + rp + 16 * c))) m1"
  have m': "m' = patch ds (le32 (of_nat (c + 1))) m2" by (simp add: m'_def m0_def m1_def m2_def)
  have l: "length ?m = 16" using f c by (simp add: length_bytes_at fits_def)
  have l0: "length m0 = length m" using f by (simp add: m0_def fits_def)
  have l1: "length m1 = length m" using f c l l0 by (simp add: m1_def fits_def)
  have l2: "length m2 = length m" using f c l1 by (simp add: m2_def fits_def)
  have f1: "fits ds hp rp (length m0)" "fits ds hp rp (length m1)" "fits ds hp rp (length m2)" using f l0 l1 l2 by simp_all
  have "h2r_ok pb hp a m0"
    using h f a unfolding m0_def by (subst h2r_ok_patch [where ds = ds and rp = rp]) (auto simp: fits_def)
  then have "h2r_ok pb hp a m1"
    using f f1 a c l l0 unfolding m1_def by (subst h2r_ok_patch [where ds = ds and rp = rp]) (auto simp: fits_def)
  then have "h2r_ok pb hp a m2"
    using f f1 a c l1 unfolding m2_def by (subst h2r_ok_patch [where ds = ds and rp = rp]) (auto simp: fits_def)
  then have h': "h2r_ok pb hp a m'"
    using f f1 a c l2 unfolding m' by (subst h2r_ok_patch [where ds = ds and rp = rp]) (auto simp: fits_def)
  have "r2h_ok pb ds hp rp c m0" using r f c unfolding m0_def by (subst r2h_ok_patch) (auto simp: fits_def)
  then have r1: "r2h_ok pb ds hp rp c m1" using f f1 c l l0 unfolding m1_def by (subst r2h_ok_patch) (auto simp: fits_def)
  have "bytes_at (rp + 16 * c) 16 m1 = ?m" using f c l l0 unfolding m1_def by (intro bytes_at_patch_same) (auto simp: fits_def)
  moreover have "bytes_at (hp + 16 * c) 16 m1 = bytes_at (hp + 16 * c) 16 m0"
    using f c l l0 unfolding m1_def by (intro bytes_at_patch_other) (auto simp: fits_def)
  moreover have "bytes_at (hp + 16 * c) 16 m0 = ?m" using f unfolding m0_def by (intro bytes_at_patch_other) (auto simp: fits_def)
  ultimately have "bytes_at (rp + 16 * c) 16 m1 = bytes_at (hp + 16 * c) 16 m1" by simp
  from r2h_publish [OF f1(2) c(2) r1 this] h' show ?thesis by (simp add: m' m2_def)
qed

lemma memory_used:
  assumes f: "fits ds hp rp (length m)" and a: "a \<le> 1025" and c: "c \<le> 1024"
    and "off = 4 \<or> off = ds + 4"
  shows "h2r_ok pb hp a (patch off (le32 u) m) \<longleftrightarrow> h2r_ok pb hp a m"
    and "r2h_ok pb ds hp rp c (patch off (le32 u) m) \<longleftrightarrow> r2h_ok pb ds hp rp c m"
  subgoal using assms by (intro h2r_ok_patch [OF f]) (auto simp: fits_def)
  subgoal using assms by (intro r2h_ok_patch [OF f]) (auto simp: fits_def)
  done


section \<open>One message on each side\<close>

lemma length_SHUTDOWN [simp]: "length SHUTDOWN = 8"
  by (simp add: SHUTDOWN_def)

lemma u32_eq: "a < 2 ^ 32 \<Longrightarrow> b < 2 ^ 32 \<Longrightarrow> (of_nat a :: u32) = of_nat b \<longleftrightarrow> a = b"
  by (simp add: word_of_nat_eq_iff take_bit_nat_eq_self)

lemma u32_less: "a < 2 ^ 32 \<Longrightarrow> b < 2 ^ 32 \<Longrightarrow> (of_nat a :: u32) < of_nat b \<longleftrightarrow> a < b"
  by (simp add: word_less_nat_alt unat_of_nat take_bit_nat_eq_self)

lemma addr32: "n < 2 ^ 32 \<Longrightarrow> ucast (of_nat n :: u64) = (of_nat n :: u32)"
  by (simp add: unsigned_of_nat take_bit_nat_eq_self)

lemma addr64: "n < 2 ^ 32 \<Longrightarrow> ucast (of_nat n :: u32) = (of_nat n :: u64)"
  by (simp add: unsigned_of_nat take_bit_nat_eq_self)

lemma addr_not_bad: "n < 2 ^ 32 - 1 \<Longrightarrow> (of_nat n :: u32) \<noteq> - 1"
proof
  assume n: "n < 2 ^ 32 - 1" and "(of_nat n :: u32) = - 1"
  then have "unat (of_nat n :: u32) = unat (- 1 :: u32)" by simp
  also have "\<dots> = 2 ^ 32 - 1" by (simp add: unsigned_minus_1_eq_mask mask_eq_exp_minus_1)
  finally show False using n by (simp add: unat_of_nat take_bit_nat_eq_self)
qed

text \<open>Accesses inside a window.\<close>

lemma windowD:
  assumes "window io mem ly r st sz"
  shows "off + 4 \<le> sz \<Longrightarrow> io_read32 io r off w = get32 (st + off) (mem w)"
    and "off + 4 \<le> sz \<Longrightarrow> mem (io_write32 io r off v w) = patch (st + off) (le32 v) (mem w)"
    and "off + n \<le> sz \<Longrightarrow> io_block_read io r off n w = (int n, bytes_at (st + off) n (mem w))"
    and "off + length bs \<le> sz \<Longrightarrow> \<exists>w'. io_block_write io r off bs w = (int (length bs), w') \<and> mem w' = patch (st + off) bs (mem w)"
    and "off < sz \<Longrightarrow> io_phys io r off = of_nat (l_base ly + st + off)"
    and "off < sz \<Longrightarrow> io_phys_to_offset io r (of_nat (l_base ly + st + off)) = Some off"
  using assms by (simp_all add: window_def)

lemma window_back:
  assumes "window io mem ly r st sz" and "off < sz" and "l_base ly + l_size ly < 2 ^ 32"
  shows "io_phys_to_offset io r (ucast (of_nat (l_base ly + st + off) :: u32)) = Some off"
proof -
  have "l_base ly + st + off < 2 ^ 32" using assms by (simp add: window_def)
  then show ?thesis using windowD(6) [OF assms(1,2)] by (simp only: addr64)
qed

lemma layout_fits: "layout_ok hc rc ly \<Longrightarrow>
    fits (SHM0_DESC_SIZE rc) (l_pay ly + SHM_PAYLOAD_RX_OFFSET hc) (SHM_PAYLOAD_TX_OFFSET rc) (l_size ly)"
  by (simp add: layout_ok_def fits_def)

text \<open>The memory of a system of which \<open>a\<close> messages are sent and \<open>c\<close> echoed.\<close>

definition mem_ok :: "config \<Rightarrow> config \<Rightarrow> layout \<Rightarrow> nat \<Rightarrow> nat \<Rightarrow> bytes \<Rightarrow> bool" where
  "mem_ok hc rc ly a c m \<longleftrightarrow> length m = l_size ly \<and> c \<le> a \<and> a \<le> 1025 \<and> c \<le> 1024 \<and>
     h2r_ok (l_base ly) (l_pay ly + SHM_PAYLOAD_RX_OFFSET hc) a m \<and>
     r2h_ok (l_base ly) (SHM0_DESC_SIZE rc) (l_pay ly + SHM_PAYLOAD_RX_OFFSET hc) (SHM_PAYLOAD_TX_OFFSET rc) c m"

text \<open>Message \<open>k\<close> of the host as it lies in the memory; the first \<open>a\<close> of them are left as they are.\<close>

definition msg_at :: "config \<Rightarrow> layout \<Rightarrow> bytes \<Rightarrow> nat \<Rightarrow> bytes" where
  "msg_at hc ly m k = bytes_at (l_pay ly + SHM_PAYLOAD_RX_OFFSET hc + 16 * k) 16 m"

definition kept :: "config \<Rightarrow> layout \<Rightarrow> nat \<Rightarrow> bytes \<Rightarrow> bytes \<Rightarrow> bool" where
  "kept hc ly a m m' \<longleftrightarrow> (\<forall>k < a. msg_at hc ly m' k = msg_at hc ly m k)"

lemma kept_refl [simp]: "kept hc ly a m m"
  by (simp add: kept_def)

lemma kept_patch:
  assumes "kept hc ly a m m'" and "off + length bs \<le> length m'"
    and "off + length bs \<le> l_pay ly + SHM_PAYLOAD_RX_OFFSET hc \<or> l_pay ly + SHM_PAYLOAD_RX_OFFSET hc + 16 * a \<le> off"
  shows "kept hc ly a m (patch off bs m')"
proof -
  have "msg_at hc ly (patch off bs m') k = msg_at hc ly m' k" if "k < a" for k
    using assms(2,3) that unfolding msg_at_def by (intro bytes_at_patch_other) auto
  with assms(1) show ?thesis by (simp add: kept_def)
qed

text \<open>The two writes of the host that publish a message, with the message itself.\<close>

lemma host_publishes:
  assumes sys: "shm_system io hc rc ly mem hch rcc" and m: "mem_ok hc rc ly a c (mem w)" and a: "a \<le> 1024"
    and body: "length body = 8" "body = SHUTDOWN \<longleftrightarrow> a = 1024"
    and d: "host_to_remote_desc_io hch = Some d" and p: "h_shm_io hch = Some p" and i: "h_ipi_io hch = Some i"
  shows "\<exists>w1. io_block_write io p (SHM_PAYLOAD_RX_OFFSET hc + 16 * a) (shm_msg (of_nat a) body) w = (16, w1) \<and>
    io_phys io p (SHM_PAYLOAD_RX_OFFSET hc + 16 * a) = of_nat (l_base ly + l_pay ly + (SHM_PAYLOAD_RX_OFFSET hc + 16 * a)) \<and>
    l_base ly + l_pay ly + (SHM_PAYLOAD_RX_OFFSET hc + 16 * a) < 2 ^ 32 - 1 \<and>
    (\<forall>w2. w2 = io_write32 io i x v (io_write32 io d 0 (of_nat (a + 1))
      (io_write32 io d (8 + 4 * a) (of_nat (l_base ly + l_pay ly + (SHM_PAYLOAD_RX_OFFSET hc + 16 * a))) w1)) \<longrightarrow>
     mem_ok hc rc ly (a + 1) c (mem w2) \<and> kept hc ly a (mem w) (mem w2))"
proof -
  from sys d p i have wd: "window io mem ly d 0 (SHM0_DESC_SIZE rc)"
    and wp: "window io mem ly p (l_pay ly) (SHM_PAYLOAD_SIZE rc)" and q: "quiet io mem i"
    and ly: "layout_ok hc rc ly" and len: "\<And>w. length (mem w) = l_size ly" by (auto simp: shm_system_def)
  let ?o = "SHM_PAYLOAD_RX_OFFSET hc + 16 * a"
  have lm: "length (shm_msg (of_nat a) body) = 16" using body by (simp add: shm_msg_def)
  have o: "?o + 16 \<le> SHM_PAYLOAD_SIZE rc" and b: "l_base ly + l_pay ly + ?o < 2 ^ 32 - 1"
    using ly a by (simp_all add: layout_ok_def)
  have d1: "8 + 4 * a + 4 \<le> SHM0_DESC_SIZE rc" "0 + 4 \<le> SHM0_DESC_SIZE rc" using ly a by (simp_all add: layout_ok_def)
  from windowD(4) [OF wp, of ?o "shm_msg (of_nat a) body" w] o lm obtain w1 where
    w1: "io_block_write io p ?o (shm_msg (of_nat a) body) w = (16, w1)"
      "mem w1 = patch (l_pay ly + ?o) (shm_msg (of_nat a) body) (mem w)" by auto
  let ?f = "l_base ly + l_pay ly + ?o"
  have "mem (io_write32 io i x v (io_write32 io d 0 (of_nat (a + 1)) (io_write32 io d (8 + 4 * a) (of_nat ?f) w1)))
      = patch 0 (le32 (of_nat (a + 1))) (patch (8 + 4 * a) (le32 (of_nat ?f)) (mem w1))"
    using q windowD(2) [OF wd d1(1)] windowD(2) [OF wd d1(2)] by (simp add: quiet_def)
  moreover have "fits (SHM0_DESC_SIZE rc) (l_pay ly + SHM_PAYLOAD_RX_OFFSET hc) (SHM_PAYLOAD_TX_OFFSET rc) (length (mem w))"
    using layout_fits [OF ly] by (simp add: len)
  from memory_send [OF this a, of c "l_base ly" body] m a body
  have "mem_ok hc rc ly (a + 1) c (patch 0 (le32 (of_nat (a + 1))) (patch (8 + 4 * a) (le32 (of_nat ?f)) (mem w1)))"
    using layout_fits [OF ly] lm by (auto simp: mem_ok_def w1(2) add.assoc fits_def)
  moreover have "kept hc ly a (mem w) (patch 0 (le32 (of_nat (a + 1))) (patch (8 + 4 * a) (le32 (of_nat ?f)) (mem w1)))"
    unfolding w1(2) using layout_fits [OF ly] lm len [of w] a by (intro kept_patch kept_refl) (auto simp: fits_def)
  ultimately show ?thesis using w1(1) windowD(5) [OF wp, of ?o] o b by (simp add: add.assoc)
qed


text \<open>The host's variables while it sends message \<open>a\<close>, and while it verifies message \<open>v\<close>.\<close>

definition sending :: "config \<Rightarrow> nat \<Rightarrow> host_vars \<Rightarrow> bool" where
  "sending hc a h \<longleftrightarrow> i_pkg h = of_nat a \<and> tx_addr_offset h = 8 + 4 * a \<and> rx_addr_offset h = 8 \<and>
     tx_data_offset h = SHM_PAYLOAD_RX_OFFSET hc + 16 * a \<and> length (txbuf h) = 512 \<and> length (rxbuf h) = 512"

definition verifying :: "config \<Rightarrow> nat \<Rightarrow> host_vars \<Rightarrow> bool" where
  "verifying hc v h \<longleftrightarrow> i_pkg h = of_nat v \<and> tx_addr_offset h = 8 + 4 * 1024 \<and> rx_addr_offset h = 8 + 4 * v \<and>
     tx_data_offset h = SHM_PAYLOAD_RX_OFFSET hc + 16 * v \<and> length (txbuf h) = 512 \<and> length (rxbuf h) = 512"

lemma put_msg: "length bs \<le> 512 - off \<Longrightarrow> off \<le> 512 \<Longrightarrow> length b = 512 \<Longrightarrow>
    put_bytes off bs b = Done (patch off bs b) \<and> length (patch off bs b) = 512"
  by (simp add: put_bytes_def patch_def)

lemma host_send_run:
  assumes sys: "shm_system io hc rc ly mem (ch h) rcc" and m: "mem_ok hc rc ly a c (mem w)"
    and h: "sending hc a h" and a: "a < 1024"
  shows "\<exists>h' w'. host_send io hc (h, w) = Done (Inl (), (h', w')) \<and> ch h' = ch h \<and> sending hc (a + 1) h' \<and>
    mem_ok hc rc ly (a + 1) c (mem w') \<and> kept hc ly a (mem w) (mem w')"
proof -
  from sys obtain d p i where ids: "host_to_remote_desc_io (ch h) = Some d" "h_shm_io (ch h) = Some p" "h_ipi_io (ch h) = Some i"
    and q: "quiet io mem i" and ly: "layout_ok hc rc ly" and ts: "\<And>w. le64 (fst (timestamp io w)) \<noteq> SHUTDOWN"
    by (auto simp: shm_system_def)
  obtain t w0 where t: "timestamp io w = (t, w0)" by fastforce
  have mw0: "mem w0 = mem w" using q t unfolding quiet_def by (metis snd_conv)
  have bd: "length (le64 t) = 8" "le64 t = SHUTDOWN \<longleftrightarrow> a = 1024" using ts [of w] t a by auto
  from host_publishes [OF sys _ _ bd ids, where w = w0 and c = c and x = IPI_TRIG_OFFSET and v = "h_ipi_mask (ch h)"] m mw0 a obtain w1 where
    w1: "io_block_write io p (SHM_PAYLOAD_RX_OFFSET hc + 16 * a) (shm_msg (of_nat a) (le64 t)) w0 = (16, w1)"
      "io_phys io p (SHM_PAYLOAD_RX_OFFSET hc + 16 * a) = of_nat (l_base ly + l_pay ly + (SHM_PAYLOAD_RX_OFFSET hc + 16 * a))"
      "l_base ly + l_pay ly + (SHM_PAYLOAD_RX_OFFSET hc + 16 * a) < 2 ^ 32 - 1"
      "\<forall>w2. w2 = io_write32 io i IPI_TRIG_OFFSET (h_ipi_mask (ch h)) (io_write32 io d 0 (of_nat (a + 1))
        (io_write32 io d (8 + 4 * a) (of_nat (l_base ly + l_pay ly + (SHM_PAYLOAD_RX_OFFSET hc + 16 * a))) w1)) \<longrightarrow>
        mem_ok hc rc ly (a + 1) c (mem w2) \<and> kept hc ly a (mem w) (mem w2)"
    by auto
  define f where "f = l_base ly + l_pay ly + (SHM_PAYLOAD_RX_OFFSET hc + 16 * a)"
  have f: "f < 2 ^ 32 - 1" using w1(3) by (simp only: f_def)
  have ad: "ucast (of_nat f :: u64) = (of_nat f :: u32)" "(of_nat f :: u32) \<noteq> - 1"
    using f addr_not_bad [OF f] by (auto intro: addr32)
  have lm: "length (shm_msg (of_nat a) (le64 t)) = 16" by (simp add: shm_msg_def)
  from put_msg [of "shm_msg (of_nat a) (le64 t)" 0 "txbuf h"] h lm obtain tb where
    tb: "put_bytes 0 (shm_msg (of_nat a) (le64 t)) (txbuf h) = Done tb" "length tb = 512" by (auto simp: sending_def)
  have nw: "\<not> SHM0_DESC_SIZE hc \<le> 8 + 4 * a + 4" using ly a by (simp add: layout_ok_def)
  have one: "of_nat a + 1 = (of_nat (a + 1) :: u32)" by simp
  have "host_send io hc (h, w) = Done (Inl (), (h\<lparr>txbuf := tb, tx_data_offset := SHM_PAYLOAD_RX_OFFSET hc + 16 * a + 16,
       tx_addr_offset := 8 + 4 * a + 4, i_pkg := of_nat (a + 1)\<rparr>,
      io_write32 io i IPI_TRIG_OFFSET (h_ipi_mask (ch h)) (io_write32 io d 0 (of_nat (a + 1)) (io_write32 io d (8 + 4 * a) (of_nat f) w1))))"
    using h t ids w1(1,2) tb(1) ad lm nw unfolding f_def [symmetric] sending_def host_send_def irq_kick_def
    by (simp add: Let_def shm_consts one)
  with w1(4) h tb(2) show ?thesis by (auto simp: sending_def f_def)
qed

lemma host_shutdown_run:
  assumes sys: "shm_system io hc rc ly mem (ch h) rcc" and m: "mem_ok hc rc ly 1024 c (mem w)"
    and h: "verifying hc 1024 h"
  shows "\<exists>h' w'. host_shutdown io (h, w) = Done (0, (h', w')) \<and> ch h' = ch h \<and> mem_ok hc rc ly 1025 c (mem w') \<and>
    kept hc ly 1024 (mem w) (mem w')"
proof -
  from sys obtain d p i where ids: "host_to_remote_desc_io (ch h) = Some d" "h_shm_io (ch h) = Some p" "h_ipi_io (ch h) = Some i"
    and ly: "layout_ok hc rc ly" by (auto simp: shm_system_def)
  have bd: "length SHUTDOWN = 8" "SHUTDOWN = SHUTDOWN \<longleftrightarrow> (1024 :: nat) = 1024" by (simp_all add: SHUTDOWN_def)
  from host_publishes [OF sys m _ bd ids, where x = IPI_TRIG_OFFSET and v = "h_ipi_mask (ch h)"] obtain w1 where
    w1: "io_block_write io p (SHM_PAYLOAD_RX_OFFSET hc + 16 * 1024) (shm_msg (of_nat 1024) SHUTDOWN) w = (16, w1)"
      "io_phys io p (SHM_PAYLOAD_RX_OFFSET hc + 16 * 1024) = of_nat (l_base ly + l_pay ly + (SHM_PAYLOAD_RX_OFFSET hc + 16 * 1024))"
      "l_base ly + l_pay ly + (SHM_PAYLOAD_RX_OFFSET hc + 16 * 1024) < 2 ^ 32 - 1"
      "\<forall>w2. w2 = io_write32 io i IPI_TRIG_OFFSET (h_ipi_mask (ch h)) (io_write32 io d 0 (of_nat (1024 + 1))
        (io_write32 io d (8 + 4 * 1024) (of_nat (l_base ly + l_pay ly + (SHM_PAYLOAD_RX_OFFSET hc + 16 * 1024))) w1)) \<longrightarrow>
        mem_ok hc rc ly (1024 + 1) c (mem w2) \<and> kept hc ly 1024 (mem w) (mem w2)"
    by auto
  define f where "f = l_base ly + l_pay ly + (SHM_PAYLOAD_RX_OFFSET hc + 16 * 1024)"
  have f: "f < 2 ^ 32 - 1" using w1(3) by (simp only: f_def)
  have ad: "ucast (of_nat f :: u64) = (of_nat f :: u32)" "(of_nat f :: u32) \<noteq> - 1"
    using f addr_not_bad [OF f] by (auto intro: addr32)
  have lm: "length (shm_msg (of_nat 1024) SHUTDOWN @ [0]) = 17" by (simp add: shm_msg_def SHUTDOWN_def)
  from put_msg [of "shm_msg (of_nat 1024) SHUTDOWN @ [0]" 0 "txbuf h"] h lm obtain tb where
    tb: "put_bytes 0 (shm_msg (of_nat 1024) SHUTDOWN @ [0]) (txbuf h) = Done tb" by (auto simp: verifying_def)
  have "host_shutdown io (h, w) = Done (0, (h\<lparr>txbuf := tb\<rparr>,
      io_write32 io i IPI_TRIG_OFFSET (h_ipi_mask (ch h)) (io_write32 io d 0 (of_nat (1024 + 1)) (io_write32 io d (8 + 4 * 1024) (of_nat f) w1))))"
    using h ids w1(1,2) tb(1) ad unfolding f_def [symmetric] verifying_def host_shutdown_def irq_kick_def
    by (simp add: Let_def shm_consts PKGS_TOTAL_def)
  with w1(4) show ?thesis by (auto simp: f_def)
qed


text \<open>The two parts of a message, and reading them into a buffer.\<close>

lemma shm_msg_split:
  assumes "bytes_at off 16 m = shm_msg i body" and "length body = 8"
  shows "bytes_at off 8 m = le32 i @ le32 8" and "bytes_at (off + 8) 8 m = body"
proof -
  have e: "bytes_at off 8 m @ bytes_at (off + 8) 8 m = (le32 i @ le32 8) @ body"
    using assms bytes_at_split [of off 8 8 m] by (simp add: shm_msg_def)
  have "length (bytes_at off 16 m) = 16" using assms by (simp add: shm_msg_def)
  then have "length (bytes_at off 8 m) = length (le32 i @ le32 8)" by (simp add: bytes_at_def)
  with e append_eq_append_conv [of "bytes_at off 8 m" "le32 i @ le32 8" "bytes_at (off + 8) 8 m" body]
  show "bytes_at off 8 m = le32 i @ le32 8" and "bytes_at (off + 8) 8 m = body" by blast+
qed

lemma header_read:
  "get32 0 (patch 0 (le32 i @ le32 n) b) = i" "get32 4 (patch 0 (le32 i @ le32 n) b) = n"
  using get32_append [of "le32 i" 4 n "drop 8 b"] by (simp_all add: patch_def get32_hd)

lemma two_reads: "length hh = 8 \<Longrightarrow> 8 + length bd \<le> length b \<Longrightarrow>
    take (8 + length bd) (patch 8 bd (patch 0 hh b)) = hh @ bd \<and> take (length bd) (drop 8 (patch 8 bd (patch 0 hh b))) = bd"
  by (simp add: patch_def)

text \<open>What the host reads of echo \<open>v\<close>: its address, the two parts of the echo, and the message it was made from.\<close>

lemma host_reads:
  assumes sys: "shm_system io hc rc ly mem hch rcc" and m: "mem_ok hc rc ly a c (mem w)" and v: "v < c"
    and ids: "remote_to_host_desc_io hch = Some d" "h_shm_io hch = Some p"
  shows "\<exists>rx body. io_read32 io d (8 + 4 * v) w = of_nat (l_base ly + l_pay ly + rx) \<and>
    io_phys_to_offset io p (ucast (of_nat (l_base ly + l_pay ly + rx) :: u32)) = Some rx \<and> length body = 8 \<and>
    io_block_read io p rx 8 w = (8, le32 (of_nat v) @ le32 8) \<and> io_block_read io p (rx + 8) 8 w = (8, body) \<and>
    bytes_at (l_pay ly + (SHM_PAYLOAD_RX_OFFSET hc + 16 * v)) 16 (mem w) = shm_msg (of_nat v) body"
proof -
  from sys ids have wd: "window io mem ly d (SHM0_DESC_SIZE rc) (SHM1_DESC_SIZE rc)"
    and wp: "window io mem ly p (l_pay ly) (SHM_PAYLOAD_SIZE rc)"
    and ly: "layout_ok hc rc ly" by (auto simp: shm_system_def)
  from m have ca: "c \<le> a" "c \<le> 1024" by (auto simp: mem_ok_def)
  define rx where "rx = SHM_PAYLOAD_TX_OFFSET rc + 16 * v - l_pay ly"
  have rx: "l_pay ly + rx = SHM_PAYLOAD_TX_OFFSET rc + 16 * v" "rx + 16 \<le> SHM_PAYLOAD_SIZE rc"
    using ly v ca by (auto simp: rx_def layout_ok_def)
  from m v have adr: "get32 (SHM0_DESC_SIZE rc + (8 + 4 * v)) (mem w) = of_nat (l_base ly + l_pay ly + rx)"
    and same: "bytes_at (l_pay ly + rx) 16 (mem w) = bytes_at (l_pay ly + (SHM_PAYLOAD_RX_OFFSET hc + 16 * v)) 16 (mem w)"
    using rx(1) by (auto simp: mem_ok_def r2h_ok_def add.assoc)
  have "sent_ok (l_pay ly + SHM_PAYLOAD_RX_OFFSET hc) (mem w) v" using m v ca by (auto simp: mem_ok_def h2r_ok_def)
  then obtain body where body: "length body = 8"
    "bytes_at (l_pay ly + (SHM_PAYLOAD_RX_OFFSET hc + 16 * v)) 16 (mem w) = shm_msg (of_nat v) body"
    by (auto simp: sent_ok_def add.assoc)
  with same have msg: "bytes_at (l_pay ly + rx) 16 (mem w) = shm_msg (of_nat v) body" by simp
  have "io_read32 io d (8 + 4 * v) w = of_nat (l_base ly + l_pay ly + rx)"
    using windowD(1) [OF wd, of "8 + 4 * v" w] ly v ca adr by (simp add: layout_ok_def)
  moreover have "io_phys_to_offset io p (ucast (of_nat (l_base ly + l_pay ly + rx) :: u32)) = Some rx"
    using ly rx(2) by (intro window_back [OF wp]) (auto simp: layout_ok_def)
  moreover have "io_block_read io p rx 8 w = (8, le32 (of_nat v) @ le32 8)"
    using windowD(3) [OF wp, of rx 8 w] rx(2) shm_msg_split(1) [OF msg body(1)] by simp
  moreover have "io_block_read io p (rx + 8) 8 w = (8, body)"
    using windowD(3) [OF wp, of "rx + 8" 8 w] rx(2) shm_msg_split(2) [OF msg body(1)] by (simp add: add.assoc)
  ultimately show ?thesis using body by blast
qed

lemma host_verify_run:
  assumes sys: "shm_system io hc rc ly mem (ch h) rcc" and m: "mem_ok hc rc ly a c (mem w)"
    and h: "verifying hc v h" and v: "v < c"
  shows "\<exists>h' w'. host_verify io (h, w) = Done (Inl (), (h', w')) \<and> ch h' = ch h \<and> verifying hc (v + 1) h' \<and>
    mem_ok hc rc ly a c (mem w') \<and> kept hc ly a (mem w) (mem w')"
proof -
  from sys obtain d p where ids: "remote_to_host_desc_io (ch h) = Some d" "h_shm_io (ch h) = Some p"
    and wd: "window io mem ly d (SHM0_DESC_SIZE rc) (SHM1_DESC_SIZE rc)"
    and wp: "window io mem ly p (l_pay ly) (SHM_PAYLOAD_SIZE rc)"
    and ly: "layout_ok hc rc ly" by (auto simp: shm_system_def)
  from m have lm: "length (mem w) = l_size ly" and ca: "c \<le> a" "c \<le> 1024" "a \<le> 1025" by (auto simp: mem_ok_def)
  have tx: "SHM_PAYLOAD_RX_OFFSET hc + 16 * v + 16 \<le> SHM_PAYLOAD_SIZE rc" using ly v ca by (simp add: layout_ok_def)
  from host_reads [OF sys m v ids] obtain rx body where
    rd: "io_read32 io d (8 + 4 * v) w = of_nat (l_base ly + l_pay ly + rx)"
      "io_phys_to_offset io p (ucast (of_nat (l_base ly + l_pay ly + rx) :: u32)) = Some rx"
      "io_block_read io p rx 8 w = (8, le32 (of_nat v) @ le32 8)" "io_block_read io p (rx + 8) 8 w = (8, body)"
    and body: "length body = 8"
      "bytes_at (l_pay ly + (SHM_PAYLOAD_RX_OFFSET hc + 16 * v)) 16 (mem w) = shm_msg (of_nat v) body" by blast
  define w1 where "w1 = io_write32 io d 4 (of_nat v + 1) w"
  have mw1: "mem w1 = patch (SHM0_DESC_SIZE rc + 4) (le32 (of_nat v + 1)) (mem w)"
    using windowD(2) [OF wd, of 4] ly by (simp add: w1_def layout_ok_def)
  have f: "fits (SHM0_DESC_SIZE rc) (l_pay ly + SHM_PAYLOAD_RX_OFFSET hc) (SHM_PAYLOAD_TX_OFFSET rc) (length (mem w))"
    using layout_fits [OF ly] lm by simp
  have m1: "mem_ok hc rc ly a c (mem w1)"
    using m memory_used [OF f ca(3) ca(2), of "SHM0_DESC_SIZE rc + 4"] f by (simp add: mem_ok_def mw1 fits_def)
  have "bytes_at (l_pay ly + (SHM_PAYLOAD_RX_OFFSET hc + 16 * v)) 16 (mem w1) = shm_msg (of_nat v) body"
    using f by (simp add: body(2) mw1 bytes_at_patch_other fits_def)
  then have b3: "io_block_read io p (SHM_PAYLOAD_RX_OFFSET hc + 16 * v) 16 w1 = (16, shm_msg (of_nat v) body)"
    using windowD(3) [OF wp, of "SHM_PAYLOAD_RX_OFFSET hc + 16 * v" 16 w1] tx by (simp add: add.assoc)
  define rb where "rb = patch 8 body (patch 0 (le32 (of_nat v) @ le32 8) (rxbuf h))"
  define tb where "tb = patch 0 (shm_msg (of_nat v) body) (txbuf h)"
  have "length (rxbuf h) = 512" "length (txbuf h) = 512" using h by (simp_all add: verifying_def)
  then have eq: "take 16 rb = take 16 tb" "length rb = 512" "length tb = 512" "put_bytes 0 (shm_msg (of_nat v) body) (txbuf h) = Done tb"
    "put_bytes 0 (le32 (of_nat v) @ le32 8) (rxbuf h) = Done (patch 0 (le32 (of_nat v) @ le32 8) (rxbuf h))"
    "put_bytes 8 body (patch 0 (le32 (of_nat v) @ le32 8) (rxbuf h)) = Done rb"
    using body(1) two_reads [of "le32 (of_nat v) @ le32 8" body "rxbuf h"]
    by (simp_all add: rb_def tb_def put_bytes_def patch_def shm_msg_def)
  have "host_verify io (h, w) = Done (Inl (), (h\<lparr>rx_addr_offset := 8 + 4 * v + 4, rxbuf := rb, txbuf := tb,
       tx_data_offset := SHM_PAYLOAD_RX_OFFSET hc + 16 * v + 16, i_pkg := of_nat v + 1\<rparr>, w1))"
    using h ids rd b3 eq unfolding verifying_def host_verify_def
    by (simp add: shm_consts header_read w1_def [symmetric])
  moreover have "kept hc ly a (mem w) (mem w1)" using f unfolding mw1 by (intro kept_patch kept_refl) (auto simp: fits_def)
  ultimately show ?thesis using m1 h eq(2,3) by (auto simp: verifying_def)
qed


text \<open>The variables of the remote after \<open>c\<close> echoes.\<close>

definition serving :: "config \<Rightarrow> nat \<Rightarrow> remote_vars \<Rightarrow> bool" where
  "serving rc c r \<longleftrightarrow> rx_count r = of_nat c \<and> r_rx_addr_offset r = 8 + 4 * c \<and>
     r_tx_addr_offset r = SHM0_DESC_SIZE rc + 8 + 4 * c \<and>
     r_tx_data_offset r = SHM_PAYLOAD_TX_OFFSET rc + 16 * c \<and> length (lbuf r) = 512"

text \<open>What the remote reads of message \<open>c\<close>.\<close>

lemma remote_reads:
  assumes sys: "shm_system io hc rc ly mem hch rcc" and m: "mem_ok hc rc ly a c (mem w)" and c: "c < a"
    and s: "r_shm_io rcc = Some s"
  shows "\<exists>rx body. io_read32 io s (8 + 4 * c) w = of_nat (l_base ly + rx) \<and>
    io_phys_to_offset io s (ucast (of_nat (l_base ly + rx) :: u32)) = Some rx \<and>
    length body = 8 \<and> (body = SHUTDOWN \<longleftrightarrow> c = 1024) \<and>
    bytes_at rx 16 (mem w) = shm_msg (of_nat c) body \<and> rx = l_pay ly + SHM_PAYLOAD_RX_OFFSET hc + 16 * c \<and>
    io_block_read io s rx 8 w = (8, le32 (of_nat c) @ le32 8) \<and> io_block_read io s (rx + 8) 8 w = (8, body)"
proof -
  from sys s have ws: "window io mem ly s 0 (l_size ly)" and ly: "layout_ok hc rc ly" by (auto simp: shm_system_def)
  from m have ca: "c \<le> 1024" "a \<le> 1025" by (auto simp: mem_ok_def)
  define rx where "rx = l_pay ly + SHM_PAYLOAD_RX_OFFSET hc + 16 * c"
  have rx: "rx + 16 \<le> l_size ly" using ly ca by (simp add: rx_def layout_ok_def)
  have "sent_ok (l_pay ly + SHM_PAYLOAD_RX_OFFSET hc) (mem w) c" using m c by (auto simp: mem_ok_def h2r_ok_def)
  then obtain body where body: "length body = 8" "body = SHUTDOWN \<longleftrightarrow> c = 1024"
    "bytes_at rx 16 (mem w) = shm_msg (of_nat c) body" by (auto simp: sent_ok_def rx_def)
  have "get32 (8 + 4 * c) (mem w) = of_nat (l_base ly + rx)"
    using m c by (auto simp: mem_ok_def h2r_ok_def rx_def add.assoc)
  then have "io_read32 io s (8 + 4 * c) w = of_nat (l_base ly + rx)"
    using windowD(1) [OF ws, of "8 + 4 * c" w] ly ca by (simp add: layout_ok_def)
  moreover have "io_phys_to_offset io s (ucast (of_nat (l_base ly + 0 + rx) :: u32)) = Some rx"
    using ly rx by (intro window_back [OF ws]) (auto simp: layout_ok_def)
  moreover have "io_block_read io s rx 8 w = (8, le32 (of_nat c) @ le32 8)"
    using windowD(3) [OF ws, of rx 8 w] rx shm_msg_split(1) [OF body(3,1)] by simp
  moreover have "io_block_read io s (rx + 8) 8 w = (8, body)"
    using windowD(3) [OF ws, of "rx + 8" 8 w] rx shm_msg_split(2) [OF body(3,1)] by simp
  ultimately show ?thesis using body rx_def by (intro exI [of _ rx] exI [of _ body]) simp
qed

lemma lbuf_reads:
  fixes i :: u32
  assumes "length (lbuf r) = 512" and "length body = 8"
  defines "lb \<equiv> patch 8 body (patch 0 (le32 i @ le32 8) (lbuf r))"
  shows "put_bytes 0 (le32 i @ le32 8) (lbuf r) = Done (patch 0 (le32 i @ le32 8) (lbuf r))"
    and "put_bytes 8 body (patch 0 (le32 i @ le32 8) (lbuf r)) = Done lb"
    and "length lb = 512" and "take 16 lb = shm_msg i body" and "take 8 (drop 8 lb) = body"
  using assms two_reads [of "le32 i @ le32 8" body "lbuf r"]
  by (simp_all add: put_bytes_def patch_def shm_msg_def)

text \<open>What the remote writes for echo \<open>c\<close>: the used count, the message, its address, and the count of echoes last.\<close>

lemma remote_publishes:
  fixes ly :: layout
  assumes sys: "shm_system io hc rc ly mem hch rcc" and m: "mem_ok hc rc ly a c (mem w)" and c: "c < a" "c < 1024"
    and ids: "r_shm_io rcc = Some s" "r_ipi_io rcc = Some i" and body: "length body = 8"
    and msg: "bytes_at (l_pay ly + SHM_PAYLOAD_RX_OFFSET hc + 16 * c) 16 (mem w) = shm_msg (of_nat c) body"
  defines "o' \<equiv> SHM_PAYLOAD_TX_OFFSET rc + 16 * c" and "f \<equiv> l_base ly + (SHM_PAYLOAD_TX_OFFSET rc + 16 * c)"
  shows "\<exists>w2. io_block_write io s o' (shm_msg (of_nat c) body) (io_write32 io s 4 (of_nat c + 1) w) = (16, w2) \<and>
    ucast (io_phys io s o') = (of_nat f :: u32) \<and> (of_nat f :: u32) \<noteq> - 1 \<and>
    (\<forall>x v w3. w3 = io_write32 io i x v (io_write32 io s (SHM0_DESC_SIZE rc) (of_nat c + 1)
       (io_write32 io s (SHM0_DESC_SIZE rc + 8 + 4 * c) (of_nat f) w2)) \<longrightarrow>
       mem_ok hc rc ly a (c + 1) (mem w3) \<and> kept hc ly a (mem w) (mem w3))"
proof -
  from sys ids have q: "quiet io mem i" and ws: "window io mem ly s 0 (l_size ly)" and ly: "layout_ok hc rc ly"
    by (auto simp: shm_system_def)
  define w1 where "w1 = io_write32 io s 4 (of_nat c + 1) w"
  have mw1: "mem w1 = patch 4 (le32 (of_nat (c + 1))) (mem w)"
    using windowD(2) [OF ws, of 4 "of_nat c + 1" w] ly by (simp add: w1_def layout_ok_def add.commute)
  have o: "o' + 16 \<le> l_size ly" using ly c by (simp add: o'_def layout_ok_def)
  have lmsg: "length (shm_msg (of_nat c) body) = 16" using body by (simp add: shm_msg_def)
  with windowD(4) [OF ws, of o' "shm_msg (of_nat c) body" w1] o obtain w2 where
    w2: "io_block_write io s o' (shm_msg (of_nat c) body) w1 = (16, w2)"
      "mem w2 = patch o' (shm_msg (of_nat c) body) (mem w1)" by auto
  have fb: "f < 2 ^ 32 - 1" using ly c by (simp add: f_def layout_ok_def)
  have ph: "ucast (io_phys io s o') = (of_nat f :: u32)" "(of_nat f :: u32) \<noteq> - 1"
    using windowD(5) [OF ws, of o'] o fb addr32 [of f] addr_not_bad [OF fb] by (auto simp: f_def o'_def add.assoc)
  have ft: "fits (SHM0_DESC_SIZE rc) (l_pay ly + SHM_PAYLOAD_RX_OFFSET hc) (SHM_PAYLOAD_TX_OFFSET rc) (length (mem w))"
    using layout_fits [OF ly] m by (simp add: mem_ok_def)
  have m0: "h2r_ok (l_base ly) (l_pay ly + SHM_PAYLOAD_RX_OFFSET hc) a (mem w)" "a \<le> 1025"
    "r2h_ok (l_base ly) (SHM0_DESC_SIZE rc) (l_pay ly + SHM_PAYLOAD_RX_OFFSET hc) (SHM_PAYLOAD_TX_OFFSET rc) c (mem w)"
    using m by (simp_all add: mem_ok_def)
  have "mem_ok hc rc ly a (c + 1) (mem w3) \<and> kept hc ly a (mem w) (mem w3)"
    if w3: "w3 = io_write32 io i x v (io_write32 io s (SHM0_DESC_SIZE rc) (of_nat c + 1)
      (io_write32 io s (SHM0_DESC_SIZE rc + 8 + 4 * c) (of_nat f) w2))" for x v w3
  proof -
    have mw3: "mem w3 = patch (SHM0_DESC_SIZE rc) (le32 (of_nat (c + 1))) (patch (SHM0_DESC_SIZE rc + 8 + 4 * c) (le32 (of_nat f)) (mem w2))"
      using q windowD(2) [OF ws, of "SHM0_DESC_SIZE rc"] windowD(2) [OF ws, of "SHM0_DESC_SIZE rc + 8 + 4 * c"] ly c
      by (simp add: w3 quiet_def layout_ok_def add.commute)
    then have "mem w3 = patch (SHM0_DESC_SIZE rc) (le32 (of_nat (c + 1)))
        (patch (SHM0_DESC_SIZE rc + 8 + 4 * c) (le32 (of_nat (l_base ly + SHM_PAYLOAD_TX_OFFSET rc + 16 * c)))
        (patch (SHM_PAYLOAD_TX_OFFSET rc + 16 * c) (bytes_at (l_pay ly + SHM_PAYLOAD_RX_OFFSET hc + 16 * c) 16 (mem w))
          (patch 4 (le32 (of_nat (c + 1))) (mem w))))"
      unfolding w2(2) mw1 msg f_def o'_def by (simp only: add.assoc)
    moreover have "length (mem w3) = l_size ly" using sys by (simp add: shm_system_def)
    ultimately have "mem_ok hc rc ly a (c + 1) (mem w3)"
      using memory_echo [OF ft _ c] c m0 by (simp only: mem_ok_def) simp
    moreover have "kept hc ly a (mem w) (mem w3)"
      unfolding mw3 w2(2) mw1 o'_def using ft c lmsg \<open>a \<le> 1025\<close> by (intro kept_patch kept_refl) (auto simp: fits_def)
    ultimately show ?thesis ..
  qed
  with w2(1) ph show ?thesis unfolding w1_def by blast
qed

lemma remote_echo_run:
  assumes sys: "shm_system io hc rc ly mem hch (rch r)" and m: "mem_ok hc rc ly a c (mem w)"
    and r: "serving rc c r" and c: "c < a" "c < 1024"
  shows "\<exists>r' w'. remote_echo io rc (r, w) = Done (Inl (), (r', w')) \<and> rch r' = rch r \<and> serving rc (c + 1) r' \<and>
    mem_ok hc rc ly a (c + 1) (mem w') \<and> kept hc ly a (mem w) (mem w')"
proof -
  from sys obtain s i where ids: "r_shm_io (rch r) = Some s" "r_ipi_io (rch r) = Some i" by (auto simp: shm_system_def)
  from remote_reads [OF sys m c(1) ids(1)] c obtain rx body where
    rd: "io_read32 io s (8 + 4 * c) w = of_nat (l_base ly + rx)"
      "io_phys_to_offset io s (ucast (of_nat (l_base ly + rx) :: u32)) = Some rx"
      "io_block_read io s rx 8 w = (8, le32 (of_nat c) @ le32 8)" "io_block_read io s (rx + 8) 8 w = (8, body)"
    and body: "length body = 8" "body \<noteq> SHUTDOWN"
    and msg: "bytes_at (l_pay ly + SHM_PAYLOAD_RX_OFFSET hc + 16 * c) 16 (mem w) = shm_msg (of_nat c) body" by auto
  define lb where "lb = patch 8 body (patch 0 (le32 (of_nat c) @ le32 8) (lbuf r))"
  have lr: "length (lbuf r) = 512" using r by (simp add: serving_def)
  note lb = lbuf_reads [OF lr body(1), of "of_nat c", folded lb_def]
  let ?o = "SHM_PAYLOAD_TX_OFFSET rc + 16 * c"
  define f where "f = l_base ly + ?o"
  from remote_publishes [OF sys m c ids body(1) msg, folded f_def] obtain w2 where
    w2: "io_block_write io s ?o (shm_msg (of_nat c) body) (io_write32 io s 4 (of_nat c + 1) w) = (16, w2)"
    and ph: "ucast (io_phys io s ?o) = (of_nat f :: u32)" "(of_nat f :: u32) \<noteq> - 1"
    and fin: "\<And>x v w3. w3 = io_write32 io i x v (io_write32 io s (SHM0_DESC_SIZE rc) (of_nat c + 1)
       (io_write32 io s (SHM0_DESC_SIZE rc + 8 + 4 * c) (of_nat f) w2)) \<Longrightarrow>
       mem_ok hc rc ly a (c + 1) (mem w3) \<and> kept hc ly a (mem w) (mem w3)" by blast
  define w3 where "w3 = io_write32 io i IPI_TRIG_OFFSET (r_ipi_mask (rch r))
      (io_write32 io s (SHM0_DESC_SIZE rc) (of_nat c + 1) (io_write32 io s (SHM0_DESC_SIZE rc + 8 + 4 * c) (of_nat f) w2))"
  have "remote_echo io rc (r, w) = Done (Inl (), (r\<lparr>r_rx_addr_offset := 8 + 4 * c + 4, lbuf := lb, rx_count := of_nat c + 1,
      r_tx_data_offset := ?o + 16, r_tx_addr_offset := SHM0_DESC_SIZE rc + 8 + 4 * c + 4\<rparr>, w3))"
    using r ids rd lb body w2 ph unfolding serving_def remote_echo_def remote_irq_kick_def
    by (simp add: shm_consts header_read Let_def BUF_SIZE_MAX_def w3_def [symmetric])
  then show ?thesis using fin [OF w3_def] r lb(3) by (auto simp: serving_def)
qed


lemma remote_stop_run:
  assumes sys: "shm_system io hc rc ly mem hch (rch r)" and m: "mem_ok hc rc ly 1025 1024 (mem w)"
    and r: "serving rc 1024 r"
  shows "\<exists>r' w'. remote_echo io rc (r, w) = Done (Inr 0, (r', w')) \<and> rch r' = rch r \<and> mem_ok hc rc ly 1025 1024 (mem w') \<and>
    kept hc ly 1025 (mem w) (mem w')"
proof -
  from sys obtain s where s: "r_shm_io (rch r) = Some s"
    and ws: "window io mem ly s 0 (l_size ly)" and ly: "layout_ok hc rc ly" by (auto simp: shm_system_def)
  have "(1024 :: nat) < 1025" by simp
  from remote_reads [OF sys m this s] obtain rx body where
    rd0: "io_read32 io s (8 + 4 * 1024) w = of_nat (l_base ly + rx)"
      "io_phys_to_offset io s (ucast (of_nat (l_base ly + rx) :: u32)) = Some rx"
      "io_block_read io s rx 8 w = (8, le32 (of_nat 1024) @ le32 8)" "io_block_read io s (rx + 8) 8 w = (8, body)"
    and "body = SHUTDOWN \<longleftrightarrow> (1024 :: nat) = 1024" by blast
  then have rd: "io_read32 io s (8 + 4 * 1024) w = of_nat (l_base ly + rx)"
      "io_phys_to_offset io s (ucast (of_nat (l_base ly + rx) :: u32)) = Some rx"
      "io_block_read io s rx 8 w = (8, le32 (of_nat 1024) @ le32 8)" "io_block_read io s (rx + 8) 8 w = (8, SHUTDOWN)"
    by (simp_all only: refl eq_True)
  define lb where "lb = patch 8 SHUTDOWN (patch 0 (le32 (of_nat 1024) @ le32 8) (lbuf r))"
  have lr: "length (lbuf r) = 512" using r by (simp add: serving_def)
  note lb = lbuf_reads [OF lr length_SHUTDOWN, of "of_nat 1024", folded lb_def]
  define w1 where "w1 = io_write32 io s 4 (of_nat 1024 + 1) w"
  have mw1: "mem w1 = patch 4 (le32 (of_nat 1024 + 1)) (mem w)"
    using windowD(2) [OF ws, of 4 "of_nat 1024 + 1" w] ly by (simp add: w1_def layout_ok_def)
  have ft: "fits (SHM0_DESC_SIZE rc) (l_pay ly + SHM_PAYLOAD_RX_OFFSET hc) (SHM_PAYLOAD_TX_OFFSET rc) (length (mem w))"
    using layout_fits [OF ly] m by (simp add: mem_ok_def)
  have "mem_ok hc rc ly 1025 1024 (mem w1)"
    using m memory_used [OF ft, of 1025 1024 4] ft by (simp add: mem_ok_def mw1 fits_def)
  moreover have "kept hc ly 1025 (mem w) (mem w1)" using ft unfolding mw1 by (intro kept_patch kept_refl) (auto simp: fits_def)
  moreover have "remote_echo io rc (r, w)
      = Done (Inr 0, (r\<lparr>r_rx_addr_offset := 8 + 4 * 1024 + 4, lbuf := lb, rx_count := of_nat 1024 + 1\<rparr>, w1))"
    using r s rd lb unfolding serving_def remote_echo_def
    by (simp add: shm_consts header_read Let_def BUF_SIZE_MAX_def w1_def)
  ultimately show ?thesis by auto
qed

section \<open>The invariant\<close>

text \<open>
  The state of the two programs when \<open>a\<close> messages are sent, \<open>c\<close> echoed and \<open>v\<close> verified.  A side that
  has something to do and does not know it yet has an unconsumed notification.
\<close>

definition host_inv :: "config \<Rightarrow> nat \<Rightarrow> nat \<Rightarrow> nat \<Rightarrow> hpc \<Rightarrow> host_vars \<Rightarrow> bool" where
  "host_inv hc a c v pc h \<longleftrightarrow> (case pc of
       H_Sending \<Rightarrow> a \<le> 1024 \<and> v = 0 \<and> sending hc a h \<and> (c \<noteq> 0 \<longrightarrow> \<not> remote_nkicked (ch h))
     | H_Waiting \<Rightarrow> a = 1024 \<and> v \<le> c \<and> verifying hc v h \<and> (v \<noteq> c \<longrightarrow> \<not> remote_nkicked (ch h))
     | H_Draining n \<Rightarrow> a = 1024 \<and> v \<le> c \<and> verifying hc v h \<and>
         (\<exists>k. n = of_nat k \<and> v \<le> k \<and> k \<le> c \<and> (k \<noteq> c \<longrightarrow> \<not> remote_nkicked (ch h)))
     | H_Done e \<Rightarrow> e = 0 \<and> a = 1025 \<and> v = 1024 \<and> c = 1024)"

definition remote_inv :: "config \<Rightarrow> nat \<Rightarrow> nat \<Rightarrow> rpc \<Rightarrow> remote_vars \<Rightarrow> bool" where
  "remote_inv rc a c pc r \<longleftrightarrow> (case pc of
       R_Waiting \<Rightarrow> serving rc c r \<and> (c \<noteq> a \<longrightarrow> \<not> irq_pending (rch r))
     | R_Draining n \<Rightarrow> serving rc c r \<and>
         (\<exists>k. n = of_nat k \<and> c \<le> k \<and> k \<le> a \<and> (k \<noteq> a \<longrightarrow> \<not> irq_pending (rch r)))
     | R_Done e \<Rightarrow> e = 0 \<and> a = 1025 \<and> c = 1024)"

definition sys_inv :: "'w metal \<Rightarrow> config \<Rightarrow> config \<Rightarrow> layout \<Rightarrow> ('w \<Rightarrow> bytes) \<Rightarrow> 'w sys \<Rightarrow> nat \<Rightarrow> nat \<Rightarrow> nat \<Rightarrow> bool" where
  "sys_inv io hc rc ly mem s a c v \<longleftrightarrow>
     shm_system io hc rc ly mem (ch (hv s)) (rch (rv s)) \<and> mem_ok hc rc ly a c (mem (world s)) \<and>
     host_inv hc a c v (hpc s) (hv s) \<and> remote_inv rc a c (rpc s) (rv s)"

text \<open>The flags are no part of what the system relies on.\<close>

lemma shm_system_flags [simp]:
  "shm_system io hc rc ly mem (hch\<lparr>remote_nkicked := x\<rparr>) rcc = shm_system io hc rc ly mem hch rcc"
  "shm_system io hc rc ly mem hch (rcc\<lparr>irq_pending := y\<rparr>) = shm_system io hc rc ly mem hch rcc"
  by (simp_all add: shm_system_def)

lemma vars_flags [simp]:
  "sending hc a (h\<lparr>ch := x\<rparr>) = sending hc a h" "verifying hc v (h\<lparr>ch := x\<rparr>) = verifying hc v h"
  "serving rc c (r\<lparr>rch := y\<rparr>) = serving rc c r"
  by (simp_all add: sending_def verifying_def serving_def)

lemma sys_init_inv: "sys_init io hc rc ly mem s \<Longrightarrow> sys_inv io hc rc ly mem s 0 0 0"
  by (auto simp: sys_init_def sys_inv_def mem_ok_def h2r_ok_def r2h_ok_def host_inv_def remote_inv_def
      sending_def serving_def shm_system_def)


text \<open>
  Every step that a state with the invariant can make keeps it, with new numbers of messages, and
  makes progress: either one of the numbers grows, or a notification is consumed, or a loop is
  left.
\<close>

definition hpc_weight :: "hpc \<Rightarrow> nat" where
  "hpc_weight pc = (case pc of H_Sending \<Rightarrow> 3 | H_Draining _ \<Rightarrow> 2 | H_Waiting \<Rightarrow> 1 | H_Done _ \<Rightarrow> 0)"

definition rpc_weight :: "rpc \<Rightarrow> nat" where
  "rpc_weight pc = (case pc of R_Draining _ \<Rightarrow> 2 | R_Waiting \<Rightarrow> 1 | R_Done _ \<Rightarrow> 0)"

definition work :: "'w sys \<Rightarrow> nat \<Rightarrow> nat \<Rightarrow> nat \<Rightarrow> nat" where
  "work s a c v = 3 * (1025 - a) + 3 * (1024 - c) + (1024 - v) + hpc_weight (hpc s) + rpc_weight (rpc s) +
     (if remote_nkicked (ch (hv s)) then 0 else 2) + (if irq_pending (rch (rv s)) then 0 else 2)"

inductive_cases sys_stepE: "sys_step io hc rc s t"

lemma sending_done: "a \<le> 1024 \<Longrightarrow> sending hc a h \<Longrightarrow> i_pkg h < PKGS_TOTAL \<longleftrightarrow> a < 1024"
  using u32_less [of a 1024] by (simp add: sending_def PKGS_TOTAL_def)

lemma verifying_count: "v \<le> 1024 \<Longrightarrow> k \<le> 1024 \<Longrightarrow> verifying hc v h \<Longrightarrow> i_pkg h = of_nat k \<longleftrightarrow> v = k"
  using u32_eq [of v k] by (simp add: verifying_def)

lemma verifying_done: "v \<le> 1024 \<Longrightarrow> verifying hc v h \<Longrightarrow> i_pkg h = PKGS_TOTAL \<longleftrightarrow> v = 1024"
  using verifying_count [of v 1024 hc h] by (simp add: PKGS_TOTAL_def)

lemma serving_count: "c \<le> 1024 \<Longrightarrow> k \<le> 1025 \<Longrightarrow> serving rc c r \<Longrightarrow> rx_count r = of_nat k \<longleftrightarrow> c = k"
  using u32_eq [of c k] by (simp add: serving_def)

text \<open>The counts that a woken side reads.\<close>

lemma host_reads_count:
  assumes "shm_system io hc rc ly mem hch rcc" and "mem_ok hc rc ly a c (mem w)" and "remote_to_host_desc_io hch = Some d"
  shows "io_read32 io d SHM_DESC_AVAIL_OFFSET w = of_nat c"
proof -
  from assms have "window io mem ly d (SHM0_DESC_SIZE rc) (SHM1_DESC_SIZE rc)" "layout_ok hc rc ly" by (auto simp: shm_system_def)
  from windowD(1) [OF this(1), of 0 w] this(2) assms(2) show ?thesis
    by (simp add: layout_ok_def mem_ok_def r2h_ok_def shm_consts)
qed

lemma remote_reads_count:
  assumes "shm_system io hc rc ly mem hch rcc" and "mem_ok hc rc ly a c (mem w)" and "r_shm_io rcc = Some d"
  shows "io_read32 io d SHM_DESC_AVAIL_OFFSET w = of_nat a"
proof -
  from assms have "window io mem ly d 0 (l_size ly)" "layout_ok hc rc ly" by (auto simp: shm_system_def)
  from windowD(1) [OF this(1), of 0 w] this(2) assms(2) show ?thesis
    by (simp add: layout_ok_def mem_ok_def h2r_ok_def shm_consts)
qed

text \<open>What the invariant says of the numbers.\<close>

lemma sys_inv_bounds:
  "sys_inv io hc rc ly mem s a c v \<Longrightarrow> v \<le> c \<and> c \<le> a \<and> c \<le> 1024 \<and> a \<le> 1025"
  by (auto simp: sys_inv_def mem_ok_def host_inv_def split: hpc.splits)

text \<open>One lemma for each kind of step of the host \<dots>\<close>

lemma step_send:
  assumes inv: "sys_inv io hc rc ly mem s a c v" and pc: "hpc s = H_Sending" "i_pkg (hv s) < PKGS_TOTAL"
  shows "\<exists>h' w'. host_send io hc (hv s, world s) = Done (Inl (), (h', w')) \<and>
    sys_inv io hc rc ly mem (s\<lparr>hv := h', world := w', rv := kick_remote (rv s)\<rparr>) (a + 1) c v \<and>
    work (s\<lparr>hv := h', world := w', rv := kick_remote (rv s)\<rparr>) (a + 1) c v < work s a c v \<and> kept hc ly a (mem (world s)) (mem w')"
proof -
  from inv pc have h: "sending hc a (hv s)" "a \<le> 1024" by (simp_all add: sys_inv_def host_inv_def)
  with pc have a: "a < 1024" by (simp add: sending_done)
  from inv have i: "shm_system io hc rc ly mem (ch (hv s)) (rch (rv s))" "mem_ok hc rc ly a c (mem (world s))"
    by (simp_all add: sys_inv_def)
  from host_send_run [OF i h(1) a] obtain h' w' where
    r: "host_send io hc (hv s, world s) = Done (Inl (), (h', w'))" "ch h' = ch (hv s)"
      "sending hc (a + 1) h'" "mem_ok hc rc ly (a + 1) c (mem w')" "kept hc ly a (mem (world s)) (mem w')" by blast
  have "sys_inv io hc rc ly mem (s\<lparr>hv := h', world := w', rv := kick_remote (rv s)\<rparr>) (a + 1) c v"
    using inv pc r a by (auto simp: sys_inv_def host_inv_def remote_inv_def split: rpc.splits)
  with r(1,2,5) a show ?thesis by (auto simp: work_def)
qed

lemma step_all_sent:
  assumes inv: "sys_inv io hc rc ly mem s a c v" and pc: "hpc s = H_Sending" "\<not> i_pkg (hv s) < PKGS_TOTAL"
  defines "t \<equiv> s\<lparr>hv := (hv s)\<lparr>i_pkg := 0, tx_data_offset := SHM_PAYLOAD_RX_OFFSET hc\<rparr>, hpc := H_Waiting\<rparr>"
  shows "sys_inv io hc rc ly mem t a c v \<and> work t a c v < work s a c v"
proof -
  from inv pc have h: "sending hc a (hv s)" "a \<le> 1024" by (simp_all add: sys_inv_def host_inv_def)
  with pc have a: "a = 1024" using sending_done [OF h(2,1)] by simp
  with h have "verifying hc 0 ((hv s)\<lparr>i_pkg := 0, tx_data_offset := SHM_PAYLOAD_RX_OFFSET hc\<rparr>)"
    by (simp add: verifying_def sending_def)
  with inv pc a show ?thesis by (auto simp: t_def sys_inv_def host_inv_def work_def hpc_weight_def)
qed

lemma step_host_wakes:
  assumes inv: "sys_inv io hc rc ly mem s a c v" and pc: "hpc s = H_Waiting"
    and k: "\<not> remote_nkicked (ch (hv s))" and d: "remote_to_host_desc_io (ch (hv s)) = Some d"
  defines "t \<equiv> s\<lparr>hv := host_takes (hv s), hpc := H_Draining (io_read32 io d SHM_DESC_AVAIL_OFFSET (world s))\<rparr>"
  shows "sys_inv io hc rc ly mem t a c v \<and> work t a c v < work s a c v"
proof -
  from inv have i: "shm_system io hc rc ly mem (ch (hv s)) (rch (rv s))" "mem_ok hc rc ly a c (mem (world s))"
    by (simp_all add: sys_inv_def)
  from host_reads_count [OF i d] inv pc k show ?thesis
    by (auto simp: t_def sys_inv_def host_inv_def work_def hpc_weight_def)
qed

lemma step_verify:
  assumes inv: "sys_inv io hc rc ly mem s a c v" and pc: "hpc s = H_Draining n" "i_pkg (hv s) \<noteq> n"
  shows "\<exists>h' w'. host_verify io (hv s, world s) = Done (Inl (), (h', w')) \<and>
    sys_inv io hc rc ly mem (s\<lparr>hv := h', world := w'\<rparr>) a c (v + 1) \<and> work (s\<lparr>hv := h', world := w'\<rparr>) a c (v + 1) < work s a c v \<and>
    kept hc ly a (mem (world s)) (mem w')"
proof -
  from inv pc obtain k where k: "n = of_nat k" "v \<le> k" "k \<le> c" "k \<noteq> c \<longrightarrow> \<not> remote_nkicked (ch (hv s))"
    and h: "verifying hc v (hv s)" by (auto simp: sys_inv_def host_inv_def)
  from inv have i: "shm_system io hc rc ly mem (ch (hv s)) (rch (rv s))" "mem_ok hc rc ly a c (mem (world s))"
    by (simp_all add: sys_inv_def)
  have "c \<le> 1024" using sys_inv_bounds [OF inv] by simp
  with k h pc have v: "v < k" using verifying_count [of v k hc "hv s"] by auto
  with k have "v < c" by simp
  from host_verify_run [OF i h this] obtain h' w' where
    r: "host_verify io (hv s, world s) = Done (Inl (), (h', w'))" "ch h' = ch (hv s)"
      "verifying hc (v + 1) h'" "mem_ok hc rc ly a c (mem w')" "kept hc ly a (mem (world s)) (mem w')" by blast
  have "sys_inv io hc rc ly mem (s\<lparr>hv := h', world := w'\<rparr>) a c (v + 1)"
    using inv pc r v k by (auto simp: sys_inv_def host_inv_def)
  with r(1,2,5) v k \<open>c \<le> 1024\<close> show ?thesis by (auto simp: work_def)
qed

lemma step_host_drained:
  assumes inv: "sys_inv io hc rc ly mem s a c v" and pc: "hpc s = H_Draining n" "i_pkg (hv s) = n"
  shows "sys_inv io hc rc ly mem (s\<lparr>hpc := H_Waiting\<rparr>) a c v \<and> work (s\<lparr>hpc := H_Waiting\<rparr>) a c v < work s a c v"
proof -
  from inv pc obtain k where k: "n = of_nat k" "v \<le> k" "k \<le> c" "k \<noteq> c \<longrightarrow> \<not> remote_nkicked (ch (hv s))"
    and h: "verifying hc v (hv s)" by (auto simp: sys_inv_def host_inv_def)
  have "c \<le> 1024" using sys_inv_bounds [OF inv] by simp
  with k h pc have "v = k" using verifying_count [of v k hc "hv s"] by auto
  with inv pc k show ?thesis by (auto simp: sys_inv_def host_inv_def work_def hpc_weight_def)
qed

lemma step_shutdown:
  assumes inv: "sys_inv io hc rc ly mem s a c v" and pc: "hpc s = H_Waiting" "i_pkg (hv s) = PKGS_TOTAL"
  shows "\<exists>h' w'. host_shutdown io (hv s, world s) = Done (0, (h', w')) \<and>
    sys_inv io hc rc ly mem (s\<lparr>hv := h', world := w', hpc := H_Done 0, rv := kick_remote (rv s)\<rparr>) (a + 1) c v \<and>
    work (s\<lparr>hv := h', world := w', hpc := H_Done 0, rv := kick_remote (rv s)\<rparr>) (a + 1) c v < work s a c v \<and> kept hc ly a (mem (world s)) (mem w')"
proof -
  from inv pc have h: "verifying hc v (hv s)" "v \<le> c" "a = 1024" by (simp_all add: sys_inv_def host_inv_def)
  have "c \<le> 1024" using sys_inv_bounds [OF inv] by simp
  with pc h have v: "v = 1024" "c = 1024" using verifying_done [of v hc "hv s"] by auto
  from inv h(3) have i: "shm_system io hc rc ly mem (ch (hv s)) (rch (rv s))" "mem_ok hc rc ly 1024 c (mem (world s))"
    by (simp_all add: sys_inv_def)
  from host_shutdown_run [OF i] h v obtain h' w' where
    r: "host_shutdown io (hv s, world s) = Done (0, (h', w'))" "ch h' = ch (hv s)" "mem_ok hc rc ly 1025 c (mem w')"
      "kept hc ly 1024 (mem (world s)) (mem w')" by blast
  have "sys_inv io hc rc ly mem (s\<lparr>hv := h', world := w', hpc := H_Done 0, rv := kick_remote (rv s)\<rparr>) (a + 1) c v"
    using inv pc r h(3) v by (auto simp: sys_inv_def host_inv_def remote_inv_def split: rpc.splits)
  with r(1,2,4) pc h(3) show ?thesis by (auto simp: work_def hpc_weight_def)
qed

text \<open>\<dots> and of the remote.\<close>

lemma step_remote_wakes:
  assumes inv: "sys_inv io hc rc ly mem s a c v" and pc: "rpc s = R_Waiting"
    and k: "\<not> irq_pending (rch (rv s))" and d: "r_shm_io (rch (rv s)) = Some d"
  defines "t \<equiv> s\<lparr>rv := remote_takes (rv s), rpc := R_Draining (io_read32 io d SHM_DESC_AVAIL_OFFSET (world s))\<rparr>"
  shows "sys_inv io hc rc ly mem t a c v \<and> work t a c v < work s a c v"
proof -
  from inv have i: "shm_system io hc rc ly mem (ch (hv s)) (rch (rv s))" "mem_ok hc rc ly a c (mem (world s))"
    by (simp_all add: sys_inv_def)
  from remote_reads_count [OF i d] inv pc k sys_inv_bounds [OF inv] show ?thesis
    by (auto simp: t_def sys_inv_def remote_inv_def work_def rpc_weight_def)
qed

text \<open>An echo, or the end at the shutdown message.\<close>

lemma step_echo:
  assumes inv: "sys_inv io hc rc ly mem s a c v" and pc: "rpc s = R_Draining n" "rx_count (rv s) \<noteq> n"
  shows "(\<exists>r' w'. remote_echo io rc (rv s, world s) = Done (Inl (), (r', w')) \<and>
      sys_inv io hc rc ly mem (s\<lparr>rv := r', world := w', hv := kick_host (hv s)\<rparr>) a (c + 1) v \<and>
      work (s\<lparr>rv := r', world := w', hv := kick_host (hv s)\<rparr>) a (c + 1) v < work s a c v \<and> kept hc ly a (mem (world s)) (mem w')) \<or>
    (\<exists>r' w'. remote_echo io rc (rv s, world s) = Done (Inr 0, (r', w')) \<and>
      sys_inv io hc rc ly mem (s\<lparr>rv := r', world := w', rpc := R_Done 0\<rparr>) a c v \<and>
      work (s\<lparr>rv := r', world := w', rpc := R_Done 0\<rparr>) a c v < work s a c v \<and> kept hc ly a (mem (world s)) (mem w'))"
proof -
  from inv pc obtain k where k: "n = of_nat k" "c \<le> k" "k \<le> a" "k \<noteq> a \<longrightarrow> \<not> irq_pending (rch (rv s))"
    and r: "serving rc c (rv s)" by (auto simp: sys_inv_def remote_inv_def)
  from inv have i: "shm_system io hc rc ly mem (ch (hv s)) (rch (rv s))" "mem_ok hc rc ly a c (mem (world s))"
    by (simp_all add: sys_inv_def)
  note b = sys_inv_bounds [OF inv]
  with k r pc have ck: "c < k" using serving_count [of c k rc "rv s"] by auto
  show ?thesis
  proof (cases "c < 1024")
    case True
    from ck k have "c < a" by simp
    from remote_echo_run [OF i r this True] obtain r' w' where
      e: "remote_echo io rc (rv s, world s) = Done (Inl (), (r', w'))" "rch r' = rch (rv s)"
        "serving rc (c + 1) r'" "mem_ok hc rc ly a (c + 1) (mem w')" "kept hc ly a (mem (world s)) (mem w')" by blast
    have "sys_inv io hc rc ly mem (s\<lparr>rv := r', world := w', hv := kick_host (hv s)\<rparr>) a (c + 1) v"
      using inv pc e k ck True by (auto simp: sys_inv_def host_inv_def remote_inv_def split: hpc.splits)
    with e(1,2,5) True show ?thesis by (auto simp: work_def)
  next
    case False
    with b ck k have n: "c = 1024" "a = 1025" by auto
    from remote_stop_run [OF i(1)] i(2) r n obtain r' w' where
      e: "remote_echo io rc (rv s, world s) = Done (Inr 0, (r', w'))" "rch r' = rch (rv s)"
        "mem_ok hc rc ly a c (mem w')" "kept hc ly a (mem (world s)) (mem w')" by blast
    have "sys_inv io hc rc ly mem (s\<lparr>rv := r', world := w', rpc := R_Done 0\<rparr>) a c v"
      using inv pc e n by (auto simp: sys_inv_def remote_inv_def)
    with e(1,2,4) pc show ?thesis by (auto simp: work_def rpc_weight_def)
  qed
qed

lemma step_remote_drained:
  assumes inv: "sys_inv io hc rc ly mem s a c v" and pc: "rpc s = R_Draining n" "rx_count (rv s) = n"
  shows "sys_inv io hc rc ly mem (s\<lparr>rpc := R_Waiting\<rparr>) a c v \<and> work (s\<lparr>rpc := R_Waiting\<rparr>) a c v < work s a c v"
proof -
  from inv pc obtain k where k: "n = of_nat k" "c \<le> k" "k \<le> a" "k \<noteq> a \<longrightarrow> \<not> irq_pending (rch (rv s))"
    and r: "serving rc c (rv s)" by (auto simp: sys_inv_def remote_inv_def)
  with pc sys_inv_bounds [OF inv] have "c = k" using serving_count [of c k rc "rv s"] by auto
  with inv pc k show ?thesis by (auto simp: sys_inv_def remote_inv_def work_def rpc_weight_def)
qed


text \<open>
  How the numbers move in a step: at most one of them grows, by one, and the messages that are
  in the memory stay there.
\<close>

definition moved :: "config \<Rightarrow> layout \<Rightarrow> ('w \<Rightarrow> bytes) \<Rightarrow> 'w sys \<Rightarrow> nat \<Rightarrow> nat \<Rightarrow> nat \<Rightarrow> 'w sys \<Rightarrow> nat \<Rightarrow> nat \<Rightarrow> nat \<Rightarrow> bool" where
  "moved hc ly mem s a c v t a' c' v' \<longleftrightarrow> kept hc ly a (mem (world s)) (mem (world t)) \<and>
     (a' = a \<and> c' = c \<and> v' = v \<and> (\<forall>e. rpc s = R_Done e \<longrightarrow> rpc t = R_Done e) \<or>
      a' = a + 1 \<and> c' = c \<and> v' = v \<and> rpc t = rpc s \<or> a' = a \<and> c' = c + 1 \<and> v' = v \<and> rpc t = rpc s \<or>
      a' = a \<and> c' = c \<and> v' = v + 1 \<and> rpc t = rpc s)"

lemma sys_step_inv:
  assumes "sys_step io hc rc s t" and inv: "sys_inv io hc rc ly mem s a c v"
  shows "\<exists>a' c' v'. sys_inv io hc rc ly mem t a' c' v' \<and> work t a' c' v' < work s a c v \<and> moved hc ly mem s a c v t a' c' v'"
  using assms(1)
proof cases
  case (send h' w')
  with step_send [OF inv] show ?thesis by (fastforce simp: moved_def)
next
  case (send_error e h' w')
  with step_send [OF inv] show ?thesis by auto
next
  case all_sent
  with step_all_sent [OF inv] show ?thesis by (fastforce simp: moved_def)
next
  case (host_wakes d)
  with step_host_wakes [OF inv] show ?thesis by (fastforce simp: moved_def)
next
  case (verify n h' w')
  with step_verify [OF inv, of n] show ?thesis by (fastforce simp: moved_def)
next
  case (verify_error n e h' w')
  with step_verify [OF inv, of n] show ?thesis by auto
next
  case (host_drained n)
  with step_host_drained [OF inv, of n] show ?thesis by (fastforce simp: moved_def)
next
  case (shutdown r h' w')
  with step_shutdown [OF inv] show ?thesis by (fastforce simp: moved_def)
next
  case (remote_wakes d)
  with step_remote_wakes [OF inv] show ?thesis by (fastforce simp: moved_def)
next
  case (echo n r' w')
  with step_echo [OF inv, of n] show ?thesis by (fastforce simp: moved_def)
next
  case (remote_stops n e r' w')
  with step_echo [OF inv, of n] show ?thesis by (fastforce simp: moved_def)
next
  case (remote_drained n)
  with step_remote_drained [OF inv, of n] show ?thesis by (fastforce simp: moved_def)
qed

text \<open>A side that is not done can go on, unless it waits for a notification that is still to come.\<close>

lemma host_moves:
  assumes inv: "sys_inv io hc rc ly mem s a c v"
    and go: "hpc s = H_Waiting \<Longrightarrow> v = c \<Longrightarrow> v = 1024"
  shows "hpc s = H_Done 0 \<or> (\<exists>t. sys_step io hc rc s t)"
proof (cases "hpc s")
  case H_Sending
  with step_send [OF inv] show ?thesis by (metis sys_step.send sys_step.all_sent)
next
  case H_Waiting
  with inv have v: "verifying hc v (hv s)" "v \<le> 1024" "v \<noteq> c \<longrightarrow> \<not> remote_nkicked (ch (hv s))"
    using sys_inv_bounds [OF inv] by (auto simp: sys_inv_def host_inv_def)
  show ?thesis
  proof (cases "v = 1024")
    case True
    with verifying_done [OF v(2,1)] have "i_pkg (hv s) = PKGS_TOTAL" by simp
    with H_Waiting step_shutdown [OF inv] show ?thesis by (metis sys_step.shutdown)
  next
    case False
    with v have "i_pkg (hv s) \<noteq> PKGS_TOTAL" by (simp add: verifying_done)
    moreover from False go H_Waiting v(3) have "\<not> remote_nkicked (ch (hv s))" by blast
    moreover obtain d where "remote_to_host_desc_io (ch (hv s)) = Some d" using inv by (auto simp: sys_inv_def shm_system_def)
    ultimately show ?thesis using H_Waiting by (metis sys_step.host_wakes)
  qed
next
  case (H_Draining n)
  with step_verify [OF inv] show ?thesis by (metis sys_step.verify sys_step.host_drained)
next
  case (H_Done e)
  with inv show ?thesis by (simp add: sys_inv_def host_inv_def)
qed

lemma remote_moves:
  assumes inv: "sys_inv io hc rc ly mem s a c v" and go: "rpc s = R_Waiting \<Longrightarrow> c \<noteq> a"
  shows "rpc s = R_Done 0 \<or> (\<exists>t. sys_step io hc rc s t)"
proof (cases "rpc s")
  case R_Waiting
  with inv go have "\<not> irq_pending (rch (rv s))" by (auto simp: sys_inv_def remote_inv_def)
  moreover obtain d where "r_shm_io (rch (rv s)) = Some d" using inv by (auto simp: sys_inv_def shm_system_def)
  ultimately show ?thesis using R_Waiting by (metis sys_step.remote_wakes)
next
  case (R_Draining n)
  with step_echo [OF inv] show ?thesis by (metis sys_step.echo sys_step.remote_stops sys_step.remote_drained)
next
  case (R_Done e)
  with inv show ?thesis by (simp add: sys_inv_def remote_inv_def)
qed

text \<open>No deadlock: the only state without a step is the one in which both sides have finished.\<close>

lemma sys_progress:
  assumes inv: "sys_inv io hc rc ly mem s a c v"
  shows "hpc s = H_Done 0 \<and> rpc s = R_Done 0 \<or> (\<exists>t. sys_step io hc rc s t)"
proof (rule ccontr)
  assume stuck: "\<not> (hpc s = H_Done 0 \<and> rpc s = R_Done 0 \<or> (\<exists>t. sys_step io hc rc s t))"
  have host: "hpc s = H_Waiting \<and> v = c \<and> v \<noteq> 1024 \<or> hpc s = H_Done 0" using host_moves [OF inv] stuck by blast
  have remote: "rpc s = R_Waiting \<and> c = a \<or> rpc s = R_Done 0" using remote_moves [OF inv] stuck by blast
  from host show False
  proof
    assume "hpc s = H_Waiting \<and> v = c \<and> v \<noteq> 1024"
    with inv remote show False by (auto simp: sys_inv_def host_inv_def remote_inv_def)
  next
    assume "hpc s = H_Done 0"
    with inv remote stuck show False by (auto simp: sys_inv_def host_inv_def remote_inv_def)
  qed
qed

lemma sys_run_inv:
  assumes "(sys_step io hc rc ^^ n) s t" and "sys_inv io hc rc ly mem s a c v"
  shows "\<exists>a' c' v'. sys_inv io hc rc ly mem t a' c' v' \<and> work t a' c' v' + n \<le> work s a c v"
  using assms
proof (induction n arbitrary: t)
  case 0
  then show ?case by auto
next
  case (Suc n)
  then obtain u where u: "(sys_step io hc rc ^^ n) s u" "sys_step io hc rc u t" by auto
  from Suc.IH [OF u(1) Suc.prems(2)] obtain a1 c1 v1 where
    "sys_inv io hc rc ly mem u a1 c1 v1" "work u a1 c1 v1 + n \<le> work s a c v" by blast
  with sys_step_inv [OF u(2)] show ?case by fastforce
qed

lemma work_bound: "work s a c v \<le> 7181"
  by (auto simp: work_def hpc_weight_def rpc_weight_def split: hpc.splits rpc.splits)

section \<open>The layout of the documentation\<close>

text \<open>
  The memory map that \<open>irq_shmem_demo/README.md\<close> documents satisfies the conditions, with a memory that
  is a plain array of bytes.
\<close>

definition readme_host :: config where
  "readme_host = \<lparr>SHM0_DESC_SIZE = 0x4000, SHM1_DESC_SIZE = 0x4000, SHM_PAYLOAD_SIZE = 0x40000,
     SHM_PAYLOAD_RX_OFFSET = 0, SHM_PAYLOAD_TX_OFFSET = 0x20000, IPI_MASK = 1\<rparr>"

definition readme_remote :: config where
  "readme_remote = \<lparr>SHM0_DESC_SIZE = 0x4000, SHM1_DESC_SIZE = 0x4000, SHM_PAYLOAD_SIZE = 0x40000,
     SHM_PAYLOAD_RX_OFFSET = 0x8000, SHM_PAYLOAD_TX_OFFSET = 0x28000, IPI_MASK = 1\<rparr>"

definition readme_layout :: layout where
  "readme_layout = \<lparr>l_size = 0x48000, l_base = 0x3ED00000, l_pay = 0x8000\<rparr>"

lemma readme_layout_ok: "layout_ok readme_host readme_remote readme_layout"
  by (simp add: layout_ok_def readme_host_def readme_remote_def readme_layout_def)

text \<open>Region 0 and 1 are the descriptors, 2 the payload, 3 the whole memory, 4 the interrupt device.\<close>

definition ram_start :: "nat \<Rightarrow> nat" where
  "ram_start r = (if r = 1 then 0x4000 else if r = 2 then 0x8000 else 0)"

definition ram_store :: "nat \<Rightarrow> bytes \<Rightarrow> (nat \<Rightarrow> byte) \<Rightarrow> nat \<Rightarrow> byte" where
  "ram_store off bs w = (\<lambda>i. if off \<le> i \<and> i < off + length bs then bs ! (i - off) else w i)"

definition ram_image :: "(nat \<Rightarrow> byte) \<Rightarrow> bytes" where
  "ram_image w = map w [0..<0x48000]"

definition ram_io :: "(nat \<Rightarrow> byte) metal" where
  "ram_io = \<lparr>
     io_read32 = (\<lambda>r off w. get32 (ram_start r + off) (ram_image w)),
     io_write32 = (\<lambda>r off v w. if r = 4 then w else ram_store (ram_start r + off) (le32 v) w),
     io_block_read = (\<lambda>r off n w. (int n, bytes_at (ram_start r + off) n (ram_image w))),
     io_block_write = (\<lambda>r off bs w. (int (length bs), ram_store (ram_start r + off) bs w)),
     io_block_set = (\<lambda>r off b n w. (int n, ram_store (ram_start r + off) (replicate n b) w)),
     io_phys = (\<lambda>r off. of_nat (0x3ED00000 + ram_start r + off)),
     io_phys_to_offset = (\<lambda>r a. if 0x3ED00000 + ram_start r \<le> unat a then Some (unat a - (0x3ED00000 + ram_start r)) else None),
     timestamp = (\<lambda>w. (0, w)), alloc_memory = (\<lambda>w. (True, w)), free_memory = (\<lambda>w. w),
     irq_save_disable = (\<lambda>w. (0, w)), irq_restore_enable = (\<lambda>f w. w), cpu_yield = (\<lambda>w. w), irq_pends = (\<lambda>w. (True, w))\<rparr>"

lemma ram_image_store:
  assumes "off + length bs \<le> 0x48000"
  shows "ram_image (ram_store off bs w) = patch off bs (ram_image w)"
proof (rule nth_equalityI)
  show "length (ram_image (ram_store off bs w)) = length (patch off bs (ram_image w))"
    using assms by (simp add: ram_image_def)
next
  fix i assume "i < length (ram_image (ram_store off bs w))"
  then have i: "i < 0x48000" by (simp add: ram_image_def)
  with assms show "ram_image (ram_store off bs w) ! i = patch off bs (ram_image w) ! i"
    by (auto simp: ram_image_def ram_store_def patch_def nth_append not_less)
qed

lemma ram_window:
  assumes r: "r \<noteq> 4" and sz: "ram_start r + sz \<le> 0x48000"
  shows "window ram_io ram_image readme_layout r (ram_start r) sz"
proof -
  have "io_phys_to_offset ram_io r (of_nat (0x3ED00000 + ram_start r + off)) = Some off" if "off < sz" for off
  proof -
    have "unat (of_nat (0x3ED00000 + ram_start r + off) :: u64) = 0x3ED00000 + ram_start r + off"
      using that sz by (simp only: unat_of_nat) (simp add: take_bit_nat_eq_self)
    then show ?thesis by (simp only: ram_io_def metal.simps) simp
  qed
  moreover have "ram_image (io_write32 ram_io r off v w) = patch (ram_start r + off) (le32 v) (ram_image w)"
    if "off + 4 \<le> sz" for off v w
    using that sz r by (simp add: ram_io_def ram_image_store)
  moreover have "\<exists>w'. io_block_write ram_io r off bs w = (int (length bs), w') \<and> ram_image w' = patch (ram_start r + off) bs (ram_image w)"
    if "off + length bs \<le> sz" for off bs w
    using that sz by (simp add: ram_io_def ram_image_store)
  moreover have "io_read32 ram_io r off w = get32 (ram_start r + off) (ram_image w)"
    "io_block_read ram_io r off n w = (int n, bytes_at (ram_start r + off) n (ram_image w))"
    "io_phys ram_io r off = of_nat (0x3ED00000 + ram_start r + off)" for off n w
    by (simp_all add: ram_io_def)
  ultimately show ?thesis using sz by (simp add: window_def readme_layout_def)
qed

definition readme_start :: "(nat \<Rightarrow> byte) sys" where
  "readme_start = \<lparr>
     hv = \<lparr>ch = \<lparr>host_to_remote_desc_io = Some 0, remote_to_host_desc_io = Some 1, h_shm_io = Some 2, h_ipi_io = Some 4,
               h_ttc_io = None, remote_nkicked = True, h_ipi_mask = 1, h_irq_vector_id = 0\<rparr>,
           i_pkg = 0, tx_addr_offset = 8, rx_addr_offset = 8, tx_data_offset = 0,
           txbuf = replicate 512 0, rxbuf = replicate 512 0\<rparr>,
     hpc = H_Sending,
     rv = \<lparr>rch = \<lparr>r_ipi_io = Some 4, r_shm_io = Some 3, r_ttc_io = None, r_ipi_mask = 1, r_irq_vector_id = 0, irq_pending = True\<rparr>,
           rx_count = 0, r_tx_addr_offset = 0x4008, r_rx_addr_offset = 8, r_tx_data_offset = 0x28000, lbuf = replicate 512 0\<rparr>,
     rpc = R_Waiting, world = (\<lambda>_. 0)\<rparr>"

lemma readme_init: "sys_init ram_io readme_host readme_remote readme_layout ram_image readme_start"
proof -
  have w: "window ram_io ram_image readme_layout 0 0 0x4000" "window ram_io ram_image readme_layout 1 0x4000 0x4000"
    "window ram_io ram_image readme_layout 2 0x8000 0x40000" "window ram_io ram_image readme_layout 3 0 0x48000"
    using ram_window [of 0 "0x4000"] ram_window [of 1 "0x4000"] ram_window [of 2 "0x40000"] ram_window [of 3 "0x48000"]
    by (simp_all add: ram_start_def)
  have q: "quiet ram_io ram_image 4" by (simp add: quiet_def ram_io_def)
  have "le_nat (le64 0) \<noteq> le_nat SHUTDOWN" by (simp add: SHUTDOWN_def)
  then have "le64 0 \<noteq> SHUTDOWN" by metis
  then have t: "le64 (fst (timestamp ram_io w)) \<noteq> SHUTDOWN" for w by (simp add: ram_io_def)
  have "ram_image (\<lambda>_. 0) = replicate (length [0..<0x48000]) 0" unfolding ram_image_def by (rule map_replicate_const)
  then have z: "get32 off (ram_image (\<lambda>_. 0)) = 0" for off by (simp only: get32_zeros)
  have l: "length (ram_image w) = 0x48000" for w by (simp add: ram_image_def)
  have f: "SHM0_DESC_SIZE readme_remote = 0x4000" "SHM1_DESC_SIZE readme_remote = 0x4000" "SHM_PAYLOAD_SIZE readme_remote = 0x40000"
    "SHM_PAYLOAD_TX_OFFSET readme_remote = 0x28000" "SHM_PAYLOAD_RX_OFFSET readme_host = 0" "l_size readme_layout = 0x48000"
    "l_pay readme_layout = 0x8000" by (simp_all add: readme_remote_def readme_host_def readme_layout_def)
  show ?thesis using w q t readme_layout_ok unfolding sys_init_def shm_system_def readme_start_def
    by (simp add: f z l)
qed

section \<open>What the demo guarantees\<close>

text \<open>
  C1. The shared-memory demo is safe: from the start, whatever the interleaving of the messages
  of the two sides, the host never reports an error (a lost, duplicated, reordered or corrupted
  echo, or a bad address) and neither does the remote; and when the host has finished, all 1024
  messages have been echoed.
\<close>

theorem shmem_demo_safe:
  assumes "sys_init io hc rc ly mem s" and "(sys_step io hc rc)\<^sup>*\<^sup>* s t"
  shows "(\<forall>e. hpc t = H_Done e \<longrightarrow> e = 0 \<and> get32 (SHM0_DESC_SIZE rc) (mem (world t)) = PKGS_TOTAL) \<and>
    (\<forall>e. rpc t = R_Done e \<longrightarrow> e = 0)"
proof -
  from assms(2) obtain n where "(sys_step io hc rc ^^ n) s t" by (metis rtranclp_imp_relpowp)
  from sys_run_inv [OF this sys_init_inv [OF assms(1)]] obtain a c v where "sys_inv io hc rc ly mem t a c v" by blast
  then show ?thesis by (auto simp: sys_inv_def host_inv_def remote_inv_def mem_ok_def r2h_ok_def PKGS_TOTAL_def)
qed

theorem shmem_demo_safe_witness:
  "\<exists>t. sys_init ram_io readme_host readme_remote readme_layout ram_image readme_start \<and>
     sys_step ram_io readme_host readme_remote readme_start t \<and> hpc t \<noteq> H_Done (- EINVAL) \<and> rpc t \<noteq> R_Done (- EINVAL)"
proof -
  have "hpc readme_start \<noteq> H_Done 0" by (simp add: readme_start_def)
  with sys_progress [OF sys_init_inv [OF readme_init]] obtain t where
    t: "sys_step ram_io readme_host readme_remote readme_start t" by blast
  then have "(sys_step ram_io readme_host readme_remote)\<^sup>*\<^sup>* readme_start t" by blast
  from shmem_demo_safe [OF readme_init this] t readme_init show ?thesis by fastforce
qed

text \<open>
  C2. The shared-memory demo finishes: no wake-up is lost and there is no deadlock, since a reachable
  state without a step is one in which both sides have returned 0; and every run has at most 7181
  steps.
\<close>

theorem shmem_demo_completes:
  assumes "sys_init io hc rc ly mem s" and "(sys_step io hc rc ^^ n) s t"
  shows "n \<le> 7181 \<and> ((\<nexists>u. sys_step io hc rc t u) \<longrightarrow> hpc t = H_Done 0 \<and> rpc t = R_Done 0)"
proof -
  from sys_run_inv [OF assms(2) sys_init_inv [OF assms(1)]] obtain a c v where
    "sys_inv io hc rc ly mem t a c v" "work t a c v + n \<le> work s 0 0 0" by blast
  with sys_progress work_bound [of s 0 0 0] show ?thesis by fastforce
qed


theorem shmem_demo_completes_witness:
  "sys_init ram_io readme_host readme_remote readme_layout ram_image readme_start \<and>
   (\<exists>u. sys_step ram_io readme_host readme_remote readme_start u)"
  using shmem_demo_completes [OF readme_init, of 0 readme_start] readme_init by (auto simp: readme_start_def)

end
