(* ===== verification/Shmem_Fifo.thy ===== *)
theory Shmem_Fifo
  imports Shmem_Protocol
begin

text \<open>
  What the shared-memory demo promises, as an abstract machine: two queues of messages between a host
  that sends, collects and finally closes, and a remote that moves every message from one queue to
  the other.  No memory, no descriptors, no counters, no interrupts.  The detailed system refines it:
  every step is a step of the machine or none, so that the order and the contents of the messages
  are settled on the machine.
\<close>

section \<open>The abstract machine\<close>

record fifo =
  sent :: "bytes list"
  to_remote :: "bytes list"
  to_host :: "bytes list"
  received :: "bytes list"
  stopped :: bool

definition fifo_start :: fifo where
  "fifo_start = \<lparr>sent = [], to_remote = [], to_host = [], received = [], stopped = False\<rparr>"

definition is_shutdown :: "bytes \<Rightarrow> bool" where
  "is_shutdown m \<longleftrightarrow> drop 8 m = SHUTDOWN"

inductive fifo_step :: "fifo \<Rightarrow> fifo \<Rightarrow> bool" where
  put: "length (sent q) < 1024 \<Longrightarrow> \<not> is_shutdown m \<Longrightarrow>
      fifo_step q (q\<lparr>sent := sent q @ [m], to_remote := to_remote q @ [m]\<rparr>)"
| bounce: "to_remote q = m # ms \<Longrightarrow> \<not> is_shutdown m \<Longrightarrow>
      fifo_step q (q\<lparr>to_remote := ms, to_host := to_host q @ [m]\<rparr>)"
| take: "to_host q = m # ms \<Longrightarrow> fifo_step q (q\<lparr>to_host := ms, received := received q @ [m]\<rparr>)"
| close: "length (received q) = 1024 \<Longrightarrow> length (sent q) = 1024 \<Longrightarrow> is_shutdown m \<Longrightarrow>
      fifo_step q (q\<lparr>sent := sent q @ [m], to_remote := to_remote q @ [m]\<rparr>)"
| stop: "to_remote q = [m] \<Longrightarrow> is_shutdown m \<Longrightarrow> fifo_step q (q\<lparr>stopped := True\<rparr>)"

text \<open>On the machine nothing is lost, duplicated, reordered or changed.\<close>

lemma fifo_order: "fifo_step\<^sup>*\<^sup>* fifo_start q \<Longrightarrow> sent q = received q @ to_host q @ to_remote q"
proof (induction rule: rtranclp_induct)
  case base
  then show ?case by (simp add: fifo_start_def)
next
  case (step q q')
  from step.hyps(2) step.IH show ?case by cases auto
qed

section \<open>The machine behind a state of the system\<close>

text \<open>With \<open>a\<close> messages sent, \<open>c\<close> echoed and \<open>v\<close> verified, the queues are parts of the memory.\<close>

definition queues :: "config \<Rightarrow> layout \<Rightarrow> ('w \<Rightarrow> bytes) \<Rightarrow> 'w sys \<Rightarrow> nat \<Rightarrow> nat \<Rightarrow> nat \<Rightarrow> fifo" where
  "queues hc ly mem s a c v = (let msg = msg_at hc ly (mem (world s)) in
     \<lparr>sent = map msg [0..<a], to_remote = map msg [c..<a], to_host = map msg [v..<c], received = map msg [0..<v],
      stopped = (rpc s = R_Done 0)\<rparr>)"

lemma queues_kept:
  assumes "kept hc ly a (mem (world s)) (mem (world t))" and "c \<le> a" and "v \<le> c"
  shows "queues hc ly mem t a c v = (queues hc ly mem s a c v)\<lparr>stopped := (rpc t = R_Done 0)\<rparr>"
  using assms by (simp add: queues_def kept_def Let_def)

lemma sent_shutdown:
  assumes "sys_inv io hc rc ly mem s a c v" and "k < a"
  shows "is_shutdown (msg_at hc ly (mem (world s)) k) \<longleftrightarrow> k = 1024"
proof -
  from assms obtain body where "length body = 8" "body = SHUTDOWN \<longleftrightarrow> k = 1024"
    "msg_at hc ly (mem (world s)) k = shm_msg (of_nat k) body"
    by (auto simp: sys_inv_def mem_ok_def h2r_ok_def sent_ok_def msg_at_def)
  then show ?thesis by (simp add: is_shutdown_def shm_msg_def)
qed

text \<open>The numbers grow in the four ways of the machine.\<close>

lemma queues_send:
  assumes inv: "sys_inv io hc rc ly mem t (a + 1) c v" and k: "kept hc ly a (mem (world s)) (mem (world t))"
    and b: "v \<le> c" "c \<le> a" and r: "rpc t = rpc s"
  shows "fifo_step (queues hc ly mem s a c v) (queues hc ly mem t (a + 1) c v)"
proof -
  let ?q = "queues hc ly mem s a c v" and ?m = "msg_at hc ly (mem (world t)) a"
  have "queues hc ly mem t (a + 1) c v = (queues hc ly mem t a c v)\<lparr>sent := map (msg_at hc ly (mem (world t))) [0..<a] @ [?m],
      to_remote := map (msg_at hc ly (mem (world t))) [c..<a] @ [?m]\<rparr>"
    using b by (simp add: queues_def Let_def)
  with queues_kept [OF k b(2,1)] r have q: "queues hc ly mem t (a + 1) c v = ?q\<lparr>sent := sent ?q @ [?m], to_remote := to_remote ?q @ [?m]\<rparr>"
    using k b by (simp add: queues_def Let_def kept_def)
  have m: "is_shutdown ?m \<longleftrightarrow> a = 1024" using sent_shutdown [OF inv, of a] by simp
  have l: "length (sent ?q) = a" "length (received ?q) = v" by (simp_all add: queues_def Let_def)
  show ?thesis
  proof (cases "a = 1024")
    case True
    with inv have "v = 1024" by (auto simp: sys_inv_def host_inv_def split: hpc.splits)
    with True m l show ?thesis unfolding q by (intro fifo_step.close) auto
  next
    case False
    with m l sys_inv_bounds [OF inv] show ?thesis unfolding q by (intro fifo_step.put) auto
  qed
qed

lemma queues_echo:
  assumes inv: "sys_inv io hc rc ly mem t a (c + 1) v" and k: "kept hc ly a (mem (world s)) (mem (world t))"
    and b: "v \<le> c" and r: "rpc t = rpc s"
  shows "fifo_step (queues hc ly mem s a c v) (queues hc ly mem t a (c + 1) v)"
proof -
  let ?q = "queues hc ly mem s a c v" and ?msg = "msg_at hc ly (mem (world s))"
  from sys_inv_bounds [OF inv] have a: "c < a" "c < 1024" by simp_all
  have h: "to_remote ?q = ?msg c # map ?msg [c + 1..<a]" using a by (simp add: queues_def Let_def upt_conv_Cons)
  have "\<not> is_shutdown (?msg c)" using sent_shutdown [OF inv a(1)] k a by (simp add: kept_def)
  from fifo_step.bounce [OF h this] show ?thesis
    using a b r by (subst queues_kept [where s = s, OF k]) (simp_all add: queues_def Let_def)
qed

lemma queues_verify:
  assumes inv: "sys_inv io hc rc ly mem t a c (v + 1)" and k: "kept hc ly a (mem (world s)) (mem (world t))"
    and r: "rpc t = rpc s"
  shows "fifo_step (queues hc ly mem s a c v) (queues hc ly mem t a c (v + 1))"
proof -
  let ?q = "queues hc ly mem s a c v" and ?msg = "msg_at hc ly (mem (world s))"
  from sys_inv_bounds [OF inv] have v: "v < c" "c \<le> a" by simp_all
  have h: "to_host ?q = ?msg v # map ?msg [v + 1..<c]" using v by (simp add: queues_def Let_def upt_conv_Cons)
  from fifo_step.take [OF h] show ?thesis
    using v r by (subst queues_kept [where s = s, OF k]) (simp_all add: queues_def Let_def)
qed

lemma queues_stop:
  assumes inv: "sys_inv io hc rc ly mem s a c v" "sys_inv io hc rc ly mem t a c v"
    and k: "kept hc ly a (mem (world s)) (mem (world t))" and r: "rpc s = R_Done 0 \<longrightarrow> rpc t = R_Done 0"
  shows "fifo_step\<^sup>=\<^sup>= (queues hc ly mem s a c v) (queues hc ly mem t a c v)"
proof (cases "rpc t = R_Done 0 \<and> rpc s \<noteq> R_Done 0")
  case True
  with inv(2) have n: "a = Suc c" "c = 1024" by (auto simp: sys_inv_def remote_inv_def)
  have "to_remote (queues hc ly mem s a c v) = [msg_at hc ly (mem (world s)) c]" using n(1) by (simp add: queues_def Let_def)
  moreover have "is_shutdown (msg_at hc ly (mem (world s)) c)" using sent_shutdown [OF inv(1), of c] n by simp
  ultimately have "fifo_step (queues hc ly mem s a c v) ((queues hc ly mem s a c v)\<lparr>stopped := True\<rparr>)" by (rule fifo_step.stop)
  moreover have "queues hc ly mem t a c v = (queues hc ly mem s a c v)\<lparr>stopped := True\<rparr>"
    using queues_kept [where mem = mem, OF k] sys_inv_bounds [OF inv(1)] True by metis
  ultimately show ?thesis by simp
next
  case False
  then have "(rpc t = R_Done 0) = stopped (queues hc ly mem s a c v)" using r by (auto simp: queues_def Let_def)
  then have "queues hc ly mem t a c v = queues hc ly mem s a c v"
    using queues_kept [where mem = mem, OF k] sys_inv_bounds [OF inv(1)] by simp
  then show ?thesis by simp
qed

text \<open>The simulation.\<close>

lemma sys_step_refines:
  assumes "sys_step io hc rc s t" and inv: "sys_inv io hc rc ly mem s a c v"
  shows "\<exists>a' c' v'. sys_inv io hc rc ly mem t a' c' v' \<and> fifo_step\<^sup>=\<^sup>= (queues hc ly mem s a c v) (queues hc ly mem t a' c' v')"
proof -
  from sys_step_inv [OF assms] obtain a' c' v' where t: "sys_inv io hc rc ly mem t a' c' v'"
    and m: "moved hc ly mem s a c v t a' c' v'" by blast
  note b = sys_inv_bounds [OF inv]
  from m have "fifo_step\<^sup>=\<^sup>= (queues hc ly mem s a c v) (queues hc ly mem t a' c' v')"
    using t b queues_send [of io hc rc ly mem t a c v s] queues_echo [of io hc rc ly mem t a c v s]
      queues_verify [of io hc rc ly mem t a c v s] queues_stop [OF inv] unfolding moved_def by auto
  with t show ?thesis by blast
qed

text \<open>
  The state of the machine as the programs see it: the counters in the two descriptors are the
  lengths of the queues, the messages lie in the payload areas in their order, and the programs are
  done when the machine is.
\<close>

definition represents :: "config \<Rightarrow> config \<Rightarrow> layout \<Rightarrow> ('w \<Rightarrow> bytes) \<Rightarrow> 'w sys \<Rightarrow> fifo \<Rightarrow> bool" where
  "represents hc rc ly mem s q \<longleftrightarrow>
     get32 0 (mem (world s)) = of_nat (length (sent q)) \<and>
     get32 (SHM0_DESC_SIZE rc) (mem (world s)) = of_nat (length (received q @ to_host q)) \<and>
     sent q = map (msg_at hc ly (mem (world s))) [0..<length (sent q)] \<and>
     received q @ to_host q = map (\<lambda>k. bytes_at (SHM_PAYLOAD_TX_OFFSET rc + 16 * k) 16 (mem (world s))) [0..<length (received q @ to_host q)] \<and>
     (\<forall>e. rpc s = R_Done e \<longrightarrow> stopped q) \<and> (\<forall>e. hpc s = H_Done e \<longrightarrow> length (received q) = 1024)"

lemma queues_represents:
  assumes inv: "sys_inv io hc rc ly mem s a c v"
  shows "represents hc rc ly mem s (queues hc ly mem s a c v)"
proof -
  note b = sys_inv_bounds [OF inv]
  from inv have m: "get32 0 (mem (world s)) = of_nat a" "get32 (SHM0_DESC_SIZE rc) (mem (world s)) = of_nat c"
    "\<forall>k < c. bytes_at (SHM_PAYLOAD_TX_OFFSET rc + 16 * k) 16 (mem (world s)) = msg_at hc ly (mem (world s)) k"
    by (simp_all add: sys_inv_def mem_ok_def h2r_ok_def r2h_ok_def msg_at_def)
  have "[0..<v] @ [v..<c] = [0..<c]" using b by (metis le_add_diff_inverse upt_add_eq_append zero_le)
  then have "map (msg_at hc ly (mem (world s))) [0..<v] @ map (msg_at hc ly (mem (world s))) [v..<c]
      = map (\<lambda>k. bytes_at (SHM_PAYLOAD_TX_OFFSET rc + 16 * k) 16 (mem (world s))) [0..<c]"
    using m(3) by (metis (no_types, lifting) map_append atLeastLessThan_iff map_eq_conv set_upt)
  with inv m(1,2) b show ?thesis
    by (auto simp: represents_def queues_def Let_def sys_inv_def host_inv_def remote_inv_def)
qed

lemma sys_run_refines:
  assumes "(sys_step io hc rc)\<^sup>*\<^sup>* s t" and "sys_inv io hc rc ly mem s a c v"
  shows "\<exists>a' c' v'. sys_inv io hc rc ly mem t a' c' v' \<and> fifo_step\<^sup>*\<^sup>* (queues hc ly mem s a c v) (queues hc ly mem t a' c' v')"
  using assms
proof (induction rule: rtranclp_induct)
  case base
  then show ?case by blast
next
  case (step t u)
  then obtain a1 c1 v1 where t: "sys_inv io hc rc ly mem t a1 c1 v1"
    "fifo_step\<^sup>*\<^sup>* (queues hc ly mem s a c v) (queues hc ly mem t a1 c1 v1)" by blast
  from sys_step_refines [OF step.hyps(2) t(1)] obtain a2 c2 v2 where u: "sys_inv io hc rc ly mem u a2 c2 v2"
    "fifo_step\<^sup>=\<^sup>= (queues hc ly mem t a1 c1 v1) (queues hc ly mem u a2 c2 v2)" by blast
  have "fifo_step\<^sup>*\<^sup>* (queues hc ly mem s a c v) (queues hc ly mem u a2 c2 v2)"
    using u(2) by (rule sup2E) (use t(2) in \<open>auto intro: rtranclp.rtrancl_into_rtrancl\<close>)
  with u(1) show ?case by blast
qed

section \<open>The refinement\<close>

text \<open>
  C3. The shared-memory demo refines the abstract machine with two queues: every state that host and
  remote reach, in whatever interleaving, represents a state that the machine reaches, in which
  the messages sent are, in their order and unchanged, those the host has verified, those that are
  echoed and not yet verified, and those that are still to be echoed.
\<close>

theorem shmem_demo_refines:
  assumes "sys_init io hc rc ly mem s" and "(sys_step io hc rc)\<^sup>*\<^sup>* s t"
  shows "\<exists>q. fifo_step\<^sup>*\<^sup>* fifo_start q \<and> represents hc rc ly mem t q \<and> sent q = received q @ to_host q @ to_remote q"
proof -
  have "queues hc ly mem s 0 0 0 = fifo_start" using assms(1) by (simp add: queues_def fifo_start_def sys_init_def)
  with sys_run_refines [OF assms(2) sys_init_inv [OF assms(1)]] obtain a c v where
    "sys_inv io hc rc ly mem t a c v" "fifo_step\<^sup>*\<^sup>* fifo_start (queues hc ly mem t a c v)" by auto
  with queues_represents fifo_order show ?thesis by blast
qed

theorem shmem_demo_refines_witness:
  "\<exists>t q. sys_step ram_io readme_host readme_remote readme_start t \<and> fifo_step\<^sup>*\<^sup>* fifo_start q \<and>
     represents readme_host readme_remote readme_layout ram_image t q"
proof -
  have "hpc readme_start \<noteq> H_Done 0" by (simp add: readme_start_def)
  with sys_progress [OF sys_init_inv [OF readme_init]] obtain t where
    t: "sys_step ram_io readme_host readme_remote readme_start t" by blast
  then have "(sys_step ram_io readme_host readme_remote)\<^sup>*\<^sup>* readme_start t" by blast
  from shmem_demo_refines [OF readme_init this] t show ?thesis by blast
qed

end
