(* ===== verification/Shmem_Platform.thy ===== *)
theory Shmem_Platform
  imports Shmem_Protocol
begin

text \<open>
  The platform code of the shared-memory demo: \<open>machine/host/amd_linux_userspace/platform_init.c\<close> and
  \<open>machine/remote/amd_rpu/platform_init.c\<close> with the entry points of the bare-metal and FreeRTOS ports,
  and the interrupt handlers that the step relation of \<open>Shmem_Protocol\<close> abbreviates.
\<close>

section \<open>The interrupt handlers\<close>

text \<open>
  A handler that finds the interrupt of the other side pending has exactly the effect on the flag
  that a kick has in \<open>sys_step\<close>.
\<close>

lemma irq_isr_kicks:
  "h_ipi_io (ch h) = Some r \<Longrightarrow> io_read32 io r IPI_ISR_OFFSET w AND IPI_MASK cfg \<noteq> 0 \<Longrightarrow>
     irq_isr io cfg (h, w) = Done (True, (kick_host h, io_write32 io r IPI_ISR_OFFSET (IPI_MASK cfg) w))"
  by (simp add: irq_isr_def)

lemma ipi_irq_handler_kicks:
  "r_ipi_io (rch r) = Some i \<Longrightarrow> r_ttc_io (rch r) = Some t \<Longrightarrow>
     io_read32 io i IPI_ISR_OFFSET w AND r_ipi_mask (rch r) \<noteq> 0 \<Longrightarrow>
     \<exists>w'. ipi_irq_handler io (r, w) = Done (True, (kick_remote r, w'))"
  by (simp add: ipi_irq_handler_def stop_timer_def system_resume_def)

section \<open>Devices\<close>

text \<open>The configured devices; the names are in \<open>config.h\<close>.\<close>

datatype device = Shm_dev | Shm0_desc_dev | Shm1_desc_dev | Ipi_dev | Ttc_dev

record 'w devlib =
  lib_init :: "'w \<Rightarrow> int \<times> 'w"
  lib_finish :: "'w \<Rightarrow> 'w"
  device_open :: "device \<Rightarrow> 'w \<Rightarrow> int \<times> 'w"
  device_close :: "device \<Rightarrow> 'w \<Rightarrow> 'w"
  device_io_region :: "device \<Rightarrow> 'w \<Rightarrow> nat option"
  device_irq :: "device \<Rightarrow> int"
  register_device :: "device \<Rightarrow> 'w \<Rightarrow> int \<times> 'w"
  register_controller :: "'w \<Rightarrow> int \<times> 'w"
  irq_register :: "int \<Rightarrow> 'w \<Rightarrow> 'w"
  irq_enable :: "int \<Rightarrow> 'w \<Rightarrow> 'w"
  irq_disable :: "int \<Rightarrow> 'w \<Rightarrow> 'w"
  irq_unregister :: "int \<Rightarrow> 'w \<Rightarrow> 'w"
  bsp_init_irq :: "'w \<Rightarrow> int \<times> 'w"
  bsp_init_ttc :: "'w \<Rightarrow> int \<times> 'w"
  bsp_enable_caches :: "'w \<Rightarrow> 'w"
  bsp_disable_caches :: "'w \<Rightarrow> 'w"

text \<open>The device pointers of the file, set by \<open>metal_device_open\<close>: the devices that are open.\<close>

type_synonym devices = "device set"

text \<open>Opening a list of devices in order, up to the first failure.\<close>

fun open_all :: "'w devlib \<Rightarrow> device list \<Rightarrow> (devices \<times> 'w, int) prog" where
  "open_all lib [] = ret 0"
| "open_all lib (d # ds) = bnd (ext (device_open lib d)) (\<lambda>r.
     if r \<noteq> 0 then ret r else seq (updg (insert d)) (open_all lib ds))"

fun close_all :: "'w devlib \<Rightarrow> device list \<Rightarrow> (devices \<times> 'w, unit) prog" where
  "close_all lib [] = ret ()"
| "close_all lib (d # ds) = bnd (getg (\<lambda>g. d \<in> g)) (\<lambda>p.
     seq (if p then extU (device_close lib d) else ret ()) (close_all lib ds))"

section \<open>The host\<close>

definition open_metal_devices :: "'w devlib \<Rightarrow> (devices \<times> 'w, int) prog" where
  "open_metal_devices lib = open_all lib [Shm_dev, Shm0_desc_dev, Shm1_desc_dev, Ipi_dev, Ttc_dev]"

definition close_metal_devices :: "'w devlib \<Rightarrow> (devices \<times> 'w, unit) prog" where
  "close_metal_devices lib = close_all lib [Shm_dev, Ipi_dev, Ttc_dev, Shm1_desc_dev, Shm0_desc_dev]"

text \<open>
  \<open>platform_init\<close> of the host: the result and the channel as far as it was filled in (\<open>ch0\<close> is
  what the caller's variable held before).
\<close>

definition host_platform_init ::
    "'w metal \<Rightarrow> 'w devlib \<Rightarrow> config \<Rightarrow> host_channel \<Rightarrow> (devices \<times> 'w, int \<times> host_channel) prog" where
  "host_platform_init io lib cfg ch0 =
     bnd (ext (lib_init lib)) (\<lambda>r. if r \<noteq> 0 then ret (r, ch0) else
     let c1 = ch0\<lparr>remote_nkicked := True\<rparr> in
     bnd (open_metal_devices lib) (\<lambda>r. if r \<noteq> 0 then ret (r, c1) else
     bnd (asks (device_io_region lib Shm_dev)) (\<lambda>x.
     let c2 = c1\<lparr>h_shm_io := x\<rparr> in if x = None then ret (- ENODEV, c2) else
     bnd (asks (device_io_region lib Shm0_desc_dev)) (\<lambda>x.
     let c3 = c2\<lparr>host_to_remote_desc_io := x\<rparr> in if x = None then ret (- ENODEV, c3) else
     bnd (asks (device_io_region lib Shm1_desc_dev)) (\<lambda>x.
     let c4 = c3\<lparr>remote_to_host_desc_io := x\<rparr> in if x = None then ret (- ENODEV, c4) else
     bnd (asks (device_io_region lib Ipi_dev)) (\<lambda>x.
     let c5 = c4\<lparr>h_ipi_io := x\<rparr> in case x of None \<Rightarrow> ret (- ENODEV, c5) | Some ipi \<Rightarrow>
     bnd (asks (device_io_region lib Ttc_dev)) (\<lambda>x.
     let c6 = c5\<lparr>h_ipi_mask := IPI_MASK cfg, h_ttc_io := x\<rparr> in if x = None then ret (- ENODEV, c6) else
     let irq = device_irq lib Ipi_dev in
     seq (extU (io_write32 io ipi IPI_IDR_OFFSET (IPI_MASK cfg)))
    (seq (extU (io_write32 io ipi IPI_ISR_OFFSET (IPI_MASK cfg)))
    (seq (extU (irq_register lib irq))
    (seq (extU (irq_enable lib irq))
    (seq (extU (io_write32 io ipi IPI_IER_OFFSET (IPI_MASK cfg)))
         (ret (0, c6\<lparr>h_irq_vector_id := irq\<rparr>)))))))))))))"

text \<open>
  \<open>platform_cleanup\<close> of the host: the interrupt is unregistered twice, and \<open>memset(&ch, 0, sizeof(ch))\<close>
  clears the parameter, not the channel, so nothing of it shows.
\<close>

definition host_platform_cleanup :: "'w metal \<Rightarrow> 'w devlib \<Rightarrow> config \<Rightarrow> host_channel \<Rightarrow> (devices \<times> 'w, unit) prog" where
  "host_platform_cleanup io lib cfg c = (case h_ipi_io c of None \<Rightarrow> fail Null_deref | Some ipi \<Rightarrow>
     seq (extU (io_write32 io ipi IPI_IDR_OFFSET (IPI_MASK cfg)))
    (seq (extU (irq_disable lib (h_irq_vector_id c)))
    (seq (extU (irq_unregister lib (h_irq_vector_id c)))
    (seq (extU (irq_unregister lib (h_irq_vector_id c)))
    (seq (close_metal_devices lib) (extU (lib_finish lib)))))))"

text \<open>\<open>main\<close> of the host; \<open>tb\<close> and \<open>rb\<close> are what the allocated buffers hold.\<close>

definition host_main ::
    "nat \<Rightarrow> 'w metal \<Rightarrow> 'w devlib \<Rightarrow> config \<Rightarrow> host_channel \<Rightarrow> bytes \<Rightarrow> bytes \<Rightarrow> (devices \<times> 'w, int) prog" where
  "host_main n io lib cfg ch0 tb rb =
     bnd (host_platform_init io lib cfg ch0) (\<lambda>(r, c).
     if r \<noteq> 0 then ret r
     else bnd (\<lambda>(g, w). obind (\<lambda>(x, (h, w')). Done ((x, ch h), (g, w')))
            (irq_shmem_echo n io cfg (\<lparr>ch = c, i_pkg = 0, tx_addr_offset = 0, rx_addr_offset = 0,
               tx_data_offset = 0, txbuf = tb, rxbuf = rb\<rparr>, w))) (\<lambda>(x, c').
          seq (host_platform_cleanup io lib cfg c') (ret x)))"

section \<open>The remote\<close>

definition metal_dev_table :: "device list" where
  "metal_dev_table = [Ipi_dev, Shm_dev, Ttc_dev]"

fun register_all :: "'w devlib \<Rightarrow> device list \<Rightarrow> (devices \<times> 'w, int) prog" where
  "register_all lib [] = ret 0"
| "register_all lib (d # ds) = bnd (ext (register_device lib d)) (\<lambda>r. if r \<noteq> 0 then ret r else register_all lib ds)"

definition platform_register_metal_device :: "'w devlib \<Rightarrow> (devices \<times> 'w, int) prog" where
  "platform_register_metal_device lib = register_all lib metal_dev_table"

definition remote_open_devices :: "'w devlib \<Rightarrow> (devices \<times> 'w, int) prog" where
  "remote_open_devices lib = open_all lib [Shm_dev, Ipi_dev, Ttc_dev]"

definition remote_close_devices :: "'w devlib \<Rightarrow> (devices \<times> 'w, unit) prog" where
  "remote_close_devices lib = close_all lib [Shm_dev, Ipi_dev, Ttc_dev]"

definition metal_xlnx_irq_init :: "'w devlib \<Rightarrow> (devices \<times> 'w, int) prog" where
  "metal_xlnx_irq_init lib = bnd (ext (register_controller lib)) (\<lambda>r. ret (if r < 0 then r else 0))"

text \<open>
  \<open>platform_init\<close> of the remote.  A missing region of the interrupt device is reported and then
  written to all the same; a missing region of the shared memory is only reported.
\<close>

definition remote_platform_init ::
    "'w metal \<Rightarrow> 'w devlib \<Rightarrow> config \<Rightarrow> remote_channel \<Rightarrow> (devices \<times> 'w, int \<times> remote_channel) prog" where
  "remote_platform_init io lib cfg ch0 =
     seq (extU (bsp_enable_caches lib))
    (bnd (ext (bsp_init_irq lib)) (\<lambda>r. if r \<noteq> 0 then ret (1, ch0) else
     bnd (ext (bsp_init_ttc lib)) (\<lambda>r. if r \<noteq> 0 then ret (1, ch0) else
     seq (ext (lib_init lib))
    (bnd (metal_xlnx_irq_init lib) (\<lambda>r. if r \<noteq> 0 then ret (r, ch0) else
     bnd (platform_register_metal_device lib) (\<lambda>r. if r \<noteq> 0 then ret (r, ch0) else
     bnd (remote_open_devices lib) (\<lambda>r. if r \<noteq> 0 then ret (r, ch0) else
     bnd (asks (device_io_region lib Ipi_dev)) (\<lambda>x. case x of None \<Rightarrow> fail Null_deref | Some ipi \<Rightarrow>
     let irq = device_irq lib Ipi_dev in
     let c1 = ch0\<lparr>r_ipi_io := Some ipi, r_ipi_mask := IPI_MASK cfg, r_irq_vector_id := irq\<rparr> in
     seq (extU (io_write32 io ipi IPI_IDR_OFFSET (IPI_MASK cfg)))
    (seq (extU (io_write32 io ipi IPI_ISR_OFFSET (IPI_MASK cfg)))
    (seq (extU (io_write32 io ipi IPI_IDR_OFFSET (IPI_MASK cfg)))
    (seq (extU (io_write32 io ipi IPI_ISR_OFFSET (IPI_MASK cfg)))
    (seq (extU (irq_register lib irq))
    (seq (extU (irq_enable lib irq))
    (seq (extU (io_write32 io ipi IPI_IER_OFFSET (IPI_MASK cfg)))
    (bnd (asks (device_io_region lib Shm_dev)) (\<lambda>shm.
     seq (case shm of None \<Rightarrow> ret ()
          | Some s \<Rightarrow> seq (ext (io_block_set io s 0 0 (SHM0_DESC_SIZE cfg + SHM1_DESC_SIZE cfg + SHM_PAYLOAD_SIZE cfg))) (ret ()))
    (bnd (asks (device_io_region lib Ttc_dev)) (\<lambda>ttc.
     let c2 = c1\<lparr>r_shm_io := shm, r_ttc_io := ttc\<rparr> in
     if ttc = None then ret (- ENODEV, c2)
     else seq (extU (irq_register lib irq)) (ret (0, c2))))))))))))))))))))"

definition remote_platform_cleanup :: "'w devlib \<Rightarrow> remote_channel \<Rightarrow> (devices \<times> 'w, unit) prog" where
  "remote_platform_cleanup lib c =
     seq (extU (irq_unregister lib (r_irq_vector_id c)))
    (seq (remote_close_devices lib)
    (seq (extU (lib_finish lib)) (extU (bsp_disable_caches lib))))"

text \<open>A zeroed channel, as \<open>demo\<close> starts with; \<open>lb\<close> is what the allocated buffer holds.\<close>

definition zero_channel :: remote_channel where
  "zero_channel = \<lparr>r_ipi_io = None, r_shm_io = None, r_ttc_io = None, r_ipi_mask = 0, r_irq_vector_id = 0, irq_pending = False\<rparr>"

definition remote_demo :: "nat \<Rightarrow> 'w metal \<Rightarrow> 'w devlib \<Rightarrow> config \<Rightarrow> bytes \<Rightarrow> (devices \<times> 'w, int) prog" where
  "remote_demo n io lib cfg lb =
     bnd (remote_platform_init io lib cfg zero_channel) (\<lambda>(r, c).
     if r \<noteq> 0 then ret r
     else bnd (ext (alloc_memory io)) (\<lambda>ok.
       if \<not> ok then seq (remote_platform_cleanup lib c) (ret (- ENOMEM))
       else bnd (\<lambda>(g, w). obind (\<lambda>(x, (v, w')). Done (x, (g, w')))
              (seq amp_os_init (remote_serve n io cfg)
                 (\<lparr>rch = c, rx_count = 0, r_tx_addr_offset = SHM0_DESC_SIZE cfg + SHM_DESC_ADDR_ARRAY_OFFSET,
                   r_rx_addr_offset = SHM_DESC_ADDR_ARRAY_OFFSET, r_tx_data_offset = SHM_PAYLOAD_TX_OFFSET cfg, lbuf = lb\<rparr>, w))) (\<lambda>x.
            seq (extU (free_memory io)) (seq (remote_platform_cleanup lib c) (ret x)))))"

text \<open>The entry points: bare metal returns the result, FreeRTOS runs the demo in a task and never returns.\<close>

definition remote_generic_main :: "nat \<Rightarrow> 'w metal \<Rightarrow> 'w devlib \<Rightarrow> config \<Rightarrow> bytes \<Rightarrow> (devices \<times> 'w, int) prog" where
  "remote_generic_main n io lib cfg lb = remote_demo n io lib cfg lb"

definition remote_freertos_main ::
    "('w \<Rightarrow> bool \<times> 'w) \<Rightarrow> nat \<Rightarrow> 'w metal \<Rightarrow> 'w devlib \<Rightarrow> config \<Rightarrow> bytes \<Rightarrow> (devices \<times> 'w, int) prog" where
  "remote_freertos_main xTaskCreate n io lib cfg lb =
     bnd (ext xTaskCreate) (\<lambda>ok. if \<not> ok then (\<lambda>s. Blocked) else seq (remote_demo n io lib cfg lb) (\<lambda>s. Blocked))"


section \<open>What the platform code guarantees\<close>

lemma open_all_run: "\<exists>r g' w'. open_all lib ds (g, w) = Done (r, (g', w')) \<and> (r = 0 \<longrightarrow> set ds \<union> g \<subseteq> g')"
proof (induction ds arbitrary: g w)
  case Nil
  then show ?case by simp
next
  case (Cons d ds)
  obtain r w1 where o: "device_open lib d w = (r, w1)" by fastforce
  show ?case
  proof (cases "r = 0")
    case False
    with o show ?thesis by simp
  next
    case True
    from Cons.IH [of "insert d g" w1] obtain r' g' w' where
      "open_all lib ds (insert d g, w1) = Done (r', (g', w'))" "r' = 0 \<longrightarrow> set ds \<union> insert d g \<subseteq> g'" by blast
    with o True show ?thesis by auto
  qed
qed

text \<open>
  \<open>platform_init\<close> of the host always returns, and when it returns 0 the channel is complete: all
  five regions are there, so that \<open>irq_shmem_echo\<close> does not take its early return, the kick flag is set
  (no notification yet), the mask is the configured one, and all five devices are open.
\<close>

theorem host_init_complete:
  "\<exists>r c g' w'. host_platform_init io lib cfg ch0 (g, w) = Done ((r, c), (g', w')) \<and>
     (r = 0 \<longrightarrow> h_shm_io c \<noteq> None \<and> host_to_remote_desc_io c \<noteq> None \<and> remote_to_host_desc_io c \<noteq> None \<and>
        h_ipi_io c \<noteq> None \<and> h_ttc_io c \<noteq> None \<and> remote_nkicked c \<and> h_ipi_mask c = IPI_MASK cfg \<and>
        {Shm_dev, Shm0_desc_dev, Shm1_desc_dev, Ipi_dev, Ttc_dev} \<subseteq> g')"
proof -
  obtain r0 w0 where i: "lib_init lib w = (r0, w0)" by fastforce
  from open_all_run [of lib "[Shm_dev, Shm0_desc_dev, Shm1_desc_dev, Ipi_dev, Ttc_dev]" g w0] obtain r1 g1 w1 where
    o: "open_all lib [Shm_dev, Shm0_desc_dev, Shm1_desc_dev, Ipi_dev, Ttc_dev] (g, w0) = Done (r1, (g1, w1))"
      "r1 = 0 \<longrightarrow> {Shm_dev, Shm0_desc_dev, Shm1_desc_dev, Ipi_dev, Ttc_dev} \<subseteq> g1" by auto
  show ?thesis
  proof (cases "r0 = 0 \<and> r1 = 0")
    case False
    with i o(1) show ?thesis by (auto simp: host_platform_init_def open_metal_devices_def Let_def)
  next
    case True
    with i o show ?thesis
      by (simp add: host_platform_init_def open_metal_devices_def Let_def split: option.split)
  qed
qed

definition null_devlib :: "(device \<Rightarrow> nat option) \<Rightarrow> unit devlib" where
  "null_devlib regions = \<lparr>lib_init = Pair 0, lib_finish = id, device_open = (\<lambda>d. Pair 0), device_close = (\<lambda>d. id),
     device_io_region = (\<lambda>d w. regions d), device_irq = (\<lambda>d. 0), register_device = (\<lambda>d. Pair 0), register_controller = Pair 0,
     irq_register = (\<lambda>i. id), irq_enable = (\<lambda>i. id), irq_disable = (\<lambda>i. id), irq_unregister = (\<lambda>i. id),
     bsp_init_irq = Pair 0, bsp_init_ttc = Pair 0, bsp_enable_caches = id, bsp_disable_caches = id\<rparr>"

definition null_metal :: "unit metal" where
  "null_metal = \<lparr>io_read32 = (\<lambda>r off w. 0), io_write32 = (\<lambda>r off v. id), io_block_read = (\<lambda>r off n w. (int n, replicate n 0)),
     io_block_write = (\<lambda>r off bs. Pair 0), io_block_set = (\<lambda>r off b n. Pair 0), io_phys = (\<lambda>r off. of_nat off),
     io_phys_to_offset = (\<lambda>r a. Some (unat a)), timestamp = Pair 0, alloc_memory = Pair True, free_memory = id,
     irq_save_disable = Pair 0, irq_restore_enable = (\<lambda>f. id), cpu_yield = id, irq_pends = Pair True\<rparr>"

theorem host_init_complete_witness:
  "\<exists>r c g' w'. host_platform_init null_metal (null_devlib (\<lambda>d. Some 0)) readme_host
      (ch (hv readme_start)) ({}, ()) = Done ((r, c), (g', w')) \<and> r = 0 \<and> h_ttc_io c = Some 0 \<and> Ttc_dev \<in> g'"
proof -
  have r: "\<exists>c s. host_platform_init null_metal (null_devlib (\<lambda>d. Some 0)) readme_host (ch (hv readme_start)) ({}, ())
      = Done ((0, c), s) \<and> h_ttc_io c = Some 0"
    by (simp add: host_platform_init_def open_metal_devices_def null_devlib_def null_metal_def Let_def)
  with host_init_complete [of null_metal "null_devlib (\<lambda>d. Some 0)" readme_host "ch (hv readme_start)" "{}" "()"]
  show ?thesis by auto
qed

text \<open>
  \<open>platform_init\<close> of the remote reports a missing region of the interrupt device and then writes to
  it: it goes through a null pointer instead of returning the error.
\<close>

theorem remote_init_null_ipi:
  assumes "\<And>w. fst (bsp_init_irq lib w) = 0" and "\<And>w. fst (bsp_init_ttc lib w) = 0"
    and "\<And>w. fst (register_controller lib w) = 0" and "\<And>d w. fst (register_device lib d w) = 0"
    and "\<And>d w. fst (device_open lib d w) = 0" and "\<And>w. device_io_region lib Ipi_dev w = None"
  shows "remote_platform_init io lib cfg c (g, w) = Fault Null_deref"
  using assms
  by (simp add: remote_platform_init_def metal_xlnx_irq_init_def platform_register_metal_device_def
      metal_dev_table_def remote_open_devices_def)

theorem remote_init_null_ipi_witness:
  "remote_platform_init null_metal (null_devlib (\<lambda>d. None)) readme_remote zero_channel ({}, ()) = Fault Null_deref"
  by (rule remote_init_null_ipi) (simp_all add: null_devlib_def)

section \<open>Robustness of the remote\<close>

text \<open>
  C39. The remote checks what it reads: whatever addresses, lengths and messages the shared memory
  holds, handling one message never leaves the 512-byte buffer and ends with an echo, an error or
  the shutdown.  (libmetal copies at most as many bytes as were asked for.)
\<close>

theorem remote_echo_no_overrun:
  assumes "r_shm_io (rch r) = Some s" and "r_ipi_io (rch r) \<noteq> None" and "length (lbuf r) = 512"
    and "\<And>off n w. length (snd (io_block_read io s off n w)) \<le> n"
  shows "\<exists>x r' w'. remote_echo io cfg (r, w) = Done (x, (r', w'))"
proof (cases "io_phys_to_offset io s (ucast (io_read32 io s (r_rx_addr_offset r) w))")
  case None
  with assms(1) show ?thesis by (simp add: remote_echo_def)
next
  case (Some rx)
  obtain e hdr where h: "io_block_read io s rx 8 w = (e, hdr)" by fastforce
  with assms(4) [of rx 8 w] have lh: "length hdr \<le> 8" by simp
  define lb where "lb = patch 0 hdr (lbuf r)"
  have l1: "put_bytes 0 hdr (lbuf r) = Done lb" "length lb = 512"
    using lh assms(3) by (simp_all add: lb_def put_bytes_def patch_def)
  define len where "len = unat (get32 4 lb)"
  obtain e2 body where b: "io_block_read io s (rx + 8) len w = (e2, body)" by fastforce
  with assms(4) [of "rx + 8" len w] have "length body \<le> len" by simp
  then have l2: "put_bytes 8 body lb = Done (patch 8 body lb)" if "len \<le> 504"
    using l1(2) that by (simp add: put_bytes_def patch_def)
  from assms(2) obtain i where i: "r_ipi_io (rch r) = Some i" by blast
  show ?thesis
  proof (cases "e < 0 \<or> 504 < len \<or> e2 < 0")
    case True
    with assms(1) Some h l1 b show ?thesis
      by (auto simp: remote_echo_def BUF_SIZE_MAX_def Let_def len_def [symmetric])
  next
    case False
    with assms(1) Some h l1 b l2 i show ?thesis
      by (simp add: remote_echo_def BUF_SIZE_MAX_def Let_def len_def [symmetric] remote_irq_kick_def split_beta)
  qed
qed

theorem remote_echo_no_overrun_witness:
  "\<exists>x r' w'. remote_echo null_metal readme_remote (rv readme_start, ()) = Done (x, (r', w'))"
  by (rule remote_echo_no_overrun [where s = 3]) (simp_all add: readme_start_def null_metal_def)

end
