(* ===== verification/Freertos_Port.thy ===== *)
theory Freertos_Port
  imports Shmem_Platform
begin

text \<open>
  What lies under the remote of the shared-memory demo: the set-up of the interrupt controller and of the timer
  through the board support package (\<open>system/generic/gic_init.c\<close>, \<open>system/freertos/gic_init.c\<close> and
  \<open>init_ttc\<close>, \<open>xlnx_irq_isr\<close>, the caches in \<open>platform_init.c\<close>), the FreeRTOS version of
  \<open>amp_demo_os.h\<close>, and the three versions of \<open>suspend.c\<close> of the legacy applications.  The
  last section runs host and remote against each other as \<open>Shmem_Protocol\<close> does, with the
  remote as a FreeRTOS task: there a wake-up can be lost.
\<close>

section \<open>Board support\<close>

record 'w bsp =
  bsp_lookup_ipi :: "'w \<Rightarrow> bool"
  bsp_cfg_initialize :: "'w \<Rightarrow> int \<times> 'w"
  bsp_init_xilpm :: "'w \<Rightarrow> int \<times> 'w"
  bsp_node_status :: "'w \<Rightarrow> (int \<times> u32) \<times> 'w"
  bsp_request_ttc :: "'w \<Rightarrow> int \<times> 'w"
  bsp_setup_interrupts :: "'w \<Rightarrow> int \<times> 'w"
  bsp_clear_ipi :: "'w \<Rightarrow> 'w"
  bsp_ipi_status :: "'w \<Rightarrow> u32"
  bsp_target_masks :: "u32 list"
  bsp_irq_num :: nat
  bsp_ipi_vector :: nat
  bsp_irq_handle :: "'w \<Rightarrow> 'w"
  bsp_install_handler :: "'w \<Rightarrow> 'w"
  bsp_dcache_off :: "'w \<Rightarrow> 'w"
  bsp_icache_off :: "'w \<Rightarrow> 'w"

text \<open>The processor is no MicroBlaze, so that \<open>enable_caches\<close> has an empty body.\<close>

definition enable_caches :: "'w \<Rightarrow> 'w" where
  "enable_caches w = w"

definition disable_caches :: "'w bsp \<Rightarrow> 'w \<Rightarrow> 'w" where
  "disable_caches b w = bsp_icache_off b (bsp_dcache_off b w)"

definition amd_irq_isr :: "'w bsp \<Rightarrow> nat \<Rightarrow> 'w \<Rightarrow> 'w" where
  "amd_irq_isr b vector w = (if bsp_irq_num b \<le> vector then w else bsp_irq_handle b w)"

text \<open>The condition \<open>!node_status.status == 0\<close> is \<open>(!status) == 0\<close>.\<close>

definition init_ttc :: "'w bsp \<Rightarrow> 'w \<Rightarrow> int \<times> 'w" where
  "init_ttc b w0 =
     (if \<not> bsp_lookup_ipi b w0 then (- EINVAL, w0)
      else case bsp_cfg_initialize b w0 of (r, w) \<Rightarrow> if r \<noteq> 0 then (- EINVAL, w)
      else case bsp_init_xilpm b w of (r, w) \<Rightarrow> if r \<noteq> 0 then (- EINVAL, w)
      else case bsp_node_status b w of ((r, status), w) \<Rightarrow> if r \<noteq> 0 then (- EINVAL, w)
      else if status \<noteq> 0 then (case bsp_request_ttc b w of (r, w) \<Rightarrow> (if r \<noteq> 0 then - EINVAL else 0, w))
      else (0, w))"

fun ipi_handler_loop :: "'w bsp \<Rightarrow> u32 \<Rightarrow> u32 list \<Rightarrow> 'w \<Rightarrow> 'w" where
  "ipi_handler_loop b src [] w = w"
| "ipi_handler_loop b src (m # ms) w =
     ipi_handler_loop b src ms (if and src m \<noteq> 0 then amd_irq_isr b (bsp_ipi_vector b) w else w)"

definition IpiIntrHandler :: "'w bsp \<Rightarrow> 'w \<Rightarrow> 'w" where
  "IpiIntrHandler b w = ipi_handler_loop b (bsp_ipi_status b w) (bsp_target_masks b) w"

definition init_irq_generic :: "'w bsp \<Rightarrow> 'w \<Rightarrow> int \<times> 'w" where
  "init_irq_generic b w0 =
     (if \<not> bsp_lookup_ipi b w0 then (1, w0)
      else case bsp_cfg_initialize b w0 of (r, w) \<Rightarrow> if r \<noteq> 0 then (1, w)
      else case bsp_setup_interrupts b w of (r, w) \<Rightarrow> if r \<noteq> 0 then (1, w)
      else (0, bsp_clear_ipi b w))"

definition init_irq_freertos :: "'w bsp \<Rightarrow> 'w \<Rightarrow> int \<times> 'w" where
  "init_irq_freertos b w = (0, bsp_install_handler b w)"

text \<open>The platform code on top of a board: the parameters of \<open>remote_platform_init\<close> that stand for these functions.\<close>

definition on_board :: "bool \<Rightarrow> 'w bsp \<Rightarrow> 'w devlib \<Rightarrow> 'w devlib" where
  "on_board freertos b lib = lib\<lparr>bsp_init_irq := (if freertos then init_irq_freertos b else init_irq_generic b),
     bsp_init_ttc := init_ttc b, bsp_enable_caches := enable_caches, bsp_disable_caches := disable_caches b\<rparr>"

section \<open>Tasks\<close>

text \<open>
  The calls of FreeRTOS, as functions on the state of its kernel: \<open>vTaskSuspend\<close> of a task, or of the caller when the argument is NULL;
  \<open>xTaskResumeFromISR\<close> with its result; \<open>portYIELD_FROM_ISR\<close>.  Tasks are handles.
\<close>

record 'k rtos =
  vTaskSuspend :: "nat option \<Rightarrow> 'k \<Rightarrow> 'k"
  xTaskResumeFromISR :: "nat option \<Rightarrow> 'k \<Rightarrow> bool \<times> 'k"
  portYIELD_FROM_ISR :: "bool \<Rightarrow> 'k \<Rightarrow> 'k"

text \<open>The channel of the FreeRTOS port has the handle of the demo's task instead of the pending flag.\<close>

record os_channel =
  os_task :: "nat option"

definition amp_os_init_freertos :: "nat option \<Rightarrow> os_channel \<Rightarrow> (int \<times> os_channel) outcome" where
  "amp_os_init_freertos task c = (case task of None \<Rightarrow> Fault Assert_failed | Some t \<Rightarrow> Done (0, c\<lparr>os_task := Some t\<rparr>))"

definition system_suspend_freertos :: "'k rtos \<Rightarrow> os_channel \<Rightarrow> 'k \<Rightarrow> 'k outcome" where
  "system_suspend_freertos rt c k = Done (vTaskSuspend rt None k)"

definition system_resume_freertos :: "'k rtos \<Rightarrow> os_channel \<Rightarrow> 'k \<Rightarrow> 'k outcome" where
  "system_resume_freertos rt c k =
     (case os_task c of None \<Rightarrow> Fault Assert_failed
      | Some t \<Rightarrow> (case xTaskResumeFromISR rt (Some t) k of (y, k') \<Rightarrow> Done (portYIELD_FROM_ISR rt y k')))"

text \<open>
  The suspension of the legacy applications: with FreeRTOS the same calls on \<open>rpmsg_task\<close>, else one call of
  \<open>metal_cpu_yield\<close> (the weak defaults) and nothing on resumption.
\<close>

definition legacy_suspend_freertos :: "'k rtos \<Rightarrow> nat option \<Rightarrow> 'k \<Rightarrow> 'k" where
  "legacy_suspend_freertos rt rpmsg_task k = vTaskSuspend rt rpmsg_task k"

definition legacy_resume_freertos :: "'k rtos \<Rightarrow> nat option \<Rightarrow> 'k \<Rightarrow> 'k" where
  "legacy_resume_freertos rt rpmsg_task k = snd (xTaskResumeFromISR rt rpmsg_task k)"

definition system_generic_suspend :: "('w \<Rightarrow> 'w) \<Rightarrow> 'w \<Rightarrow> 'w" where
  "system_generic_suspend yield w = yield w"

definition system_generic_resume :: "'w \<Rightarrow> 'w" where
  "system_generic_resume w = w"

definition legacy_suspend_generic :: "('w \<Rightarrow> 'w) \<Rightarrow> 'w \<Rightarrow> 'w" where
  "legacy_suspend_generic yield w = system_generic_suspend yield w"

definition legacy_resume_generic :: "'w \<Rightarrow> 'w" where
  "legacy_resume_generic w = system_generic_resume w"

definition rpmsg_linux_suspend :: "('w \<Rightarrow> 'w) \<Rightarrow> 'w \<Rightarrow> 'w" where
  "rpmsg_linux_suspend yield w = yield w"

definition rpmsg_linux_resume :: "'w \<Rightarrow> 'w" where
  "rpmsg_linux_resume w = w"

definition legacy_suspend_linux :: "('w \<Rightarrow> 'w) \<Rightarrow> 'w \<Rightarrow> 'w" where
  "legacy_suspend_linux yield w = rpmsg_linux_suspend yield w"

definition legacy_resume_linux :: "'w \<Rightarrow> 'w" where
  "legacy_resume_linux w = rpmsg_linux_resume w"

section \<open>What the board functions do\<close>

lemma ipi_handler_loop_runs:
  "bsp_ipi_vector b < bsp_irq_num b \<Longrightarrow>
     ipi_handler_loop b src ms w = (bsp_irq_handle b ^^ length (filter (\<lambda>m. and src m \<noteq> 0) ms)) w"
  by (induction ms arbitrary: w) (simp_all add: amd_irq_isr_def funpow_swap1)

text \<open>The interrupt handler of the board runs the handlers of libmetal once for every channel that is pending.\<close>

lemma IpiIntrHandler_runs:
  "bsp_ipi_vector b < bsp_irq_num b \<Longrightarrow>
     IpiIntrHandler b w = (bsp_irq_handle b ^^ length (filter (\<lambda>m. and (bsp_ipi_status b w) m \<noteq> 0) (bsp_target_masks b))) w"
  by (simp add: IpiIntrHandler_def ipi_handler_loop_runs)

text \<open>
  A timer that is off stays off: the request for its power is made only when it is on already, and the
  initialisation reports success.
\<close>

lemma init_ttc_leaves_off:
  assumes "bsp_lookup_ipi b w" and "bsp_cfg_initialize b w = (0, w1)" and "bsp_init_xilpm b w1 = (0, w2)"
    and "bsp_node_status b w2 = ((0, 0), w3)"
  shows "init_ttc b w = (0, w3)"
  using assms by (simp add: init_ttc_def)

lemma init_ttc_requests_on:
  assumes "bsp_lookup_ipi b w" and "bsp_cfg_initialize b w = (0, w1)" and "bsp_init_xilpm b w1 = (0, w2)"
    and "bsp_node_status b w2 = ((0, st), w3)" and "st \<noteq> 0" and "bsp_request_ttc b w3 = (r, w4)"
  shows "init_ttc b w = (if r \<noteq> 0 then - EINVAL else 0, w4)"
  using assms by (simp add: init_ttc_def)

text \<open>A failure below stops the initialisation of the platform with \<open>XST_FAILURE\<close>, before any device is registered.\<close>

lemma on_board_init_fails:
  assumes "fst (init_irq_generic b w) \<noteq> 0"
  shows "remote_platform_init io (on_board False b lib) cfg c (g, w) = Done ((1, c), (g, snd (init_irq_generic b w)))"
  using assms by (simp add: remote_platform_init_def on_board_def enable_caches_def)

text \<open>An interrupt that comes before \<open>amp_os_init\<close> has stored the task fails an assertion in the handler.\<close>

lemma resume_before_os_init: "os_task c = None \<Longrightarrow> system_resume_freertos rt c k = Fault Assert_failed"
  by (simp add: system_resume_freertos_def)

text \<open>
  What the documentation of FreeRTOS says of the calls, for a task \<open>t\<close> of which \<open>runs\<close> says whether it is scheduled: a suspension stops the
  caller, whatever came before; a resumption lets a task that is suspended run again and has no effect on a task that is not; the yield changes
  neither.
\<close>

definition rtos_laws :: "'k rtos \<Rightarrow> ('k \<Rightarrow> bool) \<Rightarrow> nat \<Rightarrow> bool" where
  "rtos_laws rt runs t \<longleftrightarrow>
     (\<forall>k. runs k \<longrightarrow> \<not> runs (vTaskSuspend rt None k)) \<and>
     (\<forall>k. runs k \<longrightarrow> xTaskResumeFromISR rt (Some t) k = (False, k)) \<and>
     (\<forall>k. \<not> runs k \<longrightarrow> runs (snd (xTaskResumeFromISR rt (Some t) k))) \<and>
     (\<forall>y k. runs (portYIELD_FROM_ISR rt y k) = runs k)"

text \<open>The two orders of a suspension and a resumption: only one of them leaves the task running.\<close>

lemma suspend_stops:
  assumes "rtos_laws rt runs t" and "runs k"
  obtains k' where "system_suspend_freertos rt c k = Done k'" and "\<not> runs k'"
  using assms by (simp add: rtos_laws_def system_suspend_freertos_def)

lemma resume_runs:
  assumes "rtos_laws rt runs t" and "os_task c = Some t"
  obtains k' where "system_resume_freertos rt c k = Done k'" and "runs k'"
  using assms by (cases "runs k") (auto simp: rtos_laws_def system_resume_freertos_def split_beta)

section \<open>The demo with a FreeRTOS remote\<close>

text \<open>
  The system of \<open>Shmem_Protocol\<close> with the task of the remote: \<open>R_Waiting\<close> is the point before
  \<open>system_suspend\<close>; \<open>asleep\<close> is set inside it.  A kick of the host runs \<open>system_resume\<close> in the interrupt handler of the remote; a failed
  assertion there stops the remote.
\<close>

record ('w, 'k) ft_sys =
  base :: "'w sys"
  asleep :: bool
  chan :: os_channel
  kernel :: 'k
  crashed :: bool

definition kicked :: "'k rtos \<Rightarrow> ('w, 'k) ft_sys \<Rightarrow> ('w, 'k) ft_sys" where
  "kicked rt f = (case system_resume_freertos rt (chan f) (kernel f) of Done k \<Rightarrow> f\<lparr>kernel := k\<rparr> | _ \<Rightarrow> f\<lparr>crashed := True\<rparr>)"

definition active :: "('k \<Rightarrow> bool) \<Rightarrow> ('w, 'k) ft_sys \<Rightarrow> bool" where
  "active runs f \<longleftrightarrow> runs (kernel f) \<and> \<not> crashed f"

inductive ft_step :: "'w metal \<Rightarrow> config \<Rightarrow> config \<Rightarrow> 'k rtos \<Rightarrow> ('k \<Rightarrow> bool) \<Rightarrow> ('w, 'k) ft_sys \<Rightarrow> ('w, 'k) ft_sys \<Rightarrow> bool"
  for io hc rc rt runs where
  ft_send: "s = base f \<Longrightarrow> hpc s = H_Sending \<Longrightarrow> i_pkg (hv s) < PKGS_TOTAL \<Longrightarrow>
      host_send io hc (hv s, world s) = Done (Inl (), (h', w')) \<Longrightarrow>
      ft_step io hc rc rt runs f ((kicked rt f)\<lparr>base := s\<lparr>hv := h', world := w'\<rparr>\<rparr>)"
| ft_send_error: "s = base f \<Longrightarrow> hpc s = H_Sending \<Longrightarrow> i_pkg (hv s) < PKGS_TOTAL \<Longrightarrow>
      host_send io hc (hv s, world s) = Done (Inr e, (h', w')) \<Longrightarrow>
      ft_step io hc rc rt runs f (f\<lparr>base := s\<lparr>hv := h', world := w', hpc := H_Done e\<rparr>\<rparr>)"
| ft_all_sent: "s = base f \<Longrightarrow> hpc s = H_Sending \<Longrightarrow> \<not> i_pkg (hv s) < PKGS_TOTAL \<Longrightarrow>
      ft_step io hc rc rt runs f (f\<lparr>base := s\<lparr>hv := (hv s)\<lparr>i_pkg := 0, tx_data_offset := SHM_PAYLOAD_RX_OFFSET hc\<rparr>, hpc := H_Waiting\<rparr>\<rparr>)"
| ft_host_wakes: "s = base f \<Longrightarrow> hpc s = H_Waiting \<Longrightarrow> i_pkg (hv s) \<noteq> PKGS_TOTAL \<Longrightarrow> \<not> remote_nkicked (ch (hv s)) \<Longrightarrow>
      remote_to_host_desc_io (ch (hv s)) = Some d \<Longrightarrow>
      ft_step io hc rc rt runs f (f\<lparr>base := s\<lparr>hv := host_takes (hv s), hpc := H_Draining (io_read32 io d SHM_DESC_AVAIL_OFFSET (world s))\<rparr>\<rparr>)"
| ft_verify: "s = base f \<Longrightarrow> hpc s = H_Draining a \<Longrightarrow> i_pkg (hv s) \<noteq> a \<Longrightarrow>
      host_verify io (hv s, world s) = Done (Inl (), (h', w')) \<Longrightarrow>
      ft_step io hc rc rt runs f (f\<lparr>base := s\<lparr>hv := h', world := w'\<rparr>\<rparr>)"
| ft_verify_error: "s = base f \<Longrightarrow> hpc s = H_Draining a \<Longrightarrow> i_pkg (hv s) \<noteq> a \<Longrightarrow>
      host_verify io (hv s, world s) = Done (Inr e, (h', w')) \<Longrightarrow>
      ft_step io hc rc rt runs f (f\<lparr>base := s\<lparr>hv := h', world := w', hpc := H_Done e\<rparr>\<rparr>)"
| ft_host_drained: "s = base f \<Longrightarrow> hpc s = H_Draining a \<Longrightarrow> i_pkg (hv s) = a \<Longrightarrow>
      ft_step io hc rc rt runs f (f\<lparr>base := s\<lparr>hpc := H_Waiting\<rparr>\<rparr>)"
| ft_shutdown: "s = base f \<Longrightarrow> hpc s = H_Waiting \<Longrightarrow> i_pkg (hv s) = PKGS_TOTAL \<Longrightarrow>
      host_shutdown io (hv s, world s) = Done (r, (h', w')) \<Longrightarrow>
      ft_step io hc rc rt runs f ((kicked rt f)\<lparr>base := s\<lparr>hv := h', world := w', hpc := H_Done r\<rparr>\<rparr>)"
| ft_suspend: "rpc (base f) = R_Waiting \<Longrightarrow> active runs f \<Longrightarrow> \<not> asleep f \<Longrightarrow> system_suspend_freertos rt (chan f) (kernel f) = Done k' \<Longrightarrow>
      ft_step io hc rc rt runs f (f\<lparr>asleep := True, kernel := k'\<rparr>)"
| ft_remote_wakes: "s = base f \<Longrightarrow> rpc s = R_Waiting \<Longrightarrow> active runs f \<Longrightarrow> asleep f \<Longrightarrow> r_shm_io (rch (rv s)) = Some d \<Longrightarrow>
      ft_step io hc rc rt runs f (f\<lparr>asleep := False, base := s\<lparr>rpc := R_Draining (io_read32 io d SHM_DESC_AVAIL_OFFSET (world s))\<rparr>\<rparr>)"
| ft_echo: "s = base f \<Longrightarrow> rpc s = R_Draining a \<Longrightarrow> active runs f \<Longrightarrow> rx_count (rv s) \<noteq> a \<Longrightarrow>
      remote_echo io rc (rv s, world s) = Done (Inl (), (r', w')) \<Longrightarrow>
      ft_step io hc rc rt runs f (f\<lparr>base := s\<lparr>rv := r', world := w', hv := kick_host (hv s)\<rparr>\<rparr>)"
| ft_remote_stops: "s = base f \<Longrightarrow> rpc s = R_Draining a \<Longrightarrow> active runs f \<Longrightarrow> rx_count (rv s) \<noteq> a \<Longrightarrow>
      remote_echo io rc (rv s, world s) = Done (Inr e, (r', w')) \<Longrightarrow>
      ft_step io hc rc rt runs f (f\<lparr>base := s\<lparr>rv := r', world := w', rpc := R_Done e\<rparr>\<rparr>)"
| ft_remote_drained: "s = base f \<Longrightarrow> rpc s = R_Draining a \<Longrightarrow> active runs f \<Longrightarrow> rx_count (rv s) = a \<Longrightarrow>
      ft_step io hc rc rt runs f (f\<lparr>base := s\<lparr>rpc := R_Waiting\<rparr>\<rparr>)"

inductive_cases ft_stepE: "ft_step io hc rc rt runs f t"

text \<open>The state in which the task of the remote has been stored and it has not reached its first suspension.\<close>

definition ft_start :: "'w sys \<Rightarrow> os_channel \<Rightarrow> 'k \<Rightarrow> ('w, 'k) ft_sys" where
  "ft_start s c k = \<lparr>base = s, asleep = False, chan = c, kernel = k, crashed = False\<rparr>"

lemma kicked_start:
  assumes "rtos_laws rt runs t" and "os_task c = Some t" and "runs k"
  obtains k' where "kicked rt (ft_start s c k) = ft_start s c k'" and "runs k'"
proof -
  from resume_runs [OF assms(1,2), of k] obtain k' where "system_resume_freertos rt c k = Done k'" "runs k'" .
  with that [of k'] show thesis by (simp add: kicked_def ft_start_def)
qed

text \<open>While the remote has not reached its first suspension, the host can send all its messages.\<close>

lemma ft_sends:
  assumes init: "sys_init io hc rc ly mem s" and laws: "rtos_laws rt runs t" "os_task c = Some t" "runs k0" and k: "k \<le> 1024"
  shows "\<exists>h w k'. (ft_step io hc rc rt runs)\<^sup>*\<^sup>* (ft_start s c k0) (ft_start (s\<lparr>hv := h, world := w\<rparr>) c k') \<and>
    runs k' \<and> ch h = ch (hv s) \<and> sending hc k h \<and> mem_ok hc rc ly k 0 (mem w)"
  using k
proof (induction k)
  case 0
  have "ch (hv s) = ch (hv s) \<and> sending hc 0 (hv s) \<and> mem_ok hc rc ly 0 0 (mem (world s))"
    using sys_init_inv [OF init] init by (simp add: sys_inv_def host_inv_def sys_init_def)
  moreover have "s\<lparr>hv := hv s, world := world s\<rparr> = s" by simp
  ultimately show ?case using laws(3) by (metis rtranclp.rtrancl_refl)
next
  case (Suc k)
  then obtain h w k1 where r: "(ft_step io hc rc rt runs)\<^sup>*\<^sup>* (ft_start s c k0) (ft_start (s\<lparr>hv := h, world := w\<rparr>) c k1)"
    "runs k1" "ch h = ch (hv s)" "sending hc k h" "mem_ok hc rc ly k 0 (mem w)" by auto
  have sys: "shm_system io hc rc ly mem (ch h) (rch (rv s))" using init r(3) by (simp add: sys_init_def)
  from host_send_run [OF sys r(5,4)] Suc.prems obtain h' w' where n: "host_send io hc (h, w) = Done (Inl (), (h', w'))" "ch h' = ch h"
    "sending hc (k + 1) h'" "mem_ok hc rc ly (k + 1) 0 (mem w')" by auto
  from kicked_start [OF laws(1,2) r(2), of "s\<lparr>hv := h, world := w\<rparr>"] obtain k2 where
    k2: "kicked rt (ft_start (s\<lparr>hv := h, world := w\<rparr>) c k1) = ft_start (s\<lparr>hv := h, world := w\<rparr>) c k2" "runs k2" .
  have "ft_step io hc rc rt runs (ft_start (s\<lparr>hv := h, world := w\<rparr>) c k1) (ft_start (s\<lparr>hv := h', world := w'\<rparr>) c k2)"
    using ft_send [of "s\<lparr>hv := h, world := w\<rparr>" "ft_start (s\<lparr>hv := h, world := w\<rparr>) c k1" io hc h' w' rc rt runs]
      n(1) init r(4) Suc.prems sending_done [of k hc h] k2(1) by (simp add: sys_init_def ft_start_def)
  with r(1) have "(ft_step io hc rc rt runs)\<^sup>*\<^sup>* (ft_start s c k0) (ft_start (s\<lparr>hv := h', world := w'\<rparr>) c k2)"
    by (rule rtranclp.rtrancl_into_rtrancl)
  with n r(3) k2(2) show ?case by auto
qed

text \<open>
  C33. With FreeRTOS the shared-memory demo can hang, on every kernel that behaves as documented: from every proper start with the
  task stored by \<open>amp_os_init\<close> there is a run that ends in a state without a
  step, in which the host waits for its first echo, all 1024 messages are in the memory, none of them is echoed, and the
  remote has not failed but is suspended.  The kicks came before the remote suspended itself, where \<open>system_resume\<close> leaves the task
  running and \<open>system_suspend\<close> stops it all the same; after a suspension \<open>system_resume\<close> would have woken it.  (The bare-metal port, which keeps a
  flag, has no such run.)
\<close>

theorem freertos_lost_wakeup:
  assumes "sys_init io hc rc ly mem s" and "remote_nkicked (ch (hv s))"
    and laws: "rtos_laws rt runs t" "runs k" and os: "amp_os_init_freertos (Some t) c0 = Done (0, c)"
  shows "(\<exists>f. (ft_step io hc rc rt runs)\<^sup>*\<^sup>* (ft_start s c k) f \<and> \<not> (\<exists>g. ft_step io hc rc rt runs f g) \<and>
      hpc (base f) = H_Waiting \<and> \<not> runs (kernel f) \<and> \<not> crashed f \<and>
      get32 0 (mem (world (base f))) = 1024 \<and> get32 (SHM0_DESC_SIZE rc) (mem (world (base f))) = 0) \<and>
    (\<exists>k1 k2. system_resume_freertos rt c k = Done k1 \<and> system_suspend_freertos rt c k1 = Done k2 \<and> \<not> runs k2) \<and>
    (\<exists>k1 k2. system_suspend_freertos rt c k = Done k1 \<and> system_resume_freertos rt c k1 = Done k2 \<and> runs k2)"
proof (intro conjI)
  have t: "os_task c = Some t" using os by (auto simp: amp_os_init_freertos_def)
  from ft_sends [OF assms(1) laws(1) t laws(2), of 1024] obtain h w k1 where
    r: "(ft_step io hc rc rt runs)\<^sup>*\<^sup>* (ft_start s c k) (ft_start (s\<lparr>hv := h, world := w\<rparr>) c k1)" "runs k1"
      "ch h = ch (hv s)" "sending hc 1024 h" "mem_ok hc rc ly 1024 0 (mem w)" by auto
  let ?h = "h\<lparr>i_pkg := 0, tx_data_offset := SHM_PAYLOAD_RX_OFFSET hc\<rparr>"
  let ?s = "s\<lparr>world := w, hv := ?h, hpc := H_Waiting\<rparr>"
  from suspend_stops [OF laws(1) r(2), of c] obtain k2 where k2: "system_suspend_freertos rt c k1 = Done k2" "\<not> runs k2" .
  let ?f = "(ft_start ?s c k1)\<lparr>asleep := True, kernel := k2\<rparr>"
  have "ft_step io hc rc rt runs (ft_start (s\<lparr>hv := h, world := w\<rparr>) c k1) (ft_start ?s c k1)"
    using ft_all_sent [of "s\<lparr>hv := h, world := w\<rparr>" "ft_start (s\<lparr>hv := h, world := w\<rparr>) c k1" io hc rc rt runs]
      assms(1) r(4) sending_done [of 1024 hc h] by (simp add: sys_init_def ft_start_def)
  moreover have "ft_step io hc rc rt runs (ft_start ?s c k1) ?f"
    using ft_suspend [of "ft_start ?s c k1" runs rt k2 io hc rc] assms(1) r(2) k2(1) by (simp add: sys_init_def ft_start_def active_def)
  ultimately have "(ft_step io hc rc rt runs)\<^sup>*\<^sup>* (ft_start s c k) ?f"
    using r(1) by (meson rtranclp.rtrancl_into_rtrancl)
  moreover have "\<not> ft_step io hc rc rt runs ?f g" for g
    using assms r(3) k2(2) by (auto elim!: ft_stepE simp: sys_init_def PKGS_TOTAL_def ft_start_def active_def)
  ultimately show "\<exists>f. (ft_step io hc rc rt runs)\<^sup>*\<^sup>* (ft_start s c k) f \<and> \<not> (\<exists>g. ft_step io hc rc rt runs f g) \<and>
      hpc (base f) = H_Waiting \<and> \<not> runs (kernel f) \<and> \<not> crashed f \<and>
      get32 0 (mem (world (base f))) = 1024 \<and> get32 (SHM0_DESC_SIZE rc) (mem (world (base f))) = 0"
    using r(5) k2(2) by (intro exI [of _ ?f]) (simp add: mem_ok_def h2r_ok_def r2h_ok_def ft_start_def)
  from resume_runs [OF laws(1) t, of k] obtain k1 where k1: "system_resume_freertos rt c k = Done k1" "runs k1" .
  from suspend_stops [OF laws(1) k1(2), of c] k1(1)
  show "\<exists>k1 k2. system_resume_freertos rt c k = Done k1 \<and> system_suspend_freertos rt c k1 = Done k2 \<and> \<not> runs k2" by blast
  from suspend_stops [OF laws, of c] obtain k1 where "system_suspend_freertos rt c k = Done k1" "\<not> runs k1" .
  with resume_runs [OF laws(1) t, of k1]
  show "\<exists>k1 k2. system_suspend_freertos rt c k = Done k1 \<and> system_resume_freertos rt c k1 = Done k2 \<and> runs k2" by blast
qed

text \<open>A kernel of one task, of which the state says whether it is suspended.\<close>

definition one_task :: "bool rtos" where
  "one_task = \<lparr>vTaskSuspend = (\<lambda>t k. True), xTaskResumeFromISR = (\<lambda>t k. (k, False)), portYIELD_FROM_ISR = (\<lambda>y k. k)\<rparr>"

theorem freertos_lost_wakeup_witness:
  "\<exists>f. (ft_step ram_io readme_host readme_remote one_task Not)\<^sup>*\<^sup>* (ft_start readme_start \<lparr>os_task = Some 7\<rparr> False) f \<and>
     \<not> (\<exists>g. ft_step ram_io readme_host readme_remote one_task Not f g) \<and> hpc (base f) = H_Waiting \<and> kernel f"
proof -
  have n: "remote_nkicked (ch (hv readme_start))" by (simp add: readme_start_def)
  have l: "rtos_laws one_task Not 7" by (simp add: rtos_laws_def one_task_def)
  have o: "amp_os_init_freertos (Some 7) \<lparr>os_task = None\<rparr> = Done (0, \<lparr>os_task = Some 7\<rparr>)" by (simp add: amp_os_init_freertos_def)
  from freertos_lost_wakeup [OF readme_init n l _ o, of False] show ?thesis by auto
qed

end
