(* ===== verification/Platform_R5.thy ===== *)
theory Platform_R5
  imports Kick_Poll
begin

text \<open>
  The platform layer of the ZynqMP R5 remote, \<open>machine/xlnx/zynqmp_r5\<close>: the processor operations
  (\<open>zynqmp_r5_a53_rproc.c\<close>), the resource table with the copy that a restart is made from
  (\<open>rsc_table.c\<close>), interrupt registration without and with FreeRTOS
  (\<open>generic/gic_init.c\<close>, \<open>freertos/gic_init.c\<close>), the platform interface
  (\<open>platform_info.c\<close>), and the system functions of \<open>helper.c\<close>.  The first section holds what the Xilinx platforms share: the
  record of the libmetal and OpenAMP calls, and the shape of the creation and release of an RPMsg
  device.  The build option \<open>RPMSG_NO_IPI\<close> is an argument \<open>no_ipi\<close>.
\<close>

section \<open>Calls that leave the platform files\<close>

text \<open>
  A device is named by its libmetal name; registers are read and written at byte offsets of its region.
  \<open>rp_create_virtio\<close> also gets the resource table and returns what it leaves there.
\<close>

record 'w xlib =
  x_metal_init :: "'w \<Rightarrow> 'w"
  x_metal_finish :: "'w \<Rightarrow> 'w"
  x_register_generic_device :: "'w \<Rightarrow> int \<times> 'w"
  x_device_open :: "string \<Rightarrow> string \<Rightarrow> 'w \<Rightarrow> int \<times> 'w"
  x_device_close :: "string \<Rightarrow> 'w \<Rightarrow> 'w"
  x_io_region :: "string \<Rightarrow> 'w \<Rightarrow> bool"
  x_read32 :: "string \<Rightarrow> nat \<Rightarrow> 'w \<Rightarrow> u32"
  x_write32 :: "string \<Rightarrow> nat \<Rightarrow> u32 \<Rightarrow> 'w \<Rightarrow> 'w"
  x_irq_info :: "string \<Rightarrow> 'w \<Rightarrow> int"
  x_irq_register :: "int \<Rightarrow> 'w \<Rightarrow> 'w"
  x_irq_enable :: "int \<Rightarrow> 'w \<Rightarrow> 'w"
  x_irq_disable :: "int \<Rightarrow> 'w \<Rightarrow> 'w"
  x_irq_unregister :: "int \<Rightarrow> 'w \<Rightarrow> 'w"
  x_irq_save_disable :: "'w \<Rightarrow> nat \<times> 'w"
  x_irq_restore_enable :: "nat \<Rightarrow> 'w \<Rightarrow> 'w"
  x_register_controller :: "'w \<Rightarrow> int \<times> 'w"
  x_irq_num :: int
  x_irq_handle :: "int \<Rightarrow> 'w \<Rightarrow> 'w"
  x_irq_arrives :: "'w \<Rightarrow> bool \<times> 'w"
  x_suspend :: "'w \<Rightarrow> 'w"
  x_resume :: "'w \<Rightarrow> 'w"
  x_caches_off :: "'w \<Rightarrow> 'w"
  x_malloc :: "nat \<Rightarrow> 'w \<Rightarrow> bool \<times> 'w"
  x_free :: "'w \<Rightarrow> 'w"
  x_allocate_memory :: "'w \<Rightarrow> nat option \<times> 'w"
  x_free_memory :: "nat \<Rightarrow> 'w \<Rightarrow> 'w"
  x_phys_to_virt :: "u64 \<Rightarrow> 'w \<Rightarrow> nat option"
  rp_init_ok :: "'w \<Rightarrow> bool \<times> 'w"
  rp_removed :: "'w \<Rightarrow> 'w"
  rp_mmap_calls :: "'w \<Rightarrow> bool"
  rp_add_mem :: "u64 \<Rightarrow> nat \<Rightarrow> 'w \<Rightarrow> 'w"
  rp_set_rsc_table :: "nat option \<Rightarrow> nat \<Rightarrow> 'w \<Rightarrow> int \<times> 'w"
  rp_get_io_with_pa :: "u64 \<Rightarrow> 'w \<Rightarrow> bool"
  rp_create_virtio :: "nat \<Rightarrow> vdev_role \<Rightarrow> bytes \<Rightarrow> 'w \<Rightarrow> (nat option \<times> bytes) \<times> 'w"
  rp_remove_virtio :: "nat \<Rightarrow> 'w \<Rightarrow> 'w"
  rp_get_notification :: "'w \<Rightarrow> int \<times> 'w"
  vio_init_shm_pool :: "nat option \<Rightarrow> nat \<Rightarrow> 'w \<Rightarrow> 'w"
  vio_init_vdev :: "nat \<Rightarrow> nat \<Rightarrow> bool \<Rightarrow> 'w \<Rightarrow> int \<times> 'w"
  vio_deinit_vdev :: "nat \<Rightarrow> 'w \<Rightarrow> 'w"

definition BAD_PHYS :: u64 where "BAD_PHYS = - 1"

text \<open>An RPMsg device: the memory of the \<open>rpmsg_virtio_device\<close> and the virtio device in it.\<close>

record xdev =
  x_rpvdev :: nat
  x_vdev :: nat

text \<open>
  Creation of an RPMsg device: the region of \<open>io_pa\<close>, a pool of \<open>pool_size\<close> bytes at \<open>buf_pa\<close>.  The
  table is passed through.
\<close>

definition xlnx_create_vdev ::
    "'w xlib \<Rightarrow> u64 \<Rightarrow> u64 \<Rightarrow> nat \<Rightarrow> nat \<Rightarrow> vdev_role \<Rightarrow> bool \<Rightarrow> bytes \<Rightarrow> 'w \<Rightarrow> (xdev option \<times> bytes) \<times> 'w" where
  "xlnx_create_vdev lib io_pa buf_pa pool_size vdev_index role ns tab w0 =
     (case x_allocate_memory lib w0 of
        (None, w) \<Rightarrow> ((None, tab), w)
      | (Some m, w) \<Rightarrow>
         if \<not> rp_get_io_with_pa lib io_pa w then ((None, tab), x_free_memory lib m w)
         else (case rp_create_virtio lib vdev_index role tab w of
             ((None, tab'), w) \<Rightarrow> ((None, tab'), x_free_memory lib m w)
           | ((Some v, tab'), w) \<Rightarrow>
              (case vio_init_vdev lib m v ns (vio_init_shm_pool lib (x_phys_to_virt lib buf_pa w) pool_size w) of
                 (r, w) \<Rightarrow> if r \<noteq> 0 then ((None, tab'), x_free_memory lib m (rp_remove_virtio lib v w))
                           else ((Some \<lparr>x_rpvdev = m, x_vdev = v\<rparr>, tab'), w))))"

definition xlnx_release_vdev :: "'w xlib \<Rightarrow> xdev \<Rightarrow> 'w \<Rightarrow> 'w" where
  "xlnx_release_vdev lib d w =
     x_free_memory lib (x_rpvdev d) (rp_remove_virtio lib (x_vdev d) (vio_deinit_vdev lib (x_rpvdev d) w))"

section \<open>Resource table\<close>

datatype 'a heap_ptr = Null | Live 'a | Freed

text \<open>
  The table of the file: eight offsets of which one is used, one device, two rings at addresses the
  host chooses, padded to the alignment of 0x100.
\<close>

definition r5_resources_init :: bytes where
  "r5_resources_init = concat (map le32 ([1, 1, 0, 0] @ [48] @ replicate 7 0)) @
     concat (map le32 [3, 7, 31, 1, 0, 0]) @ [0, 2, 0, 0] @
     concat (map le32 [- 1, 0x1000, 256, 1, 0]) @ concat (map le32 [- 1, 0x1000, 256, 2, 0]) @ replicate 140 0"

definition RSC_TBL_XLNX_MAGIC :: u32 where
  "RSC_TBL_XLNX_MAGIC = 0x78616D70"

record rsc_metadata =
  md_version :: int
  md_magic :: u32
  md_comp_magic :: u32
  md_size :: nat

definition resources_metadata :: rsc_metadata where
  "resources_metadata = \<lparr>md_version = 1, md_magic = RSC_TBL_XLNX_MAGIC, md_comp_magic = not RSC_TBL_XLNX_MAGIC,
     md_size = length r5_resources_init\<rparr>"

text \<open>The static data of the platform files.\<close>

record r5_state =
  r5_resources :: bytes
  initial_resources :: "bytes heap_ptr"
  irq_info :: int
  kick_dev :: bool
  kick_io :: bool
  ipi_nokick :: bool

definition IPI_IRQ_VECT_ID :: int where "IPI_IRQ_VECT_ID = 65"
definition IPI_CHN_BITMASK :: u32 where "IPI_CHN_BITMASK = 0x01000000"
definition SHARED_MEM_PA :: u64 where "SHARED_MEM_PA = 0x3ED40000"
definition SHARED_MEM_SIZE :: nat where "SHARED_MEM_SIZE = 0x100000"
definition SHARED_BUF_OFFSET :: u64 where "SHARED_BUF_OFFSET = 0x8000"

definition r5_boot :: "bool \<Rightarrow> r5_state" where
  "r5_boot no_ipi = \<lparr>r5_resources = r5_resources_init, initial_resources = Null,
     irq_info = (if no_ipi then 0 else IPI_IRQ_VECT_ID), kick_dev = False, kick_io = False, ipi_nokick = False\<rparr>"

type_synonym ('w, 'a) r5prog = "(r5_state \<times> 'w, 'a) prog"

definition r5_get_resource_table :: "'w xlib \<Rightarrow> ('w, nat) r5prog" where
  "r5_get_resource_table lib =
     bnd (getg initial_resources) (\<lambda>p. case p of
       Null \<Rightarrow> bnd (ext (x_malloc lib (length r5_resources_init))) (\<lambda>ok.
          if \<not> ok then fail Null_deref
          else seq (updg (\<lambda>g. g\<lparr>initial_resources := Live (r5_resources g)\<rparr>)) (ret (length r5_resources_init)))
     | _ \<Rightarrow> ret (length r5_resources_init))"

definition r5_free_resource_table :: "'w xlib \<Rightarrow> ('w, unit) r5prog" where
  "r5_free_resource_table lib =
     bnd (getg initial_resources) (\<lambda>p. case p of
       Null \<Rightarrow> ret ()
     | Live t \<Rightarrow> seq (extU (x_free lib)) (updg (\<lambda>g. g\<lparr>initial_resources := Freed\<rparr>))
     | Freed \<Rightarrow> fail Use_after_free)"

definition restore_initial_rsc_table :: "('w, unit) r5prog" where
  "restore_initial_rsc_table =
     bnd (getg initial_resources) (\<lambda>p. case p of
       Null \<Rightarrow> ret ()
     | Live t \<Rightarrow> updg (\<lambda>g. g\<lparr>r5_resources := t\<rparr>)
     | Freed \<Rightarrow> fail Use_after_free)"

section \<open>Processor operations\<close>

definition KICK_DEV :: string where "KICK_DEV = ''poll_dev''"
definition KICK_BUS_NAME :: string where "KICK_BUS_NAME = ''generic''"
definition R5_IPI_TRIG_OFFSET :: nat where "R5_IPI_TRIG_OFFSET = 0"
definition R5_IPI_ISR_OFFSET :: nat where "R5_IPI_ISR_OFFSET = 0x10"
definition R5_IPI_IER_OFFSET :: nat where "R5_IPI_IER_OFFSET = 0x18"
definition R5_IPI_IDR_OFFSET :: nat where "R5_IPI_IDR_OFFSET = 0x1C"
definition POLL_STOP :: u32 where "POLL_STOP = 1"

text \<open>The result says whether the interrupt was the one of the channel.\<close>

definition r5_proc_irq_handler :: "'w xlib \<Rightarrow> ('w, bool) r5prog" where
  "r5_proc_irq_handler lib =
     bnd (asks (x_read32 lib KICK_DEV R5_IPI_ISR_OFFSET)) (\<lambda>st.
     if and st IPI_CHN_BITMASK \<noteq> 0
     then seq (updg (\<lambda>g. g\<lparr>ipi_nokick := False\<rparr>))
         (seq (extU (x_write32 lib KICK_DEV R5_IPI_ISR_OFFSET IPI_CHN_BITMASK))
         (seq (extU (x_resume lib)) (ret True)))
     else ret False)"

definition r5_proc_init :: "bool \<Rightarrow> 'w xlib \<Rightarrow> ('w, bool) r5prog" where
  "r5_proc_init no_ipi lib =
     bnd (ext (x_device_open lib KICK_BUS_NAME KICK_DEV)) (\<lambda>r. if r \<noteq> 0 then ret False else
     seq (updg (\<lambda>g. g\<lparr>kick_dev := True\<rparr>))
    (bnd (asks (x_io_region lib KICK_DEV)) (\<lambda>io.
     seq (updg (\<lambda>g. g\<lparr>kick_io := io\<rparr>))
    (if \<not> io then seq (extU (x_device_close lib KICK_DEV)) (ret False)
     else if no_ipi then seq (extU (x_write32 lib KICK_DEV 0 0)) (ret True)
     else seq (updg (\<lambda>g. g\<lparr>ipi_nokick := True\<rparr>))
         (bnd (getg irq_info) (\<lambda>v.
          seq (extU (x_irq_register lib v)) (seq (extU (x_irq_enable lib v))
         (seq (extU (x_write32 lib KICK_DEV R5_IPI_IER_OFFSET IPI_CHN_BITMASK)) (ret True)))))))))"

definition r5_proc_remove :: "bool \<Rightarrow> 'w xlib \<Rightarrow> ('w, unit) r5prog" where
  "r5_proc_remove no_ipi lib =
     bnd (getg kick_io) (\<lambda>io. bnd (getg kick_dev) (\<lambda>dev. bnd (getg irq_info) (\<lambda>v.
     seq (if no_ipi then ret ()
          else if \<not> io then fail Null_deref
          else seq (extU (x_write32 lib KICK_DEV R5_IPI_IDR_OFFSET IPI_CHN_BITMASK))
              (if dev then seq (extU (x_irq_disable lib v)) (extU (x_irq_unregister lib v)) else ret ()))
         (if \<not> dev then fail Null_deref else extU (x_device_close lib KICK_DEV)))))"

text \<open>The result is the virtual address, which is the physical one on this platform, or NULL.\<close>

definition r5_proc_mmap :: "'w xlib \<Rightarrow> u64 \<Rightarrow> u64 \<Rightarrow> nat \<Rightarrow> ('w, nat option) r5prog" where
  "r5_proc_mmap lib pa da sz =
     (if pa = BAD_PHYS \<and> da = BAD_PHYS then ret None
      else let lpa = (if pa = BAD_PHYS then da else pa) in
        bnd (ext (x_allocate_memory lib)) (\<lambda>mem. case mem of None \<Rightarrow> ret None | Some m \<Rightarrow>
        bnd (ext (x_allocate_memory lib)) (\<lambda>io. case io of
            None \<Rightarrow> seq (extU (x_free_memory lib m)) (ret None)
          | Some i \<Rightarrow> seq (extU (rp_add_mem lib lpa sz)) (asks (x_phys_to_virt lib lpa)))))"

definition r5_proc_notify :: "bool \<Rightarrow> 'w xlib \<Rightarrow> ('w, int) r5prog" where
  "r5_proc_notify no_ipi lib =
     seq (if no_ipi then extU (x_write32 lib KICK_DEV 0 POLL_STOP)
          else extU (x_write32 lib KICK_DEV R5_IPI_TRIG_OFFSET IPI_CHN_BITMASK)) (ret 0)"

section \<open>Interrupt registration\<close>

text \<open>
  Without an operating system: the distributor is read and written by register index, and the loop
  takes this processor out of the targets of every shared interrupt.
\<close>

record 'w gic =
  XST_FAILURE :: int
  XPAR_CPU_ID :: nat
  MAX_INTR :: nat
  gic_lookup :: "'w \<Rightarrow> bool"
  gic_cfg_initialize :: "'w \<Rightarrow> int \<times> 'w"
  gic_dist_read :: "nat \<Rightarrow> 'w \<Rightarrow> u32"
  gic_dist_write :: "nat \<Rightarrow> u32 \<Rightarrow> 'w \<Rightarrow> 'w"
  gic_map_to_cpu :: "int \<Rightarrow> 'w \<Rightarrow> 'w"
  gic_exceptions :: "bool \<Rightarrow> 'w \<Rightarrow> 'w"
  gic_register_handler :: "'w \<Rightarrow> 'w"
  gic_disable :: "int \<Rightarrow> 'w \<Rightarrow> 'w"
  gic_connect :: "int \<Rightarrow> 'w \<Rightarrow> int \<times> 'w"
  port_install_handler :: "int \<Rightarrow> 'w \<Rightarrow> int \<times> 'w"

definition mask_cpu_id :: "nat \<Rightarrow> u32" where
  "mask_cpu_id cpu = (let m = push_bit cpu 1; m = or m (push_bit 8 m) in or m (push_bit 16 m))"

function untarget_cpu :: "'w gic \<Rightarrow> u32 \<Rightarrow> nat \<Rightarrow> 'w \<Rightarrow> 'w" where
  "untarget_cpu gic mk int_id w =
     (if int_id < MAX_INTR gic
      then untarget_cpu gic mk (int_id + 4)
             (gic_dist_write gic int_id (and (gic_dist_read gic int_id w) (not mk)) w)
      else w)"
  by pat_completeness auto
termination
  by (relation "measure (\<lambda>(gic, mk, int_id, w). MAX_INTR gic - int_id)") auto

declare untarget_cpu.simps [simp del]

definition system_interrupt_register_generic :: "'w gic \<Rightarrow> int \<Rightarrow> ('w, int) r5prog" where
  "system_interrupt_register_generic gic intr_num =
     seq (extU (gic_exceptions gic False))
    (bnd (asks (gic_lookup gic)) (\<lambda>found. if \<not> found then ret (XST_FAILURE gic) else
     bnd (ext (gic_cfg_initialize gic)) (\<lambda>st. if st \<noteq> 0 then ret (XST_FAILURE gic) else
     seq (extU (untarget_cpu gic (mask_cpu_id (XPAR_CPU_ID gic)) 32))
    (seq (extU (gic_map_to_cpu gic intr_num))
    (seq (extU (gic_register_handler gic))
    (seq (extU (gic_disable gic intr_num))
    (seq (extU (gic_exceptions gic True))
         (ext (gic_connect gic intr_num)))))))))"

definition hw_to_bsp_irq_generic :: "int \<Rightarrow> int" where
  "hw_to_bsp_irq_generic sys_irq = sys_irq"

definition FREERTOS_BSP_IRQ_OFFSET :: int where "FREERTOS_BSP_IRQ_OFFSET = 32"

definition hw_to_bsp_irq_freertos :: "int \<Rightarrow> int" where
  "hw_to_bsp_irq_freertos sys_irq = sys_irq - FREERTOS_BSP_IRQ_OFFSET"

definition system_interrupt_register_freertos :: "'w gic \<Rightarrow> int \<Rightarrow> ('w, int) r5prog" where
  "system_interrupt_register_freertos gic int_num =
     bnd (ext (port_install_handler gic int_num)) (\<lambda>r. if r = 0 then ret (- EINVAL) else ret 0)"

text \<open>The system layer the platform is linked with.\<close>

datatype sys_layer = Generic | Freertos

fun hw_to_bsp_irq :: "sys_layer \<Rightarrow> int \<Rightarrow> int" where
  "hw_to_bsp_irq Generic = hw_to_bsp_irq_generic"
| "hw_to_bsp_irq Freertos = hw_to_bsp_irq_freertos"

fun system_interrupt_register :: "sys_layer \<Rightarrow> 'w gic \<Rightarrow> int \<Rightarrow> ('w, int) r5prog" where
  "system_interrupt_register Generic = system_interrupt_register_generic"
| "system_interrupt_register Freertos = system_interrupt_register_freertos"

section \<open>Platform interface\<close>

definition xlnx_irq_isr :: "'w xlib \<Rightarrow> int \<Rightarrow> 'w \<Rightarrow> 'w" where
  "xlnx_irq_isr lib vector w =
     (if x_irq_num lib \<le> vector \<or> vector < 0 then w else x_irq_handle lib vector w)"

text \<open>The library calls that call back into the file; \<open>rp_mmap_calls\<close> says whether \<open>remoteproc_mmap\<close> asks the platform.\<close>

definition r5_remoteproc_mmap :: "'w xlib \<Rightarrow> u64 \<Rightarrow> nat \<Rightarrow> ('w, unit) r5prog" where
  "r5_remoteproc_mmap lib pa sz =
     bnd (asks (rp_mmap_calls lib)) (\<lambda>c.
     if c then seq (r5_proc_mmap lib pa BAD_PHYS sz) (ret ()) else ret ())"

definition r5_remoteproc_remove :: "bool \<Rightarrow> 'w xlib \<Rightarrow> ('w, unit) r5prog" where
  "r5_remoteproc_remove no_ipi lib = seq (r5_proc_remove no_ipi lib) (extU (rp_removed lib))"

definition r5_create_proc :: "bool \<Rightarrow> 'w xlib \<Rightarrow> u64 \<Rightarrow> ('w, bool) r5prog" where
  "r5_create_proc no_ipi lib table_pa =
     bnd (r5_get_resource_table lib) (\<lambda>rsc_size.
     bnd (ext (x_register_generic_device lib)) (\<lambda>r. if r \<noteq> 0 then ret False else
     bnd (ext (rp_init_ok lib)) (\<lambda>ok. if \<not> ok then ret False else
     bnd (r5_proc_init no_ipi lib) (\<lambda>ok. if \<not> ok then ret False else
     seq (r5_remoteproc_mmap lib table_pa rsc_size)
    (seq (r5_remoteproc_mmap lib SHARED_MEM_PA SHARED_MEM_SIZE)
    (bnd (ext (rp_set_rsc_table lib (Some (unat table_pa)) rsc_size)) (\<lambda>r.
     if r \<noteq> 0 then seq (r5_remoteproc_remove no_ipi lib) (ret False) else ret True)))))))"

definition xlnx_machine_init :: "sys_layer \<Rightarrow> 'w gic \<Rightarrow> 'w xlib \<Rightarrow> ('w, int) r5prog" where
  "xlnx_machine_init sy gic lib =
     seq (extU (x_metal_init lib))
    (bnd (getg irq_info) (\<lambda>v. if v = 0 then ret (- EINVAL) else
     seq (updg (\<lambda>g. g\<lparr>irq_info := hw_to_bsp_irq sy v\<rparr>))
    (bnd (system_interrupt_register sy gic (hw_to_bsp_irq sy v)) (\<lambda>r. if r \<noteq> 0 then ret r else
     ext (x_register_controller lib)))))"

definition xlnx_machine_cleanup :: "'w xlib \<Rightarrow> ('w, unit) r5prog" where
  "xlnx_machine_cleanup lib =
     seq (extU (x_metal_finish lib)) (seq (r5_free_resource_table lib) (extU (x_caches_off lib)))"

definition r5_platform_init :: "sys_layer \<Rightarrow> 'w gic \<Rightarrow> bool \<Rightarrow> 'w xlib \<Rightarrow> u64 \<Rightarrow> ('w, int \<times> unit option) r5prog" where
  "r5_platform_init sy gic no_ipi lib table_pa =
     seq (r5_get_resource_table lib)
    (bnd (xlnx_machine_init sy gic lib) (\<lambda>r. if r < 0 then ret (r, None) else
     bnd (r5_create_proc no_ipi lib table_pa) (\<lambda>ok.
     if \<not> ok then ret (- EINVAL, None) else ret (0, Some ()))))"

definition r5_create_rpmsg_vdev :: "'w xlib \<Rightarrow> nat \<Rightarrow> vdev_role \<Rightarrow> bool \<Rightarrow> ('w, xdev option) r5prog" where
  "r5_create_rpmsg_vdev lib vdev_index role ns =
     seq restore_initial_rsc_table
    (bnd (getg r5_resources) (\<lambda>tab.
     bnd (ext (xlnx_create_vdev lib SHARED_MEM_PA (SHARED_MEM_PA + SHARED_BUF_OFFSET) SHARED_MEM_SIZE vdev_index role ns tab))
       (\<lambda>(d, tab'). seq (updg (\<lambda>g. g\<lparr>r5_resources := tab'\<rparr>)) (ret d))))"

text \<open>
  One pass of \<open>platform_poll\<close>.  An interrupt that arrives during the suspension is handled when
  interrupts are enabled again.
\<close>

definition r5_poll_pass :: "bool \<Rightarrow> 'w xlib \<Rightarrow> ('w, unit + int) r5prog" where
  "r5_poll_pass no_ipi lib =
     (let notified = bnd (ext (rp_get_notification lib)) (\<lambda>r. ret (Inr (if r \<noteq> 0 then r else 0))) in
      if no_ipi
      then bnd (asks (x_read32 lib KICK_DEV 0)) (\<lambda>v. if v \<noteq> 0 then notified else ret (Inl ()))
      else bnd (ext (x_irq_save_disable lib)) (\<lambda>flags.
        bnd (getg ipi_nokick) (\<lambda>was.
        seq (updg (\<lambda>g. g\<lparr>ipi_nokick := True\<rparr>))
       (if \<not> was then seq (extU (x_irq_restore_enable lib flags)) notified
        else seq (extU (x_suspend lib))
            (seq (extU (x_irq_restore_enable lib flags))
            (bnd (ext (x_irq_arrives lib)) (\<lambda>a.
             seq (if a then seq (r5_proc_irq_handler lib) (ret ()) else ret ()) (ret (Inl ())))))))))"

definition r5_platform_poll :: "nat \<Rightarrow> bool \<Rightarrow> 'w xlib \<Rightarrow> ('w, int) r5prog" where
  "r5_platform_poll n no_ipi lib = iter n (\<lambda>_. r5_poll_pass no_ipi lib) ()"

definition r5_release_rpmsg_vdev :: "'w xlib \<Rightarrow> xdev \<Rightarrow> r5_state \<times> 'w \<Rightarrow> r5_state \<times> 'w" where
  "r5_release_rpmsg_vdev lib d s = (fst s, xlnx_release_vdev lib d (snd s))"

definition r5_platform_cleanup :: "bool \<Rightarrow> 'w xlib \<Rightarrow> ('w, unit) r5prog" where
  "r5_platform_cleanup no_ipi lib = seq (r5_remoteproc_remove no_ipi lib) (xlnx_machine_cleanup lib)"

definition r5_plat :: "sys_layer \<Rightarrow> 'w gic \<Rightarrow> bool \<Rightarrow> 'w xlib \<Rightarrow> u64 \<Rightarrow> (unit, xdev, r5_state \<times> 'w) plat" where
  "r5_plat sy gic no_ipi lib table_pa = \<lparr>
     platform_init = r5_platform_init sy gic no_ipi lib table_pa,
     platform_create_rpmsg_vdev = (\<lambda>_. r5_create_rpmsg_vdev lib),
     platform_release_rpmsg_vdev = (\<lambda>d _. r5_release_rpmsg_vdev lib d),
     platform_cleanup = (\<lambda>_. r5_platform_cleanup no_ipi lib)\<rparr>"

section \<open>Initialisation and the platform contract\<close>

text \<open>
  A live platform has its kick device open and the copy of the resource table; a fresh one has not
  given that copy back yet.
\<close>

definition r5_live :: "r5_state \<Rightarrow> bool" where
  "r5_live g \<longleftrightarrow> kick_dev g \<and> kick_io g \<and> (\<exists>t. initial_resources g = Live t)"

definition r5_fresh :: "r5_state \<Rightarrow> bool" where
  "r5_fresh g \<longleftrightarrow> initial_resources g \<noteq> Freed"

lemma get_resource_table_cases:
  assumes "r5_fresh g"
  shows "(\<exists>t w'. r5_get_resource_table lib (g, w) = Done (length r5_resources_init, (g\<lparr>initial_resources := Live t\<rparr>, w'))) \<or>
     (\<not> fst (x_malloc lib (length r5_resources_init) w) \<and> r5_get_resource_table lib (g, w) = Fault Null_deref)"
proof (cases "initial_resources g")
  case (Live t)
  then have "g = g\<lparr>initial_resources := Live t\<rparr>" by simp
  with Live show ?thesis by (auto simp: r5_get_resource_table_def intro!: exI [of _ t])
qed (use assms in \<open>auto simp: r5_get_resource_table_def r5_fresh_def\<close>)

text \<open>The interrupt registration touches nothing but the world.\<close>

lemma interrupt_register_run: "\<exists>r w'. system_interrupt_register sy gic v (g, w) = Done (r, (g, w'))"
  by (cases sy) (auto simp: system_interrupt_register_generic_def system_interrupt_register_freertos_def)

lemma machine_init_run:
  "\<exists>r v w'. xlnx_machine_init sy gic lib (g, w) = Done (r, (g\<lparr>irq_info := v\<rparr>, w')) \<and> (irq_info g = 0 \<longrightarrow> r = - EINVAL)"
proof -
  let ?v = "hw_to_bsp_irq sy (irq_info g)" and ?w = "x_metal_init lib w"
  from interrupt_register_run [of sy gic ?v "g\<lparr>irq_info := ?v\<rparr>" ?w] obtain r w' where
    r: "system_interrupt_register sy gic ?v (g\<lparr>irq_info := ?v\<rparr>, ?w) = Done (r, (g\<lparr>irq_info := ?v\<rparr>, w'))" by blast
  show ?thesis
  proof (cases "irq_info g = 0")
    case True
    then have "g = g\<lparr>irq_info := 0\<rparr>" by simp
    with True show ?thesis by (auto simp: xlnx_machine_init_def intro!: exI [of _ 0])
  next
    case False
    with r show ?thesis by (auto simp: xlnx_machine_init_def)
  qed
qed

lemma r5_proc_init_run:
  "\<exists>ok g' w'. r5_proc_init no_ipi lib (g, w) = Done (ok, (g', w')) \<and> initial_resources g' = initial_resources g \<and>
     (ok \<longrightarrow> kick_dev g' \<and> kick_io g')"
  by (auto simp: r5_proc_init_def)

lemma r5_proc_mmap_run: "\<exists>a w'. r5_proc_mmap lib pa da sz (g, w) = Done (a, (g, w'))"
  by (auto simp: r5_proc_mmap_def Let_def split: option.split)

lemma r5_remoteproc_mmap_run: "\<exists>w'. r5_remoteproc_mmap lib pa sz (g, w) = Done ((), (g, w'))"
  using r5_proc_mmap_run [of lib pa BAD_PHYS sz g w] by (auto simp: r5_remoteproc_mmap_def)

lemma r5_remoteproc_remove_run:
  "kick_dev g \<Longrightarrow> kick_io g \<Longrightarrow> \<exists>w'. r5_remoteproc_remove no_ipi lib (g, w) = Done ((), (g, w'))"
  by (simp add: r5_remoteproc_remove_def r5_proc_remove_def)

lemma r5_create_proc_run:
  assumes "initial_resources g = Live t"
  shows "\<exists>ok g' w'. r5_create_proc no_ipi lib pa (g, w) = Done (ok, (g', w')) \<and> (ok \<longrightarrow> r5_live g')"
proof -
  let ?w1 = "snd (x_register_generic_device lib w)"
  let ?w2 = "snd (rp_init_ok lib ?w1)"
  from r5_proc_init_run [of no_ipi lib g ?w2] obtain ok g' w3 where
    3: "r5_proc_init no_ipi lib (g, ?w2) = Done (ok, (g', w3))" "initial_resources g' = Live t" "ok \<longrightarrow> kick_dev g' \<and> kick_io g'"
    using assms by auto
  from r5_remoteproc_mmap_run [of lib pa "length r5_resources_init" g' w3] obtain w4 where
    4: "r5_remoteproc_mmap lib pa (length r5_resources_init) (g', w3) = Done ((), (g', w4))" by blast
  from r5_remoteproc_mmap_run [of lib SHARED_MEM_PA SHARED_MEM_SIZE g' w4] obtain w5 where
    5: "r5_remoteproc_mmap lib SHARED_MEM_PA SHARED_MEM_SIZE (g', w4) = Done ((), (g', w5))" by blast
  show ?thesis
  proof (cases ok)
    case False
    with 3 assms show ?thesis by (auto simp: r5_create_proc_def r5_get_resource_table_def)
  next
    case True
    let ?w6 = "snd (rp_set_rsc_table lib (Some (unat pa)) (length r5_resources_init) w5)"
    from r5_remoteproc_remove_run [of g' no_ipi lib ?w6] True 3(3) obtain w7 where
      "r5_remoteproc_remove no_ipi lib (g', ?w6) = Done ((), (g', w7))" by blast
    with True 3 4 5 assms show ?thesis
      by (auto simp: r5_create_proc_def r5_get_resource_table_def r5_live_def)
  qed
qed

text \<open>\<open>platform_init\<close> returns, whatever the library does, as long as there is memory for the copy of the table.\<close>

lemma r5_platform_init_run:
  assumes "r5_fresh g" and "fst (x_malloc lib (length r5_resources_init) w)"
  shows "\<exists>r x g' w'. r5_platform_init sy gic no_ipi lib pa (g, w) = Done ((r, x), (g', w')) \<and>
     (r = 0 \<and> x = Some () \<and> r5_live g' \<or> r \<noteq> 0 \<and> x = None)"
proof -
  from get_resource_table_cases [OF assms(1), of lib w] assms(2) obtain t w1 where
    1: "r5_get_resource_table lib (g, w) = Done (length r5_resources_init, (g\<lparr>initial_resources := Live t\<rparr>, w1))" by blast
  from machine_init_run [of sy gic lib "g\<lparr>initial_resources := Live t\<rparr>" w1] obtain r v w2 where
    2: "xlnx_machine_init sy gic lib (g\<lparr>initial_resources := Live t\<rparr>, w1)
      = Done (r, (g\<lparr>initial_resources := Live t, irq_info := v\<rparr>, w2))" by auto
  from r5_create_proc_run [of "g\<lparr>initial_resources := Live t, irq_info := v\<rparr>" t no_ipi lib pa w2] obtain ok g' w3 where
    "r5_create_proc no_ipi lib pa (g\<lparr>initial_resources := Live t, irq_info := v\<rparr>, w2) = Done (ok, (g', w3))" "ok \<longrightarrow> r5_live g'"
    by auto
  with 1 2 show ?thesis by (auto simp: r5_platform_init_def)
qed

lemma r5_platform_init_stores:
  assumes "r5_fresh g" and "r5_platform_init sy gic no_ipi lib pa (g, w) = Done ((0, x), (g', w'))"
  shows "x = Some () \<and> r5_live g'"
proof -
  from assms get_resource_table_cases [OF assms(1), of lib w] obtain t w1 where
    1: "r5_get_resource_table lib (g, w) = Done (length r5_resources_init, (g\<lparr>initial_resources := Live t\<rparr>, w1))"
    by (auto simp: r5_platform_init_def)
  from machine_init_run [of sy gic lib "g\<lparr>initial_resources := Live t\<rparr>" w1] obtain r v w2 where
    2: "xlnx_machine_init sy gic lib (g\<lparr>initial_resources := Live t\<rparr>, w1)
      = Done (r, (g\<lparr>initial_resources := Live t, irq_info := v\<rparr>, w2))" by auto
  from r5_create_proc_run [of "g\<lparr>initial_resources := Live t, irq_info := v\<rparr>" t no_ipi lib pa w2] obtain ok h w3 where
    "r5_create_proc no_ipi lib pa (g\<lparr>initial_resources := Live t, irq_info := v\<rparr>, w2) = Done (ok, (h, w3))" "ok \<longrightarrow> r5_live h"
    by auto
  with 1 2 assms(2) show ?thesis by (auto simp: r5_platform_init_def split: if_splits)
qed

text \<open>A device creation starts from the copy of the table and keeps the platform.\<close>

lemma r5_create_vdev_run:
  assumes "initial_resources g = Live t"
  shows "\<exists>d tab w'. r5_create_rpmsg_vdev lib i role ns (g, w) = Done (d, (g\<lparr>r5_resources := tab\<rparr>, w')) \<and>
     ((d, tab), w') = xlnx_create_vdev lib SHARED_MEM_PA (SHARED_MEM_PA + SHARED_BUF_OFFSET) SHARED_MEM_SIZE i role ns t w"
  using assms by (auto simp: r5_create_rpmsg_vdev_def restore_initial_rsc_table_def split_beta)

lemma r5_cleanup_run:
  assumes "r5_live g"
  shows "\<exists>g' w'. r5_platform_cleanup no_ipi lib (g, w) = Done ((), (g', w')) \<and> initial_resources g' = Freed"
proof -
  from assms obtain t where t: "kick_dev g" "kick_io g" "initial_resources g = Live t" by (auto simp: r5_live_def)
  from r5_remoteproc_remove_run [OF t(1,2), of no_ipi lib w] obtain w' where
    "r5_remoteproc_remove no_ipi lib (g, w) = Done ((), (g, w'))" by blast
  with t show ?thesis by (simp add: r5_platform_cleanup_def xlnx_machine_cleanup_def r5_free_resource_table_def)
qed

interpretation rp: platform_contract "r5_plat sy gic no_ipi lib pa" "\<lambda>(g, w). r5_fresh g" "\<lambda>_ (g, w). r5_live g"
  for sy gic no_ipi lib pa
proof
  fix w :: "r5_state \<times> 'a" and x w'
  assume "case w of (g, w) \<Rightarrow> r5_fresh g" and "platform_init (r5_plat sy gic no_ipi lib pa) w = Done ((0, x), w')"
  then show "\<exists>p. x = Some p \<and> (case w' of (g, w) \<Rightarrow> r5_live g)"
    by (cases w, cases w') (auto simp: r5_plat_def dest: r5_platform_init_stores)
next
  fix p i role ns and w :: "r5_state \<times> 'a"
  assume "case w of (g, w) \<Rightarrow> r5_live g"
  then obtain g v t where w: "w = (g, v)" "r5_live g" "initial_resources g = Live t" by (cases w) (auto simp: r5_live_def)
  from r5_create_vdev_run [OF w(3), of lib i role ns v] obtain d tab w' where
    "r5_create_rpmsg_vdev lib i role ns (g, v) = Done (d, (g\<lparr>r5_resources := tab\<rparr>, w'))" by blast
  with w show "\<exists>d w'. platform_create_rpmsg_vdev (r5_plat sy gic no_ipi lib pa) p i role ns w = Done (d, w') \<and>
      (case w' of (g, w) \<Rightarrow> r5_live g)"
    by (auto simp: r5_plat_def r5_live_def)
next
  fix p r and w :: "r5_state \<times> 'a"
  assume "case w of (g, w) \<Rightarrow> r5_live g"
  then show "case platform_release_rpmsg_vdev (r5_plat sy gic no_ipi lib pa) r p w of (g, w) \<Rightarrow> r5_live g"
    by (auto simp: r5_plat_def r5_release_rpmsg_vdev_def)
next
  fix p and w :: "r5_state \<times> 'a"
  assume "case w of (g, w) \<Rightarrow> r5_live g"
  then show "\<exists>w'. platform_cleanup (r5_plat sy gic no_ipi lib pa) p w = Done ((), w') \<and> \<not> (case w' of (g, w) \<Rightarrow> r5_live g)"
    using r5_cleanup_run [of "fst w" no_ipi lib "snd w"] by (cases w) (auto simp: r5_plat_def r5_live_def)
qed

text \<open>
  C22. The bare-metal main on the R5, from the start of the processor on, whatever the libraries do, with an application that leaves the
  platform up when it returns.  When \<open>malloc\<close> has no memory for the copy of the resource table, the copy is made through a null pointer.
  Otherwise main returns, with a non-zero status and without having run the application, or with 0 after the application has run;
  only an application that does not return, or faults, makes main do the same.
\<close>

theorem r5_generic_main_ok:
  fixes app :: "('g \<times> (r5_state \<times> 'w), int) prog"
  assumes "\<And>s r g' s'. r5_live (fst s) \<Longrightarrow> app (g, s) = Done (r, (g', s')) \<Longrightarrow> r5_live (fst s') \<and> Q g'"
  shows "let main = generic_main (r5_plat sy gic no_ipi lib pa) app (g, (r5_boot no_ipi, w)) in
    if fst (x_malloc lib (length r5_resources_init) w)
    then (\<exists>r g' s'. main = Done (r, (g', s')) \<and> (r \<noteq> 0 \<and> g' = g \<or> r = 0 \<and> Q g')) \<or>
      (\<exists>s. r5_live (fst s) \<and> (\<forall>x. app (g, s) \<noteq> Done x) \<and> main = app (g, s))
    else main = Fault Null_deref"
proof -
  have f: "r5_fresh (r5_boot no_ipi)" by (simp add: r5_fresh_def r5_boot_def)
  have boot: "initial_resources (r5_boot no_ipi) = Null" by (simp add: r5_boot_def)
  show ?thesis
  proof (cases "fst (x_malloc lib (length r5_resources_init) w)")
    case True
    from r5_platform_init_run [OF f, of lib w sy gic no_ipi pa] True obtain r x g' w' where
      i: "platform_init (r5_plat sy gic no_ipi lib pa) (r5_boot no_ipi, w) = Done ((r, x), (g', w'))"
      by (auto simp: r5_plat_def)
    have a: "(case s' of (g, w) \<Rightarrow> r5_live g) \<and> Q g'"
      if "case s of (g, w) \<Rightarrow> r5_live g" "app (g, s) = Done (r, (g', s'))" for s r g' s'
      using assms(1) [of s r g' s'] that by (auto split: prod.splits)
    have w: "case (r5_boot no_ipi, w) of (g, w) \<Rightarrow> r5_fresh g" using f by simp
    let ?main = "generic_main (r5_plat sy gic no_ipi lib pa) app (g, (r5_boot no_ipi, w))"
    have "(\<exists>r g' s'. ?main = Done (r, (g', s')) \<and> (r \<noteq> 0 \<and> g' = g \<or> r = 0 \<and> Q g')) \<or>
      (\<exists>(p :: unit) s. (case s of (g, w) \<Rightarrow> r5_live g) \<and> (\<forall>x. app (g, s) \<noteq> Done x) \<and> ?main = app (g, s))"
      by (rule rp.generic_main_cases [where app = app and g = g and Q = Q, OF w i]) (erule (1) a)
    with True show ?thesis by (simp add: case_prod_unfold)
  next
    case False
    with boot show ?thesis by (simp add: generic_main_def r5_plat_def r5_platform_init_def r5_get_resource_table_def)
  qed
qed

text \<open>
  C23. A restart is a start: what the last connection has left in the resource table (ring addresses,
  status bits of the host) has no influence on the next device; it is created from the
  copy made by \<open>platform_init\<close>, and every device creation leaves that copy as it is.
\<close>

theorem r5_restart_restores:
  assumes "initial_resources g = Live t"
  shows "r5_create_rpmsg_vdev lib i role ns (g\<lparr>r5_resources := tab\<rparr>, w) = r5_create_rpmsg_vdev lib i role ns (g\<lparr>r5_resources := t\<rparr>, w) \<and>
    (\<exists>d tab' w'. r5_create_rpmsg_vdev lib i role ns (g, w) = Done (d, (g\<lparr>r5_resources := tab'\<rparr>, w')) \<and>
       ((d, tab'), w') = xlnx_create_vdev lib SHARED_MEM_PA (SHARED_MEM_PA + SHARED_BUF_OFFSET) SHARED_MEM_SIZE i role ns t w)"
  using r5_create_vdev_run [OF assms, of lib i role ns w] assms
  by (simp add: r5_create_rpmsg_vdev_def restore_initial_rsc_table_def split_beta)

text \<open>
  A platform that has been cleaned up cannot be used again: \<open>free_resource_table\<close> keeps the
  dangling pointer, the next initialisation takes it for the copy, and the first device is made
  from freed memory.
\<close>

lemma r5_reinit_dangling:
  assumes "initial_resources g = Freed"
  shows "r5_get_resource_table lib (g, w) = Done (length r5_resources_init, (g, w)) \<and>
    r5_create_rpmsg_vdev lib i role ns (g, w) = Fault Use_after_free"
  using assms by (simp add: r5_get_resource_table_def r5_create_rpmsg_vdev_def restore_initial_rsc_table_def)

text \<open>
  \<open>helper.c\<close>, which no build file names, has the start and the end of the machine in the older form.  \<open>app_gic_initialize\<close> and
  \<open>metal_xlnx_irq_init\<close> are not in the repository for this machine and are parameters; the result of the first is not looked at.
\<close>

definition r5_init_system :: "('w \<Rightarrow> 'w) \<Rightarrow> ('w \<Rightarrow> int \<times> 'w) \<Rightarrow> 'w xlib \<Rightarrow> ('w, int) r5prog" where
  "r5_init_system app_gic_initialize metal_xlnx_irq_init lib =
     seq (r5_get_resource_table lib) (seq (extU (x_metal_init lib))
    (seq (extU app_gic_initialize) (ext metal_xlnx_irq_init)))"

definition r5_cleanup_system :: "'w xlib \<Rightarrow> ('w, unit) r5prog" where
  "r5_cleanup_system lib =
     seq (extU (x_metal_finish lib)) (seq (r5_free_resource_table lib) (extU (x_caches_off lib)))"

lemma r5_cleanup_system_eq: "r5_cleanup_system lib = xlnx_machine_cleanup lib"
  by (simp add: r5_cleanup_system_def xlnx_machine_cleanup_def)

text \<open>The same two steps in a row, and then a second start: the copy of the table that it goes on with is freed memory.\<close>

lemma r5_system_restart_dangling:
  assumes "r5_fresh g" and "\<And>n w. fst (x_malloc lib n w)"
  shows "\<exists>r g' w'. seq (r5_init_system gi xi lib) (seq (r5_cleanup_system lib) (r5_init_system gi xi lib)) (g, w) = Done (r, (g', w')) \<and>
    restore_initial_rsc_table (g', w') = Fault Use_after_free"
proof -
  from get_resource_table_cases [OF assms(1), of lib w] assms(2) obtain t w1 where
    1: "r5_get_resource_table lib (g, w) = Done (length r5_resources_init, (g\<lparr>initial_resources := Live t\<rparr>, w1))" by auto
  have "r5_get_resource_table lib (g\<lparr>initial_resources := Freed\<rparr>, v) = Done (length r5_resources_init, (g\<lparr>initial_resources := Freed\<rparr>, v))" for v
    by (simp add: r5_get_resource_table_def)
  with 1 show ?thesis
    by (simp add: r5_init_system_def r5_cleanup_system_def r5_free_resource_table_def restore_initial_rsc_table_def)
qed

text \<open>Built without IPI, the platform never comes up: the kick device has no interrupt to register.\<close>

lemma r5_no_ipi_fails:
  assumes "\<And>n w. fst (x_malloc lib n w)"
  shows "\<exists>s'. r5_platform_init sy gic True lib pa (r5_boot True, w) = Done ((- EINVAL, None), s')"
proof -
  from get_resource_table_cases [of "r5_boot True" lib w] assms obtain t w1 where
    1: "r5_get_resource_table lib (r5_boot True, w) = Done (length r5_resources_init, ((r5_boot True)\<lparr>initial_resources := Live t\<rparr>, w1))"
    by (auto simp: r5_fresh_def r5_boot_def)
  then show ?thesis by (simp add: r5_platform_init_def xlnx_machine_init_def r5_boot_def)
qed

text \<open>
  A failure of the interrupt controller set-up is a positive number, and \<open>platform_init\<close> only
  looks at negative ones: it goes on without having registered the controller.
\<close>

lemma r5_irq_failure_ignored:
  assumes "\<not> gic_lookup gic (gic_exceptions gic False (x_metal_init lib w))" and "0 < XST_FAILURE gic" and "irq_info g \<noteq> 0"
  shows "\<exists>g' w'. xlnx_machine_init Generic gic lib (g, w) = Done (XST_FAILURE gic, (g', w')) \<and>
    w' = gic_exceptions gic False (x_metal_init lib w) \<and> 0 < XST_FAILURE gic"
  using assms by (simp add: xlnx_machine_init_def system_interrupt_register_generic_def hw_to_bsp_irq_generic_def)

section \<open>Polling\<close>

text \<open>One suspension: the interrupt may arrive, and counts when it is the one of the channel.\<close>

definition r5_wait :: "'w xlib \<Rightarrow> 'w \<Rightarrow> bool \<times> 'w" where
  "r5_wait lib w = (case x_irq_save_disable lib w of (flags, w1) \<Rightarrow>
     case x_irq_arrives lib (x_irq_restore_enable lib flags (x_suspend lib w1)) of
       (a, w2) \<Rightarrow> (a \<and> and (x_read32 lib KICK_DEV R5_IPI_ISR_OFFSET w2) IPI_CHN_BITMASK \<noteq> 0, w2))"

interpretation rk: kick_wait "r5_poll_pass False lib" "\<lambda>_. True" ipi_nokick "\<lambda>b g. g\<lparr>ipi_nokick := b\<rparr>" "r5_wait lib"
  for lib
proof
  fix g :: r5_state and w :: 'a assume "ipi_nokick g"
  then have "g = g\<lparr>ipi_nokick := True\<rparr>" by simp
  with \<open>ipi_nokick g\<close> show "\<exists>w'. r5_poll_pass False lib (g, w) = Done (Inl (),
      if fst (r5_wait lib w) then (g\<lparr>ipi_nokick := False\<rparr>, w') else (g, snd (r5_wait lib w)))"
    by (auto simp: r5_poll_pass_def r5_wait_def r5_proc_irq_handler_def Let_def split_beta)
qed (auto simp: r5_poll_pass_def Let_def)

text \<open>
  C24. No interrupt of the host is lost between the test of the flag and the suspension: \<open>platform_poll\<close> of
  the R5 returns in the pass after the one in which the interrupt arrives, or at
  once when it had arrived before, and it has then consumed the kick.
\<close>

theorem r5_poll_returns:
  assumes "if ipi_nokick g then kick_after (r5_wait lib) k w \<and> k + 2 \<le> n else 0 < n"
  shows "\<exists>r w'. r5_platform_poll n False lib (g, w) = Done (r, (g\<lparr>ipi_nokick := True\<rparr>, w'))"
proof (cases "ipi_nokick g")
  case True
  then have "g = g\<lparr>ipi_nokick := True\<rparr>" by simp
  with True rk.poll_returns [of g lib k w n] assms show ?thesis by (auto simp: r5_platform_poll_def)
next
  case False
  with rk.poll_pending [of g n lib w] assms show ?thesis by (simp add: r5_platform_poll_def)
qed

section \<open>The interrupt distributor\<close>

text \<open>
  With registers that keep what is written to them, the loop takes the processor out of the targets of the
  shared interrupts (the registers of interrupts 32, 36, ... below the maximum) and leaves the
  other registers alone.
\<close>

definition dist_regs :: "'w gic \<Rightarrow> bool" where
  "dist_regs gic \<longleftrightarrow> (\<forall>i j v w. gic_dist_read gic i (gic_dist_write gic j v w) = (if i = j then v else gic_dist_read gic i w))"

lemma untarget_cpu_read:
  assumes "dist_regs gic"
  shows "gic_dist_read gic i (untarget_cpu gic mk int_id w) =
    (if int_id \<le> i \<and> i < MAX_INTR gic \<and> 4 dvd (i - int_id) then and (gic_dist_read gic i w) (not mk) else gic_dist_read gic i w)"
  using assms
proof (induction gic mk int_id w rule: untarget_cpu.induct)
  case (1 gic mk int_id w)
  let ?w = "gic_dist_write gic int_id (and (gic_dist_read gic int_id w) (not mk)) w"
  show ?case
  proof (cases "int_id < MAX_INTR gic")
    case False
    then show ?thesis by (auto simp: untarget_cpu.simps)
  next
    case True
    have w: "gic_dist_read gic i ?w = (if i = int_id then and (gic_dist_read gic int_id w) (not mk) else gic_dist_read gic i w)"
      using "1.prems" by (simp add: dist_regs_def)
    have "4 dvd (i - int_id) \<longleftrightarrow> 4 dvd (i - (int_id + 4))" if "int_id + 4 \<le> i"
      using that dvd_add_left_iff [of 4 4 "i - (int_id + 4)"] by simp
    moreover have "\<not> 4 dvd (i - int_id)" if "int_id < i" "i < int_id + 4"
      using that by (auto dest: dvd_imp_le)
    ultimately show ?thesis using True "1.IH" [OF True "1.prems"] w
      by (subst untarget_cpu.simps) (cases "i < int_id + 4"; auto)
  qed
qed

text \<open>The mask has the bit of the processor in each of the four byte lanes.\<close>

lemma mask_cpu_id_0: "mask_cpu_id 0 = 0x01010101" "mask_cpu_id 1 = 0x02020202"
  by (simp_all add: mask_cpu_id_def Let_def)

section \<open>A concrete library\<close>

definition demo_x :: "u32 \<Rightarrow> 'w xlib" where
  "demo_x isr = \<lparr>x_metal_init = (\<lambda>w. w), x_metal_finish = (\<lambda>w. w), x_register_generic_device = (\<lambda>w. (0, w)),
     x_device_open = (\<lambda>b d w. (0, w)), x_device_close = (\<lambda>d w. w), x_io_region = (\<lambda>d w. True),
     x_read32 = (\<lambda>d r w. isr), x_write32 = (\<lambda>d r v w. w), x_irq_info = (\<lambda>d w. 65), x_irq_register = (\<lambda>v w. w),
     x_irq_enable = (\<lambda>v w. w), x_irq_disable = (\<lambda>v w. w), x_irq_unregister = (\<lambda>v w. w),
     x_irq_save_disable = (\<lambda>w. (0, w)), x_irq_restore_enable = (\<lambda>f w. w), x_register_controller = (\<lambda>w. (0, w)),
     x_irq_num = 188, x_irq_handle = (\<lambda>v w. w), x_irq_arrives = (\<lambda>w. (True, w)), x_suspend = (\<lambda>w. w), x_resume = (\<lambda>w. w),
     x_caches_off = (\<lambda>w. w), x_malloc = (\<lambda>n w. (True, w)), x_free = (\<lambda>w. w), x_allocate_memory = (\<lambda>w. (Some 1, w)),
     x_free_memory = (\<lambda>m w. w), x_phys_to_virt = (\<lambda>a w. Some (unat a)), rp_init_ok = (\<lambda>w. (True, w)), rp_removed = (\<lambda>w. w),
     rp_mmap_calls = (\<lambda>w. True), rp_add_mem = (\<lambda>a n w. w), rp_set_rsc_table = (\<lambda>a n w. (0, w)),
     rp_get_io_with_pa = (\<lambda>a w. True), rp_create_virtio = (\<lambda>i r t w. ((Some 2, t[44 := 7]), w)), rp_remove_virtio = (\<lambda>v w. w),
     rp_get_notification = (\<lambda>w. (0, w)), vio_init_shm_pool = (\<lambda>a n w. w), vio_init_vdev = (\<lambda>m v n w. (0, w)),
     vio_deinit_vdev = (\<lambda>m w. w)\<rparr>"

definition demo_gic :: "'w gic" where
  "demo_gic = \<lparr>XST_FAILURE = 1, XPAR_CPU_ID = 0, MAX_INTR = 195, gic_lookup = (\<lambda>w. True), gic_cfg_initialize = (\<lambda>w. (0, w)),
     gic_dist_read = (\<lambda>i w. 0), gic_dist_write = (\<lambda>i v w. w), gic_map_to_cpu = (\<lambda>i w. w), gic_exceptions = (\<lambda>b w. w),
     gic_register_handler = (\<lambda>w. w), gic_disable = (\<lambda>i w. w), gic_connect = (\<lambda>i w. (0, w)), port_install_handler = (\<lambda>i w. (1, w))\<rparr>"

lemma r5_generic_main_ok_witness:
  "(\<exists>r g' s'. generic_main (r5_plat Generic demo_gic False (demo_x 0) 0x3ED20000) (\<lambda>(g, s). Done (0, (g + 1, s)))
      ((7 :: nat), (r5_boot False, ())) = Done (r, (g', s')) \<and> (r \<noteq> 0 \<and> g' = 7 \<or> r = 0 \<and> g' = 8))"
  using r5_generic_main_ok [where app = "\<lambda>(g, s). Done (0, (g + 1, s))" and g = "7 :: nat" and Q = "\<lambda>g'. g' = 8" and sy = Generic
      and gic = demo_gic and no_ipi = False and lib = "demo_x 0" and pa = "0x3ED20000" and w = "()"]
  by (simp add: demo_x_def)

definition r5_running :: "bytes \<Rightarrow> bool \<Rightarrow> r5_state" where
  "r5_running t nokick = \<lparr>r5_resources = t, initial_resources = Live [9, 9], irq_info = 65, kick_dev = True, kick_io = True,
     ipi_nokick = nokick\<rparr>"

lemma r5_restart_restores_witness:
  "r5_create_rpmsg_vdev (demo_x 0) 0 VIRTIO_DEV_DEVICE False (r5_running [1, 2, 3] True, ()) =
   r5_create_rpmsg_vdev (demo_x 0) 0 VIRTIO_DEV_DEVICE False (r5_running [9, 9] True, ())"
  using r5_restart_restores [of "r5_running [9, 9] True" "[9, 9]" "demo_x 0" 0 VIRTIO_DEV_DEVICE False "[1, 2, 3]" "()"]
  by (simp add: r5_running_def)

lemma r5_poll_returns_witness:
  "\<exists>r w'. r5_platform_poll 2 False (demo_x IPI_CHN_BITMASK) (r5_running [] True, ()) = Done (r, (r5_running [] True, w'))"
  using r5_poll_returns [of "r5_running [] True" "demo_x IPI_CHN_BITMASK" 0 "()" 2]
  by (simp add: r5_running_def r5_wait_def demo_x_def IPI_CHN_BITMASK_def)

end
