(* ===== verification/Platform_Zynqmp.thy ===== *)
theory Platform_Zynqmp
  imports Platform_R5 "HOL-Library.Multiset"
begin

text \<open>
  The platform layer of a Linux process on the A53 that drives the R5 remote,
  \<open>machine/xlnx/zynqmp/{platform_info,zynqmp_linux_r5_proc}.c\<close> with
  \<open>system/linux/machine/zynqmp/helper.c\<close>: shared memory, doorbell and polling memory are
  libmetal devices.  It uses the record of library calls of \<open>Platform_R5\<close>.  The lemmas show that devices
  are opened and closed in pairs, that the platform keeps the contract of the mains, and that the poll
  loses no kick.
\<close>

section \<open>Processor operations\<close>

definition DEV_BUS_NAME :: string where "DEV_BUS_NAME = ''platform''"
definition SHM_DEV :: string where "SHM_DEV = ''3ed20000.shm''"
definition IPI_DEV :: string where "IPI_DEV = ''ff340000.ipi''"
definition POLL_DEV :: string where "POLL_DEV = ''3ee40000.poll''"
definition ZQ_IPI_MASK :: u32 where "ZQ_IPI_MASK = 0x100"

text \<open>
  The static data: whether the remoteproc instance is in use, and the device and region pointers of its private data.
\<close>

record zq_state =
  zq_inst :: bool
  ipi_dev :: bool
  ipi_io :: bool
  shm_dev :: bool
  shm_io :: bool
  shm_poll_dev :: bool
  shm_poll_io :: bool
  zq_nokick :: bool

definition zq_boot :: zq_state where
  "zq_boot = \<lparr>zq_inst = False, ipi_dev = False, ipi_io = False, shm_dev = False, shm_io = False,
     shm_poll_dev = False, shm_poll_io = False, zq_nokick = False\<rparr>"

type_synonym ('w, 'a) zqprog = "(zq_state \<times> 'w, 'a) prog"

definition zq_proc_irq_handler :: "'w xlib \<Rightarrow> ('w, bool) zqprog" where
  "zq_proc_irq_handler lib =
     bnd (asks (x_read32 lib IPI_DEV R5_IPI_ISR_OFFSET)) (\<lambda>st.
     if and st ZQ_IPI_MASK \<noteq> 0
     then seq (updg (\<lambda>g. g\<lparr>zq_nokick := False\<rparr>))
         (seq (extU (x_write32 lib IPI_DEV R5_IPI_ISR_OFFSET ZQ_IPI_MASK)) (ret True))
     else ret False)"

text \<open>The two parts of the initialisation that depend on the build: polling memory and doorbell.\<close>

definition zq_init_poll :: "'w xlib \<Rightarrow> ('w, bool) zqprog" where
  "zq_init_poll lib =
     bnd (ext (x_device_open lib DEV_BUS_NAME POLL_DEV)) (\<lambda>r. if r \<noteq> 0 then ret False else
     seq (updg (\<lambda>g. g\<lparr>shm_poll_dev := True\<rparr>))
    (bnd (asks (x_io_region lib POLL_DEV)) (\<lambda>io.
     seq (updg (\<lambda>g. g\<lparr>shm_poll_io := io\<rparr>))
    (if \<not> io then seq (extU (x_device_close lib SHM_DEV)) (ret False)
     else seq (extU (x_write32 lib POLL_DEV 0 0)) (ret True)))))"

definition zq_init_ipi :: "'w xlib \<Rightarrow> ('w, bool) zqprog" where
  "zq_init_ipi lib =
     (let err2 = seq (extU (x_device_close lib SHM_DEV)) (ret False) in
      bnd (ext (x_device_open lib DEV_BUS_NAME IPI_DEV)) (\<lambda>r. if r \<noteq> 0 then err2 else
      seq (updg (\<lambda>g. g\<lparr>ipi_dev := True\<rparr>))
     (bnd (asks (x_io_region lib IPI_DEV)) (\<lambda>io.
      seq (updg (\<lambda>g. g\<lparr>ipi_io := io\<rparr>))
     (if \<not> io then seq (extU (x_device_close lib IPI_DEV)) err2
      else seq (updg (\<lambda>g. g\<lparr>zq_nokick := True\<rparr>))
          (bnd (asks (x_irq_info lib IPI_DEV)) (\<lambda>v.
           seq (extU (x_irq_register lib v)) (seq (extU (x_irq_enable lib v))
          (seq (extU (x_write32 lib IPI_DEV R5_IPI_IER_OFFSET ZQ_IPI_MASK)) (ret True))))))))))"

definition zq_proc_init :: "bool \<Rightarrow> 'w xlib \<Rightarrow> ('w, bool) zqprog" where
  "zq_proc_init no_ipi lib =
     seq (updg (\<lambda>g. g\<lparr>ipi_dev := False, shm_dev := False\<rparr>))
    (bnd (ext (x_device_open lib DEV_BUS_NAME SHM_DEV)) (\<lambda>r. if r \<noteq> 0 then ret False else
     seq (updg (\<lambda>g. g\<lparr>shm_dev := True\<rparr>))
    (bnd (asks (x_io_region lib SHM_DEV)) (\<lambda>io.
     seq (updg (\<lambda>g. g\<lparr>shm_io := io\<rparr>))
    (if \<not> io then seq (extU (x_device_close lib SHM_DEV)) (ret False)
     else bnd (if no_ipi then zq_init_poll lib else ret True) (\<lambda>ok. if \<not> ok then ret False else
          seq (extU (rp_add_mem lib 0 0))
         (if no_ipi then ret True else zq_init_ipi lib)))))))"

definition zq_proc_remove :: "bool \<Rightarrow> 'w xlib \<Rightarrow> ('w, unit) zqprog" where
  "zq_proc_remove no_ipi lib =
     bnd (getg ipi_io) (\<lambda>io. bnd (getg ipi_dev) (\<lambda>dev. bnd (getg shm_dev) (\<lambda>sdev.
     seq (if no_ipi then ret ()
          else if \<not> io then fail Null_deref
          else seq (extU (x_write32 lib IPI_DEV R5_IPI_IDR_OFFSET ZQ_IPI_MASK))
              (if dev then bnd (asks (x_irq_info lib IPI_DEV)) (\<lambda>v.
                 seq (extU (x_irq_disable lib v)) (seq (extU (x_irq_unregister lib v)) (extU (x_device_close lib IPI_DEV))))
               else ret ()))
         (if sdev then extU (x_device_close lib SHM_DEV) else ret ()))))"

definition zq_proc_mmap :: "'w xlib \<Rightarrow> u64 \<Rightarrow> u64 \<Rightarrow> ('w, nat option) zqprog" where
  "zq_proc_mmap lib pa da =
     (if pa = BAD_PHYS \<and> da = BAD_PHYS then ret None
      else bnd (getg shm_io) (\<lambda>io. if \<not> io then ret None
           else asks (x_phys_to_virt lib (if pa = BAD_PHYS then da else pa))))"

definition zq_proc_notify :: "bool \<Rightarrow> 'w xlib \<Rightarrow> ('w, int) zqprog" where
  "zq_proc_notify no_ipi lib =
     seq (if no_ipi then extU (x_write32 lib POLL_DEV 0 POLL_STOP)
          else extU (x_write32 lib IPI_DEV R5_IPI_TRIG_OFFSET ZQ_IPI_MASK)) (ret 0)"

section \<open>Platform interface\<close>

definition ZQ_RSC_MEM_PA :: u64 where "ZQ_RSC_MEM_PA = 0x3ED20000"
definition RSC_MEM_SIZE :: nat where "RSC_MEM_SIZE = 0x2000"
definition ZQ_SHARED_BUF_PA :: u64 where "ZQ_SHARED_BUF_PA = 0x3ED48000"
definition ZQ_SHARED_BUF_SIZE :: nat where "ZQ_SHARED_BUF_SIZE = 0x40000"

definition zq_init_system :: "'w xlib \<Rightarrow> ('w, int) zqprog" where
  "zq_init_system lib = seq (extU (x_metal_init lib)) (ret 0)"

definition zq_cleanup_system :: "'w xlib \<Rightarrow> ('w, unit) zqprog" where
  "zq_cleanup_system lib = extU (x_metal_finish lib)"

text \<open>The library calls that call back into the file.\<close>

definition zq_remoteproc_init :: "bool \<Rightarrow> 'w xlib \<Rightarrow> ('w, bool) zqprog" where
  "zq_remoteproc_init no_ipi lib =
     bnd (ext (rp_init_ok lib)) (\<lambda>ok. if \<not> ok then ret False else
     bnd (zq_proc_init no_ipi lib) (\<lambda>ok. seq (updg (\<lambda>g. g\<lparr>zq_inst := ok\<rparr>)) (ret ok)))"

definition zq_remoteproc_remove :: "bool \<Rightarrow> 'w xlib \<Rightarrow> ('w, unit) zqprog" where
  "zq_remoteproc_remove no_ipi lib =
     seq (zq_proc_remove no_ipi lib) (seq (extU (rp_removed lib)) (updg (\<lambda>g. g\<lparr>zq_inst := False\<rparr>)))"

definition zq_create_proc :: "bool \<Rightarrow> 'w xlib \<Rightarrow> ('w, bool) zqprog" where
  "zq_create_proc no_ipi lib =
     bnd (zq_remoteproc_init no_ipi lib) (\<lambda>ok. if \<not> ok then ret False else
     bnd (zq_proc_mmap lib ZQ_RSC_MEM_PA BAD_PHYS) (\<lambda>va. case va of None \<Rightarrow> ret False | Some a \<Rightarrow>
     bnd (ext (rp_set_rsc_table lib (Some a) RSC_MEM_SIZE)) (\<lambda>r.
     if r \<noteq> 0 then seq (zq_remoteproc_remove no_ipi lib) (ret False) else ret True)))"

definition zq_platform_init :: "bool \<Rightarrow> 'w xlib \<Rightarrow> ('w, int \<times> unit option) zqprog" where
  "zq_platform_init no_ipi lib =
     seq (zq_init_system lib)
    (bnd (zq_create_proc no_ipi lib) (\<lambda>ok. if \<not> ok then ret (- EINVAL, None) else ret (0, Some ())))"

definition zq_create_rpmsg_vdev :: "'w xlib \<Rightarrow> nat \<Rightarrow> vdev_role \<Rightarrow> bool \<Rightarrow> ('w, xdev option) zqprog" where
  "zq_create_rpmsg_vdev lib vdev_index role ns =
     bnd (ext (xlnx_create_vdev lib ZQ_SHARED_BUF_PA ZQ_SHARED_BUF_PA ZQ_SHARED_BUF_SIZE vdev_index role ns [])) (\<lambda>(d, _). ret d)"

definition zq_release_rpmsg_vdev :: "'w xlib \<Rightarrow> xdev \<Rightarrow> zq_state \<times> 'w \<Rightarrow> zq_state \<times> 'w" where
  "zq_release_rpmsg_vdev lib d s = (fst s, xlnx_release_vdev lib d (snd s))"

definition zq_poll_pass :: "bool \<Rightarrow> 'w xlib \<Rightarrow> ('w, unit + int) zqprog" where
  "zq_poll_pass no_ipi lib =
     (let notified = bnd (ext (rp_get_notification lib)) (\<lambda>r. ret (Inr (if r \<noteq> 0 then r else 0))) in
      if no_ipi
      then bnd (asks (x_read32 lib POLL_DEV 0)) (\<lambda>v. if v \<noteq> 0 then notified else ret (Inl ()))
      else bnd (ext (x_irq_save_disable lib)) (\<lambda>flags.
        bnd (getg zq_nokick) (\<lambda>was.
        seq (updg (\<lambda>g. g\<lparr>zq_nokick := True\<rparr>))
       (if \<not> was then seq (extU (x_irq_restore_enable lib flags)) notified
        else seq (extU (x_suspend lib))
            (seq (extU (x_irq_restore_enable lib flags))
            (bnd (ext (x_irq_arrives lib)) (\<lambda>a.
             seq (if a then seq (zq_proc_irq_handler lib) (ret ()) else ret ()) (ret (Inl ())))))))))"

definition zq_platform_poll :: "nat \<Rightarrow> bool \<Rightarrow> 'w xlib \<Rightarrow> ('w, int) zqprog" where
  "zq_platform_poll n no_ipi lib = iter n (\<lambda>_. zq_poll_pass no_ipi lib) ()"

definition zq_platform_cleanup :: "bool \<Rightarrow> 'w xlib \<Rightarrow> ('w, unit) zqprog" where
  "zq_platform_cleanup no_ipi lib = seq (zq_remoteproc_remove no_ipi lib) (zq_cleanup_system lib)"

definition zq_plat :: "bool \<Rightarrow> 'w xlib \<Rightarrow> (unit, xdev, zq_state \<times> 'w) plat" where
  "zq_plat no_ipi lib = \<lparr>
     platform_init = zq_platform_init no_ipi lib,
     platform_create_rpmsg_vdev = (\<lambda>_. zq_create_rpmsg_vdev lib),
     platform_release_rpmsg_vdev = (\<lambda>d _. zq_release_rpmsg_vdev lib d),
     platform_cleanup = (\<lambda>_. zq_platform_cleanup no_ipi lib)\<rparr>"

section \<open>The platform contract\<close>

definition zq_live :: "bool \<Rightarrow> zq_state \<Rightarrow> bool" where
  "zq_live no_ipi g \<longleftrightarrow> zq_inst g \<and> shm_dev g \<and> shm_io g \<and>
     (if no_ipi then shm_poll_dev g \<and> shm_poll_io g else ipi_dev g \<and> ipi_io g)"

definition zq_ready :: "bool \<Rightarrow> zq_state \<Rightarrow> bool" where
  "zq_ready no_ipi g \<longleftrightarrow> shm_dev g \<and> shm_io g \<and>
     (if no_ipi then shm_poll_dev g \<and> shm_poll_io g else ipi_dev g \<and> ipi_io g)"

lemma zq_proc_init_run:
  "\<exists>ok g' w'. zq_proc_init no_ipi lib (g, w) = Done (ok, (g', w')) \<and> (ok \<longrightarrow> zq_ready no_ipi g')"
proof -
  let ?w1 = "snd (x_device_open lib DEV_BUS_NAME SHM_DEV w)"
  have p: "\<exists>ok g' w'. zq_init_poll lib (g, w) = Done (ok, (g', w')) \<and>
      (ok \<longrightarrow> g' = g\<lparr>shm_poll_dev := True, shm_poll_io := True\<rparr>)" for g w
    by (auto simp: zq_init_poll_def)
  have i: "\<exists>ok g' w'. zq_init_ipi lib (g, w) = Done (ok, (g', w')) \<and>
      (ok \<longrightarrow> g' = g\<lparr>ipi_dev := True, ipi_io := True, zq_nokick := True\<rparr>)" for g w
    by (auto simp: zq_init_ipi_def Let_def)
  let ?g = "g\<lparr>ipi_dev := False, shm_dev := True, shm_io := True\<rparr>"
  from p [of ?g ?w1] i [of ?g "rp_add_mem lib 0 0 ?w1"] show ?thesis
    by (cases no_ipi) (auto simp: zq_proc_init_def zq_ready_def)
qed

lemma zq_remoteproc_remove_run:
  assumes "zq_ready no_ipi g"
  shows "\<exists>w'. zq_remoteproc_remove no_ipi lib (g, w) = Done ((), (g\<lparr>zq_inst := False\<rparr>, w'))"
  using assms by (auto simp: zq_remoteproc_remove_def zq_proc_remove_def zq_ready_def)

lemma zq_create_proc_run:
  "\<exists>ok g' w'. zq_create_proc no_ipi lib (g, w) = Done (ok, (g', w')) \<and> (ok \<longrightarrow> zq_live no_ipi g')"
proof -
  let ?w1 = "snd (rp_init_ok lib w)"
  from zq_proc_init_run [of no_ipi lib g ?w1] obtain ok h w2 where
    h: "zq_proc_init no_ipi lib (g, ?w1) = Done (ok, (h, w2))" "ok \<longrightarrow> zq_ready no_ipi h" by blast
  let ?h = "h\<lparr>zq_inst := True\<rparr>"
  have r: "zq_ready no_ipi ?h \<longleftrightarrow> zq_ready no_ipi h" by (simp add: zq_ready_def)
  have "\<exists>a. zq_proc_mmap lib ZQ_RSC_MEM_PA BAD_PHYS (?h, w2) = Done (a, (?h, w2))"
    by (simp add: zq_proc_mmap_def ZQ_RSC_MEM_PA_def BAD_PHYS_def)
  then obtain a where a: "zq_proc_mmap lib ZQ_RSC_MEM_PA BAD_PHYS (?h, w2) = Done (a, (?h, w2))" by blast
  show ?thesis
  proof (cases "ok \<and> a \<noteq> None")
    case False
    with h a show ?thesis by (cases ok; cases a) (auto simp: zq_create_proc_def zq_remoteproc_init_def)
  next
    case True
    then obtain b where b: "a = Some b" by blast
    let ?w3 = "snd (rp_set_rsc_table lib (Some b) RSC_MEM_SIZE w2)"
    from zq_remoteproc_remove_run [of no_ipi ?h lib ?w3] h True r obtain w4 where
      "zq_remoteproc_remove no_ipi lib (?h, ?w3) = Done ((), (?h\<lparr>zq_inst := False\<rparr>, w4))" by blast
    moreover have "zq_live no_ipi ?h" using h True by (simp add: zq_live_def zq_ready_def)
    ultimately show ?thesis using h a b True
      by (auto simp: zq_create_proc_def zq_remoteproc_init_def)
  qed
qed

lemma zq_cleanup_run:
  assumes "zq_live no_ipi g"
  shows "\<exists>w'. zq_platform_cleanup no_ipi lib (g, w) = Done ((), (g\<lparr>zq_inst := False\<rparr>, w'))"
proof -
  have "zq_ready no_ipi g" using assms by (simp add: zq_live_def zq_ready_def split: if_splits)
  from zq_remoteproc_remove_run [OF this, of lib w] show ?thesis
    by (auto simp: zq_platform_cleanup_def zq_cleanup_system_def)
qed

interpretation zp: platform_contract "zq_plat no_ipi lib" "\<lambda>_. True" "\<lambda>_ (g, w). zq_live no_ipi g"
  for no_ipi lib
proof
  fix w :: "zq_state \<times> 'a" and x w'
  assume "platform_init (zq_plat no_ipi lib) w = Done ((0, x), w')"
  then show "\<exists>p. x = Some p \<and> (case w' of (g, w) \<Rightarrow> zq_live no_ipi g)"
    using zq_create_proc_run [of no_ipi lib "fst w" "x_metal_init lib (snd w)"]
    by (cases w) (auto simp: zq_plat_def zq_platform_init_def zq_init_system_def split: if_splits)
next
  fix p i role ns and w :: "zq_state \<times> 'a"
  assume "case w of (g, w) \<Rightarrow> zq_live no_ipi g"
  then show "\<exists>d w'. platform_create_rpmsg_vdev (zq_plat no_ipi lib) p i role ns w = Done (d, w') \<and>
      (case w' of (g, w) \<Rightarrow> zq_live no_ipi g)"
    by (cases w) (simp add: zq_plat_def zq_create_rpmsg_vdev_def split_beta)
next
  fix p r and w :: "zq_state \<times> 'a"
  assume "case w of (g, w) \<Rightarrow> zq_live no_ipi g"
  then show "case platform_release_rpmsg_vdev (zq_plat no_ipi lib) r p w of (g, w) \<Rightarrow> zq_live no_ipi g"
    by (auto simp: zq_plat_def zq_release_rpmsg_vdev_def)
next
  fix p and w :: "zq_state \<times> 'a"
  assume "case w of (g, w) \<Rightarrow> zq_live no_ipi g"
  then show "\<exists>w'. platform_cleanup (zq_plat no_ipi lib) p w = Done ((), w') \<and> \<not> (case w' of (g, w) \<Rightarrow> zq_live no_ipi g)"
    using zq_cleanup_run [of no_ipi "fst w" lib "snd w"] by (cases w) (auto simp: zq_plat_def zq_live_def)
qed

section \<open>Polling\<close>

definition zq_wait :: "'w xlib \<Rightarrow> 'w \<Rightarrow> bool \<times> 'w" where
  "zq_wait lib w = (case x_irq_save_disable lib w of (flags, w1) \<Rightarrow>
     case x_irq_arrives lib (x_irq_restore_enable lib flags (x_suspend lib w1)) of
       (a, w2) \<Rightarrow> (a \<and> and (x_read32 lib IPI_DEV R5_IPI_ISR_OFFSET w2) ZQ_IPI_MASK \<noteq> 0, w2))"

interpretation zk: kick_wait "zq_poll_pass False lib" "\<lambda>_. True" zq_nokick "\<lambda>b g. g\<lparr>zq_nokick := b\<rparr>" "zq_wait lib"
  for lib
proof
  fix g :: zq_state and w :: 'a assume "zq_nokick g"
  then have "g = g\<lparr>zq_nokick := True\<rparr>" by simp
  with \<open>zq_nokick g\<close> show "\<exists>w'. zq_poll_pass False lib (g, w) = Done (Inl (),
      if fst (zq_wait lib w) then (g\<lparr>zq_nokick := False\<rparr>, w') else (g, snd (zq_wait lib w)))"
    by (auto simp: zq_poll_pass_def zq_wait_def zq_proc_irq_handler_def Let_def split_beta)
qed (auto simp: zq_poll_pass_def Let_def)

lemma zq_poll_returns:
  assumes "zq_nokick g" and "kick_after (zq_wait lib) k w" and "k + 2 \<le> n"
  shows "\<exists>r w'. zq_platform_poll n False lib (g, w) = Done (r, (g, w'))"
  using zk.poll_returns [of g lib k w n] assms by (auto simp: zq_platform_poll_def)

text \<open>
  Built without interrupts, the kick is a word of shared memory that nobody clears: once it is
  set, by the peer or by a notification of this side, every later poll returns at once.
\<close>

lemma zq_no_ipi_poll_stale:
  assumes "x_read32 lib POLL_DEV 0 w \<noteq> 0" and "0 < n"
  shows "\<exists>r w'. zq_platform_poll n True lib (g, w) = Done (r, (g, w'))"
  using assms by (cases n) (auto simp: zq_platform_poll_def zq_poll_pass_def Let_def)

section \<open>Devices\<close>

text \<open>
  What libmetal promises of devices: \<open>opens\<close> counts the open ones; a successful open adds the
  device, a close takes it away, and the other calls leave the count alone.
\<close>

definition device_laws :: "'w xlib \<Rightarrow> ('w \<Rightarrow> string multiset) \<Rightarrow> bool" where
  "device_laws lib opens \<longleftrightarrow>
     (\<forall>b d w. fst (x_device_open lib b d w) = 0 \<longrightarrow> opens (snd (x_device_open lib b d w)) = add_mset d (opens w)) \<and>
     (\<forall>b d w. fst (x_device_open lib b d w) \<noteq> 0 \<longrightarrow> opens (snd (x_device_open lib b d w)) = opens w) \<and>
     (\<forall>d w. opens (x_device_close lib d w) = opens w - {#d#}) \<and>
     (\<forall>d r v w. opens (x_write32 lib d r v w) = opens w) \<and>
     (\<forall>v w. opens (x_irq_register lib v w) = opens w \<and> opens (x_irq_enable lib v w) = opens w \<and>
            opens (x_irq_disable lib v w) = opens w \<and> opens (x_irq_unregister lib v w) = opens w) \<and>
     (\<forall>a n w. opens (rp_add_mem lib a n w) = opens w) \<and>
     (\<forall>w. opens (rp_removed lib w) = opens w)"

lemma zq_init_ipi_devices:
  assumes "device_laws lib opens" and "zq_init_ipi lib (g, w) = Done (ok, (g', w'))" and "SHM_DEV \<in># opens w"
  shows "opens w' = (if ok then add_mset IPI_DEV (opens w) else opens w - {#SHM_DEV#})"
  using assms unfolding device_laws_def
  by (auto simp: zq_init_ipi_def Let_def SHM_DEV_def IPI_DEV_def split: if_splits)

text \<open>The two parts of the initialisation that the build selects, on the devices they find open.\<close>

lemma zq_init_poll_run: "\<exists>ok g' w'. zq_init_poll lib (g, w) = Done (ok, (g', w'))"
  by (auto simp: zq_init_poll_def)

lemma zq_init_poll_devices:
  assumes "device_laws lib opens" and "zq_init_poll lib (g, w) = Done (ok, (g', w'))" and "SHM_DEV \<in># opens w"
  shows "fst (x_device_open lib DEV_BUS_NAME POLL_DEV w) \<noteq> 0 \<Longrightarrow> \<not> ok \<and> opens w' = opens w"
    and "fst (x_device_open lib DEV_BUS_NAME POLL_DEV w) = 0 \<Longrightarrow>
      opens w' = (if ok then add_mset POLL_DEV (opens w) else add_mset POLL_DEV (opens w) - {#SHM_DEV#})"
    and "shm_dev g' = shm_dev g"
  using assms unfolding device_laws_def by (auto simp: zq_init_poll_def split: if_splits)

text \<open>What a failed initialisation leaves open: nothing with the doorbell; one of two devices in the build that polls.\<close>

definition left_open :: "bool \<Rightarrow> 'w xlib \<Rightarrow> 'w \<Rightarrow> string multiset" where
  "left_open no_ipi lib w =
     (let r = fst (x_device_open lib DEV_BUS_NAME SHM_DEV w); w1 = snd (x_device_open lib DEV_BUS_NAME SHM_DEV w)
      in if \<not> no_ipi \<or> r \<noteq> 0 \<or> \<not> x_io_region lib SHM_DEV w1 then {#}
        else if fst (x_device_open lib DEV_BUS_NAME POLL_DEV w1) \<noteq> 0 then {#SHM_DEV#} else {#POLL_DEV#})"

text \<open>
  C26. The devices of the ZynqMP Linux platform, over a library that keeps count of what is open.  With the doorbell they are opened and
  closed in pairs: an initialisation that fails has closed everything, on every error path, one that succeeds holds the
  shared memory and the doorbell, and the removal closes both.  In the build that polls (\<open>RPMSG_NO_IPI\<close>) they are not: the shared memory stays open when
  the polling memory cannot be opened, the polling memory when it has no region, and the removal never closes the polling memory.
\<close>

theorem zq_devices_balanced:
  assumes laws: "device_laws lib opens" and init: "zq_proc_init no_ipi lib (g, w) = Done (ok, (g', w'))"
  shows "if ok
    then opens w' = opens w + {#SHM_DEV, if no_ipi then POLL_DEV else IPI_DEV#} \<and>
      (\<forall>v. opens v = opens w' \<longrightarrow> (\<exists>v'. zq_remoteproc_remove no_ipi lib (g', v) = Done ((), (g'\<lparr>zq_inst := False\<rparr>, v')) \<and>
        opens v' = opens w + (if no_ipi then {#POLL_DEV#} else {#})))
    else opens w' = opens w + left_open no_ipi lib w"
proof (cases "fst (x_device_open lib DEV_BUS_NAME SHM_DEV w) = 0 \<and> x_io_region lib SHM_DEV (snd (x_device_open lib DEV_BUS_NAME SHM_DEV w))")
  case False
  with laws init show ?thesis unfolding device_laws_def by (auto simp: zq_proc_init_def left_open_def Let_def split: if_splits)
next
  case True
  let ?w1 = "snd (x_device_open lib DEV_BUS_NAME SHM_DEV w)" and ?g1 = "g\<lparr>ipi_dev := False, shm_dev := True, shm_io := True\<rparr>"
  have o0: "opens ?w1 = add_mset SHM_DEV (opens w)" using laws True by (simp add: device_laws_def)
  show ?thesis
  proof (cases no_ipi)
    case ipi: False
    have o1: "opens (rp_add_mem lib 0 0 ?w1) = add_mset SHM_DEV (opens w)" using laws o0 by (simp add: device_laws_def)
    from True init ipi have i: "zq_init_ipi lib (?g1, rp_add_mem lib 0 0 ?w1) = Done (ok, (g', w'))" by (simp add: zq_proc_init_def)
    from zq_init_ipi_devices [OF laws i] o1 have o: "opens w' = (if ok then {#IPI_DEV, SHM_DEV#} + opens w else opens w)" by simp
    have "\<exists>v'. zq_remoteproc_remove False lib (g', v) = Done ((), (g'\<lparr>zq_inst := False\<rparr>, v')) \<and> opens v' = opens w"
      if ok and "opens v = opens w'" for v
    proof -
      from i \<open>ok\<close> have "ipi_io g'" "ipi_dev g'" "shm_dev g'" by (auto simp: zq_init_ipi_def Let_def split: if_splits)
      with laws o that show ?thesis by (simp add: zq_remoteproc_remove_def zq_proc_remove_def device_laws_def)
    qed
    with o ipi show ?thesis by (auto simp: left_open_def)
  next
    case poll: True
    obtain q h v where p: "zq_init_poll lib (?g1, ?w1) = Done (q, (h, v))" using zq_init_poll_run [of lib ?g1 ?w1] by blast
    with True init poll laws have k: "q = ok" "g' = h" "opens w' = opens v" by (auto simp: zq_proc_init_def device_laws_def split: if_splits)
    have l: "left_open no_ipi lib w = (if fst (x_device_open lib DEV_BUS_NAME POLL_DEV ?w1) \<noteq> 0 then {#SHM_DEV#} else {#POLL_DEV#})"
      using True poll by (auto simp: left_open_def)
    note d = zq_init_poll_devices [OF laws p]
    have s: "SHM_DEV \<in># opens ?w1" using o0 by simp
    have ne: "SHM_DEV \<noteq> POLL_DEV" by (simp add: SHM_DEV_def POLL_DEV_def)
    have rm: "\<forall>u. opens u = opens w + {#SHM_DEV, POLL_DEV#} \<longrightarrow> (\<exists>u'. zq_remoteproc_remove no_ipi lib (g', u)
        = Done ((), (g'\<lparr>zq_inst := False\<rparr>, u')) \<and> opens u' = opens w + {#POLL_DEV#})"
      using laws d(3) [OF s] k(2) poll by (simp add: zq_remoteproc_remove_def zq_proc_remove_def device_laws_def)
    have o: "opens w' = (if ok then opens w + {#SHM_DEV, POLL_DEV#} else opens w + left_open no_ipi lib w)"
      unfolding l using d(1,2) [OF s] k o0 ne by (auto split: if_splits)
    then show ?thesis using rm poll by simp
  qed
qed

text \<open>
  One error path of \<open>platform_create_proc\<close> keeps what it has: when the resource table cannot be mapped, the
  instance stays in use, with its devices open and its interrupt enabled.
\<close>

lemma zq_mmap_failure_keeps:
  assumes "zq_remoteproc_init False lib (g, w) = Done (True, (g', w'))" and "x_phys_to_virt lib ZQ_RSC_MEM_PA w' = None"
  shows "zq_create_proc False lib (g, w) = Done (False, (g', w'))"
  using assms by (simp add: zq_create_proc_def zq_proc_mmap_def ZQ_RSC_MEM_PA_def BAD_PHYS_def)

text \<open>A library that keeps count of the open devices; the doorbell can be missing, and the polling memory is.\<close>

definition counting_x :: "bool \<Rightarrow> string multiset xlib" where
  "counting_x ipi_there = \<lparr>x_metal_init = (\<lambda>w. w), x_metal_finish = (\<lambda>w. w), x_register_generic_device = (\<lambda>w. (0, w)),
     x_device_open = (\<lambda>b d w. if d = IPI_DEV \<and> \<not> ipi_there \<or> d = POLL_DEV then (- 19, w) else (0, add_mset d w)),
     x_device_close = (\<lambda>d w. w - {#d#}), x_io_region = (\<lambda>d w. True),
     x_read32 = (\<lambda>d r w. 0), x_write32 = (\<lambda>d r v w. w), x_irq_info = (\<lambda>d w. 65), x_irq_register = (\<lambda>v w. w),
     x_irq_enable = (\<lambda>v w. w), x_irq_disable = (\<lambda>v w. w), x_irq_unregister = (\<lambda>v w. w),
     x_irq_save_disable = (\<lambda>w. (0, w)), x_irq_restore_enable = (\<lambda>f w. w), x_register_controller = (\<lambda>w. (0, w)),
     x_irq_num = 188, x_irq_handle = (\<lambda>v w. w), x_irq_arrives = (\<lambda>w. (False, w)), x_suspend = (\<lambda>w. w), x_resume = (\<lambda>w. w),
     x_caches_off = (\<lambda>w. w), x_malloc = (\<lambda>n w. (True, w)), x_free = (\<lambda>w. w), x_allocate_memory = (\<lambda>w. (Some 1, w)),
     x_free_memory = (\<lambda>m w. w), x_phys_to_virt = (\<lambda>a w. Some (unat a)), rp_init_ok = (\<lambda>w. (True, w)), rp_removed = (\<lambda>w. w),
     rp_mmap_calls = (\<lambda>w. True), rp_add_mem = (\<lambda>a n w. w), rp_set_rsc_table = (\<lambda>a n w. (0, w)),
     rp_get_io_with_pa = (\<lambda>a w. True), rp_create_virtio = (\<lambda>i r t w. ((Some 2, t), w)), rp_remove_virtio = (\<lambda>v w. w),
     rp_get_notification = (\<lambda>w. (0, w)), vio_init_shm_pool = (\<lambda>a n w. w), vio_init_vdev = (\<lambda>m v n w. (0, w)),
     vio_deinit_vdev = (\<lambda>m w. w)\<rparr>"

lemma counting_laws: "device_laws (counting_x b) (\<lambda>w. w)"
  by (simp add: device_laws_def counting_x_def)

lemma zq_devices_balanced_witness:
  "(\<exists>g' w'. zq_proc_init False (counting_x False) (zq_boot, {#''other''#}) = Done (False, (g', w')) \<and> w' = {#''other''#}) \<and>
   (\<exists>g' w'. zq_proc_init True (counting_x False) (zq_boot, {#''other''#}) = Done (False, (g', w')) \<and> w' = {#''other'', SHM_DEV#})"
proof -
  have "\<exists>g' w'. zq_proc_init b (counting_x False) (zq_boot, {#''other''#}) = Done (False, (g', w'))" for b
    by (cases b) (simp_all add: zq_proc_init_def zq_init_ipi_def zq_init_poll_def counting_x_def Let_def IPI_DEV_def SHM_DEV_def POLL_DEV_def)
  then obtain g1 w1 g2 w2 where i: "zq_proc_init False (counting_x False) (zq_boot, {#''other''#}) = Done (False, (g1, w1))"
    "zq_proc_init True (counting_x False) (zq_boot, {#''other''#}) = Done (False, (g2, w2))" by metis
  have l: "left_open False (counting_x False) {#''other''#} = {#}" "left_open True (counting_x False) {#''other''#} = {#SHM_DEV#}"
    by (simp_all add: left_open_def counting_x_def SHM_DEV_def POLL_DEV_def IPI_DEV_def)
  from zq_devices_balanced [OF counting_laws i(1)] zq_devices_balanced [OF counting_laws i(2)] i l show ?thesis by auto
qed

section \<open>The hosts on this platform\<close>

text \<open>
  A stand-alone main on the ZynqMP Linux platform: after a successful \<open>platform_init\<close> it returns 0 or -1, with the
  instance removed in both cases; a platform that does not come up makes it read an
  uninitialised pointer.
\<close>

lemma zq_main_ok:
  assumes "\<And>s. zq_live no_ipi (fst s) \<Longrightarrow> \<exists>r g' s'. app (g, s) = Done (r, (g', s')) \<and> zq_live no_ipi (fst s') \<and> Q g'"
  shows "(\<exists>r g' s'. app_main (zq_plat no_ipi lib) role ns app (g, (h, w)) = Done (r, (g', s')) \<and>
      \<not> zq_live no_ipi (fst s') \<and> (r = - 1 \<and> g' = g \<or> r = 0 \<and> Q g')) \<or>
    app_main (zq_plat no_ipi lib) role ns app (g, (h, w)) = Fault Uninit_read"
proof -
  from zq_create_proc_run [of no_ipi lib h "x_metal_init lib w"] obtain ok h' w' where
    c: "zq_create_proc no_ipi lib (h, x_metal_init lib w) = Done (ok, (h', w'))" by blast
  then have i: "platform_init (zq_plat no_ipi lib) (h, w) = Done (if ok then (0, Some ()) else (- EINVAL, None), (h', w'))"
    by (simp add: zq_plat_def zq_platform_init_def zq_init_system_def)
  have a: "\<exists>r g' s'. app (g, s) = Done (r, (g', s')) \<and> (case s' of (g, w) \<Rightarrow> zq_live no_ipi g) \<and> Q g'"
    if "case s of (g, w) \<Rightarrow> zq_live no_ipi g" for s
    using assms [of s] that by (auto split: prod.splits)
  show ?thesis
  proof (cases ok)
    case True
    with i have "platform_init (zq_plat no_ipi lib) (h, w) = Done ((0, Some ()), (h', w'))" by simp
    from zp.app_main_ok [OF TrueI this, of app g Q role ns, OF a] show ?thesis by (auto simp: split_beta)
  next
    case False
    with i show ?thesis by (auto intro!: app_main_init_failed)
  qed
qed

end
