(* ===== verification/Platform_Microblaze.thy ===== *)
theory Platform_Microblaze
  imports Platform_R5
begin

text \<open>
  The platform layer for a MicroBlaze remote, \<open>machine/xlnx/microblaze_generic\<close>: no
  interrupts, a byte of shared memory as the kick in both directions, and mappings whose bookkeeping is
  shared with the remoteproc library.  It uses the record of library calls of \<open>Platform_R5\<close>; the
  list of mapped memories of the instance is part of the state, because the code frees elements of it.
\<close>

section \<open>Definitions\<close>

definition MB_RING_TX :: u32 where "MB_RING_TX = 0x3ED40000"
definition MB_RING_RX :: u32 where "MB_RING_RX = 0x3ED44000"

definition mb_resources :: bytes where
  "mb_resources = concat (map le32 ([1, 1, 0, 0] @ [48] @ replicate 7 0)) @
     concat (map le32 [3, 7, 31, 1, 0, 0]) @ [0, 2, 0, 0] @
     concat (map le32 [MB_RING_TX, 0x1000, 256, 1, 0]) @ concat (map le32 [MB_RING_RX, 0x1000, 256, 2, 0])"

definition mb_get_resource_table :: "int \<Rightarrow> bytes \<times> nat" where
  "mb_get_resource_table rsc_id = (mb_resources, length mb_resources)"

text \<open>
  The memories of the instance: the address of each mapping and whether its descriptor is still allocated.
  \<open>poll_byte\<close> is the byte at \<open>POLL_SHM_LOCATION\<close>.
\<close>

record mb_state =
  mb_mems :: "(u64 \<times> bool) list"
  poll_byte :: byte

definition mb_boot :: mb_state where
  "mb_boot = \<lparr>mb_mems = [], poll_byte = 0\<rparr>"

type_synonym ('w, 'a) mbprog = "(mb_state \<times> 'w, 'a) prog"

definition mb_proc_remove :: "('w, unit) mbprog" where
  "mb_proc_remove = ret ()"

text \<open>\<open>want_io\<close>: whether the caller asks for the region of the mapping.\<close>

definition mb_proc_mmap :: "'w xlib \<Rightarrow> u64 \<Rightarrow> u64 \<Rightarrow> nat \<Rightarrow> bool \<Rightarrow> ('w, nat option) mbprog" where
  "mb_proc_mmap lib pa da sz want_io =
     (if pa = BAD_PHYS \<and> da = BAD_PHYS then ret None
      else let lpa = (if pa = BAD_PHYS then da else pa) in
        bnd (ext (x_allocate_memory lib)) (\<lambda>mem. case mem of None \<Rightarrow> ret None | Some m \<Rightarrow>
        bnd (ext (x_allocate_memory lib)) (\<lambda>io. case io of
            None \<Rightarrow> seq (extU (x_free_memory lib m)) (ret None)
          | Some i \<Rightarrow>
             seq (extU (rp_add_mem lib lpa sz))
            (if want_io then seq (updg (\<lambda>g. g\<lparr>mb_mems := mb_mems g @ [(lpa, True)]\<rparr>)) (asks (x_phys_to_virt lib lpa))
             else seq (updg (\<lambda>g. g\<lparr>mb_mems := mb_mems g @ [(lpa, False)]\<rparr>))
                 (seq (extU (x_free_memory lib i)) (seq (extU (x_free_memory lib m)) (ret None)))))))"

definition mb_proc_notify :: "('w, int) mbprog" where
  "mb_proc_notify = seq (updg (\<lambda>g. g\<lparr>poll_byte := 1\<rparr>)) (ret 0)"

text \<open>
  The library calls that call back into the file, or walk the list of the memories: \<open>remoteproc_get_io_with_pa\<close>
  looks at the descriptors of all of them.
\<close>

definition mb_remoteproc_mmap :: "'w xlib \<Rightarrow> u64 \<Rightarrow> nat \<Rightarrow> bool \<Rightarrow> ('w, unit) mbprog" where
  "mb_remoteproc_mmap lib pa sz want_io =
     bnd (asks (rp_mmap_calls lib)) (\<lambda>c. if c then seq (mb_proc_mmap lib pa BAD_PHYS sz want_io) (ret ()) else ret ())"

definition mb_get_io_with_pa :: "'w xlib \<Rightarrow> u64 \<Rightarrow> ('w, bool) mbprog" where
  "mb_get_io_with_pa lib pa =
     bnd (getg mb_mems) (\<lambda>ms. if list_all snd ms then asks (rp_get_io_with_pa lib pa) else fail Use_after_free)"

definition mb_create_proc :: "'w xlib \<Rightarrow> u64 \<Rightarrow> ('w, bool) mbprog" where
  "mb_create_proc lib table_pa =
     (case mb_get_resource_table 0 of (_, rsc_size) \<Rightarrow>
      bnd (ext (rp_init_ok lib)) (\<lambda>ok. if \<not> ok then ret False else
      seq (mb_remoteproc_mmap lib table_pa rsc_size True)
     (seq (mb_remoteproc_mmap lib SHARED_MEM_PA SHARED_MEM_SIZE False)
     (bnd (ext (rp_set_rsc_table lib (Some (unat table_pa)) rsc_size)) (\<lambda>r.
      if r \<noteq> 0 then seq mb_proc_remove (seq (extU (rp_removed lib)) (ret False)) else ret True)))))"

definition mb_platform_init :: "('w \<Rightarrow> 'w) \<Rightarrow> 'w xlib \<Rightarrow> u64 \<Rightarrow> ('w, int \<times> unit option) mbprog" where
  "mb_platform_init init_system lib table_pa =
     seq (extU init_system)
    (bnd (mb_create_proc lib table_pa) (\<lambda>ok. if \<not> ok then ret (- EINVAL, None) else ret (0, Some ())))"

definition mb_create_rpmsg_vdev :: "'w xlib \<Rightarrow> nat \<Rightarrow> vdev_role \<Rightarrow> bool \<Rightarrow> ('w, xdev option) mbprog" where
  "mb_create_rpmsg_vdev lib vdev_index role ns =
     bnd (ext (x_allocate_memory lib)) (\<lambda>mem. case mem of None \<Rightarrow> ret None | Some m \<Rightarrow>
     bnd (mb_get_io_with_pa lib SHARED_MEM_PA) (\<lambda>io.
     let err1 = seq (extU (x_free_memory lib m)) (ret None) in
     if \<not> io then err1 else
     bnd (asks (x_phys_to_virt lib (SHARED_MEM_PA + SHARED_BUF_OFFSET))) (\<lambda>shbuf.
     bnd (ext (rp_create_virtio lib vdev_index role mb_resources)) (\<lambda>(v, _). case v of None \<Rightarrow> err1 | Some vd \<Rightarrow>
     seq (extU (vio_init_shm_pool lib shbuf (SHARED_MEM_SIZE - unat SHARED_BUF_OFFSET)))
    (bnd (ext (vio_init_vdev lib m vd ns)) (\<lambda>r.
     if r \<noteq> 0 then seq (extU (rp_remove_virtio lib vd)) err1
     else ret (Some \<lparr>x_rpvdev = m, x_vdev = vd\<rparr>)))))))"

definition mb_poll_pass :: "'w xlib \<Rightarrow> ('w, unit + int) mbprog" where
  "mb_poll_pass lib =
     bnd (getg poll_byte) (\<lambda>b.
     if b \<noteq> 0 then seq (ext (rp_get_notification lib)) (ret (Inr 0)) else ret (Inl ()))"

definition mb_platform_poll :: "nat \<Rightarrow> 'w xlib \<Rightarrow> ('w, int) mbprog" where
  "mb_platform_poll n lib = iter n (\<lambda>_. mb_poll_pass lib) ()"

definition mb_release_rpmsg_vdev :: "'w xlib \<Rightarrow> xdev \<Rightarrow> mb_state \<times> 'w \<Rightarrow> mb_state \<times> 'w" where
  "mb_release_rpmsg_vdev lib d s = (fst s, xlnx_release_vdev lib d (snd s))"

definition mb_platform_cleanup :: "('w \<Rightarrow> 'w) \<Rightarrow> 'w xlib \<Rightarrow> ('w, unit) mbprog" where
  "mb_platform_cleanup cleanup_system lib =
     seq mb_proc_remove (seq (extU (rp_removed lib)) (extU cleanup_system))"

section \<open>Mappings\<close>

text \<open>
  The mapping of the shared memory is made without asking for its region; its descriptor is put on
  the list of the instance and freed.  A platform that has come up this way cannot create a
  device: the first walk of the list reads the freed descriptor.
\<close>

lemma mb_mmap_frees:
  assumes "x_allocate_memory lib w = (Some m, w1)" and "x_allocate_memory lib w1 = (Some i, w2)" and "pa \<noteq> BAD_PHYS"
  shows "mb_proc_mmap lib pa BAD_PHYS sz False (g, w) =
    Done (None, (g\<lparr>mb_mems := mb_mems g @ [(pa, False)]\<rparr>, x_free_memory lib m (x_free_memory lib i (rp_add_mem lib pa sz w2))))"
  using assms by (simp add: mb_proc_mmap_def Let_def)

lemma mb_mmap_run:
  assumes "\<And>w. fst (x_allocate_memory lib w) \<noteq> None" and "pa \<noteq> BAD_PHYS" and "\<And>w. rp_mmap_calls lib w"
  shows "\<exists>w'. mb_remoteproc_mmap lib pa sz want (g, w) = Done ((), (g\<lparr>mb_mems := mb_mems g @ [(pa, want)]\<rparr>, w'))"
proof -
  from assms(1) [of w] obtain m where "fst (x_allocate_memory lib w) = Some m" by auto
  moreover from assms(1) [of "snd (x_allocate_memory lib w)"] obtain i where
    "fst (x_allocate_memory lib (snd (x_allocate_memory lib w))) = Some i" by auto
  ultimately show ?thesis using assms(2,3) by (cases want) (auto simp: mb_remoteproc_mmap_def mb_proc_mmap_def Let_def)
qed

lemma mb_platform_unusable:
  assumes mem: "\<And>w. fst (x_allocate_memory lib w) \<noteq> None" and calls: "\<And>w. rp_mmap_calls lib w"
    and ok: "\<And>w. fst (rp_init_ok lib w)" "\<And>a n w. fst (rp_set_rsc_table lib a n w) = 0" and pa: "table_pa \<noteq> BAD_PHYS"
  shows "\<exists>g w'. mb_platform_init sys lib table_pa (mb_boot, w) = Done ((0, Some ()), (g, w')) \<and>
    (\<forall>v. mb_create_rpmsg_vdev lib i role ns (g, v) = Fault Use_after_free)"
proof -
  have b: "SHARED_MEM_PA \<noteq> BAD_PHYS" by (simp add: SHARED_MEM_PA_def BAD_PHYS_def)
  let ?w1 = "snd (rp_init_ok lib (sys w))"
  from mb_mmap_run [OF mem pa calls, of "length mb_resources" True mb_boot ?w1] obtain w2 where
    2: "mb_remoteproc_mmap lib table_pa (length mb_resources) True (mb_boot, ?w1) = Done ((), (\<lparr>mb_mems = [(table_pa, True)], poll_byte = 0\<rparr>, w2))"
    by (auto simp: mb_boot_def)
  from mb_mmap_run [OF mem b calls, of SHARED_MEM_SIZE False "\<lparr>mb_mems = [(table_pa, True)], poll_byte = 0\<rparr>" w2] obtain w3 where
    3: "mb_remoteproc_mmap lib SHARED_MEM_PA SHARED_MEM_SIZE False (\<lparr>mb_mems = [(table_pa, True)], poll_byte = 0\<rparr>, w2)
      = Done ((), (\<lparr>mb_mems = [(table_pa, True), (SHARED_MEM_PA, False)], poll_byte = 0\<rparr>, w3))" by auto
  have "mb_create_rpmsg_vdev lib i role ns (\<lparr>mb_mems = [(table_pa, True), (SHARED_MEM_PA, False)], poll_byte = 0\<rparr>, v) = Fault Use_after_free" for v
    using mem [of v] by (auto simp: mb_create_rpmsg_vdev_def mb_get_io_with_pa_def)
  with 2 3 ok show ?thesis by (simp add: mb_platform_init_def mb_create_proc_def mb_get_resource_table_def)
qed

section \<open>The kick byte\<close>

text \<open>
  The byte that \<open>platform_poll\<close> waits on is the one \<open>notify\<close> sets, and nothing clears it: a side that has
  notified its peer once gets every later poll back at once, notified or not.
\<close>

lemma mb_poll_after_notify:
  assumes "0 < n"
  shows "\<exists>g' w'. seq mb_proc_notify (mb_platform_poll n lib) (g, w) = Done (0, (g', w')) \<and> poll_byte g' = 1"
  using assms by (cases n) (auto simp: mb_proc_notify_def mb_platform_poll_def mb_poll_pass_def)

lemma mb_poll_waits: "poll_byte g = 0 \<Longrightarrow> mb_platform_poll n lib (g, w) = Blocked"
  by (induction n) (auto simp: mb_platform_poll_def mb_poll_pass_def)

text \<open>The rings of the table lie below the buffers of the shared memory.\<close>

lemma mb_rings_below_buffers:
  "unat MB_RING_TX < unat MB_RING_RX \<and> unat MB_RING_RX + 0x4000 \<le> unat (SHARED_MEM_PA + SHARED_BUF_OFFSET) \<and> length mb_resources = 116"
  by (simp add: MB_RING_TX_def MB_RING_RX_def SHARED_MEM_PA_def SHARED_BUF_OFFSET_def mb_resources_def length_concat sum_list_replicate)

end
