(* ===== verification/Zephyr_Services.thy ===== *)
theory Zephyr_Services
  imports Amp_Prelude
begin

text \<open>
  The Zephyr remote that serves three Linux drivers at a time,
  \<open>zephyr/rpmsg_multi_services/src/main_remote.c\<close>: a management thread that receives the
  notifications and runs the callbacks, and three service threads (client sample, tty, raw) that
  wait on semaphores of limit one.  All threads have cooperative priorities, so a thread runs from
  the return of a \<open>k_sem_take\<close> to its next wait without being preempted.  Every thread is
  therefore a function from the place where it waits to the next one, and the system is the step
  relation \<open>ms_step\<close> over the four threads and the mailbox interrupt.  The Zephyr kernel, the IPM driver, libmetal and
  OpenAMP are functions on the outside world.
\<close>

section \<open>Data\<close>

text \<open>The endpoint objects, and what a buffer of the library is: a handle and its contents.\<close>

datatype ept_id = Cs | Tty nat | Raw nat

text \<open>The private pointer of an endpoint is an index into the message records of its service.\<close>

record ept =
  ename :: string
  addr :: u32
  rdev :: bool
  epriv :: "nat option"

record rpmsg_rcv_msg =
  rdata :: "(nat \<times> bytes) option"
  rlen :: nat
  rsrc :: u32

datatype pc = Not_created | Start | Loop nat | Ended

text \<open>
  The static data of the file: semaphores (their limit is one), message records, endpoints, the
  results of the platform set-up, and for each thread where it waits and its local array.
\<close>

record ms_state =
  data_sem :: bool
  data_cs_sem :: bool
  data_tty_sem :: bool
  data_raw_sem :: bool
  rx_cs_msg :: bytes
  cs_len :: nat
  cs_ept :: ept
  tty_ept :: "ept list"
  tty_msg :: "rpmsg_rcv_msg list"
  raw_ept :: "ept list"
  raw_msg :: "rpmsg_rcv_msg list"
  shm_io :: bool
  rsc_io :: bool
  rpdev :: bool
  mng_pc :: pc
  cs_pc :: pc
  tty_pc :: pc
  raw_pc :: pc
  tx_buff :: bytes
  buff :: bytes

text \<open>The callbacks the library runs for one notification.\<close>

datatype zevent =
    Z_rx ept_id nat bytes u32
  | Z_bind string u32
  | Z_unbind ept_id

record 'w zephyr_lib =
  z_ADDR_ANY :: u32
  z_tx_max :: nat
  z_create_ept :: "ept_id \<Rightarrow> ept \<Rightarrow> string \<Rightarrow> u32 \<Rightarrow> u32 \<Rightarrow> 'w \<Rightarrow> (int \<times> ept) \<times> 'w"
  z_destroy_ept :: "ept_id \<Rightarrow> ept \<Rightarrow> 'w \<Rightarrow> ept \<times> 'w"
  z_send :: "ept_id \<Rightarrow> bytes \<Rightarrow> 'w \<Rightarrow> int \<times> 'w"
  z_sendto :: "ept_id \<Rightarrow> bytes \<Rightarrow> u32 \<Rightarrow> 'w \<Rightarrow> int \<times> 'w"
  z_hold_rx_buffer :: "ept_id \<Rightarrow> nat \<Rightarrow> 'w \<Rightarrow> 'w"
  z_release_rx_buffer :: "ept_id \<Rightarrow> nat \<Rightarrow> 'w \<Rightarrow> 'w"
  z_notified :: "'w \<Rightarrow> zevent list \<times> 'w"
  z_metal_init :: "'w \<Rightarrow> int \<times> 'w"
  z_metal_finish :: "'w \<Rightarrow> 'w"
  z_register_device :: "'w \<Rightarrow> int \<times> 'w"
  z_device_open :: "'w \<Rightarrow> int \<times> 'w"
  z_io_init :: "nat \<Rightarrow> 'w \<Rightarrow> 'w"
  z_io_region :: "nat \<Rightarrow> 'w \<Rightarrow> bool"
  z_ipm_ready :: "'w \<Rightarrow> bool"
  z_ipm_register :: "'w \<Rightarrow> 'w"
  z_ipm_set_enabled :: "bool \<Rightarrow> 'w \<Rightarrow> int \<times> 'w"
  z_ipm_send :: "u32 \<Rightarrow> 'w \<Rightarrow> 'w"
  z_create_vdev :: "'w \<Rightarrow> bool \<times> 'w"
  z_wait_remote_ready :: "'w \<Rightarrow> 'w"
  z_init_vring :: "nat \<Rightarrow> 'w \<Rightarrow> int \<times> 'w"
  z_init_shm_pool :: "'w \<Rightarrow> 'w"
  z_init_vdev :: "'w \<Rightarrow> int \<times> 'w"
  z_remove_vdev :: "'w \<Rightarrow> 'w"
  z_deinit_vdev :: "'w \<Rightarrow> 'w"

type_synonym ('w, 'a) zprog = "(ms_state \<times> 'w, 'a) prog"

fun get_ept :: "ept_id \<Rightarrow> ms_state \<Rightarrow> ept" where
  "get_ept Cs g = cs_ept g"
| "get_ept (Tty i) g = tty_ept g ! i"
| "get_ept (Raw i) g = raw_ept g ! i"

fun set_ept :: "ept_id \<Rightarrow> ept \<Rightarrow> ms_state \<Rightarrow> ms_state" where
  "set_ept Cs e g = g\<lparr>cs_ept := e\<rparr>"
| "set_ept (Tty i) e g = g\<lparr>tty_ept := (tty_ept g)[i := e]\<rparr>"
| "set_ept (Raw i) e g = g\<lparr>raw_ept := (raw_ept g)[i := e]\<rparr>"

text \<open>The static data at start; the local arrays hold whatever the stack held.\<close>

definition ept0 :: ept where
  "ept0 = \<lparr>ename = '''', addr = 0, rdev = False, epriv = None\<rparr>"

definition msg0 :: rpmsg_rcv_msg where
  "msg0 = \<lparr>rdata = None, rlen = 0, rsrc = 0\<rparr>"

definition ms_boot :: "bytes \<Rightarrow> bytes \<Rightarrow> ms_state" where
  "ms_boot tx bf = \<lparr>data_sem = False, data_cs_sem = False, data_tty_sem = False, data_raw_sem = False,
     rx_cs_msg = replicate 20 0, cs_len = 0, cs_ept = ept0,
     tty_ept = [ept0, ept0], tty_msg = [msg0, msg0], raw_ept = [ept0, ept0], raw_msg = [msg0, msg0],
     shm_io = False, rsc_io = False, rpdev = False,
     mng_pc = Not_created, cs_pc = Not_created, tty_pc = Not_created, raw_pc = Not_created,
     tx_buff = tx, buff = bf\<rparr>"

section \<open>Callbacks\<close>

definition platform_ipm_callback :: "ms_state \<Rightarrow> ms_state" where
  "platform_ipm_callback g = g\<lparr>data_sem := True\<rparr>"

definition rpmsg_recv_cs_callback :: "bytes \<Rightarrow> ('w, unit) zprog" where
  "rpmsg_recv_cs_callback data =
     bnd (getg rx_cs_msg) (\<lambda>rx.
     bnd (lift (put_bytes 0 data rx)) (\<lambda>rx'.
     updg (\<lambda>g. g\<lparr>rx_cs_msg := rx', cs_len := length data, data_cs_sem := True\<rparr>)))"

definition rpmsg_recv_tty_callback ::
    "'w zephyr_lib \<Rightarrow> ept_id \<Rightarrow> nat \<Rightarrow> bytes \<Rightarrow> nat option \<Rightarrow> ('w, unit) zprog" where
  "rpmsg_recv_tty_callback lib ep h data priv = (case priv of
       None \<Rightarrow> fail Null_deref
     | Some i \<Rightarrow> seq (extU (z_hold_rx_buffer lib ep h))
         (updg (\<lambda>g. g\<lparr>tty_msg := (tty_msg g)[i := (tty_msg g ! i)\<lparr>rdata := Some (h, data), rlen := length data\<rparr>],
                      data_tty_sem := True\<rparr>)))"

definition rpmsg_recv_raw_callback ::
    "'w zephyr_lib \<Rightarrow> ept_id \<Rightarrow> nat \<Rightarrow> bytes \<Rightarrow> u32 \<Rightarrow> nat option \<Rightarrow> ('w, unit) zprog" where
  "rpmsg_recv_raw_callback lib ep h data src priv = (case priv of
       None \<Rightarrow> fail Null_deref
     | Some i \<Rightarrow> seq (extU (z_hold_rx_buffer lib ep h))
         (updg (\<lambda>g. g\<lparr>raw_msg := (raw_msg g)[i := \<lparr>rdata = Some (h, data), rlen = length data, rsrc = src\<rparr>],
                      data_raw_sem := True\<rparr>)))"

text \<open>\<open>rpmsg_create_ept\<close> fills in the endpoint it is given.\<close>

definition create_ept ::
    "'w zephyr_lib \<Rightarrow> ept_id \<Rightarrow> string \<Rightarrow> u32 \<Rightarrow> u32 \<Rightarrow> ('w, int) zprog" where
  "create_ept lib ep name src dst =
     bnd (getg (get_ept ep)) (\<lambda>e.
     bnd (ext (z_create_ept lib ep e name src dst)) (\<lambda>(r, e').
     seq (updg (set_ept ep e')) (ret r)))"

definition destroy_ept :: "'w zephyr_lib \<Rightarrow> ept_id \<Rightarrow> ('w, unit) zprog" where
  "destroy_ept lib ep =
     bnd (getg (get_ept ep)) (\<lambda>e.
     bnd (ext (z_destroy_ept lib ep e)) (\<lambda>e'. updg (set_ept ep e')))"

text \<open>
  Sending the first \<open>n\<close> bytes of an array: the library refuses a message longer than the payload
  of a buffer without reading it.
\<close>

definition send_array ::
    "'w zephyr_lib \<Rightarrow> (bytes \<Rightarrow> 'w \<Rightarrow> int \<times> 'w) \<Rightarrow> bytes \<Rightarrow> nat \<Rightarrow> ('w, unit) zprog" where
  "send_array lib snd_fn arr n =
     (if z_tx_max lib < n then ret ()
      else bnd (lift (sub_bytes 0 n arr)) (\<lambda>m. seq (ext (snd_fn m)) (ret ())))"

definition rpmsg_service_unbind :: "'w zephyr_lib \<Rightarrow> ept_id \<Rightarrow> ('w, unit) zprog" where
  "rpmsg_service_unbind lib ep =
     seq (updg (\<lambda>g. set_ept ep ((get_ept ep g)\<lparr>ename := ''''\<rparr>) g)) (destroy_ept lib ep)"

definition char_bytes :: "string \<Rightarrow> bytes" where
  "char_bytes s = map (\<lambda>c. of_nat (of_char c)) s"

definition new_service_cb :: "'w zephyr_lib \<Rightarrow> string \<Rightarrow> u32 \<Rightarrow> ('w, unit) zprog" where
  "new_service_cb lib name src =
     bnd (getg (\<lambda>g. name = ''rpmsg-tty'' \<and> \<not> rdev (tty_ept g ! 1))) (\<lambda>want.
     if \<not> want then ret ()
     else seq (updg (\<lambda>g. g\<lparr>tty_ept := (tty_ept g)[1 := (tty_ept g ! 1)\<lparr>epriv := Some 1\<rparr>]\<rparr>))
         (bnd (create_ept lib (Tty 1) ''rpmsg-tty'' (z_ADDR_ANY lib) src) (\<lambda>r.
          if r \<noteq> 0 then ret ()
          else seq (ext (z_send lib (Tty 1) (char_bytes ''bound'' @ [0]))) (ret ()))))"

text \<open>
  What the library does with the events of a notification: a message goes to the callback of its
  endpoint, with the private pointer of the endpoint, and is dropped when the endpoint is not
  registered; only the second tty endpoint has an unbind callback.
\<close>

fun run_zevent :: "'w zephyr_lib \<Rightarrow> zevent \<Rightarrow> ('w, unit) zprog" where
  "run_zevent lib (Z_rx ep h data src) =
     bnd (getg (get_ept ep)) (\<lambda>e.
     if \<not> rdev e then ret ()
     else case ep of
         Cs \<Rightarrow> rpmsg_recv_cs_callback data
       | Tty i \<Rightarrow> rpmsg_recv_tty_callback lib ep h data (epriv e)
       | Raw i \<Rightarrow> rpmsg_recv_raw_callback lib ep h data src (epriv e))"
| "run_zevent lib (Z_bind name src) = new_service_cb lib name src"
| "run_zevent lib (Z_unbind ep) =
     bnd (getg (get_ept ep)) (\<lambda>e.
     if ep = Tty 1 \<and> rdev e then rpmsg_service_unbind lib ep else ret ())"

fun run_zevents :: "'w zephyr_lib \<Rightarrow> zevent list \<Rightarrow> ('w, unit) zprog" where
  "run_zevents lib [] = ret ()"
| "run_zevents lib (e # es) = seq (run_zevent lib e) (run_zevents lib es)"

definition receive_message :: "'w zephyr_lib \<Rightarrow> ('w, unit) zprog" where
  "receive_message lib = bnd (ext (z_notified lib)) (run_zevents lib)"

definition mailbox_notify :: "'w zephyr_lib \<Rightarrow> u32 \<Rightarrow> ('w, int) zprog" where
  "mailbox_notify lib ep = seq (extU (z_ipm_send lib ep)) (ret 0)"

section \<open>Platform\<close>

definition ms_platform_init :: "'w zephyr_lib \<Rightarrow> ('w, int) zprog" where
  "ms_platform_init lib =
     bnd (ext (z_metal_init lib)) (\<lambda>status. if status \<noteq> 0 then ret (- 1) else
     bnd (ext (z_register_device lib)) (\<lambda>status. if status \<noteq> 0 then ret (- 1) else
     bnd (ext (z_device_open lib)) (\<lambda>status. if status \<noteq> 0 then ret (- 1) else
     seq (extU (z_io_init lib 0))
    (bnd (asks (z_io_region lib 0)) (\<lambda>io.
     seq (updg (\<lambda>g. g\<lparr>shm_io := io\<rparr>)) (if \<not> io then ret (- 1) else
     seq (extU (z_io_init lib 1))
    (bnd (asks (z_io_region lib 1)) (\<lambda>io.
     seq (updg (\<lambda>g. g\<lparr>rsc_io := io\<rparr>)) (if \<not> io then ret (- 1) else
     bnd (asks (z_ipm_ready lib)) (\<lambda>ready. if \<not> ready then ret (- 1) else
     seq (extU (z_ipm_register lib))
    (bnd (ext (z_ipm_set_enabled lib True)) (\<lambda>status.
     if status \<noteq> 0 then ret (- 1) else ret 0))))))))))))"

definition ms_cleanup_system :: "'w zephyr_lib \<Rightarrow> ('w, unit) zprog" where
  "ms_cleanup_system lib =
     seq (ext (z_ipm_set_enabled lib False)) (seq (extU (z_deinit_vdev lib)) (extU (z_metal_finish lib)))"

text \<open>The result says whether a device or NULL is returned.\<close>

definition ms_create_rpmsg_vdev :: "'w zephyr_lib \<Rightarrow> ('w, bool) zprog" where
  "ms_create_rpmsg_vdev lib =
     (let failed = seq (extU (z_remove_vdev lib)) (ret False) in
      bnd (ext (z_create_vdev lib)) (\<lambda>vdev. if \<not> vdev then ret False else
      seq (extU (z_wait_remote_ready lib))
     (bnd (ext (z_init_vring lib 0)) (\<lambda>r. if r \<noteq> 0 then failed else
      bnd (ext (z_init_vring lib 1)) (\<lambda>r. if r \<noteq> 0 then failed else
      seq (extU (z_init_shm_pool lib))
     (bnd (ext (z_init_vdev lib)) (\<lambda>r. if r \<noteq> 0 then failed else ret True)))))))"

section \<open>Threads\<close>

text \<open>
  Each thread, resumed where it waits: \<open>Start\<close> is its first wait, \<open>Loop\<close> the wait of its loop
  (with the message counter of the client sample), and the result is the next wait.
\<close>

definition app_rpmsg_client_sample :: "'w zephyr_lib \<Rightarrow> pc \<Rightarrow> ('w, pc) zprog" where
  "app_rpmsg_client_sample lib pc = (case pc of
       Start \<Rightarrow> seq (create_ept lib Cs ''rpmsg-client-sample'' (z_ADDR_ANY lib) (z_ADDR_ANY lib)) (ret (Loop 0))
     | Loop msg_cnt \<Rightarrow>
         bnd (getg rx_cs_msg) (\<lambda>rx. bnd (getg cs_len) (\<lambda>n.
         seq (send_array lib (z_send lib Cs) rx n)
        (if msg_cnt + 1 < 100 then ret (Loop (msg_cnt + 1))
         else seq (destroy_ept lib Cs) (ret Ended))))
     | _ \<Rightarrow> ret pc)"

text \<open>\<open>snprintf(buf, size, ...)\<close>: at most \<open>size - 1\<close> characters and a zero byte.\<close>

definition snprintf :: "nat \<Rightarrow> string \<Rightarrow> bytes" where
  "snprintf n s = char_bytes (take (n - 1) s) @ [0]"

text \<open>The body of the for loop of the tty thread; \<open>tty_header\<close> is the formatted prefix.\<close>

definition tty_header :: "nat \<Rightarrow> string" where
  "tty_header i = ''TTY '' @ (if i = 0 then ''0'' else ''1'') @ '': ''"

definition tty_answer :: "'w zephyr_lib \<Rightarrow> nat \<Rightarrow> ('w, unit) zprog" where
  "tty_answer lib i =
     bnd (getg (\<lambda>g. tty_msg g ! i)) (\<lambda>m.
     seq (if rlen m = 0 then ret ()
          else case rdata m of None \<Rightarrow> fail Null_deref | Some (h, d) \<Rightarrow>
            bnd (getg tx_buff) (\<lambda>b.
            bnd (lift (put_bytes 0 (snprintf 8 (tty_header i)) b)) (\<lambda>b.
            bnd (lift (sub_bytes 0 (rlen m) d)) (\<lambda>p.
            bnd (lift (put_bytes 7 p b)) (\<lambda>b.
            seq (updg (\<lambda>g. g\<lparr>tx_buff := b\<rparr>))
           (seq (send_array lib (z_send lib (Tty i)) b (rlen m + 8))
                (extU (z_release_rx_buffer lib (Tty i) h))))))))
         (updg (\<lambda>g. g\<lparr>tty_msg := (tty_msg g)[i := (tty_msg g ! i)\<lparr>rlen := 0, rdata := None\<rparr>]\<rparr>)))"

definition app_rpmsg_tty :: "'w zephyr_lib \<Rightarrow> pc \<Rightarrow> ('w, pc) zprog" where
  "app_rpmsg_tty lib pc =
     (let test = bnd (getg (\<lambda>g. addr (tty_ept g ! 0))) (\<lambda>a.
             if a \<noteq> z_ADDR_ANY lib then ret (Loop 0) else seq (destroy_ept lib (Tty 0)) (ret Ended)) in
      case pc of
        Start \<Rightarrow>
          seq (updg (\<lambda>g. g\<lparr>tty_ept := (tty_ept g)[0 := (tty_ept g ! 0)\<lparr>epriv := Some 0\<rparr>]\<rparr>))
         (seq (create_ept lib (Tty 0) ''rpmsg-tty'' (z_ADDR_ANY lib) (z_ADDR_ANY lib)) test)
      | Loop _ \<Rightarrow> seq (tty_answer lib 0) (seq (tty_answer lib 1) test)
      | _ \<Rightarrow> ret pc)"

text \<open>\<open>%04x\<close>.\<close>

definition hex_digit :: "nat \<Rightarrow> char" where
  "hex_digit d = ''0123456789abcdef'' ! d"

definition hex04 :: "u32 \<Rightarrow> string" where
  "hex04 a =
     (let ds = map (\<lambda>k. hex_digit (unat a div 16 ^ k mod 16)) [7, 6, 5, 4, 3, 2, 1, 0] in
      dropWhile (\<lambda>c. c = CHR ''0'') (take 4 ds) @ drop 4 ds)"

definition raw_answer :: "'w zephyr_lib \<Rightarrow> nat \<Rightarrow> ('w, unit) zprog" where
  "raw_answer lib i =
     bnd (getg (\<lambda>g. raw_msg g ! i)) (\<lambda>m.
     seq (if rlen m = 0 then ret ()
          else case rdata m of None \<Rightarrow> fail Null_deref | Some (h, d) \<Rightarrow>
            bnd (getg (\<lambda>g. addr (raw_ept g ! i))) (\<lambda>a.
            bnd (getg buff) (\<lambda>b.
            bnd (lift (put_bytes 0 (snprintf 18 (''from ept 0x'' @ hex04 a @ '': '')) b)) (\<lambda>b.
            bnd (lift (sub_bytes 0 (rlen m) d)) (\<lambda>p.
            bnd (lift (put_bytes 17 p b)) (\<lambda>b.
            seq (updg (\<lambda>g. g\<lparr>buff := b\<rparr>))
           (seq (send_array lib (\<lambda>x. z_sendto lib (Raw i) x (rsrc m)) b (rlen m + 18))
                (extU (z_release_rx_buffer lib (Raw i) h)))))))))
         (updg (\<lambda>g. g\<lparr>raw_msg := (raw_msg g)[i := (raw_msg g ! i)\<lparr>rlen := 0, rdata := None\<rparr>]\<rparr>)))"

definition app_rpmsg_raw :: "'w zephyr_lib \<Rightarrow> pc \<Rightarrow> ('w, pc) zprog" where
  "app_rpmsg_raw lib pc =
     (let test = bnd (getg (\<lambda>g. addr (raw_ept g ! 0))) (\<lambda>a.
             if a \<noteq> z_ADDR_ANY lib then ret (Loop 0)
             else seq (destroy_ept lib (Raw 0)) (seq (destroy_ept lib (Raw 1)) (ret Ended))) in
      case pc of
        Start \<Rightarrow>
          seq (updg (\<lambda>g. g\<lparr>raw_ept := (raw_ept g)[0 := (raw_ept g ! 0)\<lparr>epriv := Some 0\<rparr>]\<rparr>))
         (seq (create_ept lib (Raw 0) ''rpmsg-raw'' (z_ADDR_ANY lib) (z_ADDR_ANY lib))
         (seq (create_ept lib (Raw 1) ''rpmsg-raw'' 1 1)
         (seq (updg (\<lambda>g. g\<lparr>raw_ept := (raw_ept g)[1 := (raw_ept g ! 1)\<lparr>epriv := Some 1\<rparr>]\<rparr>)) test)))
      | Loop _ \<Rightarrow> seq (raw_answer lib 0) (seq (raw_answer lib 1) test)
      | _ \<Rightarrow> ret pc)"

definition rpmsg_mng_task :: "'w zephyr_lib \<Rightarrow> pc \<Rightarrow> ('w, pc) zprog" where
  "rpmsg_mng_task lib pc =
     (let task_end = seq (ms_cleanup_system lib) (ret Ended) in
      case pc of
        Start \<Rightarrow> bnd (ms_platform_init lib) (\<lambda>r. if r \<noteq> 0 then task_end else
          bnd (ms_create_rpmsg_vdev lib) (\<lambda>d.
          seq (updg (\<lambda>g. g\<lparr>rpdev := d\<rparr>))
         (if \<not> d then task_end
          else seq (updg (\<lambda>g. g\<lparr>data_cs_sem := True, data_tty_sem := True, data_raw_sem := True\<rparr>))
                 (ret (Loop 0)))))
      | Loop _ \<Rightarrow> seq (receive_message lib) (ret (Loop 0))
      | _ \<Rightarrow> ret pc)"

definition ms_main :: "ms_state \<Rightarrow> int \<times> ms_state" where
  "ms_main g = (0, g\<lparr>mng_pc := Start, cs_pc := Start, tty_pc := Start, raw_pc := Start\<rparr>)"

section \<open>The system\<close>

text \<open>
  A configuration: the static data with the outside world, or a thread that has faulted.  A
  thread that waits on a semaphore takes it when it is resumed; the management thread starts
  without waiting.
\<close>

datatype 'w conf = Run ms_state 'w | Crashed

fun after :: "(pc \<Rightarrow> ms_state \<Rightarrow> ms_state) \<Rightarrow> (pc \<times> ms_state \<times> 'w) outcome \<Rightarrow> 'w conf" where
  "after put (Done (p, (g, w))) = Run (put p g) w"
| "after put (Fault f) = Crashed"
| "after put Blocked = Crashed"

definition waits :: "pc \<Rightarrow> bool" where
  "waits p \<longleftrightarrow> p \<noteq> Not_created \<and> p \<noteq> Ended"

inductive ms_step :: "'w zephyr_lib \<Rightarrow> 'w conf \<Rightarrow> 'w conf \<Rightarrow> bool" for lib where
  Ipm: "ms_step lib (Run g w) (Run (platform_ipm_callback g) w)"
| Mng_start: "mng_pc g = Start \<Longrightarrow>
    ms_step lib (Run g w) (after (\<lambda>p g. g\<lparr>mng_pc := p\<rparr>) (rpmsg_mng_task lib Start (g, w)))"
| Mng: "mng_pc g = Loop n \<Longrightarrow> data_sem g \<Longrightarrow>
    ms_step lib (Run g w) (after (\<lambda>p g. g\<lparr>mng_pc := p\<rparr>)
      (rpmsg_mng_task lib (Loop n) (g\<lparr>data_sem := False\<rparr>, w)))"
| Client: "waits (cs_pc g) \<Longrightarrow> data_cs_sem g \<Longrightarrow>
    ms_step lib (Run g w) (after (\<lambda>p g. g\<lparr>cs_pc := p\<rparr>)
      (app_rpmsg_client_sample lib (cs_pc g) (g\<lparr>data_cs_sem := False\<rparr>, w)))"
| Tty_thread: "waits (tty_pc g) \<Longrightarrow> data_tty_sem g \<Longrightarrow>
    ms_step lib (Run g w) (after (\<lambda>p g. g\<lparr>tty_pc := p\<rparr>)
      (app_rpmsg_tty lib (tty_pc g) (g\<lparr>data_tty_sem := False\<rparr>, w)))"
| Raw_thread: "waits (raw_pc g) \<Longrightarrow> data_raw_sem g \<Longrightarrow>
    ms_step lib (Run g w) (after (\<lambda>p g. g\<lparr>raw_pc := p\<rparr>)
      (app_rpmsg_raw lib (raw_pc g) (g\<lparr>data_raw_sem := False\<rparr>, w)))"

inductive_cases ms_step_RunE: "ms_step lib (Run g w) c"
inductive_cases ms_step_CrashedE: "ms_step lib Crashed c"

section \<open>No thread faults\<close>

text \<open>
  What the safety of the threads rests on: the library keeps the private pointer of an endpoint
  it registers, a destroyed endpoint is off its device, a buffer carries at most 512 bytes, and the messages fit: at most 20 bytes for the client
  sample (\<open>rx_cs_msg\<close>), at most 505 for a tty and at most 495 for a raw endpoint.
\<close>

fun zevent_ok :: "zevent \<Rightarrow> bool" where
  "zevent_ok (Z_rx Cs h d src) \<longleftrightarrow> length d \<le> 20"
| "zevent_ok (Z_rx (Tty i) h d src) \<longleftrightarrow> i < 2 \<and> length d \<le> 505"
| "zevent_ok (Z_rx (Raw i) h d src) \<longleftrightarrow> i < 2 \<and> length d \<le> 495"
| "zevent_ok (Z_bind name src) \<longleftrightarrow> True"
| "zevent_ok (Z_unbind ep) \<longleftrightarrow> True"

definition zephyr_laws :: "'w zephyr_lib \<Rightarrow> bool" where
  "zephyr_laws lib \<longleftrightarrow> z_tx_max lib \<le> 512 \<and>
     (\<forall>ep e name src dst w. epriv (snd (fst (z_create_ept lib ep e name src dst w))) = epriv e) \<and>
     (\<forall>ep e w. \<not> rdev (fst (z_destroy_ept lib ep e w))) \<and>
     (\<forall>w. list_all zevent_ok (fst (z_notified lib w)))"

text \<open>
  The invariant: array sizes, message records that are empty or hold a buffer that fits, and
  endpoints that carry their private pointer from the moment they are registered.
\<close>

definition msg_ok :: "nat \<Rightarrow> rpmsg_rcv_msg \<Rightarrow> bool" where
  "msg_ok n m \<longleftrightarrow> rlen m = 0 \<or> (\<exists>h d. rdata m = Some (h, d) \<and> length d = rlen m \<and> rlen m \<le> n)"

definition epts_ok :: "ept list \<Rightarrow> bool" where
  "epts_ok es \<longleftrightarrow> length es = 2 \<and> (\<forall>i < 2. rdev (es ! i) \<longrightarrow> epriv (es ! i) = Some i)"

definition ms_inv :: "ms_state \<Rightarrow> bool" where
  "ms_inv g \<longleftrightarrow> length (rx_cs_msg g) = 20 \<and> cs_len g \<le> 20 \<and>
     length (tx_buff g) = 512 \<and> length (buff g) = 512 \<and>
     epts_ok (tty_ept g) \<and> epts_ok (raw_ept g) \<and>
     length (tty_msg g) = 2 \<and> length (raw_msg g) = 2 \<and>
     list_all (msg_ok 505) (tty_msg g) \<and> list_all (msg_ok 495) (raw_msg g)"

text \<open>A program that returns and keeps the invariant.\<close>

definition safe :: "('w, 'a) zprog \<Rightarrow> bool" where
  "safe m \<longleftrightarrow> (\<forall>g w. ms_inv g \<longrightarrow> (\<exists>a g' w'. m (g, w) = Done (a, (g', w')) \<and> ms_inv g'))"

named_theorems zsafe "programs of the Zephyr remote that return and keep the invariant"

lemma safeI: "(\<And>g w. ms_inv g \<Longrightarrow> \<exists>a g' w'. m (g, w) = Done (a, (g', w')) \<and> ms_inv g') \<Longrightarrow> safe m"
  by (auto simp: safe_def)

lemma safe_ret [zsafe]: "safe (ret a)"
  by (simp add: safe_def)

lemma safeD: "safe m \<Longrightarrow> ms_inv g \<Longrightarrow> \<exists>a g' w'. m (g, w) = Done (a, (g', w')) \<and> ms_inv g'"
  by (auto simp: safe_def)

lemma safe_bnd [zsafe]:
  assumes "safe m" and "\<And>a. safe (f a)"
  shows "safe (bnd m f)"
proof (rule safeI)
  fix g w assume "ms_inv g"
  from safeD [OF assms(1) this] obtain a g' w' where m: "m (g, w) = Done (a, (g', w'))" "ms_inv g'" by blast
  from safeD [OF assms(2) m(2)] m(1) show "\<exists>a g' w'. bnd m f (g, w) = Done (a, (g', w')) \<and> ms_inv g'" by simp
qed

lemma safe_seq [zsafe]: "safe m \<Longrightarrow> safe k \<Longrightarrow> safe (seq m k)"
  unfolding seq_def by (rule safe_bnd)

lemma safe_if [zsafe]: "(b \<Longrightarrow> safe m) \<Longrightarrow> (\<not> b \<Longrightarrow> safe k) \<Longrightarrow> safe (if b then m else k)"
  by simp

lemma safe_getg [zsafe]: "safe (getg f)"
  by (simp add: safe_def)

lemma safe_ext [zsafe]: "safe (ext f)"
  by (simp add: safe_def)

lemma safe_extU [zsafe]: "safe (extU f)"
  by (simp add: safe_def)

lemma safe_asks [zsafe]: "safe (asks f)"
  by (simp add: safe_def)

lemma safe_updg [zsafe]: "(\<And>g. ms_inv g \<Longrightarrow> ms_inv (f g)) \<Longrightarrow> safe (updg f)"
  by (simp add: safe_def)

text \<open>Static data outside the arrays, the records and the endpoints does not matter.\<close>

lemma ms_inv_frame [simp]:
  "ms_inv (g\<lparr>data_sem := b\<rparr>) = ms_inv g" "ms_inv (g\<lparr>data_cs_sem := b\<rparr>) = ms_inv g"
  "ms_inv (g\<lparr>data_tty_sem := b\<rparr>) = ms_inv g" "ms_inv (g\<lparr>data_raw_sem := b\<rparr>) = ms_inv g"
  "ms_inv (g\<lparr>shm_io := b\<rparr>) = ms_inv g" "ms_inv (g\<lparr>rsc_io := b\<rparr>) = ms_inv g"
  "ms_inv (g\<lparr>rpdev := b\<rparr>) = ms_inv g" "ms_inv (g\<lparr>mng_pc := p\<rparr>) = ms_inv g"
  "ms_inv (g\<lparr>cs_pc := p\<rparr>) = ms_inv g" "ms_inv (g\<lparr>tty_pc := p\<rparr>) = ms_inv g"
  "ms_inv (g\<lparr>raw_pc := p\<rparr>) = ms_inv g" "ms_inv (g\<lparr>cs_ept := e\<rparr>) = ms_inv g"
  by (simp_all add: ms_inv_def)

lemma epts_ok_update:
  "epts_ok es \<Longrightarrow> (i < 2 \<Longrightarrow> rdev e \<Longrightarrow> epriv e = Some i) \<Longrightarrow> epts_ok (es[i := e])"
  by (cases "i < 2") (auto simp: epts_ok_def nth_list_update)

text \<open>The private pointer an endpoint has to carry.\<close>

abbreviation own_slot :: "ept_id \<Rightarrow> ept \<Rightarrow> bool" where
  "own_slot ep e \<equiv> (case ep of Cs \<Rightarrow> True | Tty i \<Rightarrow> epriv e = Some i | Raw i \<Rightarrow> epriv e = Some i)"

lemma ms_inv_set_ept:
  assumes "ms_inv g" and "rdev e \<Longrightarrow> own_slot ep e"
  shows "ms_inv (set_ept ep e g)"
proof (cases ep)
  case (Tty i)
  with assms have "epts_ok ((tty_ept g)[i := e])" by (simp add: ms_inv_def epts_ok_update)
  with assms Tty show ?thesis by (simp add: ms_inv_def)
next
  case (Raw i)
  with assms have "epts_ok ((raw_ept g)[i := e])" by (simp add: ms_inv_def epts_ok_update)
  with assms Raw show ?thesis by (simp add: ms_inv_def)
qed (use assms in simp)

lemma msgs_ok_update:
  "list_all (msg_ok n) ms \<Longrightarrow> msg_ok n m \<Longrightarrow> list_all (msg_ok n) (ms[i := m])"
  by (auto simp: list_all_iff dest: set_update_subset_insert [THEN subsetD])

lemma msg_ok_empty: "msg_ok n (m\<lparr>rlen := 0, rdata := None\<rparr>)"
  by (simp add: msg_ok_def)

lemma msg_ok_nth: "list_all (msg_ok n) ms \<Longrightarrow> i < length ms \<Longrightarrow> msg_ok n (ms ! i)"
  by (simp add: list_all_length)

lemma put_bytes_fits: "off + length bs \<le> length m \<Longrightarrow> \<exists>m'. put_bytes off bs m = Done m' \<and> length m' = length m"
  by (auto simp: put_bytes_def)

lemma sub_bytes_fits: "off + n \<le> length m \<Longrightarrow> \<exists>bs. sub_bytes off n m = Done bs \<and> length bs = n"
  by (auto simp: sub_bytes_def)

text \<open>Endpoints: created, destroyed, bound and unbound.\<close>

lemma create_ept_run:
  assumes "zephyr_laws lib" and "ms_inv g" and "own_slot ep (get_ept ep g)"
  shows "\<exists>r g' w'. create_ept lib ep name src dst (g, w) = Done (r, (g', w')) \<and> ms_inv g'"
proof -
  obtain r e w' where c: "z_create_ept lib ep (get_ept ep g) name src dst w = ((r, e), w')"
    by (metis surj_pair)
  with assms(1) have "epriv e = epriv (get_ept ep g)" unfolding zephyr_laws_def by (metis fst_conv snd_conv)
  with assms(3) have "own_slot ep e" by (cases ep) auto
  then have "ms_inv (set_ept ep e g)" by (intro ms_inv_set_ept [OF assms(2)])
  with c show ?thesis by (simp add: create_ept_def)
qed

lemma safe_create_ept_after:
  assumes "zephyr_laws lib" and "\<And>g. ms_inv g \<Longrightarrow> ms_inv (f g) \<and> own_slot ep (get_ept ep (f g))"
    and "\<And>r. safe (k r)"
  shows "safe (seq (updg f) (bnd (create_ept lib ep name src dst) k))"
proof (rule safeI)
  fix g w assume "ms_inv g"
  with assms(2) have "ms_inv (f g)" "own_slot ep (get_ept ep (f g))" by auto
  from create_ept_run [OF assms(1) this] obtain r g' w' where
    c: "create_ept lib ep name src dst (f g, w) = Done (r, (g', w'))" "ms_inv g'" by blast
  from safeD [OF assms(3) c(2)] c(1)
  show "\<exists>a g' w'. seq (updg f) (bnd (create_ept lib ep name src dst) k) (g, w) = Done (a, (g', w')) \<and> ms_inv g'"
    by simp
qed

lemma safe_destroy_ept [zsafe]:
  assumes "zephyr_laws lib"
  shows "safe (destroy_ept lib ep)"
proof (rule safeI)
  fix g w assume i: "ms_inv g"
  obtain e w' where c: "z_destroy_ept lib ep (get_ept ep g) w = (e, w')" by fastforce
  with assms have "\<not> rdev e" unfolding zephyr_laws_def by (metis fst_conv)
  then have "ms_inv (set_ept ep e g)" by (intro ms_inv_set_ept [OF i]) simp
  with c show "\<exists>a g' w'. destroy_ept lib ep (g, w) = Done (a, (g', w')) \<and> ms_inv g'" by (simp add: destroy_ept_def)
qed

text \<open>The programs of the threads, from the bottom up.\<close>

lemma send_array_run:
  "z_tx_max lib \<le> length arr \<or> n \<le> length arr \<Longrightarrow> \<exists>w'. send_array lib f arr n (g, w) = Done ((), (g, w'))"
  by (auto simp: send_array_def sub_bytes_def)

lemma set_priv_own:
  "ms_inv g \<Longrightarrow> i < 2 \<Longrightarrow> ms_inv (g\<lparr>tty_ept := (tty_ept g)[i := (tty_ept g ! i)\<lparr>epriv := Some i\<rparr>]\<rparr>)"
  "ms_inv g \<Longrightarrow> i < 2 \<Longrightarrow> ms_inv (g\<lparr>raw_ept := (raw_ept g)[i := (raw_ept g ! i)\<lparr>epriv := Some i\<rparr>]\<rparr>)"
  by (auto simp: ms_inv_def intro!: epts_ok_update)

lemma own_slot_set:
  "ms_inv g \<Longrightarrow> i < 2 \<Longrightarrow> epriv ((tty_ept g)[i := (tty_ept g ! i)\<lparr>epriv := Some j\<rparr>] ! i) = Some j"
  "ms_inv g \<Longrightarrow> i < 2 \<Longrightarrow> epriv ((raw_ept g)[i := (raw_ept g ! i)\<lparr>epriv := Some j\<rparr>] ! i) = Some j"
  by (auto simp: ms_inv_def epts_ok_def)

lemma safe_new_service_cb [zsafe]:
  assumes "zephyr_laws lib"
  shows "safe (new_service_cb lib name src)"
  unfolding new_service_cb_def
  by (rule safe_bnd [OF safe_getg], rule safe_if, rule safe_ret,
      rule safe_create_ept_after [OF assms], simp add: set_priv_own own_slot_set, intro zsafe)

lemma safe_service_unbind [zsafe]:
  assumes "zephyr_laws lib"
  shows "safe (rpmsg_service_unbind lib (Tty 1))"
  unfolding rpmsg_service_unbind_def
proof (intro zsafe assms)
  fix g assume i: "ms_inv g"
  show "ms_inv (set_ept (Tty 1) ((get_ept (Tty 1) g)\<lparr>ename := ''''\<rparr>) g)"
    by (rule ms_inv_set_ept [OF i]) (use i in \<open>auto simp: ms_inv_def epts_ok_def\<close>)
qed

lemma safe_cs_callback:
  assumes "length d \<le> 20"
  shows "safe (rpmsg_recv_cs_callback d)"
proof (rule safeI)
  fix g and w :: 'w assume i: "ms_inv g"
  then have "0 + length d \<le> length (rx_cs_msg g)" using assms by (simp add: ms_inv_def)
  from put_bytes_fits [OF this] obtain rx where "put_bytes 0 d (rx_cs_msg g) = Done rx"
    "length rx = length (rx_cs_msg g)" by blast
  with i assms show "\<exists>a g' w'. rpmsg_recv_cs_callback d (g, w) = Done (a, (g', w')) \<and> ms_inv g'"
    by (simp add: rpmsg_recv_cs_callback_def ms_inv_def)
qed

lemma safe_tty_callback:
  "length d \<le> 505 \<Longrightarrow> safe (rpmsg_recv_tty_callback lib ep h d (Some i))"
  unfolding rpmsg_recv_tty_callback_def option.case
  by (intro zsafe) (auto simp: ms_inv_def msg_ok_def intro!: msgs_ok_update)

lemma safe_raw_callback:
  "length d \<le> 495 \<Longrightarrow> safe (rpmsg_recv_raw_callback lib ep h d src (Some i))"
  unfolding rpmsg_recv_raw_callback_def option.case
  by (intro zsafe) (auto simp: ms_inv_def msg_ok_def intro!: msgs_ok_update)

lemma safe_zevent:
  assumes "zephyr_laws lib" and "zevent_ok e"
  shows "safe (run_zevent lib e)"
proof (cases e)
  case (Z_rx ep h d src)
  show ?thesis
  proof (rule safeI)
    fix g w assume i: "ms_inv g"
    show "\<exists>a g' w'. run_zevent lib e (g, w) = Done (a, (g', w')) \<and> ms_inv g'"
    proof (cases "rdev (get_ept ep g)")
      case False
      with i Z_rx show ?thesis by simp
    next
      case True
      with i assms(2) Z_rx have "own_slot ep (get_ept ep g)"
        by (cases ep) (auto simp: ms_inv_def epts_ok_def)
      with True assms(2) Z_rx safeD [OF safe_cs_callback [of d] i, of w]
        safeD [OF safe_tty_callback [of d lib ep h] i, of _ w] safeD [OF safe_raw_callback [of d lib ep h src] i, of _ w]
      show ?thesis by (cases ep) auto
    qed
  qed
next
  case (Z_bind name src)
  with assms(1) show ?thesis by (simp add: safe_new_service_cb)
next
  case (Z_unbind ep)
  with safe_service_unbind [OF assms(1)] show ?thesis by (auto intro!: zsafe)
qed

lemma safe_zevents: "zephyr_laws lib \<Longrightarrow> list_all zevent_ok es \<Longrightarrow> safe (run_zevents lib es)"
  by (induction es) (auto intro!: zsafe safe_zevent)

lemma safe_receive_message [zsafe]:
  assumes "zephyr_laws lib"
  shows "safe (receive_message lib)"
proof (rule safeI)
  fix g w assume i: "ms_inv g"
  have "list_all zevent_ok (fst (z_notified lib w))" using assms by (simp add: zephyr_laws_def)
  from safeD [OF safe_zevents [OF assms this] i]
  show "\<exists>a g' w'. receive_message lib (g, w) = Done (a, (g', w')) \<and> ms_inv g'" by (simp add: receive_message_def)
qed

lemma safe_platform [zsafe]: "safe (ms_platform_init lib)" "safe (ms_cleanup_system lib)"
  "safe (ms_create_rpmsg_vdev lib)"
  unfolding ms_platform_init_def ms_cleanup_system_def ms_create_rpmsg_vdev_def Let_def
  by (intro zsafe; simp)+

lemma safe_mng_task [zsafe]: "zephyr_laws lib \<Longrightarrow> safe (rpmsg_mng_task lib p)"
  unfolding rpmsg_mng_task_def Let_def by (cases p) (auto intro!: zsafe)

lemma fill_array:
  assumes "length b = 512" and "length pre \<le> 512" and "off + length d \<le> 512"
  shows "\<exists>b' b''. put_bytes 0 pre b = Done b' \<and> put_bytes off d b' = Done b'' \<and> length b'' = 512"
proof -
  from put_bytes_fits [of 0 pre b] assms obtain b' where b': "put_bytes 0 pre b = Done b'" "length b' = 512" by auto
  with put_bytes_fits [of off d b'] assms show ?thesis by auto
qed

lemma length_snprintf: "length (snprintf n s) \<le> Suc n"
  by (simp add: snprintf_def char_bytes_def)

text \<open>An answer: header and payload fit the local array, and the record is cleared.\<close>

lemma ms_inv_cleared:
  assumes "ms_inv g"
  shows "ms_inv (g\<lparr>tty_msg := (tty_msg g)[i := (tty_msg g ! i)\<lparr>rlen := 0, rdata := None\<rparr>]\<rparr>)"
    "ms_inv (g\<lparr>raw_msg := (raw_msg g)[i := (raw_msg g ! i)\<lparr>rlen := 0, rdata := None\<rparr>]\<rparr>)"
    "length b = 512 \<Longrightarrow>
       ms_inv (g\<lparr>tx_buff := b, tty_msg := (tty_msg g)[i := (tty_msg g ! i)\<lparr>rlen := 0, rdata := None\<rparr>]\<rparr>)"
    "length b = 512 \<Longrightarrow>
       ms_inv (g\<lparr>buff := b, raw_msg := (raw_msg g)[i := (raw_msg g ! i)\<lparr>rlen := 0, rdata := None\<rparr>]\<rparr>)"
  using assms by (simp_all add: ms_inv_def msgs_ok_update msg_ok_empty)

lemma safe_tty_answer [zsafe]:
  assumes "zephyr_laws lib" and "i < 2"
  shows "safe (tty_answer lib i)"
proof (rule safeI)
  fix g w assume inv: "ms_inv g"
  show "\<exists>a g' w'. tty_answer lib i (g, w) = Done (a, (g', w')) \<and> ms_inv g'"
  proof (cases "rlen (tty_msg g ! i) = 0")
    case True
    with ms_inv_cleared(1) [OF inv] show ?thesis by (simp add: tty_answer_def)
  next
    case False
    have "msg_ok 505 (tty_msg g ! i)" using inv assms(2) by (simp add: ms_inv_def msg_ok_nth)
    with False obtain h d where d: "rdata (tty_msg g ! i) = Some (h, d)" "rlen (tty_msg g ! i) = length d" "length d \<le> 505"
      by (auto simp: msg_ok_def)
    let ?hd = "snprintf 8 (tty_header i)"
    have "length ?hd \<le> 512" using length_snprintf [of 8] by (rule order_trans) simp
    with fill_array [of "tx_buff g" ?hd 7 d] inv d(3) obtain b' b'' where
      b: "put_bytes 0 ?hd (tx_buff g) = Done b'" "put_bytes 7 d b' = Done b''" "length b'' = 512"
      by (auto simp: ms_inv_def)
    have "z_tx_max lib \<le> length b''" using assms(1) b(3) by (simp add: zephyr_laws_def)
    with send_array_run [of lib b'' "length d + 8" "z_send lib (Tty i)" "g\<lparr>tx_buff := b''\<rparr>" w]
      False d b ms_inv_cleared(3) [OF inv b(3), of i]
    show ?thesis by (auto simp: tty_answer_def sub_bytes_def)
  qed
qed

lemma safe_raw_answer [zsafe]:
  assumes "zephyr_laws lib" and "i < 2"
  shows "safe (raw_answer lib i)"
proof (rule safeI)
  fix g w assume inv: "ms_inv g"
  show "\<exists>a g' w'. raw_answer lib i (g, w) = Done (a, (g', w')) \<and> ms_inv g'"
  proof (cases "rlen (raw_msg g ! i) = 0")
    case True
    with ms_inv_cleared(2) [OF inv] show ?thesis by (simp add: raw_answer_def)
  next
    case False
    have "msg_ok 495 (raw_msg g ! i)" using inv assms(2) by (simp add: ms_inv_def msg_ok_nth)
    with False obtain h d where d: "rdata (raw_msg g ! i) = Some (h, d)" "rlen (raw_msg g ! i) = length d" "length d \<le> 495"
      by (auto simp: msg_ok_def)
    let ?hd = "snprintf 18 (''from ept 0x'' @ hex04 (addr (raw_ept g ! i)) @ '': '')"
    have "length ?hd \<le> 512" using length_snprintf [of 18] by (rule order_trans) simp
    with fill_array [of "buff g" ?hd 17 d] inv d(3) obtain b' b'' where
      b: "put_bytes 0 ?hd (buff g) = Done b'" "put_bytes 17 d b' = Done b''" "length b'' = 512"
      by (auto simp: ms_inv_def)
    have "z_tx_max lib \<le> length b''" using assms(1) b(3) by (simp add: zephyr_laws_def)
    with send_array_run [of lib b'' "length d + 18" "\<lambda>x. z_sendto lib (Raw i) x (rsrc (raw_msg g ! i))" "g\<lparr>buff := b''\<rparr>" w]
      False d b ms_inv_cleared(4) [OF inv b(3), of i]
    show ?thesis by (auto simp: raw_answer_def sub_bytes_def)
  qed
qed

lemma safe_client_sample [zsafe]:
  assumes "zephyr_laws lib"
  shows "safe (app_rpmsg_client_sample lib p)"
proof (cases p)
  case Start
  have "safe (create_ept lib Cs n s d)" for n s d
    by (rule safeI) (use create_ept_run [OF assms] in simp)
  with Start show ?thesis by (auto simp: app_rpmsg_client_sample_def intro!: zsafe)
next
  case (Loop c)
  show ?thesis
  proof (rule safeI)
    fix g w assume inv: "ms_inv g"
    then have "cs_len g \<le> length (rx_cs_msg g)" by (simp add: ms_inv_def)
    with send_array_run [of lib "rx_cs_msg g" "cs_len g" "z_send lib Cs" g w] obtain w' where
      "send_array lib (z_send lib Cs) (rx_cs_msg g) (cs_len g) (g, w) = Done ((), (g, w'))" by blast
    with inv Loop safeD [OF safe_destroy_ept [OF assms] inv, of Cs w']
    show "\<exists>a g' w'. app_rpmsg_client_sample lib p (g, w) = Done (a, (g', w')) \<and> ms_inv g'"
      by (auto simp: app_rpmsg_client_sample_def)
  qed
qed (simp_all add: app_rpmsg_client_sample_def zsafe)

lemma safe_create_seq:
  assumes "zephyr_laws lib" and "\<And>g. ms_inv g \<Longrightarrow> ms_inv (f g) \<and> own_slot ep (get_ept ep (f g))" and "safe k"
  shows "safe (seq (updg f) (seq (create_ept lib ep name src dst) k))"
  unfolding seq_def [of "create_ept lib ep name src dst"] by (intro safe_create_ept_after assms)

text \<open>The second raw endpoint gets its private pointer only after it has been created.\<close>

lemma safe_create_priv:
  assumes "safe k"
  shows "safe (seq (create_ept lib (Raw 1) n s d)
       (seq (updg (\<lambda>g. g\<lparr>raw_ept := (raw_ept g)[1 := (raw_ept g ! 1)\<lparr>epriv := Some 1\<rparr>]\<rparr>)) k))"
proof (rule safeI)
  fix g w assume inv: "ms_inv g"
  obtain r e w' where c: "z_create_ept lib (Raw 1) (get_ept (Raw 1) g) n s d w = ((r, e), w')" by (metis surj_pair)
  let ?g = "g\<lparr>raw_ept := (raw_ept g)[1 := e\<lparr>epriv := Some 1\<rparr>]\<rparr>"
  have "epts_ok ((raw_ept g)[1 := e\<lparr>epriv := Some 1\<rparr>])" using inv by (simp add: ms_inv_def epts_ok_update)
  with inv have "ms_inv ?g" by (simp add: ms_inv_def)
  with safeD [OF assms, of ?g w'] inv c
  show "\<exists>a g' w'. seq (create_ept lib (Raw 1) n s d)
       (seq (updg (\<lambda>g. g\<lparr>raw_ept := (raw_ept g)[1 := (raw_ept g ! 1)\<lparr>epriv := Some 1\<rparr>]\<rparr>)) k) (g, w)
         = Done (a, (g', w')) \<and> ms_inv g'"
    by (simp add: create_ept_def ms_inv_def epts_ok_def)
qed

lemma safe_app_tty [zsafe]:
  assumes "zephyr_laws lib"
  shows "safe (app_rpmsg_tty lib p)"
proof (cases p)
  case Start
  show ?thesis
    unfolding app_rpmsg_tty_def Let_def Start pc.case
    by (rule safe_create_seq [OF assms]) (auto simp: set_priv_own own_slot_set intro!: zsafe assms)
qed (auto simp: app_rpmsg_tty_def Let_def intro!: zsafe assms)

lemma safe_app_raw [zsafe]:
  assumes "zephyr_laws lib"
  shows "safe (app_rpmsg_raw lib p)"
proof (cases p)
  case Start
  show ?thesis
    unfolding app_rpmsg_raw_def Let_def Start pc.case
    by (rule safe_create_seq [OF assms], simp add: set_priv_own own_slot_set,
        rule safe_create_priv, intro zsafe assms)
qed (auto simp: app_rpmsg_raw_def Let_def intro!: zsafe assms)

fun conf_ok :: "'w conf \<Rightarrow> bool" where
  "conf_ok (Run g w) \<longleftrightarrow> ms_inv g"
| "conf_ok Crashed \<longleftrightarrow> False"

lemma after_safe:
  assumes "safe m" and "ms_inv g" and "\<And>p g. ms_inv (put p g) = ms_inv g"
  shows "conf_ok (after put (m (g, w)))"
  using safeD [OF assms(1,2), of w] assms(3) by auto

lemma ms_step_inv: "ms_step lib c d \<Longrightarrow> zephyr_laws lib \<Longrightarrow> conf_ok c \<Longrightarrow> conf_ok d"
  by (induction rule: ms_step.induct) (auto intro!: after_safe zsafe simp: platform_ipm_callback_def)

lemma ms_run_inv: "(ms_step lib)\<^sup>*\<^sup>* c d \<Longrightarrow> zephyr_laws lib \<Longrightarrow> conf_ok c \<Longrightarrow> conf_ok d"
  by (induction rule: rtranclp_induct) (auto intro: ms_step_inv)

lemma ms_main_inv:
  "length tx = 512 \<Longrightarrow> length bf = 512 \<Longrightarrow> ms_inv (snd (ms_main (ms_boot tx bf)))"
  by (auto simp: ms_main_def ms_boot_def ms_inv_def epts_ok_def msg_ok_def ept0_def msg0_def less_2_cases_iff)

text \<open>
  C11. In every interleaving of the four threads, the mailbox interrupt and the callbacks, from the
  start of \<open>main\<close> on, no thread of the Zephyr remote touches memory outside its arrays or
  follows a null pointer, and the arrays, message records and endpoints stay well formed: as long
  as the library keeps its promises and no message is longer than 20 bytes for the client sample,
  505 for a tty, 495 for a raw endpoint.
\<close>

theorem ms_services_safe:
  assumes "zephyr_laws lib" and "length tx = 512" and "length bf = 512"
    and "(ms_step lib)\<^sup>*\<^sup>* (Run (snd (ms_main (ms_boot tx bf))) w) c"
  shows "\<exists>g w'. c = Run g w' \<and> ms_inv g"
proof -
  have "conf_ok c" using ms_run_inv [OF assms(4,1)] ms_main_inv [OF assms(2,3)] by simp
  then show ?thesis by (cases c) auto
qed

section \<open>What is answered\<close>

text \<open>
  The answer of the tty thread to a pending message: the prefix, the message, and one byte more
  than that, which is what the local array held there before.
\<close>

lemma put_two:
  assumes "length a = off" and "Suc off + length d \<le> length b"
  shows "obind (put_bytes off d) (put_bytes 0 (a @ [z]) b) = Done (a @ d @ (if d = [] then z # drop (Suc off) b else drop (off + length d) b))"
  using assms by (cases d) (auto simp: put_bytes_def add.commute)

lemma tty_answer_run:
  assumes inv: "ms_inv g" and i: "i < 2" and d: "rdata (tty_msg g ! i) = Some (h, d)" "rlen (tty_msg g ! i) = length d"
    and len: "0 < length d" "length d + 8 \<le> z_tx_max lib" "z_tx_max lib \<le> 512"
  defines "m \<equiv> char_bytes (tty_header i) @ d @ [tx_buff g ! (7 + length d)]"
  shows "\<exists>b. tty_answer lib i (g, w) = Done ((),
     (g\<lparr>tx_buff := b, tty_msg := (tty_msg g)[i := (tty_msg g ! i)\<lparr>rlen := 0, rdata := None\<rparr>]\<rparr>,
      z_release_rx_buffer lib (Tty i) h (snd (z_send lib (Tty i) m w))))"
proof -
  let ?a = "char_bytes (tty_header i)"
  let ?b = "?a @ d @ drop (7 + length d) (tx_buff g)"
  have a: "length ?a = 7" "snprintf 8 (tty_header i) = ?a @ [0]"
    by (simp_all add: snprintf_def char_bytes_def tty_header_def)
  have tx: "length (tx_buff g) = 512" using inv by (simp add: ms_inv_def)
  have p: "obind (put_bytes 7 d) (put_bytes 0 (?a @ [0]) (tx_buff g)) = Done ?b"
    using put_two [OF a(1), of d "tx_buff g" 0] tx len by simp
  then obtain b1 where b1: "put_bytes 0 (?a @ [0]) (tx_buff g) = Done b1" "put_bytes 7 d b1 = Done ?b"
    by (cases "put_bytes 0 (?a @ [0]) (tx_buff g)") auto
  have "take 1 (drop (7 + length d) (tx_buff g)) = [tx_buff g ! (7 + length d)]"
    using tx len by (simp add: take_Suc_conv_app_nth hd_drop_conv_nth take_Suc)
  then have "take (length d + 8) ?b = m" unfolding m_def using a(1) by simp
  moreover have "length d + 8 \<le> length ?b" using tx len a(1) by simp
  ultimately have "send_array lib (z_send lib (Tty i)) ?b (length d + 8) (g', w)
      = Done ((), (g', snd (z_send lib (Tty i) m w)))" for g'
    using len by (simp add: send_array_def sub_bytes_def)
  with d len b1 a(2) show ?thesis by (intro exI [of _ ?b]) (simp add: tty_answer_def sub_bytes_def)
qed

lemma tty_answer_idle:
  "rlen (tty_msg g ! j) = 0 \<Longrightarrow> tty_answer lib j (g, w) =
     Done ((), (g\<lparr>tty_msg := (tty_msg g)[j := (tty_msg g ! j)\<lparr>rlen := 0, rdata := None\<rparr>]\<rparr>, w))"
  by (simp add: tty_answer_def)

text \<open>
  A batch of messages for one tty endpoint: every buffer is held, and each message replaces the
  one before it in the record of the endpoint.
\<close>

abbreviation tty_rx :: "nat \<Rightarrow> u32 \<Rightarrow> nat \<times> bytes \<Rightarrow> zevent" where
  "tty_rx i src m \<equiv> Z_rx (Tty i) (fst m) (snd m) src"

definition hold_all :: "'w zephyr_lib \<Rightarrow> nat \<Rightarrow> (nat \<times> bytes) list \<Rightarrow> 'w \<Rightarrow> 'w" where
  "hold_all lib i ms = fold (\<lambda>m. z_hold_rx_buffer lib (Tty i) (fst m)) ms"

lemma zevents_tty:
  assumes "i < length (tty_msg g)" and "rdev (tty_ept g ! i)" and "epriv (tty_ept g ! i) = Some i"
  shows "run_zevents lib (map (tty_rx i src) (ms @ [(h, d)])) (g, w) =
     Done ((), (g\<lparr>tty_msg := (tty_msg g)[i := (tty_msg g ! i)\<lparr>rdata := Some (h, d), rlen := length d\<rparr>],
                  data_tty_sem := True\<rparr>, hold_all lib i (ms @ [(h, d)]) w))"
  using assms
proof (induction ms arbitrary: g w)
  case Nil
  then show ?case by (simp add: rpmsg_recv_tty_callback_def hold_all_def)
next
  case (Cons m ms)
  let ?g = "g\<lparr>tty_msg := (tty_msg g)[i := (tty_msg g ! i)\<lparr>rdata := Some m, rlen := length (snd m)\<rparr>],
              data_tty_sem := True\<rparr>"
  have "run_zevent lib (tty_rx i src m) (g, w) = Done ((), (?g, z_hold_rx_buffer lib (Tty i) (fst m) w))"
    using Cons.prems by (simp add: rpmsg_recv_tty_callback_def)
  moreover have "run_zevents lib (map (tty_rx i src) (ms @ [(h, d)])) (?g, w') =
     Done ((), (?g\<lparr>tty_msg := (tty_msg ?g)[i := (tty_msg ?g ! i)\<lparr>rdata := Some (h, d), rlen := length d\<rparr>],
                  data_tty_sem := True\<rparr>, hold_all lib i (ms @ [(h, d)]) w'))" for w'
    by (rule Cons.IH) (use Cons.prems in auto)
  ultimately show ?case using Cons.prems(1) by (simp add: hold_all_def)
qed

text \<open>One pass of the tty thread, with exactly one record pending.\<close>

lemma app_tty_one:
  assumes inv: "ms_inv g" and i: "i < 2" and d: "rdata (tty_msg g ! i) = Some (h, d)" "rlen (tty_msg g ! i) = length d"
    and idle: "rlen (tty_msg g ! (1 - i)) = 0"
    and len: "0 < length d" "length d + 8 \<le> z_tx_max lib" "z_tx_max lib \<le> 512"
    and up: "addr (tty_ept g ! 0) \<noteq> z_ADDR_ANY lib"
  defines "m \<equiv> char_bytes (tty_header i) @ d @ [tx_buff g ! (7 + length d)]"
  shows "\<exists>g'. app_rpmsg_tty lib (Loop k) (g, w) = Done (Loop 0,
     (g', z_release_rx_buffer lib (Tty i) h (snd (z_send lib (Tty i) m w)))) \<and>
     (\<forall>j < 2. rlen (tty_msg g' ! j) = 0)"
proof -
  have t: "length (tty_msg g) = 2" using inv by (simp add: ms_inv_def)
  show ?thesis
  proof (cases "i = 0")
    case True
    from tty_answer_run [OF inv i d len, of w] obtain b where
      "tty_answer lib 0 (g, w) = Done ((),
       (g\<lparr>tx_buff := b, tty_msg := (tty_msg g)[0 := (tty_msg g ! 0)\<lparr>rlen := 0, rdata := None\<rparr>]\<rparr>,
        z_release_rx_buffer lib (Tty i) h (snd (z_send lib (Tty i) m w))))"
      unfolding m_def True by blast
    with True idle up t show ?thesis by (auto simp: app_rpmsg_tty_def tty_answer_idle less_2_cases_iff)
  next
    case False
    with i have i1: "i = 1" by simp
    let ?g = "g\<lparr>tty_msg := (tty_msg g)[0 := (tty_msg g ! 0)\<lparr>rlen := 0, rdata := None\<rparr>]\<rparr>"
    have "ms_inv ?g" by (rule ms_inv_cleared(1) [OF inv])
    from tty_answer_run [OF this i _ _ len, of h w] d i1 obtain b where
      "tty_answer lib 1 (?g, w) = Done ((),
       (?g\<lparr>tx_buff := b, tty_msg := (tty_msg ?g)[1 := (tty_msg ?g ! 1)\<lparr>rlen := 0, rdata := None\<rparr>]\<rparr>,
        z_release_rx_buffer lib (Tty i) h (snd (z_send lib (Tty i) m w))))"
      unfolding m_def i1 by auto
    with i1 idle up t show ?thesis by (auto simp: app_rpmsg_tty_def tty_answer_idle less_2_cases_iff)
  qed
qed

text \<open>
  C12. A notification that brings messages for a tty endpoint whose service is idle is answered in two
  steps, the management thread and the tty thread: all the buffers are held, then the last message (and no other) is sent back
  behind the prefix of its endpoint, followed by one stray byte, its buffer is released, and both
  records are empty again.  So a message that comes alone is answered and its buffer given back;
  of several that come together the earlier ones are neither answered nor ever released.
\<close>

theorem tty_batch_answer:
  assumes inv: "ms_inv g" and mng: "mng_pc g = Loop n" "data_sem g" and tty: "tty_pc g = Loop k"
    and i: "i < 2" "rdev (tty_ept g ! i)" "addr (tty_ept g ! 0) \<noteq> z_ADDR_ANY lib"
    and idle: "rlen (tty_msg g ! (1 - i)) = 0"
    and ev: "z_notified lib w = (map (tty_rx i src) (ms @ [(h, d)]), wn)"
    and len: "0 < length d" "length d + 8 \<le> z_tx_max lib" "z_tx_max lib \<le> 512"
  defines "w2 \<equiv> hold_all lib i (ms @ [(h, d)]) wn"
    and "answer \<equiv> char_bytes (tty_header i) @ d @ [tx_buff g ! (7 + length d)]"
  shows "\<exists>g1 g2. ms_step lib (Run g w) (Run g1 w2) \<and>
    ms_step lib (Run g1 w2) (Run g2 (z_release_rx_buffer lib (Tty i) h (snd (z_send lib (Tty i) answer w2)))) \<and>
    (\<forall>j < 2. rlen (tty_msg g2 ! j) = 0)"
proof -
  have t: "length (tty_msg g) = 2" "epriv (tty_ept g ! i) = Some i" "length (tx_buff g) = 512"
    using inv i by (auto simp: ms_inv_def epts_ok_def)
  let ?m = "(tty_msg g ! i)\<lparr>rdata := Some (h, d), rlen := length d\<rparr>"
  let ?g1 = "g\<lparr>data_sem := False, tty_msg := (tty_msg g)[i := ?m], data_tty_sem := True, mng_pc := Loop 0\<rparr>"
  have "rpmsg_mng_task lib (Loop n) (g\<lparr>data_sem := False\<rparr>, w) = Done (Loop 0,
      (g\<lparr>data_sem := False, tty_msg := (tty_msg g)[i := ?m], data_tty_sem := True\<rparr>, w2))"
    using zevents_tty [of i "g\<lparr>data_sem := False\<rparr>" lib src ms h d wn] t i ev
    by (simp add: rpmsg_mng_task_def receive_message_def w2_def)
  with Mng [OF mng, of lib w] have 1: "ms_step lib (Run g w) (Run ?g1 w2)" by simp
  let ?g = "?g1\<lparr>data_tty_sem := False\<rparr>"
  have "ms_inv ?g" using inv len t
    by (simp add: ms_inv_def msgs_ok_update msg_ok_def)
  moreover have "i \<noteq> 1 - i" "1 - i < 2" using i(1) by arith+
  ultimately obtain g' where
    g': "app_rpmsg_tty lib (Loop k) (?g, w2) = Done (Loop 0,
      (g', z_release_rx_buffer lib (Tty i) h (snd (z_send lib (Tty i) answer w2))))"
      "\<forall>j < 2. rlen (tty_msg g' ! j) = 0"
    using app_tty_one [of ?g i h d lib k w2] t i idle len unfolding answer_def by auto
  have "waits (tty_pc ?g1)" "data_tty_sem ?g1" "tty_pc ?g1 = Loop k" using tty by (simp_all add: waits_def)
  with Tty_thread [of ?g1 lib w2] g'(1) have
    "ms_step lib (Run ?g1 w2) (Run (g'\<lparr>tty_pc := Loop 0\<rparr>) (z_release_rx_buffer lib (Tty i) h (snd (z_send lib (Tty i) answer w2))))"
    by simp
  with 1 g'(2) show ?thesis by (intro exI [of _ ?g1] exI [of _ "g'\<lparr>tty_pc := Loop 0\<rparr>"]) simp
qed

text \<open>
  A message of a full payload (496 bytes of a 512-byte buffer) for a raw endpoint: the copy behind
  the 17 bytes of the prefix runs over the end of the local array.
\<close>

lemma raw_answer_overrun:
  assumes "rdata (raw_msg g ! i) = Some (h, d)" and "rlen (raw_msg g ! i) = length d"
    and "length (buff g) = 512" and "495 < length d"
  shows "raw_answer lib i (g, w) = Fault Out_of_bounds"
proof -
  let ?hd = "snprintf 18 (''from ept 0x'' @ hex04 (addr (raw_ept g ! i)) @ '': '')"
  have "length ?hd \<le> 512" using length_snprintf [of 18] by (rule order_trans) simp
  with put_bytes_fits [of 0 ?hd "buff g"] assms(3) obtain b where
    "put_bytes 0 ?hd (buff g) = Done b" "length b = 512" by auto
  with assms show ?thesis by (auto simp: raw_answer_def sub_bytes_def put_bytes_def)
qed

text \<open>\<open>rx_cs_msg\<close> has room for 20 bytes, and the callback does not look at the length.\<close>

lemma cs_callback_overrun:
  "length (rx_cs_msg g) = 20 \<Longrightarrow> 20 < length d \<Longrightarrow> rpmsg_recv_cs_callback d (g, w) = Fault Out_of_bounds"
  by (simp add: rpmsg_recv_cs_callback_def put_bytes_def)

text \<open>
  When the platform cannot be set up, the management thread ends with a clean-up that takes down
  a device that was never initialised; the other threads wait for ever.
\<close>

lemma mng_task_init_failed:
  assumes "ms_platform_init lib (g, w) = Done (r, (g', w'))" and "r \<noteq> 0"
  shows "rpmsg_mng_task lib Start (g, w) =
    Done (Ended, (g', z_metal_finish lib (z_deinit_vdev lib (snd (z_ipm_set_enabled lib False w')))))"
  using assms by (simp add: rpmsg_mng_task_def ms_cleanup_system_def Let_def)

section \<open>A concrete library\<close>

text \<open>The world is the notifications to come and a log of what the remote did.\<close>

datatype zact = Sent ept_id bytes | Sent_to ept_id bytes u32 | Held ept_id nat | Released ept_id nat

definition log_lib :: "(zevent list list \<times> zact list) zephyr_lib" where
  "log_lib = \<lparr>z_ADDR_ANY = - 1, z_tx_max = 496,
     z_create_ept = (\<lambda>ep e name src dst w.
        ((0, e\<lparr>ename := name, addr := (if src = - 1 then 1024 else src), rdev := True\<rparr>), w)),
     z_destroy_ept = (\<lambda>ep e w. (e\<lparr>rdev := False\<rparr>, w)),
     z_send = (\<lambda>ep m (ns, l). (int (length m), (ns, l @ [Sent ep m]))),
     z_sendto = (\<lambda>ep m dst (ns, l). (int (length m), (ns, l @ [Sent_to ep m dst]))),
     z_hold_rx_buffer = (\<lambda>ep h (ns, l). (ns, l @ [Held ep h])),
     z_release_rx_buffer = (\<lambda>ep h (ns, l). (ns, l @ [Released ep h])),
     z_notified = (\<lambda>(ns, l). case ns of [] \<Rightarrow> ([], ([], l)) | b # bs \<Rightarrow> (filter zevent_ok b, (bs, l))),
     z_metal_init = (\<lambda>w. (0, w)), z_metal_finish = (\<lambda>w. w), z_register_device = (\<lambda>w. (0, w)),
     z_device_open = (\<lambda>w. (0, w)), z_io_init = (\<lambda>k w. w), z_io_region = (\<lambda>k w. True),
     z_ipm_ready = (\<lambda>w. True), z_ipm_register = (\<lambda>w. w), z_ipm_set_enabled = (\<lambda>b w. (0, w)),
     z_ipm_send = (\<lambda>k w. w), z_create_vdev = (\<lambda>w. (True, w)), z_wait_remote_ready = (\<lambda>w. w),
     z_init_vring = (\<lambda>k w. (0, w)), z_init_shm_pool = (\<lambda>w. w), z_init_vdev = (\<lambda>w. (0, w)),
     z_remove_vdev = (\<lambda>w. w), z_deinit_vdev = (\<lambda>w. w)\<rparr>"

lemma log_lib_laws: "zephyr_laws log_lib"
  by (auto simp: zephyr_laws_def log_lib_def list_all_iff split: list.splits)

lemma ms_services_safe_witness:
  "\<exists>g w'. Run (platform_ipm_callback (snd (ms_main (ms_boot (replicate 512 0) (replicate 512 0))))) ([], [])
      = Run g (w' :: zevent list list \<times> zact list) \<and> ms_inv g"
  by (rule ms_services_safe [OF log_lib_laws]) (auto intro: Ipm)

text \<open>A state of the running remote: both tty endpoints registered, all threads waiting.\<close>

definition demo_ms :: ms_state where
  "demo_ms = (ms_boot (replicate 512 0) (replicate 512 0))
     \<lparr>data_sem := True, mng_pc := Loop 0, tty_pc := Loop 0,
      tty_ept := [\<lparr>ename = ''rpmsg-tty'', addr = 1024, rdev = True, epriv = Some 0\<rparr>,
                  \<lparr>ename = ''rpmsg-tty'', addr = 1025, rdev = True, epriv = Some 1\<rparr>]\<rparr>"

lemma demo_ms_simps:
  "ms_inv demo_ms" "mng_pc demo_ms = Loop 0" "data_sem demo_ms" "tty_pc demo_ms = Loop 0"
  "rdev (tty_ept demo_ms ! 1)" "addr (tty_ept demo_ms ! 0) \<noteq> z_ADDR_ANY log_lib"
  "rlen (tty_msg demo_ms ! (1 - 1)) = 0" "tx_buff demo_ms = replicate 512 0"
  by (auto simp: demo_ms_def ms_boot_def ms_inv_def epts_ok_def msg_ok_def ept0_def msg0_def
      log_lib_def less_2_cases_iff)

lemma tty_batch_answer_witness:
  "\<exists>g1 g2. ms_step log_lib (Run demo_ms ([[Z_rx (Tty 1) 8 [72] 5, Z_rx (Tty 1) 9 [104, 105] 5]], []))
      (Run g1 ([], [Held (Tty 1) 8, Held (Tty 1) 9])) \<and>
    ms_step log_lib (Run g1 ([], [Held (Tty 1) 8, Held (Tty 1) 9]))
      (Run g2 ([], [Held (Tty 1) 8, Held (Tty 1) 9, Sent (Tty 1) (char_bytes ''TTY 1: '' @ [104, 105, 0]), Released (Tty 1) 9])) \<and>
    (\<forall>j < 2. rlen (tty_msg g2 ! j) = 0)"
  using tty_batch_answer [OF demo_ms_simps(1-4) _ demo_ms_simps(5,6,7),
      where ms = "[(8, [72])]" and h = 9 and d = "[104, 105]" and src = 5 and wn = "([], [])"
        and w = "([[Z_rx (Tty 1) 8 [72] 5, Z_rx (Tty 1) 9 [104, 105] 5]], [])"]
  by (simp add: demo_ms_simps(8) log_lib_def hold_all_def tty_header_def)

end
