(* ===== verification/Zephyr_Ivshmem.thy ===== *)
theory Zephyr_Ivshmem
  imports Amp_Prelude
begin

text \<open>
  The Zephyr demo over inter-VM shared memory, \<open>zephyr/dual_qemu_ivshmem\<close>: the backend that lays a
  virtio device out in the shared memory and turns doorbells into notifications
  (\<open>rpmsg_ivshmem_backend.c\<close>), the host with its shell command (\<open>host/src/main.c\<close>) and the echoing
  remote (\<open>remote/src/main.c\<close>).  The build options \<open>CONFIG_OPENAMP_MASTER\<close> and
  \<open>CONFIG_IVSHMEM_DOORBELL\<close> are arguments; the ivshmem driver, libmetal, OpenAMP and the
  kernel are functions on the outside world.
\<close>

section \<open>The backend\<close>

definition VDEV_STATUS_SIZE :: u64 where "VDEV_STATUS_SIZE = 0x400"
definition VRING_ALIGNMENT :: nat where "VRING_ALIGNMENT = 4"
definition VRING_SIZE :: nat where "VRING_SIZE = 16"

definition VIRTQUEUE_ID :: "bool \<Rightarrow> nat" where
  "VIRTQUEUE_ID master = (if master then 0 else 1)"

record vring_info =
  vaddr :: u64
  num_descs :: nat
  align :: nat

datatype role = RPMSG_HOST | RPMSG_REMOTE

text \<open>
  The static data: addresses, the allocated queues, the rings handed to the virtio device, the
  region, the device of the host with the address of the peer, and the semaphore of the bind.
\<close>

record iv_state =
  shmem_base :: u64
  vdev_status_base :: u64
  rx_vring_base :: u64
  tx_vring_base :: u64
  shmem_size :: u64
  region :: "u64 \<times> u64"
  io :: bool
  vq :: "bool list"
  rvrings :: "vring_info list"
  vrole :: "role option"
  rvdev_ready :: bool
  ivshmem_rdev :: bool
  remote_endpoint_dst_addr :: int
  ept_sem :: bool
  ev_thread :: bool

definition iv_boot :: iv_state where
  "iv_boot = \<lparr>shmem_base = 0, vdev_status_base = 0, rx_vring_base = 0, tx_vring_base = 0, shmem_size = 0,
     region = (0, 0), io = False, vq = [False, False],
     rvrings = [\<lparr>vaddr = 0, num_descs = 0, align = VRING_ALIGNMENT\<rparr>, \<lparr>vaddr = 0, num_descs = 0, align = VRING_ALIGNMENT\<rparr>],
     vrole = None, rvdev_ready = False, ivshmem_rdev = False, remote_endpoint_dst_addr = - 1,
     ept_sem = False, ev_thread = False\<rparr>"

record 'w iv_lib =
  DRIVER_OK :: byte
  F_NS :: nat
  iv_get_mem :: "'w \<Rightarrow> u64 \<times> u64"
  iv_get_id :: "'w \<Rightarrow> 16 word"
  iv_int_peer :: "16 word \<Rightarrow> 'w \<Rightarrow> 'w"
  iv_register_handler :: "'w \<Rightarrow> int \<times> 'w"
  iv_read8 :: "u64 \<Rightarrow> 'w \<Rightarrow> byte"
  iv_write8 :: "byte \<Rightarrow> u64 \<Rightarrow> 'w \<Rightarrow> 'w"
  iv_metal_init :: "'w \<Rightarrow> int \<times> 'w"
  iv_register_device :: "'w \<Rightarrow> int \<times> 'w"
  iv_device_open :: "'w \<Rightarrow> int \<times> 'w"
  iv_io_region :: "'w \<Rightarrow> bool"
  iv_vq_allocate :: "nat \<Rightarrow> 'w \<Rightarrow> bool \<times> 'w"
  iv_init_shm_pool :: "u64 \<Rightarrow> u64 \<Rightarrow> 'w \<Rightarrow> 'w"
  iv_init_vdev :: "role \<Rightarrow> vring_info list \<Rightarrow> 'w \<Rightarrow> int \<times> 'w"
  iv_wait :: "'w \<Rightarrow> (string \<times> u32) list \<times> 'w"
  iv_poll :: "'w \<Rightarrow> 'w"
  iv_notification :: "nat \<Rightarrow> 'w \<Rightarrow> 'w"

type_synonym ('w, 'a) ivprog = "(iv_state \<times> 'w, 'a) prog"

definition virtio_get_status :: "'w iv_lib \<Rightarrow> bool \<Rightarrow> ('w, byte) ivprog" where
  "virtio_get_status lib master =
     (if master then ret (DRIVER_OK lib)
      else bnd (getg vdev_status_base) (\<lambda>a. asks (iv_read8 lib a)))"

definition virtio_set_status :: "'w iv_lib \<Rightarrow> byte \<Rightarrow> ('w, unit) ivprog" where
  "virtio_set_status lib status = bnd (getg vdev_status_base) (\<lambda>a. extU (iv_write8 lib status a))"

definition virtio_get_features :: "'w iv_lib \<Rightarrow> u32" where
  "virtio_get_features lib = push_bit (F_NS lib) 1"

definition virtio_set_features :: "u32 \<Rightarrow> ('w, unit) ivprog" where
  "virtio_set_features features = ret ()"

definition peer_dest_id :: "bool \<Rightarrow> 16 word \<Rightarrow> 16 word" where
  "peer_dest_id master k = (if master then k + 1 else k - 1)"

definition virtio_notify :: "'w iv_lib \<Rightarrow> bool \<Rightarrow> ('w, unit) ivprog" where
  "virtio_notify lib master =
     bnd (asks (iv_get_id lib)) (\<lambda>k. extU (iv_int_peer lib (peer_dest_id master k)))"

definition ns_bind_cb :: "string \<Rightarrow> u32 \<Rightarrow> iv_state \<Rightarrow> iv_state" where
  "ns_bind_cb name dest g =
     g\<lparr>ivshmem_rdev := True, remote_endpoint_dst_addr := to_int32 (uint dest), ept_sem := True\<rparr>"

text \<open>
  The event loop: registration of the handler, and one pass (a doorbell has arrived, the signal is reset,
  the receive queue is notified).
\<close>

definition event_loop_start :: "'w iv_lib \<Rightarrow> ('w, unit) ivprog" where
  "event_loop_start lib =
     bnd (ext (iv_register_handler lib)) (\<lambda>r. if r < 0 then fail Assert_failed else ret ())"

definition event_loop_pass :: "'w iv_lib \<Rightarrow> bool \<Rightarrow> ('w, unit) ivprog" where
  "event_loop_pass lib master =
     seq (extU (iv_poll lib))
    (bnd (getg vq) (\<lambda>q.
     if \<not> q ! VIRTQUEUE_ID master then fail Null_deref
     else extU (iv_notification lib (VIRTQUEUE_ID master))))"

text \<open>The addresses, from the base and the size the driver reports.\<close>

definition map_shmem :: "u64 \<times> u64 \<Rightarrow> iv_state \<Rightarrow> iv_state" where
  "map_shmem mem g = (case mem of (base, sz) \<Rightarrow>
     g\<lparr>shmem_size := sz - VDEV_STATUS_SIZE, vdev_status_base := base, shmem_base := base + VDEV_STATUS_SIZE,
       region := (base + VDEV_STATUS_SIZE, sz - VDEV_STATUS_SIZE)\<rparr>)"

definition place_vrings :: "iv_state \<Rightarrow> iv_state" where
  "place_vrings g =
     (let rx = vdev_status_base g + shmem_size g - VDEV_STATUS_SIZE; tx = vdev_status_base g + shmem_size g in
      g\<lparr>rx_vring_base := rx, tx_vring_base := tx,
        rvrings := [\<lparr>vaddr = rx, num_descs = VRING_SIZE, align = VRING_ALIGNMENT\<rparr>,
                    \<lparr>vaddr = tx, num_descs = VRING_SIZE, align = VRING_ALIGNMENT\<rparr>]\<rparr>)"

text \<open>\<open>k_sem_take(&ept_sem, K_FOREVER)\<close>: meanwhile the event loop runs the bind callbacks.\<close>

definition wait_bound :: "nat \<Rightarrow> 'w iv_lib \<Rightarrow> ('w, unit) ivprog" where
  "wait_bound n lib =
     seq (while_loop n (getg (\<lambda>g. \<not> ept_sem g))
           (bnd (ext (iv_wait lib)) (\<lambda>bs. updg (fold (\<lambda>(name, dest). ns_bind_cb name dest) bs))))
         (updg (\<lambda>g. g\<lparr>ept_sem := False\<rparr>))"

text \<open>The part of the initialisation after the region is known: rings, virtio device, bind.\<close>

definition init_vdev :: "nat \<Rightarrow> bool \<Rightarrow> 'w iv_lib \<Rightarrow> ('w, int) ivprog" where
  "init_vdev n master lib =
     seq (updg place_vrings)
    (bnd (getg rvrings) (\<lambda>rings.
     let rl = (if master then RPMSG_HOST else RPMSG_REMOTE) in
     seq (updg (\<lambda>g. g\<lparr>vrole := Some rl\<rparr>))
    (seq (if master then bnd (getg shmem_base) (\<lambda>b. bnd (getg shmem_size) (\<lambda>s. extU (iv_init_shm_pool lib b s)))
          else ret ())
    (bnd (ext (iv_init_vdev lib rl rings)) (\<lambda>status.
     if status \<noteq> 0 then ret status
     else seq (updg (\<lambda>g. g\<lparr>rvdev_ready := True\<rparr>))
         (seq (if master then wait_bound n lib else ret ()) (ret 0)))))))"

definition init_ivshmem_backend :: "nat \<Rightarrow> bool \<Rightarrow> bool \<Rightarrow> 'w iv_lib \<Rightarrow> ('w, int) ivprog" where
  "init_ivshmem_backend n doorbell master lib =
     (if \<not> doorbell then fail Assert_failed else
      bnd (asks (iv_get_mem lib)) (\<lambda>mem.
      seq (updg (map_shmem mem))
     (seq (if master then virtio_set_status lib 0 else ret ())
     (seq (updg (\<lambda>g. g\<lparr>ev_thread := True\<rparr>))
     (bnd (ext (iv_metal_init lib)) (\<lambda>status. if status \<noteq> 0 then ret status else
      bnd (ext (iv_register_device lib)) (\<lambda>status. if status \<noteq> 0 then ret status else
      bnd (ext (iv_device_open lib)) (\<lambda>status. if status \<noteq> 0 then ret status else
      bnd (asks (iv_io_region lib)) (\<lambda>r.
      seq (updg (\<lambda>g. g\<lparr>io := r\<rparr>)) (if \<not> r then ret status else
      bnd (ext (iv_vq_allocate lib VRING_SIZE)) (\<lambda>a.
      seq (updg (\<lambda>g. g\<lparr>vq := (vq g)[0 := a]\<rparr>)) (if \<not> a then ret status else
      bnd (ext (iv_vq_allocate lib VRING_SIZE)) (\<lambda>a.
      seq (updg (\<lambda>g. g\<lparr>vq := (vq g)[1 := a]\<rparr>)) (if \<not> a then ret status else
      init_vdev n master lib))))))))))))))"

definition get_rpmsg_ivshmem_device :: "bool \<Rightarrow> iv_state \<Rightarrow> bool" where
  "get_rpmsg_ivshmem_device master g = (if master then ivshmem_rdev g else True)"

definition get_rpmsg_ivshmem_ept_dest_addr :: "iv_state \<Rightarrow> int" where
  "get_rpmsg_ivshmem_ept_dest_addr g = remote_endpoint_dst_addr g"

section \<open>The applications\<close>

text \<open>
  The host: a send, the messages of the peer that come in while it waits (the callbacks run in the event
  loop), and the creation of the endpoint.
\<close>

record host_state =
  backend :: iv_state
  rpmsg_dev :: bool
  number_of_completed_msgs :: int
  rx_sem :: bool

record 'w host_lib =
  h_create_ept :: "string \<Rightarrow> u32 \<Rightarrow> 'w \<Rightarrow> int \<times> 'w"
  h_send :: "bytes \<Rightarrow> 'w \<Rightarrow> int \<times> 'w"
  h_arrives :: "'w \<Rightarrow> bytes list \<times> 'w"

type_synonym ('w, 'a) shell_prog = "(host_state \<times> 'w, 'a) prog"

text \<open>\<open>printf("%s")\<close> of a message reads up to its zero byte.\<close>

definition print_string :: "bytes \<Rightarrow> ('s, unit) prog" where
  "print_string data = (if 0 \<in> set data then ret () else fail Out_of_bounds)"

definition host_endpoint_cb :: "bytes \<Rightarrow> ('w, unit) shell_prog" where
  "host_endpoint_cb data =
     seq (updg (\<lambda>g. g\<lparr>number_of_completed_msgs := number_of_completed_msgs g + 1\<rparr>))
    (seq (print_string data) (updg (\<lambda>g. g\<lparr>rx_sem := True\<rparr>)))"

fun host_callbacks :: "bytes list \<Rightarrow> ('w, unit) shell_prog" where
  "host_callbacks [] = ret ()"
| "host_callbacks (m # ms) = seq (host_endpoint_cb m) (host_callbacks ms)"

definition ivshmem_host_main :: "'w host_lib \<Rightarrow> ('w, int) shell_prog" where
  "ivshmem_host_main lib =
     seq (updg (\<lambda>g. g\<lparr>rpmsg_dev := get_rpmsg_ivshmem_device True (backend g)\<rparr>))
    (bnd (getg rpmsg_dev) (\<lambda>d. if \<not> d then ret (- 1) else
     bnd (getg (\<lambda>g. get_rpmsg_ivshmem_ept_dest_addr (backend g))) (\<lambda>dst.
     bnd (ext (h_create_ept lib ''k'' (word_of_int dst))) (\<lambda>status.
     if status \<noteq> 0 then ret status else ret 0))))"

text \<open>\<open>k_sem_take(&rx_sem, K_MSEC(5000))\<close>: 0, or \<open>-EAGAIN\<close> when nothing came in time.\<close>

definition take_rx_sem :: "'w host_lib \<Rightarrow> ('w, int) shell_prog" where
  "take_rx_sem lib =
     bnd (getg rx_sem) (\<lambda>s.
     seq (if s then ret () else bnd (ext (h_arrives lib)) host_callbacks)
    (bnd (getg rx_sem) (\<lambda>s. if s then seq (updg (\<lambda>g. g\<lparr>rx_sem := False\<rparr>)) (ret 0) else ret (- EAGAIN))))"

text \<open>One pass of the loop of the shell command: it goes on with the decremented counter.\<close>

definition send_pass :: "'w host_lib \<Rightarrow> bytes \<Rightarrow> int \<Rightarrow> ('w, int + int) shell_prog" where
  "send_pass lib str noof_messages =
     bnd (ext (h_send lib str)) (\<lambda>status.
     if status < 0 then ret (Inr status) else
     bnd (take_rx_sem lib) (\<lambda>status.
     if status \<noteq> 0 then ret (Inr status)
     else if noof_messages = - (2 ^ 31) then fail Signed_overflow
     else if noof_messages - 1 \<noteq> 0 then ret (Inl (noof_messages - 1)) else ret (Inr 0)))"

text \<open>
  The arguments are the string with its zero byte and the value of \<open>strtol\<close>, converted to \<open>int\<close>.
\<close>

definition cmd_rpmsg_ivshmem_send :: "nat \<Rightarrow> 'w host_lib \<Rightarrow> bytes \<Rightarrow> int \<Rightarrow> ('w, int) shell_prog" where
  "cmd_rpmsg_ivshmem_send n lib str count =
     bnd (getg rpmsg_dev) (\<lambda>d. if \<not> d then ret (- ENODEV) else
     seq (updg (\<lambda>g. g\<lparr>number_of_completed_msgs := 0\<rparr>))
         (iter n (send_pass lib str) (to_int32 count)))"

definition remote_endpoint_cb :: "(bytes \<Rightarrow> 'w \<Rightarrow> int \<times> 'w) \<Rightarrow> bytes \<Rightarrow> ('g \<times> 'w, int) prog" where
  "remote_endpoint_cb r_send data =
     seq (print_string data) (seq (ext (r_send data)) (ret 0))"

definition ivshmem_remote_main :: "(string \<Rightarrow> 'w \<Rightarrow> int \<times> 'w) \<Rightarrow> (iv_state \<times> 'w, int) prog" where
  "ivshmem_remote_main r_create_ept =
     bnd (getg (get_rpmsg_ivshmem_device False)) (\<lambda>d. if \<not> d then ret (- 1) else
     bnd (ext (r_create_ept ''k'')) (\<lambda>status. if status \<noteq> 0 then ret status else ret 0))"

section \<open>The backend after its initialisation\<close>

text \<open>The part of the state that the wait for the peer leaves alone.\<close>

definition geometry :: "iv_state \<Rightarrow> u64 \<times> u64 \<times> u64 \<times> vring_info list \<times> bool list" where
  "geometry g = (vdev_status_base g, shmem_base g, shmem_size g, rvrings g, vq g)"

lemma geometry_simps [simp]:
  "geometry (g\<lparr>ept_sem := b\<rparr>) = geometry g" "geometry (g\<lparr>rvdev_ready := b\<rparr>) = geometry g"
  "geometry (g\<lparr>vrole := r\<rparr>) = geometry g" "geometry (ns_bind_cb name dest g) = geometry g"
  by (simp_all add: geometry_def ns_bind_cb_def)

text \<open>A bind that has been signalled has set the device; the other data is kept.\<close>

definition bound_inv :: "iv_state \<Rightarrow> iv_state \<Rightarrow> bool" where
  "bound_inv g h \<longleftrightarrow> geometry h = geometry g \<and> rvdev_ready h = rvdev_ready g \<and> (ept_sem h \<longrightarrow> ivshmem_rdev h)"

lemma bound_inv_fold: "bound_inv g h \<Longrightarrow> bound_inv g (fold (\<lambda>(name, dest). ns_bind_cb name dest) bs h)"
proof (induction bs arbitrary: h)
  case Nil
  then show ?case by simp
next
  case (Cons b bs)
  have "bound_inv g (ns_bind_cb (fst b) (snd b) h)" using Cons.prems by (simp add: bound_inv_def) (simp add: ns_bind_cb_def)
  from Cons.IH [OF this] show ?case by (simp add: case_prod_unfold)
qed

lemma wait_bound_keeps:
  assumes "wait_bound n lib (g, w) = Done (a, (g', w'))" and "ept_sem g \<longrightarrow> ivshmem_rdev g"
  shows "geometry g' = geometry g \<and> rvdev_ready g' = rvdev_ready g \<and> ivshmem_rdev g'"
proof -
  let ?body = "\<lambda>_. bnd (getg (\<lambda>g. \<not> ept_sem g)) (\<lambda>t. if t then seq (bnd (ext (iv_wait lib))
       (\<lambda>bs. updg (fold (\<lambda>(name, dest). ns_bind_cb name dest) bs))) (ret (Inl ())) else ret (Inr ()))"
  from assms(1) obtain h v where h: "iter n ?body () (g, w) = Done ((), (h, v))" "g' = h\<lparr>ept_sem := False\<rparr>"
    by (auto simp: wait_bound_def while_loop_def obind_eq_Done_iff)
  have base: "bound_inv g g" using assms(2) by (simp add: bound_inv_def)
  have "(\<lambda>r (h, v). bound_inv g h \<and> ept_sem h) () (h, v)"
    by (rule iter_inv [OF h(1), where I = "\<lambda>_ (h, v). bound_inv g h"])
      (auto simp: base bound_inv_fold split: if_splits)
  with h(2) show ?thesis by (simp add: bound_inv_def)
qed

lemma iv_frame [simp]:
  "geometry (g\<lparr>ev_thread := b\<rparr>) = geometry g" "geometry (g\<lparr>io := b\<rparr>) = geometry g"
  by (simp_all add: geometry_def)

text \<open>The second part of the initialisation, run on queues that are allocated.\<close>

lemma init_vdev_ready:
  assumes "init_vdev n master lib (g, w) = Done (0, (g', w'))" and "ept_sem g \<longrightarrow> ivshmem_rdev g"
  shows "geometry g' = geometry (place_vrings g) \<and> rvdev_ready g' \<and> (master \<longrightarrow> ivshmem_rdev g')"
proof -
  let ?g = "(place_vrings g)\<lparr>vrole := Some (if master then RPMSG_HOST else RPMSG_REMOTE), rvdev_ready := True\<rparr>"
  have "ept_sem ?g = ept_sem g" "ivshmem_rdev ?g = ivshmem_rdev g" by (simp_all add: place_vrings_def Let_def)
  with assms(2) have e: "ept_sem ?g \<longrightarrow> ivshmem_rdev ?g" by simp
  show ?thesis
  proof (cases master)
    case True
    with assms(1) obtain v a where "wait_bound n lib (?g, v) = Done (a, (g', w'))"
      by (auto simp: init_vdev_def Let_def obind_eq_Done_iff split: if_splits)
    from wait_bound_keeps [OF this e] show ?thesis by simp
  next
    case False
    with assms(1) show ?thesis by (auto simp: init_vdev_def Let_def split: if_splits)
  qed
qed

text \<open>The whole initialisation: what it has done when it returns 0 with the device initialised.\<close>

lemma init_backend_ready:
  assumes run: "init_ivshmem_backend n doorbell master lib (iv_boot, w) = Done (0, (g, w'))" and "rvdev_ready g"
  shows "geometry g = geometry (place_vrings ((map_shmem (iv_get_mem lib w) iv_boot)\<lparr>vq := [True, True]\<rparr>)) \<and>
     (master \<longrightarrow> ivshmem_rdev g)"
proof -
  let ?g0 = "(map_shmem (iv_get_mem lib w) iv_boot)\<lparr>ev_thread := True, io := True, vq := [True, True]\<rparr>"
  have nb: "\<not> rvdev_ready (map_shmem m iv_boot)" "\<not> ept_sem (map_shmem m iv_boot)" "vq (map_shmem m iv_boot) = [False, False]" for m
    by (simp_all add: map_shmem_def iv_boot_def split: prod.split)
  have "\<exists>v. init_vdev n master lib (?g0, v) = Done (0, (g, w'))"
    using run assms(2)
    by (auto simp: init_ivshmem_backend_def virtio_set_status_def nb split: if_splits)
  then obtain v where "init_vdev n master lib (?g0, v) = Done (0, (g, w'))" by blast
  from init_vdev_ready [OF this] have
    "geometry g = geometry (place_vrings ?g0) \<and> rvdev_ready g \<and> (master \<longrightarrow> ivshmem_rdev g)" by (simp add: nb)
  moreover have "geometry (place_vrings ?g0) = geometry (place_vrings ((map_shmem (iv_get_mem lib w) iv_boot)\<lparr>vq := [True, True]\<rparr>))"
    by (simp add: geometry_def place_vrings_def Let_def)
  ultimately show ?thesis by simp
qed

text \<open>
  The layout as numbers.  The shared pool is handed over as the whole rest of the memory, rings included; of
  it the two queues of 16 descriptors use 32 buffers of 512 bytes.
\<close>

lemma layout_numbers:
  fixes h :: iv_state
  assumes "0x4C00 \<le> unat sz" and "unat base + unat sz < 2 ^ 64"
  defines "g \<equiv> place_vrings (map_shmem (base, sz) h)"
  shows "unat (shmem_base g) = unat base + 0x400"
    and "unat (vaddr (rvrings g ! 0)) = unat base + unat sz - 0x800"
    and "unat (vaddr (rvrings g ! 1)) = unat base + unat sz - 0x400"
proof -
  have s: "unat (sz - 0x400) = unat sz - 0x400" using assms(1) by (simp add: unat_sub word_le_nat_alt)
  have a: "unat (base + (sz - 0x400)) = unat base + (unat sz - 0x400)"
    using assms(1,2) s by (simp add: unat_word_ariths)
  show "unat (shmem_base g) = unat base + 0x400"
    using assms(1,2) by (simp add: g_def map_shmem_def place_vrings_def VDEV_STATUS_SIZE_def Let_def unat_word_ariths)
  show "unat (vaddr (rvrings g ! 1)) = unat base + unat sz - 0x400"
    using a assms(1) by (simp add: g_def map_shmem_def place_vrings_def VDEV_STATUS_SIZE_def Let_def)
  have "0x400 \<le> base + (sz - 0x400)" using a assms(1) by (simp add: word_le_nat_alt)
  then have "unat (base + (sz - 0x400) - 0x400) = unat base + (unat sz - 0x400) - 0x400"
    using a by (simp only: unat_sub) simp
  then show "unat (vaddr (rvrings g ! 0)) = unat base + unat sz - 0x800"
    using assms(1) by (simp add: g_def map_shmem_def place_vrings_def VDEV_STATUS_SIZE_def Let_def)
qed

text \<open>
  C19. When the backend returns 0 with its device initialised, on the host or on the remote, both queues
  are allocated, so a doorbell is served; the host has the device of the bind; and for
  a shared memory of at least 0x4C00 bytes the status byte, the 32 buffers and the two rings (a
  ring of up to 0x400 bytes) lie one after the other, apart from each other and inside the memory, at offsets that only
  depend on the size, hence at the same places for both sides.
\<close>

theorem ivshmem_backend_ready:
  assumes "init_ivshmem_backend n doorbell master lib (iv_boot, w) = Done (0, (g, w'))" and "rvdev_ready g"
    and "iv_get_mem lib w = (base, sz)" and "0x4C00 \<le> unat sz" and "unat base + unat sz < 2 ^ 64"
  defines "off \<equiv> \<lambda>a. unat a - unat base"
  shows "event_loop_pass lib master (g, v) = Done ((), (g, iv_notification lib (VIRTQUEUE_ID master) (iv_poll lib v))) \<and>
    get_rpmsg_ivshmem_device master g \<and>
    off (vdev_status_base g) = 0 \<and> off (shmem_base g) = 0x400 \<and>
    off (shmem_base g) + 32 * 512 \<le> off (vaddr (rvrings g ! 0)) \<and>
    off (vaddr (rvrings g ! 0)) + 0x400 = off (vaddr (rvrings g ! 1)) \<and>
    off (vaddr (rvrings g ! 1)) + 0x400 = unat sz"
proof -
  note r = init_backend_ready [OF assms(1,2), unfolded assms(3)]
  let ?h = "place_vrings ((map_shmem (base, sz) iv_boot)\<lparr>vq := [True, True]\<rparr>)"
  let ?k = "place_vrings (map_shmem (base, sz) iv_boot)"
  have g: "vdev_status_base g = vdev_status_base ?h" "shmem_base g = shmem_base ?h" "rvrings g = rvrings ?h" "vq g = vq ?h"
    using r by (simp_all add: geometry_def)
  have h: "vdev_status_base ?h = base" "shmem_base ?h = shmem_base ?k" "rvrings ?h = rvrings ?k" "vq ?h = [True, True]"
    by (simp_all add: place_vrings_def map_shmem_def Let_def)
  have e: "event_loop_pass lib master (g, v) = Done ((), (g, iv_notification lib (VIRTQUEUE_ID master) (iv_poll lib v)))"
    using g(4) h(4) by (simp add: event_loop_pass_def VIRTQUEUE_ID_def)
  have d: "get_rpmsg_ivshmem_device master g" using r by (simp add: get_rpmsg_ivshmem_device_def)
  note n = layout_numbers [OF assms(4,5), of iv_boot]
  have v: "off (vdev_status_base g) = 0" by (simp add: off_def g(1) h(1))
  have b: "off (shmem_base g) = 0x400" by (simp add: off_def g(2) h(2) n(1))
  have 0: "off (vaddr (rvrings g ! 0)) = unat sz - 0x800" and 1: "off (vaddr (rvrings g ! 1)) = unat sz - 0x400"
    using assms(4) by (simp_all add: off_def g(3) h(3) n(2) n(3) [simplified])
  from b 0 1 assms(4) have "off (shmem_base g) + 32 * 512 \<le> off (vaddr (rvrings g ! 0))"
    "off (vaddr (rvrings g ! 0)) + 0x400 = off (vaddr (rvrings g ! 1))"
    "off (vaddr (rvrings g ! 1)) + 0x400 = unat sz" by simp_all
  with e d v b show ?thesis by blast
qed

text \<open>A region that is missing is reported as success: \<open>status\<close> still holds the last 0.\<close>

lemma init_backend_no_region:
  assumes "fst (iv_metal_init lib v) = 0" and "fst (iv_register_device lib v) = 0" and "fst (iv_device_open lib v) = 0"
    and "\<And>w. snd (iv_metal_init lib w) = w" "\<And>w. snd (iv_register_device lib w) = w" "\<And>w. snd (iv_device_open lib w) = w"
    and "\<not> iv_io_region lib v"
  shows "\<exists>g. init_ivshmem_backend n True False lib (iv_boot, v) = Done (0, (g, v)) \<and> \<not> rvdev_ready g \<and>
    get_rpmsg_ivshmem_device False g"
  using assms by (auto simp: init_ivshmem_backend_def get_rpmsg_ivshmem_device_def map_shmem_def iv_boot_def split: prod.split)

text \<open>The event loop runs before the queues exist: a doorbell in that time follows a null pointer.\<close>

lemma event_loop_before_queues:
  "event_loop_pass lib master ((map_shmem mem iv_boot)\<lparr>ev_thread := True\<rparr>, w) = Fault Null_deref"
  by (simp add: event_loop_pass_def map_shmem_def iv_boot_def VIRTQUEUE_ID_def split: prod.split)

text \<open>The doorbells of the two sides reach each other.\<close>

lemma peer_dest_id_inverse: "peer_dest_id False (peer_dest_id True k) = k" "peer_dest_id True (peer_dest_id False k) = k"
  by (simp_all add: peer_dest_id_def)

section \<open>The shell command\<close>

text \<open>A wait for the semaphore returns, when the messages that come in are strings.\<close>

lemma host_callbacks_run:
  "list_all (\<lambda>m. 0 \<in> set m) ms \<Longrightarrow> host_callbacks ms (g, w) = Done ((),
     (g\<lparr>number_of_completed_msgs := number_of_completed_msgs g + int (length ms), rx_sem := rx_sem g \<or> ms \<noteq> []\<rparr>, w))"
  by (induction ms arbitrary: g) (simp_all add: host_endpoint_cb_def print_string_def)

lemma host_callbacks_fault:
  "\<not> list_all (\<lambda>m. 0 \<in> set m) ms \<Longrightarrow> host_callbacks ms (g, w) = Fault Out_of_bounds"
  by (induction ms arbitrary: g) (auto simp: host_endpoint_cb_def print_string_def)

definition all_strings :: "'w host_lib \<Rightarrow> bool" where
  "all_strings lib \<longleftrightarrow> (\<forall>w. list_all (\<lambda>m. 0 \<in> set m) (fst (h_arrives lib w)))"

lemma take_rx_sem_run:
  "(\<exists>r g' w'. take_rx_sem lib (g, w) = Done (r, (g', w')) \<and> (r = 0 \<or> r = - EAGAIN)) \<or>
   take_rx_sem lib (g, w) = Fault Out_of_bounds \<and> \<not> all_strings lib"
proof (cases "list_all (\<lambda>m. 0 \<in> set m) (fst (h_arrives lib w))")
  case True
  then show ?thesis by (simp add: take_rx_sem_def host_callbacks_run)
next
  case False
  then have "\<not> all_strings lib" by (auto simp: all_strings_def)
  then show ?thesis by (cases "rx_sem g") (simp_all add: take_rx_sem_def host_callbacks_fault [OF False])
qed

text \<open>
  The outcomes of one pass with \<open>c\<close> messages left: the command is over; the peer's message has no end, which the print runs
  past; the counter overflows; or there is one message less to send.
\<close>

lemma send_pass_cases:
  obtains (over) r s' where "send_pass lib str c s = Done (Inr r, s')" and "r \<le> 0"
  | (no_string) "send_pass lib str c s = Fault Out_of_bounds" and "\<not> all_strings lib"
  | (overflow) "send_pass lib str c s = Fault Signed_overflow" and "c = - (2 ^ 31)"
  | (next_one) s' where "send_pass lib str c s = Done (Inl (c - 1), s')" and "c \<noteq> 1" and "c \<noteq> - (2 ^ 31)"
proof -
  obtain g w where s: "s = (g, w)" by (cases s)
  obtain r w1 where r: "h_send lib str w = (r, w1)" by fastforce
  show thesis
  proof (cases "r < 0")
    case True
    with s r show thesis by (intro over [of r "(g, w1)"]) (simp_all add: send_pass_def)
  next
    case False
    from take_rx_sem_run [of lib g w1] show thesis
    proof (elim disjE exE conjE)
      fix q g' w2 assume t: "take_rx_sem lib (g, w1) = Done (q, (g', w2))" "q = 0"
      with s r False over next_one overflow show thesis
        by (cases "c = 1"; cases "c = - (2 ^ 31)") (auto simp: send_pass_def)
    next
      fix q g' w2 assume t: "take_rx_sem lib (g, w1) = Done (q, (g', w2))" "q = - EAGAIN"
      with s r False show thesis by (intro over [of "- EAGAIN" "(g', w2)"]) (simp_all add: send_pass_def)
    next
      assume "take_rx_sem lib (g, w1) = Fault Out_of_bounds" "\<not> all_strings lib"
      with s r False show thesis by (intro no_string) (simp_all add: send_pass_def)
    qed
  qed
qed

text \<open>The number of passes that a count allows.\<close>

definition passes :: "int \<Rightarrow> nat" where
  "passes c = (if 0 < c then nat c else nat (c + 2 ^ 31 + 1))"

text \<open>
  C20. The send command ends, whatever the library and the peer do.  Asked for a positive number of messages, it returns 0 or a negative
  error code after at most that many passes, unless the peer sends a message without a zero byte, which the callback prints past its
  end.  Asked for none or a negative number, it may go on for \<open>2 ^ 31\<close> passes, because the counter is compared with 0 after it has been decremented,
  and then overflows.
\<close>

theorem cmd_send_terminates:
  assumes "passes (to_int32 count) \<le> n"
  shows "(\<exists>r s'. cmd_rpmsg_ivshmem_send n lib str count s = Done (r, s') \<and> r \<le> 0) \<or>
    cmd_rpmsg_ivshmem_send n lib str count s = Fault Out_of_bounds \<and> \<not> all_strings lib \<or>
    cmd_rpmsg_ivshmem_send n lib str count s = Fault Signed_overflow \<and> to_int32 count \<le> 0"
proof -
  let ?ends = "\<lambda>c x. (\<exists>r s'. x = Done (r, s') \<and> r \<le> 0) \<or> x = Fault Out_of_bounds \<and> \<not> all_strings lib \<or> x = Fault Signed_overflow \<and> c \<le> 0"
  have loop: "?ends c (iter n (send_pass lib str) c s)" if "passes c \<le> n" "- (2 ^ 31) \<le> c" for c s
    using that
  proof (induction n arbitrary: c s)
    case 0
    then show ?case by (auto simp: passes_def split: if_splits)
  next
    case (Suc n)
    show ?case
    proof (cases rule: send_pass_cases [of lib str c s])
      case (next_one s')
      then have "passes (c - 1) \<le> n" "- (2 ^ 31) \<le> c - 1" "c - 1 \<le> 0 \<longrightarrow> c \<le> 0"
        using Suc.prems by (auto simp: passes_def split: if_splits)
      with Suc.IH [of "c - 1" s'] next_one(1) show ?thesis by auto
    qed auto
  qed
  have "- (2 ^ 31) \<le> to_int32 count" using sint_ge [of "word_of_int count :: u32"] by (simp add: to_int32_def)
  with loop [OF assms] show ?thesis by (cases s) (auto simp: cmd_rpmsg_ivshmem_send_def)
qed

text \<open>
  What the remote sends for a message: its callback run on an empty log.  A link between the two applications
  brings every message to the remote and every answer back within the five seconds.
\<close>

definition remote_replies :: "bytes \<Rightarrow> bytes list" where
  "remote_replies m = (case remote_endpoint_cb (\<lambda>d l. (int (length d), l @ [d])) m ((), []) of
     Done (_, (_, l)) \<Rightarrow> l | _ \<Rightarrow> [])"

definition iv_link :: "'w host_lib \<Rightarrow> ('w \<Rightarrow> bytes list) \<Rightarrow> bool" where
  "iv_link lib pend \<longleftrightarrow>
     (\<forall>m w r w'. h_send lib m w = (r, w') \<longrightarrow> 0 \<le> r \<and> pend w' = pend w @ remote_replies m) \<and>
     (\<forall>w ms w'. h_arrives lib w = (ms, w') \<longrightarrow> ms = pend w \<and> pend w' = [])"

lemma remote_replies_string: "0 \<in> set m \<Longrightarrow> remote_replies m = [m]"
  by (simp add: remote_replies_def remote_endpoint_cb_def print_string_def)

lemma send_pass_link:
  assumes link: "iv_link lib pend" and "0 \<in> set str" and "pend w = []" and "\<not> rx_sem g" and "c \<noteq> - (2 ^ 31)"
  shows "\<exists>w'. send_pass lib str c (g, w) = Done (if c = 1 then Inr 0 else Inl (c - 1),
     (g\<lparr>number_of_completed_msgs := number_of_completed_msgs g + 1\<rparr>, w')) \<and> pend w' = []"
proof -
  obtain r w1 where r: "h_send lib str w = (r, w1)" by fastforce
  with link assms(2,3) have w1: "0 \<le> r" "pend w1 = [str]" by (auto simp: iv_link_def remote_replies_string)
  obtain ms w2 where a: "h_arrives lib w1 = (ms, w2)" by fastforce
  with link w1 have w2: "ms = [str]" "pend w2 = []" by (auto simp: iv_link_def)
  have "g\<lparr>number_of_completed_msgs := k, rx_sem := False\<rparr> = g\<lparr>number_of_completed_msgs := k\<rparr>" for k
    using assms(4) by simp
  with r w1 a w2 assms show ?thesis
    by (simp add: send_pass_def take_rx_sem_def host_endpoint_cb_def print_string_def)
qed

text \<open>
  C21. Host and remote together: with the endpoint up and nothing under way, the command sends the string
  as often as it is told, gets it back every time, and returns 0 with exactly that number of completed messages.
\<close>

theorem ivshmem_echo_ok:
  assumes link: "iv_link lib pend" and "0 \<in> set str" and "pend w = []" and "rpmsg_dev g" and "\<not> rx_sem g"
    and "0 < to_int32 count" and "nat (to_int32 count) \<le> n"
  shows "\<exists>w'. cmd_rpmsg_ivshmem_send n lib str count (g, w) =
     Done (0, (g\<lparr>number_of_completed_msgs := to_int32 count\<rparr>, w')) \<and> pend w' = []"
proof -
  have "\<exists>w'. iter n (send_pass lib str) c (g\<lparr>number_of_completed_msgs := k\<rparr>, w) =
      Done (0, (g\<lparr>number_of_completed_msgs := k + c\<rparr>, w')) \<and> pend w' = []"
    if "0 < c" "nat c \<le> n" "pend w = []" for c k w
    using that
  proof (induction n arbitrary: c k w)
    case 0
    then show ?case by simp
  next
    case (Suc n)
    from send_pass_link [OF link assms(2) Suc.prems(3), of "g\<lparr>number_of_completed_msgs := k\<rparr>" c] assms(5) Suc.prems
    obtain w' where w': "send_pass lib str c (g\<lparr>number_of_completed_msgs := k\<rparr>, w) =
        Done (if c = 1 then Inr 0 else Inl (c - 1), (g\<lparr>number_of_completed_msgs := k + 1\<rparr>, w'))" "pend w' = []"
      by auto
    show ?case
    proof (cases "c = 1")
      case True
      with w' show ?thesis by simp
    next
      case False
      with Suc.IH [of "c - 1" w' "k + 1"] Suc.prems w' show ?thesis by auto
    qed
  qed
  from this [of "to_int32 count" w 0] assms show ?thesis by (simp add: cmd_rpmsg_ivshmem_send_def)
qed

text \<open>
  Asked for no message, or a negative number of them, the command sends on and on: the counter
  is only compared with 0 after it has been decremented.
\<close>

lemma cmd_send_nonpositive:
  assumes link: "iv_link lib pend" and "0 \<in> set str" and "pend w = []" and "rpmsg_dev g" and "\<not> rx_sem g"
    and "to_int32 count \<le> 0" and "int n \<le> to_int32 count + 2 ^ 31"
  shows "cmd_rpmsg_ivshmem_send n lib str count (g, w) = Blocked"
proof -
  have "iter n (send_pass lib str) c (g, w) = Blocked"
    if "c \<le> 0" "int n \<le> c + 2 ^ 31" "pend w = []" "\<not> rx_sem g" for c g w
    using that
  proof (induction n arbitrary: c g w)
    case 0
    then show ?case by simp
  next
    case (Suc n)
    then obtain w' where "send_pass lib str c (g, w) =
        Done (Inl (c - 1), (g\<lparr>number_of_completed_msgs := number_of_completed_msgs g + 1\<rparr>, w'))" "pend w' = []"
      using send_pass_link [OF link assms(2), of w g c] by auto
    with Suc.IH [of "c - 1" w'] Suc.prems show ?case by simp
  qed
  with assms show ?thesis by (simp add: cmd_rpmsg_ivshmem_send_def)
qed

section \<open>Concrete instances\<close>

definition loop_host :: "bytes list host_lib" where
  "loop_host = \<lparr>h_create_ept = (\<lambda>name dst w. (0, w)), h_send = (\<lambda>m w. (int (length m), w @ remote_replies m)),
     h_arrives = (\<lambda>w. (w, []))\<rparr>"

lemma loop_host_link: "iv_link loop_host (\<lambda>w. w)"
  by (simp add: iv_link_def loop_host_def)

definition host_up :: host_state where
  "host_up = \<lparr>backend = iv_boot, rpmsg_dev = True, number_of_completed_msgs = 0, rx_sem = False\<rparr>"

lemma ivshmem_echo_ok_witness:
  "\<exists>w'. cmd_rpmsg_ivshmem_send 3 loop_host [104, 105, 0] 3 (host_up, []) =
     Done (0, (host_up\<lparr>number_of_completed_msgs := 3\<rparr>, w')) \<and> w' = []"
  using ivshmem_echo_ok [OF loop_host_link, of "[104, 105, 0]" "[]" host_up 3 3] to_int32_id [of 3]
  by (simp add: host_up_def)

text \<open>A peer that never answers: the command gives up after one message.\<close>

definition mute_host :: "unit host_lib" where
  "mute_host = \<lparr>h_create_ept = (\<lambda>name dst w. (0, w)), h_send = (\<lambda>m w. (1, w)), h_arrives = (\<lambda>w. ([], w))\<rparr>"

lemma cmd_send_terminates_witness:
  "(\<exists>r s'. cmd_rpmsg_ivshmem_send 5 mute_host [0] 5 (host_up, ()) = Done (r, s') \<and> r \<le> 0)"
proof -
  have "all_strings mute_host" by (simp add: all_strings_def mute_host_def)
  then show ?thesis using cmd_send_terminates [of 5 5 mute_host "[0]" "(host_up, ())"] to_int32_id [of 5] by (simp add: passes_def)
qed

definition demo_iv :: "unit iv_lib" where
  "demo_iv = \<lparr>DRIVER_OK = 4, F_NS = 0, iv_get_mem = (\<lambda>w. (0x10000000, 0x400000)), iv_get_id = (\<lambda>w. 0),
     iv_int_peer = (\<lambda>k w. w), iv_register_handler = (\<lambda>w. (0, w)), iv_read8 = (\<lambda>a w. 4), iv_write8 = (\<lambda>b a w. w),
     iv_metal_init = (\<lambda>w. (0, w)), iv_register_device = (\<lambda>w. (0, w)), iv_device_open = (\<lambda>w. (0, w)),
     iv_io_region = (\<lambda>w. True), iv_vq_allocate = (\<lambda>n w. (True, w)), iv_init_shm_pool = (\<lambda>b s w. w),
     iv_init_vdev = (\<lambda>r vs w. (0, w)), iv_wait = (\<lambda>w. ([(''k'', 1024)], w)), iv_poll = (\<lambda>w. w),
     iv_notification = (\<lambda>q w. w)\<rparr>"

definition demo_up :: iv_state where
  "demo_up = (place_vrings (map_shmem (0x10000000, 0x400000) iv_boot))\<lparr>io := True, vq := [True, True], ev_thread := True,
     vrole := Some RPMSG_HOST, rvdev_ready := True, ivshmem_rdev := True, remote_endpoint_dst_addr := 1024\<rparr>"

lemma demo_iv_init: "init_ivshmem_backend (Suc (Suc 0)) True True demo_iv (iv_boot, ()) = Done (0, (demo_up, ()))"
proof -
  have "to_int32 1024 = 1024" by (rule to_int32_id) simp_all
  then show ?thesis
    by (simp add: init_ivshmem_backend_def init_vdev_def wait_bound_def while_loop_def demo_iv_def demo_up_def ns_bind_cb_def
        map_shmem_def place_vrings_def iv_boot_def virtio_set_status_def Let_def)
qed

lemma ivshmem_backend_ready_witness:
  "event_loop_pass demo_iv True (demo_up, ()) = Done ((), (demo_up, ())) \<and> get_rpmsg_ivshmem_device True demo_up \<and>
   unat (vaddr (rvrings demo_up ! 1)) - 0x10000000 + 0x400 = 0x400000"
proof -
  have up: "rvdev_ready demo_up" by (simp add: demo_up_def)
  have m: "iv_get_mem demo_iv () = (0x10000000, 0x400000)" by (simp add: demo_iv_def)
  from ivshmem_backend_ready [OF demo_iv_init up m] show ?thesis by (simp add: demo_iv_def)
qed

end
