(* ===== verification/Load_Fw.thy ===== *)
theory Load_Fw
  imports Amp_Prelude "HOL-Library.Multiset"
begin

text \<open>
  The firmware loader, \<open>examples/load_fw\<close>: the life cycle operations of the three kinds of target
  (\<open>zynqmp_rpu_lcm_rproc_example.c\<close>, \<open>zynqmp_apu_lcm_rproc_example.c\<close> and the older
  \<open>zynqmp_r5_lcm_rproc_example.c\<close>), the image store in memory (\<open>mem_image_store.c\<close>), the
  set-up (\<open>platform_info.c\<close>) and the two ways of loading with \<open>main\<close> (\<open>load_fw.c\<close>).  It runs on a
  Cortex-R5: addresses and sizes have 32 bits and the memory is flat.
\<close>

section \<open>Data\<close>

type_synonym paddr = u32

definition METAL_BAD_PHYS :: paddr where "METAL_BAD_PHYS = - 1"

text \<open>The node numbers come from the headers of the vendor, different ones for ZynqMP and Versal.\<close>

record node_ids =
  NODE_RPU :: nat
  NODE_RPU_0 :: nat
  NODE_RPU_1 :: nat
  NODE_APU_0 :: nat
  NODE_APU_1 :: nat

datatype mem_node = TCM_0_A | TCM_0_B | TCM_1_A | TCM_1_B | DDR | OCM_BANK_0 | OCM_BANK_1 | OCM_BANK_2 | OCM_BANK_3

text \<open>A \<open>remoteproc_mem\<close> with its region; the two blocks of memory they lie in are named by numbers.\<close>

record rmem =
  m_pa :: paddr
  m_da :: paddr
  m_size :: u32
  m_block :: nat
  m_io_block :: nat

text \<open>The \<open>remoteproc\<close> instance, its private data (block and processor), and the memory.\<close>

record fw_globals =
  fw_priv :: "(nat \<times> nat) option"
  fw_mems :: "rmem list"
  fw_ready :: bool
  fw_bootaddr :: paddr
  ram :: "nat \<Rightarrow> byte"

type_synonym ('w, 'a) fwprog = "(fw_globals \<times> 'w, 'a) prog"

text \<open>Calls into libmetal and the power management of the vendor.  A region is given by its start and size.\<close>

record 'w fwlib =
  f_alloc :: "'w \<Rightarrow> nat option \<times> 'w"
  f_free :: "nat \<Rightarrow> 'w \<Rightarrow> 'w"
  f_phys :: "paddr \<times> u32 \<Rightarrow> u32 \<Rightarrow> paddr"
  f_phys_to_virt :: "paddr \<times> u32 \<Rightarrow> paddr \<Rightarrow> nat option"
  f_phys_to_offset :: "paddr \<times> u32 \<Rightarrow> paddr \<Rightarrow> u32"
  f_block_set :: "paddr \<times> u32 \<Rightarrow> u32 \<Rightarrow> byte \<Rightarrow> nat \<Rightarrow> (nat \<Rightarrow> byte) \<Rightarrow> (nat \<Rightarrow> byte)"
  rpu_read32 :: "nat \<Rightarrow> 'w \<Rightarrow> u32"
  rpu_write32 :: "nat \<Rightarrow> u32 \<Rightarrow> 'w \<Rightarrow> 'w"
  XPm_RequestNode :: "mem_node \<Rightarrow> 'w \<Rightarrow> 'w"
  XPm_ReleaseNode :: "mem_node \<Rightarrow> 'w \<Rightarrow> 'w"
  XPm_RequestWakeUp :: "nat \<Rightarrow> u32 \<Rightarrow> 'w \<Rightarrow> int \<times> 'w"
  XPm_ForcePowerDown :: "nat \<Rightarrow> 'w \<Rightarrow> int \<times> 'w"

section \<open>Steps the three targets share\<close>

definition fw_cpu :: "('w, nat) fwprog" where
  "fw_cpu = bnd (getg fw_priv) (\<lambda>p. case p of None \<Rightarrow> fail Null_deref | Some (m, cpu) \<Rightarrow> ret cpu)"

definition alloc_priv :: "'w fwlib \<Rightarrow> nat \<Rightarrow> ('w, bool) fwprog" where
  "alloc_priv lib cpu_id =
     bnd (ext (f_alloc lib)) (\<lambda>p. case p of None \<Rightarrow> ret False | Some m \<Rightarrow>
     seq (updg (\<lambda>g. g\<lparr>fw_priv := Some (m, cpu_id), fw_ready := True\<rparr>)) (ret True))"

definition free_priv :: "'w fwlib \<Rightarrow> ('w, unit) fwprog" where
  "free_priv lib = bnd (getg fw_priv) (\<lambda>p. case p of None \<Rightarrow> ret () | Some (m, cpu) \<Rightarrow> extU (f_free lib m))"

definition request_nodes :: "'w fwlib \<Rightarrow> mem_node list \<Rightarrow> ('w, unit) fwprog" where
  "request_nodes lib ns = extU (fold (XPm_RequestNode lib) ns)"

definition release_nodes :: "'w fwlib \<Rightarrow> mem_node list \<Rightarrow> ('w, unit) fwprog" where
  "release_nodes lib ns = extU (fold (XPm_ReleaseNode lib) ns)"

text \<open>The new region and its entry in the list; the result is the virtual address, with the two addresses.\<close>

definition add_region :: "'w fwlib \<Rightarrow> paddr \<Rightarrow> paddr \<Rightarrow> u32 \<Rightarrow> ('w, (nat option \<times> paddr \<times> paddr) option) fwprog" where
  "add_region lib lpa lda sz =
     bnd (ext (f_alloc lib)) (\<lambda>p. case p of None \<Rightarrow> ret None | Some m \<Rightarrow>
     bnd (ext (f_alloc lib)) (\<lambda>q. case q of None \<Rightarrow> seq (extU (f_free lib m)) (ret None) | Some i \<Rightarrow>
     seq (updg (\<lambda>g. g\<lparr>fw_mems := fw_mems g @ [\<lparr>m_pa = lpa, m_da = lda, m_size = sz, m_block = m, m_io_block = i\<rparr>]\<rparr>))
         (ret (Some (f_phys_to_virt lib (lpa, sz) lpa, lpa, lda)))))"

text \<open>The end of a region as the shutdown operations compute it, and taking the first entry off the list.\<close>

definition region_end :: "'w fwlib \<Rightarrow> rmem \<Rightarrow> paddr" where
  "region_end lib m = f_phys lib (m_pa m, m_size m) (m_size m)"

definition drop_mem :: "'w fwlib \<Rightarrow> rmem \<Rightarrow> ('w, unit) fwprog" where
  "drop_mem lib m =
     seq (updg (\<lambda>g. g\<lparr>fw_mems := tl (fw_mems g)\<rparr>))
    (seq (extU (f_free lib (m_io_block m))) (extU (f_free lib (m_block m))))"

definition power_down :: "'w fwlib \<Rightarrow> nat \<Rightarrow> ('w, int) fwprog" where
  "power_down lib cpu = bnd (ext (XPm_ForcePowerDown lib cpu)) (\<lambda>r. ret (if r \<noteq> 0 then - 1 else 0))"

section \<open>RPU\<close>

definition rpu_rproc_init :: "node_ids \<Rightarrow> 'w fwlib \<Rightarrow> nat \<Rightarrow> ('w, bool) fwprog" where
  "rpu_rproc_init ids lib cpu_id =
     (if cpu_id < NODE_RPU_0 ids \<or> NODE_RPU_1 ids < cpu_id then ret False else alloc_priv lib cpu_id)"

definition rpu_rproc_remove :: "'w fwlib \<Rightarrow> ('w, unit) fwprog" where
  "rpu_rproc_remove lib = free_priv lib"

text \<open>
  The banks of tightly coupled memory behind the device addresses from \<open>lda\<close> to \<open>lda_end\<close>, with the physical
  address of \<open>lda\<close>; \<open>None\<close> for a processor that is no RPU.
\<close>

definition tcm_banks :: "node_ids \<Rightarrow> nat \<Rightarrow> paddr \<Rightarrow> paddr \<Rightarrow> (paddr \<times> mem_node list) option" where
  "tcm_banks ids cpu lda lda_end =
     (if cpu = NODE_RPU_0 ids \<or> cpu = NODE_RPU ids then
        Some (0xFFE00000 + lda,
          (if lda < 0x10000 then [TCM_0_A] else []) @
          (if lda \<le> 0x20000 \<and> 0x10000 \<le> lda_end then [TCM_1_A] else []) @
          (if lda \<le> 0x30000 \<and> 0x20000 \<le> lda_end then [TCM_0_B] else []) @
          (if lda \<le> 0x40000 \<and> 0x30000 \<le> lda_end then [TCM_1_B] else []))
      else if cpu = NODE_RPU_1 ids then
        Some (0xFFE90000 + lda,
          (if lda < 0x10000 then [TCM_1_A] else []) @
          (if lda \<le> 0x30000 \<and> 0x20000 \<le> lda_end then [TCM_1_B] else []))
      else None)"

definition rpu_rproc_mmap :: "node_ids \<Rightarrow> 'w fwlib \<Rightarrow> paddr option \<Rightarrow> paddr option \<Rightarrow> u32 \<Rightarrow>
    ('w, (nat option \<times> paddr \<times> paddr) option) fwprog" where
  "rpu_rproc_mmap ids lib pa da sz = (case (pa, da) of
       (Some lpa, Some lda) \<Rightarrow>
         if lda = METAL_BAD_PHYS \<and> lpa = METAL_BAD_PHYS then ret None
         else let lda_end = lda + sz in
           if lda \<le> 0x40000 then
             bnd fw_cpu (\<lambda>cpu. case tcm_banks ids cpu lda lda_end of
                 None \<Rightarrow> ret None
               | Some (lpa', banks) \<Rightarrow> seq (request_nodes lib banks) (add_region lib lpa' lda sz))
           else add_region lib lpa lda sz
     | _ \<Rightarrow> ret None)"

definition rpu_rproc_start :: "'w fwlib \<Rightarrow> ('w, int) fwprog" where
  "rpu_rproc_start lib =
     bnd fw_cpu (\<lambda>cpu. bnd (getg fw_bootaddr) (\<lambda>a.
     bnd (ext (XPm_RequestWakeUp lib cpu a)) (\<lambda>r. ret (if r \<noteq> 0 then - 1 else 0))))"

definition rpu_rproc_stop :: "('w, int) fwprog" where
  "rpu_rproc_stop = ret 0"

text \<open>The banks that the shutdown releases for a region from \<open>pa\<close> to \<open>pa_end\<close>.\<close>

definition rpu_released :: "node_ids \<Rightarrow> nat \<Rightarrow> paddr \<Rightarrow> paddr \<Rightarrow> mem_node list option" where
  "rpu_released ids cpu pa pa_end =
     (if pa \<le> 0x40000 then map_option snd (tcm_banks ids cpu pa pa_end) else Some [])"

fun rpu_shutdown_mems :: "node_ids \<Rightarrow> 'w fwlib \<Rightarrow> nat \<Rightarrow> rmem list \<Rightarrow> ('w, int) fwprog" where
  "rpu_shutdown_mems ids lib cpu [] = power_down lib cpu"
| "rpu_shutdown_mems ids lib cpu (m # ms) =
     seq (drop_mem lib m)
    (case rpu_released ids cpu (m_pa m) (region_end lib m) of
       None \<Rightarrow> ret (- EINVAL)
     | Some banks \<Rightarrow> seq (release_nodes lib banks) (rpu_shutdown_mems ids lib cpu ms))"

definition rpu_rproc_shutdown :: "node_ids \<Rightarrow> 'w fwlib \<Rightarrow> ('w, int) fwprog" where
  "rpu_rproc_shutdown ids lib = bnd fw_cpu (\<lambda>cpu. bnd (getg fw_mems) (rpu_shutdown_mems ids lib cpu))"

section \<open>APU\<close>

definition apu_rproc_init :: "node_ids \<Rightarrow> 'w fwlib \<Rightarrow> nat \<Rightarrow> ('w, bool) fwprog" where
  "apu_rproc_init ids lib cpu_id =
     (if cpu_id < NODE_APU_0 ids \<or> NODE_APU_1 ids < cpu_id then ret False else alloc_priv lib cpu_id)"

definition apu_rproc_remove :: "'w fwlib \<Rightarrow> ('w, unit) fwprog" where
  "apu_rproc_remove lib = free_priv lib"

text \<open>The nodes of DDR and on-chip memory that a range touches; the two uses differ in the limit for DDR.\<close>

definition ocm_banks :: "paddr \<Rightarrow> paddr \<Rightarrow> paddr \<Rightarrow> mem_node list" where
  "ocm_banks ddr_end lo hi =
     (if hi \<le> ddr_end then [DDR] else []) @
     (if 0xFFFC0000 \<le> lo \<and> lo < 0xFFFD0000 then [OCM_BANK_0] else []) @
     (if lo \<le> 0xFFFDFFFF \<and> 0xFFFD0000 \<le> hi then [OCM_BANK_1] else []) @
     (if lo \<le> 0xFFFEFFFF \<and> 0xFFFE0000 \<le> hi then [OCM_BANK_2] else []) @
     (if 0xFFFF0000 \<le> hi then [OCM_BANK_3] else [])"

definition apu_rproc_mmap :: "'w fwlib \<Rightarrow> paddr option \<Rightarrow> paddr option \<Rightarrow> u32 \<Rightarrow>
    ('w, (nat option \<times> paddr \<times> paddr) option) fwprog" where
  "apu_rproc_mmap lib pa da sz = (case (pa, da) of
       (Some lpa, Some lda) \<Rightarrow>
         if lda = METAL_BAD_PHYS \<and> lpa = METAL_BAD_PHYS then ret None
         else seq (request_nodes lib (ocm_banks 0x80000000 lda (lda + sz))) (add_region lib lpa lda sz)
     | _ \<Rightarrow> ret None)"

definition apu_rproc_start :: "'w fwlib \<Rightarrow> ('w, int) fwprog" where
  "apu_rproc_start lib =
     bnd fw_cpu (\<lambda>cpu. bnd (getg fw_bootaddr) (\<lambda>a.
     bnd (ext (XPm_RequestWakeUp lib cpu a)) (\<lambda>r. ret (if r \<noteq> 0 then - 1 else 0))))"

definition apu_rproc_stop :: "('w, int) fwprog" where
  "apu_rproc_stop = ret 0"

fun apu_shutdown_mems :: "'w fwlib \<Rightarrow> nat \<Rightarrow> rmem list \<Rightarrow> ('w, int) fwprog" where
  "apu_shutdown_mems lib cpu [] = power_down lib cpu"
| "apu_shutdown_mems lib cpu (m # ms) =
     seq (release_nodes lib (ocm_banks 0x7FFFFFFF (m_pa m) (region_end lib m)))
    (seq (drop_mem lib m) (apu_shutdown_mems lib cpu ms))"

definition apu_rproc_shutdown :: "'w fwlib \<Rightarrow> ('w, int) fwprog" where
  "apu_rproc_shutdown lib = bnd fw_cpu (\<lambda>cpu. bnd (getg fw_mems) (apu_shutdown_mems lib cpu))"

section \<open>The older operations for the R5\<close>

definition RPU_GLBL_CNTL_OFFSET :: nat where "RPU_GLBL_CNTL_OFFSET = 0"
definition SLSPLIT_BIT :: nat where "SLSPLIT_BIT = 3"
definition SLCLAMP_BIT :: nat where "SLCLAMP_BIT = 4"
definition TCM_COMB_BIT :: nat where "TCM_COMB_BIT = 6"

definition r5_rproc_boot_addr_config :: "paddr \<Rightarrow> u32" where
  "r5_rproc_boot_addr_config bootaddr = (if bootaddr < 0x40000 then 0 else 1)"

text \<open>The mode bits of the control register, and its update.\<close>

definition r5_mode :: "bool \<Rightarrow> u32 \<Rightarrow> u32" where
  "r5_mode lockstep tmp =
     (if lockstep then set_bit SLCLAMP_BIT (set_bit TCM_COMB_BIT (unset_bit SLSPLIT_BIT tmp))
      else unset_bit SLCLAMP_BIT (unset_bit TCM_COMB_BIT (set_bit SLSPLIT_BIT tmp)))"

definition r5_rproc_mode_config :: "node_ids \<Rightarrow> 'w fwlib \<Rightarrow> nat \<Rightarrow> ('w, unit) fwprog" where
  "r5_rproc_mode_config ids lib cpu =
     bnd (asks (rpu_read32 lib RPU_GLBL_CNTL_OFFSET)) (\<lambda>tmp.
     extU (rpu_write32 lib RPU_GLBL_CNTL_OFFSET (r5_mode (cpu = NODE_RPU ids) tmp)))"

definition r5_rproc_init :: "node_ids \<Rightarrow> 'w fwlib \<Rightarrow> nat \<Rightarrow> ('w, bool) fwprog" where
  "r5_rproc_init ids lib cpu_id =
     (if cpu_id < NODE_RPU_0 ids \<or> NODE_RPU_1 ids < cpu_id then ret False
      else bnd (ext (f_alloc lib)) (\<lambda>p. case p of None \<Rightarrow> ret False | Some m \<Rightarrow>
        seq (updg (\<lambda>g. g\<lparr>fw_priv := Some (m, cpu_id)\<rparr>))
       (seq (r5_rproc_mode_config ids lib cpu_id)
       (seq (updg (\<lambda>g. g\<lparr>fw_ready := True\<rparr>)) (ret True)))))"

definition r5_rproc_remove :: "'w fwlib \<Rightarrow> ('w, unit) fwprog" where
  "r5_rproc_remove lib = free_priv lib"

definition r5_rproc_mmap :: "node_ids \<Rightarrow> 'w fwlib \<Rightarrow> paddr option \<Rightarrow> paddr option \<Rightarrow> u32 \<Rightarrow>
    ('w, (nat option \<times> paddr \<times> paddr) option) fwprog" where
  "r5_rproc_mmap ids lib pa da sz = (case (pa, da) of
       (Some lpa, Some lda) \<Rightarrow>
         let place = (\<lambda>lpa. let lpa = (if lpa = METAL_BAD_PHYS then lda else lpa) in
               if lpa = METAL_BAD_PHYS then ret None else add_region lib lpa lda sz) in
         if lda \<le> 0x40000 then
           bnd fw_cpu (\<lambda>cpu. case tcm_banks ids cpu lda (lda + sz) of
               None \<Rightarrow> ret None
             | Some (lpa', banks) \<Rightarrow> seq (request_nodes lib banks) (place lpa'))
         else place lpa
     | _ \<Rightarrow> ret None)"

definition r5_rproc_start :: "'w fwlib \<Rightarrow> ('w, int) fwprog" where
  "r5_rproc_start lib =
     bnd fw_cpu (\<lambda>cpu. bnd (getg fw_bootaddr) (\<lambda>a.
     bnd (ext (XPm_RequestWakeUp lib cpu (r5_rproc_boot_addr_config a))) (\<lambda>r. ret (if r \<noteq> 0 then - 1 else 0))))"

definition r5_rproc_stop :: "('w, int) fwprog" where
  "r5_rproc_stop = ret 0"

text \<open>The shutdown asks for the banks once more instead of releasing them; the fourth limit of RPU 1 lacks a digit.\<close>

definition r5_shutdown_banks :: "node_ids \<Rightarrow> nat \<Rightarrow> paddr \<Rightarrow> paddr \<Rightarrow> mem_node list" where
  "r5_shutdown_banks ids cpu pa pa_end =
     (if cpu = NODE_RPU_0 ids \<or> cpu = NODE_RPU ids then
        (if pa < 0xFFE10000 then [TCM_0_A] else []) @
        (if pa \<le> 0xFFE20000 \<and> 0xFFE10000 \<le> pa_end then [TCM_1_A] else []) @
        (if pa \<le> 0xFFE30000 \<and> 0xFFE20000 \<le> pa_end then [TCM_0_B] else []) @
        (if pa \<le> 0xFFE40000 \<and> 0xFFE30000 \<le> pa_end then [TCM_1_B] else [])
      else if cpu = NODE_RPU_1 ids then
        (if pa < 0xFFEA0000 then [TCM_1_A] else []) @
        (if pa \<le> 0xFFC0000 \<and> 0xFFEB0000 \<le> pa_end then [TCM_1_B] else [])
      else [])"

fun r5_shutdown_mems :: "node_ids \<Rightarrow> 'w fwlib \<Rightarrow> nat \<Rightarrow> rmem list \<Rightarrow> ('w, int) fwprog" where
  "r5_shutdown_mems ids lib cpu [] = power_down lib cpu"
| "r5_shutdown_mems ids lib cpu (m # ms) =
     seq (request_nodes lib (r5_shutdown_banks ids cpu (m_pa m) (region_end lib m)))
    (seq (drop_mem lib m) (r5_shutdown_mems ids lib cpu ms))"

definition r5_rproc_shutdown :: "node_ids \<Rightarrow> 'w fwlib \<Rightarrow> ('w, int) fwprog" where
  "r5_rproc_shutdown ids lib = bnd fw_cpu (\<lambda>cpu. bnd (getg fw_mems) (r5_shutdown_mems ids lib cpu))"

section \<open>Image store\<close>

definition mem_write :: "nat \<Rightarrow> bytes \<Rightarrow> (nat \<Rightarrow> byte) \<Rightarrow> nat \<Rightarrow> byte" where
  "mem_write a bs m = (\<lambda>i. if a \<le> i \<and> i < a + length bs then bs ! (i - a) else m i)"

definition mem_read :: "nat \<Rightarrow> nat \<Rightarrow> (nat \<Rightarrow> byte) \<Rightarrow> bytes" where
  "mem_read a n m = map (\<lambda>i. m (a + i)) [0..<n]"

definition fw_base :: nat where "fw_base = 0x3ED00000"

text \<open>The result of opening: the length it reports and the address of the data.\<close>

definition mem_image_open :: "('w, int \<times> nat) fwprog" where
  "mem_image_open = ret (0x100, fw_base)"

definition mem_image_close :: "('w, unit) fwprog" where
  "mem_image_close = ret ()"

text \<open>The result of loading: the return value, and the data pointer that it leaves.\<close>

definition mem_image_load ::
    "'w fwlib \<Rightarrow> u32 \<Rightarrow> u32 \<Rightarrow> nat \<Rightarrow> paddr \<Rightarrow> (paddr \<times> u32) option \<Rightarrow> ('w, int \<times> nat) fwprog" where
  "mem_image_load lib offset sz data pa io =
     (if pa = METAL_BAD_PHYS then ret (to_int32 (uint sz), fw_base + unat offset)
      else case io of None \<Rightarrow> ret (- EINVAL, data) | Some r \<Rightarrow>
        case f_phys_to_virt lib r pa of None \<Rightarrow> ret (- EINVAL, data) | Some va \<Rightarrow>
          seq (updg (\<lambda>g. g\<lparr>ram := mem_write va (mem_read (fw_base + unat offset) (unat sz) (ram g)) (ram g)\<rparr>))
              (ret (to_int32 (uint sz), data)))"

section \<open>Loading\<close>

text \<open>What \<open>remoteproc_load_noblock\<close> leaves in its output arguments.\<close>

record chunk =
  c_pa :: paddr
  c_io :: "(paddr \<times> u32) option"
  c_offset :: u32
  c_len :: u32
  c_mlen :: u32
  c_padding :: byte

text \<open>The calls of OpenAMP that run the operations above; a failed \<open>app_init\<close> is decided by the vendor's calls.\<close>

record 'w rplib =
  remoteproc_config :: "('w, unit) fwprog"
  remoteproc_load :: "('w, int) fwprog"
  remoteproc_load_noblock :: "nat \<Rightarrow> u32 \<Rightarrow> u32 \<Rightarrow> ('w, int \<times> chunk) fwprog"
  remoteproc_start :: "('w, int) fwprog"
  remoteproc_stop :: "('w, int) fwprog"
  remoteproc_shutdown :: "('w, int) fwprog"
  remoteproc_remove :: "('w, unit) fwprog"
  wfi :: "'w \<Rightarrow> 'w"
  f_metal_init :: "'w \<Rightarrow> 'w"
  XIpiPsu_LookupConfig :: "'w \<Rightarrow> bool"
  XIpiPsu_CfgInitialize :: "'w \<Rightarrow> int \<times> 'w"
  XPm_InitXilpm :: "'w \<Rightarrow> int \<times> 'w"
  IPI_FAILURE :: int

text \<open>Start, wait, stop and shut down; \<open>boot_linux\<close> is the option \<open>RPU_BOOT_LINUX\<close>, which leaves the target running.\<close>

definition run_processor :: "'w rplib \<Rightarrow> bool \<Rightarrow> ('w, int) fwprog" where
  "run_processor rl boot_linux =
     bnd (remoteproc_start rl) (\<lambda>r. if r \<noteq> 0 then ret r
     else if boot_linux then ret 0
     else seq (extU (wfi rl)) (seq (remoteproc_stop rl) (seq (remoteproc_shutdown rl) (ret 0))))"

definition load_exectuable_block :: "'w rplib \<Rightarrow> bool \<Rightarrow> bool \<Rightarrow> ('w, int) fwprog" where
  "load_exectuable_block rl boot_linux rproc =
     (if \<not> rproc then ret (- EINVAL)
      else seq (remoteproc_config rl)
          (bnd (remoteproc_load rl) (\<lambda>r. if r \<noteq> 0 then ret r else run_processor rl boot_linux)))"

text \<open>One pass of the loading loop, on the offset, the length and the data pointer; it leaves with 0 or an error.\<close>

definition noblock_pass :: "'w fwlib \<Rightarrow> 'w rplib \<Rightarrow> u32 \<times> u32 \<times> nat \<Rightarrow> ('w, (u32 \<times> u32 \<times> nat) + int) fwprog" where
  "noblock_pass lib rl l = (case l of (offset, len, data) \<Rightarrow>
     bnd (remoteproc_load_noblock rl data offset len) (\<lambda>(r, c).
     if r \<noteq> 0 then ret (Inr r)
     else if c_len c = 0 \<and> c_mlen c = 0 then ret (Inr 0)
     else bnd (mem_image_load lib (c_offset c) (c_len c) data (c_pa c) (c_io c)) (\<lambda>(r, data').
       if r \<noteq> to_int32 (uint (c_len c)) then ret (Inr r)
       else seq (if c_len c < c_mlen c then (case c_io c of None \<Rightarrow> ret ()
             | Some io \<Rightarrow> updg (\<lambda>g. g\<lparr>ram := f_block_set lib io (f_phys_to_offset lib io (c_pa c + c_len c)) (c_padding c)
                  (unat (c_mlen c - c_len c)) (ram g)\<rparr>)) else ret ())
           (ret (Inl (c_offset c, c_len c, data'))))))"

definition noblock_load :: "nat \<Rightarrow> 'w fwlib \<Rightarrow> 'w rplib \<Rightarrow> ('w, int) fwprog" where
  "noblock_load fuel lib rl =
     bnd mem_image_open (\<lambda>(r, data). if r \<le> 0 then ret (- EINVAL)
     else iter fuel (noblock_pass lib rl) (0, word_of_int r, data))"

definition load_exectuable_noblock :: "nat \<Rightarrow> 'w fwlib \<Rightarrow> 'w rplib \<Rightarrow> bool \<Rightarrow> ('w, int) fwprog" where
  "load_exectuable_noblock fuel lib rl rproc =
     (if \<not> rproc then ret (- EINVAL)
      else seq (remoteproc_config rl)
          (bnd (noblock_load fuel lib rl) (\<lambda>r. if r \<noteq> 0 then ret r else run_processor rl False)))"

section \<open>Set-up and main\<close>

text \<open>\<open>remoteproc_init\<close> runs the operation of the chosen target; \<open>target\<close> is \<open>LOAD_FW_TARGET\<close>.\<close>

definition fw_create_proc :: "node_ids \<Rightarrow> 'w fwlib \<Rightarrow> nat \<Rightarrow> nat \<Rightarrow> ('w, bool) fwprog" where
  "fw_create_proc ids lib target cpu_id =
     (if NODE_RPU_0 ids \<le> target \<and> target \<le> NODE_RPU_1 ids then rpu_rproc_init ids lib cpu_id
      else if NODE_APU_0 ids \<le> target \<and> target \<le> NODE_APU_1 ids then apu_rproc_init ids lib cpu_id
      else ret False)"

definition IpiConfigure :: "'w rplib \<Rightarrow> ('w, int) fwprog" where
  "IpiConfigure rl =
     bnd (asks (XIpiPsu_LookupConfig rl)) (\<lambda>found.
     if \<not> found then ret (IPI_FAILURE rl) else ext (XIpiPsu_CfgInitialize rl))"

definition app_init :: "node_ids \<Rightarrow> 'w fwlib \<Rightarrow> 'w rplib \<Rightarrow> nat \<Rightarrow> nat \<Rightarrow> ('w, bool) fwprog" where
  "app_init ids lib rl target cpu_id =
     seq (extU (f_metal_init rl))
    (bnd (IpiConfigure rl) (\<lambda>r. if r \<noteq> 0 then ret False else
     bnd (ext (XPm_InitXilpm rl)) (\<lambda>r. if r \<noteq> 0 then ret False else
     fw_create_proc ids lib target cpu_id)))"

definition load_fw_main :: "nat \<Rightarrow> node_ids \<Rightarrow> 'w fwlib \<Rightarrow> 'w rplib \<Rightarrow> bool \<Rightarrow> nat \<Rightarrow> ('w, int) fwprog" where
  "load_fw_main fuel ids lib rl boot_linux target =
     bnd (app_init ids lib rl target target) (\<lambda>rproc. if \<not> rproc then ret (- 1) else
     bnd (load_exectuable_block rl boot_linux rproc) (\<lambda>r.
     if r < 0 then seq (remoteproc_shutdown rl) (ret (- 1)) else
     bnd (if boot_linux then ret r else load_exectuable_noblock fuel lib rl rproc) (\<lambda>r.
     if r < 0 then seq (remoteproc_shutdown rl) (ret (- 1))
     else seq (remoteproc_remove rl) (ret r))))"

section \<open>The banks of tightly coupled memory\<close>

text \<open>
  Where the banks lie in the device addresses of an RPU: joined when the processors run in lock step or for
  processor 0, and the two of processor 1.
\<close>

definition tcm_map :: "bool \<Rightarrow> (mem_node \<times> nat \<times> nat) list" where
  "tcm_map rpu1 = (if rpu1 then [(TCM_1_A, 0, 0x10000), (TCM_1_B, 0x20000, 0x30000)]
     else [(TCM_0_A, 0, 0x10000), (TCM_1_A, 0x10000, 0x20000), (TCM_0_B, 0x20000, 0x30000), (TCM_1_B, 0x30000, 0x40000)])"

definition is_rpu1 :: "node_ids \<Rightarrow> nat \<Rightarrow> bool" where
  "is_rpu1 ids cpu \<longleftrightarrow> cpu \<noteq> NODE_RPU_0 ids \<and> cpu \<noteq> NODE_RPU ids"

lemma tcm_banks_cover:
  assumes "tcm_banks ids cpu lda (lda + sz) = Some (lpa, banks)" and "unat lda + unat sz < 2 ^ 32"
    and "(b, lo, hi) \<in> set (tcm_map (is_rpu1 ids cpu))" and "unat lda < hi" and "lo < unat lda + unat sz"
  shows "b \<in> set banks"
proof -
  have e: "unat (lda + sz) = unat lda + unat sz" using assms(2) by (simp add: unat_word_ariths)
  show ?thesis using assms(1,3-5)
    by (auto simp: tcm_banks_def tcm_map_def is_rpu1_def word_le_nat_alt word_less_nat_alt e split: if_splits)
qed

lemma tcm_banks_Some:
  "cpu \<in> {NODE_RPU ids, NODE_RPU_0 ids, NODE_RPU_1 ids} \<Longrightarrow>
     \<exists>banks. tcm_banks ids cpu lda e = Some ((if is_rpu1 ids cpu then 0xFFE90000 else 0xFFE00000) + lda, banks)"
  by (auto simp: tcm_banks_def is_rpu1_def)

text \<open>
  C32. Mapping device addresses of the tightly coupled memory: the region of an RPU starts at the bank's physical
  address, and before it is set up every bank that the range meets has been requested from the power
  management, for a range that does not wrap around the address space.
\<close>

theorem rpu_mmap_requests_banks:
  assumes "fw_priv g = Some (m, cpu)" and "cpu \<in> {NODE_RPU ids, NODE_RPU_0 ids, NODE_RPU_1 ids}"
    and "da \<le> 0x40000" and "unat da + unat sz < 2 ^ 32"
  shows "\<exists>banks. rpu_rproc_mmap ids lib (Some pa) (Some da) sz (g, w) =
       add_region lib ((if is_rpu1 ids cpu then 0xFFE90000 else 0xFFE00000) + da) da sz (g, fold (XPm_RequestNode lib) banks w) \<and>
     (\<forall>(b, lo, hi) \<in> set (tcm_map (is_rpu1 ids cpu)). unat da < hi \<and> lo < unat da + unat sz \<longrightarrow> b \<in> set banks)"
proof -
  obtain banks where b: "tcm_banks ids cpu da (da + sz)
      = Some ((if is_rpu1 ids cpu then 0xFFE90000 else 0xFFE00000) + da, banks)" using tcm_banks_Some [OF assms(2)] by blast
  have "da \<noteq> METAL_BAD_PHYS" using assms(3) by (auto simp: METAL_BAD_PHYS_def word_le_nat_alt unsigned_minus_1_eq_mask mask_eq_exp_minus_1)
  with assms(1,3) b have "rpu_rproc_mmap ids lib (Some pa) (Some da) sz (g, w) =
      add_region lib ((if is_rpu1 ids cpu then 0xFFE90000 else 0xFFE00000) + da) da sz (g, fold (XPm_RequestNode lib) banks w)"
    by (simp add: rpu_rproc_mmap_def fw_cpu_def request_nodes_def)
  with tcm_banks_cover [OF b assms(4)] show ?thesis by blast
qed

text \<open>A library for examples: the world is the log of the requested nodes and the number of the next block.\<close>

definition log_fwlib :: "(mem_node list \<times> nat list \<times> nat) fwlib" where
  "log_fwlib = \<lparr>f_alloc = (\<lambda>(l, bs, n). (Some n, (l, n # bs, Suc n))), f_free = (\<lambda>b (l, bs, n). (l, remove1 b bs, n)),
     f_phys = (\<lambda>(st, sz) off. if off < sz then st + off else METAL_BAD_PHYS),
     f_phys_to_virt = (\<lambda>(st, sz) pa. Some (unat pa)), f_phys_to_offset = (\<lambda>(st, sz) pa. pa - st),
     f_block_set = (\<lambda>(st, sz) off b n. mem_write (unat st + unat off) (replicate n b)),
     rpu_read32 = (\<lambda>off w. 0), rpu_write32 = (\<lambda>off v w. w),
     XPm_RequestNode = (\<lambda>nd (l, r). (l @ [nd], r)), XPm_ReleaseNode = (\<lambda>nd (l, r). (removeAll nd l, r)),
     XPm_RequestWakeUp = (\<lambda>cpu a w. (0, w)), XPm_ForcePowerDown = (\<lambda>cpu w. (0, w))\<rparr>"

definition zynqmp_ids :: node_ids where
  "zynqmp_ids = \<lparr>NODE_RPU = 6, NODE_RPU_0 = 7, NODE_RPU_1 = 8, NODE_APU_0 = 2, NODE_APU_1 = 3\<rparr>"

definition fw_idle :: "nat option \<Rightarrow> fw_globals" where
  "fw_idle cpu = \<lparr>fw_priv = map_option (\<lambda>c. (0, c)) cpu, fw_mems = [], fw_ready = cpu \<noteq> None, fw_bootaddr = 0, ram = (\<lambda>_. 0)\<rparr>"

theorem rpu_mmap_requests_banks_witness:
  "\<exists>banks. rpu_rproc_mmap zynqmp_ids log_fwlib (Some 0) (Some 0x8000) 0x10000 (fw_idle (Some 7), ([], [0], 1)) =
       add_region log_fwlib 0xFFE08000 0x8000 0x10000 (fw_idle (Some 7), fold (XPm_RequestNode log_fwlib) banks ([], [0], 1)) \<and>
     TCM_0_A \<in> set banks \<and> TCM_1_A \<in> set banks"
  using rpu_mmap_requests_banks [of "fw_idle (Some 7)" 0 7 zynqmp_ids "0x8000" "0x10000" log_fwlib 0 "([], [0], 1)"]
  by (auto simp: fw_idle_def zynqmp_ids_def is_rpu1_def tcm_map_def)

section \<open>Life cycle\<close>

text \<open>
  The blocks of memory that the operations hold, and what they rely on: an allocation adds a block to those in
  use, releasing takes it away, and nothing else changes them.
\<close>

definition held :: "fw_globals \<Rightarrow> nat multiset" where
  "held g = (case fw_priv g of None \<Rightarrow> {#} | Some (m, cpu) \<Rightarrow> {#m#}) +
     mset (map m_block (fw_mems g)) + mset (map m_io_block (fw_mems g))"

definition heap_laws :: "'w fwlib \<Rightarrow> ('w \<Rightarrow> nat multiset) \<Rightarrow> bool" where
  "heap_laws lib blocks \<longleftrightarrow>
     (\<forall>w. case f_alloc lib w of (None, w') \<Rightarrow> blocks w' = blocks w | (Some b, w') \<Rightarrow> blocks w' = add_mset b (blocks w)) \<and>
     (\<forall>b w. blocks (f_free lib b w) = blocks w - {#b#}) \<and>
     (\<forall>nd w. blocks (XPm_RequestNode lib nd w) = blocks w) \<and> (\<forall>nd w. blocks (XPm_ReleaseNode lib nd w) = blocks w) \<and>
     (\<forall>off v w. blocks (rpu_write32 lib off v w) = blocks w) \<and>
     (\<forall>cpu w. blocks (snd (XPm_ForcePowerDown lib cpu w)) = blocks w)"

definition adjacent :: "node_ids \<Rightarrow> bool" where
  "adjacent ids \<longleftrightarrow> NODE_RPU_1 ids = NODE_RPU_0 ids + 1"

text \<open>The life of a target: initialised, mapped some regions, shut down and removed.\<close>

fun mmap_all :: "(paddr option \<Rightarrow> paddr option \<Rightarrow> u32 \<Rightarrow> ('w, 'a) fwprog) \<Rightarrow> (paddr option \<times> paddr option \<times> u32) list \<Rightarrow> ('w, unit) fwprog" where
  "mmap_all mm [] = ret ()"
| "mmap_all mm ((pa, da, sz) # rs) = seq (mm pa da sz) (mmap_all mm rs)"

definition fw_life :: "('w, bool) fwprog \<Rightarrow> (paddr option \<Rightarrow> paddr option \<Rightarrow> u32 \<Rightarrow> ('w, 'a) fwprog) \<Rightarrow>
    ('w, int) fwprog \<Rightarrow> ('w, unit) fwprog \<Rightarrow> (paddr option \<times> paddr option \<times> u32) list \<Rightarrow> ('w, unit) fwprog" where
  "fw_life ini mm shut rem rs =
     bnd ini (\<lambda>ok. if ok then seq (mmap_all mm rs) (seq shut rem) else ret ())"

text \<open>
  The contract of the operations of a target: each of them returns, and the blocks in use are those of the others,
  \<open>B\<close>, and the ones held.
\<close>

locale lcm_target =
  fixes ini :: "node_ids \<Rightarrow> 'w fwlib \<Rightarrow> nat \<Rightarrow> ('w, bool) fwprog"
    and mm :: "node_ids \<Rightarrow> 'w fwlib \<Rightarrow> paddr option \<Rightarrow> paddr option \<Rightarrow> u32 \<Rightarrow> ('w, 'a) fwprog"
    and shut :: "node_ids \<Rightarrow> 'w fwlib \<Rightarrow> ('w, int) fwprog"
    and rem :: "'w fwlib \<Rightarrow> ('w, unit) fwprog"
    and valid :: "node_ids \<Rightarrow> nat \<Rightarrow> bool"
  assumes ini_ok: "heap_laws lib blocks \<Longrightarrow> adjacent ids \<Longrightarrow> fw_priv g = None \<Longrightarrow> fw_mems g = [] \<Longrightarrow> blocks w = B \<Longrightarrow>
      \<exists>ok g' w'. ini ids lib cpu (g, w) = Done (ok, (g', w')) \<and> blocks w' = B + held g' \<and> fw_mems g' = [] \<and>
        (if ok then \<exists>m. fw_priv g' = Some (m, cpu) \<and> valid ids cpu else g' = g)"
    and mm_keeps: "heap_laws lib blocks \<Longrightarrow> blocks w = B + held g \<Longrightarrow> fw_priv g = Some (m, cpu) \<Longrightarrow>
      \<exists>x g' w'. mm ids lib pa da sz (g, w) = Done (x, (g', w')) \<and> blocks w' = B + held g' \<and> fw_priv g' = Some (m, cpu)"
    and shut_drains: "heap_laws lib blocks \<Longrightarrow> blocks w = B + held g \<Longrightarrow> fw_priv g = Some (m, cpu) \<Longrightarrow> valid ids cpu \<Longrightarrow>
      \<exists>r g' w'. shut ids lib (g, w) = Done (r, (g', w')) \<and> blocks w' = B + held g' \<and> fw_priv g' = Some (m, cpu) \<and> fw_mems g' = []"
    and rem_frees: "heap_laws lib blocks \<Longrightarrow> blocks w = B + held g \<Longrightarrow> fw_priv g = Some (m, cpu) \<Longrightarrow> fw_mems g = [] \<Longrightarrow>
      \<exists>w'. rem lib (g, w) = Done ((), (g, w')) \<and> blocks w' = B"
begin

lemma mmap_all_keeps:
  "heap_laws lib blocks \<Longrightarrow> blocks w = B + held g \<Longrightarrow> fw_priv g = Some (m, cpu) \<Longrightarrow>
     \<exists>g' w'. mmap_all (mm ids lib) rs (g, w) = Done ((), (g', w')) \<and> blocks w' = B + held g' \<and> fw_priv g' = Some (m, cpu)"
proof (induction rs arbitrary: g w)
  case Nil
  then show ?case by simp
next
  case (Cons q rs)
  obtain pa da sz where q: "q = (pa, da, sz)" by (cases q) auto
  from mm_keeps [OF Cons.prems] obtain x g1 w1 where
    "mm ids lib pa da sz (g, w) = Done (x, (g1, w1))" "blocks w1 = B + held g1" "fw_priv g1 = Some (m, cpu)" by blast
  with Cons.IH [OF Cons.prems(1), of w1 g1] q show ?case by simp
qed

lemma life_balanced:
  assumes laws: "heap_laws lib blocks" "adjacent ids" and g: "fw_priv g = None" "fw_mems g = []"
  shows "\<exists>g' w'. fw_life (ini ids lib cpu) (mm ids lib) (shut ids lib) (rem lib) rs (g, w) = Done ((), (g', w')) \<and>
    blocks w' = blocks w \<and> fw_mems g' = []"
proof -
  from ini_ok [OF laws g refl] obtain ok g1 w1 where i: "ini ids lib cpu (g, w) = Done (ok, (g1, w1))"
    "blocks w1 = blocks w + held g1" "fw_mems g1 = []" "if ok then \<exists>m. fw_priv g1 = Some (m, cpu) \<and> valid ids cpu else g1 = g" by blast
  show ?thesis
  proof (cases ok)
    case True
    with i(4) obtain m where m: "fw_priv g1 = Some (m, cpu)" "valid ids cpu" by auto
    from mmap_all_keeps [OF laws(1) i(2) m(1)] obtain g2 w2 where a: "mmap_all (mm ids lib) rs (g1, w1) = Done ((), (g2, w2))"
      "blocks w2 = blocks w + held g2" "fw_priv g2 = Some (m, cpu)" by blast
    from shut_drains [OF laws(1) a(2,3) m(2)] obtain r g3 w3 where s: "shut ids lib (g2, w2) = Done (r, (g3, w3))"
      "blocks w3 = blocks w + held g3" "fw_priv g3 = Some (m, cpu)" "fw_mems g3 = []" by blast
    from rem_frees [OF laws(1) s(2-4)] obtain w4 where "rem lib (g3, w3) = Done ((), (g3, w4))" "blocks w4 = blocks w" by blast
    with True i(1) a(1) s(1,4) show ?thesis by (simp add: fw_life_def)
  next
    case False
    with i g show ?thesis by (simp add: fw_life_def held_def)
  qed
qed

end

subsection \<open>The shared steps\<close>

lemma heap_lawsD:
  assumes "heap_laws lib blocks"
  shows "f_alloc lib w = (None, w') \<Longrightarrow> blocks w' = blocks w"
    and "f_alloc lib w = (Some b, w') \<Longrightarrow> blocks w' = add_mset b (blocks w)"
    and "blocks (f_free lib b w) = blocks w - {#b#}"
    and "blocks (fold (XPm_RequestNode lib) ns w) = blocks w"
    and "blocks (fold (XPm_ReleaseNode lib) ns w) = blocks w"
    and "blocks (rpu_write32 lib off v w) = blocks w"
    and "blocks (snd (XPm_ForcePowerDown lib cpu w)) = blocks w"
proof -
  have a: "case f_alloc lib w of (None, w') \<Rightarrow> blocks w' = blocks w | (Some b, w') \<Rightarrow> blocks w' = add_mset b (blocks w)"
    using assms by (simp add: heap_laws_def)
  show "f_alloc lib w = (None, w') \<Longrightarrow> blocks w' = blocks w" using a by simp
  show "f_alloc lib w = (Some b, w') \<Longrightarrow> blocks w' = add_mset b (blocks w)" using a by simp
  show "blocks (fold (XPm_RequestNode lib) ns w) = blocks w" "blocks (fold (XPm_ReleaseNode lib) ns w) = blocks w"
    using assms by (induction ns arbitrary: w) (simp_all add: heap_laws_def)
qed (use assms in \<open>simp_all add: heap_laws_def\<close>)

lemma alloc_priv_ok:
  assumes "heap_laws lib blocks" and "fw_priv g = None" and "fw_mems g = []" and "blocks w = B"
  shows "\<exists>ok g' w'. alloc_priv lib cpu (g, w) = Done (ok, (g', w')) \<and> blocks w' = B + held g' \<and> fw_mems g' = [] \<and>
    (if ok then \<exists>m. fw_priv g' = Some (m, cpu) else g' = g)"
  using assms heap_lawsD(1,2) [OF assms(1), of w]
  by (cases "f_alloc lib w") (auto simp: alloc_priv_def held_def split: option.split)

lemma free_priv_frees:
  assumes "heap_laws lib blocks" and "blocks w = B + held g" and "fw_priv g = Some (m, cpu)" and "fw_mems g = []"
  shows "\<exists>w'. free_priv lib (g, w) = Done ((), (g, w')) \<and> blocks w' = B"
  using assms by (simp add: free_priv_def heap_lawsD(3) held_def)

lemma add_region_keeps:
  assumes laws: "heap_laws lib blocks" and "blocks w = B + held g" and "fw_priv g = Some (m, cpu)"
  shows "\<exists>x g' w'. add_region lib lpa lda sz (g, w) = Done (x, (g', w')) \<and> blocks w' = B + held g' \<and> fw_priv g' = Some (m, cpu)"
proof (cases "f_alloc lib w")
  case (Pair p w1)
  show ?thesis
  proof (cases p)
    case None
    with Pair assms heap_lawsD(1) [OF laws, of w w1] show ?thesis by (simp add: add_region_def)
  next
    case (Some b)
    with Pair have b: "blocks w1 = add_mset b (blocks w)" using heap_lawsD(2) [OF laws, of w b w1] by simp
    obtain q w2 where q: "f_alloc lib w1 = (q, w2)" by fastforce
    show ?thesis
    proof (cases q)
      case None
      with Pair Some q b assms heap_lawsD(1) [OF laws, of w1 w2] show ?thesis by (simp add: add_region_def heap_lawsD(3) [OF laws])
    next
      case (Some i)
      with Pair \<open>p = Some b\<close> q b assms heap_lawsD(2) [OF laws, of w1 i w2] show ?thesis by (simp add: add_region_def held_def)
    qed
  qed
qed

lemma drop_mem_drops:
  assumes "heap_laws lib blocks" and "blocks w = B + held g" and "fw_priv g = Some (m, cpu)" and "fw_mems g = r # rs"
  shows "\<exists>g' w'. drop_mem lib r (g, w) = Done ((), (g', w')) \<and> blocks w' = B + held g' \<and> fw_priv g' = Some (m, cpu) \<and> fw_mems g' = rs"
  using assms by (simp add: drop_mem_def heap_lawsD(3) [OF assms(1)] held_def)

lemma power_down_keeps:
  "heap_laws lib blocks \<Longrightarrow> \<exists>r w'. power_down lib cpu (g, w) = Done (r, (g, w')) \<and> blocks w' = blocks w"
  by (auto simp: power_down_def heap_lawsD(7))

subsection \<open>The three targets\<close>

definition rpu_valid :: "node_ids \<Rightarrow> nat \<Rightarrow> bool" where
  "rpu_valid ids cpu \<longleftrightarrow> cpu = NODE_RPU_0 ids \<or> cpu = NODE_RPU_1 ids"

definition apu_valid :: "node_ids \<Rightarrow> nat \<Rightarrow> bool" where
  "apu_valid ids cpu \<longleftrightarrow> NODE_APU_0 ids \<le> cpu \<and> cpu \<le> NODE_APU_1 ids"

lemma rpu_in_range: "adjacent ids \<Longrightarrow> \<not> (cpu < NODE_RPU_0 ids \<or> NODE_RPU_1 ids < cpu) \<Longrightarrow> rpu_valid ids cpu"
  by (auto simp: adjacent_def rpu_valid_def)

lemma rpu_released_Some: "rpu_valid ids cpu \<Longrightarrow> \<exists>banks. rpu_released ids cpu pa e = Some banks"
  by (auto simp: rpu_released_def rpu_valid_def tcm_banks_def)

lemma rpu_mems_drain:
  assumes "heap_laws lib blocks" and "blocks w = B + held g" and "fw_priv g = Some (m, cpu)" and "rpu_valid ids cpu" and "fw_mems g = ms"
  shows "\<exists>r g' w'. rpu_shutdown_mems ids lib cpu ms (g, w) = Done (r, (g', w')) \<and> blocks w' = B + held g' \<and>
    fw_priv g' = Some (m, cpu) \<and> fw_mems g' = []"
  using assms
proof (induction ms arbitrary: g w)
  case Nil
  then show ?case using power_down_keeps [OF Nil.prems(1), of cpu g w] by auto
next
  case (Cons r rs)
  from drop_mem_drops [OF Cons.prems(1-3,5)] obtain g1 w1 where d: "drop_mem lib r (g, w) = Done ((), (g1, w1))"
    "blocks w1 = B + held g1" "fw_priv g1 = Some (m, cpu)" "fw_mems g1 = rs" by blast
  obtain bs where b: "rpu_released ids cpu (m_pa r) (region_end lib r) = Some bs" using rpu_released_Some [OF Cons.prems(4)] by blast
  from d(2) have "blocks (fold (XPm_ReleaseNode lib) bs w1) = B + held g1" using heap_lawsD(5) [OF Cons.prems(1)] by simp
  from Cons.IH [OF Cons.prems(1) this d(3) Cons.prems(4) d(4)] d(1) b show ?case by (simp add: release_nodes_def)
qed

lemma apu_mems_drain:
  assumes "heap_laws lib blocks" and "blocks w = B + held g" and "fw_priv g = Some (m, cpu)" and "fw_mems g = ms"
  shows "\<exists>r g' w'. apu_shutdown_mems lib cpu ms (g, w) = Done (r, (g', w')) \<and> blocks w' = B + held g' \<and>
    fw_priv g' = Some (m, cpu) \<and> fw_mems g' = []"
  using assms
proof (induction ms arbitrary: g w)
  case Nil
  then show ?case using power_down_keeps [OF Nil.prems(1), of cpu g w] by auto
next
  case (Cons r rs)
  let ?w = "fold (XPm_ReleaseNode lib) (ocm_banks 0x7FFFFFFF (m_pa r) (region_end lib r)) w"
  have "blocks ?w = B + held g" using Cons.prems(2) heap_lawsD(5) [OF Cons.prems(1)] by simp
  from drop_mem_drops [OF Cons.prems(1) this Cons.prems(3,4)] obtain g1 w1 where d: "drop_mem lib r (g, ?w) = Done ((), (g1, w1))"
    "blocks w1 = B + held g1" "fw_priv g1 = Some (m, cpu)" "fw_mems g1 = rs" by blast
  from Cons.IH [OF Cons.prems(1) d(2-4)] d(1) show ?case by (simp add: release_nodes_def)
qed

lemma r5_mems_drain:
  assumes "heap_laws lib blocks" and "blocks w = B + held g" and "fw_priv g = Some (m, cpu)" and "fw_mems g = ms"
  shows "\<exists>r g' w'. r5_shutdown_mems ids lib cpu ms (g, w) = Done (r, (g', w')) \<and> blocks w' = B + held g' \<and>
    fw_priv g' = Some (m, cpu) \<and> fw_mems g' = []"
  using assms
proof (induction ms arbitrary: g w)
  case Nil
  then show ?case using power_down_keeps [OF Nil.prems(1), of cpu g w] by auto
next
  case (Cons r rs)
  let ?w = "fold (XPm_RequestNode lib) (r5_shutdown_banks ids cpu (m_pa r) (region_end lib r)) w"
  have "blocks ?w = B + held g" using Cons.prems(2) heap_lawsD(4) [OF Cons.prems(1)] by simp
  from drop_mem_drops [OF Cons.prems(1) this Cons.prems(3,4)] obtain g1 w1 where d: "drop_mem lib r (g, ?w) = Done ((), (g1, w1))"
    "blocks w1 = B + held g1" "fw_priv g1 = Some (m, cpu)" "fw_mems g1 = rs" by blast
  from Cons.IH [OF Cons.prems(1) d(2-4)] d(1) show ?case by (simp add: request_nodes_def)
qed

text \<open>A mapping that asks for nodes first.\<close>

lemma request_add_keeps:
  assumes laws: "heap_laws lib blocks" and "blocks w = B + held g" and "fw_priv g = Some (m, cpu)"
  shows "\<exists>x g' w'. add_region lib lpa lda sz (g, fold (XPm_RequestNode lib) ns w) = Done (x, (g', w')) \<and>
    blocks w' = B + held g' \<and> fw_priv g' = Some (m, cpu)"
proof -
  have "blocks (fold (XPm_RequestNode lib) ns w) = B + held g" using assms(2) heap_lawsD(4) [OF laws] by simp
  from add_region_keeps [OF laws this assms(3)] show ?thesis .
qed

lemma rpu_mmap_keeps:
  assumes laws: "heap_laws lib blocks" and "blocks w = B + held g" and "fw_priv g = Some (m, cpu)"
  shows "\<exists>x g' w'. rpu_rproc_mmap ids lib pa da sz (g, w) = Done (x, (g', w')) \<and> blocks w' = B + held g' \<and> fw_priv g' = Some (m, cpu)"
proof (cases "\<exists>p d. pa = Some p \<and> da = Some d")
  case True
  then obtain p d where pd: "pa = Some p" "da = Some d" by blast
  show ?thesis
  proof (cases "d \<le> 0x40000")
    case True
    with pd assms request_add_keeps [OF assms] show ?thesis
      by (cases "tcm_banks ids cpu d (d + sz)") (auto simp: rpu_rproc_mmap_def fw_cpu_def request_nodes_def Let_def)
  next
    case False
    with pd assms add_region_keeps [OF assms] show ?thesis by (simp add: rpu_rproc_mmap_def Let_def)
  qed
next
  case False
  with assms(2,3) show ?thesis by (cases pa; cases da) (simp_all add: rpu_rproc_mmap_def)
qed

lemma apu_mmap_keeps:
  assumes laws: "heap_laws lib blocks" and "blocks w = B + held g" and "fw_priv g = Some (m, cpu)"
  shows "\<exists>x g' w'. apu_rproc_mmap lib pa da sz (g, w) = Done (x, (g', w')) \<and> blocks w' = B + held g' \<and> fw_priv g' = Some (m, cpu)"
  using assms(2,3) request_add_keeps [OF assms]
  by (cases pa; cases da) (simp_all add: apu_rproc_mmap_def request_nodes_def)

lemma r5_mmap_keeps:
  assumes laws: "heap_laws lib blocks" and "blocks w = B + held g" and "fw_priv g = Some (m, cpu)"
  shows "\<exists>x g' w'. r5_rproc_mmap ids lib pa da sz (g, w) = Done (x, (g', w')) \<and> blocks w' = B + held g' \<and> fw_priv g' = Some (m, cpu)"
proof (cases "\<exists>p d. pa = Some p \<and> da = Some d")
  case True
  then obtain p d where pd: "pa = Some p" "da = Some d" by blast
  have n: "blocks (fold (XPm_RequestNode lib) ns w) = B + held g" for ns using assms(2) heap_lawsD(4) [OF laws] by simp
  show ?thesis
  proof (cases "d \<le> 0x40000")
    case True
    with pd assms n request_add_keeps [OF assms] show ?thesis
      by (cases "tcm_banks ids cpu d (d + sz)") (auto simp: r5_rproc_mmap_def fw_cpu_def request_nodes_def Let_def)
  next
    case False
    with pd assms add_region_keeps [OF assms] show ?thesis by (simp add: r5_rproc_mmap_def Let_def)
  qed
next
  case False
  with assms(2,3) show ?thesis by (cases pa; cases da) (simp_all add: r5_rproc_mmap_def)
qed

lemma r5_init_ok:
  assumes "heap_laws lib blocks" and "adjacent ids" and "fw_priv g = None" and "fw_mems g = []" and "blocks w = B"
  shows "\<exists>ok g' w'. r5_rproc_init ids lib cpu (g, w) = Done (ok, (g', w')) \<and> blocks w' = B + held g' \<and> fw_mems g' = [] \<and>
    (if ok then \<exists>m. fw_priv g' = Some (m, cpu) \<and> rpu_valid ids cpu else g' = g)"
  using assms heap_lawsD(1,2) [OF assms(1), of w] heap_lawsD(6) [OF assms(1)] rpu_in_range [OF assms(2), of cpu]
  by (cases "f_alloc lib w") (auto simp: r5_rproc_init_def r5_rproc_mode_config_def held_def split: option.split)

lemma rpu_init_ok:
  assumes a: "heap_laws lib blocks" "adjacent ids" "fw_priv g = None" "fw_mems g = []" "blocks w = B"
  shows "\<exists>ok g' w'. rpu_rproc_init ids lib cpu (g, w) = Done (ok, (g', w')) \<and> blocks w' = B + held g' \<and> fw_mems g' = [] \<and>
    (if ok then \<exists>m. fw_priv g' = Some (m, cpu) \<and> rpu_valid ids cpu else g' = g)"
proof (cases "cpu < NODE_RPU_0 ids \<or> NODE_RPU_1 ids < cpu")
  case True
  with a show ?thesis by (auto simp: rpu_rproc_init_def held_def)
next
  case False
  from alloc_priv_ok [OF a(1,3-5), of cpu] obtain ok g' w' where
    "alloc_priv lib cpu (g, w) = Done (ok, (g', w'))" "blocks w' = B + held g'" "fw_mems g' = []"
    "if ok then \<exists>m. fw_priv g' = Some (m, cpu) else g' = g" by blast
  with False rpu_in_range [OF a(2)] show ?thesis
    by (intro exI [of _ ok] exI [of _ g'] exI [of _ w']) (auto simp: rpu_rproc_init_def split: if_splits)
qed

lemma apu_init_ok:
  assumes a: "heap_laws lib blocks" "adjacent ids" "fw_priv g = None" "fw_mems g = []" "blocks w = B"
  shows "\<exists>ok g' w'. apu_rproc_init ids lib cpu (g, w) = Done (ok, (g', w')) \<and> blocks w' = B + held g' \<and> fw_mems g' = [] \<and>
    (if ok then \<exists>m. fw_priv g' = Some (m, cpu) \<and> apu_valid ids cpu else g' = g)"
proof (cases "apu_valid ids cpu")
  case True
  from alloc_priv_ok [OF a(1,3-5), of cpu] obtain ok g' w' where
    "alloc_priv lib cpu (g, w) = Done (ok, (g', w'))" "blocks w' = B + held g'" "fw_mems g' = []"
    "if ok then \<exists>m. fw_priv g' = Some (m, cpu) else g' = g" by blast
  with True show ?thesis
    by (intro exI [of _ ok] exI [of _ g'] exI [of _ w']) (simp add: apu_rproc_init_def apu_valid_def not_less)
next
  case False
  then have "apu_rproc_init ids lib cpu (g, w) = Done (False, (g, w))" by (auto simp: apu_rproc_init_def apu_valid_def)
  with a show ?thesis by (intro exI [of _ False] exI [of _ g] exI [of _ w]) (simp add: held_def)
qed

lemma rpu_shutdown_drains:
  assumes "heap_laws lib blocks" and "blocks w = B + held g" and "fw_priv g = Some (m, cpu)" and "rpu_valid ids cpu"
  shows "\<exists>r g' w'. rpu_rproc_shutdown ids lib (g, w) = Done (r, (g', w')) \<and> blocks w' = B + held g' \<and>
    fw_priv g' = Some (m, cpu) \<and> fw_mems g' = []"
  using rpu_mems_drain [OF assms refl] assms(3) by (simp add: rpu_rproc_shutdown_def fw_cpu_def)

lemma apu_shutdown_drains:
  assumes "heap_laws lib blocks" and "blocks w = B + held g" and "fw_priv g = Some (m, cpu)" and "apu_valid ids cpu"
  shows "\<exists>r g' w'. apu_rproc_shutdown lib (g, w) = Done (r, (g', w')) \<and> blocks w' = B + held g' \<and>
    fw_priv g' = Some (m, cpu) \<and> fw_mems g' = []"
  using apu_mems_drain [OF assms(1-3) refl] assms(3) by (simp add: apu_rproc_shutdown_def fw_cpu_def)

lemma r5_shutdown_drains:
  assumes "heap_laws lib blocks" and "blocks w = B + held g" and "fw_priv g = Some (m, cpu)" and "rpu_valid ids cpu"
  shows "\<exists>r g' w'. r5_rproc_shutdown ids lib (g, w) = Done (r, (g', w')) \<and> blocks w' = B + held g' \<and>
    fw_priv g' = Some (m, cpu) \<and> fw_mems g' = []"
  using r5_mems_drain [OF assms(1-3) refl] assms(3) by (simp add: r5_rproc_shutdown_def fw_cpu_def)

interpretation rpu: lcm_target rpu_rproc_init rpu_rproc_mmap rpu_rproc_shutdown rpu_rproc_remove rpu_valid
  by (unfold_locales, erule (4) rpu_init_ok, erule (2) rpu_mmap_keeps, erule (3) rpu_shutdown_drains,
      unfold rpu_rproc_remove_def, erule (3) free_priv_frees)

interpretation apu: lcm_target apu_rproc_init "\<lambda>ids. apu_rproc_mmap" "\<lambda>ids. apu_rproc_shutdown" apu_rproc_remove apu_valid
  by (unfold_locales, erule (4) apu_init_ok, erule (2) apu_mmap_keeps, erule (3) apu_shutdown_drains,
      unfold apu_rproc_remove_def, erule (3) free_priv_frees)

interpretation r5: lcm_target r5_rproc_init r5_rproc_mmap r5_rproc_shutdown r5_rproc_remove rpu_valid
  by (unfold_locales, erule (4) r5_init_ok, erule (2) r5_mmap_keeps, erule (3) r5_shutdown_drains,
      unfold r5_rproc_remove_def, erule (3) free_priv_frees)

text \<open>
  C31. The life cycle operations of the firmware loader give back all the memory they take: after a target has been initialised,
  has mapped any regions, was shut down and removed, the blocks in use are those from before, and no region is left
  on the list; this holds for the three targets, whichever allocations fail.
\<close>

theorem fw_life_balanced:
  assumes "heap_laws lib blocks" and "adjacent ids" and "fw_priv g = None" and "fw_mems g = []"
  shows "(\<exists>g' w'. fw_life (rpu_rproc_init ids lib cpu) (rpu_rproc_mmap ids lib) (rpu_rproc_shutdown ids lib) (rpu_rproc_remove lib) rs (g, w)
        = Done ((), (g', w')) \<and> blocks w' = blocks w \<and> fw_mems g' = []) \<and>
    (\<exists>g' w'. fw_life (apu_rproc_init ids lib cpu) (apu_rproc_mmap lib) (apu_rproc_shutdown lib) (apu_rproc_remove lib) rs (g, w)
        = Done ((), (g', w')) \<and> blocks w' = blocks w \<and> fw_mems g' = []) \<and>
    (\<exists>g' w'. fw_life (r5_rproc_init ids lib cpu) (r5_rproc_mmap ids lib) (r5_rproc_shutdown ids lib) (r5_rproc_remove lib) rs (g, w)
        = Done ((), (g', w')) \<and> blocks w' = blocks w \<and> fw_mems g' = [])"
  using rpu.life_balanced [OF assms] apu.life_balanced [OF assms] r5.life_balanced [OF assms] by blast

lemma log_heap_laws: "heap_laws log_fwlib (\<lambda>(l, bs, n). mset bs)"
  by (auto simp: heap_laws_def log_fwlib_def)

theorem fw_life_balanced_witness:
  "\<exists>g' w'. fw_life (rpu_rproc_init zynqmp_ids log_fwlib 7) (rpu_rproc_mmap zynqmp_ids log_fwlib) (rpu_rproc_shutdown zynqmp_ids log_fwlib)
      (rpu_rproc_remove log_fwlib) [(Some METAL_BAD_PHYS, Some 0, 0x2000), (Some 0x3ED00000, Some 0x3ED00000, 0x1000)] (fw_idle None, ([], [], 0))
    = Done ((), (g', w')) \<and> fst (snd w') = [] \<and> fw_mems g' = []"
proof -
  have "adjacent zynqmp_ids" "fw_priv (fw_idle None) = None" "fw_mems (fw_idle None) = []"
    by (simp_all add: adjacent_def zynqmp_ids_def fw_idle_def)
  from conjunct1 [OF fw_life_balanced [OF log_heap_laws this, of 7 "[(Some METAL_BAD_PHYS, Some 0, 0x2000), (Some 0x3ED00000, Some 0x3ED00000, 0x1000)]" "([], [], 0)"]]
  show ?thesis by (auto simp: split_beta)
qed

section \<open>What the loading loop leaves in the memory\<close>

text \<open>The memory a chunk occupies, and the part of the image it comes from; a chunk without an address is only looked at.\<close>

definition target :: "chunk \<Rightarrow> nat set" where
  "target c = (if c_pa c = METAL_BAD_PHYS then {} else {unat (c_pa c)..<unat (c_pa c) + unat (c_mlen c)})"

definition source :: "chunk \<Rightarrow> nat set" where
  "source c = {fw_base + unat (c_offset c)..<fw_base + unat (c_offset c) + unat (c_len c)}"

definition chunk_ok :: "chunk \<Rightarrow> bool" where
  "chunk_ok c \<longleftrightarrow> (c_len c \<noteq> 0 \<or> c_mlen c \<noteq> 0) \<and>
     (if c_pa c = METAL_BAD_PHYS then c_io c = None
      else c_len c \<le> c_mlen c \<and> (\<exists>st sz. c_io c = Some (st, sz) \<and> st \<le> c_pa c \<and>
        unat (c_pa c) + unat (c_mlen c) \<le> unat st + unat sz \<and> unat st + unat sz < 2 ^ 32))"

definition plan_ok :: "chunk list \<Rightarrow> bool" where
  "plan_ok cs \<longleftrightarrow> (\<forall>c \<in> set cs. chunk_ok c) \<and> sorted_wrt (\<lambda>c d. target c \<inter> target d = {}) cs \<and>
     (\<forall>c \<in> set cs. \<forall>d \<in> set cs. target c \<inter> source d = {})"

text \<open>The loader of OpenAMP hands out the chunks of the image one after the other; \<open>pos\<close> counts them.\<close>

definition loads_plan :: "'w rplib \<Rightarrow> ('w \<Rightarrow> nat) \<Rightarrow> chunk list \<Rightarrow> bool" where
  "loads_plan rl pos cs \<longleftrightarrow> (\<forall>d off len g w. \<exists>c g' w'.
     remoteproc_load_noblock rl d off len (g, w) = Done ((0, c), (g', w')) \<and> ram g' = ram g \<and> pos w' = Suc (pos w) \<and>
     (if pos w < length cs then c = cs ! pos w else c_len c = 0 \<and> c_mlen c = 0))"

text \<open>Regions of a flat memory.\<close>

definition flat_regions :: "'w fwlib \<Rightarrow> bool" where
  "flat_regions lib \<longleftrightarrow> (\<forall>st sz pa. st \<le> pa \<and> unat pa < unat st + unat sz \<longrightarrow>
       f_phys_to_virt lib (st, sz) pa = Some (unat pa) \<and> f_phys_to_offset lib (st, sz) pa = pa - st) \<and>
     (\<forall>st sz off b n m. unat off + n \<le> unat sz \<longrightarrow> f_block_set lib (st, sz) off b n m = mem_write (unat st + unat off) (replicate n b) m)"

definition place :: "chunk \<Rightarrow> (nat \<Rightarrow> byte) \<Rightarrow> nat \<Rightarrow> byte" where
  "place c m = (if c_pa c = METAL_BAD_PHYS then m
     else mem_write (unat (c_pa c)) (mem_read (fw_base + unat (c_offset c)) (unat (c_len c)) m @
       replicate (unat (c_mlen c) - unat (c_len c)) (c_padding c)) m)"

lemma length_mem_read [simp]: "length (mem_read a n m) = n"
  by (simp add: mem_read_def)

lemma mem_write_append: "mem_write (a + length xs) ys (mem_write a xs m) = mem_write a (xs @ ys) m"
  by (auto simp: mem_write_def fun_eq_iff nth_append)

lemma mem_write_Nil [simp]: "mem_write a [] m = m"
  by (rule ext) (auto simp: mem_write_def)

text \<open>The padding goes right behind the bytes of the chunk.\<close>

lemma padding_places:
  assumes lib: "flat_regions lib" and pa: "c_pa c \<noteq> METAL_BAD_PHYS" and lt: "c_len c < c_mlen c"
    and io: "st \<le> c_pa c" "unat (c_pa c) + unat (c_mlen c) \<le> unat st + unat sz" "unat st + unat sz < 2 ^ 32"
  shows "f_block_set lib (st, sz) (f_phys_to_offset lib (st, sz) (c_pa c + c_len c)) (c_padding c) (unat (c_mlen c - c_len c))
    (mem_write (unat (c_pa c)) (mem_read (fw_base + unat (c_offset c)) (unat (c_len c)) m) m) = place c m"
proof -
  define e where "e = c_pa c + c_len c"
  have le: "unat (c_len c) < unat (c_mlen c)" using lt by (simp add: word_less_nat_alt)
  have e: "unat e = unat (c_pa c) + unat (c_len c)" using io le by (simp add: e_def unat_word_ariths)
  have d: "unat (c_mlen c - c_len c) = unat (c_mlen c) - unat (c_len c)" using lt by (simp add: unat_sub)
  have "st \<le> e" using io(1) e by (simp add: word_le_nat_alt)
  with lib io e le have o: "f_phys_to_offset lib (st, sz) e = e - st" by (simp add: flat_regions_def)
  have "unat (e - st) = unat e - unat st" using \<open>st \<le> e\<close> by (simp add: unat_sub)
  with lib io e le d \<open>st \<le> e\<close> have "f_block_set lib (st, sz) (e - st) b (unat (c_mlen c - c_len c)) x
      = mem_write (unat e) (replicate (unat (c_mlen c) - unat (c_len c)) b) x" for b x
    by (simp add: flat_regions_def word_le_nat_alt)
  moreover have "mem_write (unat e) (replicate (unat (c_mlen c) - unat (c_len c)) (c_padding c))
      (mem_write (unat (c_pa c)) (mem_read (fw_base + unat (c_offset c)) (unat (c_len c)) m) m) = place c m"
    using pa mem_write_append [of "unat (c_pa c)" "mem_read (fw_base + unat (c_offset c)) (unat (c_len c)) m"]
    by (simp add: place_def e)
  ultimately show ?thesis by (simp add: o e_def [symmetric])
qed

lemma noblock_pass_places:
  assumes lib: "flat_regions lib" and rl: "loads_plan rl pos cs" and k: "pos w < length cs" and c: "chunk_ok (cs ! pos w)"
  shows "\<exists>l' g' w'. noblock_pass lib rl l (g, w) = Done (Inl l', (g', w')) \<and> ram g' = place (cs ! pos w) (ram g) \<and> pos w' = Suc (pos w)"
proof -
  obtain off len d where l: "l = (off, len, d)" by (cases l) auto
  let ?c = "cs ! pos w"
  from rl k obtain g1 w1 where r: "remoteproc_load_noblock rl d off len (g, w) = Done ((0, ?c), (g1, w1))"
    "ram g1 = ram g" "pos w1 = Suc (pos w)" unfolding loads_plan_def by (metis (no_types, lifting))
  show ?thesis
  proof (cases "c_pa ?c = METAL_BAD_PHYS")
    case True
    with c r l show ?thesis by (auto simp: noblock_pass_def mem_image_load_def place_def chunk_ok_def)
  next
    case False
    with c obtain st sz where io: "c_io ?c = Some (st, sz)" "st \<le> c_pa ?c" "c_len ?c \<le> c_mlen ?c"
      "unat (c_pa ?c) + unat (c_mlen ?c) \<le> unat st + unat sz" "unat st + unat sz < 2 ^ 32" by (auto simp: chunk_ok_def)
    from c False io(3) have "c_mlen ?c \<noteq> 0" by (auto simp: chunk_ok_def)
    then have m: "0 < unat (c_mlen ?c)" by (simp add: unat_gt_0)
    from lib io m have v: "f_phys_to_virt lib (st, sz) (c_pa ?c) = Some (unat (c_pa ?c))" by (simp add: flat_regions_def)
    let ?m1 = "mem_write (unat (c_pa ?c)) (mem_read (fw_base + unat (c_offset ?c)) (unat (c_len ?c)) (ram g)) (ram g)"
    show ?thesis
    proof (cases "c_len ?c < c_mlen ?c")
      case True
      from padding_places [OF lib False True io(2,4,5)] show ?thesis using False True r l io(1) v \<open>c_mlen ?c \<noteq> 0\<close>
        by (auto simp: noblock_pass_def mem_image_load_def)
    next
      case nopad: False
      with io(3) have "c_len ?c = c_mlen ?c" by simp
      then have "place ?c (ram g) = ?m1" using False by (simp add: place_def)
      with False nopad r l io v \<open>c_mlen ?c \<noteq> 0\<close> \<open>c_len ?c = c_mlen ?c\<close> show ?thesis
        by (auto simp: noblock_pass_def mem_image_load_def)
    qed
  qed
qed

lemma noblock_loop_places:
  assumes lib: "flat_regions lib" and rl: "loads_plan rl pos cs" and c: "\<forall>c \<in> set cs. chunk_ok c"
    and "pos w \<le> length cs" and "length cs - pos w < fuel"
  shows "\<exists>g' w'. iter fuel (noblock_pass lib rl) l (g, w) = Done (0, (g', w')) \<and> ram g' = fold place (drop (pos w) cs) (ram g)"
  using assms(4,5)
proof (induction fuel arbitrary: l g w)
  case 0
  then show ?case by simp
next
  case (Suc fuel)
  show ?case
  proof (cases "pos w < length cs")
    case True
    with c have "chunk_ok (cs ! pos w)" by simp
    from noblock_pass_places [OF lib rl True this] obtain l' g' w' where
      s: "noblock_pass lib rl l (g, w) = Done (Inl l', (g', w'))" "ram g' = place (cs ! pos w) (ram g)" "pos w' = Suc (pos w)" by blast
    have "drop (pos w) cs = cs ! pos w # drop (Suc (pos w)) cs" using True by (simp add: Cons_nth_drop_Suc)
    with Suc.IH [of w' l' g'] Suc.prems s True show ?thesis by simp
  next
    case False
    obtain off len d where l: "l = (off, len, d)" by (cases l) auto
    from rl False obtain ch g1 w1 where "remoteproc_load_noblock rl d off len (g, w) = Done ((0, ch), (g1, w1))"
      "ram g1 = ram g" "c_len ch = 0" "c_mlen ch = 0" unfolding loads_plan_def by metis
    with l False show ?thesis by (simp add: noblock_pass_def)
  qed
qed

lemma fold_place_outside: "(\<forall>c \<in> set cs. i \<notin> target c \<and> chunk_ok c) \<Longrightarrow> fold place cs m i = m i"
proof (induction cs arbitrary: m)
  case Nil
  then show ?case by simp
next
  case (Cons c cs)
  then have "place c m i = m i" by (auto simp: place_def mem_write_def target_def chunk_ok_def word_le_nat_alt split: if_splits)
  with Cons show ?case by simp
qed

lemma place_at:
  assumes "chunk_ok c" and "c_pa c \<noteq> METAL_BAD_PHYS" and "j < unat (c_mlen c)"
  shows "place c m (unat (c_pa c) + j) = (if j < unat (c_len c) then m (fw_base + unat (c_offset c) + j) else c_padding c)"
  using assms by (auto simp: place_def mem_write_def mem_read_def nth_append)

lemma fold_place_at:
  assumes "plan_ok cs" and "c \<in> set cs" and "c_pa c \<noteq> METAL_BAD_PHYS" and "j < unat (c_mlen c)"
  shows "fold place cs m (unat (c_pa c) + j) = (if j < unat (c_len c) then m (fw_base + unat (c_offset c) + j) else c_padding c)"
  using assms
proof (induction cs arbitrary: m)
  case Nil
  then show ?case by simp
next
  case (Cons d cs)
  have in_target: "unat (c_pa c) + j \<in> target c" using Cons.prems(3,4) by (simp add: target_def)
  show ?case
  proof (cases "c \<in> set cs")
    case True
    have "plan_ok cs" using Cons.prems(1) by (simp add: plan_ok_def)
    note IH = Cons.IH [OF this True Cons.prems(3,4), of "place d m"]
    have "place d m (fw_base + unat (c_offset c) + j) = m (fw_base + unat (c_offset c) + j)" if "j < unat (c_len c)"
    proof -
      have "fw_base + unat (c_offset c) + j \<in> source c" using that by (simp add: source_def)
      moreover have "target d \<inter> source c = {}" "chunk_ok d" using Cons.prems(1,2) by (auto simp: plan_ok_def)
      ultimately show ?thesis using fold_place_outside [of "[d]"] by auto
    qed
    with IH show ?thesis by simp
  next
    case False
    with Cons.prems(2) have "d = c" by simp
    with Cons.prems(1) in_target have "fold place cs (place c m) (unat (c_pa c) + j) = place c m (unat (c_pa c) + j)"
      by (intro fold_place_outside) (auto simp: plan_ok_def)
    moreover have "chunk_ok c" using Cons.prems(1,2) by (auto simp: plan_ok_def)
    ultimately show ?thesis using place_at [OF _ Cons.prems(3,4)] \<open>d = c\<close> by simp
  qed
qed

text \<open>
  C30. Loading without blocking puts the image where it belongs: when the loader of OpenAMP hands out a finite number of chunks
  that do not overlap each other or the image, the loop ends with 0, and the memory of each chunk holds
  its bytes of the image followed by the padding.
\<close>

theorem noblock_load_places_image:
  assumes "flat_regions lib" and "loads_plan rl pos cs" and "plan_ok cs" and "pos w = 0" and "length cs < fuel"
  shows "\<exists>g' w'. noblock_load fuel lib rl (g, w) = Done (0, (g', w')) \<and>
    (\<forall>c \<in> set cs. c_pa c \<noteq> METAL_BAD_PHYS \<longrightarrow> (\<forall>j < unat (c_mlen c). ram g' (unat (c_pa c) + j) =
       (if j < unat (c_len c) then ram g (fw_base + unat (c_offset c) + j) else c_padding c)))"
proof -
  have "\<forall>c \<in> set cs. chunk_ok c" using assms(3) by (simp add: plan_ok_def)
  from noblock_loop_places [OF assms(1,2) this, of w fuel "(0, 0x100, fw_base)" g] assms(4,5) obtain g' w' where
    r: "iter fuel (noblock_pass lib rl) (0, 0x100, fw_base) (g, w) = Done (0, (g', w'))" "ram g' = fold place cs (ram g)" by auto
  then have "noblock_load fuel lib rl (g, w) = Done (0, (g', w'))" by (simp add: noblock_load_def mem_image_open_def)
  with r(2) fold_place_at [OF assms(3)] show ?thesis by auto
qed

text \<open>An image of one chunk: 4 bytes at 0x1000 and 4 bytes of padding.\<close>

definition small_chunk :: chunk where
  "small_chunk = \<lparr>c_pa = 0x1000, c_io = Some (0x1000, 0x100), c_offset = 0x40, c_len = 4, c_mlen = 8, c_padding = 0\<rparr>"

definition log_rplib :: "(mem_node list \<times> nat list \<times> nat) rplib" where
  "log_rplib = \<lparr>remoteproc_config = ret (), remoteproc_load = ret (- 1),
     remoteproc_load_noblock = (\<lambda>d off len (g, (l, bs, n)). Done ((0, if n = 0 then small_chunk else small_chunk\<lparr>c_len := 0, c_mlen := 0\<rparr>),
       (g, (l, bs, Suc n)))),
     remoteproc_start = ret 0, remoteproc_stop = ret 0, remoteproc_shutdown = ret 0, remoteproc_remove = free_priv log_fwlib,
     wfi = (\<lambda>w. w), f_metal_init = (\<lambda>w. w), XIpiPsu_LookupConfig = (\<lambda>w. True), XIpiPsu_CfgInitialize = (\<lambda>w. (0, w)),
     XPm_InitXilpm = (\<lambda>w. (0, w)), IPI_FAILURE = 1\<rparr>"

lemma log_flat: "flat_regions log_fwlib"
  by (simp add: flat_regions_def log_fwlib_def)

lemma log_plan: "loads_plan log_rplib (\<lambda>(l, bs, n). n) [small_chunk]"
  by (auto simp: loads_plan_def log_rplib_def)

lemma small_plan: "plan_ok [small_chunk]"
  by (simp add: plan_ok_def chunk_ok_def small_chunk_def target_def source_def METAL_BAD_PHYS_def fw_base_def)

theorem noblock_load_places_image_witness:
  "\<exists>g' w'. noblock_load 2 log_fwlib log_rplib ((fw_idle (Some 7))\<lparr>ram := (\<lambda>i. 5)\<rparr>, ([], [], 0)) = Done (0, (g', w')) \<and>
     ram g' 0x1003 = 5 \<and> ram g' 0x1004 = 0"
proof -
  from noblock_load_places_image [OF log_flat log_plan small_plan, of "([], [], 0)" 2 "(fw_idle (Some 7))\<lparr>ram := (\<lambda>i. 5)\<rparr>"]
  obtain g' w' where r: "noblock_load 2 log_fwlib log_rplib ((fw_idle (Some 7))\<lparr>ram := (\<lambda>i. 5)\<rparr>, ([], [], 0)) = Done (0, (g', w'))"
    and c: "\<forall>c \<in> set [small_chunk]. c_pa c \<noteq> METAL_BAD_PHYS \<longrightarrow> (\<forall>j < unat (c_mlen c). ram g' (unat (c_pa c) + j) =
       (if j < unat (c_len c) then 5 else c_padding c))" by (fastforce simp del: set_simps)
  have f: "c_pa small_chunk = 0x1000" "c_len small_chunk = 4" "c_mlen small_chunk = 8" "c_padding small_chunk = 0"
    "(0x1000 :: paddr) \<noteq> METAL_BAD_PHYS" by (simp_all add: small_chunk_def METAL_BAD_PHYS_def)
  from c have m: "\<forall>j < 8. ram g' (0x1000 + j) = (if j < 4 then 5 else 0)" using f
    by (simp only: list.set ball_simps) simp
  from m [rule_format, of 3] m [rule_format, of 4] r show ?thesis by (cases w') auto
qed

section \<open>Where the operations do not do what they mean to\<close>

text \<open>
  The shutdown of an RPU looks at the physical address where it means the device address: the banks of a
  mapping of the tightly coupled memory are never released.
\<close>

lemma rpu_shutdown_keeps_banks:
  assumes "lda \<le> 0x40000" and "tcm_banks ids cpu lda e = Some (lpa, banks)"
  shows "rpu_released ids cpu lpa e' = Some []"
proof -
  have "unat lda \<le> 0x40000" using assms(1) by (simp add: word_le_nat_alt)
  then have "unat (0xFFE00000 + lda) = 0xFFE00000 + unat lda" "unat (0xFFE90000 + lda) = 0xFFE90000 + unat lda"
    by (simp_all add: unat_word_ariths)
  with assms(2) have "\<not> lpa \<le> 0x40000" by (auto simp: tcm_banks_def word_le_nat_alt split: if_splits)
  then show ?thesis by (simp add: rpu_released_def)
qed

text \<open>
  The end of a region is asked for at an offset behind its last byte, for which libmetal has no physical address: the
  shutdown of an APU never releases the DDR node and always releases the last bank of the on-chip memory.
\<close>

lemma apu_shutdown_wrong_nodes:
  assumes "\<And>r off. snd r \<le> off \<Longrightarrow> f_phys lib r off = METAL_BAD_PHYS"
  shows "DDR \<notin> set (ocm_banks 0x7FFFFFFF (m_pa m) (region_end lib m))"
    and "OCM_BANK_3 \<in> set (ocm_banks 0x7FFFFFFF (m_pa m) (region_end lib m))"
  using assms [of "(m_pa m, m_size m)" "m_size m"]
  by (simp_all add: ocm_banks_def region_end_def METAL_BAD_PHYS_def word_le_nat_alt unsigned_minus_1_eq_mask mask_eq_exp_minus_1)

text \<open>
  A mapping that gives only a device address, which is what the loader asks for: the APU registers a region at the
  invalid physical address, where the older R5 operations take the device address.
\<close>

lemma apu_mmap_bad_phys:
  assumes "da \<noteq> METAL_BAD_PHYS"
  shows "apu_rproc_mmap lib (Some METAL_BAD_PHYS) (Some da) sz (g, w) =
    add_region lib METAL_BAD_PHYS da sz (g, fold (XPm_RequestNode lib) (ocm_banks 0x80000000 da (da + sz)) w)"
  using assms by (simp add: apu_rproc_mmap_def request_nodes_def)

lemma rpu_mmap_bad_phys:
  assumes "da \<noteq> METAL_BAD_PHYS" and "\<not> da \<le> 0x40000"
  shows "rpu_rproc_mmap ids lib (Some METAL_BAD_PHYS) (Some da) sz (g, w) = add_region lib METAL_BAD_PHYS da sz (g, w)"
    and "r5_rproc_mmap ids lib (Some METAL_BAD_PHYS) (Some da) sz (g, w) = add_region lib da da sz (g, w)"
  using assms by (simp_all add: rpu_rproc_mmap_def r5_rproc_mmap_def Let_def)

text \<open>The lock-step mode of the R5 is for a node that the initialisation refuses.\<close>

lemma r5_lockstep_refused:
  "NODE_RPU ids < NODE_RPU_0 ids \<Longrightarrow> r5_rproc_init ids lib (NODE_RPU ids) (g, w) = Done (False, (g, w))"
  by (simp add: r5_rproc_init_def)

lemma r5_mode_bits:
  "bit (r5_mode lockstep v) n \<longleftrightarrow>
     (if n = SLSPLIT_BIT then \<not> lockstep else if n = TCM_COMB_BIT \<or> n = SLCLAMP_BIT then lockstep else bit v n)"
  by (auto simp: r5_mode_def SLSPLIT_BIT_def TCM_COMB_BIT_def SLCLAMP_BIT_def bit_simps)

text \<open>After a failed load \<open>main\<close> shuts the processor down but does not remove it: its memory is never released.\<close>

lemma load_fw_main_keeps_priv:
  assumes "app_init ids lib rl tgt tgt (g, w) = Done (True, s)"
    and "remoteproc_config rl s = Done ((), s1)" and "remoteproc_load rl s1 = Done (e, s2)" and "e < 0"
    and "remoteproc_shutdown rl s2 = Done (r, s3)"
  shows "load_fw_main fuel ids lib rl bl tgt (g, w) = Done (- 1, s3)"
  using assms by (simp add: load_fw_main_def load_exectuable_block_def)

lemma load_fw_main_leaks:
  "\<exists>g' w'. load_fw_main 0 zynqmp_ids log_fwlib log_rplib False 7 (fw_idle None, ([], [], 0)) = Done (- 1, (g', w')) \<and> fst (snd w') = [0]"
  by (simp add: load_fw_main_def load_exectuable_block_def app_init_def IpiConfigure_def fw_create_proc_def rpu_rproc_init_def
      alloc_priv_def log_rplib_def log_fwlib_def zynqmp_ids_def fw_idle_def)

end
