(* ===== verification/Linux_Rpmsg.thy ===== *)
theory Linux_Rpmsg
  imports Matrix_Demo Echo_Client
begin

text \<open>
  The programs of \<open>examples/linux\<close> that talk to a remote through the RPMsg character device: the helpers of
  \<open>common/common.c\<close>, the echo test (\<open>rpmsg-echo-test/echo_test.c\<close>), the matrix demo
  (\<open>rpmsg-mat-mul/mat_mul_demo.c\<close>) and the command line tools of \<open>rpmsg-utils\<close>.  The kernel is a record of
  functions; \<open>getopt\<close> is given by the list of the options it returns.
\<close>

section \<open>Strings and numbers of C\<close>

definition RPMSG_BUS_SYS :: string where "RPMSG_BUS_SYS = ''/sys/bus/rpmsg''"
definition NAME_MAX :: nat where "NAME_MAX = 255"

text \<open>\<open>sprintf\<close> into an array of \<open>n\<close> characters, with the terminator.\<close>

definition sprintf :: "nat \<Rightarrow> string \<Rightarrow> ('s, string) prog" where
  "sprintf n s = (if length s < n then ret s else fail Out_of_bounds)"

definition is_digit :: "char \<Rightarrow> bool" where
  "is_digit c \<longleftrightarrow> 48 \<le> (of_char c :: nat) \<and> (of_char c :: nat) \<le> 57"

definition is_space :: "char \<Rightarrow> bool" where
  "is_space c \<longleftrightarrow> (of_char c :: nat) = 32 \<or> 9 \<le> (of_char c :: nat) \<and> (of_char c :: nat) \<le> 13"

text \<open>The number at the start of a string, its sign, and what follows it; the whole string when there is none.\<close>

definition scan_number :: "string \<Rightarrow> int \<times> string" where
  "scan_number s =
     (let s1 = dropWhile is_space s;
          neg = (take 1 s1 = ''-'');
          s2 = (if take 1 s1 = ''-'' \<or> take 1 s1 = ''+'' then drop 1 s1 else s1);
          ds = takeWhile is_digit s2;
          v = foldl (\<lambda>a c. 10 * a + (of_char c - 48)) (0 :: int) ds
      in if ds = [] then (0, s) else (if neg then - v else v, dropWhile is_digit s2))"

text \<open>\<open>strtol\<close> with the value and whether the range was left, \<open>strtoul\<close> with the value and the rest.\<close>

definition strtol :: "string \<Rightarrow> int \<times> bool" where
  "strtol s = (let v = fst (scan_number s) in
     if 2 ^ 63 \<le> v then (2 ^ 63 - 1, True) else if v < - (2 ^ 63) then (- (2 ^ 63), True) else (v, False))"

definition strtoul :: "string \<Rightarrow> u64 \<times> string" where
  "strtoul s = (let v = scan_number s in (if 2 ^ 64 \<le> \<bar>fst v\<bar> then - 1 else word_of_int (fst v), snd v))"

text \<open>\<open>strncmp (s, t, n) == 0\<close> for the first \<open>n\<close> characters of \<open>t\<close>, \<open>strstr (s, t)\<close>, and \<open>strrchr (s, '.')\<close>.\<close>

definition same_start :: "nat \<Rightarrow> string \<Rightarrow> string \<Rightarrow> bool" where
  "same_start n s t \<longleftrightarrow> take n s = take n t"

definition contains :: "string \<Rightarrow> string \<Rightarrow> bool" where
  "contains s t \<longleftrightarrow> list_ex (\<lambda>k. take (length t) (drop k s) = t) [0..<Suc (length s)]"

definition after_last_dot :: "string \<Rightarrow> string option" where
  "after_last_dot s = (if CHR ''.'' \<in> set s then Some (rev (takeWhile (\<lambda>c. c \<noteq> CHR ''.'') (rev s))) else None)"

section \<open>The kernel\<close>

text \<open>An endpoint description; a field that was never written is \<open>None\<close>.\<close>

record ept_info =
  ei_name :: string
  ei_src :: "u32 option"
  ei_dst :: "u32 option"

text \<open>
  \<open>ln_read\<close> gives the result and the bytes that are stored; \<open>ln_line\<close> is \<open>fopen\<close> with one \<open>fgets\<close> into 64
  characters, where \<open>Some None\<close> is a failed \<open>fgets\<close>; \<open>ln_stale\<close> is what the name of a directory entry reads as after
  \<open>closedir\<close>.
\<close>

record 'w lnx =
  ln_open :: "string \<Rightarrow> 'w \<Rightarrow> int \<times> 'w"
  ln_close :: "int \<Rightarrow> 'w \<Rightarrow> 'w"
  ln_read :: "int \<Rightarrow> nat \<Rightarrow> 'w \<Rightarrow> (int \<times> bytes) \<times> 'w"
  ln_write :: "int \<Rightarrow> bytes \<Rightarrow> 'w \<Rightarrow> int \<times> 'w"
  ln_access :: "string \<Rightarrow> 'w \<Rightarrow> int"
  ln_dir :: "string \<Rightarrow> 'w \<Rightarrow> string list option"
  ln_stale :: "string \<Rightarrow> 'w \<Rightarrow> string"
  ln_line :: "string \<Rightarrow> 'w \<Rightarrow> string option option"
  ln_ioctl :: "int \<Rightarrow> nat \<Rightarrow> ept_info option \<Rightarrow> 'w \<Rightarrow> int \<times> 'w"
  ln_errno :: "'w \<Rightarrow> int"
  ln_usleep :: "'w \<Rightarrow> 'w"
  ln_malloc :: "'w \<Rightarrow> bool \<times> 'w"

type_synonym ('w, 'a) lxprog = "(unit \<times> 'w, 'a) prog"

definition text_of :: "bytes \<Rightarrow> string" where
  "text_of bs = map (\<lambda>b. char_of (unat b)) (takeWhile (\<lambda>b. b \<noteq> 0) bs)"

definition bytes_of :: "string \<Rightarrow> bytes" where
  "bytes_of s = map (\<lambda>c. of_nat (of_char c)) s"

section \<open>The helpers\<close>

definition app_rpmsg_create_ept :: "'w lnx \<Rightarrow> int \<Rightarrow> ept_info \<Rightarrow> ('w, int) lxprog" where
  "app_rpmsg_create_ept lx rpfd eptinfo = ext (ln_ioctl lx rpfd 1 (Some eptinfo))"

text \<open>\<open>svc\<close> is what \<open>svc_name\<close> holds, nothing before the first line is read.\<close>

fun find_ept :: "'w lnx \<Rightarrow> string \<Rightarrow> string \<Rightarrow> nat list \<Rightarrow> string option \<Rightarrow> ('w, string option) lxprog" where
  "find_ept lx chr ept [] svc = ret None"
| "find_ept lx chr ept (i # is) svc =
     bnd (sprintf 64 (''/sys/class/rpmsg/'' @ chr @ ''/rpmsg'' @ dec i @ ''/name'')) (\<lambda>path.
     bnd (asks (ln_access lx path)) (\<lambda>a. if a < 0 then find_ept lx chr ept is svc else
     bnd (asks (ln_line lx path)) (\<lambda>l. case l of None \<Rightarrow> ret None | Some line \<Rightarrow>
       let svc' = (case line of None \<Rightarrow> svc | Some t \<Rightarrow> Some t) in
       case svc' of None \<Rightarrow> fail Uninit_read | Some name \<Rightarrow>
         if same_start (min (length ept) 64) name ept
         then bnd (sprintf 16 (''rpmsg'' @ dec i)) (\<lambda>d. ret (Some d))
         else find_ept lx chr ept is svc')))"

definition get_rpmsg_ept_dev_name :: "'w lnx \<Rightarrow> string \<Rightarrow> string \<Rightarrow> ('w, string option) lxprog" where
  "get_rpmsg_ept_dev_name lx rpmsg_char_name ept_name = find_ept lx rpmsg_char_name ept_name [0..<128] None"

definition RPMSG_CHDRV :: string where "RPMSG_CHDRV = ''rpmsg_chrdev''"

definition bind_rpmsg_chrdev :: "'w lnx \<Rightarrow> string \<Rightarrow> ('w, int) lxprog" where
  "bind_rpmsg_chrdev lx dev =
     bnd (sprintf 256 (RPMSG_BUS_SYS @ ''/devices/'' @ dev @ ''/driver_override'')) (\<lambda>fpath.
     bnd (ext (ln_open lx fpath)) (\<lambda>fd. if fd < 0 then ret (- EINVAL) else
     bnd (ext (ln_read lx fd 64)) (\<lambda>(r, bs). if r < 0 then seq (extU (ln_close lx fd)) (ret r)
     else if 64 \<le> length bs \<and> 0 \<notin> set bs then fail Out_of_bounds
     else let drv = text_of bs in
       if same_start (length RPMSG_CHDRV) drv RPMSG_CHDRV then seq (extU (ln_close lx fd)) (ret 0)
       else if \<not> same_start 6 drv ''(null)'' then seq (extU (ln_close lx fd)) (ret (- EBUSY))
       else bnd (ext (ln_write lx fd (bytes_of RPMSG_CHDRV @ [0]))) (\<lambda>r.
         seq (extU (ln_close lx fd))
        (if r < 0 then ret (- EINVAL) else
         bnd (sprintf 256 (RPMSG_BUS_SYS @ ''/drivers/'' @ RPMSG_CHDRV @ ''/bind'')) (\<lambda>fpath.
         bnd (ext (ln_open lx fpath)) (\<lambda>fd. if fd < 0 then ret (- EINVAL) else
         bnd (ext (ln_write lx fd (bytes_of dev @ [0]))) (\<lambda>r.
         seq (extU (ln_close lx fd)) (ret (if r < 0 then - EINVAL else 0))))))))))"

text \<open>The result is the file descriptor or the error, and the name that is stored with a descriptor.\<close>

definition get_rpmsg_chrdev_fd :: "'w lnx \<Rightarrow> string \<Rightarrow> ('w, int \<times> string) lxprog" where
  "get_rpmsg_chrdev_fd lx dev =
     bnd (sprintf (2 * NAME_MAX) (RPMSG_BUS_SYS @ ''/devices/'' @ dev @ ''/rpmsg'')) (\<lambda>dpath.
     bnd (asks (ln_dir lx dpath)) (\<lambda>d. case d of None \<Rightarrow> ret (- EINVAL, '''') | Some names \<Rightarrow>
     case find (\<lambda>n. same_start 10 n ''rpmsg_ctrl'') names of None \<Rightarrow> ret (- EINVAL, '''') | Some n \<Rightarrow>
     bnd (sprintf (2 * NAME_MAX) (''/dev/'' @ n)) (\<lambda>path.
     bnd (ext (ln_open lx path)) (\<lambda>fd. if fd < 0 then ret (fd, '''') else
     bnd (asks (ln_stale lx n)) (\<lambda>n'.
     bnd (sprintf 16 n') (\<lambda>name. ret (fd, name)))))))"

definition set_src_dst :: "'w lnx \<Rightarrow> string \<Rightarrow> ept_info \<Rightarrow> ('w, ept_info) lxprog" where
  "set_src_dst lx out pep = (case after_last_dot out of None \<Rightarrow> ret pep | Some s \<Rightarrow>
     bnd (asks (ln_errno lx)) (\<lambda>e0.
     let (dst, range) = strtol s; e = (if range then 34 else e0) in
     if e = 34 \<and> (dst = 2 ^ 63 - 1 \<or> dst = - (2 ^ 63)) \<or> e \<noteq> 0 \<and> dst = 0 then ret pep
     else ret (pep\<lparr>ei_dst := Some (word_of_int dst)\<rparr>)))"

text \<open>\<open>out\<close> keeps its contents when no entry is found.\<close>

definition lookup_channel :: "'w lnx \<Rightarrow> string \<Rightarrow> ept_info \<Rightarrow> ('w, int \<times> string \<times> ept_info) lxprog" where
  "lookup_channel lx out pep =
     bnd (asks (ln_dir lx (RPMSG_BUS_SYS @ ''/devices''))) (\<lambda>d. case d of None \<Rightarrow> ret (- EINVAL, out, pep) | Some names \<Rightarrow>
     case find (\<lambda>n. contains n (ei_name pep)) names of None \<Rightarrow> ret (- EINVAL, out, pep) | Some n \<Rightarrow>
     if NAME_MAX \<le> length n then fail Out_of_bounds
     else bnd (set_src_dst lx n pep) (\<lambda>pep'. ret (0, n, pep')))"

section \<open>The common start of the two programs\<close>

record run_opts =
  ro_dev :: string
  ro_ctrl :: string
  ro_ntimes :: int
  ro_ept :: ept_info

text \<open>The options; a name that fills its array has no terminator, and reading it later leaves the array.\<close>

fun parse_opts :: "(char \<times> string) list \<Rightarrow> run_opts \<Rightarrow> ('w, run_opts option) lxprog" where
  "parse_opts [] ro = ret (Some ro)"
| "parse_opts ((opt, arg) # os) ro =
     (if opt = CHR ''d'' then (if NAME_MAX \<le> length arg then fail Out_of_bounds else parse_opts os (ro\<lparr>ro_dev := arg\<rparr>))
      else if opt = CHR ''c'' then (if NAME_MAX \<le> length arg then fail Out_of_bounds else parse_opts os (ro\<lparr>ro_ctrl := arg\<rparr>))
      else if opt = CHR ''n'' then parse_opts os (ro\<lparr>ro_ntimes := to_int32 (fst (strtol arg))\<rparr>)
      else if opt = CHR ''s'' then parse_opts os (ro\<lparr>ro_ept := (ro_ept ro)\<lparr>ei_src := Some (word_of_int (fst (strtol arg)))\<rparr>\<rparr>)
      else if opt = CHR ''e'' then parse_opts os (ro\<lparr>ro_ept := (ro_ept ro)\<lparr>ei_dst := Some (word_of_int (fst (strtol arg)))\<rparr>\<rparr>)
      else ret None)"

definition default_ept :: ept_info where
  "default_ept = \<lparr>ei_name = ''rpmsg-openamp-demo-channel'', ei_src = Some 0, ei_dst = Some 0\<rparr>"

definition default_opts :: run_opts where
  "default_opts = \<lparr>ro_dev = ''virtio0.rpmsg-openamp-demo-channel.-1.0'', ro_ctrl = ''virtio0.rpmsg_ctrl.0.0'', ro_ntimes = 1,
     ro_ept = default_ept\<rparr>"

text \<open>From the device name to the two open files, or the value \<open>main\<close> returns.\<close>

definition open_endpoint :: "'w lnx \<Rightarrow> run_opts \<Rightarrow> ('w, (int \<times> int) + int) lxprog" where
  "open_endpoint lx ro =
     bnd (sprintf (2 * NAME_MAX) (RPMSG_BUS_SYS @ ''/devices/'' @ ro_dev ro)) (\<lambda>fpath.
     bnd (asks (ln_access lx fpath)) (\<lambda>a. if a \<noteq> 0 then ret (Inr (- EINVAL)) else
     bnd (bind_rpmsg_chrdev lx (ro_dev ro)) (\<lambda>r. if r < 0 then ret (Inr r) else
     bnd (get_rpmsg_chrdev_fd lx (ro_ctrl ro)) (\<lambda>(fd1, n1).
     bnd (if fd1 < 0 then get_rpmsg_chrdev_fd lx (ro_dev ro) else ret (fd1, n1)) (\<lambda>(charfd, name).
     if charfd < 0 then ret (Inr charfd) else
     bnd (app_rpmsg_create_ept lx charfd (ro_ept ro)) (\<lambda>r. if r \<noteq> 0 then ret (Inr (- EINVAL)) else
     bnd (get_rpmsg_ept_dev_name lx name (ei_name (ro_ept ro))) (\<lambda>e. case e of None \<Rightarrow> ret (Inr (- EINVAL)) | Some d \<Rightarrow>
     bnd (sprintf 32 (''/dev/'' @ d)) (\<lambda>path.
     bnd (ext (ln_open lx path)) (\<lambda>fd.
     if fd < 0 then seq (extU (ln_close lx charfd)) (ret (Inr (- 1))) else ret (Inl (charfd, fd)))))))))))"

definition start_up :: "'w lnx \<Rightarrow> (char \<times> string) list \<Rightarrow> ('w, (int \<times> int \<times> int) + int) lxprog" where
  "start_up lx opts =
     bnd (lookup_channel lx (ro_dev default_opts) default_ept) (\<lambda>(r, dev, pep).
     bnd (parse_opts opts (default_opts\<lparr>ro_dev := dev, ro_ept := pep\<rparr>)) (\<lambda>o'. case o' of None \<Rightarrow> ret (Inr (- EINVAL)) | Some ro \<Rightarrow>
     bnd (open_endpoint lx ro) (\<lambda>x. case x of Inr e \<Rightarrow> ret (Inr e) | Inl (charfd, fd) \<Rightarrow> ret (Inl (ro_ntimes ro, charfd, fd)))))"

section \<open>The echo test\<close>

definition PAYLOAD_MAX_SIZE :: nat where "PAYLOAD_MAX_SIZE = 472"
definition NUM_PAYLOADS :: nat where "NUM_PAYLOADS = 472"

text \<open>\<open>char\<close> is signed or not, as the target has it.\<close>

definition char_val :: "bool \<Rightarrow> byte \<Rightarrow> int" where
  "char_val cs b = (if cs then sint b else uint b)"

text \<open>The loop over the data: the number of errors, where the size counts down over the bytes that are there.\<close>

fun validate :: "bool \<Rightarrow> nat \<Rightarrow> bytes \<Rightarrow> nat outcome" where
  "validate cs 0 ds = Done 0"
| "validate cs (Suc n) [] = Fault Out_of_bounds"
| "validate cs (Suc n) (d # ds) = (if char_val cs d \<noteq> 0xA5 then Done 1 else validate cs n ds)"

definition echo_payload :: "nat \<Rightarrow> nat \<Rightarrow> bytes" where
  "echo_payload num sz = le64 (of_nat num) @ le64 (of_nat sz) @ replicate sz 0xA5"

definition await_echo :: "nat \<Rightarrow> 'w lnx \<Rightarrow> int \<Rightarrow> ('w, bytes) lxprog" where
  "await_echo fuel lx fd = iter fuel (\<lambda>_.
     bnd (ext (ln_read lx fd (16 + PAYLOAD_MAX_SIZE))) (\<lambda>(n, bs).
       if n \<le> 0 then seq (extU (ln_usleep lx)) (ret (Inl ())) else ret (Inr bs))) ()"

text \<open>One payload, on the receive buffer and the error count; \<open>True\<close> leaves the round.\<close>

definition echo_pass :: "nat \<Rightarrow> bool \<Rightarrow> 'w lnx \<Rightarrow> int \<Rightarrow> nat \<Rightarrow> bytes \<times> nat \<Rightarrow> ('w, bool \<times> bytes \<times> nat) lxprog" where
  "echo_pass fuel cs lx fd i st = (case st of (rbuf, errs) \<Rightarrow>
     bnd (ext (ln_write lx fd (echo_payload i (Suc i)))) (\<lambda>n. if n \<le> 0 then ret (True, rbuf, errs) else
     bnd (lift (put_bytes 0 (le64 0) rbuf)) (\<lambda>rbuf.
     bnd (await_echo fuel lx fd) (\<lambda>bs.
     bnd (lift (put_bytes 0 bs rbuf)) (\<lambda>rbuf.
     bnd (lift (validate cs (unat (get64 8 rbuf)) (drop 16 rbuf))) (\<lambda>e.
     bnd (ext (ln_read lx fd (16 + PAYLOAD_MAX_SIZE))) (\<lambda>(m, bs).
     bnd (if m \<le> 0 then ret rbuf else lift (put_bytes 0 bs rbuf)) (\<lambda>rbuf.
     ret (False, rbuf, errs + e)))))))))"

fun echo_round :: "nat \<Rightarrow> bool \<Rightarrow> 'w lnx \<Rightarrow> int \<Rightarrow> nat list \<Rightarrow> bytes \<times> nat \<Rightarrow> ('w, bytes \<times> nat) lxprog" where
  "echo_round fuel cs lx fd [] st = ret st"
| "echo_round fuel cs lx fd (i # is) st =
     bnd (echo_pass fuel cs lx fd i st) (\<lambda>(brk, st'). if brk then ret st' else echo_round fuel cs lx fd is st')"

text \<open>All rounds; the result is the error counts that are printed, one at the end of each round.\<close>

fun echo_rounds :: "nat \<Rightarrow> bool \<Rightarrow> 'w lnx \<Rightarrow> int \<Rightarrow> nat \<Rightarrow> bytes \<times> nat \<Rightarrow> ('w, nat list) lxprog" where
  "echo_rounds fuel cs lx fd 0 st = ret []"
| "echo_rounds fuel cs lx fd (Suc n) st =
     bnd (echo_round fuel cs lx fd [0..<NUM_PAYLOADS] st) (\<lambda>st'.
     bnd (echo_rounds fuel cs lx fd n st') (\<lambda>out. ret (snd st' # out)))"

definition echo_send_shutdown :: "'w lnx \<Rightarrow> int \<Rightarrow> ('w, unit) lxprog" where
  "echo_send_shutdown lx fd =
     seq (ext (ln_write lx fd (le32 SHUTDOWN_MSG @ le32 SHUTDOWN_MSG @ le64 32 @ concat (replicate 4 (le32 SHUTDOWN_MSG))))) (ret ())"

text \<open>\<open>junk\<close> is what the allocated receive buffer holds; the second result is what is printed.\<close>

definition echo_test_main :: "nat \<Rightarrow> bool \<Rightarrow> 'w lnx \<Rightarrow> (char \<times> string) list \<Rightarrow> bytes \<Rightarrow> ('w, int \<times> nat list) lxprog" where
  "echo_test_main fuel cs lx opts junk =
     bnd (start_up lx opts) (\<lambda>x. case x of Inr e \<Rightarrow> ret (e, []) | Inl (ntimes, charfd, fd) \<Rightarrow>
     bnd (ext (ln_malloc lx)) (\<lambda>m1. bnd (ext (ln_malloc lx)) (\<lambda>m2.
     if \<not> m1 \<or> \<not> m2 then ret (- 1, [])
     else bnd (echo_rounds fuel cs lx fd (nat ntimes) (junk, 0)) (\<lambda>out.
          seq (echo_send_shutdown lx fd)
         (seq (extU (ln_close lx fd)) (seq (extU (ln_close lx charfd)) (ret (0, out))))))))"

section \<open>The matrix demo\<close>

text \<open>
  The functions of the demo on matrices are copies of those of the RPMsg application; this \<open>generate_matrices\<close> also prints every
  matrix when it is complete.  The result has the numbers that are printed.
\<close>

definition lx_matrix_print :: "matrix \<Rightarrow> u32 list outcome" where
  "lx_matrix_print m = matrix_print m"

fun lx_generate_matrices :: "(nat \<Rightarrow> int) \<Rightarrow> u32 \<Rightarrow> matrix list \<Rightarrow> nat \<Rightarrow> (matrix list \<times> nat \<times> u32 list) outcome" where
  "lx_generate_matrices rnd sz [] c = Done ([], c, [])"
| "lx_generate_matrices rnd sz (m # ms) c =
     obind (\<lambda>(m', c'). obind (\<lambda>out. obind (\<lambda>(ms', c'', out'). Done (m' # ms', c'', out @ out')) (lx_generate_matrices rnd sz ms c'))
         (lx_matrix_print m')) (generate_matrix rnd sz (m, c))"

text \<open>The receive loop, the numbers that each round prints, and the counter of \<open>rand\<close>; \<open>ms\<close> is what the two matrices hold.\<close>

definition await_product :: "nat \<Rightarrow> 'w lnx \<Rightarrow> int \<Rightarrow> ('w, bytes) lxprog" where
  "await_product fuel lx fd = iter fuel (\<lambda>_.
     bnd (ext (ln_read lx fd matrix_sz)) (\<lambda>(n, bs). ret (if n < int matrix_sz then Inl () else Inr bs))) ()"

definition matrix_mult :: "nat \<Rightarrow> 'w lnx \<Rightarrow> int \<Rightarrow> (nat \<Rightarrow> int) \<Rightarrow> matrix list \<Rightarrow> nat \<Rightarrow> ('w, u32 list \<times> nat) lxprog" where
  "matrix_mult fuel lx fd rnd ms c =
     bnd (lift (lx_generate_matrices rnd 6 ms c)) (\<lambda>(ms', c', out).
     seq (ext (ln_write lx fd (concat (map mat_enc ms'))))
    (bnd (await_product fuel lx fd) (\<lambda>bs.
     bnd (lift (lx_matrix_print (mat_dec bs))) (\<lambda>out'. ret (out @ out', c')))))"

fun matrix_rounds :: "nat \<Rightarrow> 'w lnx \<Rightarrow> int \<Rightarrow> (nat \<Rightarrow> int) \<Rightarrow> matrix list \<Rightarrow> nat \<Rightarrow> nat \<Rightarrow> ('w, u32 list list) lxprog" where
  "matrix_rounds fuel lx fd rnd ms 0 c = ret []"
| "matrix_rounds fuel lx fd rnd ms (Suc n) c =
     bnd (matrix_mult fuel lx fd rnd ms c) (\<lambda>(out, c').
     bnd (matrix_rounds fuel lx fd rnd ms n c') (\<lambda>outs. ret (out # outs)))"

definition mat_send_shutdown :: "'w lnx \<Rightarrow> int \<Rightarrow> ('w, unit) lxprog" where
  "mat_send_shutdown lx fd = seq (ext (ln_write lx fd (le32 SHUTDOWN_MSG))) (ret ())"

definition mat_mul_main :: "nat \<Rightarrow> 'w lnx \<Rightarrow> (char \<times> string) list \<Rightarrow> (nat \<Rightarrow> int) \<Rightarrow> matrix list \<Rightarrow> ('w, int \<times> u32 list list) lxprog" where
  "mat_mul_main fuel lx opts rnd ms =
     bnd (start_up lx opts) (\<lambda>x. case x of Inr e \<Rightarrow> ret (e, []) | Inl (ntimes, charfd, fd) \<Rightarrow>
     bnd (matrix_rounds fuel lx fd rnd ms (nat ntimes) 0) (\<lambda>outs.
     seq (mat_send_shutdown lx fd)
    (seq (extU (ln_close lx fd)) (seq (extU (ln_close lx charfd)) (ret (0, outs))))))"

section \<open>The command line tools\<close>

text \<open>Character \<open>j\<close> of argument \<open>k\<close>: the array of the arguments ends with a null pointer.\<close>

definition argv_char :: "string list \<Rightarrow> nat \<Rightarrow> nat \<Rightarrow> char outcome" where
  "argv_char args k j =
     (if k < length args then
        (if j < length (args ! k) then Done (args ! k ! j) else if j = length (args ! k) then Done (CHR 0x00) else Fault Out_of_bounds)
      else if k = length args then Fault Null_deref else Fault Out_of_bounds)"

text \<open>The two optional addresses from argument \<open>k\<close> on; \<open>None\<close> stands for the call of \<open>usage\<close>.\<close>

definition ept_addresses :: "string list \<Rightarrow> nat \<Rightarrow> ept_info \<Rightarrow> ept_info option" where
  "ept_addresses args k ept =
     (let (src, rest) = strtoul (args ! k); (dst, rest') = strtoul (args ! (k + 1)) in
      if rest \<noteq> [] then None else if rest' \<noteq> [] then None
      else Some (ept\<lparr>ei_src := Some (ucast src), ei_dst := Some (ucast dst)\<rparr>))"

definition export_dev_run :: "'w lnx \<Rightarrow> string list \<Rightarrow> nat \<Rightarrow> ('w, int) lxprog" where
  "export_dev_run lx args release =
     bnd (ext (ln_open lx (args ! 1))) (\<lambda>fd. if fd < 0 then ret 1 else
     let ept = \<lparr>ei_name = take 31 (args ! (2 + release)), ei_src = None, ei_dst = None\<rparr> in
     case (if 5 \<le> length args then ept_addresses args (3 + release) ept else Some ept) of
       None \<Rightarrow> ret 1
     | Some ept \<Rightarrow> bnd (ext (ln_ioctl lx fd (if release = 0 then 3 else 4) (Some ept))) (\<lambda>r. seq (extU (ln_close lx fd)) (ret r)))"

definition rpmsg_export_dev_main :: "'w lnx \<Rightarrow> string list \<Rightarrow> ('w, int) lxprog" where
  "rpmsg_export_dev_main lx args =
     bnd (lift (argv_char args 2 0)) (\<lambda>c.
     if c = CHR ''-'' then bnd (lift (argv_char args 1 1)) (\<lambda>d.
       if d = CHR ''d'' then (if length args \<noteq> 4 \<and> length args \<noteq> 6 then ret 1 else export_dev_run lx args 1)
       else ret 1)
     else if length args \<noteq> 3 \<and> length args \<noteq> 5 then ret 1
     else export_dev_run lx args 0)"

definition rpmsg_export_ept_main :: "'w lnx \<Rightarrow> string list \<Rightarrow> ('w, int) lxprog" where
  "rpmsg_export_ept_main lx args =
     (if length args \<noteq> 3 \<and> length args \<noteq> 5 then ret 1
      else bnd (ext (ln_open lx (args ! 1))) (\<lambda>fd. if fd < 0 then ret 1 else
        let ept = \<lparr>ei_name = take 31 (args ! 2), ei_src = None, ei_dst = None\<rparr> in
        case (if length args = 5 then ept_addresses args 3 ept else Some ept) of
          None \<Rightarrow> ret 1
        | Some ept \<Rightarrow> bnd (ext (ln_ioctl lx fd 1 (Some ept))) (\<lambda>r. if r < 0 then ret 1 else seq (extU (ln_close lx fd)) (ret 0))))"

definition rpmsg_destroy_ept_main :: "'w lnx \<Rightarrow> string list \<Rightarrow> ('w, int) lxprog" where
  "rpmsg_destroy_ept_main lx args =
     (if length args \<noteq> 2 then ret 1
      else bnd (ext (ln_open lx (args ! 1))) (\<lambda>fd. if fd < 0 then ret 1 else
        bnd (ext (ln_ioctl lx fd 2 None)) (\<lambda>r. if r < 0 then ret 1 else seq (extU (ln_close lx fd)) (ret 0))))"

text \<open>The text that \<open>%s\<close> prints from the buffer of 256 bytes, of which the request and the answer are known.\<close>

definition ping_text :: "bytes \<Rightarrow> bytes \<Rightarrow> bytes outcome" where
  "ping_text request answer =
     (let known = answer @ drop (length answer) (request @ [0]) in
      if 0 \<in> set known then Done (takeWhile (\<lambda>b. b \<noteq> 0) known)
      else if 256 \<le> length answer then Fault Out_of_bounds else Fault Uninit_read)"

definition rpmsg_ping_main :: "'w lnx \<Rightarrow> string list \<Rightarrow> ('w, int \<times> bytes) lxprog" where
  "rpmsg_ping_main lx args =
     (if length args \<noteq> 2 then ret (1, [])
      else bnd (ext (ln_open lx (args ! 1))) (\<lambda>fd. if fd < 0 then ret (1, []) else
        bnd (sprintf 256 (''ping '' @ args ! 1)) (\<lambda>s.
        bnd (ext (ln_write lx fd (bytes_of s))) (\<lambda>r. if r < 0 then ret (1, []) else
        bnd (ext (ln_read lx fd 256)) (\<lambda>(r, bs). if r < 0 then ret (1, []) else
        bnd (lift (ping_text (bytes_of s) bs)) (\<lambda>t. seq (extU (ln_close lx fd)) (ret (0, t))))))))"

section \<open>A device that answers\<close>

text \<open>
  What the two programs rely on of the endpoint's file: the write of a message that fits a buffer succeeds, is \<open>sent\<close>, and is answered
  by the messages \<open>ans\<close>, which can be read after at most \<open>D\<close> attempts that find nothing; \<open>inbox\<close> holds the answers that are still to be
  read and \<open>delay\<close> the attempts that fail before the next one.
\<close>

definition answers ::
    "'w lnx \<Rightarrow> int \<Rightarrow> ('w \<Rightarrow> bytes list) \<Rightarrow> ('w \<Rightarrow> bytes list) \<Rightarrow> ('w \<Rightarrow> nat) \<Rightarrow> nat \<Rightarrow> (bytes \<Rightarrow> bytes list) \<Rightarrow> bool" where
  "answers lx fd inbox sent delay D ans \<longleftrightarrow>
     (\<forall>bs w. length bs \<le> 496 \<longrightarrow> (\<exists>w'. ln_write lx fd bs w = (int (length bs), w') \<and> inbox w' = inbox w @ ans bs \<and>
        sent w' = sent w @ [bs] \<and> delay w' \<le> D)) \<and>
     (\<forall>n w. 0 < delay w \<longrightarrow> (\<exists>w'. ln_read lx fd n w = ((- 1, []), w') \<and> inbox w' = inbox w \<and> sent w' = sent w \<and>
        Suc (delay w') = delay w)) \<and>
     (\<forall>n w. delay w = 0 \<and> inbox w = [] \<longrightarrow> (\<exists>w'. ln_read lx fd n w = ((- 1, []), w') \<and> inbox w' = [] \<and> sent w' = sent w \<and>
        delay w' = 0)) \<and>
     (\<forall>n w m ms. delay w = 0 \<and> inbox w = m # ms \<and> length m \<le> n \<longrightarrow>
        (\<exists>w'. ln_read lx fd n w = ((int (length m), m), w') \<and> inbox w' = ms \<and> sent w' = sent w \<and> delay w' = 0)) \<and>
     (\<forall>w. inbox (ln_usleep lx w) = inbox w \<and> sent (ln_usleep lx w) = sent w \<and> delay (ln_usleep lx w) = delay w)"

lemma answersD:
  assumes "answers lx fd inbox sent delay D ans"
  shows "length bs \<le> 496 \<Longrightarrow> \<exists>w'. ln_write lx fd bs w = (int (length bs), w') \<and> inbox w' = inbox w @ ans bs \<and> sent w' = sent w @ [bs] \<and>
      delay w' \<le> D"
    and "delay w = Suc d \<Longrightarrow> \<exists>w'. ln_read lx fd n w = ((- 1, []), w') \<and> inbox w' = inbox w \<and> sent w' = sent w \<and> delay w' = d"
    and "delay w = 0 \<Longrightarrow> inbox w = [] \<Longrightarrow> \<exists>w'. ln_read lx fd n w = ((- 1, []), w') \<and> inbox w' = [] \<and> sent w' = sent w \<and> delay w' = 0"
    and "delay w = 0 \<Longrightarrow> inbox w = m # ms \<Longrightarrow> length m \<le> n \<Longrightarrow>
      \<exists>w'. ln_read lx fd n w = ((int (length m), m), w') \<and> inbox w' = ms \<and> sent w' = sent w \<and> delay w' = 0"
    and "inbox (ln_usleep lx w) = inbox w" and "sent (ln_usleep lx w) = sent w" and "delay (ln_usleep lx w) = delay w"
proof -
  show "length bs \<le> 496 \<Longrightarrow> \<exists>w'. ln_write lx fd bs w = (int (length bs), w') \<and> inbox w' = inbox w @ ans bs \<and> sent w' = sent w @ [bs] \<and>
      delay w' \<le> D"
    using assms unfolding answers_def by blast
  show "delay w = Suc d \<Longrightarrow> \<exists>w'. ln_read lx fd n w = ((- 1, []), w') \<and> inbox w' = inbox w \<and> sent w' = sent w \<and> delay w' = d"
    using assms unfolding answers_def by (metis Suc_inject zero_less_Suc)
  show "delay w = 0 \<Longrightarrow> inbox w = [] \<Longrightarrow> \<exists>w'. ln_read lx fd n w = ((- 1, []), w') \<and> inbox w' = [] \<and> sent w' = sent w \<and> delay w' = 0"
    using assms by (simp add: answers_def)
  show "delay w = 0 \<Longrightarrow> inbox w = m # ms \<Longrightarrow> length m \<le> n \<Longrightarrow>
      \<exists>w'. ln_read lx fd n w = ((int (length m), m), w') \<and> inbox w' = ms \<and> sent w' = sent w \<and> delay w' = 0"
    using assms by (simp add: answers_def)
qed (use assms in \<open>simp_all add: answers_def\<close>)

text \<open>Both receive loops end with the answer.\<close>

lemma await_echo_gets:
  assumes a: "answers lx fd inbox sent delay D ans" and m: "m \<noteq> []" "length m \<le> 488"
    and "inbox w = m # ms" and "delay w < fuel"
  shows "\<exists>w'. await_echo fuel lx fd (g, w) = Done (m, (g, w')) \<and> inbox w' = ms \<and> sent w' = sent w \<and> delay w' = 0"
  using assms(4,5)
proof (induction fuel arbitrary: w)
  case 0
  then show ?case by simp
next
  case (Suc fuel)
  show ?case
  proof (cases "delay w")
    case 0
    from answersD(4) [OF a 0 Suc.prems(1) m(2)] m(1) show ?thesis
      by (auto simp: await_echo_def PAYLOAD_MAX_SIZE_def)
  next
    case (Suc d)
    from answersD(2) [OF a Suc, of 488] obtain w1 where r: "ln_read lx fd 488 w = ((- 1, []), w1)" "inbox w1 = inbox w" "sent w1 = sent w" "delay w1 = d" by blast
    with Suc.IH [of "ln_usleep lx w1"] Suc.prems Suc answersD(5-7) [OF a] show ?thesis
      by (simp add: await_echo_def PAYLOAD_MAX_SIZE_def)
  qed
qed

lemma await_product_gets:
  assumes a: "answers lx fd inbox sent delay D ans" and m: "length m = matrix_sz"
    and "inbox w = m # ms" and "delay w < fuel"
  shows "\<exists>w'. await_product fuel lx fd (g, w) = Done (m, (g, w')) \<and> inbox w' = ms \<and> sent w' = sent w \<and> delay w' = 0"
  using assms(3,4)
proof (induction fuel arbitrary: w)
  case 0
  then show ?case by simp
next
  case (Suc fuel)
  show ?case
  proof (cases "delay w")
    case 0
    from answersD(4) [OF a 0 Suc.prems(1), of matrix_sz] m show ?thesis by (auto simp: await_product_def)
  next
    case (Suc d)
    from answersD(2) [OF a Suc, of matrix_sz] obtain w1 where
      r: "ln_read lx fd matrix_sz w = ((- 1, []), w1)" "inbox w1 = inbox w" "sent w1 = sent w" "delay w1 = d" by blast
    with Suc.IH [of w1] Suc.prems Suc show ?thesis by (simp add: await_product_def)
  qed
qed

section \<open>The echo test against an echoing remote\<close>

text \<open>
  The errors that the loop finds in \<open>n\<close> payloads that are right: none where \<open>char\<close> is unsigned, as on ARM; one in each where it is
  signed, because no signed \<open>char\<close> has the value 0xA5.
\<close>

definition false_alarms :: "bool \<Rightarrow> nat \<Rightarrow> nat" where
  "false_alarms cs n = (if cs then n else 0)"

lemma validate_unsigned: "validate False n (replicate n 0xA5 @ q) = Done 0"
  by (induction n) (simp_all add: char_val_def)

lemma validate_signed: "validate True (Suc n) (d # ds) = Done 1"
proof -
  have "sint d \<noteq> 165" using sint_lt [of d] by simp
  then show ?thesis by (simp add: char_val_def)
qed

lemma validate_ok: "validate cs (Suc n) (replicate (Suc n) 0xA5 @ q) = Done (false_alarms cs 1)"
  using validate_unsigned [of "Suc n" q] validate_signed [of n] by (cases cs) (simp_all add: false_alarms_def)

lemma length_echo_payload: "length (echo_payload i sz) = 16 + sz"
  by (simp add: echo_payload_def)

lemma echo_payload_size:
  assumes "sz \<le> 472"
  shows "unat (get64 8 (echo_payload i sz @ q)) = sz"
proof -
  have "get64 8 (echo_payload i sz @ q) = of_nat sz"
    using get64_append [of "le64 (of_nat i)" 8 "of_nat sz" "replicate sz 0xA5 @ q"] by (simp add: echo_payload_def)
  then show ?thesis using assms by (simp add: unat_of_nat take_bit_nat_eq_self)
qed

lemma echo_payload_reply:
  assumes "i < 472"
  shows "replies echo_cb sg (echo_payload i (Suc i)) = [echo_payload i (Suc i)]"
proof -
  have "echo_payload i (Suc i) = payload i (Suc i)" by (simp add: echo_payload_def payload_def)
  with assms show ?thesis by (auto intro!: echo_replies payload_not_shutdown)
qed

lemma echo_pass_ok:
  assumes a: "answers lx fd inbox sent delay D (replies echo_cb sg)" and i: "i < 472" and r: "length r = 488"
    and w: "inbox w = []" and f: "D < fuel"
  shows "\<exists>r' w'. echo_pass fuel cs lx fd i (r, e) (g, w) = Done ((False, r', e + false_alarms cs 1), (g, w')) \<and> length r' = 488 \<and> inbox w' = [] \<and>
    sent w' = sent w @ [echo_payload i (Suc i)]"
proof -
  let ?p = "echo_payload i (Suc i)"
  have lp: "length ?p = 17 + i" by (simp add: length_echo_payload)
  have "length ?p \<le> 496" using lp i by simp
  from answersD(1) [OF a this, of w] w echo_payload_reply [OF i, of sg] obtain w1 where
    w1: "ln_write lx fd ?p w = (int (length ?p), w1)" "inbox w1 = [?p]" "sent w1 = sent w @ [?p]" "delay w1 \<le> D" by auto
  have "?p \<noteq> []" "length ?p \<le> 488" using lp i by auto
  from await_echo_gets [OF a this w1(2), of fuel g] w1(4) f obtain w2 where
    w2: "await_echo fuel lx fd (g, w1) = Done (?p, (g, w2))" "inbox w2 = []" "delay w2 = 0" "sent w2 = sent w1" by auto
  obtain w3 where w3: "ln_read lx fd 488 w2 = ((- 1, []), w3)" "inbox w3 = []" "sent w3 = sent w2" using answersD(3) [OF a w2(3,2)] by blast
  define r0 where "r0 = le64 0 @ drop 8 r"
  define r1 where "r1 = ?p @ drop (17 + i) r0"
  have p0: "put_bytes 0 (le64 0) r = Done r0" "length r0 = 488" using r by (simp_all add: put_bytes_def r0_def)
  have p1: "put_bytes 0 ?p r0 = Done r1" "length r1 = 488" using p0(2) i lp by (simp_all add: put_bytes_def r1_def)
  have "drop 16 r1 = replicate (Suc i) 0xA5 @ drop (17 + i) r0" by (simp add: r1_def echo_payload_def)
  moreover have "unat (get64 8 r1) = Suc i" unfolding r1_def using i by (intro echo_payload_size) simp
  ultimately have "validate cs (unat (get64 8 r1)) (drop 16 r1) = Done (false_alarms cs 1)" by (simp only: validate_ok)
  with w1(1) w2(1) w3(1) p0(1) p1(1) lp show ?thesis using p1(2) w3(2,3) w2(4) w1(3)
    by (simp add: echo_pass_def PAYLOAD_MAX_SIZE_def)
qed

lemma echo_round_ok:
  assumes a: "answers lx fd inbox sent delay D (replies echo_cb sg)" and f: "D < fuel"
    and "\<forall>i \<in> set is. i < 472" and "length r = 488" and "inbox w = []"
  shows "\<exists>r' w'. echo_round fuel cs lx fd is (r, e) (g, w) = Done ((r', e + false_alarms cs (length is)), (g, w')) \<and> length r' = 488 \<and> inbox w' = [] \<and>
    sent w' = sent w @ map (\<lambda>i. echo_payload i (Suc i)) is"
  using assms(3-5)
proof (induction "is" arbitrary: r w e)
  case Nil
  then show ?case by (simp add: false_alarms_def)
next
  case (Cons i js)
  from echo_pass_ok [OF a _ Cons.prems(2,3) f, of i cs e g] Cons.prems(1) obtain r1 w1 where
    "echo_pass fuel cs lx fd i (r, e) (g, w) = Done ((False, r1, e + false_alarms cs 1), (g, w1))" "length r1 = 488" "inbox w1 = []"
    "sent w1 = sent w @ [echo_payload i (Suc i)]" by auto
  with Cons.IH [of r1 w1 "e + false_alarms cs 1"] Cons.prems(1) show ?case by (auto simp: false_alarms_def split: if_splits)
qed

text \<open>
  The echo test passes with an echoing remote: for every number of rounds, all 472 payloads of a round are sent, waited for
  and checked, whatever the delay of the answers (up to a bound), and the loops end.  The error count stays 0 where \<open>char\<close> is unsigned.
\<close>

definition echo_messages :: "bytes list" where
  "echo_messages = map (\<lambda>i. echo_payload i (Suc i)) [0..<NUM_PAYLOADS]"

lemma echo_test_rounds_ok:
  assumes "answers lx fd inbox sent delay D (replies echo_cb sg)" and "D < fuel" and "length junk = 16 + PAYLOAD_MAX_SIZE" and "inbox w = []"
  shows "\<exists>w'. echo_rounds fuel cs lx fd n (junk, e) (g, w) = Done (map (\<lambda>j. e + false_alarms cs (472 * Suc j)) [0..<n], (g, w')) \<and> inbox w' = [] \<and>
    sent w' = sent w @ concat (replicate n echo_messages)"
  using assms(3,4)
proof (induction n arbitrary: junk w e)
  case 0
  then show ?case by simp
next
  case (Suc n)
  have "\<forall>i \<in> set [0..<NUM_PAYLOADS]. i < 472" by (simp add: NUM_PAYLOADS_def)
  from echo_round_ok [OF assms(1,2) this, of junk w cs e g] Suc.prems obtain r1 w1 where
    "echo_round fuel cs lx fd [0..<NUM_PAYLOADS] (junk, e) (g, w) = Done ((r1, e + false_alarms cs 472), (g, w1))" "length r1 = 488" "inbox w1 = []"
    "sent w1 = sent w @ echo_messages" by (auto simp: PAYLOAD_MAX_SIZE_def echo_messages_def NUM_PAYLOADS_def)
  moreover have "e + false_alarms cs 472 + false_alarms cs (472 * Suc j) = e + false_alarms cs (472 * Suc (Suc j))" for j
    by (simp add: false_alarms_def)
  ultimately show ?case
    using Suc.IH [of r1 w1 "e + false_alarms cs 472"] by (auto simp: PAYLOAD_MAX_SIZE_def map_upt_Suc simp del: upt_Suc)
qed

text \<open>A device for examples: the world is the list of the answers and what has been sent.\<close>

definition answer_lnx :: "(bytes \<Rightarrow> bytes list) \<Rightarrow> (bytes list \<times> bytes list) lnx" where
  "answer_lnx ans = \<lparr>ln_open = (\<lambda>p w. (3, w)), ln_close = (\<lambda>fd w. w),
     ln_read = (\<lambda>fd n (q, s). case q of [] \<Rightarrow> ((- 1, []), ([], s)) | m # ms \<Rightarrow> ((int (length m), m), (ms, s))),
     ln_write = (\<lambda>fd bs (q, s). (int (length bs), (q @ ans bs, s @ [bs]))), ln_access = (\<lambda>p w. 0), ln_dir = (\<lambda>p w. None), ln_stale = (\<lambda>n w. n),
     ln_line = (\<lambda>p w. None), ln_ioctl = (\<lambda>fd r e w. (0, w)), ln_errno = (\<lambda>w. 0), ln_usleep = (\<lambda>w. w), ln_malloc = (\<lambda>w. (True, w))\<rparr>"

lemma answer_lnx_answers: "answers (answer_lnx ans) fd fst snd (\<lambda>w. 0) 0 ans"
  by (simp add: answers_def answer_lnx_def split: list.splits)

text \<open>A size field from the remote that is larger than the buffer is followed out of it.\<close>

lemma validate_overrun: "m < n \<Longrightarrow> validate False n (replicate m 0xA5) = Fault Out_of_bounds"
proof (induction m arbitrary: n)
  case 0
  then show ?case by (cases n) auto
next
  case (Suc m)
  then show ?case by (cases n) (auto simp: char_val_def)
qed

section \<open>The matrix demo against the remote\<close>

lemma generated_prints:
  assumes "unat (msize m) = 6"
  shows "\<exists>out. lx_matrix_print m = Done out \<and> length out = 36"
  using matrix_print_ok [of m] assms by (auto simp: lx_matrix_print_def MAX_SIZE_def)

lemma lx_generate_matrices_full:
  assumes "\<forall>m \<in> set ms. wf_matrix m"
  shows "\<exists>ms' outs. lx_generate_matrices rnd 6 ms c = Done (ms', c + 36 * length ms, concat outs) \<and>
    list_all2 (\<lambda>m out. generated m \<and> lx_matrix_print m = Done out) ms' outs \<and> length ms' = length ms"
  using assms
proof (induction ms arbitrary: c)
  case (Cons m ms)
  from generate_matrix_full [of m rnd c] Cons.prems obtain m' where
    m': "generate_matrix rnd 6 (m, c) = Done (m', c + 36)" "generated m'" by auto
  then obtain out where out: "lx_matrix_print m' = Done out" using generated_prints [of m'] by (auto simp: generated_def MAX_SIZE_def)
  from Cons.IH [of "c + 36"] Cons.prems obtain ms' outs where
    "lx_generate_matrices rnd 6 ms (c + 36) = Done (ms', c + 36 + 36 * length ms, concat outs)"
    "list_all2 (\<lambda>m out. generated m \<and> lx_matrix_print m = Done out) ms' outs" "length ms' = length ms" by auto
  with m' out show ?case by (intro exI [of _ "m' # ms'"] exI [of _ "out # outs"]) simp
qed simp

text \<open>
  What a round prints for the matrices \<open>x\<close> and \<open>y\<close> that it has generated: the entries of both and the 36 entries of their product.
\<close>

definition prints_product :: "matrix \<times> matrix \<Rightarrow> u32 list \<Rightarrow> bool" where
  "prints_product xy out \<longleftrightarrow> (case xy of (x, y) \<Rightarrow> generated x \<and> generated y \<and>
     (\<exists>ox oy oz. lx_matrix_print x = Done ox \<and> lx_matrix_print y = Done oy \<and> lx_matrix_print (mat_prod x y) = Done oz \<and>
        length oz = 36 \<and> out = ox @ oy @ oz))"

lemma mat_mul_prints_product:
  assumes a: "answers lx fd inbox sent delay D (replies (matrixd_cb stk) sg)" and stk: "length stk = 296"
    and "D < fuel" and "inbox w = []" and "wf_matrix m1" and "wf_matrix m2"
  shows "\<exists>x y out w'. matrix_mult fuel lx fd rnd [m1, m2] c (g, w) = Done ((out, c + 72), (g, w')) \<and> inbox w' = [] \<and>
    sent w' = sent w @ [mat_enc x @ mat_enc y] \<and> prints_product (x, y) out"
proof -
  from lx_generate_matrices_full [of "[m1, m2]" rnd c] assms(5,6) obtain ms outs where
    g: "lx_generate_matrices rnd 6 [m1, m2] c = Done (ms, c + 72, concat outs)" "length ms = 2"
      "list_all2 (\<lambda>m out. generated m \<and> lx_matrix_print m = Done out) ms outs" by auto
  then obtain x y where ms: "ms = [x, y]" by (auto simp: length_Suc_conv numeral_2_eq_2)
  with g(3) obtain ox oy where outs: "outs = [ox, oy]" "lx_matrix_print x = Done ox" "lx_matrix_print y = Done oy"
    by (auto simp: list_all2_Cons1)
  with g(3) ms have xy: "generated x" "generated y" by auto
  then have wf: "wf_matrix x" "wf_matrix y" and sz: "unat (msize x) \<le> MAX_SIZE" "unat (msize y) \<le> MAX_SIZE" by (auto simp: generated_def)
  have "length (mat_enc x @ mat_enc y) \<le> 496" using length_pair [OF wf] by simp
  from answersD(1) [OF a this, of w] assms(4) matrixd_replies [OF wf stk sz] obtain w1 where
    w1: "ln_write lx fd (mat_enc x @ mat_enc y) w = (int (length (mat_enc x @ mat_enc y)), w1)"
      "inbox w1 = [mat_enc (mat_prod x y)]" "sent w1 = sent w @ [mat_enc x @ mat_enc y]" "delay w1 \<le> D" by auto
  from await_product_gets [OF a _ w1(2), of fuel g] w1(4) assms(3) obtain w2 where
    w2: "await_product fuel lx fd (g, w1) = Done (mat_enc (mat_prod x y), (g, w2))" "inbox w2 = []" "sent w2 = sent w1" by auto
  have "unat (msize (mat_prod x y)) = 6" using xy(1) by (simp add: mat_prod_def generated_def MAX_SIZE_def)
  with generated_prints obtain oz where p: "lx_matrix_print (mat_prod x y) = Done oz" "length oz = 36" by blast
  have "matrix_mult fuel lx fd rnd [m1, m2] c (g, w) = Done ((ox @ oy @ oz, c + 72), (g, w2))"
    using g(1) ms outs(1) w1(1) w2(1) p(1) by (simp add: matrix_mult_def)
  moreover have "prints_product (x, y) (ox @ oy @ oz)" using xy outs(2,3) p by (auto simp: prints_product_def)
  ultimately show ?thesis using w1(3) w2(2,3) by metis
qed

lemma matrix_rounds_ok:
  assumes a: "answers lx fd inbox sent delay D (replies (matrixd_cb stk) sg)" and stk: "length stk = 296" and f: "D < fuel"
    and m: "wf_matrix m1" "wf_matrix m2" and w: "inbox w = []"
  shows "\<exists>pairs outs w'. matrix_rounds fuel lx fd rnd [m1, m2] n c (g, w) = Done (outs, (g, w')) \<and> inbox w' = [] \<and>
    sent w' = sent w @ map (\<lambda>(x, y). mat_enc x @ mat_enc y) pairs \<and> length pairs = n \<and> list_all2 prints_product pairs outs"
  using w
proof (induction n arbitrary: c w)
  case 0
  then show ?case by simp
next
  case (Suc n)
  from mat_mul_prints_product [OF a stk f Suc.prems m, of rnd c g] obtain x y out w1 where
    1: "matrix_mult fuel lx fd rnd [m1, m2] c (g, w) = Done ((out, c + 72), (g, w1))" "inbox w1 = []"
    "sent w1 = sent w @ [mat_enc x @ mat_enc y]" "prints_product (x, y) out" by metis
  from Suc.IH [OF 1(2), of "c + 72"] obtain pairs outs w2 where
    2: "matrix_rounds fuel lx fd rnd [m1, m2] n (c + 72) (g, w1) = Done (outs, (g, w2))" "inbox w2 = []"
    "sent w2 = sent w1 @ map (\<lambda>(x, y). mat_enc x @ mat_enc y) pairs" "length pairs = n" "list_all2 prints_product pairs outs" by metis
  with 1 show ?case by (intro exI [of _ "(x, y) # pairs"] exI [of _ "out # outs"] exI [of _ w2]) simp
qed

text \<open>When the write fails the demo waits for an answer all the same: it never returns.\<close>

lemma matrix_mult_waits:
  assumes "\<And>w. \<exists>w'. ln_read lx fd matrix_sz w = ((- 1, []), w')"
    and "lx_generate_matrices rnd 6 ms c = Done (ms', c', out)"
  shows "matrix_mult fuel lx fd rnd ms c (g, w) = Blocked"
proof -
  have "await_product fuel lx fd (g, w) = Blocked" for w
    unfolding await_product_def
  proof (induction fuel arbitrary: w)
    case 0
    then show ?case by simp
  next
    case (Suc fuel)
    from assms(1) [of w] obtain w' where "ln_read lx fd matrix_sz w = ((- 1, []), w')" by blast
    with Suc.IH [of w'] show ?case by simp
  qed
  with assms(2) show ?thesis by (simp add: matrix_mult_def)
qed

section \<open>The tools\<close>

text \<open>
  The option of \<open>rpmsg_export_dev\<close> is looked for in the second argument but compared with the first: below
  \<open>/dev\<close> every option means the release of the device, also \<open>-h\<close>; elsewhere none does.
\<close>

lemma export_dev_any_option:
  assumes "length args = 4" and "args ! 1 = ''/dev/'' @ ctrl" and "args ! 2 = CHR ''-'' # opt"
  shows "rpmsg_export_dev_main lx args s = export_dev_run lx args 1 s"
  using assms by (simp add: rpmsg_export_dev_main_def argv_char_def)

lemma export_dev_no_release:
  assumes "length args = 4" and "args ! 1 = c # d # ctrl" and "d \<noteq> CHR ''d''" and "args ! 2 = ''-d''"
  shows "rpmsg_export_dev_main lx args s = Done (1, s)"
  using assms by (simp add: rpmsg_export_dev_main_def argv_char_def)

text \<open>Called with one argument it goes through the null pointer behind the arguments.\<close>

lemma export_dev_null: "length args = 2 \<Longrightarrow> rpmsg_export_dev_main lx args s = Fault Null_deref"
  by (simp add: rpmsg_export_dev_main_def argv_char_def)

text \<open>Without addresses the two fields of the request to the kernel are never written.\<close>

lemma export_ept_indeterminate:
  assumes "length args = 3" and "ln_open lx (args ! 1) w = (fd, w1)" and "0 \<le> fd"
    and "ln_ioctl lx fd 1 (Some \<lparr>ei_name = take 31 (args ! 2), ei_src = None, ei_dst = None\<rparr>) w1 = (r, w2)" and "0 \<le> r"
  shows "rpmsg_export_ept_main lx args (g, w) = Done (0, (g, ln_close lx fd w2))"
  using assms by (simp add: rpmsg_export_ept_main_def)

text \<open>
  \<open>rpmsg_ping\<close> does not terminate the answer: after a short one it prints the rest of its own request, and a longer one without a
  terminator makes it read what was never written.
\<close>

lemma ping_prints_request_tail:
  assumes "length answer \<le> length request" and "0 \<notin> set answer" and "0 \<notin> set request"
  shows "ping_text request answer = Done (answer @ drop (length answer) request)"
proof -
  have "0 \<notin> set (drop (length answer) request)" using assms(3) by (meson in_set_dropD)
  with assms(2) have "takeWhile (\<lambda>b. b \<noteq> 0) ((answer @ drop (length answer) request) @ [0]) = answer @ drop (length answer) request"
    by (subst takeWhile_append2) auto
  with assms(1) show ?thesis by (simp add: ping_text_def Let_def)
qed

lemma ping_reads_junk:
  assumes "length request < length answer" and "length answer < 256" and "0 \<notin> set answer"
  shows "ping_text request answer = Fault Uninit_read"
  using assms by (simp add: ping_text_def)

section \<open>Finding the device\<close>

text \<open>
  Binding tells the three states of the driver override apart, and closes its file on every path: bound already, busy, or free and
  then bound.
\<close>

lemma bind_chrdev_bound:
  assumes "length dev < 217" and "ln_open lx (RPMSG_BUS_SYS @ ''/devices/'' @ dev @ ''/driver_override'') w = (fd, w1)" and "0 \<le> fd"
    and "ln_read lx fd 64 w1 = ((r, bs), w2)" and "0 \<le> r" and "length bs < 64"
    and "same_start (length RPMSG_CHDRV) (text_of bs) RPMSG_CHDRV"
  shows "bind_rpmsg_chrdev lx dev (g, w) = Done (0, (g, ln_close lx fd w2))"
  using assms by (simp add: bind_rpmsg_chrdev_def sprintf_def RPMSG_BUS_SYS_def Let_def)

lemma bind_chrdev_busy:
  assumes "length dev < 217" and "ln_open lx (RPMSG_BUS_SYS @ ''/devices/'' @ dev @ ''/driver_override'') w = (fd, w1)" and "0 \<le> fd"
    and "ln_read lx fd 64 w1 = ((r, bs), w2)" and "0 \<le> r" and "length bs < 64"
    and "\<not> same_start (length RPMSG_CHDRV) (text_of bs) RPMSG_CHDRV" and "\<not> same_start 6 (text_of bs) ''(null)''"
  shows "bind_rpmsg_chrdev lx dev (g, w) = Done (- EBUSY, (g, ln_close lx fd w2))"
  using assms by (simp add: bind_rpmsg_chrdev_def sprintf_def RPMSG_BUS_SYS_def Let_def)

text \<open>A device name of 217 characters or more, for which the options have room, overruns the path.\<close>

lemma bind_chrdev_overrun: "217 \<le> length dev \<Longrightarrow> bind_rpmsg_chrdev lx dev s = Fault Out_of_bounds"
  by (simp add: bind_rpmsg_chrdev_def sprintf_def RPMSG_BUS_SYS_def)

text \<open>The destination address is the number after the last dot of the entry, unless an old error number hides a zero.\<close>

lemma lookup_channel_example:
  assumes "ln_dir lx ''/sys/bus/rpmsg/devices'' w = Some [''virtio0.rpmsg_ns.53.53'', ''virtio0.rpmsg-openamp-demo-channel.-1.1024'']"
  shows "lookup_channel lx dev default_ept (g, w) =
    Done ((0, ''virtio0.rpmsg-openamp-demo-channel.-1.1024'', default_ept\<lparr>ei_dst := Some 1024\<rparr>), (g, w))"
  using assms by (simp add: lookup_channel_def RPMSG_BUS_SYS_def default_ept_def contains_def NAME_MAX_def set_src_dst_def
      after_last_dot_def strtol_def scan_number_def is_space_def is_digit_def Let_def upt_rec)

end
