(* ===== verification/Linux_Proxy.thy ===== *)
theory Linux_Proxy
  imports Linux_Rpmsg Rpc_Service
begin

text \<open>
  \<open>main\<close> and the kill handler of \<open>linux/rpmsg-proxy-app/proxy_app.c\<close>: the set-up through the helpers of \<open>Linux_Rpmsg\<close>, the
  service loop of \<open>Rpc_Service\<close>, and the way out.  The calls of the loop (\<open>px\<close>) and those of the set-up (\<open>lx\<close>)
  act on the same world; \<open>slp\<close> is \<open>sleep (1)\<close>.
\<close>

section \<open>The program\<close>

text \<open>The label \<open>error0\<close>: both files are closed if they are open.\<close>

definition proxy_finish :: "'w lnx \<Rightarrow> int \<Rightarrow> int \<Rightarrow> int \<Rightarrow> ('w, int) lxprog" where
  "proxy_finish lx ept_fd char_fd r =
     seq (if 0 \<le> ept_fd then extU (ln_close lx ept_fd) else ret ())
    (seq (if 0 \<le> char_fd then extU (ln_close lx char_fd) else ret ()) (ret r))"

definition RPMG_INIT_MSG :: string where "RPMG_INIT_MSG = ''init_msg''"

text \<open>From the open endpoint to the end; \<open>rpc0\<close> is what the request buffer holds, \<open>again\<close> says whether a read failed for want of data.\<close>

definition proxy_serve ::
    "nat \<Rightarrow> 'w posix \<Rightarrow> 'w lnx \<Rightarrow> ('w \<Rightarrow> 'w) \<Rightarrow> ('w \<Rightarrow> bool) \<Rightarrow> bytes \<Rightarrow> int \<Rightarrow> int \<Rightarrow> ('w, int) lxprog" where
  "proxy_serve fuel px lx slp again rpc0 char_fd ept_fd =
     bnd (ext (ln_malloc lx)) (\<lambda>ok. if \<not> ok then proxy_finish lx ept_fd char_fd (- ENOMEM) else
     bnd (ext (ln_malloc lx)) (\<lambda>ok1. bnd (ext (ln_malloc lx)) (\<lambda>ok2.
     if \<not> ok1 \<or> \<not> ok2 then proxy_finish lx ept_fd char_fd (- ENOMEM) else
     bnd (ext (ln_write lx ept_fd (bytes_of RPMG_INIT_MSG @ [0]))) (\<lambda>r.
     if r < 0 then proxy_finish lx ept_fd char_fd r else
     seq (\<lambda>(u, w). obind (\<lambda>(x, (g, w')). Done (x, (u, w'))) (proxy_loop fuel px again rpc0 (\<lparr>active = 1, rpmsg_proxy_fd = ept_fd\<rparr>, w)))
    (seq (extU (ln_close lx ept_fd)) (seq (extU slp) (proxy_finish lx ept_fd char_fd 0)))))))"

definition proxy_main ::
    "nat \<Rightarrow> 'w posix \<Rightarrow> 'w lnx \<Rightarrow> ('w \<Rightarrow> 'w) \<Rightarrow> ('w \<Rightarrow> bool) \<Rightarrow> bytes \<Rightarrow> ('w, int) lxprog" where
  "proxy_main fuel px lx slp again rpc0 =
     seq (extU slp)
    (bnd (lookup_channel lx (ro_dev default_opts) default_ept) (\<lambda>(r, dev, pep).
     if r < 0 then proxy_finish lx (- 1) (- 1) r else
     bnd (bind_rpmsg_chrdev lx dev) (\<lambda>r. if r < 0 then proxy_finish lx (- 1) (- 1) r else
     bnd (get_rpmsg_chrdev_fd lx (ro_ctrl default_opts)) (\<lambda>(fd1, n1).
     bnd (if fd1 < 0 then get_rpmsg_chrdev_fd lx dev else ret (fd1, n1)) (\<lambda>(char_fd, name).
     if char_fd < 0 then proxy_finish lx (- 1) char_fd char_fd else
     bnd (app_rpmsg_create_ept lx char_fd pep) (\<lambda>r. if r \<noteq> 0 then proxy_finish lx (- 1) char_fd r else
     bnd (get_rpmsg_ept_dev_name lx name (ei_name pep)) (\<lambda>e. case e of None \<Rightarrow> proxy_finish lx (- 1) char_fd (- EINVAL) | Some d \<Rightarrow>
     bnd (sprintf 32 (''/dev/'' @ d)) (\<lambda>path.
     bnd (ext (ln_open lx path)) (\<lambda>ept_fd.
     if ept_fd < 0 then proxy_finish lx ept_fd char_fd ept_fd
     else proxy_serve fuel px lx slp again rpc0 char_fd ept_fd)))))))))"

text \<open>The kill handler closes the file and frees the data that the loop goes on to use.\<close>

datatype proxy_mem = Proxy proxy_data | Proxy_freed

definition proxy_kill_action :: "'w lnx \<Rightarrow> proxy_mem \<Rightarrow> 'w \<Rightarrow> (proxy_mem \<times> 'w) outcome" where
  "proxy_kill_action lx p w = (case p of Proxy d \<Rightarrow> Done (Proxy_freed, ln_close lx (rpmsg_proxy_fd d) w) | Proxy_freed \<Rightarrow> Fault Use_after_free)"

definition proxy_is_active :: "proxy_mem \<Rightarrow> bool outcome" where
  "proxy_is_active p = (case p of Proxy d \<Rightarrow> Done (active d \<noteq> 0) | Proxy_freed \<Rightarrow> Fault Use_after_free)"

section \<open>What it does\<close>

text \<open>A failure before the service leaves no file open that was opened, and is returned.\<close>

lemma proxy_finish_closes:
  "proxy_finish lx (- 1) fd r (g, w) = Done (r, (g, if 0 \<le> fd then ln_close lx fd w else w))"
  "0 \<le> e \<Longrightarrow> 0 \<le> fd \<Longrightarrow> proxy_finish lx e fd r (g, w) = Done (r, (g, ln_close lx fd (ln_close lx e w)))"
  by (simp_all add: proxy_finish_def)

lemma proxy_init_msg_fails:
  assumes "\<And>w. ln_malloc lx w = (True, w)" and "ln_write lx ept_fd (bytes_of RPMG_INIT_MSG @ [0]) w = (r, w1)" and "r < 0"
    and "0 \<le> ept_fd" and "0 \<le> char_fd"
  shows "proxy_serve fuel px lx slp again rpc0 char_fd ept_fd (g, w) = Done (r, (g, ln_close lx char_fd (ln_close lx ept_fd w1)))"
  using assms by (simp add: proxy_serve_def proxy_finish_closes)

text \<open>At the end of a served session the file of the endpoint is closed twice.\<close>

lemma proxy_closes_twice:
  assumes "\<And>w. ln_malloc lx w = (True, w)" and "ln_write lx ept_fd (bytes_of RPMG_INIT_MSG @ [0]) w = (r, w1)" and "0 \<le> r"
    and "proxy_loop fuel px again rpc0 (\<lparr>active = 1, rpmsg_proxy_fd = ept_fd\<rparr>, w1) = Done ((), (d, w2))"
    and "0 \<le> ept_fd" and "0 \<le> char_fd"
  shows "proxy_serve fuel px lx slp again rpc0 char_fd ept_fd (g, w) =
    Done (0, (g, ln_close lx char_fd (ln_close lx ept_fd (slp (ln_close lx ept_fd w2)))))"
  using assms by (simp add: proxy_serve_def proxy_finish_closes)

text \<open>After the kill handler the loop's own test reads freed memory.\<close>

lemma proxy_killed_dangles: "proxy_kill_action lx (Proxy d) w = Done (p, w') \<Longrightarrow> proxy_is_active p = Fault Use_after_free"
  by (auto simp: proxy_kill_action_def proxy_is_active_def)

end
