(* ===== verification/Rpc_System.thy ===== *)
theory Rpc_System
  imports Rpc_Linux
begin

text \<open>
  The two halves of the Linux RPC demo together: the calls of \<open>linux_rpc_demo.c\<close> over a link to the handlers of
  \<open>linux_rpc_demod.c\<close>.  A remote file call is the local call on the files of the server, for every
  sequence of calls, where later calls may use the results of earlier ones (descriptors).
\<close>

section \<open>The server on a request\<close>

text \<open>The POSIX calls and the RPC library of the server on a world that also collects the answers.\<close>

fun on_files :: "('f \<Rightarrow> 'a \<times> 'f) \<Rightarrow> 'f \<times> 'o \<Rightarrow> 'a \<times> ('f \<times> 'o)" where
  "on_files c (f, out) = (case c f of (r, f') \<Rightarrow> (r, (f', out)))"

definition files_posix :: "'f posix \<Rightarrow> ('f \<times> 'o) posix" where
  "files_posix px = \<lparr>sys_open = (\<lambda>name flags mode. on_files (sys_open px name flags mode)),
     sys_close = (\<lambda>fd. on_files (sys_close px fd)), sys_read = (\<lambda>fd n. on_files (sys_read px fd n)),
     sys_write = (\<lambda>fd bs. on_files (sys_write px fd bs))\<rparr>"

definition collecting_lib :: "nat \<Rightarrow> ('f \<times> rpc_event list) rpc_lib" where
  "collecting_lib k = \<lparr>MAX_FUNC_ID_LEN = k, MAX_BUF_LEN = 496, RPMSG_RPC_OK = 0, rpc_client_init = (\<lambda>w. (0, w)),
     rpc_server_init = (\<lambda>w. (0, w)), rpc_client_send = (\<lambda>i m w. (0, w)),
     rpc_server_send = (\<lambda>i st m (f, out). (1, (f, out @ [Answer i (sint st) m]))),
     rpc_client_release = (\<lambda>w. w), rpc_destroy_ept = (\<lambda>w. w), rpc_poll = (\<lambda>w. ([], w)), scan_word = (\<lambda>w. ([], w))\<rparr>"

text \<open>
  The callback of the server on one request, behind the function id of \<open>k\<close> bytes: the answers it sends and the files it
  leaves.  \<open>stk\<close> is what the response structure holds before it is filled.
\<close>

definition serve_call :: "'f posix \<Rightarrow> bytes \<Rightarrow> nat \<Rightarrow> u32 \<Rightarrow> bytes \<Rightarrow> 'f \<Rightarrow> rpc_event list \<times> 'f" where
  "serve_call px stk k i req f =
     (case server_event (files_posix px) (collecting_lib k) stk (Call i (replicate k 0 @ req))
         (\<lparr>l_request_termination = 0, l_ept_deleted = 0\<rparr>, (f, [])) of
       Done (_, (_, (f', out))) \<Rightarrow> (out, f') | _ \<Rightarrow> ([], f))"

text \<open>
  What the client relies on: a request that is sent is served once, its answers arrive once and in order, after
  at most \<open>D\<close> polls that bring nothing, and nobody else uses the files.
\<close>

definition rpc_link ::
    "'w rpc_lib \<Rightarrow> (u32 \<Rightarrow> bytes \<Rightarrow> 'f \<Rightarrow> rpc_event list \<times> 'f) \<Rightarrow> nat \<Rightarrow>
     ('w \<Rightarrow> bool) \<Rightarrow> ('w \<Rightarrow> 'f) \<Rightarrow> ('w \<Rightarrow> rpc_event list) \<Rightarrow> ('w \<Rightarrow> nat) \<Rightarrow> bool" where
  "rpc_link lib srv D conn files pend lag \<longleftrightarrow> 20 \<le> MAX_BUF_LEN lib \<and>
     (\<forall>w. conn w \<longrightarrow> lag w \<le> D) \<and>
     (\<forall>w i req r w'. conn w \<longrightarrow> rpc_client_send lib i req w = (r, w') \<longrightarrow> 0 \<le> r \<and> conn w' \<and>
        files w' = snd (srv i req (files w)) \<and> pend w' = pend w @ fst (srv i req (files w))) \<and>
     (\<forall>w es w'. conn w \<longrightarrow> rpc_poll lib w = (es, w') \<longrightarrow> conn w' \<and> files w' = files w \<and>
        pend w = es @ pend w' \<and> (pend w \<noteq> [] \<and> es = [] \<longrightarrow> lag w' < lag w))"

lemma rpc_link_size: "rpc_link lib srv D conn files pend lag \<Longrightarrow> 20 \<le> MAX_BUF_LEN lib"
  and rpc_link_lag: "rpc_link lib srv D conn files pend lag \<Longrightarrow> conn w \<Longrightarrow> lag w \<le> D"
  and rpc_link_send: "rpc_link lib srv D conn files pend lag \<Longrightarrow> conn w \<Longrightarrow> rpc_client_send lib i req w = (r, w') \<Longrightarrow>
    0 \<le> r \<and> conn w' \<and> files w' = snd (srv i req (files w)) \<and> pend w' = pend w @ fst (srv i req (files w))"
  and rpc_link_poll: "rpc_link lib srv D conn files pend lag \<Longrightarrow> conn w \<Longrightarrow> rpc_poll lib w = (es, w') \<Longrightarrow>
    conn w' \<and> files w' = files w \<and> pend w = es @ pend w' \<and> (pend w \<noteq> [] \<and> es = [] \<longrightarrow> lag w' < lag w)"
  unfolding rpc_link_def by blast+

section \<open>Calls of a client\<close>

text \<open>A write is given the bytes to write; the array behind the pointer has one byte more, which the client copies too.\<close>

datatype file_call = F_open bytes int int | F_write int bytes | F_read int nat | F_close int

definition int32 :: "int \<Rightarrow> bool" where
  "int32 v \<longleftrightarrow> - (2 ^ 31) \<le> v \<and> v < 2 ^ 31"

fun call_ok :: "file_call \<Rightarrow> bool" where
  "call_ok (F_open name flags mode) \<longleftrightarrow> length name \<le> 11 \<and> 0 \<notin> set name \<and> int32 flags \<and> int32 mode"
| "call_ok (F_write fd bs) \<longleftrightarrow> length bs < 300 \<and> int32 fd"
| "call_ok (F_read fd sz) \<longleftrightarrow> 0 < sz \<and> sz \<le> 300 \<and> (fd = 0 \<longrightarrow> sz = 300) \<and> int32 fd"
| "call_ok (F_close fd) \<longleftrightarrow> int32 fd"

text \<open>The call on the files themselves: its result and the bytes read.  The result of a close is not looked at.\<close>

fun local_call :: "'f posix \<Rightarrow> file_call \<Rightarrow> 'f \<Rightarrow> (int \<times> bytes) \<times> 'f" where
  "local_call px (F_open name flags mode) f = (case sys_open px name flags mode f of (fd, f') \<Rightarrow> ((fd, []), f'))"
| "local_call px (F_write fd bs) f = (case sys_write px fd bs f of (r, f') \<Rightarrow> ((r, []), f'))"
| "local_call px (F_read fd sz) f = sys_read px fd sz f"
| "local_call px (F_close fd) f = (case sys_close px fd f of (r, f') \<Rightarrow> ((0, []), f'))"

text \<open>The call through the client; \<open>stk\<close> is what local structures and buffers hold before they are filled.\<close>

fun remote_call :: "nat \<Rightarrow> 'w rpc_lib \<Rightarrow> bytes \<Rightarrow> file_call \<Rightarrow> (lrpc_client \<times> 'w, int \<times> bytes) prog" where
  "remote_call n lib stk (F_open name flags mode) =
     seq (rpmsg_open n lib stk (Some name) flags mode) (bnd (getg file_d) (\<lambda>fd. ret (fd, [])))"
| "remote_call n lib stk (F_write fd bs) =
     bnd (rpmsg_write n lib stk fd (bs @ [0]) (int (length bs))) (\<lambda>r. ret (r, []))"
| "remote_call n lib stk (F_read fd sz) =
     bnd (rpmsg_read n lib fd (Some (take 300 stk)) (int sz)) (\<lambda>r.
     bnd (getg read_req_buffer) (\<lambda>b. case b of None \<Rightarrow> fail Null_deref | Some buf \<Rightarrow> ret (r, take (nat r) buf)))"
| "remote_call n lib stk (F_close fd) = seq (rpmsg_close n lib fd) (ret (0, []))"

text \<open>A session: every call may depend on the results so far.\<close>

type_synonym session = "((int \<times> bytes) list \<Rightarrow> file_call) list"

fun local_session :: "'f posix \<Rightarrow> session \<Rightarrow> (int \<times> bytes) list \<Rightarrow> 'f \<Rightarrow> (int \<times> bytes) list \<times> 'f" where
  "local_session px [] rs f = (rs, f)"
| "local_session px (c # cs) rs f = (case local_call px (c rs) f of (r, f') \<Rightarrow> local_session px cs (rs @ [r]) f')"

fun remote_session ::
    "nat \<Rightarrow> 'w rpc_lib \<Rightarrow> bytes \<Rightarrow> session \<Rightarrow> (int \<times> bytes) list \<Rightarrow> (lrpc_client \<times> 'w, (int \<times> bytes) list) prog" where
  "remote_session n lib stk [] rs = ret rs"
| "remote_session n lib stk (c # cs) rs = bnd (remote_call n lib stk (c rs)) (\<lambda>r. remote_session n lib stk cs (rs @ [r]))"

fun session_ok :: "'f posix \<Rightarrow> session \<Rightarrow> (int \<times> bytes) list \<Rightarrow> 'f \<Rightarrow> bool" where
  "session_ok px [] rs f \<longleftrightarrow> True"
| "session_ok px (c # cs) rs f \<longleftrightarrow> call_ok (c rs) \<and>
     (case local_call px (c rs) f of (r, f') \<Rightarrow> session_ok px cs (rs @ [r]) f')"

text \<open>The results of the calls are \<open>int\<close>s of C.\<close>

definition posix_int :: "'f posix \<Rightarrow> bool" where
  "posix_int px \<longleftrightarrow> (\<forall>name flags mode f. int32 (fst (sys_open px name flags mode f))) \<and>
     (\<forall>fd bs f. int32 (fst (sys_write px fd bs f)))"

section \<open>One call\<close>

text \<open>The wait for the one answer that is under way: its callback runs once, and the wait ends.\<close>

lemma await_resp_answer:
  fixes lib :: "'w rpc_lib"
  assumes link: "rpc_link lib srv D conn files pend lag"
    and "conn w" and "pend w = [e]" and "poll_set g" and "wait_resp g" and "lag w + 2 \<le> n"
    and cb: "\<And>v :: 'w. client_event e (g, v) = Done ((), (h, v))" and "\<not> wait_resp h"
  shows "\<exists>w'. await_resp n lib (g, w) = Done ((), (h\<lparr>wait_resp := True\<rparr>, w')) \<and> conn w' \<and> pend w' = [] \<and> files w' = files w"
  using assms(2,3,6)
proof (induction n arbitrary: w)
  case 0
  then show ?case by simp
next
  case (Suc n)
  have same: "g\<lparr>wait_resp := True\<rparr> = g" using assms(5) by (cases g) simp
  obtain es w' where p: "rpc_poll lib w = (es, w')" by fastforce
  note q = rpc_link_poll [OF link Suc.prems(1) p]
  show ?case
  proof (cases es)
    case Nil
    with q Suc.prems have "conn w'" "pend w' = [e]" "lag w' + 2 \<le> n" "files w' = files w" by auto
    with Suc.IH [of w'] show ?thesis using Nil p assms(4,5) by (simp add: await_resp_def client_poll_def same)
  next
    case (Cons e' es')
    with q Suc.prems(2) have es: "es = [e]" "pend w' = []" by (cases es'; simp)+
    obtain m where "n = Suc m" using Suc.prems(3) by (cases n) auto
    then show ?thesis using es q p assms(4,5,8) cb [of w'] by (simp add: await_resp_def client_poll_def same)
  qed
qed

text \<open>What the server answers, request by request.\<close>

lemma files_posix_run:
  "sys_open px name flags mode f = (fd, f') \<Longrightarrow> sys_open (files_posix px) name flags mode (f, out) = (fd, (f', out))"
  "sys_write px d bs f = (r, f') \<Longrightarrow> sys_write (files_posix px) d bs (f, out) = (r, (f', out))"
  "sys_close px d f = (r, f') \<Longrightarrow> sys_close (files_posix px) d (f, out) = (r, (f', out))"
  "sys_read px d sz f = (x, f') \<Longrightarrow> sys_read (files_posix px) d sz (f, out) = (x, (f', out))"
  by (simp_all add: files_posix_def)

lemma collecting_resp: "server_resp (collecting_lib k) i m (g, (f, out)) = Done (0, (g, (f, out @ [Answer i 0 m])))"
  by (simp add: server_resp_def collecting_lib_def)

lemma serve_callI:
  assumes "map_of (server_table (files_posix px) (collecting_lib k) stk) i = Some h"
    and "\<And>g. h (replicate k 0 @ req) (g, (f, [])) = server_resp (collecting_lib k) i m (g, (f', []))"
  shows "serve_call px stk k i req f = ([Answer i 0 m], f')"
  using assms by (simp add: serve_call_def collecting_resp)

lemma collecting_header: "MAX_FUNC_ID_LEN (collecting_lib k) = k"
  by (simp add: collecting_lib_def)

lemma serve_close:
  assumes "int32 fd" and "sys_close px fd f = (r, f')"
  shows "serve_call px stk k CLOSE_ID (le32 (word_of_int fd)) f = ([Answer CLOSE_ID 0 (le32 (word_of_int r))], f')"
proof (rule serve_callI)
  fix g
  have "get32 0 (le32 (word_of_int fd)) = word_of_int fd" using get32_hd [of "word_of_int fd" "[]"] by simp
  then show "rpmsg_handle_close (files_posix px) (collecting_lib k) (replicate k 0 @ le32 (word_of_int fd)) (g, f, [])
      = server_resp (collecting_lib k) CLOSE_ID (le32 (word_of_int r)) (g, f', [])"
    using assms(1)
    by (simp add: rpmsg_handle_close_def collecting_header sint_word_of_int int32_def files_posix_run(3) [OF assms(2)])
qed (simp add: server_table_def rpc_ids)

text \<open>The answer to a read: the count, the bytes read, and what else the structure holds.\<close>

lemma serve_read:
  assumes "call_ok (F_read fd sz)" and "posix_read px" and "sys_read px fd sz f = ((r, bs), f')" and "length stk = 304"
  shows "serve_call px stk k READ_ID (req_read fd (int sz)) f
    = ([Answer READ_ID 0 (le32 (word_of_int r) @ bs @ drop (4 + length bs) stk)], f')"
proof (rule serve_callI)
  fix g
  let ?req = "le32 (word_of_int fd) @ le32 (word_of_int (int sz))"
  have req: "get32 0 ?req = word_of_int fd" "get32 4 ?req = word_of_int (int sz)"
    using get32_append [of "le32 (word_of_int fd)" 4 "word_of_int (int sz)" "[]"] by (simp_all add: get32_hd)
  have sz: "unat (word_of_int (int sz) :: u32) = sz" using assms(1) by (simp add: unsigned_of_nat take_bit_nat_eq_self)
  have fd: "sint (word_of_int fd :: u32) = fd" using assms(1) by (simp add: sint_word_of_int int32_def)
  have bs: "length bs \<le> 300" using posix_readD [OF assms(2,3)] assms(1) by auto
  have size: "(if fd = 0 then MAX_STRING_LEN else unat (get32 4 ?req)) = sz"
    using assms(1) sz unfolding req(2) by (auto simp: MAX_STRING_LEN_def)
  have "put_bytes 4 bs stk = Done (take 4 stk @ bs @ drop (4 + length bs) stk)"
    using bs assms(4) by (simp add: put_bytes_def)
  moreover have "put_bytes 0 (le32 (word_of_int r)) (take 4 stk @ bs @ drop (4 + length bs) stk)
      = Done (le32 (word_of_int r) @ bs @ drop (4 + length bs) stk)" using assms(4) by (simp add: put_bytes_def)
  ultimately show "rpmsg_handle_read (files_posix px) (collecting_lib k) stk (replicate k 0 @ req_read fd (int sz)) (g, f, [])
      = server_resp (collecting_lib k) READ_ID (le32 (word_of_int r) @ bs @ drop (4 + length bs) stk) (g, f', [])"
    unfolding rpmsg_handle_read_def req_read_def
    by (simp add: collecting_header Let_def req(1) fd size files_posix_run(4) [OF assms(3)] del: of_int_of_nat_eq split del: if_split)
qed (simp add: server_table_def rpc_ids)

lemma serve_open:
  assumes "call_ok (F_open name flags mode)" and "20 \<le> length stk" and "sys_open px name flags mode f = (fd, f')"
  shows "\<exists>req. req_open stk name flags mode = Done req \<and>
    serve_call px rsp k OPEN_ID req f = ([Answer OPEN_ID 0 (le32 (word_of_int fd))], f')"
proof -
  let ?req = "name @ [0] @ drop (length name + 1) (take 12 stk) @ le32 (word_of_int flags) @ le32 (word_of_int mode)"
  have l: "req_open stk name flags mode = Done ?req" using assms by (intro req_open_layout) auto
  have "rpmsg_handle_open (files_posix px) (collecting_lib k) (replicate k 0 @ ?req) (g, (f, []))
      = server_resp (collecting_lib k) OPEN_ID (le32 (word_of_int fd)) (g, (f', []))" for g
  proof -
    have "\<exists>req. req_open stk name flags mode = Done req \<and> length req = 20 \<and>
        rpmsg_handle_open (files_posix px) (collecting_lib k) (replicate k 0 @ req) (g, (f, []))
          = server_resp (collecting_lib k) OPEN_ID (le32 (word_of_int fd)) (g, (f', []))"
      using assms(1,2) by (intro open_request_roundtrip files_posix_run(1) [OF assms(3)]) (auto simp: int32_def collecting_header)
    then show ?thesis by (simp only: l outcome.inject) blast
  qed
  then have "serve_call px rsp k OPEN_ID ?req f = ([Answer OPEN_ID 0 (le32 (word_of_int fd))], f')"
    by (rule serve_callI [rotated]) (simp add: server_table_def rpc_ids)
  with l show ?thesis by blast
qed

lemma serve_write:
  assumes "call_ok (F_write fd bs)" and "308 \<le> length stk" and "sys_write px fd bs f = (r, f')"
  shows "\<exists>req. req_write stk fd (bs @ [0]) (int (length bs)) = Done req \<and>
    serve_call px rsp k WRITE_ID req f = ([Answer WRITE_ID 0 (le32 (word_of_int r))], f')"
proof -
  let ?req = "le32 (word_of_int fd) @ le32 (word_of_int (int (length bs))) @ take (nat (int (length bs)) + 1) (bs @ [0]) @
      drop (9 + nat (int (length bs))) (take 308 stk)"
  have l: "req_write stk fd (bs @ [0]) (int (length bs)) = Done ?req" using assms by (intro req_write_layout) auto
  have "rpmsg_handle_write (files_posix px) (collecting_lib k) (replicate k 0 @ ?req) (g, (f, []))
      = server_resp (collecting_lib k) WRITE_ID (le32 (word_of_int r)) (g, (f', []))" for g
  proof -
    have "sys_write (files_posix px) fd (take (nat (int (length bs))) (bs @ [0])) (f, []) = (r, (f', []))"
      using files_posix_run(2) [OF assms(3)] by simp
    then have "\<exists>req. req_write stk fd (bs @ [0]) (int (length bs)) = Done req \<and> length req = 308 \<and>
        rpmsg_handle_write (files_posix px) (collecting_lib k) (replicate k 0 @ req) (g, (f, []))
          = server_resp (collecting_lib k) WRITE_ID (le32 (word_of_int r)) (g, (f', []))"
      using assms(1,2) by (intro write_request_roundtrip) (auto simp: int32_def collecting_header)
    then show ?thesis by (simp only: l outcome.inject) blast
  qed
  then have "serve_call px rsp k WRITE_ID ?req f = ([Answer WRITE_ID 0 (le32 (word_of_int r))], f')"
    by (rule serve_callI [rotated]) (simp add: server_table_def rpc_ids)
  with l show ?thesis by blast
qed

section \<open>One call through the client\<close>

text \<open>The client between two calls, and what a call over the link comes to.\<close>

definition idle :: "lrpc_client \<Rightarrow> bool" where
  "idle g \<longleftrightarrow> rpc_set g \<and> poll_set g"

text \<open>
  The request and the wait that all calls share: the client sends, the server serves, and the callback \<open>h\<close> of the
  one answer has run when the wait ends.
\<close>

lemma request_served:
  fixes lib :: "'w rpc_lib" and files :: "'w \<Rightarrow> 'f"
  assumes link: "rpc_link lib srv D conn files pend lag" and "conn w" and "pend w = []" and n: "D + 2 \<le> n"
    and "srv i req (files w) = ([e], f')"
    and "\<And>v :: 'w. client_event e (g, v) = Done ((), (h, v))" and "poll_set g" and "wait_resp g" and "\<not> wait_resp h"
  shows "\<exists>r w1 w'. rpc_client_send lib i req w = (r, w1) \<and> 0 \<le> r \<and>
    await_resp n lib (g, w1) = Done ((), (h\<lparr>wait_resp := True\<rparr>, w')) \<and> conn w' \<and> pend w' = [] \<and> files w' = f'"
proof -
  obtain r w1 where s: "rpc_client_send lib i req w = (r, w1)" by fastforce
  note q = rpc_link_send [OF link assms(2) s]
  from q assms(3,5) have w1: "conn w1" "pend w1 = [e]" "files w1 = f'" by auto
  have "lag w1 + 2 \<le> n" using rpc_link_lag [OF link w1(1)] n by simp
  from await_resp_answer [OF link w1(1,2) assms(7,8) this assms(6,9)] w1(3) s q show ?thesis by auto
qed

lemma int32_word: "int32 v \<Longrightarrow> sint (word_of_int v :: u32) = v"
  by (simp add: int32_def sint_word_of_int)

text \<open>The call returns \<open>r\<close>, with the files \<open>f'\<close>, and the client can go on.\<close>

definition call_done :: "nat \<Rightarrow> 'w rpc_lib \<Rightarrow> ('w \<Rightarrow> bool) \<Rightarrow> ('w \<Rightarrow> rpc_event list) \<Rightarrow> ('w \<Rightarrow> 'f) \<Rightarrow> bytes \<Rightarrow> file_call \<Rightarrow>
    lrpc_client \<Rightarrow> 'w \<Rightarrow> int \<times> bytes \<Rightarrow> 'f \<Rightarrow> bool" where
  "call_done n lib conn pend files stk c g w r f' \<longleftrightarrow>
     (\<exists>g' w'. remote_call n lib stk c (g, w) = Done (r, (g', w')) \<and> idle g' \<and> conn w' \<and> pend w' = [] \<and> files w' = f')"

lemma open_done:
  fixes lib :: "'w rpc_lib" and files :: "'w \<Rightarrow> 'f"
  assumes link: "rpc_link lib (serve_call px rsp k) D conn files pend lag" and n: "D + 2 \<le> n"
    and px: "posix_read px" "posix_int px" and rsp: "length rsp = 304" and stk: "308 \<le> length stk"
    and g: "idle g" and w: "conn w" "pend w = []" and c: "call_ok (F_open name flags mode)"
    and loc: "local_call px (F_open name flags mode) (files w) = (r, f')"
  shows "call_done n lib conn pend files stk (F_open name flags mode) g w r f'"
proof -
  from loc obtain fd where l: "sys_open px name flags mode (files w) = (fd, f')" "r = (fd, [])" by (auto split: prod.splits)
  with px(2) have fd: "int32 fd" using fst_conv unfolding posix_int_def by metis
  from serve_open [OF _ _ l(1), of stk rsp k] c stk obtain req where req: "req_open stk name flags mode = Done req"
    "serve_call px rsp k OPEN_ID req (files w) = ([Answer OPEN_ID 0 (le32 (word_of_int fd))], f')" by auto
  let ?g = "g\<lparr>wait_resp := True\<rparr>"
  have ev: "client_event (Answer OPEN_ID 0 (le32 (word_of_int fd))) (?g, v) = Done ((), (?g\<lparr>file_d := fd, wait_resp := False\<rparr>, v))" for v :: 'w
    using get32_hd [of "word_of_int fd" "[]"] fd
    by (simp add: client_table_def rpc_ids rpmsg_open_cb_def clear_wait_def int32_word)
  from request_served [OF link w n req(2) ev] g obtain s w1 w' where
    s: "rpc_client_send lib OPEN_ID req w = (s, w1)" "0 \<le> s" "await_resp n lib (?g, w1)
       = Done ((), (?g\<lparr>file_d := fd, wait_resp := False, wait_resp := True\<rparr>, w'))" "conn w'" "pend w' = []" "files w' = f'"
    by (auto simp: idle_def)
  obtain m where "n = Suc m" using n by (cases n) auto
  then show ?thesis using s req(1) g l(2) rpc_link_size [OF link] by (simp add: call_done_def rpmsg_open_def idle_def)
qed

lemma write_done:
  fixes lib :: "'w rpc_lib" and files :: "'w \<Rightarrow> 'f"
  assumes link: "rpc_link lib (serve_call px rsp k) D conn files pend lag" and n: "D + 2 \<le> n"
    and px: "posix_read px" "posix_int px" and rsp: "length rsp = 304" and stk: "308 \<le> length stk"
    and g: "idle g" and w: "conn w" "pend w = []" and c: "call_ok (F_write fd bs)"
    and loc: "local_call px (F_write fd bs) (files w) = (r, f')"
  shows "call_done n lib conn pend files stk (F_write fd bs) g w r f'"
proof -
  from loc obtain x where l: "sys_write px fd bs (files w) = (x, f')" "r = (x, [])" by (auto split: prod.splits)
  with px(2) have x: "int32 x" using fst_conv unfolding posix_int_def by metis
  from serve_write [OF _ stk l(1), of rsp k] c obtain req where req: "req_write stk fd (bs @ [0]) (int (length bs)) = Done req"
    "serve_call px rsp k WRITE_ID req (files w) = ([Answer WRITE_ID 0 (le32 (word_of_int x))], f')" by auto
  let ?g = "g\<lparr>bytes_written := 0, wait_resp := True\<rparr>"
  have ev: "client_event (Answer WRITE_ID 0 (le32 (word_of_int x))) (?g, v) = Done ((), (?g\<lparr>bytes_written := x, wait_resp := False\<rparr>, v))" for v :: 'w
    using get32_hd [of "word_of_int x" "[]"] x
    by (simp add: client_table_def rpc_ids rpmsg_write_cb_def clear_wait_def int32_word)
  from request_served [OF link w n req(2) ev] g obtain s w1 w' where
    "rpc_client_send lib WRITE_ID req w = (s, w1)" "0 \<le> s" "await_resp n lib (?g, w1)
       = Done ((), (?g\<lparr>bytes_written := x, wait_resp := False, wait_resp := True\<rparr>, w'))" "conn w'" "pend w' = []" "files w' = f'"
    by (auto simp: idle_def)
  then show ?thesis using req(1) g l(2) by (simp add: call_done_def rpmsg_write_def idle_def)
qed

lemma read_done:
  fixes lib :: "'w rpc_lib" and files :: "'w \<Rightarrow> 'f"
  assumes link: "rpc_link lib (serve_call px rsp k) D conn files pend lag" and n: "D + 2 \<le> n"
    and px: "posix_read px" "posix_int px" and rsp: "length rsp = 304" and stk: "308 \<le> length stk"
    and g: "idle g" and w: "conn w" "pend w = []" and c: "call_ok (F_read fd sz)"
    and loc: "local_call px (F_read fd sz) (files w) = (r, f')"
  shows "call_done n lib conn pend files stk (F_read fd sz) g w r f'"
proof -
  from loc obtain x bs where l: "sys_read px fd sz (files w) = ((x, bs), f')" "r = (x, bs)" by (cases r) auto
  note xb = posix_readD [OF px(1) l(1)]
  let ?m = "le32 (word_of_int x) @ bs @ drop (4 + length bs) rsp" and ?buf = "take 300 stk"
  have b: "length bs \<le> 300" "int32 x" using xb c by (auto simp: int32_def)
  have srv: "serve_call px rsp k READ_ID (req_read fd (int sz)) (files w) = ([Answer READ_ID 0 ?m], f')"
    using serve_read [OF _ px(1) l(1) rsp] c by simp
  let ?g = "g\<lparr>read_req_buffer := Some ?buf, bytes_read := 0, wait_resp := True\<rparr>"
  define nb where "nb = (if 0 < x then bs @ drop (4 + length bs) rsp else ?buf)"
  have "sub_bytes 4 MAX_STRING_LEN ?m = Done (bs @ drop (4 + length bs) rsp)" "put_bytes 0 (bs @ drop (4 + length bs) rsp) ?buf
      = Done (bs @ drop (4 + length bs) rsp)"
    using b(1) rsp stk by (simp_all add: sub_bytes_def put_bytes_def MAX_STRING_LEN_def)
  then have ev: "client_event (Answer READ_ID 0 ?m) (?g, v)
      = Done ((), (?g\<lparr>read_req_buffer := Some nb, bytes_read := x, wait_resp := False\<rparr>, v))" for v :: 'w
    using get32_hd [of "word_of_int x" "bs @ drop (4 + length bs) rsp"] b(2)
    by (simp add: client_table_def rpc_ids rpmsg_read_cb_def store_answer_def clear_wait_def int32_word nb_def)
  from request_served [OF link w n srv ev] g obtain s w1 w' where
    "rpc_client_send lib READ_ID (req_read fd (int sz)) w = (s, w1)" "0 \<le> s" "await_resp n lib (?g, w1)
       = Done ((), (?g\<lparr>read_req_buffer := Some nb, bytes_read := x, wait_resp := False, wait_resp := True\<rparr>, w'))"
      "conn w'" "pend w' = []" "files w' = f'"
    by (auto simp: idle_def)
  moreover have "take (nat x) nb = bs" using xb by (auto simp: nb_def)
  ultimately show ?thesis using g c l(2) by (simp add: call_done_def rpmsg_read_def idle_def)
qed

lemma close_done:
  fixes lib :: "'w rpc_lib" and files :: "'w \<Rightarrow> 'f"
  assumes link: "rpc_link lib (serve_call px rsp k) D conn files pend lag" and n: "D + 2 \<le> n"
    and px: "posix_read px" "posix_int px" and rsp: "length rsp = 304" and stk: "308 \<le> length stk"
    and g: "idle g" and w: "conn w" "pend w = []" and c: "call_ok (F_close fd)"
    and loc: "local_call px (F_close fd) (files w) = (r, f')"
  shows "call_done n lib conn pend files stk (F_close fd) g w r f'"
proof -
  from loc obtain x where l: "sys_close px fd (files w) = (x, f')" "r = (0, [])" by (auto split: prod.splits)
  have srv: "serve_call px rsp k CLOSE_ID (le32 (word_of_int fd)) (files w) = ([Answer CLOSE_ID 0 (le32 (word_of_int x))], f')"
    using serve_close [OF _ l(1)] c by simp
  let ?g = "g\<lparr>wait_resp := True\<rparr>"
  have ev: "client_event (Answer CLOSE_ID 0 (le32 (word_of_int x))) (?g, v) = Done ((), (?g\<lparr>wait_resp := False\<rparr>, v))" for v :: 'w
    by (simp add: client_table_def rpc_ids rpmsg_close_cb_def clear_wait_def)
  from request_served [OF link w n srv ev] g obtain s w1 w' where
    "rpc_client_send lib CLOSE_ID (le32 (word_of_int fd)) w = (s, w1)" "await_resp n lib (?g, w1)
       = Done ((), (?g\<lparr>wait_resp := False, wait_resp := True\<rparr>, w'))" "conn w'" "pend w' = []" "files w' = f'"
    by (auto simp: idle_def)
  then show ?thesis using g l(2) by (simp add: call_done_def rpmsg_close_def idle_def)
qed

lemma remote_call_local:
  fixes lib :: "'w rpc_lib" and files :: "'w \<Rightarrow> 'f"
  assumes "rpc_link lib (serve_call px rsp k) D conn files pend lag" and "D + 2 \<le> n"
    and "posix_read px" and "posix_int px" and "length rsp = 304" and "308 \<le> length stk"
    and "idle g" and "conn w" and "pend w = []" and "call_ok c" and "local_call px c (files w) = (r, f')"
  shows "\<exists>g' w'. remote_call n lib stk c (g, w) = Done (r, (g', w')) \<and> idle g' \<and> conn w' \<and> pend w' = [] \<and> files w' = f'"
  using assms(10,11) open_done [OF assms(1-9)] write_done [OF assms(1-9)] read_done [OF assms(1-9)] close_done [OF assms(1-9)]
  unfolding call_done_def by (cases c) blast+

section \<open>Sessions\<close>

text \<open>
  C7. Remote files behave as local ones: over a link to the server, every session of calls within the limits of the
  protocol (names of at most 11 characters, writes below 300 bytes, reads of at most 300) returns, with the
  results and the data that the same calls have on the server's own files, and leaves the same files.
\<close>

theorem remote_session_as_local:
  assumes "rpc_link lib (serve_call px rsp k) D conn files pend lag" and "D + 2 \<le> n"
    and "posix_read px" and "posix_int px" and "length rsp = 304" and "308 \<le> length stk"
    and "idle g" and "conn w" and "pend w = []" and "session_ok px cs rs (files w)"
  shows "\<exists>g' w'. remote_session n lib stk cs rs (g, w) = Done (fst (local_session px cs rs (files w)), (g', w')) \<and>
    files w' = snd (local_session px cs rs (files w)) \<and> pend w' = []"
  using assms(7-10)
proof (induction cs arbitrary: rs g w)
  case Nil
  then show ?case by simp
next
  case (Cons c cs)
  obtain r f' where l: "local_call px (c rs) (files w) = (r, f')" by fastforce
  with Cons.prems(4) have ok: "call_ok (c rs)" "session_ok px cs (rs @ [r]) f'" by simp_all
  from remote_call_local [OF assms(1-6) Cons.prems(1-3) ok(1) l] obtain g1 w1 where
    1: "remote_call n lib stk (c rs) (g, w) = Done (r, (g1, w1))" "idle g1" "conn w1" "pend w1 = []" "files w1 = f'" by blast
  with Cons.IH [OF 1(2-4)] ok(2) l show ?case by simp
qed

text \<open>
  A concrete link: the world is the files of the server with the answers under way.  One file that is written at its end and read
  from a position; a write stores at most 4096 bytes.
\<close>

definition direct_lib :: "(u32 \<Rightarrow> bytes \<Rightarrow> 'f \<Rightarrow> rpc_event list \<times> 'f) \<Rightarrow> ('f \<times> rpc_event list) rpc_lib" where
  "direct_lib srv = \<lparr>MAX_FUNC_ID_LEN = 4, MAX_BUF_LEN = 496, RPMSG_RPC_OK = 0, rpc_client_init = (\<lambda>w. (0, w)),
     rpc_server_init = (\<lambda>w. (0, w)),
     rpc_client_send = (\<lambda>i m (f, q). (1, (snd (srv i m f), q @ fst (srv i m f)))),
     rpc_server_send = (\<lambda>i st m w. (1, w)), rpc_client_release = (\<lambda>w. w), rpc_destroy_ept = (\<lambda>w. w),
     rpc_poll = (\<lambda>(f, q). (take 1 q, (f, drop 1 q))), scan_word = (\<lambda>w. ([], w))\<rparr>"

lemma direct_link: "rpc_link (direct_lib srv) srv 0 (\<lambda>_. True) fst snd (\<lambda>_. 0)"
  by (auto simp: rpc_link_def direct_lib_def)

definition one_file :: "(bytes \<times> nat) posix" where
  "one_file = \<lparr>sys_open = (\<lambda>name flags mode (c, p). (3, (if flags = 0 then c else [], 0))),
     sys_close = (\<lambda>fd f. (0, f)),
     sys_read = (\<lambda>fd n (c, p). ((int (length (take n (drop p c))), take n (drop p c)), (c, p + n))),
     sys_write = (\<lambda>fd bs (c, p). (int (length (take 4096 bs)), (c @ take 4096 bs, p)))\<rparr>"

lemma one_file_laws: "posix_read one_file" "posix_int one_file"
  by (auto simp: posix_read_def posix_int_def one_file_def int32_def split: prod.splits)

text \<open>The session of the demo: it writes its text to a file, and reads it back after opening the file again.\<close>

definition demo_session :: session where
  "demo_session = [\<lambda>rs. F_open demo_file 1089 384, \<lambda>rs. F_write (fst (rs ! 0)) demo_text, \<lambda>rs. F_close (fst (rs ! 0)),
     \<lambda>rs. F_open demo_file 0 384, \<lambda>rs. F_read (fst (rs ! 3)) 300, \<lambda>rs. F_close (fst (rs ! 3))]"

theorem remote_session_as_local_witness:
  "\<exists>g' w'. remote_session 2 (direct_lib (serve_call one_file (replicate 304 0) 4)) (replicate 308 7) demo_session []
      (idle_client, (([], 0), []))
    = Done ([(3, []), (int (length demo_text), []), (0, []), (3, []), (int (length demo_text), demo_text), (0, [])], (g', w')) \<and>
      fst (fst w') = demo_text"
proof -
  have l: "local_session one_file demo_session [] ([], 0) =
      ([(3, []), (int (length demo_text), []), (0, []), (3, []), (int (length demo_text), demo_text), (0, [])], (demo_text, 300))"
    and ok: "session_ok one_file demo_session [] ([], 0)"
    by (simp_all add: demo_session_def one_file_def demo_text_def demo_file_def int32_def of_char_of)
  from remote_session_as_local [OF direct_link _ one_file_laws, of 2 "replicate 304 0" "replicate 308 7" idle_client "(([], 0), [])" demo_session "[]" 4]
  show ?thesis by (auto simp: l ok idle_def idle_client_def)
qed

end
