(* ===== verification/Rpc_Run.thy ===== *)
theory Rpc_Run
  imports Rpc_Service
begin

text \<open>
  The system-call proxy over RPMsg from its first request to its last: the requests of a session are the same calls on the
  files, one after the other, and the answers are their results.  The session of the character-device proxy is in \<open>Proxy_Run\<close>.
\<close>

section \<open>Files in the world\<close>






section \<open>The proxy over RPMsg\<close>
























end
