(* ===== verification/Linux_Start.thy ===== *)
theory Linux_Start
  imports Linux_Rpmsg "HOL-Library.Multiset"
begin

text \<open>
  The Linux programs from the start: looking the channel up below \<open>/sys\<close>, binding it to the character driver, creating the
  endpoint and opening it, then the echo test or the matrix demo against the service of the repository, and the end with every file closed.
\<close>

section \<open>The kernel with a channel of the remote\<close>

definition devices_dir :: string where "devices_dir = RPMSG_BUS_SYS @ ''/devices''"
definition bind_file :: string where "bind_file = RPMSG_BUS_SYS @ ''/drivers/'' @ RPMSG_CHDRV @ ''/bind''"

definition override_file :: "string \<Rightarrow> string" where
  "override_file chan = RPMSG_BUS_SYS @ ''/devices/'' @ chan @ ''/driver_override''"

definition rpmsg_dir :: "string \<Rightarrow> string" where
  "rpmsg_dir dev = RPMSG_BUS_SYS @ ''/devices/'' @ dev @ ''/rpmsg''"

definition name_file :: "string \<Rightarrow> nat \<Rightarrow> string" where
  "name_file ctl i = ''/sys/class/rpmsg/'' @ ctl @ ''/rpmsg'' @ dec i @ ''/name''"

text \<open>
  The names of the devices: the channel, the control device, and the number that the endpoint gets; \<open>ch_fd\<close> is the
  descriptor of each file.
\<close>

record channel =
  ch_dev :: string
  ch_ctl :: string
  ch_ept :: nat
  ch_fd :: "string \<Rightarrow> int"

text \<open>
  What the application sees of the world: the messages of the endpoint (\<open>seen\<close>), whether the endpoint has been \<open>made\<close>, and its open files.
  Files are opened and closed by nothing but \<open>open\<close> and \<open>close\<close>.
\<close>

definition file_laws :: "'w lnx \<Rightarrow> ('w \<Rightarrow> int multiset) \<Rightarrow> bool" where
  "file_laws lx files \<longleftrightarrow>
     (\<forall>p w fd w'. ln_open lx p w = (fd, w') \<longrightarrow> 0 \<le> fd \<longrightarrow> files w' = add_mset fd (files w)) \<and>
     (\<forall>d w. files (ln_close lx d w) = files w - {#d#}) \<and>
     (\<forall>d n w. files (snd (ln_read lx d n w)) = files w) \<and> (\<forall>d bs w. files (snd (ln_write lx d bs w)) = files w) \<and>
     (\<forall>d r e w. files (snd (ln_ioctl lx d r e w)) = files w) \<and> (\<forall>w. files (snd (ln_malloc lx w)) = files w) \<and>
     (\<forall>w. files (ln_usleep lx w) = files w)"

text \<open>
  Documented behaviour of the RPMsg bus: the channel is the first device with the name of the service; it has no driver or the
  character driver; the control device is below itself (or below the channel, in older kernels); the control device creates the endpoint
  \<open>rpmsg<k>\<close>, whose name is the name of the service, and no endpoint with a smaller number has it.  None of this has to do
  with the messages on the endpoint.
\<close>

definition quiet :: "('w \<Rightarrow> 'o) \<Rightarrow> ('w \<Rightarrow> bool) \<Rightarrow> 'w \<Rightarrow> 'w \<Rightarrow> bool" where
  "quiet seen made w w' \<longleftrightarrow> seen w' = seen w \<and> (made w \<longrightarrow> made w')"

definition channel_files :: "channel \<Rightarrow> string set" where
  "channel_files c = {override_file (ch_dev c), bind_file, ''/dev/'' @ ch_ctl c, ''/dev/rpmsg'' @ dec (ch_ept c)}"

definition has_name :: "'w lnx \<Rightarrow> string \<Rightarrow> 'w \<Rightarrow> bool" where
  "has_name lx p w \<longleftrightarrow> 0 \<le> ln_access lx p w \<and> (\<exists>t. ln_line lx p w = Some (Some t) \<and> same_start 26 t (ei_name default_ept))"

definition other_name :: "'w lnx \<Rightarrow> string \<Rightarrow> 'w \<Rightarrow> bool" where
  "other_name lx p w \<longleftrightarrow> ln_access lx p w < 0 \<or> (\<exists>t. ln_line lx p w = Some (Some t) \<and> \<not> same_start 26 t (ei_name default_ept))"

definition channel_tree :: "'w lnx \<Rightarrow> channel \<Rightarrow> ('w \<Rightarrow> 'o) \<Rightarrow> ('w \<Rightarrow> bool) \<Rightarrow> bool" where
  "channel_tree lx c seen made \<longleftrightarrow>
     length (ch_dev c) < 200 \<and> length (ch_ctl c) < 16 \<and> ch_ept c < 128 \<and>
     (\<forall>w. \<exists>names. ln_dir lx devices_dir w = Some names \<and> find (\<lambda>n. contains n (ei_name default_ept)) names = Some (ch_dev c)) \<and>
     (\<forall>w. ln_access lx (RPMSG_BUS_SYS @ ''/devices/'' @ ch_dev c) w = 0) \<and>
     (\<forall>w. \<exists>names. (ln_dir lx (rpmsg_dir (ro_ctrl default_opts)) w = Some names \<or>
          ln_dir lx (rpmsg_dir (ro_ctrl default_opts)) w = None \<and> ln_dir lx (rpmsg_dir (ch_dev c)) w = Some names) \<and>
        find (\<lambda>n. same_start 10 n ''rpmsg_ctrl'') names = Some (ch_ctl c)) \<and>
     (\<forall>w. ln_stale lx (ch_ctl c) w = ch_ctl c) \<and>
     (\<forall>p \<in> channel_files c. 0 \<le> ch_fd c p \<and> (\<forall>w. \<exists>w'. ln_open lx p w = (ch_fd c p, w') \<and> quiet seen made w w')) \<and>
     (\<forall>d w. quiet seen made w (ln_close lx d w)) \<and>
     (\<forall>w. \<exists>r bs w'. ln_read lx (ch_fd c (override_file (ch_dev c))) 64 w = ((r, bs), w') \<and> 0 \<le> r \<and> length bs < 64 \<and> quiet seen made w w' \<and>
        (same_start (length RPMSG_CHDRV) (text_of bs) RPMSG_CHDRV \<or> same_start 6 (text_of bs) ''(null)'')) \<and>
     (\<forall>p \<in> {override_file (ch_dev c), bind_file}. \<forall>bs w. \<exists>r w'. ln_write lx (ch_fd c p) bs w = (r, w') \<and> 0 \<le> r \<and> quiet seen made w w') \<and>
     (\<forall>e w. \<exists>w'. ln_ioctl lx (ch_fd c (''/dev/'' @ ch_ctl c)) 1 (Some e) w = (0, w') \<and> seen w' = seen w \<and> made w') \<and>
     (\<forall>w. made w \<longrightarrow> (\<forall>i < ch_ept c. other_name lx (name_file (ch_ctl c) i) w) \<and> has_name lx (name_file (ch_ctl c) (ch_ept c)) w) \<and>
     (\<forall>w. \<exists>w'. ln_malloc lx w = (True, w') \<and> seen w' = seen w)"

lemma channel_treeD:
  assumes "channel_tree lx c seen made"
  shows "length (ch_dev c) < 200" and "length (ch_ctl c) < 16" and "ch_ept c < 128"
    and "\<exists>names. ln_dir lx devices_dir w = Some names \<and> find (\<lambda>n. contains n (ei_name default_ept)) names = Some (ch_dev c)"
    and "ln_access lx (RPMSG_BUS_SYS @ ''/devices/'' @ ch_dev c) w = 0"
    and "\<exists>names. (ln_dir lx (rpmsg_dir (ro_ctrl default_opts)) w = Some names \<or>
          ln_dir lx (rpmsg_dir (ro_ctrl default_opts)) w = None \<and> ln_dir lx (rpmsg_dir (ch_dev c)) w = Some names) \<and>
        find (\<lambda>n. same_start 10 n ''rpmsg_ctrl'') names = Some (ch_ctl c)"
    and "ln_stale lx (ch_ctl c) w = ch_ctl c"
    and "p \<in> channel_files c \<Longrightarrow> 0 \<le> ch_fd c p"
    and "p \<in> channel_files c \<Longrightarrow> \<exists>w'. ln_open lx p w = (ch_fd c p, w') \<and> quiet seen made w w'"
    and "quiet seen made w (ln_close lx d w)"
    and "\<exists>r bs w'. ln_read lx (ch_fd c (override_file (ch_dev c))) 64 w = ((r, bs), w') \<and> 0 \<le> r \<and> length bs < 64 \<and> quiet seen made w w' \<and>
        (same_start (length RPMSG_CHDRV) (text_of bs) RPMSG_CHDRV \<or> same_start 6 (text_of bs) ''(null)'')"
    and "q = override_file (ch_dev c) \<or> q = bind_file \<Longrightarrow> \<exists>r w'. ln_write lx (ch_fd c q) bs w = (r, w') \<and> 0 \<le> r \<and> quiet seen made w w'"
    and "\<exists>w'. ln_ioctl lx (ch_fd c (''/dev/'' @ ch_ctl c)) 1 (Some e) w = (0, w') \<and> seen w' = seen w \<and> made w'"
    and "made w \<Longrightarrow> i < ch_ept c \<Longrightarrow> other_name lx (name_file (ch_ctl c) i) w"
    and "made w \<Longrightarrow> has_name lx (name_file (ch_ctl c) (ch_ept c)) w"
    and "\<exists>w'. ln_malloc lx w = (True, w') \<and> seen w' = seen w"
  using assms unfolding channel_tree_def by blast+

lemma quiet_trans: "quiet seen made a b \<Longrightarrow> quiet seen made b c \<Longrightarrow> quiet seen made a c"
  by (simp add: quiet_def)

lemma dec_short: "i < 1000 \<Longrightarrow> length (dec i) \<le> 3"
  by (subst dec.simps, simp)+

section \<open>The steps of the start\<close>

lemma file_lawsD:
  assumes "file_laws lx files"
  shows "ln_open lx p w = (fd, w') \<Longrightarrow> 0 \<le> fd \<Longrightarrow> files w' = add_mset fd (files w)" and "files (ln_close lx d w) = files w - {#d#}"
    and "ln_read lx d n w = (x, w') \<Longrightarrow> files w' = files w" and "ln_write lx d bs w = (r, w') \<Longrightarrow> files w' = files w"
    and "ln_ioctl lx d m e w = (r, w') \<Longrightarrow> files w' = files w" and "ln_malloc lx w = (b, w') \<Longrightarrow> files w' = files w"
    and "files (ln_usleep lx w) = files w"
  using assms unfolding file_laws_def by (metis snd_conv)+

text \<open>An opened file, and a closed one again.\<close>

lemma open_ok:
  assumes "channel_tree lx c seen made" and "file_laws lx files" and "p \<in> channel_files c"
  obtains w' where "ln_open lx p w = (ch_fd c p, w')" and "quiet seen made w w'" and "files w' = add_mset (ch_fd c p) (files w)"
  using channel_treeD(8,9) [OF assms(1,3)] file_lawsD(1) [OF assms(2)] by metis

lemma close_ok:
  assumes "channel_tree lx c seen made" and "file_laws lx files" and "files w = add_mset d F"
  shows "quiet seen made w (ln_close lx d w)" and "files (ln_close lx d w) = F"
  using channel_treeD(10) [OF assms(1)] file_lawsD(2) [OF assms(2)] assms(3) by simp_all

lemma bind_ok:
  assumes t: "channel_tree lx c seen made" and f: "file_laws lx files"
  shows "\<exists>w'. bind_rpmsg_chrdev lx (ch_dev c) (g, w) = Done (0, (g, w')) \<and> quiet seen made w w' \<and> files w' = files w"
proof -
  let ?o = "override_file (ch_dev c)" and ?b = bind_file
  have n: "length (ch_dev c) < 200" by (rule channel_treeD(1) [OF t])
  have in_files: "?o \<in> channel_files c" "?b \<in> channel_files c" by (simp_all add: channel_files_def)
  have paths: "length (RPMSG_BUS_SYS @ ''/devices/'' @ ch_dev c @ ''/driver_override'') < 256"
    "length (RPMSG_BUS_SYS @ ''/drivers/'' @ RPMSG_CHDRV @ ''/bind'') < 256" using n by (simp_all add: RPMSG_BUS_SYS_def RPMSG_CHDRV_def)
  obtain w1 where 1: "ln_open lx ?o w = (ch_fd c ?o, w1)" "quiet seen made w w1" "files w1 = add_mset (ch_fd c ?o) (files w)"
    by (rule open_ok [OF t f in_files(1)])
  obtain r bs w2 where 2: "ln_read lx (ch_fd c ?o) 64 w1 = ((r, bs), w2)" "0 \<le> r" "length bs < 64" "quiet seen made w1 w2"
    "same_start (length RPMSG_CHDRV) (text_of bs) RPMSG_CHDRV \<or> same_start 6 (text_of bs) ''(null)''"
    using channel_treeD(11) [OF t, of w1] by blast
  have f2: "files w2 = add_mset (ch_fd c ?o) (files w)" using file_lawsD(3) [OF f 2(1)] 1(3) by simp
  have fd: "\<not> ch_fd c ?o < 0" "\<not> ch_fd c ?b < 0" using channel_treeD(8) [OF t in_files(1)] channel_treeD(8) [OF t in_files(2)] by simp_all
  show ?thesis
  proof (cases "same_start (length RPMSG_CHDRV) (text_of bs) RPMSG_CHDRV")
    case True
    with 1 2 paths fd close_ok [OF t f f2] show ?thesis
      by (auto simp: bind_rpmsg_chrdev_def sprintf_def override_file_def Let_def intro: quiet_trans)
  next
    case False
    with 2(5) have null: "same_start 6 (text_of bs) ''(null)''" by simp
    obtain r3 w3 where 3: "ln_write lx (ch_fd c ?o) (bytes_of RPMSG_CHDRV @ [0]) w2 = (r3, w3)" "0 \<le> r3" "quiet seen made w2 w3"
      using channel_treeD(12) [OF t, of ?o] by blast
    have f3: "files w3 = add_mset (ch_fd c ?o) (files w)" using file_lawsD(4) [OF f 3(1)] f2 by simp
    define w4 where "w4 = ln_close lx (ch_fd c ?o) w3"
    have 4: "quiet seen made w3 w4" "files w4 = files w" unfolding w4_def by (rule close_ok [OF t f f3])+
    obtain w5 where 5: "ln_open lx ?b w4 = (ch_fd c ?b, w5)" "quiet seen made w4 w5" "files w5 = add_mset (ch_fd c ?b) (files w)"
      using open_ok [OF t f in_files(2), of w4] 4(2) by metis
    obtain r6 w6 where 6: "ln_write lx (ch_fd c ?b) (bytes_of (ch_dev c) @ [0]) w5 = (r6, w6)" "0 \<le> r6" "quiet seen made w5 w6"
      using channel_treeD(12) [OF t, of ?b] by blast
    have f6: "files w6 = add_mset (ch_fd c ?b) (files w)" using file_lawsD(4) [OF f 6(1)] 5(3) by simp
    have "bind_rpmsg_chrdev lx (ch_dev c) (g, w) = Done (0, (g, ln_close lx (ch_fd c ?b) w6))"
      using False null 1(1) 2(1-3) 3(1,2) 5(1) 6(1,2) paths fd
      by (simp add: bind_rpmsg_chrdev_def sprintf_def override_file_def bind_file_def w4_def Let_def)
    moreover have "quiet seen made w (ln_close lx (ch_fd c ?b) w6)"
      using 1(2) 2(4) 3(3) 4(1) 5(2) 6(3) close_ok(1) [OF t f f6] by (blast intro: quiet_trans)
    ultimately show ?thesis using close_ok(2) [OF t f f6] by blast
  qed
qed

lemma chrdev_fd_ok:
  assumes t: "channel_tree lx c seen made" and f: "file_laws lx files"
    and d: "ln_dir lx (rpmsg_dir dev) w = Some names" "find (\<lambda>n. same_start 10 n ''rpmsg_ctrl'') names = Some (ch_ctl c)" "length dev < 200"
  shows "\<exists>w'. get_rpmsg_chrdev_fd lx dev (g, w) = Done ((ch_fd c (''/dev/'' @ ch_ctl c), ch_ctl c), (g, w')) \<and>
    quiet seen made w w' \<and> files w' = add_mset (ch_fd c (''/dev/'' @ ch_ctl c)) (files w)"
proof -
  have i: "''/dev/'' @ ch_ctl c \<in> channel_files c" by (simp add: channel_files_def)
  obtain w1 where "ln_open lx (''/dev/'' @ ch_ctl c) w = (ch_fd c (''/dev/'' @ ch_ctl c), w1)" "quiet seen made w w1"
    "files w1 = add_mset (ch_fd c (''/dev/'' @ ch_ctl c)) (files w)" by (rule open_ok [OF t f i])
  moreover have "\<not> ch_fd c (''/dev/'' @ ch_ctl c) < 0" using channel_treeD(8) [OF t i] by simp
  ultimately show ?thesis using d channel_treeD(2,7) [OF t]
    by (simp add: get_rpmsg_chrdev_fd_def sprintf_def rpmsg_dir_def RPMSG_BUS_SYS_def NAME_MAX_def)
qed

lemma chrdev_fd_none: "ln_dir lx (rpmsg_dir dev) w = None \<Longrightarrow> length dev < 200 \<Longrightarrow> get_rpmsg_chrdev_fd lx dev (g, w) = Done ((- EINVAL, ''''), (g, w))"
  by (simp add: get_rpmsg_chrdev_fd_def sprintf_def rpmsg_dir_def RPMSG_BUS_SYS_def NAME_MAX_def)

lemma service_name_length: "min (length (ei_name default_ept)) 64 = 26"
  by (simp add: default_ept_def)

text \<open>The search finds the endpoint: the first of the 128 with the name.\<close>

lemma find_ept_ok:
  assumes t: "channel_tree lx c seen made" and m: "made w"
  shows "i \<le> ch_ept c \<Longrightarrow> find_ept lx (ch_ctl c) (ei_name default_ept) [i..<128] svc (g, w) = Done (Some (''rpmsg'' @ dec (ch_ept c)), (g, w))"
proof (induction "ch_ept c - i" arbitrary: i svc)
  case 0
  then have i: "i = ch_ept c" by simp
  have k: "i < 128" using channel_treeD(3) [OF t] i by simp
  have "length (dec i) \<le> 3" by (rule dec_short) (use k in simp)
  then show ?case using channel_treeD(2) [OF t] channel_treeD(15) [OF t m] k i
    by (subst upt_conv_Cons) (auto simp: sprintf_def has_name_def name_file_def service_name_length)
next
  case (Suc x)
  then have i: "i < ch_ept c" and x: "x = ch_ept c - Suc i" "Suc i \<le> ch_ept c" by simp_all
  have k: "i < 128" using channel_treeD(3) [OF t] i by simp
  have "length (dec i) \<le> 3" by (rule dec_short) (use k in simp)
  then show ?case using Suc.hyps(1) [OF x] channel_treeD(2) [OF t] channel_treeD(14) [OF t m i] k
    by (subst upt_conv_Cons) (auto simp: sprintf_def other_name_def name_file_def service_name_length Let_def)
qed

lemma set_src_dst_run: "\<exists>pep'. set_src_dst lx out pep (g, w) = Done (pep', (g, w)) \<and> ei_name pep' = ei_name pep"
  by (auto simp: set_src_dst_def Let_def split: option.splits prod.splits)

lemma lookup_ok:
  assumes t: "channel_tree lx c seen made"
  shows "\<exists>pep. lookup_channel lx out default_ept (g, w) = Done ((0, ch_dev c, pep), (g, w)) \<and> ei_name pep = ei_name default_ept"
proof -
  obtain names where n: "ln_dir lx devices_dir w = Some names" "find (\<lambda>n. contains n (ei_name default_ept)) names = Some (ch_dev c)"
    using channel_treeD(4) [OF t, of w] by blast
  obtain pep where "set_src_dst lx (ch_dev c) default_ept (g, w) = Done (pep, (g, w))" "ei_name pep = ei_name default_ept"
    using set_src_dst_run [of lx "ch_dev c" default_ept g w] by blast
  with n channel_treeD(1) [OF t] show ?thesis by (simp add: lookup_channel_def devices_dir_def NAME_MAX_def)
qed

text \<open>Options that name no device: the number of rounds, the last of them counts, and the addresses.\<close>

fun option_times :: "(char \<times> string) list \<Rightarrow> int \<Rightarrow> int" where
  "option_times [] t = t"
| "option_times ((opt, arg) # os) t = option_times os (if opt = CHR ''n'' then to_int32 (fst (strtol arg)) else t)"

definition plain_opts :: "(char \<times> string) list \<Rightarrow> bool" where
  "plain_opts opts \<longleftrightarrow> (\<forall>o' \<in> set opts. fst o' \<in> {CHR ''n'', CHR ''s'', CHR ''e''})"

lemma parse_plain:
  "plain_opts opts \<Longrightarrow> \<exists>ro'. parse_opts opts ro s = Done (Some ro', s) \<and> ro_dev ro' = ro_dev ro \<and> ro_ctrl ro' = ro_ctrl ro \<and>
     ei_name (ro_ept ro') = ei_name (ro_ept ro) \<and> ro_ntimes ro' = option_times opts (ro_ntimes ro)"
proof (induction opts arbitrary: ro)
  case Nil
  then show ?case by simp
next
  case (Cons o' os)
  obtain p arg where o': "o' = (p, arg)" by (cases o')
  have os: "plain_opts os" and p: "p = CHR ''n'' \<or> p = CHR ''s'' \<or> p = CHR ''e''" using Cons.prems o' by (auto simp: plain_opts_def)
  have "\<exists>ro1. parse_opts (o' # os) ro s = parse_opts os ro1 s \<and> ro_dev ro1 = ro_dev ro \<and> ro_ctrl ro1 = ro_ctrl ro \<and>
      ei_name (ro_ept ro1) = ei_name (ro_ept ro) \<and> option_times os (ro_ntimes ro1) = option_times (o' # os) (ro_ntimes ro)"
    using p o' by auto
  then show ?case using Cons.IH [OF os] by metis
qed

text \<open>The control device, below itself or below the channel.\<close>

lemma control_ok:
  assumes t: "channel_tree lx c seen made" and f: "file_laws lx files"
  obtains fd1 n1 w1 w2 where "get_rpmsg_chrdev_fd lx (ro_ctrl default_opts) (g, w) = Done ((fd1, n1), (g, w1))"
    and "(if fd1 < 0 then get_rpmsg_chrdev_fd lx (ch_dev c) else ret (fd1, n1)) (g, w1) = Done ((ch_fd c (''/dev/'' @ ch_ctl c), ch_ctl c), (g, w2))"
    and "quiet seen made w w2" and "files w2 = add_mset (ch_fd c (''/dev/'' @ ch_ctl c)) (files w)" and "0 \<le> ch_fd c (''/dev/'' @ ch_ctl c)"
proof -
  have n: "length (ch_dev c) < 200" "length (ro_ctrl default_opts) < 200" using channel_treeD(1) [OF t] by (simp_all add: default_opts_def)
  have pos: "0 \<le> ch_fd c (''/dev/'' @ ch_ctl c)" by (rule channel_treeD(8) [OF t]) (simp add: channel_files_def)
  obtain names where names: "ln_dir lx (rpmsg_dir (ro_ctrl default_opts)) w = Some names \<or>
        ln_dir lx (rpmsg_dir (ro_ctrl default_opts)) w = None \<and> ln_dir lx (rpmsg_dir (ch_dev c)) w = Some names"
    "find (\<lambda>n. same_start 10 n ''rpmsg_ctrl'') names = Some (ch_ctl c)" using channel_treeD(6) [OF t, of w] by blast
  from names(1) show thesis
  proof
    assume d: "ln_dir lx (rpmsg_dir (ro_ctrl default_opts)) w = Some names"
    from chrdev_fd_ok [OF t f d names(2) n(2), of g] pos show thesis by (auto intro: that)
  next
    assume d: "ln_dir lx (rpmsg_dir (ro_ctrl default_opts)) w = None \<and> ln_dir lx (rpmsg_dir (ch_dev c)) w = Some names"
    from chrdev_fd_ok [OF t f conjunct2 [OF d] names(2) n(1), of g] chrdev_fd_none [OF conjunct1 [OF d] n(2), of g] pos
    show thesis by (auto intro: that)
  qed
qed

text \<open>The endpoint: made, found again and opened.\<close>

lemma endpoint_ok:
  assumes t: "channel_tree lx c seen made" and f: "file_laws lx files"
  obtains w1 w2 where "ln_ioctl lx (ch_fd c (''/dev/'' @ ch_ctl c)) 1 (Some e) w = (0, w1)"
    and "get_rpmsg_ept_dev_name lx (ch_ctl c) (ei_name default_ept) (g, w1) = Done (Some (''rpmsg'' @ dec (ch_ept c)), (g, w1))"
    and "length (''/dev/rpmsg'' @ dec (ch_ept c)) < 32"
    and "ln_open lx (''/dev/rpmsg'' @ dec (ch_ept c)) w1 = (ch_fd c (''/dev/rpmsg'' @ dec (ch_ept c)), w2)"
    and "seen w2 = seen w" and "files w2 = add_mset (ch_fd c (''/dev/rpmsg'' @ dec (ch_ept c))) (files w)"
    and "0 \<le> ch_fd c (''/dev/rpmsg'' @ dec (ch_ept c))"
proof -
  let ?C = "ch_fd c (''/dev/'' @ ch_ctl c)" and ?E = "ch_fd c (''/dev/rpmsg'' @ dec (ch_ept c))"
  have i: "''/dev/rpmsg'' @ dec (ch_ept c) \<in> channel_files c" by (simp add: channel_files_def)
  obtain w1 where 1: "ln_ioctl lx ?C 1 (Some e) w = (0, w1)" "seen w1 = seen w" "made w1" using channel_treeD(13) [OF t, of e w] by blast
  obtain w2 where 2: "ln_open lx (''/dev/rpmsg'' @ dec (ch_ept c)) w1 = (?E, w2)" "quiet seen made w1 w2" "files w2 = add_mset ?E (files w1)"
    by (rule open_ok [OF t f i])
  have "length (dec (ch_ept c)) \<le> 3" by (rule dec_short) (use channel_treeD(3) [OF t] in simp)
  then show thesis
    using that [OF 1(1) _ _ 2(1)] find_ept_ok [OF t 1(3), of 0 None g] 1(2) 2(2,3) file_lawsD(5) [OF f 1(1)] channel_treeD(8) [OF t i]
    by (simp add: get_rpmsg_ept_dev_name_def quiet_def)
qed

lemma open_endpoint_ok:
  assumes t: "channel_tree lx c seen made" and f: "file_laws lx files"
    and ro: "ro_dev ro = ch_dev c" "ro_ctrl ro = ro_ctrl default_opts" "ei_name (ro_ept ro) = ei_name default_ept"
  shows "\<exists>w'. open_endpoint lx ro (g, w) = Done (Inl (ch_fd c (''/dev/'' @ ch_ctl c), ch_fd c (''/dev/rpmsg'' @ dec (ch_ept c))), (g, w')) \<and>
    seen w' = seen w \<and>
    files w' = add_mset (ch_fd c (''/dev/rpmsg'' @ dec (ch_ept c))) (add_mset (ch_fd c (''/dev/'' @ ch_ctl c)) (files w))"
proof -
  let ?C = "ch_fd c (''/dev/'' @ ch_ctl c)" and ?E = "ch_fd c (''/dev/rpmsg'' @ dec (ch_ept c))"
  obtain w1 where 1: "bind_rpmsg_chrdev lx (ch_dev c) (g, w) = Done (0, (g, w1))" "quiet seen made w w1" "files w1 = files w"
    using bind_ok [OF t f] by blast
  obtain fd1 n1 wa w2 where 2: "get_rpmsg_chrdev_fd lx (ro_ctrl default_opts) (g, w1) = Done ((fd1, n1), (g, wa))"
    "(if fd1 < 0 then get_rpmsg_chrdev_fd lx (ch_dev c) else ret (fd1, n1)) (g, wa) = Done ((?C, ch_ctl c), (g, w2))"
    "quiet seen made w1 w2" "files w2 = add_mset ?C (files w1)" "0 \<le> ?C" by (rule control_ok [OF t f])
  obtain w3 w4 where 3: "ln_ioctl lx ?C 1 (Some (ro_ept ro)) w2 = (0, w3)"
    "get_rpmsg_ept_dev_name lx (ch_ctl c) (ei_name default_ept) (g, w3) = Done (Some (''rpmsg'' @ dec (ch_ept c)), (g, w3))"
    "length (''/dev/rpmsg'' @ dec (ch_ept c)) < 32" "ln_open lx (''/dev/rpmsg'' @ dec (ch_ept c)) w3 = (?E, w4)"
    "seen w4 = seen w2" "files w4 = add_mset ?E (files w2)" "0 \<le> ?E" by (rule endpoint_ok [OF t f])
  have p: "length (RPMSG_BUS_SYS @ ''/devices/'' @ ch_dev c) < 2 * NAME_MAX"
    using channel_treeD(1) [OF t] by (simp add: RPMSG_BUS_SYS_def NAME_MAX_def)
  have "open_endpoint lx ro (g, w) = Done (Inl (?C, ?E), (g, w4))"
    using 1(1) 2(1,2,5) 3(1-4,7) p channel_treeD(5) [OF t, of w] ro
    by (cases "fd1 < 0") (simp_all add: open_endpoint_def sprintf_def app_rpmsg_create_ept_def)
  then show ?thesis using 1(2,3) 2(3,4) 3(5,6) by (simp add: quiet_def)
qed

lemma start_up_ok:
  assumes t: "channel_tree lx c seen made" and f: "file_laws lx files" and o': "plain_opts opts"
  shows "\<exists>w'. start_up lx opts (g, w) = Done (Inl (option_times opts 1, ch_fd c (''/dev/'' @ ch_ctl c), ch_fd c (''/dev/rpmsg'' @ dec (ch_ept c))), (g, w')) \<and>
    seen w' = seen w \<and>
    files w' = add_mset (ch_fd c (''/dev/rpmsg'' @ dec (ch_ept c))) (add_mset (ch_fd c (''/dev/'' @ ch_ctl c)) (files w))"
proof -
  obtain pep where 1: "lookup_channel lx (ro_dev default_opts) default_ept (g, w) = Done ((0, ch_dev c, pep), (g, w))" "ei_name pep = ei_name default_ept"
    using lookup_ok [OF t] by blast
  obtain ro where 2: "parse_opts opts (default_opts\<lparr>ro_dev := ch_dev c, ro_ept := pep\<rparr>) (g, w) = Done (Some ro, (g, w))"
    "ro_dev ro = ch_dev c" "ro_ctrl ro = ro_ctrl default_opts" "ei_name (ro_ept ro) = ei_name default_ept"
    "ro_ntimes ro = option_times opts 1"
    using parse_plain [OF o', of "default_opts\<lparr>ro_dev := ch_dev c, ro_ept := pep\<rparr>" "(g, w)"] 1(2) by (auto simp: default_opts_def)
  from open_endpoint_ok [OF t f 2(2-4), of g w] 1(1) 2(1,5) show ?thesis by (auto simp: start_up_def)
qed

section \<open>The echo test from the start to the end\<close>

text \<open>The last message of the echo test; neither service answers the message that shuts it down.\<close>

definition echo_shutdown :: bytes where
  "echo_shutdown = le32 SHUTDOWN_MSG @ le32 SHUTDOWN_MSG @ le64 32 @ concat (replicate 4 (le32 SHUTDOWN_MSG))"

lemma length_echo_shutdown: "length echo_shutdown = 32"
  by (simp add: echo_shutdown_def eval_nat_numeral)

lemma echo_shutdown_silent: "replies echo_cb sg echo_shutdown = []"
  by (simp add: replies_def echo_endpoint_cb_def echo_shutdown_def get32_hd)

lemma matrix_shutdown_silent: "replies (matrixd_cb stk) sg (le32 SHUTDOWN_MSG) = []"
  using get32_hd [of SHUTDOWN_MSG "[]"] by (simp add: replies_def matrixd_endpoint_cb_def)

text \<open>No round opens or closes a file.\<close>

lemma rounds_files:
  assumes f: "file_laws lx files"
  shows "leaves (files \<circ> snd) (await_echo fuel lx fd)" and "leaves (files \<circ> snd) (echo_pass fuel cs lx fd i st)"
    and "leaves (files \<circ> snd) (echo_round fuel cs lx fd is st)" and "leaves (files \<circ> snd) (echo_rounds fuel cs lx fd n st)"
proof -
  have calls: "files (snd (ln_read lx d k w)) = files w" "files (snd (ln_write lx d bs w)) = files w" "files (ln_usleep lx w) = files w" for d k bs w
    using f by (simp_all add: file_laws_def)
  show a: "leaves (files \<circ> snd) (await_echo fuel lx fd)"
    unfolding await_echo_def by (intro leaves_intros) (simp_all add: calls)
  show p: "leaves (files \<circ> snd) (echo_pass fuel cs lx fd i st)" for i st
    unfolding echo_pass_def by (intro leaves_intros a) (simp_all add: calls)
  show r: "leaves (files \<circ> snd) (echo_round fuel cs lx fd is st)" for "is" st
    by (induction "is" arbitrary: st) (auto intro!: leaves_intros p)
  show "leaves (files \<circ> snd) (echo_rounds fuel cs lx fd n st)"
    by (induction n arbitrary: st) (auto intro!: leaves_intros r)
qed

text \<open>
  C16. The whole echo test on Linux against the echo service: for all options that name no device it finds the channel
  and the control device, binds the channel, creates the endpoint and finds it again among the others; it sends the 472 payloads in each of
  the rounds that the options ask for and then the shutdown message; every payload comes back unchanged.  The error count printed at the
  end of each round is 0 where \<open>char\<close> is unsigned (\<open>cs\<close> false), as on ARM; where it is signed, every payload is counted as corrupted, and
  the count after the round \<open>j\<close> is \<open>472 * (j + 1)\<close> (as long as it is an \<open>int\<close>).  In both cases main returns 0, and all files are closed.
\<close>

theorem echo_test_main_ok:
  assumes tree: "channel_tree lx c (\<lambda>w. (inbox w, sent w)) made" and files: "file_laws lx files" and opts: "plain_opts opts"
    and link: "answers lx (ch_fd c (''/dev/rpmsg'' @ dec (ch_ept c))) inbox sent delay D (replies echo_cb sg)" and fuel: "D < fuel"
    and start: "inbox w = []" and junk: "length junk = 16 + PAYLOAD_MAX_SIZE"
    and small: "cs \<longrightarrow> 472 * option_times opts 1 < 2 ^ 31"
  shows "\<exists>w'. echo_test_main fuel cs lx opts junk ((), w)
      = Done ((0, map (\<lambda>j. if cs then 472 * (j + 1) else 0) [0..<nat (option_times opts 1)]), ((), w')) \<and>
    files w' = files w \<and> inbox w' = [] \<and> sent w' = sent w @ concat (replicate (nat (option_times opts 1)) echo_messages) @ [echo_shutdown]"
proof -
  let ?C = "ch_fd c (''/dev/'' @ ch_ctl c)" and ?E = "ch_fd c (''/dev/rpmsg'' @ dec (ch_ept c))" and ?n = "nat (option_times opts 1)"
  obtain w1 where 1: "start_up lx opts ((), w) = Done (Inl (option_times opts 1, ?C, ?E), ((), w1))" "inbox w1 = []" "sent w1 = sent w"
    "files w1 = add_mset ?E (add_mset ?C (files w))" using start_up_ok [OF tree files opts, of "()" w] start by auto
  obtain w2 where 2: "ln_malloc lx w1 = (True, w2)" "inbox w2 = inbox w1" "sent w2 = sent w1" using channel_treeD(16) [OF tree, of w1] by auto
  obtain w3 where 3: "ln_malloc lx w2 = (True, w3)" "inbox w3 = inbox w2" "sent w3 = sent w2" using channel_treeD(16) [OF tree, of w2] by auto
  have "inbox w3 = []" using 1(2) 2(2) 3(2) by simp
  from echo_test_rounds_ok [OF link fuel junk this, of cs ?n 0 "()"] obtain w4 where
    4: "echo_rounds fuel cs lx ?E ?n (junk, 0) ((), w3) = Done (map (\<lambda>j. if cs then 472 * (j + 1) else 0) [0..<?n], ((), w4))" "inbox w4 = []"
    "sent w4 = sent w @ concat (replicate ?n echo_messages)" using 1(3) 2(3) 3(3) by (auto simp: false_alarms_def if_distrib cong: if_cong)
  obtain w5 where 5: "ln_write lx ?E echo_shutdown w4 = (int (length echo_shutdown), w5)" "inbox w5 = []" "sent w5 = sent w4 @ [echo_shutdown]"
    using answersD(1) [OF link, of echo_shutdown w4] echo_shutdown_silent [of sg] 4(2) length_echo_shutdown by auto
  have "files w5 = add_mset ?E (add_mset ?C (files w))"
    using 1(4) file_lawsD(6) [OF files 2(1)] file_lawsD(6) [OF files 3(1)] leavesD [OF rounds_files(4) [OF files] 4(1)] file_lawsD(4) [OF files 5(1)] by simp
  note c1 = close_ok [where files = files, OF tree files this]
  note c2 = close_ok [where files = files, OF tree files c1(2)]
  have "echo_test_main fuel cs lx opts junk ((), w) = Done ((0, map (\<lambda>j. if cs then 472 * (j + 1) else 0) [0..<?n]), ((), ln_close lx ?C (ln_close lx ?E w5)))"
    using 1(1) 2(1) 3(1) 4(1) 5(1) by (simp add: echo_test_main_def echo_send_shutdown_def echo_shutdown_def del: append_Cons append.simps)
  with c1(1) c2 4(3) 5(2,3) show ?thesis by (simp add: quiet_def)
qed

section \<open>The matrix demo from the start to the end\<close>

lemma matrix_rounds_files:
  assumes f: "file_laws lx files"
  shows "leaves (files \<circ> snd) (matrix_mult fuel lx fd rnd ms c)" and "leaves (files \<circ> snd) (matrix_rounds fuel lx fd rnd ms n c)"
proof -
  have calls: "files (snd (ln_read lx d k w)) = files w" "files (snd (ln_write lx d bs w)) = files w" for d k bs w
    using f by (simp_all add: file_laws_def)
  show p: "leaves (files \<circ> snd) (matrix_mult fuel lx fd rnd ms c)" for c
    unfolding matrix_mult_def await_product_def by (intro leaves_intros) (simp_all add: calls)
  show "leaves (files \<circ> snd) (matrix_rounds fuel lx fd rnd ms n c)"
    by (induction n arbitrary: c) (auto intro!: leaves_intros p)
qed

text \<open>
  C17. The whole matrix demo on Linux against the matrix service: for all options that name no device it finds and opens its endpoint, and
  in each of the rounds that the options ask for sends two generated matrices, waits for the answer and prints both matrices and their product;
  the last message is the shutdown message, main returns 0, and all files are closed.
\<close>

theorem mat_mul_main_ok:
  assumes tree: "channel_tree lx c (\<lambda>w. (inbox w, sent w)) made" and files: "file_laws lx files" and opts: "plain_opts opts"
    and link: "answers lx (ch_fd c (''/dev/rpmsg'' @ dec (ch_ept c))) inbox sent delay D (replies (matrixd_cb stk) sg)" and fuel: "D < fuel"
    and stk: "length stk = 296" and start: "inbox w = []" and m: "wf_matrix m1" "wf_matrix m2"
  shows "\<exists>pairs outs w'. mat_mul_main fuel lx opts rnd [m1, m2] ((), w) = Done ((0, outs), ((), w')) \<and>
    length pairs = nat (option_times opts 1) \<and> list_all2 prints_product pairs outs \<and> files w' = files w \<and> inbox w' = [] \<and>
    sent w' = sent w @ map (\<lambda>(x, y). mat_enc x @ mat_enc y) pairs @ [le32 SHUTDOWN_MSG]"
proof -
  let ?C = "ch_fd c (''/dev/'' @ ch_ctl c)" and ?E = "ch_fd c (''/dev/rpmsg'' @ dec (ch_ept c))" and ?n = "nat (option_times opts 1)"
  obtain w1 where 1: "start_up lx opts ((), w) = Done (Inl (option_times opts 1, ?C, ?E), ((), w1))" "inbox w1 = []" "sent w1 = sent w"
    "files w1 = add_mset ?E (add_mset ?C (files w))" using start_up_ok [OF tree files opts, of "()" w] start by auto
  from matrix_rounds_ok [OF link stk fuel m 1(2), of rnd ?n 0 "()"] obtain pairs outs w2 where
    2: "matrix_rounds fuel lx ?E rnd [m1, m2] ?n 0 ((), w1) = Done (outs, ((), w2))" "inbox w2 = []"
    "sent w2 = sent w1 @ map (\<lambda>(x, y). mat_enc x @ mat_enc y) pairs" "length pairs = ?n" "list_all2 prints_product pairs outs" by metis
  obtain w3 where 3: "ln_write lx ?E (le32 SHUTDOWN_MSG) w2 = (4, w3)" "inbox w3 = []" "sent w3 = sent w2 @ [le32 SHUTDOWN_MSG]"
    using answersD(1) [OF link, of "le32 SHUTDOWN_MSG" w2] matrix_shutdown_silent [of stk sg] 2(2) by auto
  have "files w3 = add_mset ?E (add_mset ?C (files w))"
    using 1(4) leavesD [OF matrix_rounds_files(2) [OF files] 2(1)] file_lawsD(4) [OF files 3(1)] by simp
  note c1 = close_ok [where files = files, OF tree files this]
  note c2 = close_ok [where files = files, OF tree files c1(2)]
  have "mat_mul_main fuel lx opts rnd [m1, m2] ((), w) = Done ((0, outs), ((), ln_close lx ?C (ln_close lx ?E w3)))"
    using 1(1) 2(1) 3(1) by (simp add: mat_mul_main_def mat_send_shutdown_def)
  with c1(1) c2 1(3) 2(3-5) 3(2,3) show ?thesis
    by (intro exI [of _ pairs] exI [of _ outs] exI [of _ "ln_close lx ?C (ln_close lx ?E w3)"]) (simp add: quiet_def)
qed

section \<open>A concrete kernel\<close>

text \<open>
  The world is the answers under way, what has been sent, the open files, whether the endpoint has been made, and what else there is; there is another
  endpoint, number 0.  The remote answers with \<open>ans\<close>.
\<close>

definition demo_channel :: channel where
  "demo_channel = \<lparr>ch_dev = ''virtio0.rpmsg-openamp-demo-channel.-1.1024'', ch_ctl = ''rpmsg_ctrl0'', ch_ept = 1,
     ch_fd = (\<lambda>p. if p = override_file ''virtio0.rpmsg-openamp-demo-channel.-1.1024'' then 10 else if p = bind_file then 11
        else if p = ''/dev/rpmsg_ctrl0'' then 12 else if p = ''/dev/rpmsg1'' then 3 else - 1)\<rparr>"

definition sys_lnx :: "(bytes \<Rightarrow> bytes list) \<Rightarrow> (bytes list \<times> bytes list \<times> int multiset \<times> bool \<times> 'x) lnx" where
  "sys_lnx ans = \<lparr>ln_open = (\<lambda>p (q, s, f, m). (ch_fd demo_channel p, (q, s, if 0 \<le> ch_fd demo_channel p then add_mset (ch_fd demo_channel p) f else f, m))),
     ln_close = (\<lambda>d (q, s, f, m). (q, s, f - {#d#}, m)),
     ln_read = (\<lambda>d n (q, s, f, m). if d = 10 then ((7, bytes_of ''(null)'' @ [10]), (q, s, f, m))
        else case q of [] \<Rightarrow> ((- 1, []), (q, s, f, m)) | b # bs \<Rightarrow> ((int (length b), b), (bs, s, f, m))),
     ln_write = (\<lambda>d bs (q, s, f, m). (int (length bs), (if d = 3 then q @ ans bs else q, if d = 3 then s @ [bs] else s, f, m))),
     ln_access = (\<lambda>p (q, s, f, m). if p = RPMSG_BUS_SYS @ ''/devices/'' @ ch_dev demo_channel \<or> p = name_file ''rpmsg_ctrl0'' 0 \<or>
        fst m \<and> p = name_file ''rpmsg_ctrl0'' 1 then 0 else - 1),
     ln_dir = (\<lambda>p w. if p = devices_dir then Some [''virtio0.rpmsg_ctrl.0.0'', ch_dev demo_channel]
        else if p = rpmsg_dir ''virtio0.rpmsg_ctrl.0.0'' then Some [''power'', ''rpmsg_ctrl0''] else None),
     ln_stale = (\<lambda>n w. n),
     ln_line = (\<lambda>p w. Some (Some (if p = name_file ''rpmsg_ctrl0'' 0 then ''rpmsg-raw'' else ei_name default_ept))),
     ln_ioctl = (\<lambda>d r e (q, s, f, m). (0, (q, s, f, True, snd m))), ln_errno = (\<lambda>w. 0), ln_usleep = (\<lambda>w. w), ln_malloc = (\<lambda>w. (True, w))\<rparr>"

lemma dec_01: "dec 0 = ''0''" "dec 1 = ''1''"
  by code_simp+

lemma demo_devices:
  "find (\<lambda>n. contains n (ei_name default_ept)) [''virtio0.rpmsg_ctrl.0.0'', ch_dev demo_channel] = Some (ch_dev demo_channel)"
  by code_simp

lemma demo_paths:
  "override_file (ch_dev demo_channel) \<noteq> bind_file" "''/dev/rpmsg_ctrl0'' \<noteq> override_file (ch_dev demo_channel)"
  "''/dev/rpmsg_ctrl0'' \<noteq> bind_file" "''/dev/rpmsg1'' \<noteq> override_file (ch_dev demo_channel)" "''/dev/rpmsg1'' \<noteq> bind_file"
  "rpmsg_dir ''virtio0.rpmsg_ctrl.0.0'' \<noteq> devices_dir" "name_file ''rpmsg_ctrl0'' 0 \<noteq> name_file ''rpmsg_ctrl0'' 1"
  by (simp_all add: override_file_def bind_file_def rpmsg_dir_def devices_dir_def name_file_def dec_01 RPMSG_BUS_SYS_def RPMSG_CHDRV_def demo_channel_def
      del: One_nat_def)

lemma demo_fds:
  "ch_fd demo_channel (override_file (ch_dev demo_channel)) = 10" "ch_fd demo_channel bind_file = 11"
  "ch_fd demo_channel ''/dev/rpmsg_ctrl0'' = 12" "ch_fd demo_channel ''/dev/rpmsg1'' = 3"
  using demo_paths by (simp_all add: demo_channel_def)

lemma demo_null: "same_start 6 (text_of (bytes_of ''(null)'' @ [10])) ''(null)''" "length (bytes_of ''(null)'' @ [10]) < 64"
  by code_simp+

lemma demo_files: "channel_files demo_channel = {override_file (ch_dev demo_channel), bind_file, ''/dev/rpmsg_ctrl0'', ''/dev/rpmsg1''}"
  using dec_01 by (simp add: channel_files_def demo_channel_def)

lemma sys_lnx_files: "file_laws (sys_lnx ans) (\<lambda>(q, s, f, m). f)"
  by (auto simp: file_laws_def sys_lnx_def split: list.splits if_splits)

lemma sys_lnx_answers:
  "answers (sys_lnx ans) (ch_fd demo_channel (''/dev/rpmsg'' @ dec (ch_ept demo_channel))) fst (fst \<circ> snd) (\<lambda>w. 0) 0 ans"
proof -
  have "ch_fd demo_channel (''/dev/rpmsg'' @ dec (ch_ept demo_channel)) = 3" using demo_fds(4) dec_01(2) by (simp add: demo_channel_def)
  then show ?thesis by (simp add: answers_def sys_lnx_def split: list.splits)
qed

lemma sys_lnx_tree_obs: "channel_tree (sys_lnx ans) demo_channel (\<lambda>(q, s, f, m, x). obs q s x) (\<lambda>(q, s, f, m, x). m)"
proof -
  have [simp]: "ch_ctl demo_channel = ''rpmsg_ctrl0''" "ch_ept demo_channel = 1" "ro_ctrl default_opts = ''virtio0.rpmsg_ctrl.0.0''"
    by (simp_all add: demo_channel_def default_opts_def)
  have l: "length (ch_dev demo_channel) < 200" by (simp add: demo_channel_def)
  have c: "find (\<lambda>n. same_start 10 n ''rpmsg_ctrl'') [''power'', ''rpmsg_ctrl0''] = Some ''rpmsg_ctrl0''" by code_simp
  have o': "\<not> same_start 26 ''rpmsg-raw'' (ei_name default_ept)" by code_simp
  have s: "same_start 26 (ei_name default_ept) (ei_name default_ept)" by (simp add: same_start_def)
  show ?thesis
    unfolding channel_tree_def demo_files
    using l c o' s demo_devices demo_paths demo_fds demo_null
    by (auto simp: quiet_def has_name_def other_name_def sys_lnx_def split_beta)
qed

lemma sys_lnx_tree: "channel_tree (sys_lnx ans) demo_channel (\<lambda>w. (fst w, (fst \<circ> snd) w)) (\<lambda>(q, s, f, m, x). m)"
  using sys_lnx_tree_obs [of ans "\<lambda>q s x. (q, s)"] by (simp add: case_prod_unfold)

text \<open>Two rounds, as an option asks for.\<close>

definition two_rounds :: "(char \<times> string) list" where
  "two_rounds = [(CHR ''s'', ''7''), (CHR ''n'', ''2'')]"

lemma two_rounds_plain: "plain_opts two_rounds" "nat (option_times two_rounds 1) = 2"
  by (simp add: plain_opts_def two_rounds_def, code_simp)

theorem echo_test_main_ok_witness:
  "\<forall>cs. \<exists>w'. echo_test_main 1 cs (sys_lnx (replies echo_cb \<lparr>shutdown_req = 0\<rparr>)) two_rounds (replicate 488 0) ((), ([], [], {#}, False, ()))
      = Done ((0, if cs then [472, 944] else [0, 0]), ((), w')) \<and>
    (case w' of (q, s, f, m) \<Rightarrow> f = {#} \<and> s = echo_messages @ echo_messages @ [echo_shutdown])"
proof
  fix cs
  have j: "length (replicate 488 (0 :: byte)) = 16 + PAYLOAD_MAX_SIZE" by (simp add: PAYLOAD_MAX_SIZE_def)
  have s: "cs \<longrightarrow> 472 * option_times two_rounds 1 < 2 ^ 31" using two_rounds_plain(2) by (auto simp: nat_eq_iff split: if_splits)
  from echo_test_main_ok [OF sys_lnx_tree sys_lnx_files two_rounds_plain(1) sys_lnx_answers _ _ j s, of 1 "([], [], {#}, False, ())"
      "\<lparr>shutdown_req = 0\<rparr>"] two_rounds_plain(2)
  show "\<exists>w'. echo_test_main 1 cs (sys_lnx (replies echo_cb \<lparr>shutdown_req = 0\<rparr>)) two_rounds (replicate 488 0) ((), ([], [], {#}, False, ()))
      = Done ((0, if cs then [472, 944] else [0, 0]), ((), w')) \<and>
    (case w' of (q, s, f, m) \<Rightarrow> f = {#} \<and> s = echo_messages @ echo_messages @ [echo_shutdown])"
    by (cases cs) (auto simp: numeral_2_eq_2)
qed

theorem mat_mul_main_ok_witness:
  "\<exists>pairs outs w'. mat_mul_main 1 (sys_lnx (replies (matrixd_cb (replicate 296 0)) \<lparr>shutdown_req = 0\<rparr>)) two_rounds (\<lambda>k. 7 * int k)
      [zero_matrix, zero_matrix] ((), ([], [], {#}, False, ())) = Done ((0, outs), ((), w')) \<and> length pairs = 2 \<and>
      list_all2 prints_product pairs outs \<and> (case w' of (q, s, f, m) \<Rightarrow> f = {#} \<and> length s = 3)"
proof -
  have j: "length (replicate 296 (0 :: byte)) = 296" by simp
  have z: "wf_matrix zero_matrix" by (simp add: zero_matrix_def wf_matrix_def MAX_SIZE_def)
  from mat_mul_main_ok [OF sys_lnx_tree sys_lnx_files two_rounds_plain(1) sys_lnx_answers _ j _ z z, of 1 "([], [], {#}, False, ())"
      "\<lparr>shutdown_req = 0\<rparr>" "\<lambda>k. 7 * int k"] two_rounds_plain(2)
  show ?thesis by fastforce
qed

end
