(* ===== verification/Proxy_Run.thy ===== *)
theory Proxy_Run
  imports Rpc_Run Linux_Proxy Linux_Start
begin

text \<open>
  The character-device proxy (\<open>linux/rpmsg-proxy-app\<close>) from its first call to its last: it finds and opens its endpoint, serves a session of
  requests, each of which is a call on the files, and closes what it has opened.
\<close>

section \<open>The endpoint of the proxy\<close>



section \<open>A session\<close>







section \<open>The program from the start to the end\<close>



section \<open>A concrete session\<close>







end
