(* ===== verification/Echo_Flood.thy ===== *)
theory Echo_Flood
  imports Echo_Sample
begin

text \<open>
  The flood host (\<open>tests/msg/rpmsg-flood-ping.c\<close>) against a peer that echoes: it sends packages without waiting, until
  the library has no buffer left, and lets the callbacks run only then.  Every package comes back, in order,
  and the back pressure never blocks it for good.
\<close>

section \<open>A link with a bounded number of messages under way\<close>

text \<open>
  \<open>rpmsg_trysend\<close> fails for want of a buffer only while messages are under way, at most \<open>K\<close> of them; it leaves the
  link as it is then.  Messages arrive once, unchanged and in order, after at most \<open>D\<close> empty notifications.
\<close>

definition flood_link ::
    "'w rpmsg \<Rightarrow> (bytes \<Rightarrow> bytes list) \<Rightarrow> nat \<Rightarrow> nat \<Rightarrow> nat \<Rightarrow> ('w \<Rightarrow> bool) \<Rightarrow> ('w \<Rightarrow> bytes list) \<Rightarrow> ('w \<Rightarrow> nat) \<Rightarrow> bool" where
  "flood_link ops reply T D K conn pend lag \<longleftrightarrow> RPMSG_ERR_NO_BUFF ops < 0 \<and>
     (\<forall>w. conn w \<longrightarrow> is_rpmsg_ept_ready ops w \<and> rpmsg_get_tx_buffer_size ops w = int T \<and> lag w \<le> D \<and> length (pend w) \<le> K) \<and>
     (\<forall>w m r w'. conn w \<longrightarrow> length m \<le> T \<longrightarrow> rpmsg_trysend ops m w = (r, w') \<longrightarrow> conn w' \<and>
        (0 \<le> r \<and> pend w' = pend w @ reply m \<or>
         r = RPMSG_ERR_NO_BUFF ops \<and> pend w \<noteq> [] \<and> pend w' = pend w \<and> lag w' = lag w)) \<and>
     (\<forall>w es w'. conn w \<longrightarrow> platform_poll ops w = (es, w') \<longrightarrow>
        conn w' \<and> list_all is_Rx es \<and> pend w = map rx_data es @ pend w' \<and>
        (pend w \<noteq> [] \<and> es = [] \<longrightarrow> lag w' < lag w))"

lemma flood_no_buff: "flood_link ops reply T D K conn pend lag \<Longrightarrow> RPMSG_ERR_NO_BUFF ops < 0"
  and flood_conn: "flood_link ops reply T D K conn pend lag \<Longrightarrow> conn w \<Longrightarrow>
    is_rpmsg_ept_ready ops w \<and> rpmsg_get_tx_buffer_size ops w = int T \<and> lag w \<le> D \<and> length (pend w) \<le> K"
  and flood_trysend: "flood_link ops reply T D K conn pend lag \<Longrightarrow> conn w \<Longrightarrow> length m \<le> T \<Longrightarrow>
    rpmsg_trysend ops m w = (r, w') \<Longrightarrow> conn w' \<and> (0 \<le> r \<and> pend w' = pend w @ reply m \<or>
         r = RPMSG_ERR_NO_BUFF ops \<and> pend w \<noteq> [] \<and> pend w' = pend w \<and> lag w' = lag w)"
  and flood_polled: "flood_link ops reply T D K conn pend lag \<Longrightarrow> conn w \<Longrightarrow> platform_poll ops w = (es, w') \<Longrightarrow>
    conn w' \<and> list_all is_Rx es \<and> pend w = map rx_data es @ pend w' \<and> (pend w \<noteq> [] \<and> es = [] \<longrightarrow> lag w' < lag w)"
  unfolding flood_link_def by blast+

text \<open>The polls that can still bring nothing or a message: every poll with messages under way lowers it.\<close>

definition backlog :: "nat \<Rightarrow> ('w \<Rightarrow> bytes list) \<Rightarrow> ('w \<Rightarrow> nat) \<Rightarrow> 'w \<Rightarrow> nat" where
  "backlog D pend lag w = length (pend w) * Suc D + lag w"

lemma backlog_bound:
  assumes "flood_link ops reply T D K conn pend lag" and "conn w"
  shows "backlog D pend lag w \<le> K * Suc D + D"
proof -
  have "length (pend w) * Suc D \<le> K * Suc D" "lag w \<le> D" using flood_conn [OF assms] by (simp_all only: mult_le_mono1)
  then show ?thesis unfolding backlog_def by (rule add_mono)
qed

lemma backlog_falls:
  assumes "pend w = ms @ pend w'" and "lag w' \<le> D" and "pend w \<noteq> []" and "ms = [] \<Longrightarrow> lag w' < lag w"
  shows "backlog D pend lag w' < backlog D pend lag w"
proof (cases ms)
  case Nil
  then show ?thesis using assms by (simp add: backlog_def)
next
  case (Cons m ms')
  have "length (pend w') * Suc D + lag w' < Suc (length (pend w')) * Suc D" using assms(2) by simp
  also have "\<dots> \<le> length (pend w) * Suc D" using assms(1) Cons by (intro mult_le_mono1) simp
  finally show ?thesis by (simp add: backlog_def)
qed

section \<open>The callback\<close>

lemma scan_same_replicate: "k \<le> n \<Longrightarrow> scan_same k (replicate k a) (replicate n a) = Done True"
proof (induction k arbitrary: n)
  case (Suc k)
  then show ?case by (cases n) simp_all
qed simp

text \<open>
  \<open>flooded\<close>: the host has sent the packages below \<open>b\<close> of \<open>s\<close> bytes of data, those below \<open>a\<close> have come back, and
  the others are under way.
\<close>

definition flooded :: "('w \<Rightarrow> bool) \<Rightarrow> ('w \<Rightarrow> bytes list) \<Rightarrow> nat \<Rightarrow> nat \<Rightarrow> nat \<Rightarrow> nat \<Rightarrow> pinger \<times> 'w \<Rightarrow> bool" where
  "flooded conn pend T s a b = (\<lambda>(g, w). flood_alive g \<and> rnum g = int a \<and> a \<le> b \<and> conn w \<and>
     pend w = map (\<lambda>i. payload i s) [a..<b] \<and>
     (\<exists>obj. i_payload g = Some obj \<and> length obj = T \<and> drop 8 obj = le64 (word_of_nat s) @ replicate (T - 16) 0xA5))"

lemma flood_cb_payload:
  assumes "flood_alive g" and "i_payload g = Some obj" and "drop 16 obj = replicate (T - 16) 0xA5"
    and "0 < s" and "s \<le> T - 16" and "s \<le> 496" and "k + 1 < 2 ^ 31"
  shows "flood_cb ops (Rx h (payload k s) src) (g, w) = Done ((), (g\<lparr>rnum := int (Suc k)\<rparr>, w))"
proof -
  have u: "unat (word_of_nat s :: u64) = s" using assms(6) by (simp add: unsigned_of_nat take_bit_nat_eq_self)
  then have "(word_of_nat s :: u64) \<noteq> 0" "\<not> 496 < (word_of_nat s :: u64)"
    using assms(4,6) by (auto simp: word_less_nat_alt)
  moreover have "to_int32 (uint (word_of_nat k + 1 :: u64)) = int (Suc k)"
    using int32_of_u64 [of "k + 1"] assms(7) by (simp add: add.commute)
  ultimately show ?thesis
    using assms(2,3,5) u
    by (simp add: flood_endpoint_cb_def Let_def get64_payload drop_payload scan_same_replicate)
qed

text \<open>A batch of echoes is taken over message by message.\<close>

lemma flood_batch:
  assumes "flood_alive g" and "i_payload g = Some obj" and "drop 16 obj = replicate (T - 16) 0xA5"
    and "0 < s" and "s \<le> T - 16" and "s \<le> 496" and "b < 2 ^ 31"
    and "list_all is_Rx es" and "map rx_data es = map (\<lambda>i. payload i s) [a..<c]" and "a \<le> c" and "c \<le> b" and "rnum g = int a"
  shows "run_events (flood_cb ops) es (g, w) = Done ((), (g\<lparr>rnum := int c\<rparr>, w))"
  using assms(1-3,8-12)
proof (induction es arbitrary: a g)
  case Nil
  then have "a = c" by auto
  with Nil show ?case by (cases g) simp
next
  case (Cons e es)
  then have ac: "a < c" by (cases "a < c") auto
  with Cons.prems obtain h src where e: "e = Rx h (payload a s) src" and es: "map rx_data es = map (\<lambda>i. payload i s) [Suc a..<c]"
    by (cases e) (auto simp: upt_conv_Cons)
  have "flood_cb ops e (g, w) = Done ((), (g\<lparr>rnum := int (Suc a)\<rparr>, w))"
    unfolding e using Cons.prems ac assms(4-7) by (intro flood_cb_payload) auto
  moreover have "run_events (flood_cb ops) es (g\<lparr>rnum := int (Suc a)\<rparr>, w) = Done ((), (g\<lparr>rnum := int (Suc a), rnum := int c\<rparr>, w))"
    using Cons.prems ac es by (intro Cons.IH [where a = "Suc a"]) (auto simp: flood_alive_def)
  ultimately show ?case by simp
qed

text \<open>A poll keeps the state of the flood; with messages under way it lowers the backlog.\<close>

lemma flood_poll:
  assumes link: "flood_link ops reply T D K conn pend lag" and st: "flooded conn pend T s a b (g, w)"
    and s: "0 < s" "s \<le> T - 16" "s \<le> 496" and b: "b < 2 ^ 31"
  shows "\<exists>c g' w'. poll ops (flood_cb ops) (g, w) = Done ((), (g', w')) \<and> flooded conn pend T s c b (g', w') \<and>
    i_payload g' = i_payload g \<and> (a < b \<longrightarrow> backlog D pend lag w' < backlog D pend lag w)"
proof -
  obtain es w' where p: "platform_poll ops w = (es, w')" by fastforce
  from st obtain obj where al: "flood_alive g" "rnum g = int a" "a \<le> b" "conn w" "pend w = map (\<lambda>i. payload i s) [a..<b]"
    "i_payload g = Some obj" "length obj = T" "drop 8 obj = le64 (word_of_nat s) @ replicate (T - 16) 0xA5"
    by (auto simp: flooded_def)
  have "drop 16 obj = drop 8 (drop 8 obj)" by simp
  with al(8) have d: "drop 16 obj = replicate (T - 16) 0xA5" by simp
  from flood_polled [OF link al(4) p] have q: "conn w'" "list_all is_Rx es" "pend w = map rx_data es @ pend w'"
    "pend w \<noteq> [] \<Longrightarrow> es = [] \<Longrightarrow> lag w' < lag w" by auto
  define c where "c = a + length es"
  have l: "length es \<le> b - a" using q(3) al(5) by (metis length_append length_map length_upt le_add1)
  then have c: "a \<le> c" "c \<le> b" using al(3) by (auto simp: c_def)
  from q(3) al(5) have "map rx_data es @ pend w' = map (\<lambda>i. payload i s) [a..<c] @ map (\<lambda>i. payload i s) [c..<b]"
    using c upt_add_eq_append [of a c "b - c"] by (simp flip: map_append)
  moreover have "length (map rx_data es) = length (map (\<lambda>i. payload i s) [a..<c])" by (simp add: c_def)
  ultimately have m: "map rx_data es = map (\<lambda>i. payload i s) [a..<c]" "pend w' = map (\<lambda>i. payload i s) [c..<b]"
    by (metis append_eq_append_conv)+
  have r: "run_events (flood_cb ops) es (g, w') = Done ((), (g\<lparr>rnum := int c\<rparr>, w'))"
    by (rule flood_batch [OF al(1,6) d s b q(2) m(1) c al(2)])
  have "a < b \<longrightarrow> backlog D pend lag w' < backlog D pend lag w"
  proof
    assume "a < b"
    then have ne: "pend w \<noteq> []" by (simp add: al(5))
    show "backlog D pend lag w' < backlog D pend lag w"
      by (rule backlog_falls [where pend = pend and ms = "map rx_data es", OF q(3) _ ne]) (use flood_conn [OF link q(1)] q(4) [OF ne] in auto)
  qed
  then show ?thesis
    using r p al q(1) m(2) c by (auto simp: poll_eq flooded_def flood_alive_def)
qed

section \<open>The loops\<close>

text \<open>One package is sent: while no buffer is free, the host polls, and the backlog falls.\<close>

lemma flood_send_ok:
  assumes link: "flood_link ops (\<lambda>m. [m]) T D K conn pend lag" and st: "flooded conn pend T s a b (g, w)"
    and s: "0 < s" "s \<le> T - 16" "s \<le> 496" and b: "b < 2 ^ 31" and n: "K * Suc D + D < n"
  shows "\<exists>r t. flood_send n ops (payload b s) r0 (g, w) = Done (r, t) \<and>
    0 \<le> r \<and> (\<exists>c. flooded conn pend T s c (Suc b) t) \<and> i_payload (fst t) = i_payload g"
  unfolding flood_send_def
proof (rule iter_total [where I = "\<lambda>_ t. (\<exists>c. flooded conn pend T s c b t) \<and> i_payload (fst t) = i_payload g"
      and mu = "\<lambda>_ (g, w). backlog D pend lag w"])
  have "backlog D pend lag w \<le> K * Suc D + D" using backlog_bound [OF link] st by (simp add: flooded_def)
  then show "(case (g, w) of (g, w) \<Rightarrow> backlog D pend lag w) < n" using n by simp
  show "(\<exists>c. flooded conn pend T s c b (g, w)) \<and> i_payload (fst (g, w)) = i_payload g" using st by auto
next
  fix r :: int and t assume I: "(\<exists>c. flooded conn pend T s c b t) \<and> i_payload (fst t) = i_payload g"
  obtain g1 w1 where t: "t = (g1, w1)" by fastforce
  with I obtain c where f: "flooded conn pend T s c b (g1, w1)" and p: "i_payload g1 = i_payload g" by auto
  then have al: "flood_alive g1" "conn w1" "pend w1 = map (\<lambda>i. payload i s) [c..<b]" "c \<le> b" by (auto simp: flooded_def)
  obtain r' w2 where tr: "rpmsg_trysend ops (payload b s) w1 = (r', w2)" by fastforce
  have "length (payload b s) \<le> T" using s by simp
  from flood_trysend [OF link al(2) this tr] consider
      "0 \<le> r'" "conn w2" "pend w2 = pend w1 @ [payload b s]"
    | "r' = RPMSG_ERR_NO_BUFF ops" "conn w2" "pend w1 \<noteq> []" "pend w2 = pend w1" "lag w2 = lag w1" by auto
  then show "(\<exists>r' t'. bnd (getg flood_alive) (\<lambda>b'. if \<not> b' then ret (Inr r)
         else bnd (ext (rpmsg_trysend ops (payload b s))) (\<lambda>r'. if r' = RPMSG_ERR_NO_BUFF ops
             then seq (poll ops (flood_cb ops)) (ret (Inl r')) else ret (Inr r'))) t = Done (Inl r', t') \<and>
        ((\<exists>c. flooded conn pend T s c b t') \<and> i_payload (fst t') = i_payload g) \<and>
        (case t' of (g, w) \<Rightarrow> backlog D pend lag w) < (case t of (g, w) \<Rightarrow> backlog D pend lag w)) \<or>
      (\<exists>r' t'. bnd (getg flood_alive) (\<lambda>b'. if \<not> b' then ret (Inr r)
         else bnd (ext (rpmsg_trysend ops (payload b s))) (\<lambda>r'. if r' = RPMSG_ERR_NO_BUFF ops
             then seq (poll ops (flood_cb ops)) (ret (Inl r')) else ret (Inr r'))) t = Done (Inr r', t') \<and>
        0 \<le> r' \<and> (\<exists>c. flooded conn pend T s c (Suc b) t') \<and> i_payload (fst t') = i_payload g)"
  proof cases
    case 1
    then have "flooded conn pend T s c (Suc b) (g1, w2)" using f by (auto simp: flooded_def)
    moreover have "r' \<noteq> RPMSG_ERR_NO_BUFF ops" using 1 flood_no_buff [OF link] by auto
    ultimately show ?thesis using 1 al(1) t tr p by auto
  next
    case 2
    then have "flooded conn pend T s c b (g1, w2)" "c < b" using f al(3) by (auto simp: flooded_def)
    with flood_poll [OF link _ s b, of c g1 w2] obtain c' g3 w3 where
      "poll ops (flood_cb ops) (g1, w2) = Done ((), (g3, w3))" "flooded conn pend T s c' b (g3, w3)"
      "i_payload g3 = i_payload g1" "backlog D pend lag w3 < backlog D pend lag w2" by blast
    moreover have "backlog D pend lag w2 = backlog D pend lag w1" using 2 by (simp add: backlog_def)
    ultimately show ?thesis using 2(1) al(1) t tr p by auto
  qed
qed

text \<open>The packages of one size are all sent.\<close>

lemma flood_packages_ok:
  assumes link: "flood_link ops (\<lambda>m. [m]) T D K conn pend lag" and st: "flooded conn pend T s a 0 (g, w)"
    and s: "0 < s" "s \<le> T - 16" "s \<le> 496" "16 \<le> T" and num: "num < 2 ^ 31" and n: "K * Suc D + D < n" and r0: "0 \<le> r0"
  shows "\<exists>r t. flood_packages n ops num (16 + s) r0 (g, w) = Done (r, t) \<and> 0 \<le> r \<and> (\<exists>c. flooded conn pend T s c num t)"
proof -
  let ?body = "\<lambda>(i, r). if \<not> i < num then ret (Inr r) else bnd (getg i_payload) (\<lambda>p. case p of
      None \<Rightarrow> fail Null_deref
    | Some obj \<Rightarrow> bnd (lift (put_bytes 0 (le64 (word_of_nat i)) obj)) (\<lambda>obj'.
        seq (updg (\<lambda>g. g\<lparr>i_payload := Some obj'\<rparr>)) (bnd (flood_send n ops (take (16 + s) obj') r) (\<lambda>r'.
          bnd (getg flood_alive) (\<lambda>b. if r' < 0 \<or> \<not> b then ret (Inr r') else ret (Inl (Suc i, r')))))))"
  let ?I = "\<lambda>l t. fst l \<le> num \<and> 0 \<le> snd l \<and> (\<exists>c. flooded conn pend T s c (fst l) t)"
  have "\<exists>r t. iter (Suc num) ?body (0, r0) (g, w) = Done (r, t) \<and> 0 \<le> r \<and> (\<exists>c. flooded conn pend T s c num t)"
  proof (rule iter_total [where I = ?I and mu = "\<lambda>l _. num - fst l"])
    fix l :: "nat \<times> int" and t assume I: "?I l t"
    obtain i r g1 w1 where lt: "l = (i, r)" "t = (g1, w1)" by (cases l, cases t) auto
    with I obtain c where i: "i \<le> num" "0 \<le> r" and f: "flooded conn pend T s c i (g1, w1)" by auto
    then obtain obj where obj: "i_payload g1 = Some obj" "length obj = T"
      "drop 8 obj = le64 (word_of_nat s) @ replicate (T - 16) 0xA5" by (auto simp: flooded_def)
    let ?obj = "le64 (word_of_nat i) @ drop 8 obj"
    have pb: "put_bytes 0 (le64 (word_of_nat i)) obj = Done ?obj" using obj(2) s(4) by (simp add: put_bytes_def)
    have tk: "le64 (word_of_nat i) @ take (8 + s) (drop 8 obj) = payload i s" using s by (simp add: obj(3) payload_def min_def)
    have f1: "flooded conn pend T s c i (g1\<lparr>i_payload := Some ?obj\<rparr>, w1)"
      using f obj s(4) by (auto simp: flooded_def flood_alive_def)
    show "(\<exists>l' t'. ?body l t = Done (Inl l', t') \<and> ?I l' t' \<and> num - fst l' < num - fst l) \<or>
        (\<exists>r t'. ?body l t = Done (Inr r, t') \<and> 0 \<le> r \<and> (\<exists>c. flooded conn pend T s c num t'))"
    proof (cases "i < num")
      case False
      then have "i = num" using i by simp
      then show ?thesis using lt i f by auto
    next
      case True
      with num have "i < 2 ^ 31" by simp
      from flood_send_ok [OF link f1 s(1-3) this n, of r] obtain r' g2 w2 c' where
        1: "flood_send n ops (payload i s) r (g1\<lparr>i_payload := Some ?obj\<rparr>, w1) = Done (r', (g2, w2))" "0 \<le> r'"
          "flooded conn pend T s c' (Suc i) (g2, w2)" by auto
      then have "flood_alive g2" by (simp add: flooded_def)
      then have "?body l t = Done (Inl (Suc i, r'), (g2, w2))" using 1 True lt obj(1) by (simp add: pb tk)
      then show ?thesis using 1 True lt by auto
    qed
  qed (use st r0 in auto)
  then show ?thesis by (simp add: flood_packages_def)
qed

text \<open>The wait for the echoes that are still under way.\<close>

lemma flood_wait_ok:
  assumes link: "flood_link ops (\<lambda>m. [m]) T D K conn pend lag" and st: "flooded conn pend T s a num (g, w)"
    and s: "0 < s" "s \<le> T - 16" "s \<le> 496" and num: "num < 2 ^ 31" and n: "K * Suc D + D < n"
  shows "\<exists>t. while_loop n (getg (\<lambda>g. rnum g < int num \<and> flood_alive g)) (poll ops (flood_cb ops)) (g, w) = Done ((), t) \<and>
    flooded conn pend T s num num t"
proof -
  have "\<exists>r t. while_loop n (getg (\<lambda>g. rnum g < int num \<and> flood_alive g)) (poll ops (flood_cb ops)) (g, w) = Done (r, t) \<and>
    flooded conn pend T s num num t"
    unfolding while_loop_def
  proof (rule iter_total [where I = "\<lambda>_ t. \<exists>c. flooded conn pend T s c num t" and mu = "\<lambda>_ (g, w). backlog D pend lag w"])
    have "backlog D pend lag w \<le> K * Suc D + D" using backlog_bound [OF link] st by (simp add: flooded_def)
    then show "(case (g, w) of (g, w) \<Rightarrow> backlog D pend lag w) < n" using n by simp
  next
    fix u :: unit and t assume "\<exists>c. flooded conn pend T s c num t"
    then obtain c g1 w1 where t: "t = (g1, w1)" and f: "flooded conn pend T s c num (g1, w1)" by (cases t) auto
    have al: "rnum g1 = int c" "c \<le> num" "flood_alive g1" using f by (auto simp: flooded_def)
    from flood_poll [OF link f s num] obtain c' g2 w2 where
      q: "poll ops (flood_cb ops) (g1, w1) = Done ((), (g2, w2))" "flooded conn pend T s c' num (g2, w2)"
      "c < num \<longrightarrow> backlog D pend lag w2 < backlog D pend lag w1" by blast
    show "(\<exists>l' t'. bnd (getg (\<lambda>g. rnum g < int num \<and> flood_alive g)) (\<lambda>b. if b then seq (poll ops (flood_cb ops)) (ret (Inl ())) else ret (Inr ())) t
          = Done (Inl l', t') \<and> (\<exists>c. flooded conn pend T s c num t') \<and>
          (case t' of (g, w) \<Rightarrow> backlog D pend lag w) < (case t of (g, w) \<Rightarrow> backlog D pend lag w)) \<or>
        (\<exists>r t'. bnd (getg (\<lambda>g. rnum g < int num \<and> flood_alive g)) (\<lambda>b. if b then seq (poll ops (flood_cb ops)) (ret (Inl ())) else ret (Inr ())) t
          = Done (Inr r, t') \<and> flooded conn pend T s num num t')"
    proof (cases "c < num")
      case True
      with q al t show ?thesis by auto
    next
      case False
      with al have "c = num" by simp
      with al t f show ?thesis by auto
    qed
  qed (use st in blast)
  then show ?thesis by auto
qed

text \<open>All sizes, from 1 to the size of a buffer.\<close>

definition flood_ready :: "('w \<Rightarrow> bool) \<Rightarrow> ('w \<Rightarrow> bytes list) \<Rightarrow> nat \<Rightarrow> pinger \<times> 'w \<Rightarrow> bool" where
  "flood_ready conn pend T = (\<lambda>(g, w). flood_alive g \<and> conn w \<and> pend w = [] \<and>
     (\<exists>obj. i_payload g = Some obj \<and> length obj = T \<and> drop 16 obj = replicate (T - 16) 0xA5))"

lemma flood_size_ok:
  assumes link: "flood_link ops (\<lambda>m. [m]) T D K conn pend lag" and st: "flood_ready conn pend T (g, w)"
    and T: "16 \<le> T" "T \<le> 512" and num: "num < 2 ^ 31" and n: "K * Suc D + D < n" and s: "0 < s" "int s \<le> int T - 16" "0 \<le> r"
  shows "\<exists>r' t. flood_size n ops num (int T - 16) (s, r) (g, w) = Done (Inl (Suc s, r'), t) \<and> 0 \<le> r' \<and>
    flood_ready conn pend T t \<and> rnum (fst t) = int num"
proof -
  have sz: "s \<le> T - 16" "s \<le> 496" using T s(2) by linarith+
  from st obtain obj where obj: "i_payload g = Some obj" "length obj = T" "drop 16 obj = replicate (T - 16) 0xA5"
    "flood_alive g" "conn w" "pend w = []" by (auto simp: flood_ready_def)
  let ?obj = "take 8 obj @ le64 (word_of_nat s) @ drop 16 obj"
  let ?g = "g\<lparr>i_payload := Some ?obj, rnum := 0\<rparr>"
  have pb: "put_bytes 8 (le64 (word_of_nat s)) obj = Done ?obj" using obj(2) T by (simp add: put_bytes_def)
  have "flooded conn pend T s 0 0 (?g, w)" using obj T by (auto simp: flooded_def flood_alive_def)
  from flood_packages_ok [OF link this s(1) sz T(1) num n s(3)] obtain r' g2 w2 c where
    1: "flood_packages n ops num (16 + s) r (?g, w) = Done (r', (g2, w2))" "0 \<le> r'" "flooded conn pend T s c num (g2, w2)" by auto
  from flood_wait_ok [OF link 1(3) s(1) sz num n] obtain g3 w3 where
    2: "while_loop n (getg (\<lambda>g. rnum g < int num \<and> flood_alive g)) (poll ops (flood_cb ops)) (g2, w2) = Done ((), (g3, w3))"
      "flooded conn pend T s num num (g3, w3)" by auto
  then obtain obj3 where o3: "i_payload g3 = Some obj3" "length obj3 = T" "drop 8 obj3 = le64 (word_of_nat s) @ replicate (T - 16) 0xA5"
    "flood_alive g3" "rnum g3 = int num" "conn w3" "pend w3 = []" by (auto simp: flooded_def)
  have "drop 16 obj3 = drop 8 (drop 8 obj3)" by simp
  with o3 have "flood_ready conn pend T (g3, w3)" by (simp add: flood_ready_def)
  then show ?thesis using 1 2 s(2) obj(1) pb o3(4,5) by (simp add: flood_size_def)
qed

lemma flood_sizes_ok:
  assumes link: "flood_link ops (\<lambda>m. [m]) T D K conn pend lag" and st: "flood_ready conn pend T s0"
    and T: "16 \<le> T" "T \<le> 512" and num: "num < 2 ^ 31" and n: "K * Suc D + D < n"
  shows "\<exists>t. flood_sizes n ops num (int T - 16) 0 s0 = Done ((), t) \<and> flood_ready conn pend T t \<and>
    (16 < T \<longrightarrow> rnum (fst t) = int num)"
proof -
  let ?I = "\<lambda>l t. 0 < fst l \<and> fst l \<le> T - 16 + 1 \<and> 0 \<le> snd l \<and> flood_ready conn pend T t \<and> (1 < fst l \<longrightarrow> rnum (fst t) = int num)"
  have "\<exists>r t. iter (Suc (nat (int T - 16))) (flood_size n ops num (int T - 16)) (1, 0) s0 = Done (r, t) \<and> flood_ready conn pend T t \<and>
      (16 < T \<longrightarrow> rnum (fst t) = int num)"
  proof (rule iter_total [where I = ?I and mu = "\<lambda>l _. T - 16 + 1 - fst l"])
    fix l :: "nat \<times> int" and t assume I: "?I l t"
    obtain s r g1 w1 where lt: "l = (s, r)" "t = (g1, w1)" by (cases l, cases t) auto
    with I have s: "0 < s" "s \<le> T - 16 + 1" "0 \<le> r" and f: "flood_ready conn pend T (g1, w1)" and rn: "1 < s \<longrightarrow> rnum g1 = int num" by auto
    show "(\<exists>l' t'. flood_size n ops num (int T - 16) l t = Done (Inl l', t') \<and> ?I l' t' \<and> T - 16 + 1 - fst l' < T - 16 + 1 - fst l) \<or>
        (\<exists>r t'. flood_size n ops num (int T - 16) l t = Done (Inr r, t') \<and> flood_ready conn pend T t' \<and> (16 < T \<longrightarrow> rnum (fst t') = int num))"
    proof (cases "int s \<le> int T - 16")
      case False
      with s T have "s = T - 16 + 1" by linarith
      with False show ?thesis using lt f rn by (auto simp: flood_size_def)
    next
      case True
      have "s \<le> T - 16" using True T by linarith
      with flood_size_ok [OF link f T num n s(1) True s(3)] show ?thesis using lt by fastforce
    qed
  qed (use st T in auto)
  then show ?thesis by (simp add: flood_sizes_def)
qed

text \<open>
  C34. The flood host over an echoing link with bounded buffers: it returns 0, its checks of what comes back have counted
  no error over all sizes, and of the last size the last of the 1048576 packages has come back, although the link refuses a package whenever its
  buffers are in use and nothing is received but in the polls that such a refusal causes.
\<close>

theorem flood_app_ok:
  assumes link: "flood_link ops (\<lambda>m. [m]) T D K conn pend lag" and T: "16 \<le> T" "T \<le> 512" and n: "K * Suc D + D < n"
    and g: "err_cnt g = 0" "ept_deleted g = 0"
    and create: "rpmsg_create_ept ops RPMSG_SERVICE_NAME APP_EPT_ADDR (RPMSG_ADDR_ANY ops) w = (0, w0)"
    and alloc: "conn w0" "metal_allocate_memory ops T w0 = (Some obj, w1)" "length obj = T" and w1: "conn w1" "pend w1 = []"
  shows "\<exists>g' w'. flood_app n ops (g, w) = Done (0, (g', w')) \<and> err_cnt g' = 0 \<and> (16 < T \<longrightarrow> rnum g' = int NUMS_PACKAGES)"
proof -
  let ?obj = "take 16 obj @ replicate (T - 16) 0xA5"
  have pb: "put_bytes 16 (replicate (T - 16) 0xA5) obj = Done ?obj" using T(1) alloc(3) by (simp add: put_bytes_def)
  have num: "NUMS_PACKAGES < 2 ^ 31" by (simp add: NUMS_PACKAGES_def)
  have "flood_ready conn pend T (g\<lparr>i_payload := Some ?obj\<rparr>, w1)"
    using g w1 alloc(3) T(1) by (simp add: flood_ready_def flood_alive_def)
  from flood_sizes_ok [OF link this T num n] obtain g2 w2 where
    "flood_sizes n ops NUMS_PACKAGES (int T - 16) 0 (g\<lparr>i_payload := Some ?obj\<rparr>, w1) = Done ((), (g2, w2))"
    "flood_ready conn pend T (g2, w2)" "16 < T \<longrightarrow> rnum g2 = int NUMS_PACKAGES" by auto
  moreover from this have "err_cnt g2 = 0" by (auto simp: flood_ready_def flood_alive_def)
  moreover have "wait_ready n ops (flood_cb ops) (g, w0) = Done ((), (g, w0))"
    using flood_conn [OF link alloc(1)] n by (cases n) (simp_all add: wait_ready_def while_loop_def)
  moreover have "nat (int T - 16) = T - 16" using T(1) by simp
  ultimately show ?thesis
    using create alloc(2) flood_conn [OF link alloc(1)] T(1) pb by (simp add: flood_app_def Let_def)
qed

text \<open>A link with \<open>K\<close> buffers: the world is the list of the messages under way.\<close>

definition bounded_ops :: "nat \<Rightarrow> nat \<Rightarrow> bytes list rpmsg" where
  "bounded_ops K T = (loop_ops (\<lambda>m. [m]) T)\<lparr>rpmsg_trysend := (\<lambda>m w. if length w < K then (int (length m), w @ [m]) else (- 2006, w))\<rparr>"

lemma bounded_link: "0 < K \<Longrightarrow> flood_link (bounded_ops K T) (\<lambda>m. [m]) T 0 K (\<lambda>w. length w \<le> K) (\<lambda>w. w) (\<lambda>w. 0)"
  by (auto simp: flood_link_def bounded_ops_def loop_ops_def split: list.splits if_splits)

theorem flood_app_ok_witness:
  "\<exists>g' w'. flood_app 9 (bounded_ops 8 496) (\<lparr>err_cnt = 0, ept_deleted = 0, i_payload = None, rnum = 0\<rparr>, [])
      = Done (0, (g', w')) \<and> err_cnt g' = 0 \<and> rnum g' = 1048576"
  using flood_app_ok [OF bounded_link, of 8 496 9 "\<lparr>err_cnt = 0, ept_deleted = 0, i_payload = None, rnum = 0\<rparr>" "[]" "[]" "replicate 496 0" "[]"]
  by (simp add: bounded_ops_def loop_ops_def NUMS_PACKAGES_def)

end
