(* ===== verification/Nocopy_Host.thy ===== *)
theory Nocopy_Host
  imports Echo_Nocopy
begin

text \<open>
  The zero-copy host (\<open>nocopy_echo/rpmsg-nocopy-ping.c\<close>) against a peer that echoes: it fills the transmit
  buffers of the library in place, keeps the receive buffer of each answer until it has checked it, and gives
  every one back.
\<close>

section \<open>A link with buffers\<close>

text \<open>
  Besides a link to a peer: a free transmit buffer of \<open>T\<close> bytes when nothing is under way, sending it as a message, and the
  receive buffers that the application holds (\<open>held\<close>), which only holding and releasing change.
\<close>

definition buffer_link ::
    "'w rpmsg \<Rightarrow> (bytes \<Rightarrow> bytes list) \<Rightarrow> nat \<Rightarrow> nat \<Rightarrow> ('w \<Rightarrow> bool) \<Rightarrow> ('w \<Rightarrow> bytes list) \<Rightarrow> ('w \<Rightarrow> nat) \<Rightarrow>
     ('w \<Rightarrow> nat multiset) \<Rightarrow> bool" where
  "buffer_link ops reply T D conn pend lag held \<longleftrightarrow> RPMSG_SUCCESS ops = 0 \<and> peer_link ops reply T D conn pend lag \<and>
     (\<forall>w. conn w \<longrightarrow> held (snd (platform_poll ops w)) = held w) \<and>
     (\<forall>w. conn w \<longrightarrow> pend w = [] \<longrightarrow> (\<exists>h obj w'. rpmsg_get_tx_payload_buffer ops w = (Some (h, obj), w') \<and> length obj = T \<and>
        conn w' \<and> pend w' = [] \<and> held w' = held w)) \<and>
     (\<forall>w h m r w'. conn w \<longrightarrow> length m \<le> T \<longrightarrow> rpmsg_send_nocopy ops h m w = (r, w') \<longrightarrow>
        0 \<le> r \<and> conn w' \<and> pend w' = pend w @ reply m \<and> held w' = held w) \<and>
     (\<forall>w h. conn w \<longrightarrow> conn (rpmsg_hold_rx_buffer ops h w) \<and> pend (rpmsg_hold_rx_buffer ops h w) = pend w \<and>
        held (rpmsg_hold_rx_buffer ops h w) = add_mset h (held w)) \<and>
     (\<forall>w h. conn w \<longrightarrow> conn (rpmsg_release_rx_buffer ops h w) \<and> pend (rpmsg_release_rx_buffer ops h w) = pend w \<and>
        held (rpmsg_release_rx_buffer ops h w) = held w - {#h#})"

lemma buffer_link_peer: "buffer_link ops reply T D conn pend lag held \<Longrightarrow> peer_link ops reply T D conn pend lag"
  and buffer_link_success: "buffer_link ops reply T D conn pend lag held \<Longrightarrow> RPMSG_SUCCESS ops = 0"
  and buffer_link_poll: "buffer_link ops reply T D conn pend lag held \<Longrightarrow> conn w \<Longrightarrow> held (snd (platform_poll ops w)) = held w"
  and buffer_link_get: "buffer_link ops reply T D conn pend lag held \<Longrightarrow> conn w \<Longrightarrow> pend w = [] \<Longrightarrow>
    \<exists>h obj w'. rpmsg_get_tx_payload_buffer ops w = (Some (h, obj), w') \<and> length obj = T \<and> conn w' \<and> pend w' = [] \<and> held w' = held w"
  and buffer_link_send: "buffer_link ops reply T D conn pend lag held \<Longrightarrow> conn w \<Longrightarrow> length m \<le> T \<Longrightarrow>
    rpmsg_send_nocopy ops h m w = (r, w') \<Longrightarrow> 0 \<le> r \<and> conn w' \<and> pend w' = pend w @ reply m \<and> held w' = held w"
  and buffer_link_hold: "buffer_link ops reply T D conn pend lag held \<Longrightarrow> conn w \<Longrightarrow>
    conn (rpmsg_hold_rx_buffer ops h w) \<and> pend (rpmsg_hold_rx_buffer ops h w) = pend w \<and>
    held (rpmsg_hold_rx_buffer ops h w) = add_mset h (held w)"
  and buffer_link_release: "buffer_link ops reply T D conn pend lag held \<Longrightarrow> conn w \<Longrightarrow>
    conn (rpmsg_release_rx_buffer ops h w) \<and> pend (rpmsg_release_rx_buffer ops h w) = pend w \<and>
    held (rpmsg_release_rx_buffer ops h w) = held w - {#h#}"
  unfolding buffer_link_def by simp_all

section \<open>One round\<close>

text \<open>The wait for the answer to message \<open>i\<close>: its buffer is held, and it is the message to check.\<close>

lemma nocopy_await:
  assumes link: "buffer_link ops reply T D conn pend lag held" and "conn w" and "pend w = [payload i (Suc i)]" and "i + 1 < 2 ^ 31"
    and g: "n_rnum g = int i" "ept_deleted g = 0" and n: "D < n"
  shows "\<exists>h w'. do_while n (poll ops (nocopy_ping_cb ops)) (getg (\<lambda>g. n_rnum g < int (i + 1) \<and> ept_deleted g = 0)) (g, w)
      = Done ((), (g\<lparr>rcv_msg := Some (h, payload i (Suc i)), n_rnum := int (Suc i)\<rparr>, w')) \<and>
    conn w' \<and> pend w' = [] \<and> held w' = add_mset h (held w)"
proof -
  note peer = buffer_link_peer [OF link]
  let ?m = "payload i (Suc i)"
  let ?h = "\<lambda>h. g\<lparr>rcv_msg := Some (h, ?m), n_rnum := int (Suc i)\<rparr>"
  let ?body = "\<lambda>_::unit. seq (poll ops (nocopy_ping_cb ops)) (bnd (getg (\<lambda>g. n_rnum g < int (i + 1) \<and> ept_deleted g = 0))
      (\<lambda>t. ret (if t then Inl () else Inr ())))"
  have "\<exists>r t. iter n ?body () (g, w) = Done (r, t) \<and>
      (\<exists>h w'. t = (?h h, w') \<and> conn w' \<and> pend w' = [] \<and> held w' = add_mset h (held w))"
  proof (rule iter_total [where I = "\<lambda>_ (g', v). g' = g \<and> conn v \<and> pend v = [?m] \<and> held v = held w" and mu = "\<lambda>_ (g, v). lag v"])
    show "(case (g, w) of (g, v) \<Rightarrow> lag v) < n" using peer_link_lag [OF peer assms(2)] n by simp
  next
    fix u :: unit and s assume I: "case s of (g', v) \<Rightarrow> g' = g \<and> conn v \<and> pend v = [?m] \<and> held v = held w"
    then obtain v where s: "s = (g, v)" "conn v" "pend v = [?m]" "held v = held w" by (cases s) auto
    obtain es v' where p: "platform_poll ops v = (es, v')" by fastforce
    note q = peer_link_poll [OF peer s(2) p]
    have hv: "held v' = held w" using buffer_link_poll [OF link s(2)] p s(4) by simp
    show "(\<exists>l' t. ?body u s = Done (Inl l', t) \<and> (case t of (g', v) \<Rightarrow> g' = g \<and> conn v \<and> pend v = [?m] \<and> held v = held w) \<and>
          (case t of (g, v) \<Rightarrow> lag v) < (case s of (g, v) \<Rightarrow> lag v)) \<or>
        (\<exists>r t. ?body u s = Done (Inr r, t) \<and> (\<exists>h w'. t = (?h h, w') \<and> conn w' \<and> pend w' = [] \<and> held w' = add_mset h (held w)))"
    proof (cases es)
      case Nil
      then show ?thesis using s p q hv g by (simp add: poll_eq)
    next
      case (Cons e fs)
      with q s(3) obtain h src where e: "e = Rx h ?m src" "fs = []" "pend v' = []" "conn v'" by (cases e) auto
      have "to_int32 (uint (word_of_nat i + 1 :: u64)) = int (Suc i)"
        using int32_of_u64 [of "i + 1"] assms(4) by (simp add: add.commute)
      then have "nocopy_ping_cb ops e (g, v') = Done ((), (?h h, rpmsg_hold_rx_buffer ops h v'))"
        by (simp add: e(1) nocopy_ping_endpoint_cb_def get64_payload)
      then show ?thesis using s(1) p Cons e(2-4) buffer_link_hold [OF link e(4), of h] hv by (simp add: poll_eq)
    qed
  qed (use assms(2,3) in simp)
  then show ?thesis by (auto simp: do_while_def)
qed

text \<open>The check of an intact answer: its buffer is released.\<close>

lemma nocopy_check:
  assumes "i + 1 < 2 ^ 31" and "RPMSG_SUCCESS ops = 0"
  shows "rpmsg_check_rcv_msg ops (Some (h, payload i (Suc i))) (word_of_nat i) (g, w) = Done (0, (g, rpmsg_release_rx_buffer ops h w))"
proof -
  have "(ucast (word_of_nat i :: u32) :: u64) = word_of_nat i"
    using assms(1) by (intro unsigned_word_eqI [where ?'a = nat]) (simp add: unsigned_ucast_eq unsigned_of_nat take_bit_nat_eq_self)
  moreover have "to_int32 (uint (word_of_nat (Suc i) :: u64)) = int (Suc i)" using int32_of_u64 [of "Suc i"] assms(1) by simp
  moreover from this have "(word_of_nat (Suc i) :: u64) \<noteq> 0" by (auto simp: to_int32_def)
  moreover have "scan_a5 (Suc i) (replicate (Suc i) 0xA5) = Done True" by (simp only: scan_a5_True_iff) simp
  ultimately show ?thesis
    using assms(2) by (simp add: rpmsg_check_rcv_msg_def get64_payload drop_payload del: replicate_Suc scan_a5.simps of_nat_Suc)
qed

lemma nocopy_ping_round_ok:
  assumes link: "buffer_link ops (replies echo_cb sg) T D conn pend lag held"
    and T: "16 + (i + 1) \<le> T" "T < 2 ^ 31" and n: "D < n" and num: "int i < num"
    and g: "n_rnum g = int i" "ept_deleted g = 0" and w: "conn w" "pend w = []"
  shows "\<exists>h w'. nocopy_ping_round n ops num i (g, w)
      = Done (Inl (Suc i), (g\<lparr>rcv_msg := Some (h, payload i (Suc i)), n_rnum := int (Suc i)\<rparr>, w')) \<and>
    conn w' \<and> pend w' = [] \<and> held w' = held w"
proof -
  let ?m = "payload i (Suc i)"
  from buffer_link_get [OF link w] obtain t obj w1 where
    1: "rpmsg_get_tx_payload_buffer ops w = (Some (t, obj), w1)" "length obj = T" "conn w1" "pend w1 = []" "held w1 = held w" by blast
  have f: "fill_payload i (Suc i) obj = Done (?m @ drop (17 + i) obj)" using fill_payload_ok [of "Suc i" obj i] 1(2) T by simp
  obtain r w2 where s: "rpmsg_send_nocopy ops t ?m w1 = (r, w2)" by fastforce
  from T have "replies echo_cb sg ?m = [?m]" by (intro echo_replies payload_not_shutdown) auto
  with buffer_link_send [OF link 1(3) _ s] T(1) 1(4,5) have 2: "0 \<le> r" "conn w2" "pend w2 = [?m]" "held w2 = held w" by auto
  from nocopy_await [OF link 2(2,3) _ g n] T obtain h w3 where
    3: "do_while n (poll ops (nocopy_ping_cb ops)) (getg (\<lambda>g. n_rnum g < int (i + 1) \<and> ept_deleted g = 0)) (g, w2)
      = Done ((), (g\<lparr>rcv_msg := Some (h, ?m), n_rnum := int (Suc i)\<rparr>, w3))"
      "conn w3" "pend w3 = []" "held w3 = add_mset h (held w2)" by auto
  have "take (16 + (i + 1)) (?m @ drop (17 + i) obj) = ?m" by simp
  then have "nocopy_ping_round n ops num i (g, w)
      = Done (Inl (Suc i), (g\<lparr>rcv_msg := Some (h, ?m), n_rnum := int (Suc i)\<rparr>, rpmsg_release_rx_buffer ops h w3))"
    using num 1(1) f s 2(1) 3(1) g(2) T nocopy_check [OF _ buffer_link_success [OF link], of i h] by (simp add: nocopy_ping_round_def)
  then show ?thesis using buffer_link_release [OF link 3(2), of h] 3(3,4) 2(4) by auto
qed

section \<open>The application\<close>

text \<open>
  C35. The zero-copy host against the echo service: it returns 0 after the last of its \<open>T - 16\<close> messages, of the sizes
  from 1 on, has come back, its checks have counted no error, and it has given back every receive buffer it held.
\<close>

theorem nocopy_ping_ok:
  fixes ops :: "'w rpmsg"
  assumes link: "buffer_link ops (replies echo_cb sg) T D conn pend lag held"
    and T: "16 \<le> T" "T < 2 ^ 31" and n: "D < n"
    and g: "n_rnum g = 0" "ept_deleted g = 0" "err_cnt g = 0"
    and create: "rpmsg_create_ept ops RPMSG_SERVICE_NAME (RPMSG_ADDR_ANY ops) (RPMSG_ADDR_ANY ops) w = (0, w0)"
    and w0: "conn w0" "pend w0 = []" and H: "0 < T"
  shows "\<exists>g' w'. nocopy_ping_app n ops (g, w) = Done (0, (g', rpmsg_destroy_ept ops w')) \<and>
    err_cnt g' = 0 \<and> n_rnum g' = int (T - 16) \<and> held w' = held w0"
proof -
  note peer = buffer_link_peer [OF link]
  have i32: "to_int32 (int T) = int T" "to_int32 (int T - 16) = int T - 16" using T by (simp_all add: to_int32_id)
  let ?num = "int T - 16"
  let ?I = "\<lambda>i (g, w). i \<le> T - 16 \<and> n_rnum g = int i \<and> ept_deleted g = 0 \<and> err_cnt g = 0 \<and> conn w \<and> pend w = [] \<and> held w = held w0"
  have "\<exists>r t. iter (Suc (nat ?num)) (nocopy_ping_round n ops ?num) 0 (g, w0) = Done (r, t) \<and> ?I (T - 16) t"
  proof (rule iter_total [where I = ?I and mu = "\<lambda>i _. T - 16 - i"])
    fix i and s :: "nocopy_pinger \<times> 'w" assume I: "?I i s"
    then obtain g1 w1 where s: "s = (g1, w1)" "i \<le> T - 16" "n_rnum g1 = int i" "ept_deleted g1 = 0" "err_cnt g1 = 0" "conn w1"
      "pend w1 = []" "held w1 = held w0" by (cases s) auto
    show "(\<exists>l' t. nocopy_ping_round n ops ?num i s = Done (Inl l', t) \<and> ?I l' t \<and> T - 16 - l' < T - 16 - i) \<or>
        (\<exists>r t. nocopy_ping_round n ops ?num i s = Done (Inr r, t) \<and> ?I (T - 16) t)"
    proof (cases "i < T - 16")
      case True
      then have "16 + (i + 1) \<le> T" "int i < ?num" using T(1) by linarith+
      from nocopy_ping_round_ok [OF link this(1) T(2) n this(2) s(3,4,6,7)] obtain h w2 where
        "nocopy_ping_round n ops ?num i (g1, w1)
          = Done (Inl (Suc i), (g1\<lparr>rcv_msg := Some (h, payload i (Suc i)), n_rnum := int (Suc i)\<rparr>, w2))"
        "conn w2" "pend w2 = []" "held w2 = held w1" by blast
      then show ?thesis using s True by auto
    next
      case False
      with s(2) have "i = T - 16" by simp
      then show ?thesis using I s(1) T(1) by (auto simp: nocopy_ping_round_def)
    qed
  qed (use g w0 T(1) in auto)
  then obtain g2 w2 where loop: "iter (Suc (nat ?num)) (nocopy_ping_round n ops ?num) 0 (g, w0) = Done ((), (g2, w2))" "?I (T - 16) (g2, w2)"
    by auto
  have "wait_ready n ops (nocopy_ping_cb ops) (g, w0) = Done ((), (g, w0))"
    by (rule wait_ready_conn [OF peer w0(1)]) (use n in simp)
  then have "nocopy_ping_app n ops (g, w) = Done (0, (g2, rpmsg_destroy_ept ops w2))"
    using create peer_link_size [OF peer w0(1)] loop(1) i32 H by (simp add: nocopy_ping_app_def Let_def del: iter.simps)
  then show ?thesis using loop(2) by auto
qed

text \<open>A link that counts held buffers: the messages under way and the handles held.\<close>

definition held_ops :: "nat \<Rightarrow> (bytes list \<times> nat multiset) rpmsg" where
  "held_ops T = \<lparr>RPMSG_SUCCESS = 0, RPMSG_ERR_PARAM = - 2004, RPMSG_ERR_NO_BUFF = - 2006,
     RPMSG_ADDR_ANY = - 1, RPMSG_BUFFER_SIZE = T + 16,
     rpmsg_create_ept = (\<lambda>name src dst w. (0, w)), rpmsg_destroy_ept = (\<lambda>w. w),
     is_rpmsg_ept_ready = (\<lambda>w. True), rpmsg_get_tx_buffer_size = (\<lambda>w. int T),
     rpmsg_send = (\<lambda>m (q, h). (int (length m), (q @ replies echo_cb \<lparr>shutdown_req = 0\<rparr> m, h))),
     rpmsg_trysend = (\<lambda>m w. (- 1, w)),
     rpmsg_hold_rx_buffer = (\<lambda>b (q, h). (q, add_mset b h)), rpmsg_release_rx_buffer = (\<lambda>b (q, h). (q, h - {#b#})),
     rpmsg_get_tx_payload_buffer = (\<lambda>w. (Some (0, replicate T 0), w)),
     rpmsg_send_nocopy = (\<lambda>b m (q, h). (int (length m), (q @ replies echo_cb \<lparr>shutdown_req = 0\<rparr> m, h))),
     rpmsg_release_tx_buffer = (\<lambda>h w. (0, w)),
     metal_allocate_memory = (\<lambda>n w. (Some (replicate n 0), w)), metal_free_memory = (\<lambda>w. w),
     platform_poll = (\<lambda>(q, h). case q of [] \<Rightarrow> ([], ([], h)) | m # ms \<Rightarrow> ([Rx 5 m 0], (ms, h)))\<rparr>"

lemma held_link: "buffer_link (held_ops T) (replies echo_cb \<lparr>shutdown_req = 0\<rparr>) T 0 (\<lambda>w. True) fst (\<lambda>w. 0) snd"
  by (auto simp: buffer_link_def peer_link_def held_ops_def split: list.splits)

theorem nocopy_ping_ok_witness:
  "\<exists>g' w'. nocopy_ping_app 1 (held_ops 496) (\<lparr>err_cnt = 0, ept_deleted = 0, n_rnum = 0, rcv_msg = None\<rparr>, ([], {#7#}))
      = Done (0, (g', w')) \<and> err_cnt g' = 0 \<and> n_rnum g' = 480 \<and> snd w' = {#7#}"
  using nocopy_ping_ok [OF held_link, of 496 1 "\<lparr>err_cnt = 0, ept_deleted = 0, n_rnum = 0, rcv_msg = None\<rparr>" "([], {#7#})" "([], {#7#})"]
  by (simp add: held_ops_def)

end
