(* ===== verification/Board_Log.thy ===== *)
theory Board_Log
  imports Amp_Prelude
begin

text \<open>
  The log handlers that the boards register with libmetal (\<open>load_fw/platform_info.c\<close>,
  \<open>zynqmp_r5/platform_info.c\<close> and \<open>amd_rpu/platform_init.c\<close>), as the m they print for a formatted message, and the
  statistics of \<open>amd_linux_userspace/common.h\<close>.
\<close>

section \<open>Log handlers\<close>

text \<open>\<open>vsnprintf (msg, sizeof (msg), \<dots>)\<close> into an array of 1024 bytes.\<close>

definition log_msg :: "string \<Rightarrow> string" where
  "log_msg m = take 1023 m"

definition METAL_LOG_EMERGENCY :: nat where "METAL_LOG_EMERGENCY = 0"
definition METAL_LOG_DEBUG :: nat where "METAL_LOG_DEBUG = 7"

definition level_strs :: "string list" where
  "level_strs = [''metal: emergency: '', ''metal: alert:     '', ''metal: critical:  '', ''metal: error:     '',
     ''metal: warning:   '', ''metal: notice:    '', ''metal: info:      '', ''metal: debug:     '']"

definition app_log_handler :: "nat \<Rightarrow> string \<Rightarrow> string outcome" where
  "app_log_handler level m =
     (let lv = (if level \<le> METAL_LOG_EMERGENCY \<or> METAL_LOG_DEBUG < level then METAL_LOG_EMERGENCY else level) in
      if lv < length level_strs then Done (level_strs ! lv @ log_msg m) else Fault Out_of_bounds)"

text \<open>Both handlers of the RPU: nothing above the log level of libmetal.\<close>

definition xlnx_log_handler :: "nat \<Rightarrow> nat \<Rightarrow> nat \<Rightarrow> string \<Rightarrow> string option" where
  "xlnx_log_handler log_level cpu level m =
     (if log_level < level then None else Some (''RPU'' @ dec cpu @ '': '' @ log_msg m))"

definition rpu_log_handler :: "nat \<Rightarrow> nat \<Rightarrow> nat \<Rightarrow> string \<Rightarrow> string option" where
  "rpu_log_handler log_level cpu level m =
     (if log_level < level then None else Some (''RPU'' @ dec cpu @ '': '' @ log_msg m))"

text \<open>
  The table is never left, whatever the level; a level out of range prints as an emergency; every message is
  marked by its level, and at most 1023 characters of it are printed.
\<close>

lemma app_log_handler_prints:
  "\<exists>pre. app_log_handler level m = Done (pre @ take 1023 m) \<and>
     pre = level_strs ! (if level \<le> 7 then level else 0)"
  by (auto simp: app_log_handler_def METAL_LOG_EMERGENCY_def METAL_LOG_DEBUG_def log_msg_def level_strs_def Let_def)

lemma level_strs_distinct: "distinct level_strs" "\<forall>s \<in> set level_strs. length s = 18"
  by (simp_all add: level_strs_def)

lemma app_log_handler_level:
  assumes "level \<le> 7" and "level' \<le> 7" and "app_log_handler level m = app_log_handler level' m'"
  shows "level = level'"
proof -
  have l: "level < length level_strs" "level' < length level_strs" using assms(1,2) by (simp_all add: level_strs_def)
  then have "length (level_strs ! level) = length (level_strs ! level')" using level_strs_distinct(2) by (metis nth_mem)
  with assms l have "level_strs ! level = level_strs ! level'"
    using app_log_handler_prints [of level m] app_log_handler_prints [of level' m'] by auto
  with l level_strs_distinct(1) show ?thesis by (simp add: nth_eq_iff_index_eq)
qed

section \<open>Statistics\<close>

record metal_stat =
  st_cnt :: u64
  st_sum :: u64
  st_min :: u64
  st_max :: u64

definition STAT_INIT :: metal_stat where
  "STAT_INIT = \<lparr>st_cnt = 0, st_sum = 0, st_min = - 1, st_max = 0\<rparr>"

definition update_stat :: "metal_stat \<Rightarrow> u64 \<Rightarrow> metal_stat" where
  "update_stat pst val =
     (let pst = pst\<lparr>st_cnt := st_cnt pst + 1, st_sum := st_sum pst + val\<rparr>;
          pst = (if val < st_min pst then pst\<lparr>st_min := val\<rparr> else pst) in
      if st_max pst < val then pst\<lparr>st_max := val\<rparr> else pst)"

lemma update_stat_eq:
  "update_stat p v = \<lparr>st_cnt = st_cnt p + 1, st_sum = st_sum p + v, st_min = min v (st_min p), st_max = max v (st_max p)\<rparr>"
  by (cases p) (auto simp: update_stat_def Let_def min_def max_def)

text \<open>
  After any values the statistics are the number of values and their sum, both modulo \<open>2 ^ 64\<close>, and the least and the greatest
  of them.
\<close>

lemma update_stat_all:
  assumes "vs \<noteq> []"
  shows "foldl update_stat STAT_INIT vs =
    \<lparr>st_cnt = of_nat (length vs), st_sum = sum_list vs, st_min = Min (set vs), st_max = Max (set vs)\<rparr>"
  using assms
proof (induction vs rule: rev_nonempty_induct)
  case (single v)
  then show ?case by (simp add: STAT_INIT_def update_stat_eq min_def max_def word_n1_ge)
next
  case (snoc v vs)
  then show ?case by (simp add: update_stat_eq min.commute max.commute add.commute)
qed

end
