(* ===== verification/Demo_System.thy ===== *)
theory Demo_System
  imports Echo_Client Echo_Service Matrix_Demo Platform_R5 Platform_Linux Platform_Zynqmp
begin

text \<open>
  Whole programs on their platforms: the mains of an application with the \<open>platform_init\<close>, \<open>platform_create_rpmsg_vdev\<close>,
  \<open>platform_poll\<close> and \<open>platform_cleanup\<close> of the repository below them.  What is left open is OpenAMP between
  the processors.
\<close>

section \<open>RPMsg above a platform\<close>

text \<open>
  The state of a program is the static data of the platform and the outside world.  The calls of OpenAMP leave the
  static data alone; \<open>platform_poll\<close> is the function of the platform, which ends with the call of OpenAMP
  that runs the callbacks: the field \<open>platform_poll\<close> of \<open>rp\<close> stands for them.  A poll of the platform that does not return would
  deliver nothing here; every use is under the locale \<open>polling\<close>, where it returns.
\<close>

definition inner :: "('w \<Rightarrow> 'a \<times> 'w) \<Rightarrow> 'g \<times> 'w \<Rightarrow> 'a \<times> ('g \<times> 'w)" where
  "inner f s = (fst (f (snd s)), (fst s, snd (f (snd s))))"

definition on_platform :: "('g \<times> 'w, int) prog \<Rightarrow> 'w rpmsg \<Rightarrow> ('g \<times> 'w) rpmsg" where
  "on_platform pp rp =
     \<lparr>RPMSG_SUCCESS = RPMSG_SUCCESS rp, RPMSG_ERR_PARAM = RPMSG_ERR_PARAM rp, RPMSG_ERR_NO_BUFF = RPMSG_ERR_NO_BUFF rp,
      RPMSG_ADDR_ANY = RPMSG_ADDR_ANY rp, RPMSG_BUFFER_SIZE = RPMSG_BUFFER_SIZE rp,
      rpmsg_create_ept = (\<lambda>name src dst. inner (rpmsg_create_ept rp name src dst)),
      rpmsg_destroy_ept = (\<lambda>(g, w). (g, rpmsg_destroy_ept rp w)),
      is_rpmsg_ept_ready = (\<lambda>(g, w). is_rpmsg_ept_ready rp w),
      rpmsg_get_tx_buffer_size = (\<lambda>(g, w). rpmsg_get_tx_buffer_size rp w),
      rpmsg_send = (\<lambda>m. inner (rpmsg_send rp m)), rpmsg_trysend = (\<lambda>m. inner (rpmsg_trysend rp m)),
      rpmsg_hold_rx_buffer = (\<lambda>h (g, w). (g, rpmsg_hold_rx_buffer rp h w)),
      rpmsg_release_rx_buffer = (\<lambda>h (g, w). (g, rpmsg_release_rx_buffer rp h w)),
      rpmsg_get_tx_payload_buffer = inner (rpmsg_get_tx_payload_buffer rp),
      rpmsg_send_nocopy = (\<lambda>h m. inner (rpmsg_send_nocopy rp h m)),
      rpmsg_release_tx_buffer = (\<lambda>h. inner (rpmsg_release_tx_buffer rp h)),
      metal_allocate_memory = (\<lambda>n. inner (rpmsg.metal_allocate_memory rp n)),
      metal_free_memory = (\<lambda>(g, w). (g, rpmsg.metal_free_memory rp w)),
      platform_poll = (\<lambda>s. case pp s of Done (r, s') \<Rightarrow> inner (platform_poll rp) s' | _ \<Rightarrow> ([], s))\<rparr>"

text \<open>
  The contract of a \<open>platform_poll\<close>: on a live platform, in a world where the other side will give notice (\<open>up\<close>), it returns,
  the platform is still live, and the world is the \<open>same\<close> for the application.
\<close>

locale polling =
  fixes pp :: "('g \<times> 'w, int) prog" and live :: "'g \<Rightarrow> bool" and up :: "'w \<Rightarrow> bool" and same :: "'w \<Rightarrow> 'w \<Rightarrow> bool"
  assumes poll_live: "live g \<Longrightarrow> up w \<Longrightarrow> \<exists>r g' w'. pp (g, w) = Done (r, (g', w')) \<and> live g' \<and> same w w'"
begin

lemma poll_done:
  assumes "live g" and "up w" and "platform_poll (on_platform pp rp) (g, w) = (es, t)"
  obtains g' w1 w' where "t = (g', w')" and "live g'" and "same w w1" and "platform_poll rp w1 = (es, w')"
  using poll_live [OF assms(1,2)] assms(3) that by (force simp: on_platform_def inner_def)

text \<open>A link between the processors is a link for a program that waits through the platform.\<close>

lemma peer_link_on:
  assumes link: "peer_link rp reply T D conn pend lag" and up: "\<And>w. conn w \<Longrightarrow> up w"
    and same: "\<And>w w'. same w w' \<Longrightarrow> conn w \<Longrightarrow> conn w' \<and> pend w' = pend w \<and> lag w' \<le> lag w"
  shows "peer_link (on_platform pp rp) reply T D (\<lambda>(g, w). live g \<and> conn w) (pend \<circ> snd) (lag \<circ> snd)"
proof -
  have send: "0 \<le> r \<and> (case s' of (g, w) \<Rightarrow> live g \<and> conn w) \<and> (pend \<circ> snd) s' = (pend \<circ> snd) s @ reply m"
    if c: "case s of (g, w) \<Rightarrow> live g \<and> conn w" and m: "length m \<le> T" and sd: "rpmsg_send (on_platform pp rp) m s = (r, s')" for s m r s'
  proof -
    obtain g w where s: "s = (g, w)" "live g" "conn w" using c by (cases s) auto
    from sd s(1) have "r = fst (rpmsg_send rp m w)" "s' = (g, snd (rpmsg_send rp m w))" by (simp_all add: on_platform_def inner_def)
    with peer_link_send [OF link s(3) m prod.collapse [symmetric]] s show ?thesis by simp
  qed
  have poll: "(case s' of (g, w) \<Rightarrow> live g \<and> conn w) \<and> list_all is_Rx es \<and> (pend \<circ> snd) s = map rx_data es @ (pend \<circ> snd) s' \<and>
      ((pend \<circ> snd) s \<noteq> [] \<and> es = [] \<longrightarrow> (lag \<circ> snd) s' < (lag \<circ> snd) s)"
    if c: "case s of (g, w) \<Rightarrow> live g \<and> conn w" and p: "platform_poll (on_platform pp rp) s = (es, s')" for s es s'
  proof -
    obtain g w where s: "s = (g, w)" "live g" "conn w" using c by (cases s) auto
    from poll_done [OF s(2) up [OF s(3)]] p s(1) obtain g' w1 w' where
      1: "s' = (g', w')" "live g'" "same w w1" "platform_poll rp w1 = (es, w')" by metis
    from same [OF 1(3) s(3)] have w1: "conn w1" "pend w1 = pend w" "lag w1 \<le> lag w" by auto
    from peer_link_poll [OF link w1(1) 1(4)] show ?thesis using 1 w1 s by auto
  qed
  have "is_rpmsg_ept_ready (on_platform pp rp) s \<and> rpmsg_get_tx_buffer_size (on_platform pp rp) s = int T \<and> (lag \<circ> snd) s \<le> D"
    if "case s of (g, w) \<Rightarrow> live g \<and> conn w" for s
    using that peer_link_ready [OF link] peer_link_size [OF link] peer_link_lag [OF link] by (cases s) (simp add: on_platform_def)
  then show ?thesis unfolding peer_link_def using send poll by blast
qed

text \<open>
  A scripted peer likewise; \<open>mark\<close> is put in front of what has been sent once the platform is no longer live, so
  that the end of a run says that it still is.
\<close>

lemma scripted_on:
  assumes sc: "scripted rp script sent" and up: "\<And>w. script w \<noteq> [] \<Longrightarrow> up w"
    and same: "\<And>w w'. same w w' \<Longrightarrow> script w' = script w \<and> sent w' = sent w"
  shows "scripted (on_platform pp rp) (\<lambda>(g, w). if live g then script w else [])
    (\<lambda>(g, w). (if live g then [] else [mark]) @ sent w)"
proof -
  have "\<exists>s'. platform_poll (on_platform pp rp) (g, w) = (e, s') \<and> (case s' of (g, w) \<Rightarrow> if live g then script w else []) = es \<and>
      (case s' of (g, w) \<Rightarrow> (if live g then [] else [mark]) @ sent w) = sent w"
    if l: "live g" and w: "script w = e # es" for g w e es
  proof -
    obtain fs s' where p: "platform_poll (on_platform pp rp) (g, w) = (fs, s')" by (rule prod.exhaust)
    have "up w" using up w by simp
    from poll_done [OF l this p] obtain g' w1 w' where
      1: "s' = (g', w')" "live g'" "same w w1" "platform_poll rp w1 = (fs, w')" by metis
    from scripted_poll [OF sc, of w1 e es] same [OF 1(3)] w 1 p show ?thesis by auto
  qed
  then show ?thesis
    using scripted_sent [OF sc] unfolding scripted_def by (auto simp: on_platform_def inner_def split: if_splits)
qed

end

section \<open>Waiting on Linux\<close>

text \<open>
  What the calls inside \<open>linux_platform_poll\<close> promise: they change nothing that the application sees, and while
  the other side is \<open>up\<close> a notification comes in before the fuel \<open>m\<close> of the poll is used up.
\<close>

definition linux_waits :: "nat \<Rightarrow> 'w linux_lib \<Rightarrow> ('w \<Rightarrow> bool) \<Rightarrow> ('w \<Rightarrow> 'w \<Rightarrow> bool) \<Rightarrow> bool" where
  "linux_waits m lib up same \<longleftrightarrow> reflp same \<and> transp same \<and>
     (\<forall>w. same w (snd (metal_irq_save_disable lib w)) \<and> same w (metal_cpu_yield lib w) \<and> same w (remoteproc_get_notification lib w)) \<and>
     (\<forall>f w. same w (metal_irq_restore_enable lib f w)) \<and>
     (\<forall>s w. same w (snd (irq_arrives lib s w)) \<and> same w (sk_read lib s w)) \<and>
     (\<forall>s w. up w \<longrightarrow> (\<exists>k. kick_after (wait_step lib s) k w \<and> k + 2 \<le> m))"

lemma poll_pass_same:
  assumes law: "linux_waits m lib up same" and s: "same w0 w" and p: "poll_pass lib i (g, w) = Done (x, (g', w'))"
  shows "same w0 w'"
proof -
  have trans: "same a b \<Longrightarrow> same b c \<Longrightarrow> same a c" for a b c using law by (auto simp: linux_waits_def dest: transpD)
  have calls: "same v (snd (metal_irq_save_disable lib v))" "same v (metal_cpu_yield lib v)" "same v (remoteproc_get_notification lib v)"
    "same v (metal_irq_restore_enable lib f v)" "same v (snd (irq_arrives lib d v))" "same v (sk_read lib d v)" for f d v
    using law by (simp_all add: linux_waits_def)
  show ?thesis
    using p by (auto simp: poll_pass_def linux_proc_irq_handler_def split_beta split: if_splits
        intro!: s calls trans [OF _ calls(1)] trans [OF _ calls(2)] trans [OF _ calls(3)] trans [OF _ calls(4)]
          trans [OF _ calls(5)] trans [OF _ calls(6)])
qed

lemma linux_poll_live:
  assumes live: "linux_live g" and law: "linux_waits m lib up same" and up: "up w"
  shows "\<exists>r g' w'. linux_platform_poll m lib (g, w) = Done (r, (g', w')) \<and> linux_live g' \<and> same w w'"
proof -
  from live obtain i where i: "i < length (priv_table g)" "rproc_priv g = Some i"
    by (auto simp: linux_live_def)
  let ?s = "fd (ipi (priv_table g ! i))"
  from law up obtain k where k: "kick_after (wait_step lib ?s) k w" "k + 2 \<le> m" unfolding linux_waits_def by blast
  have "\<exists>r w'. iter m (\<lambda>_. poll_pass lib i) () (g, w) = Done (r, (set_nokick i True g, w'))"
  proof (cases "sync (ipi (priv_table g ! i))")
    case True
    from lk.poll_returns [of i g ?s lib k w m] i(1) True k show ?thesis by (auto simp: set_sync_again)
  next
    case False
    from lk.poll_pending [of i g ?s m lib w] i(1) False k show ?thesis by auto
  qed
  then obtain r w' where r: "iter m (\<lambda>_. poll_pass lib i) () (g, w) = Done (r, (set_nokick i True g, w'))" by blast
  have "same w w" using law by (auto simp: linux_waits_def dest: reflpD)
  have "(\<lambda>r (g, v). same w v) r (set_nokick i True g, w')"
    by (rule iter_inv [OF r, where I = "\<lambda>_ (g, v). same w v"])
      (use \<open>same w w\<close> poll_pass_same [OF law] in \<open>auto split: prod.splits\<close>)
  moreover have "linux_live (set_nokick i True g)" using live i by (auto simp: linux_live_def nth_list_update)
  ultimately show ?thesis using r i by (auto simp: linux_platform_poll_def)
qed

interpretation lpo: polling "linux_platform_poll m lib" "\<lambda>g. linux_live g \<and> linux_waits m lib up same" up same
  for m lib up same
  by unfold_locales (elim conjE, drule (2) linux_poll_live, auto)

section \<open>Waiting on the R5\<close>

text \<open>The same for the two platforms with inter-processor interrupts, whose suspensions are \<open>wait\<close>.\<close>

definition x_waits :: "('w \<Rightarrow> bool \<times> 'w) \<Rightarrow> nat \<Rightarrow> 'w xlib \<Rightarrow> ('w \<Rightarrow> bool) \<Rightarrow> ('w \<Rightarrow> 'w \<Rightarrow> bool) \<Rightarrow> bool" where
  "x_waits wait m lib up same \<longleftrightarrow> reflp same \<and> transp same \<and>
     (\<forall>w. same w (snd (x_irq_save_disable lib w)) \<and> same w (x_suspend lib w) \<and> same w (x_resume lib w) \<and>
        same w (snd (x_irq_arrives lib w)) \<and> same w (snd (rp_get_notification lib w))) \<and>
     (\<forall>f w. same w (x_irq_restore_enable lib f w)) \<and> (\<forall>d r v w. same w (x_write32 lib d r v w)) \<and>
     (\<forall>w. up w \<longrightarrow> (\<exists>k. kick_after wait k w \<and> k + 2 \<le> m))"

lemma r5_poll_pass_same:
  assumes law: "x_waits wait m lib up same" and s: "same w0 w" and p: "r5_poll_pass False lib (g, w) = Done (x, (g', w'))"
  shows "same w0 w'"
proof -
  have trans: "same a b \<Longrightarrow> same b c \<Longrightarrow> same a c" for a b c using law by (auto simp: x_waits_def dest: transpD)
  have calls: "same v (snd (x_irq_save_disable lib v))" "same v (x_suspend lib v)" "same v (x_resume lib v)"
    "same v (x_irq_restore_enable lib f v)" "same v (snd (x_irq_arrives lib v))" "same v (x_write32 lib d r u v)"
    "same v (snd (rp_get_notification lib v))" for f d r u v
    using law by (simp_all add: x_waits_def)
  show ?thesis
    using p by (auto simp: r5_poll_pass_def r5_proc_irq_handler_def Let_def split_beta split: if_splits
        intro!: s calls trans [OF _ calls(1)] trans [OF _ calls(2)] trans [OF _ calls(3)] trans [OF _ calls(4)]
          trans [OF _ calls(5)] trans [OF _ calls(6)] trans [OF _ calls(7)])
qed

lemma r5_poll_live:
  assumes live: "r5_live g" and law: "x_waits (r5_wait lib) m lib up same" and up: "up w"
  shows "\<exists>r g' w'. r5_platform_poll m False lib (g, w) = Done (r, (g', w')) \<and> r5_live g' \<and> same w w'"
proof -
  from law up obtain k where k: "kick_after (r5_wait lib) k w" "k + 2 \<le> m" by (auto simp: x_waits_def)
  have "\<exists>r w'. iter m (\<lambda>_. r5_poll_pass False lib) () (g, w) = Done (r, (g\<lparr>ipi_nokick := True\<rparr>, w'))"
  proof (cases "ipi_nokick g")
    case True
    then have "g = g\<lparr>ipi_nokick := True\<rparr>" by simp
    with True rk.poll_returns [of g lib k w m] k show ?thesis by auto
  next
    case False
    with rk.poll_pending [of g m lib w] k show ?thesis by simp
  qed
  then obtain r w' where r: "iter m (\<lambda>_. r5_poll_pass False lib) () (g, w) = Done (r, (g\<lparr>ipi_nokick := True\<rparr>, w'))" by blast
  have "same w w" using law by (auto simp: x_waits_def dest: reflpD)
  have "(\<lambda>r (g, v). same w v) r (g\<lparr>ipi_nokick := True\<rparr>, w')"
    by (rule iter_inv [OF r, where I = "\<lambda>_ (g, v). same w v"])
      (use \<open>same w w\<close> r5_poll_pass_same [OF law] in \<open>auto split: prod.splits\<close>)
  then show ?thesis using r live by (auto simp: r5_platform_poll_def r5_live_def)
qed

interpretation rpo: polling "r5_platform_poll m False lib" "\<lambda>g. r5_live g \<and> x_waits (r5_wait lib) m lib up same" up same
  for m lib up same
  by unfold_locales (elim conjE, drule (2) r5_poll_live, auto)

section \<open>Ping on Linux\<close>

definition linux_rpmsg :: "nat \<Rightarrow> 'w linux_lib \<Rightarrow> 'w rpmsg \<Rightarrow> (linux_state \<times> 'w) rpmsg" where
  "linux_rpmsg m lib rp = on_platform (linux_platform_poll m lib) rp"

definition r5_rpmsg :: "nat \<Rightarrow> 'w xlib \<Rightarrow> 'w rpmsg \<Rightarrow> (r5_state \<times> 'w) rpmsg" where
  "r5_rpmsg m lib rp = on_platform (r5_platform_poll m False lib) rp"

lemma linux_rpmsg_sel:
  "RPMSG_ADDR_ANY (linux_rpmsg m lib rp) = RPMSG_ADDR_ANY rp"
  "rpmsg_create_ept (linux_rpmsg m lib rp) name a b (g, w) = (fst (rpmsg_create_ept rp name a b w), (g, snd (rpmsg_create_ept rp name a b w)))"
  "rpmsg_destroy_ept (linux_rpmsg m lib rp) (g, w) = (g, rpmsg_destroy_ept rp w)"
  "rpmsg.metal_allocate_memory (linux_rpmsg m lib rp) k (g, w)
     = (fst (rpmsg.metal_allocate_memory rp k w), (g, snd (rpmsg.metal_allocate_memory rp k w)))"
  "rpmsg.metal_free_memory (linux_rpmsg m lib rp) (g, w) = (g, rpmsg.metal_free_memory rp w)"
  by (simp_all add: linux_rpmsg_def on_platform_def inner_def)

text \<open>What a poll of the platform may not touch: the link and the answers under way.\<close>

abbreviation unseen :: "('w \<Rightarrow> bool) \<Rightarrow> ('w \<Rightarrow> bytes list) \<Rightarrow> ('w \<Rightarrow> nat) \<Rightarrow> 'w \<Rightarrow> 'w \<Rightarrow> bool" where
  "unseen conn pend lag w w' \<equiv> conn w' = conn w \<and> pend w' = pend w \<and> lag w' \<le> lag w"

text \<open>
  C6. The whole ping program on the Linux platform, from \<open>platform_init\<close> to \<open>platform_cleanup\<close> and waiting in
  \<open>platform_poll\<close> of that platform: when the platform, the device and the endpoint come up and the echo service is on
  the other side, it ends with 0, the last of the payloads has come back, the checks of the
  payloads have counted no error, and the platform is taken down.
\<close>

theorem ping_main_on_linux:
  assumes link: "peer_link rp (replies echo_cb sg) T D conn pend lag" and waits: "linux_waits m lib conn (unseen conn pend lag)"
    and T: "16 \<le> T" "T < 2 ^ 31" and n: "D < n" and g: "err_cnt g = 0" "ept_deleted g = 0" "rnum g = 0"
    and init: "linux_platform_init lib argv (g0, v0) = Done ((0, Some ()), (g1, v1))"
    and vdev: "linux_create_rpmsg_vdev lib 0 VIRTIO_DEV_DRIVER True v1 = (Some d, v2)"
    and create: "rpmsg_create_ept rp RPMSG_SERVICE_NAME (RPMSG_ADDR_ANY rp) (RPMSG_ADDR_ANY rp) v2 = (0, v3)" "conn v3"
    and alloc: "rpmsg.metal_allocate_memory rp T v3 = (Some obj, v4)" "length obj = T" "conn v4" "pend v4 = []"
  shows "\<exists>g' h v. ping_main n (linux_plat lib argv) (linux_rpmsg m lib rp) (g, (g0, v0)) = Done (0, (g', (h, v))) \<and>
    err_cnt g' = 0 \<and> rnum g' = int (T - 16) \<and> \<not> linux_live h"
proof -
  have i: "platform_init (linux_plat lib argv) (g0, v0) = Done ((0, Some ()), (g1, v1))" using init by (simp add: linux_plat_def)
  from lp.init_stores [OF TrueI i] have live: "linux_live g1" by simp
  have v: "platform_create_rpmsg_vdev (linux_plat lib argv) () 0 VIRTIO_DEV_DRIVER True (g1, v1) = Done (Some d, (g1, v2))"
    using vdev by (simp add: linux_plat_def)
  have plink: "peer_link (linux_rpmsg m lib rp) (replies echo_cb sg) T D
      (\<lambda>(g, w). (linux_live g \<and> linux_waits m lib conn (unseen conn pend lag)) \<and> conn w) (pend \<circ> snd) (lag \<circ> snd)"
    unfolding linux_rpmsg_def by (rule lpo.peer_link_on [OF link]) auto
  from ping_app_run [OF plink T n g, of "(g1, v2)" "(g1, v3)" obj "(g1, v4)"] obtain g' w' where
    p: "ping_app n (linux_rpmsg m lib rp) (g, (g1, v2)) = Done (0, (g', rpmsg.metal_free_memory (linux_rpmsg m lib rp)
        (rpmsg_destroy_ept (linux_rpmsg m lib rp) w')))" "err_cnt g' = 0" "rnum g' = int (T - 16)" "linux_live (fst w')"
    using live waits create alloc by (auto simp: linux_rpmsg_sel split: prod.splits)
  then show ?thesis
    using lp.app_main_run [where app = "ping_app n (linux_rpmsg m lib rp)" and g = g, OF i v p(1)] by (cases w') (auto simp: linux_rpmsg_sel ping_main_def)
qed

lemma demo_waits: "linux_waits 2 (demo_lib a b) (\<lambda>_. True) (unseen (\<lambda>_. True) (\<lambda>w. w) (\<lambda>_. 0))"
  by (auto simp: linux_waits_def demo_lib_def wait_step_def reflp_def transp_def intro!: exI [of _ 0])

theorem ping_main_on_linux_witness:
  "\<exists>g' h v. ping_main 1 (linux_plat (demo_lib 0 0) [1]) (linux_rpmsg 2 (demo_lib 0 0) (loop_ops (replies echo_cb \<lparr>shutdown_req = 0\<rparr>) 496))
      (\<lparr>err_cnt = 0, ept_deleted = 0, i_payload = None, rnum = 0\<rparr>, (linux_boot, [])) = Done (0, (g', (h, v))) \<and>
    err_cnt g' = 0 \<and> rnum g' = 480 \<and> \<not> linux_live h"
proof -
  from demo_init [of "[] :: bytes list"] obtain g1 where i: "linux_platform_init (demo_lib 0 0) [1] (linux_boot, []) = Done ((0, Some ()), (g1, [] :: bytes list))" by blast
  show ?thesis
    using ping_main_on_linux [where conn = "\<lambda>_. True" and pend = "\<lambda>w. w" and lag = "\<lambda>_. 0" and T = 496 and n = 1
        and g = "\<lparr>err_cnt = 0, ept_deleted = 0, i_payload = None, rnum = 0\<rparr>" and d = "\<lparr>rpvdev = 0, vdev = 7\<rparr>"
        and ?v2.0 = "[]" and ?v3.0 = "[]" and ?v4.0 = "[]" and obj = "replicate 496 0" and sg = "\<lparr>shutdown_req = 0\<rparr>",
        OF loop_link demo_waits _ _ _ _ _ _ i]
    by (simp add: linux_create_rpmsg_vdev_def demo_lib_def)
qed

section \<open>The echo service on the R5\<close>

lemma r5_rpmsg_sel:
  "RPMSG_ADDR_ANY (r5_rpmsg m lib rp) = RPMSG_ADDR_ANY rp"
  "rpmsg_create_ept (r5_rpmsg m lib rp) name a b (g, w) = (fst (rpmsg_create_ept rp name a b w), (g, snd (rpmsg_create_ept rp name a b w)))"
  "rpmsg_destroy_ept (r5_rpmsg m lib rp) (g, w) = (g, rpmsg_destroy_ept rp w)"
  by (simp_all add: r5_rpmsg_def on_platform_def inner_def)

text \<open>
  The application on a live R5: the platform is live at its end.  Both marks of \<open>scripted_on\<close> describe the same run.
\<close>

lemma echo_app_on_r5:
  assumes sc: "scripted rp script sent"
    and waits: "x_waits (r5_wait lib) m lib (\<lambda>w. script w \<noteq> []) (\<lambda>w w'. script w' = script w \<and> sent w' = sent w)" and live: "r5_live g1"
    and create: "rpmsg_create_ept rp RPMSG_SERVICE_NAME (RPMSG_ADDR_ANY rp) (RPMSG_ADDR_ANY rp) v2 = (0, v3)"
    and events: "script v3 = bs @ b # rest" "length bs < n" "list_all readable (concat bs @ b)" "list_ex stops b \<or> shutdown_req g = 1"
      "bs \<noteq> [] \<Longrightarrow> shutdown_req g = 0 \<and> \<not> list_ex stops (concat bs)"
  shows "\<exists>h w. rpmsg_echo_app n (r5_rpmsg m lib rp) (g, (g1, v2)) = Done (0, (g\<lparr>shutdown_req := 1\<rparr>, (h, rpmsg_destroy_ept rp w))) \<and>
    r5_live h \<and> sent w = sent v3 @ map rx_data (filter echoed (concat bs @ b))"
proof -
  let ?l = "\<lambda>g. r5_live g \<and> x_waits (r5_wait lib) m lib (\<lambda>w. script w \<noteq> []) (\<lambda>w w'. script w' = script w \<and> sent w' = sent w)"
  let ?S = "sent v3 @ map rx_data (filter echoed (concat bs @ b))"
  have "\<exists>h w. rpmsg_echo_app n (r5_rpmsg m lib rp) (g, (g1, v2)) = Done (0, (g\<lparr>shutdown_req := 1\<rparr>, (h, rpmsg_destroy_ept rp w))) \<and>
      (if ?l h then [] else [mark]) @ sent w = ?S" for mark
  proof -
    have sc': "scripted (r5_rpmsg m lib rp) (\<lambda>(g, w). if ?l g then script w else []) (\<lambda>(g, w). (if ?l g then [] else [mark]) @ sent w)"
      unfolding r5_rpmsg_def by (rule rpo.scripted_on [OF sc]) auto
    have ok: "readable e" if "e \<in> set (concat bs) \<union> set b" for e using events(3) that by (auto simp: list_all_iff)
    have up: "\<not> shutdown_req (run_all echo_step g (concat bs)) \<noteq> 0" if "bs \<noteq> []" using events(5) that by (simp add: shutdown_run_all)
    have dn: "shutdown_req (run_all echo_step g (concat bs @ b)) \<noteq> 0" using events(4) by (auto simp: shutdown_run_all)
    have g: "run_all echo_step g (concat bs @ b) = g\<lparr>shutdown_req := 1\<rparr>" using events(4) by (cases g) (auto simp: run_all_echo)
    from echo.app_run [OF sc' _ _ events(2) ok up dn, of RPMSG_SERVICE_NAME "(g1, v2)" "(g1, v3)" rest] create events(1) live waits
    obtain w' where "rpmsg_echo_app n (r5_rpmsg m lib rp) (g, (g1, v2)) = Done (0, (g\<lparr>shutdown_req := 1\<rparr>, rpmsg_destroy_ept (r5_rpmsg m lib rp) w'))"
      "(case w' of (g, w) \<Rightarrow> (if ?l g then [] else [mark]) @ sent w) = ?S"
      unfolding g by (auto simp: r5_rpmsg_sel rpmsg_echo_app_def out_all_echo)
    then show ?thesis by (cases w') (auto simp: r5_rpmsg_sel)
  qed
  from this [of "[0]"] this [of "[1]"] obtain h w w2 where
    1: "rpmsg_echo_app n (r5_rpmsg m lib rp) (g, (g1, v2)) = Done (0, (g\<lparr>shutdown_req := 1\<rparr>, (h, rpmsg_destroy_ept rp w)))"
    and 2: "(if ?l h then [] else [[0]]) @ sent w = ?S" "(if ?l h then [] else [[1]]) @ sent w2 = ?S" by auto
  have "?l h"
  proof (rule ccontr)
    assume "\<not> ?l h"
    with 2 have "[0] # sent w = ?S" "[1] # sent w2 = ?S" by auto
    then have "[0] # sent w = [1] # sent w2" by (rule trans [OF _ sym])
    then show False by simp
  qed
  with 1 2 show ?thesis by auto
qed

text \<open>
  C27. The whole echo service on the R5, from \<open>platform_init\<close> to \<open>platform_cleanup\<close>, waiting for the interrupt of
  the host in \<open>platform_poll\<close>: it answers every message up to the poll that takes it down, in order, ends with 0,
  and has taken the platform down, so that the copy of the resource table is given back.
\<close>

theorem echo_main_on_r5:
  assumes sc: "scripted rp script sent"
    and waits: "x_waits (r5_wait lib) m lib (\<lambda>w. script w \<noteq> []) (\<lambda>w w'. script w' = script w \<and> sent w' = sent w)"
    and fresh: "r5_fresh g0" and init: "r5_platform_init sy gic False lib pa (g0, v0) = Done ((0, x), (g1, v1))"
    and vdev: "r5_create_rpmsg_vdev lib 0 VIRTIO_DEV_DEVICE False (g1, v1) = Done (Some d, (g2, v2))"
    and create: "rpmsg_create_ept rp RPMSG_SERVICE_NAME (RPMSG_ADDR_ANY rp) (RPMSG_ADDR_ANY rp) v2 = (0, v3)"
    and events: "script v3 = bs @ b # rest" "length bs < n" "shutdown_req g = 0" "list_all readable (concat bs @ b)"
      "\<not> list_ex stops (concat bs)" "list_ex stops b"
    and keeps: "\<And>w. sent (rpmsg_destroy_ept rp w) = sent w" "\<And>w. sent (xlnx_release_vdev lib d w) = sent w"
      "\<And>h w h' w'. r5_platform_cleanup False lib (h, w) = Done ((), (h', w')) \<Longrightarrow> sent w' = sent w"
  shows "\<exists>h v. echo_main n (r5_plat sy gic False lib pa) (r5_rpmsg m lib rp) (g, (g0, v0)) = Done (0, (g\<lparr>shutdown_req := 1\<rparr>, (h, v))) \<and>
    \<not> r5_live h \<and> sent v = sent v3 @ map rx_data (filter echoed (concat bs @ b))"
proof -
  let ?pl = "r5_plat sy gic False lib pa"
  from r5_platform_init_stores [OF fresh init] have x: "x = Some ()" and l1: "r5_live g1" by auto
  then have i: "platform_init ?pl (g0, v0) = Done ((0, Some ()), (g1, v1))" using init by (simp add: r5_plat_def)
  have v: "platform_create_rpmsg_vdev ?pl () 0 VIRTIO_DEV_DEVICE False (g1, v1) = Done (Some d, (g2, v2))"
    using vdev by (simp add: r5_plat_def)
  from l1 obtain t where "initial_resources g1 = Live t" by (auto simp: r5_live_def)
  from r5_create_vdev_run [OF this, of lib 0 VIRTIO_DEV_DEVICE False v1] vdev l1 have "r5_live g2" by (auto simp: r5_live_def)
  from echo_app_on_r5 [OF sc waits this create events(1,2,4)] events(3,5,6) obtain h w where
    a: "rpmsg_echo_app n (r5_rpmsg m lib rp) (g, (g2, v2)) = Done (0, (g\<lparr>shutdown_req := 1\<rparr>, (h, rpmsg_destroy_ept rp w)))"
    "r5_live h" "sent w = sent v3 @ map rx_data (filter echoed (concat bs @ b))" by blast
  from rp.generic_main_run [where app = "rpmsg_echo_app n (r5_rpmsg m lib rp)" and g = g, OF i v a(1)] a(2) obtain h' v' where
    m: "generic_main ?pl (rpmsg_echo_app n (r5_rpmsg m lib rp)) (g, (g0, v0)) = Done (0, (g\<lparr>shutdown_req := 1\<rparr>, (h', v')))" "\<not> r5_live h'"
    "r5_platform_cleanup False lib (h, xlnx_release_vdev lib d (rpmsg_destroy_ept rp w)) = Done ((), (h', v'))"
    by (auto simp: r5_plat_def r5_release_rpmsg_vdev_def)
  with keeps(3) [OF m(3)] a(3) show ?thesis by (simp add: echo_main_def keeps(1,2))
qed

lemma demo_r5_waits: "x_waits (r5_wait (demo_x IPI_CHN_BITMASK)) 2 (demo_x IPI_CHN_BITMASK) up (\<lambda>w w'. script w' = script w \<and> sent w' = sent w)"
  by (auto simp: x_waits_def demo_x_def r5_wait_def reflp_def transp_def IPI_CHN_BITMASK_def intro!: exI [of _ 0])

lemma demo_untarget: "gic = demo_gic \<Longrightarrow> untarget_cpu gic mk i w = w"
  by (induction gic mk i w rule: untarget_cpu.induct) (subst untarget_cpu.simps, simp add: demo_gic_def)

lemma demo_r5_init_with:
  fixes cv and v :: 'v
  defines "x \<equiv> (demo_x IPI_CHN_BITMASK)\<lparr>rp_create_virtio := cv\<rparr>"
  shows "\<exists>g1. r5_platform_init Generic demo_gic False x 0x3ED20000 (r5_boot False, v) = Done ((0, Some ()), (g1, v))"
proof -
  let ?up = "\<lambda>g t. g\<lparr>initial_resources := Live t\<rparr>"
  have m: "xlnx_machine_init Generic demo_gic x (?up (r5_boot False) t, v) = Done (0, (?up (r5_boot False) t, v))" for t
    by (simp add: xlnx_machine_init_def system_interrupt_register_generic_def hw_to_bsp_irq_generic_def r5_boot_def
        IPI_IRQ_VECT_ID_def demo_untarget) (simp add: demo_gic_def demo_x_def x_def)
  have "\<exists>g. r5_create_proc False x 0x3ED20000 (?up (r5_boot False) t, v) = Done (True, (g, v))" for t
    by (simp add: r5_create_proc_def r5_get_resource_table_def r5_proc_init_def r5_remoteproc_mmap_def r5_proc_mmap_def BAD_PHYS_def
        SHARED_MEM_PA_def demo_x_def x_def)
  then obtain g where "r5_create_proc False x 0x3ED20000 (?up (r5_boot False) r5_resources_init, v) = Done (True, (g, v))" by blast
  moreover have "r5_get_resource_table x (r5_boot False, v) = Done (length r5_resources_init, (?up (r5_boot False) r5_resources_init, v))"
    by (simp add: r5_get_resource_table_def r5_boot_def demo_x_def x_def)
  ultimately show ?thesis using m by (simp add: r5_platform_init_def)
qed

lemma demo_r5_init:
  "\<exists>g1. r5_platform_init Generic demo_gic False (demo_x IPI_CHN_BITMASK) 0x3ED20000 (r5_boot False, w) = Done ((0, Some ()), (g1, w))"
  using demo_r5_init_with [of "rp_create_virtio (demo_x IPI_CHN_BITMASK)" w] by simp

theorem echo_main_on_r5_witness:
  "\<exists>h v. echo_main 2 (r5_plat Generic demo_gic False (demo_x IPI_CHN_BITMASK) 0x3ED20000) (r5_rpmsg 2 (demo_x IPI_CHN_BITMASK) script_ops)
      (\<lparr>shutdown_req = 0\<rparr>, (r5_boot False, ([[Rx 0 (le32 7) 3], [Rx 1 (le32 SHUTDOWN_MSG) 3]], [])))
    = Done (0, (\<lparr>shutdown_req = 1\<rparr>, (h, v))) \<and> \<not> r5_live h \<and> snd v = [le32 7]"
proof -
  let ?v = "([[Rx 0 (le32 7) 3], [Rx 1 (le32 SHUTDOWN_MSG) 3]], []) :: event list list \<times> bytes list"
  let ?x = "demo_x IPI_CHN_BITMASK :: (event list list \<times> bytes list) xlib"
  have f: "r5_fresh (r5_boot False)" by (simp add: r5_fresh_def r5_boot_def)
  from demo_r5_init [of ?v] obtain g1 where
    i: "r5_platform_init Generic demo_gic False ?x 0x3ED20000 (r5_boot False, ?v) = Done ((0, Some ()), (g1, ?v))" by blast
  from r5_platform_init_stores [OF f i] obtain t where "initial_resources g1 = Live t" by (auto simp: r5_live_def)
  from r5_create_vdev_run [OF this, of ?x 0 VIRTIO_DEV_DEVICE False ?v] obtain g2 where
    d: "r5_create_rpmsg_vdev ?x 0 VIRTIO_DEV_DEVICE False (g1, ?v) = Done (Some \<lparr>x_rpvdev = 1, x_vdev = 2\<rparr>, (g2, ?v))"
    by (auto simp: xlnx_create_vdev_def demo_x_def)
  have k: "snd (xlnx_release_vdev ?x e w) = snd w" and c: "r5_platform_cleanup False ?x (h, w) = Done ((), (h', w')) \<Longrightarrow> snd w' = snd w" for e h w h' w'
    by (auto simp: xlnx_release_vdev_def r5_platform_cleanup_def r5_remoteproc_remove_def r5_proc_remove_def xlnx_machine_cleanup_def
        r5_free_resource_table_def demo_x_def obind_eq_Done_iff split: if_splits heap_ptr.splits)
  show ?thesis
    using echo_main_on_r5 [where script = fst and sent = snd and bs = "[[Rx 0 (le32 7) 3]]" and b = "[Rx 1 (le32 SHUTDOWN_MSG) 3]" and rest = "[]"
        and n = 2 and g = "\<lparr>shutdown_req = 0\<rparr>" and ?v3.0 = ?v, OF script_ops_scripted demo_r5_waits f i d _ _ _ _ _ _ _ _ k c]
    by (simp add: get32_hd [of _ "[]", simplified] SHUTDOWN_MSG_def)
qed

section \<open>Waiting on the A53\<close>

lemma zq_poll_pass_same:
  assumes law: "x_waits wait m lib up same" and s: "same w0 w" and p: "zq_poll_pass False lib (g, w) = Done (x, (g', w'))"
  shows "same w0 w'"
proof -
  have trans: "same a b \<Longrightarrow> same b c \<Longrightarrow> same a c" for a b c using law by (auto simp: x_waits_def dest: transpD)
  have calls: "same v (snd (x_irq_save_disable lib v))" "same v (x_suspend lib v)" "same v (x_resume lib v)"
    "same v (x_irq_restore_enable lib f v)" "same v (snd (x_irq_arrives lib v))" "same v (x_write32 lib d r u v)"
    "same v (snd (rp_get_notification lib v))" for f d r u v
    using law by (simp_all add: x_waits_def)
  show ?thesis
    using p by (auto simp: zq_poll_pass_def zq_proc_irq_handler_def Let_def split_beta split: if_splits
        intro!: s calls trans [OF _ calls(1)] trans [OF _ calls(2)] trans [OF _ calls(3)] trans [OF _ calls(4)]
          trans [OF _ calls(5)] trans [OF _ calls(6)] trans [OF _ calls(7)])
qed

lemma zq_poll_live:
  assumes live: "zq_live False g" and law: "x_waits (zq_wait lib) m lib up same" and up: "up w"
  shows "\<exists>r g' w'. zq_platform_poll m False lib (g, w) = Done (r, (g', w')) \<and> zq_live False g' \<and> same w w'"
proof -
  from law up obtain k where k: "kick_after (zq_wait lib) k w" "k + 2 \<le> m" by (auto simp: x_waits_def)
  have "\<exists>r w'. iter m (\<lambda>_. zq_poll_pass False lib) () (g, w) = Done (r, (g\<lparr>zq_nokick := True\<rparr>, w'))"
  proof (cases "zq_nokick g")
    case True
    then have "g = g\<lparr>zq_nokick := True\<rparr>" by simp
    with True zk.poll_returns [of g lib k w m] k show ?thesis by auto
  next
    case False
    with zk.poll_pending [of g m lib w] k show ?thesis by simp
  qed
  then obtain r w' where r: "iter m (\<lambda>_. zq_poll_pass False lib) () (g, w) = Done (r, (g\<lparr>zq_nokick := True\<rparr>, w'))" by blast
  have "same w w" using law by (auto simp: x_waits_def dest: reflpD)
  have "(\<lambda>r (g, v). same w v) r (g\<lparr>zq_nokick := True\<rparr>, w')"
    by (rule iter_inv [OF r, where I = "\<lambda>_ (g, v). same w v"])
      (use \<open>same w w\<close> zq_poll_pass_same [OF law] in \<open>auto split: prod.splits\<close>)
  then show ?thesis using r live by (auto simp: zq_platform_poll_def zq_live_def)
qed

interpretation zpo: polling "zq_platform_poll m False lib" "\<lambda>g. zq_live False g \<and> x_waits (zq_wait lib) m lib up same" up same
  for m lib up same
  by unfold_locales (elim conjE, drule (2) zq_poll_live, auto)

section \<open>The matrix host on the A53\<close>

definition zq_rpmsg :: "nat \<Rightarrow> 'w xlib \<Rightarrow> 'w rpmsg \<Rightarrow> (zq_state \<times> 'w) rpmsg" where
  "zq_rpmsg m lib rp = on_platform (zq_platform_poll m False lib) rp"

lemma zq_rpmsg_sel:
  "RPMSG_ADDR_ANY (zq_rpmsg m lib rp) = RPMSG_ADDR_ANY rp"
  "rpmsg_create_ept (zq_rpmsg m lib rp) name a b (g, w) = (fst (rpmsg_create_ept rp name a b w), (g, snd (rpmsg_create_ept rp name a b w)))"
  "rpmsg_destroy_ept (zq_rpmsg m lib rp) (g, w) = (g, rpmsg_destroy_ept rp w)"
  by (simp_all add: zq_rpmsg_def on_platform_def inner_def)

text \<open>
  C25. The whole matrix demo on the A53 with the matrix service on the other side: its 200 rounds (14400 calls of \<open>rand\<close>) end,
  the comparison of the products with the expected ones has counted no error, main returns 0, and the platform is taken down.
\<close>

theorem matrix_main_on_a53:
  assumes link: "peer_link rp (replies (matrixd_cb stk) sg) T D conn pend lag" and waits: "x_waits (zq_wait lib) m lib conn (unseen conn pend lag)"
    and T: "296 \<le> T" and stk: "length stk = 296" and n: "D < n"
    and g: "length (i_matrix g) = 2" "\<forall>m \<in> set (i_matrix g). wf_matrix m" "ept_deleted g = 0"
    and init: "zq_platform_init False lib (g0, v0) = Done ((0, Some ()), (g1, v1))"
    and vdev: "zq_create_rpmsg_vdev lib 0 VIRTIO_DEV_DRIVER True (g1, v1) = Done (Some d, (g1, v2))"
    and create: "rpmsg_create_ept rp RPMSG_SERVICE_NAME (RPMSG_ADDR_ANY rp) (RPMSG_ADDR_ANY rp) v2 = (0, v3)" "conn v3" "pend v3 = []"
  shows "\<exists>g' h v. matrix_main n (zq_plat False lib) (zq_rpmsg m lib rp) rnd (g, (g0, v0)) = Done (0, (g', (h, v))) \<and>
    err_cnt g' = 0 \<and> result_returned g' = 1 \<and> rand_calls g' = 14400 \<and> \<not> zq_live False h"
proof -
  have i: "platform_init (zq_plat False lib) (g0, v0) = Done ((0, Some ()), (g1, v1))" using init by (simp add: zq_plat_def)
  from zp.init_stores [OF TrueI i] have live: "zq_live False g1" by simp
  have v: "platform_create_rpmsg_vdev (zq_plat False lib) () 0 VIRTIO_DEV_DRIVER True (g1, v1) = Done (Some d, (g1, v2))"
    using vdev by (simp add: zq_plat_def)
  have plink: "peer_link (zq_rpmsg m lib rp) (replies (matrixd_cb stk) sg) T D
      (\<lambda>(g, w). (zq_live False g \<and> x_waits (zq_wait lib) m lib conn (unseen conn pend lag)) \<and> conn w) (pend \<circ> snd) (lag \<circ> snd)"
    unfolding zq_rpmsg_def by (rule zpo.peer_link_on [OF link]) auto
  from matrix_app_run [OF plink T stk n g, of "(g1, v2)" "(g1, v3)" rnd] obtain g' w' where
    p: "matrix_app n (zq_rpmsg m lib rp) rnd (g, (g1, v2)) = Done (0, (g', rpmsg_destroy_ept (zq_rpmsg m lib rp) w'))"
    "err_cnt g' = 0" "result_returned g' = 1" "rand_calls g' = 14400" "zq_live False (fst w')"
    using live waits create by (auto simp: zq_rpmsg_sel split: prod.splits)
  then show ?thesis
    using zp.app_main_run [where app = "matrix_app n (zq_rpmsg m lib rp) rnd" and g = g, OF i v p(1)]
    by (cases w') (auto simp: zq_rpmsg_sel matrix_main_def)
qed

lemma demo_zq_waits: "x_waits (zq_wait (demo_x ZQ_IPI_MASK)) 2 (demo_x ZQ_IPI_MASK) (\<lambda>_. True) (unseen (\<lambda>_. True) (\<lambda>w. w) (\<lambda>_. 0))"
  by (auto simp: x_waits_def demo_x_def zq_wait_def reflp_def transp_def ZQ_IPI_MASK_def intro!: exI [of _ 0])

lemma demo_zq_init: "\<exists>g1. zq_platform_init False (demo_x v) (zq_boot, w) = Done ((0, Some ()), (g1, w))"
  by (simp add: zq_platform_init_def zq_init_system_def zq_create_proc_def zq_remoteproc_init_def zq_proc_init_def zq_init_ipi_def
      zq_proc_mmap_def Let_def BAD_PHYS_def ZQ_RSC_MEM_PA_def demo_x_def)

theorem matrix_main_on_a53_witness:
  "\<exists>g' h v. matrix_main 1 (zq_plat False (demo_x ZQ_IPI_MASK)) (zq_rpmsg 2 (demo_x ZQ_IPI_MASK)
      (loop_ops (replies (matrixd_cb (replicate 296 0)) \<lparr>shutdown_req = 0\<rparr>) 496)) (\<lambda>k. 7 * int k) (zero_host, (zq_boot, [])) = Done (0, (g', (h, v))) \<and>
    err_cnt g' = 0 \<and> rand_calls g' = 14400 \<and> \<not> zq_live False h"
proof -
  let ?x = "demo_x ZQ_IPI_MASK :: bytes list xlib"
  from demo_zq_init [of ZQ_IPI_MASK "[] :: bytes list"] obtain g1 where
    i: "zq_platform_init False ?x (zq_boot, []) = Done ((0, Some ()), (g1, [] :: bytes list))" by blast
  have d: "zq_create_rpmsg_vdev ?x 0 VIRTIO_DEV_DRIVER True (g1, []) = Done (Some \<lparr>x_rpvdev = 1, x_vdev = 2\<rparr>, (g1, []))"
    by (simp add: zq_create_rpmsg_vdev_def xlnx_create_vdev_def demo_x_def)
  have z: "length (i_matrix zero_host) = 2" "\<forall>m \<in> set (i_matrix zero_host). wf_matrix m" "ept_deleted zero_host = 0"
    by (simp_all add: zero_host_def wf_matrix_def MAX_SIZE_def)
  show ?thesis
    using matrix_main_on_a53 [where conn = "\<lambda>_. True" and pend = "\<lambda>w. w" and lag = "\<lambda>_. 0" and T = 496 and n = 1 and ?v3.0 = "[]"
        and stk = "replicate 296 0" and sg = "\<lparr>shutdown_req = 0\<rparr>" and rnd = "\<lambda>k. 7 * int k", OF loop_link demo_zq_waits _ _ _ z i d]
    by auto
qed

end
