(* ===== verification/Load_Protocol.thy ===== *)
theory Load_Protocol
  imports Load_Fw
begin

text \<open>
  The order in which \<open>load_fw\<close> calls the life cycle functions of OpenAMP, as a state machine of the target and a proof that
  every run of \<open>main\<close> follows it, as long as no shutdown fails and the target is not left running on purpose.
\<close>

section \<open>The life cycle of a target\<close>

text \<open>A call with its result, where the code looks at it.\<close>

datatype rp_call = Config | Load int | Start int | Stop int | Shutdown int | Remove

datatype phase = Offline | Ready | Loaded | Running | Stopped | Gone

text \<open>
  The remoteproc states of OpenAMP.  \<open>remoteproc_load\<close> and the loading loop leave a target that can be started;
  \<open>remoteproc_shutdown\<close> takes a target offline that is not (one that still runs it stops first), and only
  a target that is offline may be configured or removed.  A call that fails changes nothing.
\<close>

fun rp_step :: "phase \<Rightarrow> rp_call \<Rightarrow> phase option" where
  "rp_step Offline Config = Some Ready"
| "rp_step Ready (Load e) = Some (if e = 0 then Loaded else Ready)"
| "rp_step Loaded (Start e) = Some (if e = 0 then Running else Loaded)"
| "rp_step Running (Stop e) = Some (if e = 0 then Stopped else Running)"
| "rp_step Offline Remove = Some Gone"
| "rp_step p (Shutdown e) = (if p = Offline \<or> p = Gone then None else Some (if e = 0 then Offline else p))"
| "rp_step _ _ = None"

fun rp_run :: "phase \<Rightarrow> rp_call list \<Rightarrow> phase option" where
  "rp_run p [] = Some p"
| "rp_run p (c # cs) = (case rp_step p c of None \<Rightarrow> None | Some p' \<Rightarrow> rp_run p' cs)"

lemma rp_run_append: "rp_run p (cs @ ds) = (case rp_run p cs of None \<Rightarrow> None | Some p' \<Rightarrow> rp_run p' ds)"
  by (induction cs arbitrary: p) (auto split: option.splits)

text \<open>
  A library that keeps the record \<open>calls\<close> of its calls: they return, an error is negative, and the loading loop
  hands out finitely many chunks (\<open>left\<close> bounds them).  The end of the loop is the load: \<open>noblock_end\<close> enters it.
\<close>

definition records :: "'w rplib \<Rightarrow> ('w \<Rightarrow> rp_call list) \<Rightarrow> ('w \<Rightarrow> nat) \<Rightarrow> bool" where
  "records rl calls left \<longleftrightarrow>
     (\<forall>g w. \<exists>g' w'. remoteproc_config rl (g, w) = Done ((), (g', w')) \<and> calls w' = calls w @ [Config]) \<and>
     (\<forall>g w. \<exists>e g' w'. remoteproc_load rl (g, w) = Done (e, (g', w')) \<and> e \<le> 0 \<and> calls w' = calls w @ [Load e]) \<and>
     (\<forall>d off len g w. \<exists>e c g' w'. remoteproc_load_noblock rl d off len (g, w) = Done ((e, c), (g', w')) \<and> e \<le> 0 \<and>
        (e = 0 \<and> \<not> (c_len c = 0 \<and> c_mlen c = 0) \<longrightarrow> calls w' = calls w \<and> left w' < left w) \<and>
        (e \<noteq> 0 \<or> c_len c = 0 \<and> c_mlen c = 0 \<longrightarrow> calls w' = calls w @ [Load e])) \<and>
     (\<forall>g w. \<exists>e g' w'. remoteproc_start rl (g, w) = Done (e, (g', w')) \<and> e \<le> 0 \<and> calls w' = calls w @ [Start e]) \<and>
     (\<forall>g w. \<exists>e g' w'. remoteproc_stop rl (g, w) = Done (e, (g', w')) \<and> calls w' = calls w @ [Stop e]) \<and>
     (\<forall>g w. \<exists>e g' w'. remoteproc_shutdown rl (g, w) = Done (e, (g', w')) \<and> calls w' = calls w @ [Shutdown e]) \<and>
     (\<forall>g w. \<exists>g' w'. remoteproc_remove rl (g, w) = Done ((), (g', w')) \<and> calls w' = calls w @ [Remove]) \<and>
     (\<forall>w. calls (wfi rl w) = calls w)"

section \<open>The functions of the file follow the life cycle\<close>

text \<open>No call of \<open>remoteproc_shutdown\<close> has failed; then the target is in the phase \<open>p\<close>.\<close>

definition shutdowns_ok :: "rp_call list \<Rightarrow> bool" where
  "shutdowns_ok cs \<longleftrightarrow> (\<forall>e. Shutdown e \<in> set cs \<longrightarrow> e = 0)"

definition at :: "('w \<Rightarrow> rp_call list) \<Rightarrow> phase \<Rightarrow> 'w \<Rightarrow> bool" where
  "at calls p w \<longleftrightarrow> (shutdowns_ok (calls w) \<longrightarrow> rp_run Offline (calls w) = Some p)"

lemma at_call: "at calls p w \<Longrightarrow> calls w' = calls w @ [c] \<Longrightarrow> (\<And>e. c = Shutdown e \<Longrightarrow> e = 0 \<Longrightarrow> rp_step p c = Some q) \<Longrightarrow>
    (\<forall>e. c \<noteq> Shutdown e \<Longrightarrow> rp_step p c = Some q) \<Longrightarrow> at calls q w'"
  by (cases "\<exists>e. c = Shutdown e") (auto simp: at_def rp_run_append shutdowns_ok_def)

lemma at_same: "at calls p w \<Longrightarrow> calls w' = calls w \<Longrightarrow> at calls p w'"
  by (simp add: at_def)

lemma recordsD:
  assumes "records rl calls left"
  shows "\<exists>g' w'. remoteproc_config rl (g, w) = Done ((), (g', w')) \<and> calls w' = calls w @ [Config]"
    and "\<exists>e g' w'. remoteproc_load rl (g, w) = Done (e, (g', w')) \<and> e \<le> 0 \<and> calls w' = calls w @ [Load e]"
    and "\<exists>e g' w'. remoteproc_start rl (g, w) = Done (e, (g', w')) \<and> e \<le> 0 \<and> calls w' = calls w @ [Start e]"
    and "\<exists>e g' w'. remoteproc_stop rl (g, w) = Done (e, (g', w')) \<and> calls w' = calls w @ [Stop e]"
    and "\<exists>e g' w'. remoteproc_shutdown rl (g, w) = Done (e, (g', w')) \<and> calls w' = calls w @ [Shutdown e]"
    and "\<exists>g' w'. remoteproc_remove rl (g, w) = Done ((), (g', w')) \<and> calls w' = calls w @ [Remove]"
    and "calls (wfi rl w) = calls w"
  using assms by (simp_all only: records_def)

text \<open>Each call of the library in its phase.\<close>

lemma config_at:
  assumes "records rl calls left" and "at calls Offline w"
  obtains g' w' where "remoteproc_config rl (g, w) = Done ((), (g', w'))" and "at calls Ready w'"
proof -
  from recordsD(1) [OF assms(1), of g w] obtain g' w' where "remoteproc_config rl (g, w) = Done ((), (g', w'))" "calls w' = calls w @ [Config]"
    by blast
  with that at_call [OF assms(2), of w' Config Ready] show thesis by simp
qed

lemma load_at:
  assumes "records rl calls left" and "at calls Ready w"
  obtains e g' w' where "remoteproc_load rl (g, w) = Done (e, (g', w'))" and "e \<le> 0" and "at calls (if e = 0 then Loaded else Ready) w'"
proof -
  from recordsD(2) [OF assms(1), of g w] obtain e g' w' where "remoteproc_load rl (g, w) = Done (e, (g', w'))" "e \<le> 0" "calls w' = calls w @ [Load e]"
    by blast
  with that at_call [OF assms(2), of w' "Load e"] show thesis by simp
qed

lemma start_at:
  assumes "records rl calls left" and "at calls Loaded w"
  obtains e g' w' where "remoteproc_start rl (g, w) = Done (e, (g', w'))" and "e \<le> 0" and "at calls (if e = 0 then Running else Loaded) w'"
proof -
  from recordsD(3) [OF assms(1), of g w] obtain e g' w' where "remoteproc_start rl (g, w) = Done (e, (g', w'))" "e \<le> 0" "calls w' = calls w @ [Start e]"
    by blast
  with that at_call [OF assms(2), of w' "Start e"] show thesis by simp
qed

lemma stop_at:
  assumes "records rl calls left" and "at calls Running w"
  obtains e g' w' where "remoteproc_stop rl (g, w) = Done (e, (g', w'))" and "at calls (if e = 0 then Stopped else Running) w'"
proof -
  from recordsD(4) [OF assms(1), of g w] obtain e g' w' where "remoteproc_stop rl (g, w) = Done (e, (g', w'))" "calls w' = calls w @ [Stop e]"
    by blast
  with that at_call [OF assms(2), of w' "Stop e"] show thesis by simp
qed

lemma shutdown_at:
  assumes "records rl calls left" and "at calls p w" and "p \<notin> {Offline, Gone}"
  obtains e g' w' where "remoteproc_shutdown rl (g, w) = Done (e, (g', w'))" and "at calls Offline w'"
proof -
  from recordsD(5) [OF assms(1), of g w] obtain e g' w' where "remoteproc_shutdown rl (g, w) = Done (e, (g', w'))" "calls w' = calls w @ [Shutdown e]"
    by blast
  with that at_call [OF assms(2), of w' "Shutdown e" Offline] assms(3) show thesis by (cases p) auto
qed

text \<open>A loaded target is run and taken offline, or stays loaded when it does not start.\<close>

lemma run_processor_at:
  assumes "records rl calls left" and "at calls Loaded w"
  shows "\<exists>r g' w'. run_processor rl linux (g, w) = Done (r, (g', w')) \<and> r \<le> 0 \<and>
    at calls (if r = 0 then if linux then Running else Offline else Loaded) w'"
proof -
  from start_at [OF assms] obtain e g1 w1 where 1: "remoteproc_start rl (g, w) = Done (e, (g1, w1))" "e \<le> 0"
    "at calls (if e = 0 then Running else Loaded) w1" .
  show ?thesis
  proof (cases "e = 0 \<and> \<not> linux")
    case False
    with 1 show ?thesis by (auto simp: run_processor_def)
  next
    case True
    with 1(3) assms(1) have "at calls Running (wfi rl w1)" by (auto simp: recordsD(7) intro: at_same)
    from stop_at [OF assms(1) this, of g1] obtain a g2 w2 where 2: "remoteproc_stop rl (g1, wfi rl w1) = Done (a, (g2, w2))"
      "at calls (if a = 0 then Stopped else Running) w2" .
    have "(if a = 0 then Stopped else Running) \<notin> {Offline, Gone}" by simp
    from shutdown_at [OF assms(1) 2(2) this, of g2] obtain b g3 w3 where
      "remoteproc_shutdown rl (g2, w2) = Done (b, (g3, w3))" "at calls Offline w3" .
    with 1 2 True show ?thesis by (simp add: run_processor_def)
  qed
qed

lemma load_block_at:
  assumes "records rl calls left" and "at calls Offline w"
  shows "\<exists>r g' w' p. load_exectuable_block rl linux True (g, w) = Done (r, (g', w')) \<and> r \<le> 0 \<and>
    at calls p w' \<and> (if r = 0 then p = (if linux then Running else Offline) else p \<in> {Ready, Loaded})"
proof -
  from config_at [OF assms, of g] obtain g1 w1 where 1: "remoteproc_config rl (g, w) = Done ((), (g1, w1))" "at calls Ready w1" .
  from load_at [OF assms(1) 1(2), of g1] obtain e g2 w2 where 2: "remoteproc_load rl (g1, w1) = Done (e, (g2, w2))" "e \<le> 0"
    "at calls (if e = 0 then Loaded else Ready) w2" .
  show ?thesis
  proof (cases "e = 0")
    case False
    with 1 2 show ?thesis by (auto simp: load_exectuable_block_def)
  next
    case True
    with run_processor_at [OF assms(1), of w2 linux g2] 1 2 show ?thesis by (auto simp: load_exectuable_block_def split: if_splits)
  qed
qed

text \<open>The loading loop: it ends, loaded or still ready.\<close>

lemma mem_image_load_run: "\<exists>r d g'. mem_image_load lib off sz data pa io (g, w) = Done ((r, d), (g', w)) \<and> (r = to_int32 (uint sz) \<or> r = - EINVAL)"
  by (auto simp: mem_image_load_def split: option.splits)

lemma records_noblock:
  assumes "records rl calls left"
  shows "\<exists>e c g' w'. remoteproc_load_noblock rl d off len (g, w) = Done ((e, c), (g', w')) \<and> e \<le> 0 \<and>
        (e = 0 \<and> \<not> (c_len c = 0 \<and> c_mlen c = 0) \<longrightarrow> calls w' = calls w \<and> left w' < left w) \<and>
        (e \<noteq> 0 \<or> c_len c = 0 \<and> c_mlen c = 0 \<longrightarrow> calls w' = calls w @ [Load e])"
  using assms by (simp only: records_def)

lemma noblock_pass_at:
  assumes r: "records rl calls left" and a: "at calls Ready w"
  shows "(\<exists>l' g' w'. noblock_pass lib rl l (g, w) = Done (Inl l', (g', w')) \<and> at calls Ready w' \<and> left w' < left w) \<or>
    (\<exists>e g' w'. noblock_pass lib rl l (g, w) = Done (Inr e, (g', w')) \<and> e \<le> 0 \<and> at calls (if e = 0 then Loaded else Ready) w')"
proof -
  obtain off len data where l: "l = (off, len, data)" by (cases l)
  from records_noblock [OF r, of data off len g w] obtain e c g1 w1 where
    1: "remoteproc_load_noblock rl data off len (g, w) = Done ((e, c), (g1, w1))" "e \<le> 0"
    "e = 0 \<and> \<not> (c_len c = 0 \<and> c_mlen c = 0) \<longrightarrow> calls w1 = calls w \<and> left w1 < left w"
    "e \<noteq> 0 \<or> c_len c = 0 \<and> c_mlen c = 0 \<longrightarrow> calls w1 = calls w @ [Load e]" by (elim exE conjE)
  show ?thesis
  proof (cases "e \<noteq> 0 \<or> c_len c = 0 \<and> c_mlen c = 0")
    case True
    with 1(1,2,4) at_call [OF a, of w1 "Load e"] l show ?thesis by (auto simp: noblock_pass_def)
  next
    case False
    then have w1: "at calls Ready w1" "left w1 < left w" using 1(3) a by (auto intro: at_same)
    from mem_image_load_run [of lib "c_offset c" "c_len c" data "c_pa c" "c_io c" g1 w1] obtain r d g2 where
      2: "mem_image_load lib (c_offset c) (c_len c) data (c_pa c) (c_io c) (g1, w1) = Done ((r, d), (g2, w1))"
      "r = to_int32 (uint (c_len c)) \<or> r = - EINVAL" by blast
    have E: "- EINVAL \<le> 0" "EINVAL \<noteq> 0" by simp_all
    from False 1(1) 2 w1 l show ?thesis
      by (cases "r = to_int32 (uint (c_len c))") (auto simp: noblock_pass_def split: option.splits)
  qed
qed

lemma noblock_load_at:
  assumes r: "records rl calls left" and a: "at calls Ready w" and f: "left w < fuel"
  shows "\<exists>e g' w'. noblock_load fuel lib rl (g, w) = Done (e, (g', w')) \<and> e \<le> 0 \<and> at calls (if e = 0 then Loaded else Ready) w'"
proof -
  let ?Q = "\<lambda>e (g, w). e \<le> 0 \<and> at calls (if e = 0 then Loaded else Ready) w"
  have "\<exists>e t. iter fuel (noblock_pass lib rl) (0, 0x100, fw_base) (g, w) = Done (e, t) \<and> ?Q e t"
  proof (rule iter_total [where I = "\<lambda>_ (g, w). at calls Ready w" and mu = "\<lambda>_ (g, w). left w"])
    fix l and s :: "fw_globals \<times> 'a" assume "case s of (g, w) \<Rightarrow> at calls Ready w"
    then show "(\<exists>l' t. noblock_pass lib rl l s = Done (Inl l', t) \<and> (case t of (g, w) \<Rightarrow> at calls Ready w) \<and>
          (case t of (g, w) \<Rightarrow> left w) < (case s of (g, w) \<Rightarrow> left w)) \<or>
        (\<exists>e t. noblock_pass lib rl l s = Done (Inr e, t) \<and> ?Q e t)"
      using noblock_pass_at [OF r, of "snd s" lib l "fst s"] by (cases s) fastforce
  qed (use a f in auto)
  then show ?thesis by (auto simp: noblock_load_def mem_image_open_def)
qed

lemma load_noblock_at:
  assumes "records rl calls left" and "at calls Offline w" and "\<And>w. left w < fuel"
  shows "\<exists>r g' w' p. load_exectuable_noblock fuel lib rl True (g, w) = Done (r, (g', w')) \<and> r \<le> 0 \<and>
    at calls p w' \<and> (if r = 0 then p = Offline else p \<in> {Ready, Loaded})"
proof -
  from config_at [OF assms(1,2), of g] obtain g1 w1 where 1: "remoteproc_config rl (g, w) = Done ((), (g1, w1))" "at calls Ready w1" .
  from noblock_load_at [OF assms(1) 1(2) assms(3), of lib g1] obtain e g2 w2 where
    2: "noblock_load fuel lib rl (g1, w1) = Done (e, (g2, w2))" "e \<le> 0" "at calls (if e = 0 then Loaded else Ready) w2" by blast
  show ?thesis
  proof (cases "e = 0")
    case False
    with 1 2 show ?thesis by (auto simp: load_exectuable_noblock_def)
  next
    case True
    with run_processor_at [OF assms(1), of w2 False g2] 1 2 show ?thesis by (auto simp: load_exectuable_noblock_def split: if_splits)
  qed
qed

section \<open>The program\<close>

text \<open>
  C29. The loader returns whatever fails, and as long as no call of \<open>remoteproc_shutdown\<close> fails (\<open>main\<close> ignores the results of it and of
  \<open>remoteproc_stop\<close>), its calls follow the life cycle of the target: nothing is started that has not been loaded, nothing is
  configured, loaded or removed that is not offline, whichever initialisation, load, start or stop fails.  It returns -1 with the target
  offline, or 0 with the target removed after both ways of loading have run.  The exception is the build for Linux (\<open>RPU_BOOT_LINUX\<close>): there a
  run that returns 0 ends with the removal of a target that runs, against the life cycle.
\<close>

theorem load_fw_main_protocol:
  assumes records: "records rl calls left" and fuel: "\<And>w. left w < fuel"
    and init: "app_init ids lib rl tgt tgt s = Done (ok, (g, w))" and none: "calls w = []"
  shows "\<exists>r g' w'. load_fw_main fuel ids lib rl linux tgt s = Done (r, (g', w')) \<and> (shutdowns_ok (calls w') \<longrightarrow>
    r = - 1 \<and> rp_run Offline (calls w') = Some Offline \<or>
    r = 0 \<and> (if linux then \<exists>cs. calls w' = cs @ [Remove] \<and> rp_run Offline cs = Some Running
              else rp_run Offline (calls w') = Some Gone))"
proof (cases ok)
  case False
  with init none show ?thesis by (simp add: load_fw_main_def)
next
  case True
  note init = init [simplified True]
  have "at calls Offline w" using none by (simp add: at_def)
  from load_block_at [OF records this, of linux g] obtain r1 g1 w1 p1 where
    1: "load_exectuable_block rl linux True (g, w) = Done (r1, (g1, w1))" "r1 \<le> 0" "at calls p1 w1"
    "if r1 = 0 then p1 = (if linux then Running else Offline) else p1 \<in> {Ready, Loaded}" by blast
  have fails: "\<exists>e g' w'. remoteproc_shutdown rl (h, v) = Done (e, (g', w')) \<and> at calls Offline w'"
    if "at calls p v" "p \<in> {Ready, Loaded}" for p h v
    using shutdown_at [OF records that(1), of h] that(2) by fastforce
  obtain g3 w3 where removed: "remoteproc_remove rl (h, v) = Done ((), (g3 h v, w3 h v))" "calls (w3 h v) = calls v @ [Remove]" for h v
    using recordsD(6) [OF records] by metis
  have ok_remove: "shutdowns_ok (cs @ [Remove]) = shutdowns_ok cs" for cs by (simp add: shutdowns_ok_def)
  let ?main = "load_fw_main fuel ids lib rl linux tgt s"
  have failed: ?thesis if "?main = Done (- 1, (h, v))" "at calls Offline v" for h v
    using that by (simp add: at_def split del: if_split)
  show ?thesis
  proof (cases "r1 = 0")
    case False
    then obtain e h v where f: "remoteproc_shutdown rl (g1, w1) = Done (e, (h, v))" "at calls Offline v"
      using fails [of p1 w1 g1] 1(3,4) by auto
    have "?main = Done (- 1, (h, v))" using 1(1,2) False f(1) init by (simp add: load_fw_main_def)
    with f(2) show ?thesis by (rule failed [rotated])
  next
    case r1: True
    show ?thesis
    proof (cases linux)
      case linux: True
      have "?main = Done (0, (g3 g1 w1, w3 g1 w1))" using 1(1) r1 removed(1) [of g1 w1] init linux by (simp add: load_fw_main_def)
      then show ?thesis using removed(2) [of g1 w1] 1(3,4) r1 linux by (simp add: at_def ok_remove)
    next
      case False
      with 1 r1 have "at calls Offline w1" by simp
      from load_noblock_at [OF records this fuel, of lib g1] obtain r2 g2 w2 p2 where
        2: "load_exectuable_noblock fuel lib rl True (g1, w1) = Done (r2, (g2, w2))" "r2 \<le> 0" "at calls p2 w2"
        "if r2 = 0 then p2 = Offline else p2 \<in> {Ready, Loaded}" by blast
      show ?thesis
      proof (cases "r2 = 0")
        case r2: False
        then obtain e h v where f: "remoteproc_shutdown rl (g2, w2) = Done (e, (h, v))" "at calls Offline v"
          using fails [of p2 w2 g2] 2(3,4) by auto
        have "?main = Done (- 1, (h, v))" using 1(1) 2(1,2) r1 r2 False f(1) init by (simp add: load_fw_main_def)
        with f(2) show ?thesis by (rule failed [rotated])
      next
        case r2: True
        have "?main = Done (0, (g3 g2 w2, w3 g2 w2))" using 1(1) 2(1) r1 r2 removed(1) [of g2 w2] init False by (simp add: load_fw_main_def)
        then show ?thesis using removed(2) [of g2 w2] 2(3,4) r2 False by (simp add: at_def ok_remove rp_run_append)
      qed
    qed
  qed
qed

text \<open>A library that writes its calls down; the loading loop gets one chunk.\<close>

definition rec_fwlib :: "(rp_call list \<times> nat) fwlib" where
  "rec_fwlib = \<lparr>f_alloc = (\<lambda>w. (Some 1, w)), f_free = (\<lambda>b w. w), f_phys = (\<lambda>r off. fst r + ucast off),
     f_phys_to_virt = (\<lambda>r pa. Some (unat pa)), f_phys_to_offset = (\<lambda>r pa. ucast (pa - fst r)),
     f_block_set = (\<lambda>r off b n m. mem_write (unat (fst r) + unat off) (replicate n b) m),
     rpu_read32 = (\<lambda>a w. 0), rpu_write32 = (\<lambda>a v w. w), XPm_RequestNode = (\<lambda>n w. w), XPm_ReleaseNode = (\<lambda>n w. w),
     XPm_RequestWakeUp = (\<lambda>c a w. (0, w)), XPm_ForcePowerDown = (\<lambda>c w. (0, w))\<rparr>"

definition rec_rplib :: "int \<Rightarrow> (rp_call list \<times> nat) rplib" where
  "rec_rplib down = \<lparr>remoteproc_config = (\<lambda>(g, (l, n)). Done ((), (g, (l @ [Config], n)))),
     remoteproc_load = (\<lambda>(g, (l, n)). Done (0, (g, (l @ [Load 0], n)))),
     remoteproc_load_noblock = (\<lambda>d off len (g, (l, n)). if n = 0 then Done ((0, small_chunk), (g, (l, 1)))
       else Done ((0, small_chunk\<lparr>c_len := 0, c_mlen := 0\<rparr>), (g, (l @ [Load 0], n)))),
     remoteproc_start = (\<lambda>(g, (l, n)). Done (0, (g, (l @ [Start 0], n)))),
     remoteproc_stop = (\<lambda>(g, (l, n)). Done (- 1, (g, (l @ [Stop (- 1)], n)))),
     remoteproc_shutdown = (\<lambda>(g, (l, n)). Done (down, (g, (l @ [Shutdown down], n)))),
     remoteproc_remove = (\<lambda>(g, (l, n)). Done ((), (g, (l @ [Remove], n)))),
     wfi = (\<lambda>w. w), f_metal_init = (\<lambda>w. w), XIpiPsu_LookupConfig = (\<lambda>w. True), XIpiPsu_CfgInitialize = (\<lambda>w. (0, w)),
     XPm_InitXilpm = (\<lambda>w. (0, w)), IPI_FAILURE = 1\<rparr>"

lemma rec_records: "records (rec_rplib down) fst (\<lambda>w. 1 - snd w)"
  by (auto simp: records_def rec_rplib_def small_chunk_def split_beta)

lemma rec_init: "\<exists>g. app_init zynqmp_ids rec_fwlib (rec_rplib down) 7 7 (fw_idle None, ([], 0)) = Done (True, (g, ([], 0)))"
  by (simp add: app_init_def IpiConfigure_def fw_create_proc_def rpu_rproc_init_def alloc_priv_def rec_rplib_def rec_fwlib_def
      zynqmp_ids_def fw_idle_def)

text \<open>Every stop fails in this run.\<close>

theorem load_fw_main_protocol_witness:
  "\<exists>r g' w'. load_fw_main 2 zynqmp_ids rec_fwlib (rec_rplib 0) False 7 (fw_idle None, ([], 0)) = Done (r, (g', w')) \<and>
     (shutdowns_ok (fst w') \<longrightarrow> r = 0 \<and> rp_run Offline (fst w') = Some Gone \<or> r = - 1 \<and> rp_run Offline (fst w') = Some Offline)"
proof -
  from rec_init [of 0] obtain g where
    i: "app_init zynqmp_ids rec_fwlib (rec_rplib 0) 7 7 (fw_idle None, ([], 0)) = Done (True, (g, ([], 0)))" by blast
  from load_fw_main_protocol [OF rec_records _ i, of 2 False] show ?thesis by fastforce
qed

text \<open>
  A shutdown that fails goes unnoticed: with a library on which it always does, the first way of loading reports success, and the second
  configures a target that still runs.
\<close>

lemma failed_shutdown_unnoticed:
  "\<exists>g' w'. load_exectuable_block (rec_rplib (- 1)) False True (g, ([], 0)) = Done (0, (g', w')) \<and>
     rp_run Offline (fst w') = Some Running \<and> rp_step Running Config = None"
  by (simp add: load_exectuable_block_def run_processor_def rec_rplib_def)

end
