(* ===== verification/Echo_Restart.thy ===== *)
theory Echo_Restart
  imports Demo_System
begin

text \<open>
  The FreeRTOS task of the echo service on the R5 over several connections: \<open>rpmsg_listen_task\<close> of
  \<open>examples/echo/freertos/main.c\<close>, which creates a device for every connection of the host and runs
  the application on it.  Nothing clears \<open>shutdown_req\<close> between two runs.
\<close>

section \<open>A host that connects several times\<close>

text \<open>
  \<open>conns\<close> are the connections that the host has still to make, each with what it will say in every poll.  The creation
  of a device waits for the next of them, and fails when there is none left; everything else leaves them alone.
\<close>

abbreviation calm :: "('w \<Rightarrow> 'c) \<Rightarrow> ('w \<Rightarrow> event list list) \<Rightarrow> ('w \<Rightarrow> bytes list) \<Rightarrow> 'w \<Rightarrow> 'w \<Rightarrow> bool" where
  "calm conns script sent w w' \<equiv> conns w' = conns w \<and> script w' = script w \<and> sent w' = sent w"

definition reconnects ::
    "'w xlib \<Rightarrow> 'w rpmsg \<Rightarrow> ('w \<Rightarrow> event list list list) \<Rightarrow> ('w \<Rightarrow> event list list) \<Rightarrow> ('w \<Rightarrow> bytes list) \<Rightarrow> bool" where
  "reconnects lib rp conns script sent \<longleftrightarrow> scripted rp script sent \<and>
     (\<forall>w. conns (snd (platform_poll rp w)) = conns w) \<and> (\<forall>m w. conns (snd (rpmsg_send rp m w)) = conns w) \<and>
     (\<forall>w. case rpmsg_create_ept rp RPMSG_SERVICE_NAME (RPMSG_ADDR_ANY rp) (RPMSG_ADDR_ANY rp) w of (r, w') \<Rightarrow>
        r = 0 \<and> calm conns script sent w w') \<and>
     (\<forall>w. calm conns script sent w (rpmsg_destroy_ept rp w)) \<and> (\<forall>d w. calm conns script sent w (xlnx_release_vdev lib d w)) \<and>
     (\<forall>t w. case xlnx_create_vdev lib SHARED_MEM_PA (SHARED_MEM_PA + SHARED_BUF_OFFSET) SHARED_MEM_SIZE 0 VIRTIO_DEV_DEVICE False t w of
        ((d, _), w') \<Rightarrow> sent w' = sent w \<and>
          (case conns w of [] \<Rightarrow> d = None | c # cs \<Rightarrow> d \<noteq> None \<and> conns w' = cs \<and> script w' = c))"

lemma reconnects_scripted:
  assumes "reconnects lib rp conns script sent"
  shows "scripted rp script (\<lambda>w. (if conns w = C then [] else [mark]) @ sent w)"
proof -
  have sc: "scripted rp script sent" and k: "conns (snd (platform_poll rp w)) = conns w" "conns (snd (rpmsg_send rp m w)) = conns w" for m w
    using assms by (simp_all add: reconnects_def)
  show ?thesis
    unfolding scripted_def
  proof (intro conjI allI impI)
    fix w e es assume "script w = e # es"
    from scripted_poll [OF sc this] obtain w' where "platform_poll rp w = (e, w')" "script w' = es" "sent w' = sent w" by blast
    with k(1) [of w] show "\<exists>w'. platform_poll rp w = (e, w') \<and> script w' = es \<and>
        (if conns w' = C then [] else [mark]) @ sent w' = (if conns w = C then [] else [mark]) @ sent w" by auto
  next
    fix m w r w' assume r: "rpmsg_send rp m w = (r, w')"
    from scripted_send [OF sc r] have s: "0 \<le> r" "script w' = script w" "sent w' = sent w @ [m]" by simp_all
    have c: "conns w' = conns w" using k(2) [of m w] r by simp
    show "0 \<le> r" "script w' = script w" by fact+
    show "(if conns w' = C then [] else [mark]) @ sent w' = ((if conns w = C then [] else [mark]) @ sent w) @ [m]" by (simp add: s c)
  qed
qed

lemma x_waits_mono:
  assumes "x_waits wait m lib up same" and "\<And>w w'. same w w' \<Longrightarrow> same' w w'" and "reflp same'" and "transp same'"
  shows "x_waits wait m lib up same'"
  using assms by (auto simp: x_waits_def)

section \<open>One connection\<close>

text \<open>The application on one connection: it hears the polls up to the one that takes it down, and leaves the other connections.\<close>

lemma echo_app_connection:
  assumes re: "reconnects lib rp conns script sent"
    and waits: "x_waits (r5_wait lib) m lib (\<lambda>w. script w \<noteq> []) (calm conns script sent)" and live: "r5_live g1"
    and events: "script v2 = bs @ b # rest" "length bs < n" "list_all readable (concat bs @ b)" "list_ex stops b \<or> shutdown_req g = 1"
      "bs \<noteq> [] \<Longrightarrow> shutdown_req g = 0 \<and> \<not> list_ex stops (concat bs)"
  shows "\<exists>h w. rpmsg_echo_app n (r5_rpmsg m lib rp) (g, (g1, v2)) = Done (0, (g\<lparr>shutdown_req := 1\<rparr>, (h, w))) \<and>
    r5_live h \<and> conns w = conns v2 \<and> sent w = sent v2 @ map rx_data (filter echoed (concat bs @ b))"
proof -
  obtain v3 where v3: "rpmsg_create_ept rp RPMSG_SERVICE_NAME (RPMSG_ADDR_ANY rp) (RPMSG_ADDR_ANY rp) v2 = (0, v3)"
      "calm conns script sent v2 v3"
    using re by (cases "rpmsg_create_ept rp RPMSG_SERVICE_NAME (RPMSG_ADDR_ANY rp) (RPMSG_ADDR_ANY rp) v2")
      (auto simp: reconnects_def dest: spec [of _ v2])
  let ?s = "\<lambda>mark w. (if conns w = conns v2 then [] else [mark]) @ sent w"
  have w: "x_waits (r5_wait lib) m lib (\<lambda>w. script w \<noteq> []) (\<lambda>w w'. script w' = script w \<and> ?s mark w' = ?s mark w)" for mark
    by (rule x_waits_mono [OF waits]) (auto simp: reflp_def transp_def)
  let ?S = "sent v2 @ map rx_data (filter echoed (concat bs @ b))"
  have run: "\<exists>h w. rpmsg_echo_app n (r5_rpmsg m lib rp) (g, (g1, v2)) = Done (0, (g\<lparr>shutdown_req := 1\<rparr>, (h, w))) \<and>
    r5_live h \<and> ?s mark w = ?S" for mark
  proof -
    have e: "script v3 = bs @ b # rest" and s: "?s mark v3 = sent v2" using events(1) v3(2) by simp_all
    from echo_app_on_r5 [OF reconnects_scripted [OF re] w live v3(1) e events(2-5), of mark] obtain h w where
      "rpmsg_echo_app n (r5_rpmsg m lib rp) (g, (g1, v2)) = Done (0, (g\<lparr>shutdown_req := 1\<rparr>, (h, rpmsg_destroy_ept rp w)))"
      "r5_live h" "?s mark w = ?S" unfolding s by blast
    moreover have "?s mark (rpmsg_destroy_ept rp w) = ?s mark w" using re by (simp add: reconnects_def)
    ultimately show ?thesis by auto
  qed
  from run [of "[0]"] run [of "[1]"] obtain h w where
    r: "rpmsg_echo_app n (r5_rpmsg m lib rp) (g, (g1, v2)) = Done (0, (g\<lparr>shutdown_req := 1\<rparr>, (h, w)))" "r5_live h"
    and m: "?s [0] w = ?S" "?s [1] w = ?S" by auto
  have "?s [0] w = ?s [1] w" by (rule trans [OF m(1) m(2) [symmetric]])
  then have "conns w = conns v2" by (simp split: if_splits)
  with r m(1) show ?thesis by auto
qed

section \<open>The passes of the task\<close>

lemma r5_next_device:
  assumes re: "reconnects lib rp conns script sent" and live: "r5_live g1"
  shows "\<exists>d h v. r5_create_rpmsg_vdev lib 0 VIRTIO_DEV_DEVICE False (g1, v1) = Done (d, (h, v)) \<and> r5_live h \<and> sent v = sent v1 \<and>
    (case conns v1 of [] \<Rightarrow> d = None | c # cs \<Rightarrow> d \<noteq> None \<and> conns v = cs \<and> script v = c)"
proof -
  let ?new = "\<lambda>t. xlnx_create_vdev lib SHARED_MEM_PA (SHARED_MEM_PA + SHARED_BUF_OFFSET) SHARED_MEM_SIZE 0 VIRTIO_DEV_DEVICE False t v1"
  from live obtain t where "initial_resources g1 = Live t" by (auto simp: r5_live_def)
  from r5_create_vdev_run [OF this, of lib 0 VIRTIO_DEV_DEVICE False v1] obtain d tab v where
    d: "r5_create_rpmsg_vdev lib 0 VIRTIO_DEV_DEVICE False (g1, v1) = Done (d, (g1\<lparr>r5_resources := tab\<rparr>, v))" "?new t = ((d, tab), v)"
    by metis
  have "case ?new t of ((d, _), w') \<Rightarrow> sent w' = sent v1 \<and>
      (case conns v1 of [] \<Rightarrow> d = None | c # cs \<Rightarrow> d \<noteq> None \<and> conns w' = cs \<and> script w' = c)"
    by (rule re [unfolded reconnects_def, THEN conjunct2, THEN conjunct2, THEN conjunct2, THEN conjunct2, THEN conjunct2, THEN conjunct2,
        THEN spec [of _ t], THEN spec [of _ v1]])
  with d live show ?thesis by (simp add: r5_live_def)
qed

lemma echo_pass_on_r5:
  assumes re: "reconnects lib rp conns script sent"
    and waits: "x_waits (r5_wait lib) m lib (\<lambda>w. script w \<noteq> []) (calm conns script sent)" and live: "r5_live g1"
    and conn: "conns v1 = (bs @ b # rest) # cs"
    and events: "length bs < n" "list_all readable (concat bs @ b)" "list_ex stops b \<or> shutdown_req g = 1"
      "bs \<noteq> [] \<Longrightarrow> shutdown_req g = 0 \<and> \<not> list_ex stops (concat bs)"
  shows "\<exists>h w. listen_pass (r5_plat sy gic False lib pa) (rpmsg_echo_app n (r5_rpmsg m lib rp)) () (g, (g1, v1))
      = Done (Inl (), (g\<lparr>shutdown_req := 1\<rparr>, (h, w))) \<and>
    r5_live h \<and> conns w = cs \<and> sent w = sent v1 @ map rx_data (filter echoed (concat bs @ b))"
proof -
  from r5_next_device [OF re live, of v1] conn obtain d g2 v2 where
    d: "r5_create_rpmsg_vdev lib 0 VIRTIO_DEV_DEVICE False (g1, v1) = Done (Some d, (g2, v2))" "r5_live g2"
      "sent v2 = sent v1" "conns v2 = cs" "script v2 = bs @ b # rest" by auto
  from echo_app_connection [OF re waits d(2,5) events] obtain h w where
    "rpmsg_echo_app n (r5_rpmsg m lib rp) (g, (g2, v2)) = Done (0, (g\<lparr>shutdown_req := 1\<rparr>, (h, w)))"
    "r5_live h" "conns w = conns v2" "sent w = sent v2 @ map rx_data (filter echoed (concat bs @ b))" by blast
  moreover have "calm conns script sent w (xlnx_release_vdev lib e w)" for e w using re by (simp add: reconnects_def)
  ultimately show ?thesis using d by (simp add: listen_pass_def r5_plat_def r5_release_rpmsg_vdev_def)
qed

lemma echo_last_pass_on_r5:
  assumes re: "reconnects lib rp conns script sent" and live: "r5_live g1" and conn: "conns v1 = []"
  shows "\<exists>h w. listen_pass (r5_plat sy gic False lib pa) app () (g, (g1, v1)) = Done (Inr (), (g, (h, w))) \<and>
    r5_live h \<and> sent w = sent v1"
  using r5_next_device [OF re live, of v1] conn by (auto simp: listen_pass_def r5_plat_def)

section \<open>Property\<close>

text \<open>
  C28. The FreeRTOS echo task on the R5 serves its first connection and only the first: there it answers every message up to
  the poll with the shutdown, in order.  Of every later connection it hears a single poll, answers its messages, and gives the
  device up, because \<open>shutdown_req\<close> is still set.  When no device can be created any more it takes the platform down and ends.
\<close>

theorem echo_task_restarts:
  assumes re: "reconnects lib rp conns script sent"
    and waits: "x_waits (r5_wait lib) m lib (\<lambda>w. script w \<noteq> []) (calm conns script sent)"
    and fresh: "r5_fresh g0" and init: "r5_platform_init sy gic False lib pa (g0, v0) = Done ((0, x), (g1, v1))"
    and conn: "conns v1 = (bs @ b # rest) # cs" "\<forall>c \<in> set cs. c \<noteq> []" and n: "length bs < n" "Suc (length cs) < n"
    and first: "shutdown_req g = 0" "list_all readable (concat bs @ b)" "\<not> list_ex stops (concat bs)" "list_ex stops b"
    and later: "list_all readable (concat (map hd cs))"
    and keeps: "\<And>h w h' w'. r5_platform_cleanup False lib (h, w) = Done ((), (h', w')) \<Longrightarrow> sent w' = sent w"
  shows "\<exists>h v. echo_listen_task n (r5_plat sy gic False lib pa) (r5_rpmsg m lib rp) (g, (g0, v0))
      = Done ((), (g\<lparr>shutdown_req := 1\<rparr>, (h, v))) \<and>
    \<not> r5_live h \<and> sent v = sent v1 @ map rx_data (filter echoed (concat bs @ b @ concat (map hd cs)))"
proof -
  let ?pl = "r5_plat sy gic False lib pa" and ?app = "rpmsg_echo_app n (r5_rpmsg m lib rp)"
  let ?e = "\<lambda>es. map rx_data (filter echoed es)"
  let ?S = "sent v1 @ ?e (concat bs @ b @ concat (map hd cs))" and ?g = "g\<lparr>shutdown_req := 1\<rparr>"
  let ?E = "\<lambda>(k, h, w). k = ?g \<and> r5_live h \<and> sent w = ?S"
  let ?R = "\<lambda>ds (k, h, w). r5_live h \<and> conns w = ds \<and> (k = g \<and> ds = (bs @ b # rest) # cs \<and> sent w = sent v1 \<or>
    k = ?g \<and> (\<forall>c \<in> set ds. c \<noteq> []) \<and> list_all readable (concat (map hd ds)) \<and> sent w @ ?e (concat (map hd ds)) = ?S)"
  from r5_platform_init_stores [OF fresh init] have x: "x = Some ()" and l1: "r5_live g1" by auto
  with init have i: "platform_init ?pl (g0, v0) = Done ((0, Some ()), (g1, v1))" by (simp add: r5_plat_def)
  have pass: "\<exists>t. listen_pass ?pl ?app () s = Done (Inl (), t) \<and> ?R ds t" if "?R (c # ds) s" for c ds s
  proof -
    obtain k h w where s: "s = (k, h, w)" by (cases s) auto
    with that consider (first) "r5_live h" "conns w = (bs @ b # rest) # cs" "k = g" "ds = cs" "sent w = sent v1"
      | (later) "r5_live h" "conns w = c # ds" "k = ?g" "c \<noteq> []" "\<forall>c \<in> set ds. c \<noteq> []" "list_all readable (hd c)"
        "list_all readable (concat (map hd ds))" "sent w @ ?e (hd c) @ ?e (concat (map hd ds)) = ?S" by auto
    then show ?thesis
    proof cases
      case first
      from echo_pass_on_r5 [OF re waits first(1,2) n(1) \<open>list_all readable (concat bs @ b)\<close>, of g sy gic pa]
      show ?thesis using assms(9-11) first s conn(2) later \<open>list_ex stops b\<close> by auto
    next
      case later
      from later(2,4) have "conns w = ([] @ hd c # tl c) # ds" by simp
      from echo_pass_on_r5 [OF re waits later(1) this, of n k sy gic pa] later s n show ?thesis by auto
    qed
  qed
  have stop: "\<exists>t. listen_pass ?pl ?app () s = Done (Inr (), t) \<and> ?E t" if "?R [] s" for s
    using that echo_last_pass_on_r5 [OF re, of "fst (snd s)" "snd (snd s)" sy gic pa ?app "fst s"] by (cases s) auto
  have "?R ((bs @ b # rest) # cs) (g, (g1, v1))" using l1 conn(1) by simp
  then have "\<exists>t. ?E t \<and> listen_task n ?pl ?app (g, (g0, v0)) = callw (platform_cleanup ?pl ()) t"
    by (rule listen_task_run [where R = ?R, OF i _ _ pass stop]) (use n(2) in simp_all)
  then obtain h w where
    t: "r5_live h" "sent w = ?S" "listen_task n ?pl ?app (g, (g0, v0)) = callw (platform_cleanup ?pl ()) (?g, (h, w))" by auto
  from rp.cleanup_ends [where w = "(h, w)" and sy = sy and gic = gic and no_ipi = False and lib = lib and pa = pa] t(1) obtain h' w' where
    "platform_cleanup ?pl () (h, w) = Done ((), (h', w'))" "\<not> r5_live h'" by auto
  with t keeps show ?thesis by (simp add: echo_listen_task_def r5_plat_def callw_def)
qed

section \<open>A concrete host\<close>

definition conn_ops :: "(event list list list \<times> (event list list \<times> bytes list)) rpmsg" where
  "conn_ops = on_platform (\<lambda>s. Done (0, s)) script_ops"

definition conn_x :: "(event list list list \<times> (event list list \<times> bytes list)) xlib" where
  "conn_x = (demo_x IPI_CHN_BITMASK)\<lparr>rp_create_virtio := (\<lambda>i role tab (ds, s).
     case ds of [] \<Rightarrow> ((None, tab), (ds, s)) | c # cs \<Rightarrow> ((Some 2, tab), (cs, (c, snd s))))\<rparr>"

lemma conn_reconnects: "reconnects conn_x conn_ops fst (fst \<circ> snd) (snd \<circ> snd)"
  by (auto simp: reconnects_def scripted_def conn_ops_def on_platform_def inner_def script_ops_def conn_x_def demo_x_def
      xlnx_create_vdev_def xlnx_release_vdev_def split: list.splits)

lemma conn_waits: "x_waits (r5_wait conn_x) 2 conn_x up (calm conns script sent)"
  by (auto simp: x_waits_def conn_x_def demo_x_def r5_wait_def reflp_def transp_def IPI_CHN_BITMASK_def intro!: exI [of _ 0])

text \<open>Three connections: all of the first is answered up to the shutdown, and only the first poll of the others.\<close>

theorem echo_task_restarts_witness:
  "\<exists>h v. echo_listen_task 5 (r5_plat Generic demo_gic False conn_x 0x3ED20000) (r5_rpmsg 2 conn_x conn_ops) (\<lparr>shutdown_req = 0\<rparr>, (r5_boot False,
      ([[[Rx 0 (le32 7) 3], [Rx 1 (le32 8) 3], [Rx 2 (le32 SHUTDOWN_MSG) 3]],
        [[Rx 0 (le32 9) 3], [Rx 1 (le32 10) 3]], [[Rx 0 (le32 11) 3], [Rx 1 (le32 12) 3], [Rx 2 (le32 SHUTDOWN_MSG) 3]]], ([], []))))
    = Done ((), (\<lparr>shutdown_req = 1\<rparr>, (h, v))) \<and> \<not> r5_live h \<and> snd (snd v) = [le32 7, le32 8, le32 9, le32 11]"
proof -
  let ?cs = "[[[Rx 0 (le32 9) 3], [Rx 1 (le32 10) 3]], [[Rx 0 (le32 11) 3], [Rx 1 (le32 12) 3], [Rx 2 (le32 SHUTDOWN_MSG) 3]]]"
  let ?v = "([[Rx 0 (le32 7) 3], [Rx 1 (le32 8) 3], [Rx 2 (le32 SHUTDOWN_MSG) 3]] # ?cs, ([], [])) ::
    event list list list \<times> (event list list \<times> bytes list)"
  have f: "r5_fresh (r5_boot False)" by (simp add: r5_fresh_def r5_boot_def)
  from demo_r5_init_with [of _ ?v] obtain g1 where
    i: "r5_platform_init Generic demo_gic False conn_x 0x3ED20000 (r5_boot False, ?v) = Done ((0, Some ()), (g1, ?v))"
    unfolding conn_x_def by blast
  have c: "(snd \<circ> snd) w' = (snd \<circ> snd) w" if "r5_platform_cleanup False conn_x (h, w) = Done ((), (h', w'))" for h w h' w'
    using that by (auto simp: r5_platform_cleanup_def r5_remoteproc_remove_def r5_proc_remove_def xlnx_machine_cleanup_def
        r5_free_resource_table_def conn_x_def demo_x_def obind_eq_Done_iff split: if_splits heap_ptr.splits)
  show ?thesis
    using echo_task_restarts [where bs = "[[Rx 0 (le32 7) 3], [Rx 1 (le32 8) 3]]" and b = "[Rx 2 (le32 SHUTDOWN_MSG) 3]" and rest = "[]"
        and cs = ?cs and n = 5 and g = "\<lparr>shutdown_req = 0\<rparr>", OF conn_reconnects conn_waits f i _ _ _ _ _ _ _ _ _ c]
    by (simp add: get32_hd [of _ "[]", simplified] SHUTDOWN_MSG_def)
qed

end
