(* ===== verification/Spec2Isabelle.thy ===== *)
theory Spec2Isabelle
  imports Matrix_Demo Echo_Sample Echo_Nocopy Rpc_Linux Platform_Linux Shmem_Fifo Freertos_Port
    Platform_R5 Platform_Zynqmp Platform_Microblaze Zephyr_Services Zephyr_Ivshmem Load_Fw Linux_Proxy
    Rpc_System Rpc_Run Proxy_Run Echo_Flood Nocopy_Host Board_Log Demo_System Load_Protocol Linux_Start
    Echo_Restart
begin

text \<open>
  Verification of the OpenAMP system reference: the demonstration programs for asymmetric multiprocessing under
  \<open>src/examples\<close>.  A host (Linux, Zephyr or bare metal) and a remote processor exchange messages over RPMsg, or share
  memory through libmetal, or one of them starts the other.  The programs are written in C; paths below are relative to
  \<open>src/examples\<close>.

  \<^bold>\<open>The parts and how they interact.\<close>
  An application of \<open>legacy_apps/examples\<close> or \<open>legacy_apps/tests\<close> (echo, ping, matrix multiplication, zero-copy echo,
  system-call proxy, RPC demo) is a set of globals, an RPMsg callback and an application function that polls; its \<open>main\<close>
  takes a platform up, creates an RPMsg device, runs the application and takes the platform down.  The platform is one of
  four implementations of the same five functions (\<open>legacy_apps/include/platform_info_common.h\<close>): two Linux processes with a
  socket, the R5 remote, Linux on the A53 with an R5, a MicroBlaze remote.  The programs of \<open>linux\<close> talk to the same remotes through the RPMsg character
  device of the kernel.  \<open>libmetal\<close> has a demonstration of its own, a host and a remote that exchange 1024 messages through
  shared memory and interrupts.  \<open>zephyr\<close> has a remote with three services in four threads, and a host and a remote over inter-VM shared memory.
  \<open>legacy_apps/examples/load_fw\<close> loads and starts the firmware of another processor.

  \<^bold>\<open>How C is modelled\<close> (\<open>Amp_Prelude\<close>).
  A program is a function from the state, a pair of the globals of its file and the outside world, to an \<open>outcome\<close>: \<open>Done\<close> with a
  result and the new state, \<open>Fault\<close> where C has undefined behaviour or an assertion fails (out of bounds, null pointer,
  uninitialised variable, use after free), or \<open>Blocked\<close> when a loop has not ended within its fuel.  Integers have the width of the source (\<open>byte\<close>,
  \<open>u32\<close>, \<open>u64\<close>, or \<open>int\<close> with \<open>to_int32\<close> where a signed number could leave its range); structures in messages are byte strings with the
  offsets of the C layout (little endian).  Loops are \<open>iter\<close>, \<open>while_loop\<close> and \<open>do_while\<close> with fuel, and more fuel never changes a
  result (\<open>fuel_mono\<close>); a property that says a program returns gives \<open>Done\<close> for every fuel above a stated bound, which is the number of polls, attempts
  or messages that the situation allows.  Loops over an array are \<open>for_range\<close>.

  \<^bold>\<open>Libraries are parameters.\<close>
  OpenAMP, libmetal, the board support package, FreeRTOS, Zephyr, the Linux kernel and the C library's input and output are not in the repository.  Each
  theory has a record with one field per call that the code makes; the laws that a property needs are hypotheses, each with a
  concrete instance in a witness.
  \<^item> RPMsg (\<open>Rpmsg_Api\<close>): \<open>peer_link\<close>, messages arrive once, unchanged and in order, after a bounded number of empty notifications;
    \<open>scripted\<close>, a peer with a fixed list of notifications; \<open>ownership\<close> of held buffers (\<open>Echo_Nocopy\<close>); \<open>flood_link\<close> (\<open>Echo_Flood\<close>), a
    link with a bounded number of buffers that refuses a message when they are in use; \<open>buffer_link\<close> (\<open>Nocopy_Host\<close>), a peer link
    that keeps account of held buffers; \<open>rpc_link\<close> (\<open>Rpc_System\<close>), a request reaches the server and its answers come back in order.
  \<^item> \<open>linux_waits\<close>, \<open>x_waits\<close> (\<open>Demo_System\<close>): what \<open>platform_poll\<close> calls changes nothing that the application sees, and a notification comes in;
    \<open>reconnects\<close> (\<open>Echo_Restart\<close>): the creation of a device waits for the next connection of the host, and fails when there is none left;
    \<open>records\<close> (\<open>Load_Protocol\<close>): the calls of remoteproc return, with results of any kind; \<open>channel_tree\<close>, \<open>file_laws\<close> (\<open>Linux_Start\<close>): the
    devices below \<open>/sys\<close> and the open files.
  \<^item> \<open>posix_read\<close> (\<open>Rpc_Service\<close>), \<open>acts_on\<close>, \<open>delivers\<close>, \<open>apart\<close> (\<open>Rpc_Run\<close>), \<open>endpoint_file\<close> (\<open>Proxy_Run\<close>): what POSIX calls do to
    files, and where messages come from; \<open>resource_lib\<close>, \<open>device_laws\<close>, \<open>heap_laws\<close>: an allocator, a device table; opened and
    closed in pairs.
  \<^item> \<open>shm_system\<close> (\<open>Shmem_Protocol\<close>): the regions of both sides are windows of one memory, in the layout of the two configurations.
  \<^item> \<open>rtos_laws\<close> (\<open>Freertos_Port\<close>): \<open>vTaskSuspend\<close> stops the running task whatever came before, \<open>xTaskResumeFromISR\<close> lets a suspended
    task run and changes nothing for a running one.
  \<^item> \<open>loads_plan\<close>, \<open>plan_ok\<close> (\<open>Load_Fw\<close>): the loader of OpenAMP hands out finitely many chunks that do not overlap.
  \<^item> \<open>zephyr_laws\<close>, \<open>iv_link\<close>, \<open>answers\<close>: a destroyed endpoint is off its device; messages fit; what is written is answered.
  \<^item> The functions of OpenAMP that call back into the repository (\<open>remoteproc_init\<close>, \<open>remoteproc_remove\<close>, \<open>remoteproc_mmap\<close>) are
    composed with the operations of the file as OpenAMP documents it: the \<open>init\<close> operation is called once, the \<open>remove\<close> operation by
    the removal, and the region of a mapping is passed on.

  \<^bold>\<open>Theories.\<close>
  \<^item> \<open>Rpmsg_Api\<close>, \<open>App_Main\<close>: the library calls, \<open>poll\<close>, \<open>serve\<close>; the shapes of \<open>main\<close> (stand-alone, generic, FreeRTOS task); the locales
    \<open>service\<close> (a callback that implements a step function serves a whole script) and \<open>platform_contract\<close> (what a main needs of a platform).
    \<open>service\<close> is interpreted by the echo, update, sample and matrix services, \<open>platform_contract\<close> by the three platforms below that keep state.
  \<^item> \<open>Echo_Service\<close>, \<open>Echo_Client\<close>, \<open>Echo_Sample\<close>, \<open>Echo_Nocopy\<close>: \<open>examples/echo\<close>, \<open>examples/rpmsg_sample_echo\<close>, \<open>examples/nocopy_echo\<close>,
    \<open>tests/msg\<close>.  The services answer every message in order and stop when they are told; the hosts count no error against them; the buffer of an answered message is released.
  \<^item> \<open>Echo_Flood\<close>, \<open>Nocopy_Host\<close>: the flood host over an echoing link with bounded buffers, all packages of all sizes; the zero-copy
    host against the echo service, with the receive buffers it holds and gives back.
  \<^item> \<open>Matrix_Core\<close>, \<open>Matrix_Demo\<close>: \<open>examples/matrix_multiply\<close>.  Both multiplications equal the matrix product modulo \<open>2 ^ 32\<close> and leave the arrays for all
    other sizes; generated products are exact; host and service finish 200 rounds without an error.
  \<^item> \<open>Rpc_Service\<close>, \<open>Rpc_Linux\<close>, \<open>Linux_Proxy\<close>: \<open>examples/rpc_demo\<close>, \<open>linux/rpmsg-proxy-app\<close>, \<open>examples/linux_rpc_demo\<close>.  \<open>rpc_effect\<close> says what
    a request stands for; the locale \<open>rpc_handler\<close>, interpreted by the eight handlers, that this is what they do; messages that are no request are
    counted, malformed ones run out of the buffer, requests survive the trip.
  \<^item> \<open>Rpc_Run\<close>, \<open>Proxy_Run\<close>: the two proxies from the first call to the last.  A session of requests is the same session of calls on the files.
  \<^item> \<open>Rpc_System\<close>: client and server of \<open>examples/linux_rpc_demo\<close> composed over a link: sessions of calls on remote files are equivalent to the same calls on the files themselves.
  \<^item> \<open>Kick_Poll\<close>, \<open>Platform_Linux\<close>, \<open>Platform_R5\<close>, \<open>Platform_Zynqmp\<close>, \<open>Platform_Microblaze\<close>: \<open>system/linux/machine/generic\<close>,
    \<open>machine/xlnx/zynqmp_r5\<close>, \<open>machine/xlnx/zynqmp\<close> with \<open>system/linux/machine/zynqmp\<close>, \<open>machine/xlnx/microblaze_generic\<close>.  The locale
    \<open>kick_wait\<close> is the flag that \<open>platform_poll\<close> shares with an interrupt handler: no notification is lost.  Devices and memory are balanced on every path, except for the polling memory of the A53, whose leaks are stated; the resource
    table of the R5 is restored on a restart; the mains return on every path when the copy of it can be allocated and the application returns.
  \<^item> \<open>Demo_System\<close>: whole programs on whole platforms.  \<open>on_platform\<close> puts the calls of OpenAMP above the \<open>platform_poll\<close> of a platform; the locale
    \<open>polling\<close>, interpreted by the Linux platform, the R5 and the A53, carries a link or a scripted peer over; ping on Linux, the echo service on the
    R5 and the matrix demo on the A53 run from \<open>platform_init\<close> to \<open>platform_cleanup\<close>.
  \<^item> \<open>Echo_Restart\<close>: the FreeRTOS task of the echo service on the R5 with a host that connects several times: only the first connection is served in full.
  \<^item> \<open>Shmem_Demo\<close>, \<open>Shmem_Protocol\<close>, \<open>Shmem_Fifo\<close>, \<open>Shmem_Platform\<close>, \<open>Freertos_Port\<close>: \<open>libmetal/demos/irq_shmem_demo\<close> and \<open>libmetal/machine\<close>, with \<open>system/*/suspend.c\<close>.  The two
    programs as definitions per loop body, their interleaving as the step relation \<open>sys_step\<close> with an invariant, safety, absence of deadlock, a bound on the
    length of every run, and a refinement to two queues (\<open>fifo_step\<close>); the set-up of both sides; the board functions; and \<open>ft_step\<close>, the
    same system with a remote that is a FreeRTOS task, which can lose a wake-up; the kernel is a parameter (\<open>rtos\<close>).
  \<^item> \<open>Zephyr_Services\<close>, \<open>Zephyr_Ivshmem\<close>: \<open>zephyr/rpmsg_multi_services\<close>, \<open>zephyr/dual_qemu_ivshmem\<close>.  The threads of the first as segments between waits, their
    interleaving as \<open>ms_step\<close> with an invariant under which no thread faults; the layout of the shared memory, the send command and its loop.
  \<^item> \<open>Load_Fw\<close>: \<open>examples/load_fw\<close>.  The life cycle operations of three kinds of target behind the locale \<open>lcm_target\<close>, the image store, both ways of loading, \<open>main\<close>.
  \<^item> \<open>Load_Protocol\<close>: the life cycle of a target as a state machine (\<open>rp_step\<close>); every run of the loader follows it, whichever
    initialisation, load, start or stop fails, as long as no shutdown does; the build for Linux ends by removing a target that runs.
  \<^item> \<open>Board_Log\<close>: the log handlers of the boards, and the statistics of \<open>amd_linux_userspace/common.h\<close>.
  \<^item> \<open>Linux_Rpmsg\<close>: \<open>linux/common\<close>, \<open>linux/rpmsg-echo-test\<close>, \<open>linux/rpmsg-mat-mul\<close>, \<open>linux/rpmsg-utils\<close>.
  \<^item> \<open>Linux_Start\<close>: the start of these programs over a tree of devices, and the echo test and the matrix demo from the first call to the last, against the two services.

  \<^bold>\<open>Granularity of the interleavings.\<close>
  A step of \<open>sys_step\<close> and \<open>ft_step\<close> handles one message, or one read of the number of messages, with its final kick; the two
  sides write disjoint parts of the memory except for the two counters, each of which has one writer and is written last.  The interrupt handler of the other side runs with the kick.
  A step of \<open>ms_step\<close> runs a thread from one wait on a semaphore to the next: the threads of the Zephyr remote are cooperative, and a
  transmit buffer is available when one is asked for.  The callbacks run in the management thread.

  \<^bold>\<open>Not modelled\<close>: help texts and other output, except where a program prints a result; caches and barriers beyond the calls themselves; time stamps beyond the calls
  that read them; headers that only declare; build files, linker scripts, device trees.

  \<^bold>\<open>Limits.\<close>
  \<open>Demo_System\<close> runs the mains of the ping host, the echo service and the matrix host on one platform each, and \<open>Echo_Restart\<close> the FreeRTOS
  task of the echo service.  The mains of the other programs are modelled, and their applications verified over the calls of OpenAMP, but
  they are not put on a platform.
\<close>

end
